(* ===== verification/Prelude.thy ===== *)
theory Prelude
  imports Main "HOL-Library.Word"
begin

text \<open>
  Vocabulary shared by all component theories: the C++ character classes on bytes, the integer
  parsers and printers of the standard library (\<open>std::from_chars\<close>, \<open>std::stoi\<close>,
  \<open>std::to_string\<close>), ranges of machine integers, and generic list lemmas.
  A \<open>std::string\<close> is a HOL \<open>string\<close>: a list of 8-bit characters.
\<close>

section \<open>Collections used by the component proofs\<close>

named_theorems char_class \<open>definitions of the C character classes\<close>
named_theorems parse_defs \<open>definitions of the integer parsers\<close>

section \<open>Characters\<close>

abbreviation code_of :: "char \<Rightarrow> nat" where
  "code_of c \<equiv> of_char c"

definition is_space :: "char \<Rightarrow> bool" where
  "is_space c \<longleftrightarrow> code_of c = 32 \<or> (9 \<le> code_of c \<and> code_of c \<le> 13)"

definition is_digit :: "char \<Rightarrow> bool" where
  "is_digit c \<longleftrightarrow> 48 \<le> code_of c \<and> code_of c \<le> 57"

definition is_upper :: "char \<Rightarrow> bool" where
  "is_upper c \<longleftrightarrow> 65 \<le> code_of c \<and> code_of c \<le> 90"

definition is_lower :: "char \<Rightarrow> bool" where
  "is_lower c \<longleftrightarrow> 97 \<le> code_of c \<and> code_of c \<le> 122"

definition is_alnum :: "char \<Rightarrow> bool" where
  "is_alnum c \<longleftrightarrow> is_upper c \<or> is_lower c \<or> is_digit c"

definition is_xdigit :: "char \<Rightarrow> bool" where
  "is_xdigit c \<longleftrightarrow> is_digit c \<or> (65 \<le> code_of c \<and> code_of c \<le> 70)
     \<or> (97 \<le> code_of c \<and> code_of c \<le> 102)"

lemmas char_class_defs [char_class] =
  is_space_def is_digit_def is_upper_def is_lower_def is_alnum_def is_xdigit_def

text \<open>\<open>std::tolower\<close> in the C locale.\<close>

definition lower_char :: "char \<Rightarrow> char" where
  "lower_char c = (if is_upper c then char_of (code_of c + 32) else c)"

lemma code_of_less [simp]: "code_of c < 256"
  by (cases c) (simp add: of_char_def horner_sum_simps split: if_splits)

lemma code_of_eq_iff: "code_of c = code_of d \<longleftrightarrow> c = d"
  by (rule of_char_eq_iff)

lemma code_of_char_of: "n < 256 \<Longrightarrow> code_of (char_of n) = n"
  by simp

section \<open>Machine integers\<close>

abbreviation i32_min :: int where "i32_min \<equiv> -2147483648"
abbreviation i32_max :: int where "i32_max \<equiv> 2147483647"
abbreviation i64_min :: int where "i64_min \<equiv> -9223372036854775808"
abbreviation i64_max :: int where "i64_max \<equiv> 9223372036854775807"

definition fits :: "int \<Rightarrow> int \<Rightarrow> int \<Rightarrow> bool" where
  "fits lo hi v \<longleftrightarrow> lo \<le> v \<and> v \<le> hi"

section \<open>Decimal digits\<close>

definition digit_char :: "nat \<Rightarrow> char" where
  "digit_char d = char_of (48 + d)"

fun nat_str :: "nat \<Rightarrow> string" where
  "nat_str n = (if n < 10 then [digit_char n] else nat_str (n div 10) @ [digit_char (n mod 10)])"

declare nat_str.simps [simp del]

definition digits_val :: "string \<Rightarrow> nat" where
  "digits_val s = foldl (\<lambda>a c. 10 * a + (code_of c - 48)) 0 s"

text \<open>\<open>std::to_string\<close> of a signed integer.\<close>

definition int_str :: "int \<Rightarrow> string" where
  "int_str i = (if i < 0 then CHR ''-'' # nat_str (nat (- i)) else nat_str (nat i))"

lemma code_digit_char [simp]: "d < 10 \<Longrightarrow> code_of (digit_char d) = 48 + d"
  by (simp add: digit_char_def)

lemma is_digit_digit_char [simp]: "d < 10 \<Longrightarrow> is_digit (digit_char d)"
  by (simp add: is_digit_def)

lemma digits_val_snoc [simp]:
  "digits_val (s @ [c]) = 10 * digits_val s + (code_of c - 48)"
  by (simp add: digits_val_def)

lemma digits_val_Nil [simp]: "digits_val [] = 0"
  by (simp add: digits_val_def)

lemma nat_str_nonempty [simp]: "nat_str n \<noteq> []"
  by (subst nat_str.simps) simp

lemma nat_str_digits: "c \<in> set (nat_str n) \<Longrightarrow> is_digit c"
proof (induction n rule: nat_str.induct)
  case (1 n)
  then show ?case
    by (subst (asm) nat_str.simps) (auto split: if_splits)
qed

lemma digits_val_nat_str [simp]: "digits_val (nat_str n) = n"
proof (induction n rule: nat_str.induct)
  case (1 n)
  show ?case
  proof (cases "n < 10")
    case True
    then show ?thesis
      by (subst nat_str.simps) (simp add: digits_val_def)
  next
    case False
    with "1.IH" show ?thesis
      by (subst nat_str.simps) simp
  qed
qed

lemma takeWhile_all_digits: "(\<And>c. c \<in> set s \<Longrightarrow> P c) \<Longrightarrow> takeWhile P s = s"
  by (simp add: takeWhile_eq_all_conv)

lemma dropWhile_all_digits: "(\<And>c. c \<in> set s \<Longrightarrow> P c) \<Longrightarrow> dropWhile P s = []"
  by (simp add: dropWhile_eq_Nil_conv)

section \<open>The integer parsers of the standard library\<close>

datatype parse_error = InvalidArgument | OutOfRange

text \<open>
  \<open>std::from_chars\<close> in base 10: an optional minus sign, then digits (no white space, no
  plus sign). The result is the value and the unread rest of the input.
\<close>

definition from_chars :: "int \<Rightarrow> int \<Rightarrow> string \<Rightarrow> parse_error + int \<times> string" where
  "from_chars lo hi s =
     (let neg = (case s of c # _ \<Rightarrow> c = CHR ''-'' | [] \<Rightarrow> False);
          t = (if neg then tl s else s);
          ds = takeWhile is_digit t;
          v = (if neg then - int (digits_val ds) else int (digits_val ds))
      in if ds = [] then Inl InvalidArgument
         else if fits lo hi v then Inr (v, dropWhile is_digit t)
         else Inl OutOfRange)"

text \<open>
  \<open>std::stoi\<close> and \<open>std::stoll\<close> (through \<open>strtol\<close>): leading white space is skipped, a sign
  of either kind is read, and what follows the digits is ignored.
\<close>

definition stoi :: "int \<Rightarrow> int \<Rightarrow> string \<Rightarrow> parse_error + int" where
  "stoi lo hi s =
     (let t = dropWhile is_space s;
          neg = (case t of c # _ \<Rightarrow> c = CHR ''-'' | [] \<Rightarrow> False);
          sgn = (case t of c # _ \<Rightarrow> c = CHR ''-'' \<or> c = CHR ''+'' | [] \<Rightarrow> False);
          ds = takeWhile is_digit (if sgn then tl t else t);
          v = (if neg then - int (digits_val ds) else int (digits_val ds))
      in if ds = [] then Inl InvalidArgument
         else if fits lo hi v then Inr v
         else Inl OutOfRange)"

lemmas parser_defs [parse_defs] = from_chars_def stoi_def fits_def Let_def

lemma nat_str_hd_digit: "\<exists>c cs. nat_str n = c # cs \<and> is_digit c"
  using nat_str_nonempty [of n] nat_str_digits [of _ n] by (cases "nat_str n") auto

lemma digit_not_sign: "is_digit c \<Longrightarrow> c \<noteq> CHR ''-'' \<and> c \<noteq> CHR ''+''"
  by (auto simp: is_digit_def)

lemma digit_not_space: "is_digit c \<Longrightarrow> \<not> is_space c"
  by (auto simp: is_digit_def is_space_def)

text \<open>What \<open>std::to_string\<close> prints, both parsers read back.\<close>

lemma from_chars_int_str:
  assumes "fits lo hi i"
  shows "from_chars lo hi (int_str i) = Inr (i, [])"
proof (cases "i < 0")
  case True
  then show ?thesis
    using assms nat_str_digits
    by (simp add: from_chars_def int_str_def takeWhile_all_digits dropWhile_all_digits)
next
  case False
  obtain c cs where c: "nat_str (nat i) = c # cs" "is_digit c"
    using nat_str_hd_digit by blast
  have tw: "takeWhile is_digit (nat_str (nat i)) = nat_str (nat i)"
    and dw: "dropWhile is_digit (nat_str (nat i)) = []"
    by (auto intro: takeWhile_all_digits dropWhile_all_digits nat_str_digits)
  have "(case nat_str (nat i) of [] \<Rightarrow> False | c # _ \<Rightarrow> c = CHR ''-'') = False"
    using c digit_not_sign by auto
  with False assms show ?thesis
    by (simp add: from_chars_def int_str_def tw dw)
qed

lemma stoi_int_str:
  assumes "fits lo hi i"
  shows "stoi lo hi (int_str i) = Inr i"
proof (cases "i < 0")
  case True
  then show ?thesis
    using assms nat_str_digits
    by (simp add: stoi_def int_str_def takeWhile_all_digits is_space_def)
next
  case False
  obtain c cs where c: "nat_str (nat i) = c # cs" "is_digit c"
    using nat_str_hd_digit by blast
  have tw: "takeWhile is_digit (c # cs) = nat_str (nat i)"
    using c(1) by (metis nat_str_digits takeWhile_all_digits)
  have v: "digits_val (takeWhile is_digit (c # cs)) = nat i"
    using tw by simp
  have ne: "takeWhile is_digit (c # cs) \<noteq> []"
    using tw by simp
  show ?thesis
    using False assms c digit_not_sign [OF c(2)] digit_not_space [OF c(2)] v ne
    by (auto simp: stoi_def int_str_def Let_def simp del: takeWhile.simps)
qed

lemma stoi_in_range: "stoi lo hi s = Inr v \<Longrightarrow> fits lo hi v"
  by (auto simp: stoi_def Let_def split: if_splits)

lemma from_chars_in_range: "from_chars lo hi s = Inr (v, r) \<Longrightarrow> fits lo hi v"
  by (auto simp: from_chars_def Let_def split: if_splits)

section \<open>Strings\<close>

text \<open>\<open>std::getline\<close> splitting at a delimiter: every maximal run free of it, empty ones too.\<close>

fun split_on :: "char \<Rightarrow> string \<Rightarrow> string list" where
  "split_on d [] = [[]]"
| "split_on d (c # cs) =
     (if c = d then [] # split_on d cs
      else (case split_on d cs of [] \<Rightarrow> [[c]] | w # ws \<Rightarrow> (c # w) # ws))"

lemma split_on_nonempty [simp]: "split_on d s \<noteq> []"
  by (cases s) (auto split: list.splits)

lemma split_on_unfold:
  "split_on d s = takeWhile (\<lambda>c. c \<noteq> d) s #
     (case dropWhile (\<lambda>c. c \<noteq> d) s of [] \<Rightarrow> [] | _ # r \<Rightarrow> split_on d r)"
  by (induction s) (auto split: list.splits)

definition starts_with :: "string \<Rightarrow> string \<Rightarrow> bool" where
  "starts_with p s \<longleftrightarrow> length p \<le> length s \<and> take (length p) s = p"

lemma starts_with_append [simp]: "starts_with p (p @ s)"
  by (simp add: starts_with_def)

lemma starts_with_iff: "starts_with p s \<longleftrightarrow> (\<exists>r. s = p @ r)"
  by (metis append_eq_conv_conj append_take_drop_id starts_with_def starts_with_append)

end
