(* ===== verification/Json.thy ===== *)
theory Json
  imports Prelude
begin

text \<open>
  JSON values as \<open>nlohmann::json\<close> holds them after parsing, with the accessors the program uses.
  Parsing and printing text is the library's: where a component needs them they are parameters.
\<close>

datatype json =
    JNull
  | JBool bool
  | JInt int
  | JDouble
  | JString string
  | JArray "json list"
  | JObject "(string \<times> json) list"

fun json_get :: "json \<Rightarrow> string \<Rightarrow> json option" where
  "json_get (JObject kvs) k = map_of kvs k"
| "json_get _ k = None"

fun is_json_object :: "json \<Rightarrow> bool" where
  "is_json_object (JObject _) = True"
| "is_json_object _ = False"

fun json_string :: "json \<Rightarrow> string option" where
  "json_string (JString s) = Some s"
| "json_string _ = None"

text \<open>
  \<open>get<int>\<close>: a number is narrowed to 32 bits and a Boolean is 0 or 1. A number with a fraction,
  which the library truncates, is not modelled: it counts as an exception.
\<close>

fun json_int32 :: "json \<Rightarrow> int option" where
  "json_int32 (JInt v) = Some (sint (word_of_int v :: 32 word))"
| "json_int32 (JBool b) = Some (if b then 1 else 0)"
| "json_int32 _ = None"

text \<open>\<open>j.contains(k) && j[k].is_string()\<close>, with the string.\<close>

definition json_string_field :: "json \<Rightarrow> string \<Rightarrow> string option" where
  "json_string_field j k = (case json_get j k of Some v \<Rightarrow> json_string v | None \<Rightarrow> None)"

lemma json_get_object [simp]: "json_get (JObject kvs) = map_of kvs"
  by (rule ext) simp

lemma json_string_field_object [simp]:
  "json_string_field (JObject kvs) k = (case map_of kvs k of Some v \<Rightarrow> json_string v | None \<Rightarrow> None)"
  by (simp add: json_string_field_def)

end
