(* ===== verification/Database.thy ===== *)
theory Database
  imports Json
begin

text \<open>
  The tables of \<open>sqitch/deploy/0001-initial-schema.sql\<close> that access control, messaging and login
  rest on, and the \<open>Database\<close> methods of \<open>db/database.cpp\<close> over them. A table is the list of its
  rows in insertion order; each method is one SQL transaction: \<open>SELECT \<dots> WHERE\<close> is \<open>filter\<close>,
  \<open>UPDATE\<close> is \<open>map\<close>, \<open>DELETE\<close> is \<open>filter\<close> of the complement, \<open>INSERT\<close> appends, and a violated
  foreign key or unique constraint is an error value, as libpqxx throws. Keys the database or
  \<open>random_hex\<close> generates and the time \<open>NOW()\<close> (in microseconds) are arguments. A nullable text
  or key column is a string in which the empty string is NULL, which is how the row readers give
  it to the program. Identifiers are well-formed UUIDs: on anything else PostgreSQL refuses the
  statement before it has an effect.
\<close>

section \<open>Tables\<close>

type_synonym time = int

record user =
  u_id :: string
  u_username :: string
  u_display_name :: string
  u_public_key :: string
  u_role :: string
  u_is_online :: bool
  u_last_seen :: "time option"
  u_created_at :: time
  u_bio :: string
  u_status :: string
  u_avatar_file_id :: string
  u_profile_color :: string
  u_is_banned :: bool
  u_banned_by :: string

record session =
  se_user_id :: string
  se_token :: string
  se_expires_at :: time

record space =
  sp_id :: string
  sp_name :: string
  sp_description :: string
  sp_is_public :: bool
  sp_default_role :: string
  sp_created_by :: string
  sp_created_at :: time
  sp_is_archived :: bool
  sp_avatar_file_id :: string
  sp_profile_color :: string
  sp_is_personal :: bool
  sp_personal_owner_id :: string

record space_member =
  sm_space_id :: string
  sm_user_id :: string
  sm_role :: string

record channel =
  ch_id :: string
  ch_name :: string
  ch_description :: string
  ch_is_direct :: bool
  ch_is_public :: bool
  ch_default_role :: string
  ch_created_by :: string
  ch_created_at :: time
  ch_space_id :: string
  ch_conversation_name :: string
  ch_is_archived :: bool
  ch_default_join :: bool

record channel_member =
  cm_channel_id :: string
  cm_user_id :: string
  cm_role :: string

record message =
  m_id :: string
  m_channel_id :: string
  m_user_id :: string
  m_content :: string
  m_created_at :: time
  m_edited_at :: "time option"
  m_is_deleted :: bool
  m_file_id :: string
  m_file_name :: string
  m_file_size :: int
  m_file_type :: string
  m_reply_to :: string
  m_is_ai_assisted :: bool

record reaction =
  re_message_id :: string
  re_user_id :: string
  re_emoji :: string
  re_created_at :: time

record invite =
  iv_id :: string
  iv_token :: string
  iv_created_by :: string
  iv_used_by :: string
  iv_used_at :: "time option"
  iv_created_at :: time
  iv_expires_at :: time
  iv_max_uses :: int
  iv_use_count :: int

record invite_use =
  iu_invite_id :: string
  iu_used_by :: string
  iu_used_at :: time

record totp_credential =
  tc_user_id :: string
  tc_secret :: string
  tc_verified :: bool
  tc_last_step :: "int option"

record mfa_token =
  mt_id :: string
  mt_user_id :: string
  mt_auth_method :: string
  mt_expires_at :: time

record recovery_token =
  rt_id :: string
  rt_token :: string
  rt_created_by :: string
  rt_for_user_id :: string
  rt_used :: bool
  rt_used_at :: "time option"
  rt_expires_at :: time
  rt_created_at :: time

record recovery_key =
  rk_id :: string
  rk_user_id :: string
  rk_key_hash :: string
  rk_used :: bool

record password_credential =
  pw_user_id :: string
  pw_hash :: string
  pw_created_at :: time

text \<open>Passkeys (\<open>webauthn_credentials\<close>), browser keys, and what links a new device to an account.\<close>

record passkey_credential =
  pk_id :: string
  pk_user_id :: string
  pk_credential_id :: string
  pk_public_key :: string
  pk_sign_count :: int
  pk_device_name :: string
  pk_transports :: string
  pk_created_at :: time

record pki_credential =
  pi_id :: string
  pi_user_id :: string
  pi_public_key :: string
  pi_device_name :: string
  pi_created_at :: time

record webauthn_challenge =
  wc_challenge :: string
  wc_extra_data :: string
  wc_created_at :: time

record device_token =
  dt_id :: string
  dt_user_id :: string
  dt_token :: string
  dt_expires_at :: time
  dt_used :: bool

record wiki_page =
  wp_id :: string
  wp_space_id :: string
  wp_parent_id :: string
  wp_title :: string
  wp_slug :: string
  wp_is_folder :: bool
  wp_content :: string
  wp_content_text :: string
  wp_icon :: string
  wp_cover_image_file_id :: string
  wp_position :: int
  wp_is_deleted :: bool
  wp_created_by :: string
  wp_created_at :: time
  wp_updated_at :: time
  wp_last_edited_by :: string

record wiki_permission =
  wk_id :: string
  wk_space_id :: string
  wk_user_id :: string
  wk_permission :: string
  wk_granted_by :: string
  wk_created_at :: time

record wiki_page_permission =
  wpp_id :: string
  wpp_page_id :: string
  wpp_user_id :: string
  wpp_permission :: string
  wpp_granted_by :: string
  wpp_created_at :: time

record wiki_page_version =
  wv_id :: string
  wv_page_id :: string
  wv_version_number :: int
  wv_title :: string
  wv_content :: string
  wv_content_text :: string
  wv_is_major :: bool
  wv_edited_by :: string
  wv_created_at :: time

record mention =
  me_message_id :: string
  me_channel_id :: string
  me_mentioned_user_id :: string
  me_is_channel_mention :: bool

record notification =
  nt_id :: string
  nt_user_id :: string
  nt_type :: string
  nt_source_user_id :: string
  nt_channel_id :: string
  nt_message_id :: string
  nt_content :: string
  nt_is_read :: bool
  nt_created_at :: time

record read_state =
  rs_channel_id :: string
  rs_user_id :: string
  rs_last_read_at :: time
  rs_last_read_message_id :: string

record space_tool =
  st_space_id :: string
  st_tool_name :: string
  st_enabled_by :: string

record space_invite =
  si_id :: string
  si_space_id :: string
  si_invited_user_id :: string
  si_invited_by :: string
  si_role :: string
  si_status :: string
  si_created_at :: time

text \<open>The rows of \<open>calendar_permissions\<close> and \<open>task_board_permissions\<close>.\<close>

record tool_permission =
  tp_id :: string
  tp_space_id :: string
  tp_user_id :: string
  tp_permission :: string
  tp_granted_by :: string
  tp_created_at :: time

record join_request =
  jr_id :: string
  jr_username :: string
  jr_display_name :: string
  jr_public_key :: string
  jr_status :: string
  jr_auth_method :: string
  jr_credential_data :: string
  jr_session_token :: string
  jr_reviewed_by :: string
  jr_created_at :: time

record user_setting =
  ut_user_id :: string
  ut_key :: string
  ut_value :: string

record upload_session =
  us_upload_id :: string
  us_user_id :: string
  us_total_size :: int
  us_chunk_count :: int
  us_chunk_size :: int
  us_received_chunks :: "int list"
  us_metadata :: json
  us_storage_state :: json
  us_created_at :: time

text \<open>NULL is the empty string, but None in \<open>tool_source\<close>.\<close>

record space_file =
  sf_id :: string
  sf_space_id :: string
  sf_parent_id :: string
  sf_name :: string
  sf_is_folder :: bool
  sf_disk_file_id :: string
  sf_file_size :: int
  sf_mime_type :: string
  sf_created_by :: string
  sf_created_at :: time
  sf_updated_at :: time
  sf_is_deleted :: bool
  sf_tool_source :: "string option"

record space_file_version =
  sv_id :: string
  sv_file_id :: string
  sv_version_number :: int
  sv_disk_file_id :: string
  sv_file_size :: int
  sv_mime_type :: string
  sv_uploaded_by :: string
  sv_created_at :: time

record space_file_permission =
  fp_file_id :: string
  fp_user_id :: string
  fp_permission :: string
  fp_granted_by :: string

record db =
  users :: "user list"
  sessions :: "session list"
  spaces :: "space list"
  space_members :: "space_member list"
  channels :: "channel list"
  channel_members :: "channel_member list"
  messages :: "message list"
  reactions :: "reaction list"
  mentions :: "mention list"
  notifications :: "notification list"
  read_states :: "read_state list"
  settings :: "(string \<times> string) list"
  invite_tokens :: "invite list"
  invite_uses :: "invite_use list"
  totp_credentials :: "totp_credential list"
  mfa_pending_tokens :: "mfa_token list"
  recovery_tokens :: "recovery_token list"
  recovery_keys :: "recovery_key list"
  wiki_pages :: "wiki_page list"
  wiki_permissions :: "wiki_permission list"
  wiki_page_permissions :: "wiki_page_permission list"
  wiki_page_versions :: "wiki_page_version list"
  space_tools :: "space_tool list"
  password_credentials :: "password_credential list"
  password_history :: "password_credential list"
  webauthn_credentials :: "passkey_credential list"
  pki_credentials :: "pki_credential list"
  upload_sessions :: "upload_session list"
  space_files :: "space_file list"
  space_file_versions :: "space_file_version list"
  space_file_permissions :: "space_file_permission list"
  space_invites :: "space_invite list"
  calendar_permissions :: "tool_permission list"
  task_board_permissions :: "tool_permission list"
  join_requests :: "join_request list"
  user_settings :: "user_setting list"
  webauthn_challenges :: "webauthn_challenge list"
  device_tokens :: "device_token list"

datatype db_error = ForeignKeyViolation | UniqueViolation | Runtime string

text \<open>\<open>r.empty()\<close> and \<open>r[0]\<close> of a query result.\<close>

definition first_row :: "'a list \<Rightarrow> 'a option" where
  "first_row r = (case r of [] \<Rightarrow> None | x # _ \<Rightarrow> Some x)"

definition has_key :: "('r \<Rightarrow> string) \<Rightarrow> string \<Rightarrow> 'r list \<Rightarrow> bool" where
  "has_key key k rows = list_ex (\<lambda>r. key r = k) rows"

text \<open>A nullable reference is satisfied by NULL.\<close>

definition ref_ok :: "('r \<Rightarrow> string) \<Rightarrow> string \<Rightarrow> 'r list \<Rightarrow> bool" where
  "ref_ok key k rows \<longleftrightarrow> k = [] \<or> has_key key k rows"

text \<open>A \<open>character varying(n)\<close> counts UTF-8 characters, not bytes.\<close>

definition varchar_ok :: "nat \<Rightarrow> string \<Rightarrow> bool" where
  "varchar_ok n s \<longleftrightarrow> length (filter (\<lambda>c. code_of c < 128 \<or> 192 \<le> code_of c) s) \<le> n"

definition too_long :: db_error where
  "too_long = Runtime ''value too long for type character varying''"

definition hours :: "int \<Rightarrow> time" where "hours h = h * 3600000000"

section \<open>Users\<close>

definition find_user_by_id :: "db \<Rightarrow> string \<Rightarrow> user option" where
  "find_user_by_id d i = first_row (filter (\<lambda>u. u_id u = i) (users d))"

definition find_user_by_username :: "db \<Rightarrow> string \<Rightarrow> user option" where
  "find_user_by_username d n = first_row (filter (\<lambda>u. u_username u = n) (users d))"

text \<open>\<open>new_id\<close> is the generated primary key. The row in \<open>user_keys\<close> is not modelled.\<close>

definition create_user ::
  "db \<Rightarrow> string \<Rightarrow> time \<Rightarrow> string \<Rightarrow> string \<Rightarrow> string \<Rightarrow> string \<Rightarrow> db_error + user \<times> db" where
  "create_user d new_id now username display_name public_key role =
     (let u = \<lparr>u_id = new_id, u_username = username, u_display_name = display_name,
               u_public_key = public_key, u_role = role, u_is_online = False, u_last_seen = None,
               u_created_at = now, u_bio = '''', u_status = '''', u_avatar_file_id = '''',
               u_profile_color = '''', u_is_banned = False, u_banned_by = ''''\<rparr>
      in if has_key u_id new_id (users d) \<or> has_key u_username username (users d)
         then Inl UniqueViolation
         else Inr (u, d\<lparr>users := users d @ [u]\<rparr>))"

definition update_user :: "string \<Rightarrow> (user \<Rightarrow> user) \<Rightarrow> db \<Rightarrow> db" where
  "update_user i f d = d\<lparr>users := map (\<lambda>u. if u_id u = i then f u else u) (users d)\<rparr>"

definition set_all_users_offline :: "db \<Rightarrow> db" where
  "set_all_users_offline d =
     d\<lparr>users := map (\<lambda>u. if u_is_online u then u\<lparr>u_is_online := False\<rparr> else u) (users d)\<rparr>"

definition set_user_online :: "db \<Rightarrow> time \<Rightarrow> string \<Rightarrow> bool \<Rightarrow> db" where
  "set_user_online d now i online =
     (if online then update_user i (\<lambda>u. u\<lparr>u_is_online := True\<rparr>) d
      else update_user i (\<lambda>u. u\<lparr>u_is_online := False, u_last_seen := Some now\<rparr>) d)"

definition count_users :: "db \<Rightarrow> int" where
  "count_users d = int (length (users d))"

definition count_users_with_role :: "db \<Rightarrow> string \<Rightarrow> int" where
  "count_users_with_role d role = int (length (filter (\<lambda>u. u_role u = role) (users d)))"

definition update_user_role :: "db \<Rightarrow> string \<Rightarrow> string \<Rightarrow> db" where
  "update_user_role d i role = update_user i (\<lambda>u. u\<lparr>u_role := role\<rparr>) d"

definition ban_user :: "db \<Rightarrow> string \<Rightarrow> string \<Rightarrow> db" where
  "ban_user d i banned_by =
     (let d1 = update_user i (\<lambda>u. u\<lparr>u_is_banned := True, u_banned_by := banned_by\<rparr>) d
      in d1\<lparr>sessions := filter (\<lambda>s. se_user_id s \<noteq> i) (sessions d1)\<rparr>)"

definition unban_user :: "db \<Rightarrow> string \<Rightarrow> db" where
  "unban_user d i = update_user i (\<lambda>u. u\<lparr>u_is_banned := False, u_banned_by := ''''\<rparr>) d"

section \<open>Sessions\<close>

definition create_session :: "db \<Rightarrow> string \<Rightarrow> time \<Rightarrow> string \<Rightarrow> int \<Rightarrow> db_error + string \<times> db" where
  "create_session d token now user_id expiry_hours =
     (if \<not> ref_ok u_id user_id (users d) then Inl ForeignKeyViolation
      else if has_key se_token token (sessions d) then Inl UniqueViolation
      else Inr (token, d\<lparr>sessions := sessions d @
        [\<lparr>se_user_id = user_id, se_token = token, se_expires_at = now + hours expiry_hours\<rparr>]\<rparr>))"

definition validate_session :: "db \<Rightarrow> time \<Rightarrow> string \<Rightarrow> string option" where
  "validate_session d now token =
     map_option se_user_id (first_row (filter (\<lambda>s.
        se_token s = token \<and> se_expires_at s > now
        \<and> list_ex (\<lambda>u. u_id u = se_user_id s \<and> \<not> u_is_banned u) (users d)) (sessions d)))"

definition delete_session :: "db \<Rightarrow> string \<Rightarrow> db" where
  "delete_session d token = d\<lparr>sessions := filter (\<lambda>s. se_token s \<noteq> token) (sessions d)\<rparr>"

section \<open>Settings\<close>

definition get_setting :: "db \<Rightarrow> string \<Rightarrow> string option" where
  "get_setting d k = map_of (settings d) k"

definition set_setting :: "db \<Rightarrow> string \<Rightarrow> string \<Rightarrow> db" where
  "set_setting d k v =
     (if list_ex (\<lambda>p. fst p = k) (settings d)
      then d\<lparr>settings := map (\<lambda>p. if fst p = k then (k, v) else p) (settings d)\<rparr>
      else d\<lparr>settings := settings d @ [(k, v)]\<rparr>)"

definition is_server_archived :: "db \<Rightarrow> bool" where
  "is_server_archived d = (get_setting d ''server_archived'' = Some ''true'')"

definition set_server_archived :: "db \<Rightarrow> bool \<Rightarrow> db" where
  "set_server_archived d b = set_setting d ''server_archived'' (if b then ''true'' else ''false'')"

definition is_server_locked_down :: "db \<Rightarrow> bool" where
  "is_server_locked_down d = (get_setting d ''server_locked_down'' = Some ''true'')"

definition set_server_locked_down :: "db \<Rightarrow> bool \<Rightarrow> db" where
  "set_server_locked_down d b =
     set_setting d ''server_locked_down'' (if b then ''true'' else ''false'')"

section \<open>Lemmas on queries\<close>

lemma first_row_Some: "first_row xs = Some x \<Longrightarrow> x \<in> set xs"
  by (auto simp: first_row_def split: list.splits)

lemma first_row_None [simp]: "first_row xs = None \<longleftrightarrow> xs = []"
  by (auto simp: first_row_def split: list.splits)

lemma first_row_filter_Some: "first_row (filter P xs) = Some x \<Longrightarrow> x \<in> set xs \<and> P x"
  using first_row_Some by fastforce

lemma first_row_map: "first_row (map f xs) = map_option f (first_row xs)"
  by (auto simp: first_row_def split: list.splits)

lemma first_row_snoc: "first_row (xs @ [x]) = Some (case first_row xs of None \<Rightarrow> x | Some y \<Rightarrow> y)"
  by (auto simp: first_row_def split: list.splits)

lemma has_key_iff: "has_key key k rows \<longleftrightarrow> k \<in> key ` set rows"
  by (auto simp: has_key_def list_ex_iff)

lemma first_row_filter_snoc:
  "first_row (filter P (xs @ [x])) =
     (case first_row (filter P xs) of Some y \<Rightarrow> Some y | None \<Rightarrow> if P x then Some x else None)"
  by (auto simp: first_row_def split: list.splits)

lemma first_row_filter_conj:
  "first_row (filter P xs) = Some x \<Longrightarrow> Q x \<Longrightarrow> first_row (filter (\<lambda>s. Q s \<and> P s) xs) = Some x"
  by (induction xs) (auto simp: first_row_def split: if_splits list.splits)

text \<open>An update that does not change what a query selects on commutes with the query.\<close>

lemma first_row_filter_map:
  "(\<And>x. P (f x) = P x) \<Longrightarrow> first_row (filter P (map f xs)) = map_option f (first_row (filter P xs))"
  by (simp add: filter_map comp_def first_row_map)

lemma first_row_filter_filter:
  "(\<And>x. P x \<Longrightarrow> Q x) \<Longrightarrow> first_row (filter P (filter Q xs)) = first_row (filter P xs)"
proof -
  assume "\<And>x. P x \<Longrightarrow> Q x"
  then have "(\<lambda>x. Q x \<and> P x) = P" by auto
  then show ?thesis by simp
qed

lemma find_user_update:
  "(\<And>u. u_id (f u) = u_id u) \<Longrightarrow>
     find_user_by_id (update_user i f d) j =
       map_option (\<lambda>u. if u_id u = i then f u else u) (find_user_by_id d j)"
  by (simp add: find_user_by_id_def update_user_def first_row_filter_map)

lemma find_user_by_id_id: "find_user_by_id d i = Some u \<Longrightarrow> u_id u = i \<and> u \<in> set (users d)"
  by (auto simp: find_user_by_id_def dest!: first_row_filter_Some)

section \<open>Sessions and bans\<close>

lemma validate_session_sound:
  "validate_session d now token = Some i \<Longrightarrow>
     (\<exists>s \<in> set (sessions d). se_token s = token \<and> se_user_id s = i \<and> se_expires_at s > now)
     \<and> (\<exists>u \<in> set (users d). u_id u = i \<and> \<not> u_is_banned u)"
  by (auto simp: validate_session_def list_ex_iff dest!: first_row_filter_Some)

lemma validate_after_create:
  assumes "create_session d token now i h = Inr (t, d')" and "h > 0" and "now \<le> t1"
    and "t1 < now + hours h"
  shows "validate_session d' t1 token =
     (if list_ex (\<lambda>u. u_id u = i \<and> \<not> u_is_banned u) (users d) then Some i else None)"
proof -
  have fresh: "filter (\<lambda>s. se_token s = token \<and> Q s) (sessions d) = []" for Q
    using assms(1) by (auto simp: create_session_def has_key_iff filter_empty_conv split: if_splits)
  have "d' = d\<lparr>sessions := sessions d @
      [\<lparr>se_user_id = i, se_token = token, se_expires_at = now + hours h\<rparr>]\<rparr>"
    using assms(1) by (auto simp: create_session_def split: if_splits)
  then show ?thesis
    using assms(4) fresh by (simp add: validate_session_def first_row_def)
qed

lemma ban_kills_sessions:
  "se \<in> set (sessions (ban_user d i by_whom)) \<Longrightarrow> se_user_id se \<noteq> i"
  by (simp add: ban_user_def Let_def)

lemma validate_ban_other:
  assumes "validate_session d now token = Some j" and "j \<noteq> i"
  shows "validate_session (ban_user d i w) now token = Some j"
proof -
  let ?P = "\<lambda>d s. se_token s = token \<and> se_expires_at s > now
        \<and> list_ex (\<lambda>u. u_id u = se_user_id s \<and> \<not> u_is_banned u) (users d)"
  let ?d = "ban_user d i w"
  have users: "se_user_id s \<noteq> i \<Longrightarrow> ?P ?d s = ?P d s" for s
    by (auto simp: ban_user_def update_user_def Let_def list_ex_iff split: if_splits)
  have banned: "?P ?d s \<Longrightarrow> se_user_id s \<noteq> i" for s
    by (auto simp: ban_user_def update_user_def Let_def list_ex_iff split: if_splits)
  have sess: "sessions ?d = filter (\<lambda>s. se_user_id s \<noteq> i) (sessions d)"
    by (simp add: ban_user_def update_user_def Let_def)
  have "first_row (filter (?P ?d) (sessions ?d))
      = first_row (filter (\<lambda>s. se_user_id s \<noteq> i \<and> ?P d s) (sessions d))"
    unfolding sess filter_filter using users by (metis (mono_tags, lifting))
  moreover obtain s where s: "first_row (filter (?P d) (sessions d)) = Some s" "se_user_id s = j"
    using assms(1) by (auto simp: validate_session_def)
  moreover have "first_row (filter (\<lambda>s. se_user_id s \<noteq> i \<and> ?P d s) (sessions d)) = Some s"
    using first_row_filter_conj [OF s(1)] s(2) assms(2) by simp
  ultimately show ?thesis by (simp add: validate_session_def)
qed

section \<open>An example\<close>

text \<open>An owner and a user, a space with one channel that both are in, and one message.\<close>

definition empty_db :: db where
  "empty_db = \<lparr>users = [], sessions = [], spaces = [], space_members = [], channels = [],
     channel_members = [], messages = [], reactions = [], mentions = [], notifications = [],
     read_states = [], settings = [], invite_tokens = [], invite_uses = [], totp_credentials = [],
     mfa_pending_tokens = [], recovery_tokens = [], recovery_keys = [], wiki_pages = [],
     wiki_permissions = [], wiki_page_permissions = [], wiki_page_versions = [], space_tools = [], password_credentials = [],
     password_history = [], webauthn_credentials = [], pki_credentials = [],
     upload_sessions = [], space_files = [], space_file_versions = [], space_file_permissions = [],
     space_invites = [], calendar_permissions = [], task_board_permissions = [],
     join_requests = [], user_settings = [], webauthn_challenges = [], device_tokens = []\<rparr>"

definition example_account :: "string \<Rightarrow> string \<Rightarrow> user" where
  "example_account i role = \<lparr>u_id = i, u_username = ''name-'' @ i, u_display_name = i, u_public_key = '''',
     u_role = role, u_is_online = False, u_last_seen = None, u_created_at = 0, u_bio = '''',
     u_status = '''', u_avatar_file_id = '''', u_profile_color = '''', u_is_banned = False,
     u_banned_by = ''''\<rparr>"

definition example_db :: db where
  "example_db = empty_db\<lparr>
     users := [example_account ''u1'' ''owner'', example_account ''u2'' ''user''],
     sessions := [\<lparr>se_user_id = ''u1'', se_token = ''t1'', se_expires_at = 100\<rparr>,
                  \<lparr>se_user_id = ''u2'', se_token = ''t2'', se_expires_at = 100\<rparr>],
     spaces := [\<lparr>sp_id = ''s1'', sp_name = ''Space'', sp_description = '''', sp_is_public = True,
        sp_default_role = ''user'', sp_created_by = ''u1'', sp_created_at = 0, sp_is_archived = False,
        sp_avatar_file_id = '''', sp_profile_color = '''', sp_is_personal = False, sp_personal_owner_id = ''''\<rparr>],
     space_members := [\<lparr>sm_space_id = ''s1'', sm_user_id = ''u1'', sm_role = ''owner''\<rparr>,
                       \<lparr>sm_space_id = ''s1'', sm_user_id = ''u2'', sm_role = ''user''\<rparr>],
     channels := [\<lparr>ch_id = ''c1'', ch_name = ''general'', ch_description = '''', ch_is_direct = False,
        ch_is_public = True, ch_default_role = ''write'', ch_created_by = ''u1'', ch_created_at = 0,
        ch_space_id = ''s1'', ch_conversation_name = '''', ch_is_archived = False, ch_default_join = True\<rparr>],
     channel_members := [\<lparr>cm_channel_id = ''c1'', cm_user_id = ''u1'', cm_role = ''admin''\<rparr>,
                         \<lparr>cm_channel_id = ''c1'', cm_user_id = ''u2'', cm_role = ''write''\<rparr>],
     messages := [\<lparr>m_id = ''m1'', m_channel_id = ''c1'', m_user_id = ''u2'', m_content = ''hello'',
        m_created_at = 1, m_edited_at = None, m_is_deleted = False, m_file_id = '''', m_file_name = '''',
        m_file_size = 0, m_file_type = '''', m_reply_to = '''', m_is_ai_assisted = False\<rparr>]\<rparr>"

end
