(* ===== verification/Replies.thy ===== *)
theory Replies
  imports Database
begin

text \<open>
  What the HTTP handlers answer, and the exceptions their \<open>catch\<close> clauses turn into answers.
\<close>

datatype exn = Parse_error | Missing_key string | Not_a_string string | Invalid_uuid
  | Wrong_type string | Db_exn db_error | Rand_failed

record reply =
  rp_status :: string
  rp_cookies :: "string list"
  rp_body :: json

definition err_reply :: "string \<Rightarrow> string \<Rightarrow> reply" where
  "err_reply status m = \<lparr>rp_status = status, rp_cookies = [], rp_body = JObject [(''error'', JString m)]\<rparr>"

definition ok_reply :: "json \<Rightarrow> reply" where
  "ok_reply j = \<lparr>rp_status = ''200 OK'', rp_cookies = [], rp_body = j\<rparr>"

definition done_reply :: reply where
  "done_reply = ok_reply (JObject [(''ok'', JBool True)])"

text \<open>\<open>j.at(k)\<close> as a string, and \<open>j.value(k, dflt)\<close>, which throws on what is not an object.\<close>

definition at_str :: "json \<Rightarrow> string \<Rightarrow> exn + string" where
  "at_str j k =
     (case json_get j k of
        None \<Rightarrow> Inl (Missing_key k)
      | Some v \<Rightarrow> (case json_string v of None \<Rightarrow> Inl (Not_a_string k) | Some s \<Rightarrow> Inr s))"

definition value_str :: "json \<Rightarrow> string \<Rightarrow> string \<Rightarrow> exn + string" where
  "value_str j k dflt =
     (if \<not> is_json_object j then Inl (Wrong_type k)
      else case json_get j k of
        None \<Rightarrow> Inr dflt
      | Some v \<Rightarrow> (case json_string v of None \<Rightarrow> Inl (Not_a_string k) | Some s \<Rightarrow> Inr s))"

definition value_bool :: "json \<Rightarrow> string \<Rightarrow> bool \<Rightarrow> exn + bool" where
  "value_bool j k dflt =
     (if \<not> is_json_object j then Inl (Wrong_type k)
      else case json_get j k of None \<Rightarrow> Inr dflt | Some (JBool b) \<Rightarrow> Inr b | Some _ \<Rightarrow> Inl (Wrong_type k))"

definition at_bool :: "json \<Rightarrow> string \<Rightarrow> exn + bool" where
  "at_bool j k = (case json_get j k of
     None \<Rightarrow> Inl (Missing_key k) | Some (JBool b) \<Rightarrow> Inr b | Some _ \<Rightarrow> Inl (Wrong_type k))"

definition value_int :: "json \<Rightarrow> string \<Rightarrow> int \<Rightarrow> exn + int" where
  "value_int j k dflt =
     (if \<not> is_json_object j then Inl (Wrong_type k)
      else case json_get j k of
        None \<Rightarrow> Inr dflt
      | Some v \<Rightarrow> (case json_int32 v of None \<Rightarrow> Inl (Wrong_type k) | Some n \<Rightarrow> Inr n))"

definition at_int :: "json \<Rightarrow> string \<Rightarrow> exn + int" where
  "at_int j k =
     (case json_get j k of
        None \<Rightarrow> Inl (Missing_key k)
      | Some v \<Rightarrow> (case json_int32 v of None \<Rightarrow> Inl (Wrong_type k) | Some n \<Rightarrow> Inr n))"

text \<open>The elements a range-based \<open>for\<close> visits, read as strings; a scalar is its own element.\<close>

definition json_elements :: "json \<Rightarrow> json list" where
  "json_elements j = (case j of JArray xs \<Rightarrow> xs | JObject kvs \<Rightarrow> map snd kvs | JNull \<Rightarrow> [] | _ \<Rightarrow> [j])"

fun all_strings :: "json list \<Rightarrow> string list option" where
  "all_strings [] = Some []"
| "all_strings (x # xs) =
     (case json_string x of None \<Rightarrow> None
      | Some s \<Rightarrow> (case all_strings xs of None \<Rightarrow> None | Some ss \<Rightarrow> Some (s # ss)))"

definition string_elements :: "json \<Rightarrow> string \<Rightarrow> exn + string list" where
  "string_elements j k =
     (case json_get j k of
        None \<Rightarrow> Inr []
      | Some v \<Rightarrow> (case all_strings (json_elements v) of None \<Rightarrow> Inl (Not_a_string k) | Some ss \<Rightarrow> Inr ss))"

end
