(* ===== verification/Http_Utils.thy ===== *)
theory Http_Utils
  imports Prelude
begin

text \<open>
  The request helpers of \<open>handlers/handler_utils.h\<close> and \<open>handler_utils.cpp\<close>: integer parameters,
  settings with fallbacks, the session and CSRF cookies, the body cap and the role ranks.
\<close>

section \<open>Integers from query strings and settings\<close>

definition safe_parse :: "int \<Rightarrow> int \<Rightarrow> string \<Rightarrow> int option" where
  "safe_parse lo hi s =
     (let t = dropWhile is_space s in
      if t = [] then None
      else case from_chars lo hi t of
             Inl _ \<Rightarrow> None
           | Inr (v, rest) \<Rightarrow> if rest \<noteq> [] then None else Some v)"

definition safe_parse_int :: "string \<Rightarrow> int option" where
  "safe_parse_int s = safe_parse i32_min i32_max s"

definition safe_parse_int64 :: "string \<Rightarrow> int option" where
  "safe_parse_int64 s = safe_parse i64_min i64_max s"

definition safe_parse_int_default :: "string \<Rightarrow> int \<Rightarrow> int" where
  "safe_parse_int_default s d = (case safe_parse_int s of Some v \<Rightarrow> v | None \<Rightarrow> d)"

definition safe_parse_int64_default :: "string \<Rightarrow> int \<Rightarrow> int" where
  "safe_parse_int64_default s d = (case safe_parse_int64 s of Some v \<Rightarrow> v | None \<Rightarrow> d)"

definition parse_int_setting_or :: "string option \<Rightarrow> int \<Rightarrow> int" where
  "parse_int_setting_or setting fallback =
     (case setting of
        Some s \<Rightarrow> (case stoi i32_min i32_max s of Inr v \<Rightarrow> v | Inl _ \<Rightarrow> fallback)
      | None \<Rightarrow> fallback)"

definition parse_i64_setting_or :: "string option \<Rightarrow> int \<Rightarrow> int" where
  "parse_i64_setting_or setting fallback =
     (case setting of
        Some s \<Rightarrow> (case stoi i64_min i64_max s of Inr v \<Rightarrow> v | Inl _ \<Rightarrow> fallback)
      | None \<Rightarrow> fallback)"

definition parse_bool_setting_or :: "string option \<Rightarrow> bool \<Rightarrow> bool" where
  "parse_bool_setting_or setting fallback =
     (case setting of
        None \<Rightarrow> fallback
      | Some s \<Rightarrow> if s = ''true'' then True else if s = ''false'' then False else fallback)"

lemma dropWhile_space_digits:
  "dropWhile is_space (int_str i) = int_str i"
proof (cases "i < 0")
  case True
  then show ?thesis by (simp add: int_str_def is_space_def)
next
  case False
  then show ?thesis
    using nat_str_hd_digit [of "nat i"] digit_not_space by (auto simp: int_str_def)
qed

lemma int_str_nonempty [simp]: "int_str i \<noteq> []"
  by (simp add: int_str_def)

lemma safe_parse_int_str: "fits lo hi i \<Longrightarrow> safe_parse lo hi (int_str i) = Some i"
  by (simp add: safe_parse_def dropWhile_space_digits from_chars_int_str)

lemma safe_parse_in_range: "safe_parse lo hi s = Some v \<Longrightarrow> fits lo hi v"
  by (auto simp: safe_parse_def Let_def split: if_splits sum.splits dest: from_chars_in_range)

section \<open>Cookies\<close>

text \<open>
  A request as the handlers see it. uWebSockets gives header names in lower case and the empty
  string for an absent header.
\<close>

record http_request =
  req_method :: string
  req_header :: "string \<Rightarrow> string"

text \<open>
  The scan shared by \<open>extract_session_token\<close> and \<open>csrf_ok\<close>. The argument is the part of the
  header from position \<open>pos\<close> on: leading spaces and semicolons are skipped, the key is compared,
  and otherwise the scan moves to the next semicolon.
\<close>

definition is_sep :: "char \<Rightarrow> bool" where
  "is_sep c \<longleftrightarrow> c = CHR '' '' \<or> c = CHR '';''"

definition not_semi :: "char \<Rightarrow> bool" where
  "not_semi c \<longleftrightarrow> c \<noteq> CHR '';''"

function cookie_scan :: "string \<Rightarrow> string \<Rightarrow> string option" where
  "cookie_scan key s =
     (if s = [] then None
      else let t = dropWhile is_sep s in
        if starts_with key t
        then Some (takeWhile not_semi (drop (length key) t))
        else let u = dropWhile not_semi t in
          if u = [] then None else cookie_scan key u)"
  by pat_completeness auto

lemma cookie_scan_shorter:
  assumes "s \<noteq> []"
    and "u = dropWhile not_semi (dropWhile is_sep s)"
    and "u \<noteq> []"
  shows "length u < length s"
proof (cases s)
  case (Cons c cs)
  show ?thesis
  proof (cases "is_sep c")
    case True
    with assms(2) Cons have "u = dropWhile not_semi (dropWhile is_sep cs)" by simp
    then have "length u \<le> length cs"
      by (metis le_trans length_dropWhile_le)
    with Cons show ?thesis by simp
  next
    case False
    with assms(2,3) Cons have "u = dropWhile not_semi cs"
      by (auto simp: is_sep_def not_semi_def)
    then have "length u \<le> length cs" by (metis length_dropWhile_le)
    with Cons show ?thesis by simp
  qed
qed (use assms(1) in simp)

termination cookie_scan
proof (relation "measure (\<lambda>(key :: string, s :: string). length s)")
  fix key s t u :: string
  assume "s \<noteq> []" and "t = dropWhile is_sep s" and "u = dropWhile not_semi t" and "u \<noteq> []"
  then have "length u < length s" using cookie_scan_shorter by blast
  then show "((key, u), (key, s)) \<in> measure (\<lambda>(key, s). length s)" by simp
qed simp

declare cookie_scan.simps [simp del]

definition extract_session_token :: "http_request \<Rightarrow> string" where
  "extract_session_token req =
     (let cookie_header = req_header req ''cookie'' in
      if cookie_header = [] then ''''
      else case cookie_scan ''session='' cookie_header of Some v \<Rightarrow> v | None \<Rightarrow> '''')"

definition csrf_ok :: "http_request \<Rightarrow> bool" where
  "csrf_ok req =
     (let header_token = req_header req ''x-csrf-token'';
          cookie_header = req_header req ''cookie''
      in if header_token = [] then False
         else if cookie_header = [] then False
         else case cookie_scan ''csrf='' cookie_header of
                Some v \<Rightarrow> v = header_token
              | None \<Rightarrow> False)"

definition is_state_changing_method :: "string \<Rightarrow> bool" where
  "is_state_changing_method m \<longleftrightarrow>
     m = ''post'' \<or> m = ''put'' \<or> m = ''delete'' \<or> m = ''patch''"

definition csrf_required_and_failed :: "http_request \<Rightarrow> bool" where
  "csrf_required_and_failed req \<longleftrightarrow> extract_session_token req \<noteq> [] \<and> \<not> csrf_ok req"

text \<open>
  A handler's answer: the status line and the body (the other headers are constant).
  Every error body of the handlers is \<open>error_json\<close> of its message.
\<close>

record http_response =
  resp_status :: string
  resp_body :: string

definition error_json :: "string \<Rightarrow> string" where
  "error_json m = ''{\"error\":\"'' @ m @ ''\"}''"

definition error_response :: "string \<Rightarrow> string \<Rightarrow> http_response" where
  "error_response status m = \<lparr>resp_status = status, resp_body = error_json m\<rparr>"

definition send_csrf_403 :: http_response where
  "send_csrf_403 = error_response ''403'' ''CSRF token missing or mismatched''"

text \<open>
  \<open>post_csrf\<close>, \<open>put_csrf\<close> and \<open>del_csrf\<close>: the registered route runs the handler \<open>h\<close>, which
  acts on some state, only after the check.
\<close>

definition csrf_guarded ::
  "(http_request \<Rightarrow> 's \<Rightarrow> http_response \<times> 's) \<Rightarrow> http_request \<Rightarrow> 's \<Rightarrow> http_response \<times> 's" where
  "csrf_guarded h req s =
     (if csrf_required_and_failed req then (send_csrf_403, s) else h req s)"

text \<open>The reference: split at semicolons, trim leading spaces, take the first pair with the key.\<close>

definition cookie_lookup :: "string \<Rightarrow> string \<Rightarrow> string option" where
  "cookie_lookup key s =
     map_option (drop (length key))
       (find (starts_with key) (map (dropWhile (\<lambda>c. c = CHR '' '')) (split_on CHR '';'' s)))"

text \<open>\<open>cookie_pair\<close> is how a browser sends a cookie back; pairs are joined by \<open>"; "\<close>.\<close>

fun cookie_header_of :: "(string \<times> string) list \<Rightarrow> string" where
  "cookie_header_of [] = []"
| "cookie_header_of [(k, v)] = k @ ''='' @ v"
| "cookie_header_of ((k, v) # rest) = k @ ''='' @ v @ ''; '' @ cookie_header_of rest"

section \<open>The cap on a streamed request body\<close>

text \<open>
  One \<open>onData\<close> callback. The result is the flag returned to the caller (stop processing), the
  new body and \<open>aborted\<close> flag, and the response sent, if any.
\<close>

definition append_capped ::
  "string \<Rightarrow> string \<Rightarrow> bool \<Rightarrow> int \<Rightarrow> bool \<times> string \<times> bool \<times> http_response option" where
  "append_capped body data aborted cap =
     (if aborted then (True, body, aborted, None)
      else if cap > 0 \<and> int (length body) + int (length data) > cap
      then (True, body, True, Some (error_response ''413 Payload Too Large'' ''Request body too large''))
      else (False, body @ data, aborted, None))"

text \<open>The callbacks of one upload: the chunks in the order they arrive.\<close>

fun stream_body :: "string \<Rightarrow> bool \<Rightarrow> int \<Rightarrow> string list \<Rightarrow> string \<times> bool \<times> http_response list" where
  "stream_body body aborted cap [] = (body, aborted, [])"
| "stream_body body aborted cap (d # ds) =
     (case append_capped body d aborted cap of
        (_, body', aborted', resp) \<Rightarrow>
          (case stream_body body' aborted' cap ds of
             (b, a, rs) \<Rightarrow> (b, a, (case resp of None \<Rightarrow> rs | Some r \<Rightarrow> r # rs))))"

section \<open>Roles\<close>

definition server_role_rank :: "string \<Rightarrow> int" where
  "server_role_rank role =
     (if role = ''owner'' then 2 else if role = ''admin'' then 1 else 0)"

definition space_role_rank :: "string \<Rightarrow> int" where
  "space_role_rank role =
     (if role = ''owner'' then 2 else if role = ''admin'' then 1 else 0)"

definition channel_role_rank :: "string \<Rightarrow> int" where
  "channel_role_rank role =
     (if role = ''admin'' then 2 else if role = ''write'' then 1 else 0)"

section \<open>The cookie scan against its reference\<close>

lemma split_semi:
  "split_on CHR '';'' s =
     takeWhile not_semi s # (case dropWhile not_semi s of [] \<Rightarrow> [] | _ # r \<Rightarrow> split_on CHR '';'' r)"
  using split_on_unfold [of "CHR '';''" s] by (simp add: not_semi_def [abs_def])

lemma cookie_lookup_unfold:
  "cookie_lookup key s =
     (let t = dropWhile (\<lambda>c. c = CHR '' '') (takeWhile not_semi s) in
      if starts_with key t then Some (drop (length key) t)
      else case dropWhile not_semi s of [] \<Rightarrow> None | _ # r \<Rightarrow> cookie_lookup key r)"
  unfolding cookie_lookup_def Let_def split_semi [of s]
  by (cases "dropWhile not_semi s") (simp_all del: dropWhile_eq_Nil_conv)

definition key_ok :: "string \<Rightarrow> bool" where
  "key_ok key \<longleftrightarrow> key \<noteq> [] \<and> list_all not_semi key \<and> hd key \<noteq> CHR '' ''"

lemma key_ok_not_Nil [dest]: "key_ok key \<Longrightarrow> \<not> starts_with key []"
  by (simp add: starts_with_def key_ok_def)

lemma cookie_lookup_Nil: "key_ok key \<Longrightarrow> cookie_lookup key [] = None"
  by (simp add: cookie_lookup_def key_ok_not_Nil)

lemma cookie_lookup_semi:
  assumes "key_ok key"
  shows "cookie_lookup key (CHR '';'' # s) = cookie_lookup key s"
  using key_ok_not_Nil [OF assms]
  by (subst cookie_lookup_unfold) (simp add: not_semi_def)

lemma cookie_lookup_space: "cookie_lookup key (CHR '' '' # s) = cookie_lookup key s"
  by (simp add: cookie_lookup_unfold [of key "CHR '' '' # s"] cookie_lookup_unfold [of key s]
      not_semi_def Let_def)

lemma cookie_lookup_skip:
  "key_ok key \<Longrightarrow> cookie_lookup key (dropWhile is_sep s) = cookie_lookup key s"
  by (induction s) (auto simp: is_sep_def cookie_lookup_semi cookie_lookup_space)

lemma takeWhile_key:
  assumes "list_all not_semi key"
  shows "takeWhile not_semi (key @ r) = key @ takeWhile not_semi r"
  using assms by (induction key) auto

lemma starts_with_takeWhile:
  assumes "list_all not_semi key"
  shows "starts_with key (takeWhile not_semi t) = starts_with key t"
proof
  assume "starts_with key (takeWhile not_semi t)"
  then obtain r where "takeWhile not_semi t = key @ r"
    by (auto simp: starts_with_iff)
  then have "t = key @ r @ dropWhile not_semi t"
    by (metis append.assoc takeWhile_dropWhile_id)
  then show "starts_with key t" unfolding starts_with_iff by blast
next
  assume "starts_with key t"
  then obtain r where "t = key @ r" by (auto simp: starts_with_iff)
  then show "starts_with key (takeWhile not_semi t)"
    by (simp add: takeWhile_key [OF assms])
qed

lemma drop_takeWhile_key:
  assumes "list_all not_semi key" and "starts_with key t"
  shows "drop (length key) (takeWhile not_semi t) = takeWhile not_semi (drop (length key) t)"
proof -
  obtain r where "t = key @ r" using assms(2) by (auto simp: starts_with_iff)
  then show ?thesis by (simp add: takeWhile_key [OF assms(1)])
qed

lemma no_leading_space:
  "dropWhile (\<lambda>c. c = CHR '' '') (takeWhile not_semi (dropWhile is_sep s))
     = takeWhile not_semi (dropWhile is_sep s)"
proof (cases "dropWhile is_sep s")
  case (Cons c r)
  then have "\<not> is_sep c" by (metis dropWhile_eq_Cons_conv)
  with Cons show ?thesis by (auto simp: is_sep_def)
qed (simp del: dropWhile_eq_Nil_conv)

lemma dropWhile_not_semi_hd: "dropWhile not_semi s = c # r \<Longrightarrow> c = CHR '';''"
  by (metis dropWhile_eq_Cons_conv not_semi_def)

text \<open>One step of the scan, seen from the reference.\<close>

lemma cookie_lookup_step:
  assumes "key_ok key"
  shows "cookie_lookup key s =
      (if starts_with key (dropWhile is_sep s)
       then Some (takeWhile not_semi (drop (length key) (dropWhile is_sep s)))
       else case dropWhile not_semi (dropWhile is_sep s) of
              [] \<Rightarrow> None | _ # r \<Rightarrow> cookie_lookup key r)"
proof -
  have key: "list_all not_semi key" using assms by (simp add: key_ok_def)
  have "cookie_lookup key s = cookie_lookup key (dropWhile is_sep s)"
    by (simp add: cookie_lookup_skip [OF assms])
  then show ?thesis
    unfolding cookie_lookup_unfold [of key "dropWhile is_sep s"] Let_def no_leading_space
      starts_with_takeWhile [OF key]
    by (simp add: drop_takeWhile_key [OF key])
qed

lemma cookie_scan_lookup:
  assumes "key_ok key"
  shows "cookie_scan key s = cookie_lookup key s"
proof (induction s rule: length_induct)
  case (1 s)
  let ?u = "dropWhile not_semi (dropWhile is_sep s)"
  show ?case
  proof (cases "s = []")
    case True
    then show ?thesis using cookie_lookup_Nil [OF assms] by (simp add: cookie_scan.simps)
  next
    case False
    show ?thesis
    proof (cases ?u)
      case Nil
      show ?thesis
        unfolding cookie_scan.simps [of key s] cookie_lookup_step [OF assms, of s] Let_def Nil
        using False by simp
    next
      case (Cons c r)
      have len: "length ?u < length s"
        using cookie_scan_shorter [OF False refl] Cons by simp
      have "cookie_lookup key ?u = cookie_lookup key r"
        using Cons dropWhile_not_semi_hd [OF Cons] cookie_lookup_semi [OF assms] by simp
      moreover have "cookie_scan key ?u = cookie_lookup key ?u" using 1 len by blast
      ultimately have "cookie_scan key (c # r) = cookie_lookup key r" using Cons by simp
      then show ?thesis
        unfolding cookie_scan.simps [of key s] cookie_lookup_step [OF assms, of s] Let_def Cons
        using False by simp
    qed
  qed
qed

lemma key_ok_session: "key_ok ''session=''" and key_ok_csrf: "key_ok ''csrf=''"
  by (simp_all add: key_ok_def not_semi_def)

section \<open>The body cap\<close>

lemma stream_body_aborted [simp]: "stream_body body True cap ds = (body, True, [])"
  by (induction ds) (auto simp: append_capped_def)

lemma stream_body_over:
  "cap > 0 \<Longrightarrow> int (length body) + int (length d) > cap \<Longrightarrow>
     stream_body body False cap (d # ds)
       = (body, True, [error_response ''413 Payload Too Large'' ''Request body too large''])"
  by (simp add: append_capped_def)

lemma stream_body_fits:
  "\<not> (cap > 0 \<and> int (length body) + int (length d) > cap) \<Longrightarrow>
     stream_body body False cap (d # ds) = stream_body (body @ d) False cap ds"
  by (auto simp: append_capped_def split: prod.splits)

lemmas stream_body_cases = stream_body_over stream_body_fits

lemma stream_body_bounded:
  "cap > 0 \<Longrightarrow> int (length body) \<le> cap \<Longrightarrow> stream_body body False cap ds = (b, a, rs)
    \<Longrightarrow> int (length b) \<le> cap"
proof (induction ds arbitrary: body)
  case (Cons d ds)
  show ?case
  proof (cases "int (length body) + int (length d) > cap")
    case True
    with Cons.prems show ?thesis by (simp add: stream_body_over del: stream_body.simps)
  next
    case False
    with Cons.prems(3) have "stream_body (body @ d) False cap ds = (b, a, rs)"
      using stream_body_fits [of cap body d ds] by simp
    with False Cons.prems(1) show ?thesis by (intro Cons.IH) auto
  qed
qed simp

lemma stream_body_outcome:
  "stream_body body False cap ds = (b, a, rs) \<Longrightarrow>
     (if a then rs = [error_response ''413 Payload Too Large'' ''Request body too large'']
      else b = body @ concat ds \<and> rs = [])"
proof (induction ds arbitrary: body)
  case (Cons d ds)
  show ?case
  proof (cases "cap > 0 \<and> int (length body) + int (length d) > cap")
    case True
    with Cons.prems show ?thesis
      using stream_body_over [of cap body d ds] by simp
  next
    case False
    with Cons.prems have "stream_body (body @ d) False cap ds = (b, a, rs)"
      using stream_body_fits [of cap body d ds] by simp
    from Cons.IH [OF this] show ?thesis by simp
  qed
qed simp

text \<open>Too large a body is always refused, however it is cut into chunks.\<close>

lemma stream_body_rejects:
  "cap > 0 \<Longrightarrow> int (length body) \<le> cap \<Longrightarrow> int (length (body @ concat ds)) > cap \<Longrightarrow>
     fst (snd (stream_body body False cap ds))"
proof (induction ds arbitrary: body)
  case (Cons d ds)
  show ?case
  proof (cases "int (length body) + int (length d) > cap")
    case True
    with Cons.prems show ?thesis using stream_body_over [of cap body d ds] by simp
  next
    case False
    then have "fst (snd (stream_body (body @ d) False cap ds))"
      using Cons.prems by (intro Cons.IH) auto
    with False show ?thesis using stream_body_fits [of cap body d ds] by simp
  qed
qed simp

lemma stream_body_exact:
  assumes "cap \<le> 0 \<or> int (length body) \<le> cap"
  shows "case stream_body body False cap ds of (b, aborted, rs) \<Rightarrow>
     (aborted \<longleftrightarrow> cap > 0 \<and> int (length (body @ concat ds)) > cap)
     \<and> (if aborted
         then rs = [error_response ''413 Payload Too Large'' ''Request body too large'']
              \<and> int (length b) \<le> cap \<and> (\<exists>k < length ds. b = body @ concat (take k ds))
         else rs = [] \<and> b = body @ concat ds)"
  using assms
proof (induction ds arbitrary: body)
  case (Cons d ds)
  show ?case
  proof (cases "cap > 0 \<and> int (length body) + int (length d) > cap")
    case True
    have "\<exists>k < length (d # ds). body = body @ concat (take k (d # ds))"
      by (rule exI [of _ 0]) simp
    with True Cons.prems show ?thesis
      unfolding stream_body_over [OF conjunct1 [OF True] conjunct2 [OF True]] by auto
  next
    case False
    obtain b a rs where out: "stream_body (body @ d) False cap ds = (b, a, rs)"
      by (metis prod_cases3)
    have "cap \<le> 0 \<or> int (length (body @ d)) \<le> cap" using False by auto
    from Cons.IH [OF this] have
      ih: "a \<longleftrightarrow> cap > 0 \<and> int (length ((body @ d) @ concat ds)) > cap"
      "if a then rs = [error_response ''413 Payload Too Large'' ''Request body too large'']
              \<and> int (length b) \<le> cap \<and> (\<exists>k < length ds. b = (body @ d) @ concat (take k ds))
         else rs = [] \<and> b = (body @ d) @ concat ds"
      unfolding out prod.case by (rule conjunct1, rule conjunct2)
    have ih1: "a \<Longrightarrow> rs = [error_response ''413 Payload Too Large'' ''Request body too large'']
              \<and> int (length b) \<le> cap \<and> (\<exists>k < length ds. b = body @ d @ concat (take k ds))"
      and ih2: "\<not> a \<Longrightarrow> rs = [] \<and> b = body @ d @ concat ds"
      using ih(2) by simp_all
    have "(\<exists>k < length ds. b = body @ d @ concat (take k ds))
        \<Longrightarrow> (\<exists>k < length (d # ds). b = body @ concat (take k (d # ds)))"
      by (metis Suc_less_eq concat.simps(2) length_Cons take_Suc_Cons)
    with ih(1) ih1 ih2 show ?thesis
      unfolding stream_body_fits [OF False] out prod.case by (cases a) simp_all
  qed
qed auto

section \<open>Properties\<close>

text \<open>C14: A streamed request body is refused exactly when it is longer than the cap, however the client
  cuts it into chunks: a refused one gets a single 413 response and never more than the cap in memory,
  an accepted one arrives whole and in order.\<close>

theorem body_cap_exact:
  "case stream_body [] False cap ds of (b, aborted, rs) \<Rightarrow>
     (aborted \<longleftrightarrow> cap > 0 \<and> int (length (concat ds)) > cap)
     \<and> (if aborted
         then rs = [error_response ''413 Payload Too Large'' ''Request body too large'']
              \<and> int (length b) \<le> cap \<and> (\<exists>k < length ds. b = concat (take k ds))
         else rs = [] \<and> b = concat ds)"
  by (rule stream_body_exact [of cap "[]" ds, unfolded append_Nil]) auto

text \<open>C12: A route behind the CSRF guard runs its handler exactly when the request carries no session
  cookie or its \<open>X-CSRF-Token\<close> header is non-empty and equals the first \<open>csrf\<close> cookie; otherwise the
  state stays as it was and the answer is 403. Cookies are those that splitting the header gives.\<close>

theorem csrf_guard_exact:
  "csrf_guarded h req s =
     (let cookies = req_header req ''cookie''; sent = req_header req ''x-csrf-token''
      in if (case cookie_lookup ''session='' cookies of None \<Rightarrow> True | Some v \<Rightarrow> v = [])
            \<or> (sent \<noteq> [] \<and> cookie_lookup ''csrf='' cookies = Some sent)
         then h req s else (send_csrf_403, s))"
  using cookie_lookup_Nil [OF key_ok_csrf] cookie_lookup_Nil [OF key_ok_session]
  by (auto simp: csrf_guarded_def csrf_required_and_failed_def csrf_ok_def extract_session_token_def
      Let_def cookie_scan_lookup key_ok_session key_ok_csrf split: option.splits)

end
