(* ===== verification/Access.thy ===== *)
theory Access
  imports Database
begin

text \<open>
  Spaces, channels and their members, with the methods of \<open>db/database.cpp\<close> that decide who may do
  what: \<open>get_effective_role\<close>, \<open>is_space_member\<close>, and the wiki \<open>view\<close> gate of
  \<open>ws/ws_handler.cpp\<close>.
\<close>

section \<open>Spaces\<close>

definition find_space_by_id :: "db \<Rightarrow> string \<Rightarrow> space option" where
  "find_space_by_id d i = first_row (filter (\<lambda>s. sp_id s = i) (spaces d))"

definition get_space_member_role :: "db \<Rightarrow> string \<Rightarrow> string \<Rightarrow> string" where
  "get_space_member_role d space_id user_id =
     (case first_row (filter (\<lambda>m. sm_space_id m = space_id \<and> sm_user_id m = user_id) (space_members d)) of
        None \<Rightarrow> '''' | Some m \<Rightarrow> sm_role m)"

definition is_space_member :: "db \<Rightarrow> string \<Rightarrow> string \<Rightarrow> bool" where
  "is_space_member d space_id user_id =
     (filter (\<lambda>m. sm_space_id m = space_id \<and> sm_user_id m = user_id) (space_members d) \<noteq> [])"

text \<open>\<open>ON CONFLICT DO NOTHING\<close>: an existing row wins; a missing parent row is still an error.\<close>

definition add_space_member :: "db \<Rightarrow> string \<Rightarrow> string \<Rightarrow> string \<Rightarrow> db_error + db" where
  "add_space_member d space_id user_id role =
     (if is_space_member d space_id user_id then Inr d
      else if has_key sp_id space_id (spaces d) \<and> has_key u_id user_id (users d)
      then Inr (d\<lparr>space_members := space_members d @
             [\<lparr>sm_space_id = space_id, sm_user_id = user_id, sm_role = role\<rparr>]\<rparr>)
      else Inl ForeignKeyViolation)"

definition remove_space_member :: "db \<Rightarrow> string \<Rightarrow> string \<Rightarrow> db" where
  "remove_space_member d space_id user_id =
     (let d1 = d\<lparr>channel_members := filter (\<lambda>m. \<not> (cm_user_id m = user_id \<and>
                  list_ex (\<lambda>c. ch_id c = cm_channel_id m \<and> ch_space_id c = space_id) (channels d)))
                (channel_members d)\<rparr>
      in d1\<lparr>space_members :=
           filter (\<lambda>m. \<not> (sm_space_id m = space_id \<and> sm_user_id m = user_id)) (space_members d1)\<rparr>)"

definition update_space_member_role :: "db \<Rightarrow> string \<Rightarrow> string \<Rightarrow> string \<Rightarrow> db" where
  "update_space_member_role d space_id user_id role =
     d\<lparr>space_members := map (\<lambda>m. if sm_space_id m = space_id \<and> sm_user_id m = user_id
                                then m\<lparr>sm_role := role\<rparr> else m) (space_members d)\<rparr>"

definition count_space_members_with_role :: "db \<Rightarrow> string \<Rightarrow> string \<Rightarrow> int" where
  "count_space_members_with_role d space_id role =
     int (length (filter (\<lambda>m. sm_space_id m = space_id \<and> sm_role m = role) (space_members d)))"

text \<open>
  The creator becomes owner, and a positive \<open>default_space_storage_limit\<close> (read with
  \<open>std::stoll\<close>, 0 when it does not parse) is copied to the new space.
\<close>

definition create_space ::
  "db \<Rightarrow> string \<Rightarrow> time \<Rightarrow> string \<Rightarrow> string \<Rightarrow> bool \<Rightarrow> string \<Rightarrow> string \<Rightarrow> db_error + space \<times> db" where
  "create_space d new_id now name description is_public created_by default_role =
     (let sp = \<lparr>sp_id = new_id, sp_name = name, sp_description = description,
                sp_is_public = is_public, sp_default_role = default_role,
                sp_created_by = created_by, sp_created_at = now, sp_is_archived = False,
                sp_avatar_file_id = '''', sp_profile_color = '''', sp_is_personal = False,
                sp_personal_owner_id = ''''\<rparr>
      in if \<not> varchar_ok 100 name \<or> \<not> varchar_ok 20 default_role then Inl too_long
         else if has_key sp_id new_id (spaces d) then Inl UniqueViolation
         else if \<not> has_key u_id created_by (users d) then Inl ForeignKeyViolation
         else
           let d1 = d\<lparr>spaces := spaces d @ [sp],
                      space_members := space_members d @
                        [\<lparr>sm_space_id = new_id, sm_user_id = created_by, sm_role = ''owner''\<rparr>]\<rparr>;
               d2 = (case get_setting d1 ''default_space_storage_limit'' of
                       None \<Rightarrow> d1
                     | Some v \<Rightarrow>
                         (let limit = (case stoi i64_min i64_max v of Inr n \<Rightarrow> n | Inl _ \<Rightarrow> 0)
                          in if limit > 0
                             then set_setting d1 (''space_storage_limit_'' @ new_id) v
                             else d1))
           in Inr (sp, d2))"

definition archive_space :: "db \<Rightarrow> string \<Rightarrow> db" where
  "archive_space d i =
     d\<lparr>spaces := map (\<lambda>s. if sp_id s = i then s\<lparr>sp_is_archived := True\<rparr> else s) (spaces d),
       channels := map (\<lambda>c. if ch_space_id c = i then c\<lparr>ch_is_archived := True\<rparr> else c) (channels d)\<rparr>"

definition unarchive_space :: "db \<Rightarrow> string \<Rightarrow> db" where
  "unarchive_space d i =
     d\<lparr>spaces := map (\<lambda>s. if sp_id s = i then s\<lparr>sp_is_archived := False\<rparr> else s) (spaces d),
       channels := map (\<lambda>c. if ch_space_id c = i then c\<lparr>ch_is_archived := False\<rparr> else c) (channels d)\<rparr>"

section \<open>Channels\<close>

definition find_channel_by_id :: "db \<Rightarrow> string \<Rightarrow> channel option" where
  "find_channel_by_id d i = first_row (filter (\<lambda>c. ch_id c = i) (channels d))"

definition is_channel_member :: "db \<Rightarrow> string \<Rightarrow> string \<Rightarrow> bool" where
  "is_channel_member d channel_id user_id =
     (filter (\<lambda>m. cm_channel_id m = channel_id \<and> cm_user_id m = user_id) (channel_members d) \<noteq> [])"

definition add_channel_member :: "db \<Rightarrow> string \<Rightarrow> string \<Rightarrow> string \<Rightarrow> db_error + db" where
  "add_channel_member d channel_id user_id role =
     (if is_channel_member d channel_id user_id then Inr d
      else if has_key ch_id channel_id (channels d) \<and> has_key u_id user_id (users d)
      then Inr (d\<lparr>channel_members := channel_members d @
             [\<lparr>cm_channel_id = channel_id, cm_user_id = user_id, cm_role = role\<rparr>]\<rparr>)
      else Inl ForeignKeyViolation)"

definition get_member_role :: "db \<Rightarrow> string \<Rightarrow> string \<Rightarrow> string" where
  "get_member_role d channel_id user_id =
     (case first_row (filter (\<lambda>m. cm_channel_id m = channel_id \<and> cm_user_id m = user_id) (channel_members d)) of
        None \<Rightarrow> '''' | Some m \<Rightarrow> cm_role m)"

abbreviation is_admin_role :: "string \<Rightarrow> bool" where
  "is_admin_role r \<equiv> r = ''admin'' \<or> r = ''owner''"

definition get_effective_role :: "db \<Rightarrow> string \<Rightarrow> string \<Rightarrow> string" where
  "get_effective_role d channel_id user_id =
     (if (case find_user_by_id d user_id of Some u \<Rightarrow> is_admin_role (u_role u) | None \<Rightarrow> False)
      then ''admin''
      else if (case find_channel_by_id d channel_id of
                 Some ch \<Rightarrow> ch_space_id ch \<noteq> []
                   \<and> is_admin_role (get_space_member_role d (ch_space_id ch) user_id)
               | None \<Rightarrow> False)
      then ''admin''
      else get_member_role d channel_id user_id)"

definition remove_channel_member :: "db \<Rightarrow> string \<Rightarrow> string \<Rightarrow> db" where
  "remove_channel_member d channel_id user_id =
     d\<lparr>channel_members :=
       filter (\<lambda>m. \<not> (cm_channel_id m = channel_id \<and> cm_user_id m = user_id)) (channel_members d)\<rparr>"

definition update_member_role :: "db \<Rightarrow> string \<Rightarrow> string \<Rightarrow> string \<Rightarrow> db" where
  "update_member_role d channel_id user_id role =
     d\<lparr>channel_members := map (\<lambda>m. if cm_channel_id m = channel_id \<and> cm_user_id m = user_id
                                  then m\<lparr>cm_role := role\<rparr> else m) (channel_members d)\<rparr>"

definition count_channel_members_with_role :: "db \<Rightarrow> string \<Rightarrow> string \<Rightarrow> int" where
  "count_channel_members_with_role d channel_id role =
     int (length (filter (\<lambda>m. cm_channel_id m = channel_id \<and> cm_role m = role) (channel_members d)))"

definition count_channel_members :: "db \<Rightarrow> string \<Rightarrow> int" where
  "count_channel_members d channel_id =
     int (length (filter (\<lambda>m. cm_channel_id m = channel_id) (channel_members d)))"

definition find_dm_channel :: "db \<Rightarrow> string \<Rightarrow> string \<Rightarrow> channel option" where
  "find_dm_channel d user1 user2 =
     first_row (filter (\<lambda>c. ch_is_direct c
        \<and> is_channel_member d (ch_id c) user1 \<and> is_channel_member d (ch_id c) user2
        \<and> count_channel_members d (ch_id c) = (if user1 = user2 then 1 else 2)) (channels d))"

definition list_user_channels :: "db \<Rightarrow> string \<Rightarrow> channel list" where
  "list_user_channels d user_id =
     sort_key ch_created_at (filter (\<lambda>c. is_channel_member d (ch_id c) user_id) (channels d))"

definition list_space_channels :: "db \<Rightarrow> string \<Rightarrow> channel list" where
  "list_space_channels d space_id =
     sort_key ch_created_at (filter (\<lambda>c. ch_space_id c = space_id) (channels d))"

definition get_default_join_channels :: "db \<Rightarrow> string \<Rightarrow> channel list" where
  "get_default_join_channels d space_id =
     filter (\<lambda>c. ch_space_id c = space_id \<and> ch_default_join c \<and> \<not> ch_is_archived c) (channels d)"

definition archive_channel :: "db \<Rightarrow> string \<Rightarrow> db" where
  "archive_channel d i =
     d\<lparr>channels := map (\<lambda>c. if ch_id c = i then c\<lparr>ch_is_archived := True\<rparr> else c) (channels d)\<rparr>"

definition unarchive_channel :: "db \<Rightarrow> string \<Rightarrow> db" where
  "unarchive_channel d i =
     d\<lparr>channels := map (\<lambda>c. if ch_id c = i then c\<lparr>ch_is_archived := False\<rparr> else c) (channels d)\<rparr>"

text \<open>\<open>create_channel\<close> inserts the members one by one; the first failing insert aborts it all.\<close>

fun add_members :: "db \<Rightarrow> string \<Rightarrow> (string \<times> string) list \<Rightarrow> db_error + db" where
  "add_members d channel_id [] = Inr d"
| "add_members d channel_id ((mid, role) # rest) =
     (case add_channel_member d channel_id mid role of
        Inl e \<Rightarrow> Inl e
      | Inr d' \<Rightarrow> add_members d' channel_id rest)"

definition create_channel ::
  "db \<Rightarrow> string \<Rightarrow> time \<Rightarrow> string \<Rightarrow> string \<Rightarrow> bool \<Rightarrow> string \<Rightarrow> string list \<Rightarrow> bool \<Rightarrow> string
     \<Rightarrow> string \<Rightarrow> bool \<Rightarrow> db_error + channel \<times> db" where
  "create_channel d new_id now name description is_direct created_by member_ids is_public
     default_role space_id default_join =
     (let ch = \<lparr>ch_id = new_id, ch_name = name, ch_description = description,
                ch_is_direct = is_direct, ch_is_public = is_public, ch_default_role = default_role,
                ch_created_by = created_by, ch_created_at = now, ch_space_id = space_id,
                ch_conversation_name = '''', ch_is_archived = False, ch_default_join = default_join\<rparr>
      in if \<not> varchar_ok 100 name \<or> \<not> varchar_ok 20 default_role then Inl too_long
         else if has_key ch_id new_id (channels d) then Inl UniqueViolation
         else if \<not> (has_key u_id created_by (users d) \<and> ref_ok sp_id space_id (spaces d))
         then Inl ForeignKeyViolation
         else case add_members (d\<lparr>channels := channels d @ [ch]\<rparr>) new_id
                     (map (\<lambda>mid. (mid, if \<not> is_direct \<and> mid = created_by then ''admin'' else default_role))
                        member_ids) of
                Inl e \<Rightarrow> Inl e
              | Inr d' \<Rightarrow> Inr (ch, d'))"

section \<open>Wiki access\<close>

definition find_wiki_page :: "db \<Rightarrow> string \<Rightarrow> wiki_page option" where
  "find_wiki_page d i = first_row (filter (\<lambda>p. wp_id p = i) (wiki_pages d))"

text \<open>\<open>has_resource_permission_in_space\<close> for the tool type \<open>wiki\<close>.\<close>

definition has_wiki_permission_in_space :: "db \<Rightarrow> string \<Rightarrow> string \<Rightarrow> bool" where
  "has_wiki_permission_in_space d space_id user_id =
     (list_ex (\<lambda>p. wk_space_id p = space_id \<and> wk_user_id p = user_id) (wiki_permissions d)
      \<or> list_ex (\<lambda>q. wpp_user_id q = user_id
           \<and> list_ex (\<lambda>p. wp_id p = wpp_page_id q \<and> wp_space_id p = space_id) (wiki_pages d))
          (wiki_page_permissions d))"

definition can_access_wiki_page :: "db \<Rightarrow> string \<Rightarrow> string \<Rightarrow> bool" where
  "can_access_wiki_page d page_id user_id =
     (case find_wiki_page d page_id of
        None \<Rightarrow> False
      | Some page \<Rightarrow>
          if wp_is_deleted page then False
          else if is_space_member d (wp_space_id page) user_id then True
          else if (case find_user_by_id d user_id of
                     Some u \<Rightarrow> is_admin_role (u_role u) | None \<Rightarrow> False) then True
          else (case find_space_by_id d (wp_space_id page) of
                  Some sp \<Rightarrow> sp_is_personal sp
                    \<and> has_wiki_permission_in_space d (wp_space_id page) user_id
                | None \<Rightarrow> False))"

end
