(* ===== verification/Guards.thy ===== *)
theory Guards
  imports Http_Utils Json Access
begin

text \<open>
  What stands between a request and a handler (\<open>handlers/handler_utils.h\<close>): the session check with
  its role variants, the cookies that a login sets, and the settings that login reads.
\<close>

section \<open>Session checks\<close>

text \<open>\<open>Inl\<close> is the response that was sent (the C++ function then returns an empty id), \<open>Inr\<close> the user.\<close>

definition unauthorized :: http_response where
  "unauthorized = error_response ''401'' ''Unauthorized''"

definition validate_session_or_401 :: "db \<Rightarrow> time \<Rightarrow> http_request \<Rightarrow> http_response + string" where
  "validate_session_or_401 d now req =
     (case validate_session d now (extract_session_token req) of
        None \<Rightarrow> Inl unauthorized
      | Some user_id \<Rightarrow>
          if is_state_changing_method (req_method req) \<and> \<not> csrf_ok req then Inl send_csrf_403
          else Inr user_id)"

definition validate_admin_or_403 :: "db \<Rightarrow> time \<Rightarrow> http_request \<Rightarrow> http_response + string" where
  "validate_admin_or_403 d now req =
     (case validate_session d now (extract_session_token req) of
        None \<Rightarrow> Inl unauthorized
      | Some user_id \<Rightarrow>
          if is_state_changing_method (req_method req) \<and> \<not> csrf_ok req then Inl send_csrf_403
          else case find_user_by_id d user_id of
                 None \<Rightarrow> Inl (error_response ''403'' ''Admin access required'')
               | Some user \<Rightarrow>
                   if u_role user \<noteq> ''admin'' \<and> u_role user \<noteq> ''owner''
                   then Inl (error_response ''403'' ''Admin access required'')
                   else Inr user_id)"

definition validate_owner_or_403 :: "db \<Rightarrow> time \<Rightarrow> http_request \<Rightarrow> http_response + string" where
  "validate_owner_or_403 d now req =
     (case validate_session d now (extract_session_token req) of
        None \<Rightarrow> Inl unauthorized
      | Some user_id \<Rightarrow>
          if is_state_changing_method (req_method req) \<and> \<not> csrf_ok req then Inl send_csrf_403
          else case find_user_by_id d user_id of
                 None \<Rightarrow> Inl (error_response ''403'' ''Owner access required'')
               | Some user \<Rightarrow>
                   if u_role user \<noteq> ''owner''
                   then Inl (error_response ''403'' ''Owner access required'')
                   else Inr user_id)"

section \<open>Cookies of a login\<close>

text \<open>The two \<open>Set-Cookie\<close> headers; \<open>csrf\<close> is the fresh token of \<open>make_csrf_token\<close>.\<close>

definition emit_session_cookies :: "string \<Rightarrow> string \<Rightarrow> int \<Rightarrow> bool \<Rightarrow> string list" where
  "emit_session_cookies csrf session_token max_age_seconds secure =
     (let secure_attr = (if secure then ''; Secure'' else '''')
      in [''session='' @ session_token @ ''; HttpOnly'' @ secure_attr
            @ ''; SameSite=Strict; Path=/; Max-Age='' @ int_str max_age_seconds,
          ''csrf='' @ csrf @ secure_attr
            @ ''; SameSite=Strict; Path=/; Max-Age='' @ int_str max_age_seconds])"

definition emit_clear_session_cookies :: "string list" where
  "emit_clear_session_cookies =
     [''session=; HttpOnly; Path=/; Max-Age=0'', ''csrf=; Path=/; Max-Age=0'']"

text \<open>What a browser keeps of a \<open>Set-Cookie\<close> header is the pair before the first semicolon.\<close>

definition cookie_pair :: "string \<Rightarrow> string" where
  "cookie_pair header = takeWhile not_semi header"

section \<open>Settings\<close>

text \<open>\<open>parse\<close> is the JSON library's parser, \<open>None\<close> when it throws.\<close>

definition parse_auth_methods_setting :: "(string \<Rightarrow> json option) \<Rightarrow> string option \<Rightarrow> json" where
  "parse_auth_methods_setting parse setting =
     (let auth_methods = JArray [JString ''passkey'', JString ''pki'']
      in case setting of
           None \<Rightarrow> auth_methods
         | Some s \<Rightarrow>
             (case parse s of
                Some (JArray xs) \<Rightarrow> JArray xs
              | _ \<Rightarrow> auth_methods))"

fun auth_methods_include :: "json \<Rightarrow> string \<Rightarrow> bool" where
  "auth_methods_include (JArray items) method = list_ex (\<lambda>i. json_string i = Some method) items"
| "auth_methods_include _ method = False"

definition get_auth_methods :: "(string \<Rightarrow> json option) \<Rightarrow> db \<Rightarrow> json" where
  "get_auth_methods parse d = parse_auth_methods_setting parse (get_setting d ''auth_methods'')"

definition is_auth_method_enabled :: "(string \<Rightarrow> json option) \<Rightarrow> db \<Rightarrow> string \<Rightarrow> bool" where
  "is_auth_method_enabled parse d method = auth_methods_include (get_auth_methods parse d) method"

definition get_session_expiry :: "db \<Rightarrow> int \<Rightarrow> int" where
  "get_session_expiry d config_hours =
     parse_int_setting_or (get_setting d ''session_expiry_hours'') config_hours"

section \<open>Lemmas\<close>

lemma validate_session_or_401_iff:
  "validate_session_or_401 d now req = Inr i \<longleftrightarrow>
     validate_session d now (extract_session_token req) = Some i
     \<and> (is_state_changing_method (req_method req) \<longrightarrow> csrf_ok req)"
  by (auto simp: validate_session_or_401_def split: option.splits if_splits)

lemma validate_admin_or_403_iff:
  "validate_admin_or_403 d now req = Inr i \<longleftrightarrow>
     validate_session_or_401 d now req = Inr i
     \<and> (\<exists>u. find_user_by_id d i = Some u \<and> is_admin_role (u_role u))"
  by (auto simp: validate_session_or_401_iff validate_admin_or_403_def split: option.splits if_splits)

lemma validate_owner_or_403_iff:
  "validate_owner_or_403 d now req = Inr i \<longleftrightarrow>
     validate_session_or_401 d now req = Inr i
     \<and> (\<exists>u. find_user_by_id d i = Some u \<and> u_role u = ''owner'')"
  by (auto simp: validate_session_or_401_iff validate_owner_or_403_def split: option.splits if_splits)

lemma csrf_ok_iff:
  "csrf_ok req \<longleftrightarrow> req_header req ''x-csrf-token'' \<noteq> []
     \<and> cookie_lookup ''csrf='' (req_header req ''cookie'') = Some (req_header req ''x-csrf-token'')"
  using cookie_lookup_Nil [OF key_ok_csrf]
  by (auto simp: csrf_ok_def Let_def cookie_scan_lookup [OF key_ok_csrf] split: option.splits)

lemma extract_session_token_eq:
  "extract_session_token req =
     (case cookie_lookup ''session='' (req_header req ''cookie'') of None \<Rightarrow> '''' | Some v \<Rightarrow> v)"
  using cookie_lookup_Nil [OF key_ok_session]
  by (auto simp: extract_session_token_def Let_def cookie_scan_lookup [OF key_ok_session])

lemma cookie_pair_session:
  "list_all not_semi token \<Longrightarrow>
     cookie_pair (emit_session_cookies csrf token age secure ! 0) = ''session='' @ token"
proof -
  assume "list_all not_semi token"
  then have "list_all not_semi (''session='' @ token)" by (simp add: not_semi_def)
  moreover have "emit_session_cookies csrf token age secure ! 0
      = (''session='' @ token) @ CHR '';'' # drop 1 (''; HttpOnly'' @ (if secure then ''; Secure'' else '''')
            @ ''; SameSite=Strict; Path=/; Max-Age='' @ int_str age)"
    by (simp add: emit_session_cookies_def)
  ultimately show ?thesis
    unfolding cookie_pair_def by (simp add: takeWhile_append list_all_iff not_semi_def)
qed

lemma cookie_pair_csrf:
  "list_all not_semi csrf \<Longrightarrow>
     cookie_pair (emit_session_cookies csrf token age secure ! 1) = ''csrf='' @ csrf"
proof -
  assume "list_all not_semi csrf"
  then have "list_all not_semi (''csrf='' @ csrf)" by (simp add: not_semi_def)
  moreover have "emit_session_cookies csrf token age secure ! 1
      = (''csrf='' @ csrf) @ CHR '';'' # drop 1 ((if secure then ''; Secure'' else '''')
            @ ''; SameSite=Strict; Path=/; Max-Age='' @ int_str age)"
    by (simp add: emit_session_cookies_def)
  ultimately show ?thesis
    unfolding cookie_pair_def by (simp add: takeWhile_append list_all_iff not_semi_def)
qed

lemma lookup_pair_hit:
  assumes "key_ok key" and "list_all not_semi v" and "rest = [] \<or> hd rest = CHR '';''"
  shows "cookie_lookup key (key @ v @ rest) = Some v"
proof -
  have key: "list_all not_semi key" "key \<noteq> []" "hd key \<noteq> CHR '' ''" using assms(1) by (simp_all add: key_ok_def)
  have "takeWhile not_semi (key @ v @ rest) = key @ v"
    using assms(2,3) key(1) by (cases rest) (auto simp: takeWhile_append list_all_iff not_semi_def)
  moreover have "dropWhile (\<lambda>c. c = CHR '' '') (key @ v) = key @ v"
    using key(2,3) by (cases key) auto
  ultimately show ?thesis
    by (simp add: cookie_lookup_unfold [of key "key @ v @ rest"] Let_def starts_with_iff)
qed

lemma lookup_pair_miss:
  assumes "list_all not_semi pair" and "pair \<noteq> []" and "hd pair \<noteq> CHR '' ''" and "\<not> starts_with key pair"
  shows "cookie_lookup key (pair @ ''; '' @ rest) = cookie_lookup key rest"
proof -
  have "takeWhile not_semi (pair @ ''; '' @ rest) = pair"
    and "dropWhile not_semi (pair @ ''; '' @ rest) = ''; '' @ rest"
    using assms(1) by (auto simp: takeWhile_append dropWhile_append list_all_iff not_semi_def)
  moreover have "dropWhile (\<lambda>c. c = CHR '' '') pair = pair" using assms(2,3) by (cases pair) auto
  ultimately show ?thesis
    using assms(4) by (subst cookie_lookup_unfold) (simp add: Let_def cookie_lookup_space)
qed

section \<open>Properties\<close>

text \<open>The cookies of a login work: a browser that sends them back, in the order they were set, with
  the CSRF token as header, passes the session check exactly as long as the session is valid.\<close>

theorem login_cookies_accepted:
  assumes "list_all not_semi token" and "list_all not_semi csrf" and "csrf \<noteq> []"
    and "cookies = emit_session_cookies csrf token age secure"
    and "req_header req ''cookie'' = cookie_pair (cookies ! 0) @ ''; '' @ cookie_pair (cookies ! 1)"
    and "req_header req ''x-csrf-token'' = csrf"
  shows "validate_session_or_401 d now req =
    (case validate_session d now token of None \<Rightarrow> Inl unauthorized | Some i \<Rightarrow> Inr i)"
proof -
  let ?cookie = "req_header req ''cookie''"
  have header: "?cookie = (''session='' @ token) @ ''; '' @ ''csrf='' @ csrf @ []"
    using assms(1,2,4,5) by (simp only: cookie_pair_session cookie_pair_csrf append_Nil2)
  have session: "cookie_lookup ''session='' ?cookie = Some token"
    unfolding header using lookup_pair_hit [OF key_ok_session assms(1), of "''; '' @ ''csrf='' @ csrf @ []"]
    by simp
  have "list_all not_semi (''session='' @ token)" "\<not> starts_with ''csrf='' (''session='' @ token)"
    using assms(1) by (simp_all add: not_semi_def starts_with_iff)
  then have "cookie_lookup ''csrf='' ?cookie = cookie_lookup ''csrf='' (''csrf='' @ csrf @ [])"
    unfolding header by (intro lookup_pair_miss) simp_all
  also have "\<dots> = Some csrf"
    using lookup_pair_hit [OF key_ok_csrf assms(2), of "[]"] by simp
  finally have "csrf_ok req" using assms(3,6) by (simp add: csrf_ok_iff)
  then show ?thesis
    using session
    by (auto simp: validate_session_or_401_def extract_session_token_eq split: option.splits)
qed

theorem login_cookies_accepted_witness:
  "validate_session_or_401 example_db 0
     \<lparr>req_method = ''post'',
      req_header = (\<lambda>h. if h = ''cookie'' then ''session=t2; csrf=0f3a''
                        else if h = ''x-csrf-token'' then ''0f3a'' else '''')\<rparr> = Inr ''u2''"
proof -
  let ?req = "\<lparr>req_method = ''post'',
      req_header = (\<lambda>h. if h = ''cookie'' then ''session=t2; csrf=0f3a''
                        else if h = ''x-csrf-token'' then ''0f3a'' else '''')\<rparr>"
  let ?cookies = "emit_session_cookies ''0f3a'' ''t2'' 3600 True"
  have "req_header ?req ''cookie'' = cookie_pair (?cookies ! 0) @ ''; '' @ cookie_pair (?cookies ! 1)"
    by (simp add: cookie_pair_session [unfolded One_nat_def] cookie_pair_csrf [unfolded One_nat_def] not_semi_def)
  then have "validate_session_or_401 example_db 0 ?req =
      (case validate_session example_db 0 ''t2'' of None \<Rightarrow> Inl unauthorized | Some i \<Rightarrow> Inr i)"
    by (intro login_cookies_accepted [OF _ _ _ refl, where token = "''t2''" and csrf = "''0f3a''"]) (simp_all add: not_semi_def)
  also have "validate_session example_db 0 ''t2'' = Some ''u2''" by code_simp
  finally show ?thesis by simp
qed




end
