(* ===== verification/Auth_Db.thy ===== *)
theory Auth_Db
  imports Database
begin

text \<open>
  The \<open>Database\<close> methods behind authentication: passwords and their history, one-time-code secrets,
  pending second factors, invites, recovery keys and recovery tokens (\<open>db/database.cpp\<close>).
\<close>

section \<open>Passwords\<close>

definition store_password :: "db \<Rightarrow> time \<Rightarrow> string \<Rightarrow> string \<Rightarrow> db_error + db" where
  "store_password d now user_id password_hash =
     (let d1 = d\<lparr>password_credentials := filter (\<lambda>p. pw_user_id p \<noteq> user_id) (password_credentials d)\<rparr>
      in if \<not> has_key u_id user_id (users d1) then Inl ForeignKeyViolation
         else Inr (d1\<lparr>password_credentials := password_credentials d1 @
                [\<lparr>pw_user_id = user_id, pw_hash = password_hash, pw_created_at = now\<rparr>]\<rparr>))"

definition get_password_hash :: "db \<Rightarrow> string \<Rightarrow> string option" where
  "get_password_hash d user_id =
     map_option pw_hash (first_row (filter (\<lambda>p. pw_user_id p = user_id) (password_credentials d)))"

definition add_password_history :: "db \<Rightarrow> time \<Rightarrow> string \<Rightarrow> string \<Rightarrow> db_error + db" where
  "add_password_history d now user_id password_hash =
     (if \<not> has_key u_id user_id (users d) then Inl ForeignKeyViolation
      else Inr (d\<lparr>password_history := password_history d @
             [\<lparr>pw_user_id = user_id, pw_hash = password_hash, pw_created_at = now\<rparr>]\<rparr>))"

text \<open>The newest \<open>count\<close> rows first; rows of one instant come in the reverse order of insertion.\<close>

definition get_password_history :: "db \<Rightarrow> string \<Rightarrow> int \<Rightarrow> string list" where
  "get_password_history d user_id count =
     map pw_hash (take (nat count)
       (rev (sort_key pw_created_at (filter (\<lambda>p. pw_user_id p = user_id) (password_history d)))))"

definition has_password :: "db \<Rightarrow> string \<Rightarrow> bool" where
  "has_password d user_id \<longleftrightarrow>
     length (filter (\<lambda>p. pw_user_id p = user_id) (password_credentials d)) > 0"

definition delete_password :: "db \<Rightarrow> string \<Rightarrow> db" where
  "delete_password d user_id =
     d\<lparr>password_credentials := filter (\<lambda>p. pw_user_id p \<noteq> user_id) (password_credentials d),
       password_history := filter (\<lambda>p. pw_user_id p \<noteq> user_id) (password_history d)\<rparr>"

definition is_password_expired :: "db \<Rightarrow> time \<Rightarrow> string \<Rightarrow> int \<Rightarrow> bool" where
  "is_password_expired d now user_id max_age_days =
     (if max_age_days \<le> 0 then False
      else length (filter (\<lambda>p. pw_user_id p = user_id
             \<and> pw_created_at p < now - hours (24 * max_age_days)) (password_credentials d)) > 0)"

definition count_user_credentials :: "db \<Rightarrow> string \<Rightarrow> int" where
  "count_user_credentials d user_id =
     int (length (filter (\<lambda>c. pk_user_id c = user_id) (webauthn_credentials d)))
     + int (length (filter (\<lambda>c. pi_user_id c = user_id) (pki_credentials d)))"

section \<open>One-time-code secrets\<close>

definition store_totp_secret :: "db \<Rightarrow> string \<Rightarrow> string \<Rightarrow> db_error + db" where
  "store_totp_secret d user_id secret =
     (let d1 = d\<lparr>totp_credentials := filter (\<lambda>c. tc_user_id c \<noteq> user_id) (totp_credentials d)\<rparr>
      in if \<not> has_key u_id user_id (users d1) then Inl ForeignKeyViolation
         else Inr (d1\<lparr>totp_credentials := totp_credentials d1 @
                [\<lparr>tc_user_id = user_id, tc_secret = secret, tc_verified = False, tc_last_step = None\<rparr>]\<rparr>))"

definition get_totp_secret :: "db \<Rightarrow> string \<Rightarrow> string option" where
  "get_totp_secret d user_id =
     map_option tc_secret
       (first_row (filter (\<lambda>c. tc_user_id c = user_id \<and> tc_verified c) (totp_credentials d)))"

definition get_unverified_totp_secret :: "db \<Rightarrow> string \<Rightarrow> string option" where
  "get_unverified_totp_secret d user_id =
     map_option tc_secret (first_row (filter (\<lambda>c. tc_user_id c = user_id) (totp_credentials d)))"

definition update_totp :: "string \<Rightarrow> (totp_credential \<Rightarrow> totp_credential) \<Rightarrow> db \<Rightarrow> db" where
  "update_totp user_id f d =
     d\<lparr>totp_credentials := map (\<lambda>c. if tc_user_id c = user_id then f c else c) (totp_credentials d)\<rparr>"

definition verify_totp :: "db \<Rightarrow> string \<Rightarrow> db" where
  "verify_totp d user_id = update_totp user_id (\<lambda>c. c\<lparr>tc_verified := True\<rparr>) d"

definition delete_totp :: "db \<Rightarrow> string \<Rightarrow> db" where
  "delete_totp d user_id =
     d\<lparr>totp_credentials := filter (\<lambda>c. tc_user_id c \<noteq> user_id) (totp_credentials d)\<rparr>"

definition has_totp :: "db \<Rightarrow> string \<Rightarrow> bool" where
  "has_totp d user_id \<longleftrightarrow>
     length (filter (\<lambda>c. tc_user_id c = user_id \<and> tc_verified c) (totp_credentials d)) > 0"

definition get_totp_last_step :: "db \<Rightarrow> string \<Rightarrow> int option" where
  "get_totp_last_step d user_id =
     (case first_row (filter (\<lambda>c. tc_user_id c = user_id) (totp_credentials d)) of
        None \<Rightarrow> None | Some c \<Rightarrow> tc_last_step c)"

definition set_totp_last_step :: "db \<Rightarrow> string \<Rightarrow> int \<Rightarrow> bool \<times> db" where
  "set_totp_last_step d user_id step =
     (length (filter (\<lambda>c. tc_user_id c = user_id) (totp_credentials d)) = 1,
      update_totp user_id (\<lambda>c. c\<lparr>tc_last_step := Some step\<rparr>) d)"

section \<open>Pending second factors\<close>

definition create_mfa_pending_token ::
  "db \<Rightarrow> string \<Rightarrow> time \<Rightarrow> string \<Rightarrow> string \<Rightarrow> int \<Rightarrow> db_error + string \<times> db" where
  "create_mfa_pending_token d new_id now user_id auth_method expiry_seconds =
     (let d1 = d\<lparr>mfa_pending_tokens := filter (\<lambda>t. mt_user_id t \<noteq> user_id) (mfa_pending_tokens d)\<rparr>
      in if \<not> has_key u_id user_id (users d1) then Inl ForeignKeyViolation
         else if has_key mt_id new_id (mfa_pending_tokens d1) then Inl UniqueViolation
         else Inr (new_id, d1\<lparr>mfa_pending_tokens := mfa_pending_tokens d1 @
                [\<lparr>mt_id = new_id, mt_user_id = user_id, mt_auth_method = auth_method,
                  mt_expires_at = now + expiry_seconds * 1000000\<rparr>]\<rparr>))"

definition validate_mfa_pending_token :: "db \<Rightarrow> time \<Rightarrow> string \<Rightarrow> (string \<times> string) option" where
  "validate_mfa_pending_token d now token =
     map_option (\<lambda>t. (mt_user_id t, mt_auth_method t))
       (first_row (filter (\<lambda>t. mt_id t = token \<and> mt_expires_at t > now) (mfa_pending_tokens d)))"

definition delete_mfa_pending_token :: "db \<Rightarrow> string \<Rightarrow> db" where
  "delete_mfa_pending_token d token =
     d\<lparr>mfa_pending_tokens := filter (\<lambda>t. mt_id t \<noteq> token) (mfa_pending_tokens d)\<rparr>"

definition cleanup_expired_mfa_tokens :: "db \<Rightarrow> time \<Rightarrow> db" where
  "cleanup_expired_mfa_tokens d now =
     d\<lparr>mfa_pending_tokens := filter (\<lambda>t. \<not> mt_expires_at t < now) (mfa_pending_tokens d)\<rparr>"

section \<open>Invites\<close>

definition create_invite ::
  "db \<Rightarrow> string \<Rightarrow> string \<Rightarrow> time \<Rightarrow> string \<Rightarrow> int \<Rightarrow> int \<Rightarrow> db_error + string \<times> db" where
  "create_invite d new_id token now created_by expiry_hours max_uses =
     (if has_key iv_token token (invite_tokens d) \<or> has_key iv_id new_id (invite_tokens d)
      then Inl UniqueViolation
      else if \<not> has_key u_id created_by (users d) then Inl ForeignKeyViolation
      else Inr (token, d\<lparr>invite_tokens := invite_tokens d @
             [\<lparr>iv_id = new_id, iv_token = token, iv_created_by = created_by, iv_used_by = '''',
               iv_used_at = None, iv_created_at = now, iv_expires_at = now + hours expiry_hours,
               iv_max_uses = max_uses, iv_use_count = 0\<rparr>]\<rparr>))"

definition validate_invite :: "db \<Rightarrow> time \<Rightarrow> string \<Rightarrow> bool" where
  "validate_invite d now token \<longleftrightarrow>
     filter (\<lambda>i. iv_token i = token \<and> iv_expires_at i > now
       \<and> (iv_max_uses i = 0 \<or> iv_use_count i < iv_max_uses i)) (invite_tokens d) \<noteq> []"

definition use_invite :: "db \<Rightarrow> time \<Rightarrow> string \<Rightarrow> string \<Rightarrow> db_error + db" where
  "use_invite d now token user_id =
     (let d1 = d\<lparr>invite_tokens := map (\<lambda>i. if iv_token i = token
                  then i\<lparr>iv_use_count := iv_use_count i + 1, iv_used_by := user_id, iv_used_at := Some now\<rparr>
                  else i) (invite_tokens d)\<rparr>
      in case first_row (filter (\<lambda>i. iv_token i = token) (invite_tokens d1)) of
           None \<Rightarrow> Inr d1
         | Some i \<Rightarrow>
             if \<not> has_key u_id user_id (users d) then Inl ForeignKeyViolation
             else Inr (d1\<lparr>invite_uses := invite_uses d1 @
                    [\<lparr>iu_invite_id = iv_id i, iu_used_by = user_id, iu_used_at = now\<rparr>]\<rparr>))"

text \<open>Uses of a deleted invite go with it (\<open>ON DELETE CASCADE\<close>).\<close>

definition revoke_invite :: "db \<Rightarrow> string \<Rightarrow> bool \<times> db" where
  "revoke_invite d i =
     (let gone = (\<lambda>v. iv_id v = i \<and> (iv_max_uses v \<noteq> 1 \<or> iv_use_count v = 0))
      in (filter gone (invite_tokens d) \<noteq> [],
          d\<lparr>invite_tokens := filter (\<lambda>v. \<not> gone v) (invite_tokens d),
            invite_uses := filter (\<lambda>u. \<not> list_ex (\<lambda>v. gone v \<and> iv_id v = iu_invite_id u)
              (invite_tokens d)) (invite_uses d)\<rparr>))"

section \<open>Recovery\<close>

text \<open>\<open>ids\<close> are the generated keys of the new rows.\<close>

definition store_recovery_keys :: "db \<Rightarrow> string list \<Rightarrow> string \<Rightarrow> string list \<Rightarrow> db_error + db" where
  "store_recovery_keys d ids user_id key_hashes =
     (if key_hashes \<noteq> [] \<and> \<not> has_key u_id user_id (users d) then Inl ForeignKeyViolation
      else Inr (d\<lparr>recovery_keys := recovery_keys d @
             map (\<lambda>(i, h). \<lparr>rk_id = i, rk_user_id = user_id, rk_key_hash = h, rk_used = False\<rparr>)
               (zip ids key_hashes)\<rparr>))"

definition verify_and_consume_recovery_key :: "db \<Rightarrow> string \<Rightarrow> string option \<times> db" where
  "verify_and_consume_recovery_key d key_hash =
     (case first_row (filter (\<lambda>k. rk_key_hash k = key_hash \<and> \<not> rk_used k) (recovery_keys d)) of
        None \<Rightarrow> (None, d)
      | Some k \<Rightarrow> (Some (rk_user_id k),
          d\<lparr>recovery_keys := map (\<lambda>r. if rk_id r = rk_id k then r\<lparr>rk_used := True\<rparr> else r)
             (recovery_keys d)\<rparr>))"

definition count_remaining_recovery_keys :: "db \<Rightarrow> string \<Rightarrow> int" where
  "count_remaining_recovery_keys d user_id =
     int (length (filter (\<lambda>k. rk_user_id k = user_id \<and> \<not> rk_used k) (recovery_keys d)))"

definition delete_recovery_keys :: "db \<Rightarrow> string \<Rightarrow> db" where
  "delete_recovery_keys d user_id =
     d\<lparr>recovery_keys := filter (\<lambda>k. rk_user_id k \<noteq> user_id) (recovery_keys d)\<rparr>"

definition create_recovery_token ::
  "db \<Rightarrow> string \<Rightarrow> string \<Rightarrow> time \<Rightarrow> string \<Rightarrow> string \<Rightarrow> int \<Rightarrow> db_error + string \<times> db" where
  "create_recovery_token d new_id token now created_by for_user_id expiry_hours =
     (if has_key rt_token token (recovery_tokens d) \<or> has_key rt_id new_id (recovery_tokens d)
      then Inl UniqueViolation
      else if \<not> (has_key u_id created_by (users d) \<and> has_key u_id for_user_id (users d))
      then Inl ForeignKeyViolation
      else Inr (token, d\<lparr>recovery_tokens := recovery_tokens d @
             [\<lparr>rt_id = new_id, rt_token = token, rt_created_by = created_by, rt_for_user_id = for_user_id,
               rt_used = False, rt_used_at = None, rt_expires_at = now + hours expiry_hours,
               rt_created_at = now\<rparr>]\<rparr>))"

definition get_recovery_token_user_id :: "db \<Rightarrow> time \<Rightarrow> string \<Rightarrow> string option" where
  "get_recovery_token_user_id d now token =
     map_option rt_for_user_id (first_row (filter (\<lambda>t. rt_token t = token \<and> \<not> rt_used t
        \<and> rt_expires_at t > now) (recovery_tokens d)))"

definition use_recovery_token :: "db \<Rightarrow> time \<Rightarrow> string \<Rightarrow> db" where
  "use_recovery_token d now token =
     d\<lparr>recovery_tokens := map (\<lambda>t. if rt_token t = token
        then t\<lparr>rt_used := True, rt_used_at := Some now\<rparr> else t) (recovery_tokens d)\<rparr>"

definition delete_recovery_token :: "db \<Rightarrow> string \<Rightarrow> bool \<times> db" where
  "delete_recovery_token d i =
     (filter (\<lambda>t. rt_id t = i \<and> \<not> rt_used t) (recovery_tokens d) \<noteq> [],
      d\<lparr>recovery_tokens := filter (\<lambda>t. \<not> (rt_id t = i \<and> \<not> rt_used t)) (recovery_tokens d)\<rparr>)"

section \<open>Lemmas\<close>

lemma first_row_simps [simp]: "first_row [] = None" "first_row (x # xs) = Some x"
  by (simp_all add: first_row_def)

lemma first_row_only: "filter P xs = [] \<Longrightarrow> P x \<Longrightarrow> first_row (filter P (xs @ [x])) = Some x"
  by (simp add: first_row_def)

lemma filter_other: "i \<noteq> j \<Longrightarrow> filter (\<lambda>x. key x \<noteq> i \<and> key x = j) xs = filter (\<lambda>x. key x = j) xs"
  by (rule filter_cong) auto

lemma get_password_after_store:
  assumes "store_password d now i h = Inr d'"
  shows "get_password_hash d' j = (if j = i then Some h else get_password_hash d j)"
proof -
  have "password_credentials d' = filter (\<lambda>p. pw_user_id p \<noteq> i) (password_credentials d)
        @ [\<lparr>pw_user_id = i, pw_hash = h, pw_created_at = now\<rparr>]"
    using assms by (auto simp: store_password_def Let_def split: if_splits)
  then show ?thesis
    by (auto simp: get_password_hash_def filter_other first_row_def)
qed

lemma get_password_store_other_tables:
  "store_password d now i h = Inr d' \<Longrightarrow>
     users d' = users d \<and> sessions d' = sessions d \<and> password_history d' = password_history d"
  by (auto simp: store_password_def Let_def split: if_splits)

lemma has_password_iff: "has_password d i \<longleftrightarrow> get_password_hash d i \<noteq> None"
  by (auto simp: has_password_def get_password_hash_def filter_empty_conv)

lemma has_totp_iff: "has_totp d i \<longleftrightarrow> get_totp_secret d i \<noteq> None"
  by (auto simp: has_totp_def get_totp_secret_def filter_empty_conv)

lemma totp_secret_unverified_None:
  "get_unverified_totp_secret d i = None \<Longrightarrow> get_totp_secret d i = None"
  by (auto simp: get_unverified_totp_secret_def get_totp_secret_def filter_empty_conv)

lemma totp_after_store:
  assumes "store_totp_secret d i s = Inr d'"
  shows "get_unverified_totp_secret d' i = Some s" and "get_totp_secret d' i = None"
    and "get_totp_last_step d' i = None"
  using assms
  by (auto simp: store_totp_secret_def get_unverified_totp_secret_def get_totp_secret_def
      get_totp_last_step_def Let_def first_row_snoc filter_empty_conv first_row_def split: if_splits)

lemma totp_verified_after_verify:
  "get_totp_secret (verify_totp d i) i = get_unverified_totp_secret d i"
proof -
  have "filter (\<lambda>c. tc_user_id c = i \<and> tc_verified c)
          (map (\<lambda>c. if tc_user_id c = i then c\<lparr>tc_verified := True\<rparr> else c) cs)
      = map (\<lambda>c. c\<lparr>tc_verified := True\<rparr>) (filter (\<lambda>c. tc_user_id c = i) cs)" for cs :: "totp_credential list"
    by (induction cs) auto
  then have "first_row (filter (\<lambda>c. tc_user_id c = i \<and> tc_verified c) (totp_credentials (verify_totp d i)))
      = map_option (\<lambda>c. c\<lparr>tc_verified := True\<rparr>)
          (first_row (filter (\<lambda>c. tc_user_id c = i) (totp_credentials d)))"
    by (simp add: verify_totp_def update_totp_def first_row_map)
  then show ?thesis
    by (simp add: get_totp_secret_def get_unverified_totp_secret_def option.map_comp comp_def)
qed

lemma last_step_after_set:
  "get_totp_last_step (snd (set_totp_last_step d i n)) i =
     (if get_unverified_totp_secret d i = None then None else Some n)"
proof -
  have "filter (\<lambda>c. tc_user_id c = i)
          (map (\<lambda>c. if tc_user_id c = i then c\<lparr>tc_last_step := Some n\<rparr> else c) cs)
      = map (\<lambda>c. c\<lparr>tc_last_step := Some n\<rparr>) (filter (\<lambda>c. tc_user_id c = i) cs)" for cs :: "totp_credential list"
    by (induction cs) auto
  then show ?thesis
    by (auto simp: get_totp_last_step_def set_totp_last_step_def update_totp_def
        get_unverified_totp_secret_def first_row_map split: option.splits)
qed

lemma mfa_token_consumed:
  "validate_mfa_pending_token (delete_mfa_pending_token d t) now t = None"
  by (auto simp: validate_mfa_pending_token_def delete_mfa_pending_token_def filter_empty_conv)

lemma mfa_token_created:
  assumes "create_mfa_pending_token d i now u m n = Inr (t, d')" and "n > 0"
  shows "t = i" and "validate_mfa_pending_token d' now t = Some (u, m)"
proof -
  let ?old = "filter (\<lambda>t. mt_user_id t \<noteq> u) (mfa_pending_tokens d)"
  let ?new = "\<lparr>mt_id = i, mt_user_id = u, mt_auth_method = m, mt_expires_at = now + n * 1000000\<rparr>"
  have d': "t = i" "mfa_pending_tokens d' = ?old @ [?new]" "\<not> has_key mt_id i ?old"
    using assms(1) by (auto simp: create_mfa_pending_token_def Let_def split: if_splits)
  have "filter (\<lambda>t. mt_id t = i \<and> mt_expires_at t > now) ?old = []"
    using d'(3) unfolding has_key_iff filter_empty_conv by blast
  then have "first_row (filter (\<lambda>t. mt_id t = i \<and> mt_expires_at t > now) (mfa_pending_tokens d')) = Some ?new"
    unfolding d'(2) by (rule first_row_only) (use assms(2) in simp)
  then show "validate_mfa_pending_token d' now t = Some (u, m)"
    by (simp add: validate_mfa_pending_token_def d'(1))
  show "t = i" by (rule d'(1))
qed

lemma recovery_token_used:
  "get_recovery_token_user_id (use_recovery_token d now t) now' t = None"
proof -
  have "filter (\<lambda>x. rt_token x = t \<and> \<not> rt_used x \<and> rt_expires_at x > now')
      (map (\<lambda>x. if rt_token x = t then x\<lparr>rt_used := True, rt_used_at := Some now\<rparr> else x) xs) = []"
    for xs :: "recovery_token list"
    by (induction xs) auto
  then show ?thesis by (simp add: get_recovery_token_user_id_def use_recovery_token_def)
qed

text \<open>The primary key of the recovery keys makes each of them good for one login.\<close>

lemma recovery_key_consumed:
  assumes "verify_and_consume_recovery_key d h = (Some u, d')" and "distinct (map rk_id (recovery_keys d))"
  shows "length (filter (\<lambda>k. rk_key_hash k = h \<and> \<not> rk_used k) (recovery_keys d))
       = Suc (length (filter (\<lambda>k. rk_key_hash k = h \<and> \<not> rk_used k) (recovery_keys d')))"
proof -
  let ?P = "\<lambda>k. rk_key_hash k = h \<and> \<not> rk_used k"
  obtain k where k: "first_row (filter ?P (recovery_keys d)) = Some k"
    and d': "d' = d\<lparr>recovery_keys := map (\<lambda>r. if rk_id r = rk_id k then r\<lparr>rk_used := True\<rparr> else r)
                   (recovery_keys d)\<rparr>"
    using assms(1) by (auto simp: verify_and_consume_recovery_key_def split: option.splits)
  have "length (filter ?P ks) = Suc (length (filter ?P
          (map (\<lambda>r. if rk_id r = rk_id k then r\<lparr>rk_used := True\<rparr> else r) ks)))"
    if "k \<in> set ks" "?P k" "distinct (map rk_id ks)" for ks
    using that
  proof (induction ks)
    case (Cons a ks)
    show ?case
    proof (cases "a = k")
      case True
      then have "rk_id k \<notin> rk_id ` set ks" using Cons.prems(3) by auto
      then have "map (\<lambda>r. if rk_id r = rk_id k then r\<lparr>rk_used := True\<rparr> else r) ks = ks"
        by (intro map_idI) (metis image_eqI)
      with True Cons.prems(2) show ?thesis by simp
    next
      case False
      then have "k \<in> set ks" "rk_id a \<noteq> rk_id k" using Cons.prems by auto
      with Cons show ?thesis by simp
    qed
  qed simp
  moreover have "k \<in> set (recovery_keys d)" "?P k"
    using first_row_filter_Some [OF k] by auto
  ultimately show ?thesis using assms(2) d' by simp
qed


end
