(* ===== verification/Passwords.thy ===== *)
theory Passwords
  imports Http_Utils Json
begin

text \<open>
  Password policy and the pure decisions of the login flow: \<open>auth/password.cpp\<close> and
  \<open>handlers/auth_utils.cpp\<close>. Argon2 is a library: verification is the parameter \<open>verify\<close>
  (password, encoded hash).
\<close>

section \<open>Policy\<close>

record password_policy =
  min_length :: int
  require_uppercase :: bool
  require_lowercase :: bool
  require_number :: bool
  require_special :: bool
  max_age_days :: int
  history_count :: int

definition default_policy :: password_policy where
  "default_policy = \<lparr>min_length = 8, require_uppercase = True, require_lowercase = True,
     require_number = True, require_special = False, max_age_days = 0, history_count = 0\<rparr>"

definition build_password_policy :: "(string \<Rightarrow> string option) \<Rightarrow> password_policy" where
  "build_password_policy get_setting =
     (let p = default_policy
      in \<lparr>min_length = parse_int_setting_or (get_setting ''password_min_length'') (min_length p),
          require_uppercase = parse_bool_setting_or (get_setting ''password_require_uppercase'') (require_uppercase p),
          require_lowercase = parse_bool_setting_or (get_setting ''password_require_lowercase'') (require_lowercase p),
          require_number = parse_bool_setting_or (get_setting ''password_require_number'') (require_number p),
          require_special = parse_bool_setting_or (get_setting ''password_require_special'') (require_special p),
          max_age_days = parse_int_setting_or (get_setting ''password_max_age_days'') (max_age_days p),
          history_count = parse_int_setting_or (get_setting ''password_history_count'') (history_count p)\<rparr>)"

text \<open>The empty string means valid.\<close>

definition validate_password :: "string \<Rightarrow> password_policy \<Rightarrow> string" where
  "validate_password password policy =
     (if int (length password) < min_length policy
      then ''Password must be at least '' @ int_str (min_length policy) @ '' characters''
      else if require_uppercase policy \<and> \<not> list_ex is_upper password
      then ''Password must contain at least one uppercase letter''
      else if require_lowercase policy \<and> \<not> list_ex is_lower password
      then ''Password must contain at least one lowercase letter''
      else if require_number policy \<and> \<not> list_ex is_digit password
      then ''Password must contain at least one number''
      else if require_special policy \<and> \<not> list_ex (\<lambda>c. \<not> is_alnum c) password
      then ''Password must contain at least one special character''
      else '''')"

fun matches_history :: "(string \<Rightarrow> string \<Rightarrow> bool) \<Rightarrow> string \<Rightarrow> string list \<Rightarrow> bool" where
  "matches_history verify password [] = False"
| "matches_history verify password (hash # hashes) =
     (if verify password hash then True else matches_history verify password hashes)"

section \<open>Decisions of the login flow\<close>

definition is_required_setting_enabled :: "string option \<Rightarrow> bool" where
  "is_required_setting_enabled setting = parse_bool_setting_or setting False"

text \<open>Whether the login is handled by a second factor, and the response body.\<close>

definition build_mfa_decision :: "bool \<Rightarrow> bool \<Rightarrow> string \<Rightarrow> bool \<times> json" where
  "build_mfa_decision mfa_required user_has_totp mfa_token =
     (if \<not> mfa_required \<and> \<not> user_has_totp then (False, JObject [])
      else if mfa_required \<and> \<not> user_has_totp
      then (True, JObject [(''must_setup_totp'', JBool True), (''mfa_token'', JString mfa_token)])
      else (True, JObject [(''mfa_required'', JBool True), (''mfa_token'', JString mfa_token)]))"

definition registration_eligibility_message :: "bool \<Rightarrow> string \<Rightarrow> bool \<Rightarrow> bool \<Rightarrow> string" where
  "registration_eligibility_message is_first_user registration_mode has_invite_token invite_is_valid =
     (if is_first_user then ''''
      else if registration_mode = ''open'' then ''''
      else if registration_mode = ''approval''
      then ''This server requires admin approval. Please request access instead.''
      else if has_invite_token
      then (if invite_is_valid then '''' else ''Invalid or expired invite token'')
      else if registration_mode = ''invite_only''
      then ''This server requires an invite token to register.''
      else ''Invite token required. You can also request access below.'')"

section \<open>Lemmas\<close>

text \<open>A policy as a set of demands.\<close>

definition meets_policy :: "string \<Rightarrow> password_policy \<Rightarrow> bool" where
  "meets_policy password policy \<longleftrightarrow>
     min_length policy \<le> int (length password)
     \<and> (require_uppercase policy \<longrightarrow> (\<exists>c \<in> set password. is_upper c))
     \<and> (require_lowercase policy \<longrightarrow> (\<exists>c \<in> set password. is_lower c))
     \<and> (require_number policy \<longrightarrow> (\<exists>c \<in> set password. is_digit c))
     \<and> (require_special policy \<longrightarrow> (\<exists>c \<in> set password. \<not> is_alnum c))"

lemma validate_password_iff: "validate_password password policy = '''' \<longleftrightarrow> meets_policy password policy"
  by (auto simp: validate_password_def meets_policy_def list_ex_iff)

lemma matches_history_iff: "matches_history verify password hs \<longleftrightarrow> (\<exists>h \<in> set hs. verify password h)"
  by (induction hs) auto

lemma registration_open_iff:
  "registration_eligibility_message first mode has valid = '''' \<longleftrightarrow>
     first \<or> mode = ''open'' \<or> (mode \<noteq> ''approval'' \<and> has \<and> valid)"
  by (simp add: registration_eligibility_message_def)

end
