(* ===== verification/Encoding.thy ===== *)
theory Encoding
  imports Prelude
begin

unbundle bit_operations_syntax

text \<open>
  Base32 of \<open>auth/totp.cpp\<close> and base64url of \<open>auth/webauthn.cpp\<close>: the encoders and decoders with
  their 32-bit accumulators, and the round trips. All four loops shift bits through an
  accumulator; the locale \<open>bit_repacker\<close> states that once, on bit lists, and is interpreted for
  each of the four.
\<close>

section \<open>Bits, most significant first\<close>

definition bits_w :: "nat \<Rightarrow> 32 word \<Rightarrow> bool list" where
  "bits_w k w = map (bit w) (rev [0..<k])"

lemma length_bits_w [simp]: "length (bits_w k w) = k"
  by (simp add: bits_w_def)

lemma bits_w_0 [simp]: "bits_w 0 w = []"
  by (simp add: bits_w_def)

lemma nth_bits_w: "i < k \<Longrightarrow> bits_w k w ! i = bit w (k - 1 - i)"
  by (simp add: bits_w_def rev_nth rev_map)

lemma bits_w_eqI:
  "(\<And>i. i < k \<Longrightarrow> bit v i = bit w i) \<Longrightarrow> bits_w k v = bits_w k w"
  by (simp add: bits_w_def)

text \<open>Shifting \<open>j\<close> new bits in at the right appends them.\<close>

lemma bits_w_absorb:
  assumes "k + j \<le> 32" and "\<And>i. bit v i \<Longrightarrow> i < j"
  shows "bits_w (k + j) (push_bit j w OR v) = bits_w k w @ bits_w j v"
proof (rule nth_equalityI)
  fix i assume "i < length (bits_w (k + j) (push_bit j w OR v))"
  then have i: "i < k + j" by simp
  show "bits_w (k + j) (push_bit j w OR v) ! i = (bits_w k w @ bits_w j v) ! i"
  proof (cases "i < k")
    case True
    then have "\<not> bit v (k + j - 1 - i)" using assms(2) [of "k + j - 1 - i"] by linarith
    moreover have "k + j - 1 - i - j = k - 1 - i" using True by linarith
    ultimately show ?thesis
      using True i assms(1) by (auto simp: nth_bits_w nth_append bit_or_iff bit_push_bit_iff)
  next
    case False
    then have "k + j - 1 - i = j - 1 - (i - k)" "k + j - 1 - i < j" using i by linarith+
    with False i assms(1) show ?thesis
      by (auto simp: nth_bits_w nth_append bit_or_iff bit_push_bit_iff)
  qed
qed simp

text \<open>Reading \<open>j\<close> bits above the lowest \<open>b\<close> splits the pending bits.\<close>

lemma bits_w_split:
  assumes "\<And>i. i < j \<Longrightarrow> bit x i = bit w (b + i)"
  shows "bits_w (b + j) w = bits_w j x @ bits_w b w"
proof (rule nth_equalityI)
  fix i assume "i < length (bits_w (b + j) w)"
  then have i: "i < b + j" by simp
  show "bits_w (b + j) w ! i = (bits_w j x @ bits_w b w) ! i"
  proof (cases "i < j")
    case True
    then have "b + (j - 1 - i) = b + j - 1 - i" by linarith
    with True i show ?thesis using assms [of "j - 1 - i"]
      by (simp add: nth_bits_w nth_append)
  next
    case False
    then have "b + j - 1 - i = b - 1 - (i - j)" using i by linarith
    with False i show ?thesis by (auto simp: nth_bits_w nth_append)
  qed
qed simp

definition byte_w :: "char \<Rightarrow> 32 word" where
  "byte_w c = of_nat (code_of c)"

definition byte_bits :: "char \<Rightarrow> bool list" where
  "byte_bits c = bits_w 8 (byte_w c)"

lemma length_byte_bits [simp]: "length (byte_bits c) = 8"
  by (simp add: byte_bits_def)

lemma bit_of_nat_small:
  assumes "n < 2 ^ j" and "bit (of_nat n :: 32 word) i"
  shows "i < j"
proof (rule ccontr)
  assume "\<not> i < j"
  then have "n < 2 ^ i" using assms(1) by (meson le_less_trans less_le_trans not_less one_le_numeral power_increasing)
  then have "\<not> bit n i" by (simp add: bit_iff_odd)
  with assms(2) show False by (simp add: bit_of_nat_iff)
qed

lemma bit_byte_w: "bit (byte_w c) i \<Longrightarrow> i < 8"
  unfolding byte_w_def by (rule bit_of_nat_small [of "code_of c" 8]) simp_all

lemma byte_bits_inj: "byte_bits c = byte_bits d \<longleftrightarrow> c = d"
proof
  assume eq: "byte_bits c = byte_bits d"
  have "bit (byte_w c) i = bit (byte_w d) i" for i
  proof (cases "i < 8")
    case True
    then have "8 - 1 - (7 - i) = i" by simp
    then show ?thesis
      using arg_cong [OF eq, of "\<lambda>l. l ! (7 - i)"] by (simp add: byte_bits_def nth_bits_w)
  qed (use bit_byte_w in blast)
  then have "byte_w c = byte_w d" by (simp add: bit_eq_iff)
  then have "unat (byte_w c) = unat (byte_w d)" by simp
  moreover have "code_of x < 2 ^ 32" for x
    by (rule less_trans [OF code_of_less]) simp
  ultimately have "code_of c = code_of d"
    by (simp add: byte_w_def unat_of_nat)
  then show "c = d" by simp
qed simp

lemma concat_byte_bits_prefix:
  assumes "concat (map byte_bits xs) @ p = concat (map byte_bits ys) @ q"
    and "length p < 8" and "length q < 8"
  shows "xs = ys"
proof -
  have len: "length (concat (map byte_bits zs)) = 8 * length zs" for zs
    by (induction zs) auto
  have "8 * length xs + length p = 8 * length ys + length q"
    using arg_cong [OF assms(1), of length] by (simp add: len)
  then have "length xs = length ys" using assms(2,3) by linarith
  then show ?thesis using assms(1)
    by (induction xs ys rule: list_induct2) (auto simp: byte_bits_inj)
qed

section \<open>The interface of a bit accumulator\<close>

text \<open>
  A loop over input symbols with a state that holds the symbols already put out and the bits not
  yet put out. \<open>in_bits\<close> and \<open>out_bits\<close> are the bits a symbol stands for.
\<close>

locale bit_repacker =
  fixes step :: "'s \<Rightarrow> 'a \<Rightarrow> 's"
    and out :: "'s \<Rightarrow> 'b list"
    and pending :: "'s \<Rightarrow> bool list"
    and ok :: "'s \<Rightarrow> bool"
    and in_bits :: "'a \<Rightarrow> bool list"
    and out_bits :: "'b \<Rightarrow> bool list"
  assumes step_ok: "ok s \<Longrightarrow> ok (step s x)"
    and step_bits: "ok s \<Longrightarrow>
      concat (map out_bits (out (step s x))) @ pending (step s x)
        = concat (map out_bits (out s)) @ pending s @ in_bits x"
begin

lemma run_ok: "ok s \<Longrightarrow> ok (foldl step s xs)"
  by (induction xs arbitrary: s) (auto simp: step_ok)

lemma run_bits:
  "ok s \<Longrightarrow> concat (map out_bits (out (foldl step s xs))) @ pending (foldl step s xs)
     = concat (map out_bits (out s)) @ pending s @ concat (map in_bits xs)"
proof (induction xs arbitrary: s)
  case (Cons x xs)
  have "concat (map out_bits (out (foldl step (step s x) xs))) @ pending (foldl step (step s x) xs)
     = (concat (map out_bits (out (step s x))) @ pending (step s x)) @ concat (map in_bits xs)"
    using Cons.IH [OF step_ok [OF Cons.prems]] by simp
  also have "\<dots> = concat (map out_bits (out s)) @ pending s @ concat (map in_bits (x # xs))"
    using step_bits [OF Cons.prems] by simp
  finally show ?case by simp
qed simp

end

section \<open>Base32\<close>

abbreviation base32_alphabet :: string where
  "base32_alphabet \<equiv> ''ABCDEFGHIJKLMNOPQRSTUVWXYZ234567''"

text \<open>
  The state of both loops is the result, the accumulator \<open>buffer\<close> (a 32-bit \<open>int\<close> whose left shift
  drops the high bits) and the count \<open>bits\<close>. \<open>b32_drain\<close> is the inner loop of the encoder.
\<close>

type_synonym codec_state = "string \<times> 32 word \<times> nat"

fun b32_drain :: "32 word \<Rightarrow> nat \<Rightarrow> string \<Rightarrow> string \<times> nat" where
  "b32_drain buf bits res =
     (if bits \<ge> 5
      then b32_drain buf (bits - 5)
             (res @ [base32_alphabet ! unat (signed_drop_bit (bits - 5) buf AND 0x1F)])
      else (res, bits))"

declare b32_drain.simps [simp del]

definition b32_enc_step :: "codec_state \<Rightarrow> char \<Rightarrow> codec_state" where
  "b32_enc_step s c =
     (case s of (res, buf, bits) \<Rightarrow>
        (let buf' = push_bit 8 buf OR byte_w c;
             (res', bits') = b32_drain buf' (bits + 8) res
         in (res', buf', bits')))"

definition base32_encode :: "string \<Rightarrow> string" where
  "base32_encode data =
     (case foldl b32_enc_step ([], 0, 0) data of (res, buf, bits) \<Rightarrow>
        if bits > 0
        then res @ [base32_alphabet ! unat (push_bit (5 - bits) buf AND 0x1F)]
        else res)"

definition b32_val :: "char \<Rightarrow> nat option" where
  "b32_val c =
     (if is_upper c then Some (code_of c - 65)
      else if is_lower c then Some (code_of c - 97)
      else if 50 \<le> code_of c \<and> code_of c \<le> 55 then Some (code_of c - 50 + 26)
      else None)"

definition b32_dec_step :: "codec_state \<Rightarrow> char \<Rightarrow> codec_state" where
  "b32_dec_step s c =
     (case s of (res, buf, bits) \<Rightarrow>
        if c = CHR ''='' \<or> c = CHR '' '' then s
        else case b32_val c of
          None \<Rightarrow> s
        | Some v \<Rightarrow>
            (let buf' = push_bit 5 buf OR of_nat v; bits' = bits + 5
             in if bits' \<ge> 8
                then (res @ [char_of (unat (signed_drop_bit (bits' - 8) buf' AND 0xFF))], buf', bits' - 8)
                else (res, buf', bits')))"

definition base32_decode :: "string \<Rightarrow> string" where
  "base32_decode encoded = fst (foldl b32_dec_step ([], 0, 0) encoded)"

section \<open>Base64url\<close>

abbreviation b64_chars :: string where
  "b64_chars \<equiv> ''ABCDEFGHIJKLMNOPQRSTUVWXYZabcdefghijklmnopqrstuvwxyz0123456789+/''"

fun b64_drain :: "32 word \<Rightarrow> nat \<Rightarrow> string \<Rightarrow> string \<times> nat" where
  "b64_drain val bits res =
     (if bits \<ge> 6
      then b64_drain val (bits - 6)
             (res @ [b64_chars ! unat (drop_bit (bits - 6) val AND 0x3F)])
      else (res, bits))"

declare b64_drain.simps [simp del]

definition b64_enc_step :: "codec_state \<Rightarrow> char \<Rightarrow> codec_state" where
  "b64_enc_step s c =
     (case s of (res, val, bits) \<Rightarrow>
        (let val' = push_bit 8 val OR byte_w c;
             (res', bits') = b64_drain val' (bits + 8) res
         in (res', val', bits')))"

definition url_char :: "char \<Rightarrow> char" where
  "url_char c = (if c = CHR ''+'' then CHR ''-'' else if c = CHR ''/'' then CHR ''_'' else c)"

definition base64url_encode :: "string \<Rightarrow> string" where
  "base64url_encode data =
     (case foldl b64_enc_step ([], 0, 0) data of (res, val, bits) \<Rightarrow>
        map url_char
          (if bits > 0
           then res @ [b64_chars ! unat (push_bit (6 - bits) val AND 0x3F)]
           else res))"

definition b64_char_value :: "char \<Rightarrow> int" where
  "b64_char_value c =
     (if is_upper c then int (code_of c) - 65
      else if is_lower c then int (code_of c) - 97 + 26
      else if is_digit c then int (code_of c) - 48 + 52
      else if c = CHR ''+'' \<or> c = CHR ''-'' then 62
      else if c = CHR ''/'' \<or> c = CHR ''_'' then 63
      else -1)"

definition b64_dec_step :: "codec_state \<Rightarrow> char \<Rightarrow> codec_state" where
  "b64_dec_step s c =
     (case s of (res, val, bits) \<Rightarrow>
        if c = CHR ''='' \<or> c = CHR 0x0A \<or> c = CHR 0x0D then s
        else let v = b64_char_value c in
          if v < 0 then s
          else let val' = push_bit 6 val OR of_int v; bits' = bits + 6
            in if bits' \<ge> 8
               then (res @ [char_of (unat (drop_bit (bits' - 8) val' AND 0xFF))], val', bits' - 8)
               else (res, val', bits'))"

definition base64url_decode :: "string \<Rightarrow> string" where
  "base64url_decode input = fst (foldl b64_dec_step ([], 0, 0) input)"

section \<open>The four loops are bit accumulators\<close>

abbreviation acc_out :: "codec_state \<Rightarrow> string" where
  "acc_out s \<equiv> fst s"

definition acc_pending :: "codec_state \<Rightarrow> bool list" where
  "acc_pending s = (case s of (_, buf, bits) \<Rightarrow> bits_w bits buf)"

definition acc_ok :: "nat \<Rightarrow> codec_state \<Rightarrow> bool" where
  "acc_ok m s \<longleftrightarrow> snd (snd s) < m"

lemma length_acc_pending: "acc_ok m s \<Longrightarrow> length (acc_pending s) < m"
  by (cases s) (simp add: acc_ok_def acc_pending_def)

definition b32_bits :: "char \<Rightarrow> bool list" where
  "b32_bits c = (case b32_val c of Some v \<Rightarrow> bits_w 5 (of_nat v) | None \<Rightarrow> [])"

definition b64_bits :: "char \<Rightarrow> bool list" where
  "b64_bits c = (let v = b64_char_value c in if v < 0 then [] else bits_w 6 (of_int v))"

lemma b32_val_alphabet: "n < 32 \<Longrightarrow> b32_val (base32_alphabet ! n) = Some n"
proof -
  have "list_all (\<lambda>n. b32_val (base32_alphabet ! n) = Some n) [0..<32]" by code_simp
  then show "n < 32 \<Longrightarrow> ?thesis" by (simp add: list_all_iff)
qed

lemma b64_value_alphabet: "n < 64 \<Longrightarrow> b64_char_value (url_char (b64_chars ! n)) = int n"
proof -
  assume n: "n < 64"
  have "map (\<lambda>c. b64_char_value (url_char c)) b64_chars = map int [0..<64]"
    by (simp add: b64_char_value_def url_char_def is_upper_def is_lower_def is_digit_def upt_rec)
  then have "map (\<lambda>c. b64_char_value (url_char c)) b64_chars ! n = map int [0..<64] ! n" by (rule arg_cong)
  moreover have "length b64_chars = 64" by simp
  ultimately show ?thesis using n by (simp only: nth_map length_upt nth_upt)
qed

lemma b64_value_url_char: "b64_char_value (url_char c) = b64_char_value c"
proof (cases "c = CHR ''+'' \<or> c = CHR ''/''")
  case True
  then show ?thesis
    by (elim disjE)
      (simp_all add: b64_char_value_def url_char_def is_upper_def is_lower_def is_digit_def)
next
  case False
  then have "url_char c = c" by (simp add: url_char_def)
  then show ?thesis by simp
qed

lemma bit_imp_less_5: "bit (31 :: 32 word) i \<longleftrightarrow> i < 5"
proof -
  have "(31 :: 32 word) = mask 5" by (simp add: mask_eq_exp_minus_1)
  then show ?thesis by (simp only: bit_mask_iff) auto
qed

lemma bit_imp_less_6: "bit (63 :: 32 word) i \<longleftrightarrow> i < 6"
proof -
  have "(63 :: 32 word) = mask 6" by (simp add: mask_eq_exp_minus_1)
  then show ?thesis by (simp only: bit_mask_iff) auto
qed

lemma bit_imp_less_8: "bit (255 :: 32 word) i \<longleftrightarrow> i < 8"
proof -
  have "(255 :: 32 word) = mask 8" by (simp add: mask_eq_exp_minus_1)
  then show ?thesis by (simp only: bit_mask_iff) auto
qed

lemmas bit_masks = bit_imp_less_5 bit_imp_less_6 bit_imp_less_8

lemma unat_and_less: "unat (x AND (k :: 32 word)) < Suc (unat k)"
  by (simp add: less_Suc_eq_le flip: word_le_nat_alt) (metis and.commute word_and_le1)

lemma of_nat_unat_word: "(of_nat (unat w) :: 32 word) = w"
  by simp

lemma bits_w_masked:
  "bits_w 5 (x AND 0x1F) = bits_w 5 x"
  "bits_w 6 (x AND 0x3F) = bits_w 6 x"
  "bits_w 8 (x AND 0xFF) = bits_w 8 x"
  by (rule bits_w_eqI, simp only: bit_and_iff bit_masks simp_thms)+

lemma b32_bits_symbol: "b32_bits (base32_alphabet ! unat (x AND 0x1F)) = bits_w 5 x"
proof -
  have "unat (x AND 0x1F) < 32" using unat_and_less [of x 31] by simp
  then have "b32_bits (base32_alphabet ! unat (x AND 0x1F)) = bits_w 5 (of_nat (unat (x AND 0x1F)))"
    by (simp only: b32_bits_def b32_val_alphabet option.case)
  then show ?thesis by (simp only: of_nat_unat_word bits_w_masked)
qed

lemma b64_bits_symbol:
  "b64_bits (url_char (b64_chars ! unat (x AND 0x3F))) = bits_w 6 x"
proof -
  have "unat (x AND 0x3F) < 64" using unat_and_less [of x 63] by simp
  then have "b64_bits (url_char (b64_chars ! unat (x AND 0x3F)))
      = bits_w 6 (of_nat (unat (x AND 0x3F)))"
    by (simp only: b64_bits_def b64_value_alphabet Let_def of_int_of_nat_eq) simp
  then show ?thesis by (simp only: of_nat_unat_word bits_w_masked)
qed

lemma b64_bits_url_char: "b64_bits (url_char c) = b64_bits c"
  by (simp add: b64_bits_def b64_value_url_char)

lemma byte_bits_symbol: "byte_bits (char_of (unat (x AND 0xFF))) = bits_w 8 x"
proof -
  have "unat (x AND 0xFF) < 256" using unat_and_less [of x 255] by simp
  then have "byte_bits (char_of (unat (x AND 0xFF))) = bits_w 8 (of_nat (unat (x AND 0xFF)))"
    by (simp only: byte_bits_def byte_w_def code_of_char_of)
  then show ?thesis by (simp only: of_nat_unat_word bits_w_masked)
qed

text \<open>Both right shifts read the same bits below the accumulator's top.\<close>

lemma bits_w_sdrop: "b + j \<le> 32 \<Longrightarrow> bits_w (b + j) w = bits_w j (signed_drop_bit b w) @ bits_w b w"
  by (rule bits_w_split) (auto simp: bit_signed_drop_bit_iff)

lemma bits_w_drop: "b + j \<le> 32 \<Longrightarrow> bits_w (b + j) w = bits_w j (drop_bit b w) @ bits_w b w"
  by (rule bits_w_split) (simp add: bit_drop_bit_eq)

lemma b32_drain_bits:
  "bits \<le> 32 \<Longrightarrow> b32_drain buf bits res = (res', bits') \<Longrightarrow>
     concat (map b32_bits res') @ bits_w bits' buf = concat (map b32_bits res) @ bits_w bits buf
     \<and> bits' < 5"
proof (induction buf bits res rule: b32_drain.induct)
  case (1 buf bits res)
  show ?case
  proof (cases "bits \<ge> 5")
    case True
    have "bits_w bits buf = bits_w 5 (signed_drop_bit (bits - 5) buf) @ bits_w (bits - 5) buf"
      using bits_w_sdrop [of "bits - 5" 5 buf] True "1.prems"(1) by simp
    moreover have "b32_drain buf (bits - 5)
        (res @ [base32_alphabet ! unat (signed_drop_bit (bits - 5) buf AND 0x1F)]) = (res', bits')"
      using "1.prems"(2) True by (subst (asm) b32_drain.simps) simp
    ultimately show ?thesis
      using "1.IH" [OF True] "1.prems"(1) by (simp add: b32_bits_symbol)
  next
    case False
    then show ?thesis using "1.prems"(2) by (subst (asm) b32_drain.simps) auto
  qed
qed

lemma b64_drain_bits:
  "bits \<le> 32 \<Longrightarrow> b64_drain val bits res = (res', bits') \<Longrightarrow>
     concat (map b64_bits res') @ bits_w bits' val = concat (map b64_bits res) @ bits_w bits val
     \<and> bits' < 6"
proof (induction val bits res rule: b64_drain.induct)
  case (1 val bits res)
  show ?case
  proof (cases "bits \<ge> 6")
    case True
    have "bits_w bits val = bits_w 6 (drop_bit (bits - 6) val) @ bits_w (bits - 6) val"
      using bits_w_drop [of "bits - 6" 6 val] True "1.prems"(1) by simp
    moreover have "b64_drain val (bits - 6)
        (res @ [b64_chars ! unat (drop_bit (bits - 6) val AND 0x3F)]) = (res', bits')"
      using "1.prems"(2) True by (subst (asm) b64_drain.simps) simp
    moreover have "b64_bits (b64_chars ! unat (drop_bit (bits - 6) val AND 0x3F))
        = bits_w 6 (drop_bit (bits - 6) val)"
      using b64_bits_symbol b64_bits_url_char by metis
    ultimately show ?thesis
      using "1.IH" [OF True] "1.prems"(1) by simp
  next
    case False
    then show ?thesis using "1.prems"(2) by (subst (asm) b64_drain.simps) auto
  qed
qed

lemma bits_w_byte: "k \<le> 24 \<Longrightarrow> bits_w (k + 8) (push_bit 8 w OR byte_w c) = bits_w k w @ byte_bits c"
  unfolding byte_bits_def by (rule bits_w_absorb) (auto dest: bit_byte_w)

interpretation b32_enc: bit_repacker b32_enc_step acc_out acc_pending "acc_ok 5" byte_bits b32_bits
proof unfold_locales
  fix s c assume ok: "acc_ok 5 s"
  obtain res buf bits where s: "s = (res, buf, bits)" by (cases s)
  obtain res' bits' where d: "b32_drain (push_bit 8 buf OR byte_w c) (bits + 8) res = (res', bits')"
    by force
  have "bits < 5" using ok s by (simp add: acc_ok_def)
  then have *: "concat (map b32_bits res') @ bits_w bits' (push_bit 8 buf OR byte_w c)
      = concat (map b32_bits res) @ bits_w bits buf @ byte_bits c \<and> bits' < 5"
    using b32_drain_bits [OF _ d] bits_w_byte [of bits buf c] by simp
  show "acc_ok 5 (b32_enc_step s c)" using * d s by (simp add: b32_enc_step_def acc_ok_def Let_def)
  show "concat (map b32_bits (acc_out (b32_enc_step s c))) @ acc_pending (b32_enc_step s c)
      = concat (map b32_bits (acc_out s)) @ acc_pending s @ byte_bits c"
    using * d s by (simp add: b32_enc_step_def acc_pending_def Let_def)
qed

interpretation b64_enc: bit_repacker b64_enc_step acc_out acc_pending "acc_ok 6" byte_bits b64_bits
proof unfold_locales
  fix s c assume ok: "acc_ok 6 s"
  obtain res buf bits where s: "s = (res, buf, bits)" by (cases s)
  obtain res' bits' where d: "b64_drain (push_bit 8 buf OR byte_w c) (bits + 8) res = (res', bits')"
    by force
  have "bits < 6" using ok s by (simp add: acc_ok_def)
  then have *: "concat (map b64_bits res') @ bits_w bits' (push_bit 8 buf OR byte_w c)
      = concat (map b64_bits res) @ bits_w bits buf @ byte_bits c \<and> bits' < 6"
    using b64_drain_bits [OF _ d] bits_w_byte [of bits buf c] by simp
  show "acc_ok 6 (b64_enc_step s c)" using * d s by (simp add: b64_enc_step_def acc_ok_def Let_def)
  show "concat (map b64_bits (acc_out (b64_enc_step s c))) @ acc_pending (b64_enc_step s c)
      = concat (map b64_bits (acc_out s)) @ acc_pending s @ byte_bits c"
    using * d s by (simp add: b64_enc_step_def acc_pending_def Let_def)
qed

lemma b32_val_less: "b32_val c = Some v \<Longrightarrow> v < 32"
  by (auto simp: b32_val_def is_upper_def is_lower_def split: if_splits)

lemma b64_value_less: "b64_char_value c < 64"
  by (auto simp: b64_char_value_def is_upper_def is_lower_def is_digit_def)

lemma b32_skipped: "c = CHR ''='' \<or> c = CHR '' '' \<Longrightarrow> b32_bits c = []"
  by (auto simp: b32_bits_def b32_val_def is_upper_def is_lower_def)

lemma b64_skipped: "c = CHR ''='' \<or> c = CHR 0x0A \<or> c = CHR 0x0D \<Longrightarrow> b64_bits c = []"
  by (elim disjE)
    (simp_all add: b64_bits_def b64_char_value_def is_upper_def is_lower_def is_digit_def)

interpretation b32_dec: bit_repacker b32_dec_step acc_out acc_pending "acc_ok 8" b32_bits byte_bits
proof unfold_locales
  fix s c assume ok: "acc_ok 8 s"
  obtain res buf bits where s: "s = (res, buf, bits)" by (cases s)
  have b: "bits < 8" using ok s by (simp add: acc_ok_def)
  show "acc_ok 8 (b32_dec_step s c)"
    using b s by (auto simp: b32_dec_step_def acc_ok_def Let_def split: option.splits)
  show "concat (map byte_bits (acc_out (b32_dec_step s c))) @ acc_pending (b32_dec_step s c)
      = concat (map byte_bits (acc_out s)) @ acc_pending s @ b32_bits c"
  proof (cases "(c = CHR ''='' \<or> c = CHR '' '') \<or> b32_val c = None")
    case True
    then have "b32_dec_step s c = s" "b32_bits c = []"
      using s b32_skipped [of c] by (auto simp: b32_dec_step_def b32_bits_def)
    then show ?thesis by simp
  next
    case False
    then obtain v where v: "b32_val c = Some v" by auto
    define w where "w = push_bit 5 buf OR of_nat v"
    define n where "n = bits + 5"
    have "bits_w n w = bits_w bits buf @ bits_w 5 (of_nat v)"
      unfolding w_def n_def using b b32_val_less [OF v] by (intro bits_w_absorb) (auto intro: bit_of_nat_small [of v 5])
    moreover have "n \<ge> 8 \<Longrightarrow> bits_w n w
        = bits_w 8 (signed_drop_bit (n - 8) w) @ bits_w (n - 8) w"
    proof -
      assume "n \<ge> 8"
      then have "n - 8 + 8 = n" by simp
      moreover have "n \<le> 32" using b by (simp add: n_def)
      ultimately show "bits_w n w = bits_w 8 (signed_drop_bit (n - 8) w) @ bits_w (n - 8) w"
        using bits_w_sdrop [of "n - 8" 8 w] by simp
    qed
    moreover have "b32_dec_step s c =
        (if n \<ge> 8 then (res @ [char_of (unat (signed_drop_bit (n - 8) w AND 0xFF))], w, n - 8)
         else (res, w, n))"
      using False v s by (simp add: b32_dec_step_def Let_def w_def n_def)
    ultimately show ?thesis
      using v s by (auto simp: acc_pending_def b32_bits_def byte_bits_symbol)
  qed
qed

interpretation b64_dec: bit_repacker b64_dec_step acc_out acc_pending "acc_ok 8" b64_bits byte_bits
proof unfold_locales
  fix s c assume ok: "acc_ok 8 s"
  obtain res buf bits where s: "s = (res, buf, bits)" by (cases s)
  have b: "bits < 8" using ok s by (simp add: acc_ok_def)
  show "acc_ok 8 (b64_dec_step s c)"
    using b s by (auto simp: b64_dec_step_def acc_ok_def Let_def)
  show "concat (map byte_bits (acc_out (b64_dec_step s c))) @ acc_pending (b64_dec_step s c)
      = concat (map byte_bits (acc_out s)) @ acc_pending s @ b64_bits c"
  proof (cases "(c = CHR ''='' \<or> c = CHR 0x0A \<or> c = CHR 0x0D) \<or> b64_char_value c < 0")
    case True
    then have "b64_dec_step s c = s" "b64_bits c = []"
      using s b64_skipped [of c] by (auto simp: b64_dec_step_def b64_bits_def Let_def)
    then show ?thesis by simp
  next
    case False
    then obtain v where v: "b64_char_value c = int v" by (metis nonneg_int_cases not_less)
    have "v < 64" using b64_value_less [of c] v by simp
    define w where "w = push_bit 6 buf OR of_nat v"
    define n where "n = bits + 6"
    have "bits_w n w = bits_w bits buf @ bits_w 6 (of_nat v)"
      unfolding w_def n_def using b \<open>v < 64\<close> by (intro bits_w_absorb) (auto intro: bit_of_nat_small [of v 6])
    moreover have "n \<ge> 8 \<Longrightarrow> bits_w n w
        = bits_w 8 (drop_bit (n - 8) w) @ bits_w (n - 8) w"
    proof -
      assume "n \<ge> 8"
      then have "n - 8 + 8 = n" by simp
      moreover have "n \<le> 32" using b by (simp add: n_def)
      ultimately show "bits_w n w = bits_w 8 (drop_bit (n - 8) w) @ bits_w (n - 8) w"
        using bits_w_drop [of "n - 8" 8 w] by simp
    qed
    moreover have "b64_dec_step s c =
        (if n \<ge> 8 then (res @ [char_of (unat (drop_bit (n - 8) w AND 0xFF))], w, n - 8)
         else (res, w, n))"
      using False v s by (simp add: b64_dec_step_def Let_def w_def n_def del: drop_bit_or)
    ultimately show ?thesis
      using v s by (auto simp: acc_pending_def b64_bits_def byte_bits_symbol)
  qed
qed

section \<open>Round trips\<close>

lemma acc_start: "acc_ok m ([], 0, 0) \<longleftrightarrow> 0 < m" "acc_pending ([], 0, 0) = []"
  by (simp_all add: acc_ok_def acc_pending_def)

text \<open>The padded last symbol holds the pending bits and zeros.\<close>

lemma bits_w_padded:
  "bits \<le> j \<Longrightarrow> j \<le> 32 \<Longrightarrow> bits_w j (push_bit (j - bits) w) = bits_w bits w @ bits_w (j - bits) 0"
  using bits_w_absorb [of bits "j - bits" 0 w] by simp

lemma base32_encode_bits:
  "\<exists>z. length z < 5 \<and> concat (map b32_bits (base32_encode s)) = concat (map byte_bits s) @ z"
proof -
  obtain res buf bits where f: "foldl b32_enc_step ([], 0, 0) s = (res, buf, bits)"
    by (cases "foldl b32_enc_step ([], 0, 0) s")
  have "bits < 5"
    using b32_enc.run_ok [of "([], 0, 0)" s] f by (simp add: acc_start) (simp add: acc_ok_def)
  moreover have run: "concat (map b32_bits res) @ bits_w bits buf = concat (map byte_bits s)"
    using b32_enc.run_bits [of "([], 0, 0)" s] f by (simp add: acc_start) (simp add: acc_pending_def)
  ultimately show ?thesis
  proof (cases "bits = 0")
    case True
    then show ?thesis using run f by (intro exI [of _ "[]"]) (simp add: base32_encode_def)
  next
    case False
    have "concat (map b32_bits (base32_encode s))
        = concat (map b32_bits res) @ bits_w 5 (push_bit (5 - bits) buf)"
      using False f by (simp add: base32_encode_def b32_bits_symbol)
    also have "\<dots> = concat (map byte_bits s) @ bits_w (5 - bits) 0"
      using bits_w_padded [of bits 5 buf] \<open>bits < 5\<close> by (simp flip: run)
    finally show ?thesis
      using False by (intro exI [of _ "bits_w (5 - bits) 0"]) simp
  qed
qed

lemma base64url_encode_bits:
  "\<exists>z. length z < 6 \<and> concat (map b64_bits (base64url_encode s)) = concat (map byte_bits s) @ z"
proof -
  obtain res buf bits where f: "foldl b64_enc_step ([], 0, 0) s = (res, buf, bits)"
    by (cases "foldl b64_enc_step ([], 0, 0) s")
  have "bits < 6"
    using b64_enc.run_ok [of "([], 0, 0)" s] f by (simp add: acc_start) (simp add: acc_ok_def)
  moreover have run: "concat (map b64_bits res) @ bits_w bits buf = concat (map byte_bits s)"
    using b64_enc.run_bits [of "([], 0, 0)" s] f by (simp add: acc_start) (simp add: acc_pending_def)
  have url: "concat (map b64_bits (map url_char xs)) = concat (map b64_bits xs)" for xs
    by (simp add: b64_bits_url_char comp_def)
  ultimately show ?thesis
  proof (cases "bits = 0")
    case True
    then show ?thesis using run f url [of res]
      by (intro exI [of _ "[]"]) (simp add: base64url_encode_def)
  next
    case False
    have "concat (map b64_bits (base64url_encode s))
        = concat (map b64_bits res) @ bits_w 6 (push_bit (6 - bits) buf)"
      using False f url [of res] by (simp add: base64url_encode_def b64_bits_symbol)
    also have "\<dots> = concat (map byte_bits s) @ bits_w (6 - bits) 0"
      using bits_w_padded [of bits 6 buf] \<open>bits < 6\<close> by (simp flip: run)
    finally show ?thesis
      using False by (intro exI [of _ "bits_w (6 - bits) 0"]) simp
  qed
qed

text \<open>C8: Every byte string survives base32: decoding what \<open>base32_encode\<close> produced gives the input.\<close>

theorem base32_roundtrip: "base32_decode (base32_encode s) = s"
proof -
  let ?r = "foldl b32_dec_step ([], 0, 0) (base32_encode s)"
  obtain z where z: "length z < 5"
    "concat (map b32_bits (base32_encode s)) = concat (map byte_bits s) @ z"
    using base32_encode_bits by blast
  have "concat (map byte_bits (acc_out ?r)) @ acc_pending ?r = concat (map byte_bits s) @ z"
    using b32_dec.run_bits [of "([], 0, 0)" "base32_encode s"] z(2) by (simp add: acc_start)
  moreover have "length (acc_pending ?r) < 8"
    using b32_dec.run_ok [of "([], 0, 0)"] by (intro length_acc_pending) (simp add: acc_start)
  ultimately show ?thesis
    unfolding base32_decode_def using z(1) concat_byte_bits_prefix [of "acc_out ?r" _ s z] by simp
qed

text \<open>Every byte string survives base64url (credential ids, challenges, user handles).\<close>

theorem base64url_roundtrip: "base64url_decode (base64url_encode s) = s"
proof -
  let ?r = "foldl b64_dec_step ([], 0, 0) (base64url_encode s)"
  obtain z where z: "length z < 6"
    "concat (map b64_bits (base64url_encode s)) = concat (map byte_bits s) @ z"
    using base64url_encode_bits by blast
  have "concat (map byte_bits (acc_out ?r)) @ acc_pending ?r = concat (map byte_bits s) @ z"
    using b64_dec.run_bits [of "([], 0, 0)" "base64url_encode s"] z(2) by (simp add: acc_start)
  moreover have "length (acc_pending ?r) < 8"
    using b64_dec.run_ok [of "([], 0, 0)"] by (intro length_acc_pending) (simp add: acc_start)
  ultimately show ?thesis
    unfolding base64url_decode_def using z(1) concat_byte_bits_prefix [of "acc_out ?r" _ s z] by simp
qed

end
