(* ===== verification/Totp.thy ===== *)
theory Totp
  imports Encoding
begin

text \<open>
  Time-based one-time codes, \<open>auth/totp.cpp\<close>. HMAC-SHA1 is OpenSSL's: it is the parameter
  \<open>hmac\<close> (key, message) of the definitions, and the theorems that need it assume that a digest has
  20 bytes. The random bytes of a secret and the clock are arguments.
\<close>

section \<open>Codes\<close>

definition dynamic_truncate :: "string \<Rightarrow> 32 word" where
  "dynamic_truncate h =
     (let offset = unat (byte_w (h ! 19) AND 0x0F);
          code = push_bit 24 (byte_w (h ! offset) AND 0x7F)
                 OR push_bit 16 (byte_w (h ! (offset + 1)) AND 0xFF)
                 OR push_bit 8 (byte_w (h ! (offset + 2)) AND 0xFF)
                 OR (byte_w (h ! (offset + 3)) AND 0xFF)
      in code mod 1000000)"

text \<open>The loop that stores \<open>time_step\<close> big-endian: \<open>n\<close> bytes are still to be stored, from the right.\<close>

fun be_bytes :: "nat \<Rightarrow> 64 word \<Rightarrow> string \<Rightarrow> string" where
  "be_bytes 0 step msg = msg"
| "be_bytes (Suc n) step msg =
     be_bytes n (drop_bit 8 step) (char_of (unat (step AND 0xFF)) # msg)"

text \<open>\<open>setfill('0') << setw(6)\<close>.\<close>

definition pad0 :: "nat \<Rightarrow> string \<Rightarrow> string" where
  "pad0 w s = replicate (w - length s) CHR ''0'' @ s"

definition compute_code :: "(string \<Rightarrow> string \<Rightarrow> string) \<Rightarrow> string \<Rightarrow> 64 word \<Rightarrow> string" where
  "compute_code hmac base32_secret time_step =
     (let key = base32_decode base32_secret;
          msg = be_bytes 8 time_step [];
          otp = dynamic_truncate (hmac key msg)
      in pad0 6 (nat_str (unat otp)))"

section \<open>Verification with a window and replay prevention\<close>

text \<open>
  The loop over \<open>i = -window, \<dots>, window\<close>. The offset is added to an unsigned 64-bit step, so it
  wraps around.
\<close>

fun verify_loop ::
  "(64 word \<Rightarrow> string) \<Rightarrow> string \<Rightarrow> 64 word option \<Rightarrow> 64 word \<Rightarrow> int list \<Rightarrow> 64 word option" where
  "verify_loop code_at code last_used current_step [] = None"
| "verify_loop code_at code last_used current_step (i # is) =
     (let step = current_step + of_int i in
      if (case last_used of Some l \<Rightarrow> step \<le> l | None \<Rightarrow> False)
      then verify_loop code_at code last_used current_step is
      else if code_at step = code then Some step
      else verify_loop code_at code last_used current_step is)"

definition verify_code ::
  "(string \<Rightarrow> string \<Rightarrow> string) \<Rightarrow> 64 word \<Rightarrow> string \<Rightarrow> string \<Rightarrow> 64 word option \<Rightarrow> int
     \<Rightarrow> 64 word option" where
  "verify_code hmac now base32_secret code last_used_step window =
     verify_loop (compute_code hmac base32_secret) code last_used_step (now div 30) [-window..window]"

section \<open>Secrets and the provisioning URI\<close>

text \<open>\<open>raw\<close> is what \<open>RAND_bytes\<close> gave, \<open>None\<close> if it failed (the code throws).\<close>

definition generate_secret :: "string option \<Rightarrow> string option" where
  "generate_secret raw = map_option base32_encode raw"

definition hex_digit_upper :: "nat \<Rightarrow> char" where
  "hex_digit_upper d = (if d < 10 then char_of (48 + d) else char_of (55 + d))"

definition url_safe :: "char \<Rightarrow> bool" where
  "url_safe c \<longleftrightarrow> is_alnum c \<or> c = CHR ''-'' \<or> c = CHR ''_'' \<or> c = CHR ''.'' \<or> c = CHR ''~''"

definition url_encode :: "string \<Rightarrow> string" where
  "url_encode s = concat (map (\<lambda>c.
     if url_safe c then [c]
     else [CHR ''%'', hex_digit_upper (code_of c div 16), hex_digit_upper (code_of c mod 16)]) s)"

definition build_uri :: "string \<Rightarrow> string \<Rightarrow> string \<Rightarrow> string" where
  "build_uri base32_secret username issuer =
     (let label = url_encode issuer @ '':'' @ url_encode username
      in ''otpauth://totp/'' @ label @ ''?secret='' @ base32_secret @ ''&issuer='' @ url_encode issuer
         @ ''&algorithm=SHA1&digits=6&period=30'')"

section \<open>Lemmas\<close>

lemma dynamic_truncate_less: "unat (dynamic_truncate h) < 1000000"
  unfolding dynamic_truncate_def Let_def by (simp add: unat_mod)

lemma nat_str_length: "n < 10 ^ Suc k \<Longrightarrow> length (nat_str n) \<le> Suc k"
proof (induction k arbitrary: n)
  case 0
  then show ?case by (subst nat_str.simps) simp
next
  case (Suc k)
  then have "n div 10 < 10 ^ Suc k" by (simp add: div_less_iff_less_mult mult.commute)
  from Suc.IH [OF this] show ?case by (subst nat_str.simps) simp
qed

lemma length_pad0: "length s \<le> w \<Longrightarrow> length (pad0 w s) = w"
  by (simp add: pad0_def)

lemma digits_val_zeros: "digits_val (replicate k CHR ''0'' @ s) = digits_val s"
proof -
  have "foldl (\<lambda>a c. 10 * a + (code_of c - 48)) 0 (replicate k CHR ''0'') = (0 :: nat)"
    by (induction k) simp_all
  then show ?thesis by (simp add: digits_val_def)
qed

lemma set_pad0: "set (pad0 w s) \<subseteq> insert CHR ''0'' (set s)"
  by (auto simp: pad0_def)

lemma digits_val_pad0: "digits_val (pad0 w s) = digits_val s"
  by (simp add: pad0_def digits_val_zeros)

lemma verify_loop_sound:
  "verify_loop f code lst cur is = Some step \<Longrightarrow>
     f step = code \<and> (\<exists>i \<in> set is. step = cur + of_int i) \<and> (\<forall>l. lst = Some l \<longrightarrow> l < step)"
proof (induction "is")
  case (Cons i "is")
  show ?case
  proof (cases "verify_loop f code lst cur is = Some step")
    case True
    then show ?thesis using Cons.IH by auto
  next
    case False
    then show ?thesis using Cons.prems by (auto simp: Let_def split: if_splits option.splits)
  qed
qed simp

lemma verify_loop_complete:
  "i \<in> set is \<Longrightarrow> f (cur + of_int i) = code \<Longrightarrow>
     (\<forall>l. lst = Some l \<longrightarrow> l < cur + of_int i) \<Longrightarrow> \<exists>step. verify_loop f code lst cur is = Some step"
  by (induction "is") (auto simp: Let_def split: option.splits)

section \<open>Properties\<close>

text \<open>C9: \<open>verify_code\<close> accepts a code exactly when some step of the window around the current one,
  later than the last used step, has that code; the step it returns is such a step.\<close>

theorem verify_code_iff:
  "(case verify_code hmac now secret code lst window of
      Some step \<Rightarrow> compute_code hmac secret step = code
        \<and> (\<exists>i. -window \<le> i \<and> i \<le> window \<and> step = now div 30 + of_int i)
        \<and> (lst = None \<or> the lst < step)
    | None \<Rightarrow> \<not> (\<exists>i. -window \<le> i \<and> i \<le> window
        \<and> compute_code hmac secret (now div 30 + of_int i) = code
        \<and> (lst = None \<or> the lst < now div 30 + of_int i)))"
proof (cases "verify_code hmac now secret code lst window")
  case None
  then show ?thesis
    using verify_loop_complete [of _ "[-window..window]" "compute_code hmac secret" "now div 30" code lst]
    by (cases lst) (auto simp: verify_code_def)
next
  case (Some step)
  then show ?thesis
    using verify_loop_sound [of "compute_code hmac secret" code lst "now div 30" "[-window..window]" step]
    by (cases lst) (auto simp: verify_code_def)
qed

text \<open>A code is always six decimal digits, and they are the truncated digest modulo a million.\<close>

theorem compute_code_six_digits:
  "length (compute_code hmac secret step) = 6
   \<and> list_all is_digit (compute_code hmac secret step)
   \<and> digits_val (compute_code hmac secret step)
       = unat (dynamic_truncate (hmac (base32_decode secret) (be_bytes 8 step [])))"
proof -
  let ?n = "unat (dynamic_truncate (hmac (base32_decode secret) (be_bytes 8 step [])))"
  have "?n < 10 ^ Suc 5" using dynamic_truncate_less by simp
  then have "length (nat_str ?n) \<le> 6" using nat_str_length [of ?n 5] by simp
  moreover have "is_digit CHR ''0''" by (simp add: is_digit_def)
  ultimately show ?thesis
    by (auto simp: compute_code_def Let_def length_pad0 digits_val_pad0 list_all_iff
        dest: nat_str_digits set_pad0 [THEN subsetD])
qed

end
