(* ===== verification/Auth_Handler.thy ===== *)
theory Auth_Handler
  imports Replies Guards Auth_Db Passwords Totp
begin

text \<open>
  The login endpoints of \<open>handlers/auth_handler.cpp\<close>: passwords, the second factor and recovery.
  A handler is a function from the parsed body and the database to a reply and the database. Each
  database method is a transaction of its own, so what was done before an exception stays done. The
  handlers run one after the other; what is drawn at random, the clocks, Argon2, HMAC and the JSON
  parser for settings are in the environment.
\<close>

section \<open>Environment and replies\<close>

record auth_env =
  ae_now :: time
  ae_unix :: "64 word"
  ae_session_token :: string
  ae_csrf :: string
  ae_mfa_id :: string
  ae_user_id :: string
  ae_random_secret :: "string option"
  ae_parse :: "string \<Rightarrow> json option"
  ae_hmac :: "string \<Rightarrow> string \<Rightarrow> string"
  ae_hash :: "string \<Rightarrow> string option"
  ae_verify :: "string \<Rightarrow> string \<Rightarrow> bool"
  ae_recovery_hash :: "string \<Rightarrow> string"
  ae_is_uuid :: "string \<Rightarrow> bool"
  ae_what :: "exn \<Rightarrow> string"
  ae_config_hours :: int
  ae_has_ssl :: bool

text \<open>\<open>catch (const std::exception& e)\<close>.\<close>

definition caught :: "auth_env \<Rightarrow> exn \<Rightarrow> reply" where
  "caught env e = err_reply ''400'' (ae_what env e)"

text \<open>\<open>std::string x = j.at(k)\<close>: the rest of the handler runs with the string.\<close>

definition at_string ::
  "auth_env \<Rightarrow> json \<Rightarrow> string \<Rightarrow> (string \<Rightarrow> db \<Rightarrow> reply \<times> db) \<Rightarrow> db \<Rightarrow> reply \<times> db" where
  "at_string env j k rest d =
     (case json_get j k of
        None \<Rightarrow> (caught env (Missing_key k), d)
      | Some v \<Rightarrow>
          (case json_string v of
             None \<Rightarrow> (caught env (Not_a_string k), d)
           | Some s \<Rightarrow> rest s d))"

text \<open>\<open>j.value(k, dflt)\<close> for a string default.\<close>

definition value_string ::
  "auth_env \<Rightarrow> json \<Rightarrow> string \<Rightarrow> string \<Rightarrow> (string \<Rightarrow> db \<Rightarrow> reply \<times> db) \<Rightarrow> db \<Rightarrow> reply \<times> db" where
  "value_string env j k dflt rest d =
     (case json_get j k of
        None \<Rightarrow> rest dflt d
      | Some v \<Rightarrow>
          (case json_string v of
             None \<Rightarrow> (caught env (Not_a_string k), d)
           | Some s \<Rightarrow> rest s d))"

definition parsed ::
  "auth_env \<Rightarrow> json option \<Rightarrow> (json \<Rightarrow> db \<Rightarrow> reply \<times> db) \<Rightarrow> db \<Rightarrow> reply \<times> db" where
  "parsed env body rest d =
     (case body of None \<Rightarrow> (caught env Parse_error, d) | Some j \<Rightarrow> rest j d)"

section \<open>Shared steps\<close>

definition get_password_policy :: "db \<Rightarrow> password_policy" where
  "get_password_policy d = build_password_policy (get_setting d)"

definition is_mfa_required_for_method :: "db \<Rightarrow> string \<Rightarrow> bool" where
  "is_mfa_required_for_method d method =
     is_required_setting_enabled (get_setting d (''mfa_required_'' @ method))"

definition make_user_json :: "user \<Rightarrow> bool \<Rightarrow> bool \<Rightarrow> json" where
  "make_user_json u has_pw has_2fa =
     JObject [(''id'', JString (u_id u)), (''username'', JString (u_username u)),
       (''display_name'', JString (u_display_name u)), (''role'', JString (u_role u)),
       (''bio'', JString (u_bio u)), (''status'', JString (u_status u)),
       (''avatar_file_id'', JString (u_avatar_file_id u)),
       (''profile_color'', JString (u_profile_color u)),
       (''has_password'', JBool has_pw), (''has_totp'', JBool has_2fa)]"

definition build_token_user_response :: "string \<Rightarrow> json \<Rightarrow> (string \<times> json) list \<Rightarrow> json" where
  "build_token_user_response token user_json extra = JObject ((''user'', user_json) # extra)"

text \<open>\<open>int\<close> multiplication, written out as wrapping.\<close>

definition mul32 :: "int \<Rightarrow> int \<Rightarrow> int" where
  "mul32 a b = sint (word_of_int (a * b) :: 32 word)"

text \<open>The common end of a successful login: a session, its cookies, and the user.\<close>

definition start_session ::
  "auth_env \<Rightarrow> user \<Rightarrow> (db \<Rightarrow> (string \<times> json) list) \<Rightarrow> (db_error \<Rightarrow> reply) \<Rightarrow> db \<Rightarrow> reply \<times> db" where
  "start_session env user extra failed d =
     (let expiry = get_session_expiry d (ae_config_hours env)
      in case create_session d (ae_session_token env) (ae_now env) (u_id user) expiry of
           Inl e \<Rightarrow> (failed e, d)
         | Inr (token, d1) \<Rightarrow>
             (\<lparr>rp_status = ''200 OK'',
               rp_cookies = emit_session_cookies (ae_csrf env) token (mul32 expiry 3600) (ae_has_ssl env),
               rp_body = build_token_user_response token
                 (make_user_json user (has_password d1 (u_id user)) (has_totp d1 (u_id user))) (extra d1)\<rparr>,
              d1))"

definition locked_out :: "db \<Rightarrow> user \<Rightarrow> bool" where
  "locked_out d user \<longleftrightarrow>
     is_server_locked_down d \<and> u_role user \<noteq> ''admin'' \<and> u_role user \<noteq> ''owner''"

definition banned_reply :: reply where
  "banned_reply = err_reply ''403'' ''Your account has been banned''"

definition lockdown_reply :: reply where
  "lockdown_reply = err_reply ''403'' ''Server is in lockdown mode. Only administrators may log in.''"

definition check_and_handle_mfa ::
  "auth_env \<Rightarrow> user \<Rightarrow> string \<Rightarrow> (db \<Rightarrow> reply \<times> db) \<Rightarrow> db \<Rightarrow> reply \<times> db" where
  "check_and_handle_mfa env user auth_method rest d =
     (let mfa_required = is_mfa_required_for_method d auth_method;
          user_has_totp = has_totp d (u_id user)
      in if \<not> mfa_required \<and> \<not> user_has_totp then rest d
         else case create_mfa_pending_token d (ae_mfa_id env) (ae_now env) (u_id user) auth_method 300 of
                Inl e \<Rightarrow> (caught env (Db_exn e), d)
              | Inr (mfa_token, d1) \<Rightarrow>
                  (ok_reply (snd (build_mfa_decision mfa_required user_has_totp mfa_token)), d1))"

definition must_change_password :: "auth_env \<Rightarrow> user \<Rightarrow> db \<Rightarrow> (string \<times> json) list" where
  "must_change_password env user d =
     (let policy = get_password_policy d
      in if max_age_days policy > 0
         then [(''must_change_password'',
                JBool (is_password_expired d (ae_now env) (u_id user) (max_age_days policy)))]
         else [])"

definition check_registration_eligibility :: "auth_env \<Rightarrow> db \<Rightarrow> string \<Rightarrow> string" where
  "check_registration_eligibility env d invite_token =
     (let has_invite = invite_token \<noteq> [];
          invite_valid = (has_invite \<and> validate_invite d (ae_now env) invite_token)
      in registration_eligibility_message (count_users d = 0)
           (case get_setting d ''registration_mode'' of Some m \<Rightarrow> m | None \<Rightarrow> ''invite'')
           has_invite invite_valid)"

definition complete_user_creation :: "auth_env \<Rightarrow> user \<Rightarrow> string \<Rightarrow> db \<Rightarrow> db_error + db" where
  "complete_user_creation env user invite_token d =
     (if invite_token \<noteq> [] then use_invite d (ae_now env) invite_token (u_id user) else Inr d)"

section \<open>Passwords\<close>

definition handle_password_login :: "auth_env \<Rightarrow> json option \<Rightarrow> db \<Rightarrow> reply \<times> db" where
  "handle_password_login env body d =
     (if \<not> is_auth_method_enabled (ae_parse env) d ''password''
      then (err_reply ''403'' ''Password authentication is not enabled on this server'', d)
      else parsed env body (\<lambda>j.
        at_string env j ''username'' (\<lambda>username.
        at_string env j ''password'' (\<lambda>password d.
          case find_user_by_username d username of
            None \<Rightarrow> (err_reply ''401'' ''Invalid username or password'', d)
          | Some user \<Rightarrow>
          case get_password_hash d (u_id user) of
            None \<Rightarrow> (err_reply ''401'' ''Invalid username or password'', d)
          | Some stored_hash \<Rightarrow>
              if \<not> ae_verify env password stored_hash
              then (err_reply ''401'' ''Invalid username or password'', d)
              else if u_is_banned user then (banned_reply, d)
              else if locked_out d user then (lockdown_reply, d)
              else check_and_handle_mfa env user ''password''
                (start_session env user (must_change_password env user) (\<lambda>e. caught env (Db_exn e))) d))) d)"

text \<open>A unique violation anywhere is reported as a taken name.\<close>

definition register_failed :: "auth_env \<Rightarrow> db_error \<Rightarrow> reply" where
  "register_failed env e =
     (if e = UniqueViolation then err_reply ''409'' ''Username already taken'' else caught env (Db_exn e))"

text \<open>The second half of the registration, from the user's row to his session.\<close>

definition create_account ::
  "auth_env \<Rightarrow> string \<Rightarrow> string \<Rightarrow> string \<Rightarrow> string \<Rightarrow> db \<Rightarrow> reply \<times> db" where
  "create_account env username display_name password invite_token d =
     (let is_first_user = (count_users d = 0)
      in case create_user d (ae_user_id env) (ae_now env) username display_name ''''
                (if is_first_user then ''owner'' else ''user'') of
           Inl e \<Rightarrow> (register_failed env e, d)
         | Inr (user, d1) \<Rightarrow>
         case ae_hash env password of
           None \<Rightarrow> (caught env Rand_failed, d1)
         | Some hash \<Rightarrow>
         case store_password d1 (ae_now env) (u_id user) hash of
           Inl e \<Rightarrow> (register_failed env e, d1)
         | Inr d2 \<Rightarrow>
         case complete_user_creation env user invite_token d2 of
           Inl e \<Rightarrow> (register_failed env e, d2)
         | Inr d3 \<Rightarrow> start_session env user (\<lambda>_. []) (register_failed env) d3)"

definition handle_password_register :: "auth_env \<Rightarrow> json option \<Rightarrow> db \<Rightarrow> reply \<times> db" where
  "handle_password_register env body d =
     (if \<not> is_auth_method_enabled (ae_parse env) d ''password''
      then (err_reply ''403'' ''Password authentication is not enabled on this server'', d)
      else parsed env body (\<lambda>j.
        at_string env j ''username'' (\<lambda>username.
        at_string env j ''display_name'' (\<lambda>display_name.
        at_string env j ''password'' (\<lambda>password.
        value_string env j ''token'' '''' (\<lambda>invite_token d.
          let validation_error = validate_password password (get_password_policy d);
              eligibility_error = check_registration_eligibility env d invite_token
          in if validation_error \<noteq> [] then (err_reply ''400'' validation_error, d)
             else if eligibility_error \<noteq> [] then (err_reply ''403'' eligibility_error, d)
             else create_account env username display_name password invite_token d))))) d)"

definition handle_password_change :: "auth_env \<Rightarrow> string \<Rightarrow> json option \<Rightarrow> db \<Rightarrow> reply \<times> db" where
  "handle_password_change env session_token body d =
     (case validate_session d (ae_now env) session_token of
        None \<Rightarrow> (err_reply ''401'' ''Unauthorized'', d)
      | Some user_id \<Rightarrow>
        parsed env body (\<lambda>j.
        at_string env j ''current_password'' (\<lambda>current_password.
        at_string env j ''new_password'' (\<lambda>new_password d.
          case get_password_hash d user_id of
            None \<Rightarrow> (err_reply ''401'' ''Current password is incorrect'', d)
          | Some stored_hash \<Rightarrow>
              let policy = get_password_policy d;
                  validation_error = validate_password new_password policy
              in if \<not> ae_verify env current_password stored_hash
                 then (err_reply ''401'' ''Current password is incorrect'', d)
                 else if validation_error \<noteq> [] then (err_reply ''400'' validation_error, d)
                 else if history_count policy > 0
                   \<and> matches_history (ae_verify env) new_password
                       (get_password_history d user_id (history_count policy) @ [stored_hash])
                 then (err_reply ''400'' ''Cannot reuse a recent password'', d)
                 else
                   case add_password_history d (ae_now env) user_id stored_hash of
                     Inl e \<Rightarrow> (caught env (Db_exn e), d)
                   | Inr d1 \<Rightarrow>
                   case ae_hash env new_password of
                     None \<Rightarrow> (caught env Rand_failed, d1)
                   | Some new_hash \<Rightarrow>
                   case store_password d1 (ae_now env) user_id new_hash of
                     Inl e \<Rightarrow> (caught env (Db_exn e), d1)
                   | Inr d2 \<Rightarrow> (done_reply, d2)))) d)"

text \<open>\<open>methods_str.find(needle) != npos\<close>.\<close>

fun str_contains :: "string \<Rightarrow> string \<Rightarrow> bool" where
  "str_contains needle [] \<longleftrightarrow> needle = []"
| "str_contains needle (c # s) \<longleftrightarrow> starts_with needle (c # s) \<or> str_contains needle s"

definition handle_password_set :: "auth_env \<Rightarrow> string \<Rightarrow> json option \<Rightarrow> db \<Rightarrow> reply \<times> db" where
  "handle_password_set env session_token body d =
     (case validate_session d (ae_now env) session_token of
        None \<Rightarrow> (err_reply ''401'' ''Unauthorized'', d)
      | Some user_id \<Rightarrow>
          let methods_str = (case get_setting d ''auth_methods'' of Some m \<Rightarrow> m | None \<Rightarrow> '''')
          in if \<not> str_contains ''password'' methods_str
             then (err_reply ''403'' ''Password authentication is not enabled'', d)
             else if has_password d user_id
             then (err_reply ''400'' ''Password already set. Use the change password endpoint instead.'', d)
             else parsed env body (\<lambda>j.
               at_string env j ''password'' (\<lambda>new_password d.
                 let validation_error = validate_password new_password (get_password_policy d)
                 in if validation_error \<noteq> [] then (err_reply ''400'' validation_error, d)
                    else
                      case ae_hash env new_password of
                        None \<Rightarrow> (caught env Rand_failed, d)
                      | Some hash \<Rightarrow>
                      case store_password d (ae_now env) user_id hash of
                        Inl e \<Rightarrow> (caught env (Db_exn e), d)
                      | Inr d1 \<Rightarrow> (done_reply, d1))) d)"

text \<open>The dash in the last message is the three bytes of U+2014.\<close>

definition last_login_method :: string where
  "last_login_method = ''Cannot remove password '' @ [CHR 0xE2, CHR 0x80, CHR 0x94]
     @ '' no other login method configured. Add a passkey or browser key first.''"

definition handle_password_delete :: "auth_env \<Rightarrow> string \<Rightarrow> db \<Rightarrow> reply \<times> db" where
  "handle_password_delete env session_token d =
     (case validate_session d (ae_now env) session_token of
        None \<Rightarrow> (err_reply ''401'' ''Unauthorized'', d)
      | Some user_id \<Rightarrow>
          if \<not> has_password d user_id then (err_reply ''400'' ''No password is set'', d)
          else if count_user_credentials d user_id < 1 then (err_reply ''400'' last_login_method, d)
          else (done_reply, delete_password d user_id))"

section \<open>The second factor\<close>

text \<open>
  The pending token comes from the body; a text that is not a UUID makes PostgreSQL refuse the
  query, which the handler reports as an exception.
\<close>

definition with_pending ::
  "auth_env \<Rightarrow> string \<Rightarrow> (string \<Rightarrow> string \<Rightarrow> db \<Rightarrow> reply \<times> db) \<Rightarrow> db \<Rightarrow> reply \<times> db" where
  "with_pending env mfa_token rest d =
     (if \<not> ae_is_uuid env mfa_token then (caught env Invalid_uuid, d)
      else case validate_mfa_pending_token d (ae_now env) mfa_token of
             None \<Rightarrow> (err_reply ''401'' ''Invalid or expired MFA token'', d)
           | Some (user_id, auth_method) \<Rightarrow> rest user_id auth_method d)"

text \<open>The check of a code against a secret, with the last used step read from the database.\<close>

definition code_matches :: "auth_env \<Rightarrow> db \<Rightarrow> string \<Rightarrow> string \<Rightarrow> string \<Rightarrow> 64 word option" where
  "code_matches env d user_id secret code =
     verify_code (ae_hmac env) (ae_unix env) secret code
       (map_option word_of_int (get_totp_last_step d user_id)) 1"

text \<open>What both ways of passing the second factor do last; \<open>mfa_token\<close> is spent before the user is checked.\<close>

definition finish_mfa :: "auth_env \<Rightarrow> string \<Rightarrow> string \<Rightarrow> db \<Rightarrow> reply \<times> db" where
  "finish_mfa env user_id auth_method d =
     (case find_user_by_id d user_id of
        None \<Rightarrow> (err_reply ''404'' ''User not found'', d)
      | Some user \<Rightarrow>
          if u_is_banned user then (banned_reply, d)
          else if locked_out d user then (lockdown_reply, d)
          else start_session env user
                 (if auth_method = ''password'' then must_change_password env user else (\<lambda>_. []))
                 (\<lambda>e. caught env (Db_exn e)) d)"

definition handle_mfa_verify :: "auth_env \<Rightarrow> json option \<Rightarrow> db \<Rightarrow> reply \<times> db" where
  "handle_mfa_verify env body =
     parsed env body (\<lambda>j.
     at_string env j ''mfa_token'' (\<lambda>mfa_token.
     at_string env j ''totp_code'' (\<lambda>totp_code.
     with_pending env mfa_token (\<lambda>user_id auth_method d.
       case get_totp_secret d user_id of
         None \<Rightarrow> (err_reply ''400'' ''TOTP is not set up'', d)
       | Some secret \<Rightarrow>
       case code_matches env d user_id secret totp_code of
         None \<Rightarrow> (err_reply ''401'' ''Invalid verification code'', d)
       | Some matched_step \<Rightarrow>
           let d1 = snd (set_totp_last_step d user_id (sint matched_step));
               d2 = delete_mfa_pending_token d1 mfa_token
           in finish_mfa env user_id auth_method d2))))"

definition handle_mfa_setup :: "auth_env \<Rightarrow> json option \<Rightarrow> db \<Rightarrow> reply \<times> db" where
  "handle_mfa_setup env body =
     parsed env body (\<lambda>j.
     at_string env j ''mfa_token'' (\<lambda>mfa_token.
     with_pending env mfa_token (\<lambda>user_id auth_method d.
       case find_user_by_id d user_id of
         None \<Rightarrow> (err_reply ''404'' ''User not found'', d)
       | Some user \<Rightarrow>
       case generate_secret (ae_random_secret env) of
         None \<Rightarrow> (caught env Rand_failed, d)
       | Some secret \<Rightarrow>
       case store_totp_secret d user_id secret of
         Inl e \<Rightarrow> (caught env (Db_exn e), d)
       | Inr d1 \<Rightarrow>
           let server_name = (case get_setting d1 ''server_name'' of Some n \<Rightarrow> n | None \<Rightarrow> ''EnclaveStation'')
           in (ok_reply (JObject [(''secret'', JString secret),
                 (''uri'', JString (build_uri secret (u_username user) server_name))]), d1))))"

definition handle_mfa_setup_verify :: "auth_env \<Rightarrow> json option \<Rightarrow> db \<Rightarrow> reply \<times> db" where
  "handle_mfa_setup_verify env body =
     parsed env body (\<lambda>j.
     at_string env j ''mfa_token'' (\<lambda>mfa_token.
     at_string env j ''code'' (\<lambda>code.
     with_pending env mfa_token (\<lambda>user_id auth_method d.
       case get_unverified_totp_secret d user_id of
         None \<Rightarrow> (err_reply ''400'' ''No TOTP setup in progress'', d)
       | Some secret \<Rightarrow>
       case code_matches env d user_id secret code of
         None \<Rightarrow> (err_reply ''401'' ''Invalid verification code'', d)
       | Some matched_step \<Rightarrow>
           let d1 = verify_totp d user_id;
               d2 = snd (set_totp_last_step d1 user_id (sint matched_step));
               d3 = delete_mfa_pending_token d2 mfa_token
           in finish_mfa env user_id auth_method d3))))"

section \<open>Recovery and logout\<close>

definition recovered :: "(string \<times> json) list" where
  "recovered = [(''must_setup_key'', JBool True)]"

definition handle_recovery_login :: "auth_env \<Rightarrow> json option \<Rightarrow> db \<Rightarrow> reply \<times> db" where
  "handle_recovery_login env body =
     parsed env body (\<lambda>j.
     at_string env j ''recovery_key'' (\<lambda>recovery_key d.
       case verify_and_consume_recovery_key d (ae_recovery_hash env recovery_key) of
         (None, d1) \<Rightarrow> (err_reply ''401'' ''Invalid or already used recovery key'', d1)
       | (Some user_id, d1) \<Rightarrow>
       case find_user_by_id d1 user_id of
         None \<Rightarrow> (err_reply ''404'' ''User not found'', d1)
       | Some user \<Rightarrow>
           if u_is_banned user then (banned_reply, d1)
           else if locked_out d1 user then (lockdown_reply, d1)
           else start_session env user (\<lambda>_. recovered) (\<lambda>e. caught env (Db_exn e)) d1))"

definition handle_recovery_token_login :: "auth_env \<Rightarrow> json option \<Rightarrow> db \<Rightarrow> reply \<times> db" where
  "handle_recovery_token_login env body =
     parsed env body (\<lambda>j.
     at_string env j ''token'' (\<lambda>token d.
       case get_recovery_token_user_id d (ae_now env) token of
         None \<Rightarrow> (err_reply ''401'' ''Invalid or expired recovery token'', d)
       | Some user_id \<Rightarrow>
       case find_user_by_id d user_id of
         None \<Rightarrow> (err_reply ''404'' ''User not found'', d)
       | Some user \<Rightarrow>
           if u_is_banned user then (banned_reply, d)
           else if locked_out d user then (lockdown_reply, d)
           else start_session env user (\<lambda>_. recovered) (\<lambda>e. caught env (Db_exn e))
                  (use_recovery_token d (ae_now env) token)))"

definition handle_logout :: "string \<Rightarrow> db \<Rightarrow> reply \<times> db" where
  "handle_logout token d =
     (done_reply\<lparr>rp_cookies := emit_clear_session_cookies\<rparr>, delete_session d token)"

section \<open>The second factor in the user's settings\<close>

text \<open>\<open>/api/users/me/totp/setup\<close>, \<open>/verify\<close> and \<open>DELETE /api/users/me/totp\<close> of \<open>handlers/user_handler.cpp\<close>.\<close>

definition me_totp_setup :: "auth_env \<Rightarrow> string \<Rightarrow> db \<Rightarrow> reply \<times> db" where
  "me_totp_setup env session_token d =
     (case validate_session d (ae_now env) session_token of
        None \<Rightarrow> (err_reply ''401'' ''Unauthorized'', d)
      | Some user_id \<Rightarrow>
      case find_user_by_id d user_id of
        None \<Rightarrow> (err_reply ''404'' ''User not found'', d)
      | Some user \<Rightarrow>
      case generate_secret (ae_random_secret env) of
        None \<Rightarrow> (err_reply ''500'' (ae_what env Rand_failed), d)
      | Some secret \<Rightarrow>
      case store_totp_secret d user_id secret of
        Inl e \<Rightarrow> (err_reply ''500'' (ae_what env (Db_exn e)), d)
      | Inr d1 \<Rightarrow>
          let server_name = (case get_setting d1 ''server_name'' of Some n \<Rightarrow> n | None \<Rightarrow> ''EnclaveStation'')
          in (ok_reply (JObject [(''secret'', JString secret),
                (''uri'', JString (build_uri secret (u_username user) server_name))]), d1))"

definition me_totp_verify :: "auth_env \<Rightarrow> string \<Rightarrow> json option \<Rightarrow> db \<Rightarrow> reply \<times> db" where
  "me_totp_verify env session_token body d =
     (case validate_session d (ae_now env) session_token of
        None \<Rightarrow> (err_reply ''401'' ''Unauthorized'', d)
      | Some user_id \<Rightarrow>
        parsed env body (\<lambda>j.
        at_string env j ''code'' (\<lambda>code d.
          case get_unverified_totp_secret d user_id of
            None \<Rightarrow> (err_reply ''400'' ''No TOTP setup in progress'', d)
          | Some secret \<Rightarrow>
          case code_matches env d user_id secret code of
            None \<Rightarrow> (err_reply ''401'' ''Invalid verification code'', d)
          | Some matched_step \<Rightarrow>
              (done_reply, snd (set_totp_last_step (verify_totp d user_id) user_id (sint matched_step))))) d)"

text \<open>The login methods of the user for which the server demands a second factor.\<close>

definition blocking_methods :: "db \<Rightarrow> string \<Rightarrow> string list" where
  "blocking_methods d user_id =
     (let check_mfa = (\<lambda>m. get_setting d (''mfa_required_'' @ m) = Some ''true'')
      in (if check_mfa ''password'' \<and> has_password d user_id then [''password''] else [])
         @ (if check_mfa ''pki'' \<and> list_ex (\<lambda>c. pi_user_id c = user_id) (pki_credentials d)
            then [''browser key''] else [])
         @ (if check_mfa ''passkey'' \<and> list_ex (\<lambda>c. pk_user_id c = user_id) (webauthn_credentials d)
            then [''passkey''] else []))"

text \<open>The names are joined by commas, the last by \<open>and\<close>.\<close>

fun join_methods :: "string list \<Rightarrow> string" where
  "join_methods [] = ''''"
| "join_methods [m] = m"
| "join_methods [m, n] = m @ '' and '' @ n"
| "join_methods (m # ms) = m @ '', '' @ join_methods ms"

definition me_totp_delete :: "auth_env \<Rightarrow> string \<Rightarrow> json option \<Rightarrow> db \<Rightarrow> reply \<times> db" where
  "me_totp_delete env session_token body d =
     (case validate_session d (ae_now env) session_token of
        None \<Rightarrow> (err_reply ''401'' ''Unauthorized'', d)
      | Some user_id \<Rightarrow>
        parsed env body (\<lambda>j.
        at_string env j ''code'' (\<lambda>code d.
          case get_totp_secret d user_id of
            None \<Rightarrow> (err_reply ''400'' ''TOTP is not enabled'', d)
          | Some secret \<Rightarrow>
          case code_matches env d user_id secret code of
            None \<Rightarrow> (err_reply ''401'' ''Invalid verification code'', d)
          | Some matched_step \<Rightarrow>
              let d1 = snd (set_totp_last_step d user_id (sint matched_step));
                  blocking = blocking_methods d1 user_id
              in if blocking \<noteq> []
                 then (err_reply ''403'' (''Cannot disable two-factor authentication because this server requires it for ''
                         @ join_methods blocking
                         @ '' login. Remove those authentication methods first or contact an administrator.''), d1)
                 else (done_reply, delete_totp d1 user_id))) d)"


end
