(* ===== verification/Auth_Props.thy ===== *)
theory Auth_Props
  imports Auth_Handler
begin

text \<open>
  What the login endpoints guarantee. A reply with cookies is a login: \<open>granted\<close>. Each handler is
  first brought into the form \<open>sessions and cookies exactly when\<close>; the properties then read off
  who can log in, what a login uses up, and what a password change leaves behind.
\<close>

abbreviation granted :: "reply \<Rightarrow> bool" where
  "granted r \<equiv> rp_cookies r \<noteq> []"

section \<open>The readers of the body\<close>

lemma err_reply_cookies [simp]: "rp_cookies (err_reply s m) = []" "rp_cookies (ok_reply j) = []"
  "rp_cookies (caught env e) = []" "rp_cookies done_reply = []" "rp_cookies banned_reply = []"
  "rp_cookies lockdown_reply = []"
  by (simp_all add: err_reply_def ok_reply_def caught_def done_reply_def banned_reply_def
      lockdown_reply_def)

lemma register_failed_cookies [simp]: "rp_cookies (register_failed env e) = []"
  by (simp add: register_failed_def)

definition at_error :: "auth_env \<Rightarrow> json \<Rightarrow> string \<Rightarrow> reply" where
  "at_error env j k = caught env (case json_get j k of None \<Rightarrow> Missing_key k | Some v \<Rightarrow> Not_a_string k)"

lemma at_error_cookies [simp]: "rp_cookies (at_error env j k) = []"
  by (simp add: at_error_def)

lemma at_string_eq:
  "at_string env j k rest d =
     (case json_string_field j k of Some s \<Rightarrow> rest s d | None \<Rightarrow> (at_error env j k, d))"
  by (auto simp: at_string_def at_error_def json_string_field_def split: option.splits)

lemma value_string_eq:
  "value_string env j k dflt rest d =
     (if json_get j k = None then rest dflt d
      else case json_string_field j k of Some s \<Rightarrow> rest s d | None \<Rightarrow> (caught env (Not_a_string k), d))"
  by (auto simp: value_string_def json_string_field_def split: option.splits)

lemmas readers = parsed_def at_string_eq value_string_eq

section \<open>Starting a session\<close>

definition new_session :: "auth_env \<Rightarrow> db \<Rightarrow> user \<Rightarrow> session" where
  "new_session env d u =
     \<lparr>se_user_id = u_id u, se_token = ae_session_token env,
      se_expires_at = ae_now env + hours (get_session_expiry d (ae_config_hours env))\<rparr>"

definition can_start :: "auth_env \<Rightarrow> db \<Rightarrow> user \<Rightarrow> bool" where
  "can_start env d u \<longleftrightarrow> ref_ok u_id (u_id u) (users d) \<and> \<not> has_key se_token (ae_session_token env) (sessions d)"

lemma start_session_db:
  "snd (start_session env u x f d) = (if can_start env d u then d\<lparr>sessions := sessions d @ [new_session env d u]\<rparr> else d)"
  by (auto simp: start_session_def create_session_def can_start_def new_session_def Let_def)

lemma start_session_granted:
  "(\<And>e. rp_cookies (f e) = []) \<Longrightarrow> granted (fst (start_session env u x f d)) \<longleftrightarrow> can_start env d u"
  by (auto simp: start_session_def create_session_def can_start_def Let_def emit_session_cookies_def)

lemma find_by_name_in: "find_user_by_username d n = Some u \<Longrightarrow> ref_ok u_id (u_id u) (users d)"
  by (auto simp: find_user_by_username_def ref_ok_def has_key_iff dest!: first_row_filter_Some)

lemma find_by_id_in: "find_user_by_id d i = Some u \<Longrightarrow> u_id u = i \<and> ref_ok u_id i (users d)"
  by (auto simp: ref_ok_def has_key_iff dest!: find_user_by_id_id)

section \<open>Password login\<close>

text \<open>Who a password login lets in: the conditions, in the order of the handler.\<close>

definition password_accepts :: "auth_env \<Rightarrow> json option \<Rightarrow> db \<Rightarrow> user \<Rightarrow> bool" where
  "password_accepts env body d u \<longleftrightarrow>
     is_auth_method_enabled (ae_parse env) d ''password''
     \<and> (\<exists>j n p h. body = Some j \<and> json_string_field j ''username'' = Some n
          \<and> json_string_field j ''password'' = Some p \<and> find_user_by_username d n = Some u
          \<and> get_password_hash d (u_id u) = Some h \<and> ae_verify env p h)
     \<and> \<not> u_is_banned u \<and> \<not> locked_out d u"

lemma password_login_cases:
  "(\<exists>u. password_accepts env body d u
      \<and> handle_password_login env body d = check_and_handle_mfa env u ''password''
          (start_session env u (must_change_password env u) (\<lambda>e. caught env (Db_exn e))) d)
   \<or> ((\<nexists>u. password_accepts env body d u)
      \<and> (\<exists>r. handle_password_login env body d = (r, d) \<and> \<not> granted r))"
  by (auto simp: handle_password_login_def password_accepts_def readers split: option.splits)

lemma password_accepts_unique:
  "password_accepts env body d u \<Longrightarrow> password_accepts env body d v \<Longrightarrow> u = v"
  by (auto simp: password_accepts_def)

section \<open>Properties\<close>

text \<open>C15: A password login sets session cookies exactly when the method is enabled, the body names a user
  whose stored hash verifies, that user is neither banned nor shut out by a lockdown, and neither the
  server nor the user asks for a second factor. Then one session for that very user is added; in
  every other case no session is.\<close>

theorem password_login_exact:
  "let (r, d') = handle_password_login env body d;
       lets_in = (\<lambda>u. password_accepts env body d u \<and> \<not> is_mfa_required_for_method d ''password''
                    \<and> \<not> has_totp d (u_id u) \<and> \<not> has_key se_token (ae_session_token env) (sessions d))
   in (granted r \<longleftrightarrow> (\<exists>u. lets_in u))
      \<and> (if granted r then (\<exists>u. lets_in u \<and> sessions d' = sessions d @ [new_session env d u])
         else sessions d' = sessions d)"
proof -
  consider (yes) u where "password_accepts env body d u"
      "handle_password_login env body d = check_and_handle_mfa env u ''password''
          (start_session env u (must_change_password env u) (\<lambda>e. caught env (Db_exn e))) d"
    | (no) r where "\<nexists>u. password_accepts env body d u" "handle_password_login env body d = (r, d)" "\<not> granted r"
    using password_login_cases [of env body d] by blast
  then show ?thesis
  proof cases
    case yes
    let ?start = "start_session env u (must_change_password env u) (\<lambda>e. caught env (Db_exn e))"
    have the_u: "password_accepts env body d v \<longleftrightarrow> v = u" for v
      using yes(1) password_accepts_unique by blast
    have "ref_ok u_id (u_id u) (users d)"
      using yes(1) find_by_name_in by (auto simp: password_accepts_def)
    then have start: "granted (fst (?start d)) \<longleftrightarrow> \<not> has_key se_token (ae_session_token env) (sessions d)"
      "sessions (snd (?start d)) = (if granted (fst (?start d)) then sessions d @ [new_session env d u] else sessions d)"
      by (simp_all add: start_session_granted start_session_db can_start_def)
    show ?thesis
    proof (cases "is_mfa_required_for_method d ''password'' \<or> has_totp d (u_id u)")
      case True
      then have "\<not> granted (fst (handle_password_login env body d))"
        "sessions (snd (handle_password_login env body d)) = sessions d"
        unfolding yes(2) by (auto simp: check_and_handle_mfa_def Let_def create_mfa_pending_token_def)
      with True the_u show ?thesis by (auto simp: case_prod_beta Let_def)
    next
      case False
      then have "handle_password_login env body d = ?start d"
        unfolding yes(2) by (simp add: check_and_handle_mfa_def Let_def)
      with False the_u start show ?thesis by (auto simp: case_prod_beta Let_def)
    qed
  next
    case no
    then show ?thesis by simp
  qed
qed

section \<open>The second factor\<close>

text \<open>A code is accepted: the token is pending, the secret verified, and a fresh step has the code.\<close>

definition mfa_accepts ::
  "auth_env \<Rightarrow> json option \<Rightarrow> db \<Rightarrow> string \<Rightarrow> string \<Rightarrow> string \<Rightarrow> string \<Rightarrow> 64 word \<Rightarrow> bool" where
  "mfa_accepts env body d token m i code step \<longleftrightarrow>
     (\<exists>j secret. body = Some j \<and> json_string_field j ''mfa_token'' = Some token
        \<and> json_string_field j ''totp_code'' = Some code \<and> ae_is_uuid env token
        \<and> validate_mfa_pending_token d (ae_now env) token = Some (i, m)
        \<and> get_totp_secret d i = Some secret \<and> code_matches env d i secret code = Some step)"

definition mfa_spent :: "db \<Rightarrow> string \<Rightarrow> string \<Rightarrow> 64 word \<Rightarrow> db" where
  "mfa_spent d token i step =
     delete_mfa_pending_token (snd (set_totp_last_step d i (sint step))) token"

lemma mfa_verify_cases:
  "(\<exists>token m i code step. mfa_accepts env body d token m i code step
      \<and> handle_mfa_verify env body d = finish_mfa env i m (mfa_spent d token i step))
   \<or> ((\<nexists>token m i code step. mfa_accepts env body d token m i code step)
      \<and> (\<exists>r. handle_mfa_verify env body d = (r, d) \<and> \<not> granted r))"
  by (auto simp: handle_mfa_verify_def mfa_accepts_def readers with_pending_def mfa_spent_def Let_def
      split: option.splits)

lemma mfa_accepts_unique:
  "mfa_accepts env body d t m i c s \<Longrightarrow> mfa_accepts env body d t' m' i' c' s'
     \<Longrightarrow> t' = t \<and> m' = m \<and> i' = i \<and> c' = c \<and> s' = s"
  by (auto simp: mfa_accepts_def)

lemma mfa_spent_tables [simp]:
  "users (mfa_spent d t i s) = users d" "sessions (mfa_spent d t i s) = sessions d"
  "settings (mfa_spent d t i s) = settings d"
  by (simp_all add: mfa_spent_def delete_mfa_pending_token_def set_totp_last_step_def update_totp_def)

lemma mfa_spent_queries [simp]:
  "find_user_by_id (mfa_spent d t i s) j = find_user_by_id d j"
  "locked_out (mfa_spent d t i s) u = locked_out d u"
  "can_start env (mfa_spent d t i s) u = can_start env d u"
  "new_session env (mfa_spent d t i s) u = new_session env d u"
  by (simp_all add: find_user_by_id_def locked_out_def is_server_locked_down_def get_setting_def
      can_start_def new_session_def get_session_expiry_def)

lemma finish_mfa_db:
  "snd (finish_mfa env i m d) =
     (case find_user_by_id d i of
        Some u \<Rightarrow> if \<not> u_is_banned u \<and> \<not> locked_out d u \<and> can_start env d u
                 then d\<lparr>sessions := sessions d @ [new_session env d u]\<rparr> else d
      | None \<Rightarrow> d)"
  by (auto simp: finish_mfa_def start_session_db split: option.splits)

lemma finish_mfa_granted:
  "granted (fst (finish_mfa env i m d)) \<longleftrightarrow>
     (\<exists>u. find_user_by_id d i = Some u \<and> \<not> u_is_banned u \<and> \<not> locked_out d u
        \<and> \<not> has_key se_token (ae_session_token env) (sessions d))"
  by (auto simp: finish_mfa_def start_session_granted can_start_def find_by_id_in split: option.splits)

lemma mfa_spent_last_step:
  "get_unverified_totp_secret d i \<noteq> None \<Longrightarrow> get_totp_last_step (mfa_spent d t i s) i = Some (sint s)"
  using last_step_after_set [of d i "sint s"]
  by (simp add: mfa_spent_def get_totp_last_step_def delete_mfa_pending_token_def)

lemma code_matches_step:
  assumes "code_matches env d i secret code = Some step"
  shows "compute_code (ae_hmac env) secret step = code"
    and "step \<in> {ae_unix env div 30 - 1, ae_unix env div 30, ae_unix env div 30 + 1}"
    and "get_totp_last_step d i = Some l \<Longrightarrow> word_of_int l < step"
proof -
  have "[- 1..1] = [- 1, 0, 1 :: int]" by (simp add: upto_rec1)
  then show "compute_code (ae_hmac env) secret step = code"
    and "step \<in> {ae_unix env div 30 - 1, ae_unix env div 30, ae_unix env div 30 + 1}"
    and "get_totp_last_step d i = Some l \<Longrightarrow> word_of_int l < step"
    using verify_loop_sound [OF assms [unfolded code_matches_def verify_code_def]] by auto
qed

text \<open>C16: The second factor lets a login in exactly when its token is pending and unexpired, the user's
  secret is verified and has the code at a step in the window of three around the current one and
  after the last step used, and the user is neither banned nor locked out. The token is then spent and
  the step recorded, so that no later login of that user can use this code's step, or an earlier one,
  again.\<close>

theorem mfa_verify_exact:
  "let (r, d') = handle_mfa_verify env body d in
     (granted r \<longleftrightarrow> (\<exists>token m i code step u. mfa_accepts env body d token m i code step
        \<and> find_user_by_id d i = Some u \<and> \<not> u_is_banned u \<and> \<not> locked_out d u
        \<and> \<not> has_key se_token (ae_session_token env) (sessions d)))
     \<and> (granted r \<longrightarrow> (\<exists>token m i code step secret u. mfa_accepts env body d token m i code step
        \<and> get_totp_secret d i = Some secret \<and> compute_code (ae_hmac env) secret step = code
        \<and> step \<in> {ae_unix env div 30 - 1, ae_unix env div 30, ae_unix env div 30 + 1}
        \<and> (\<forall>l. get_totp_last_step d i = Some l \<longrightarrow> word_of_int l < step)
        \<and> validate_mfa_pending_token d' (ae_now env) token = None
        \<and> get_totp_last_step d' i = Some (sint step)
        \<and> find_user_by_id d i = Some u \<and> sessions d' = sessions d @ [new_session env d u]))
     \<and> (\<not> granted r \<longrightarrow> sessions d' = sessions d)"
proof -
  consider (yes) token m i code step where "mfa_accepts env body d token m i code step"
      "handle_mfa_verify env body d = finish_mfa env i m (mfa_spent d token i step)"
    | (no) r where "\<nexists>token m i code step. mfa_accepts env body d token m i code step"
      "handle_mfa_verify env body d = (r, d)" "\<not> granted r"
    using mfa_verify_cases [of env body d] by blast
  then show ?thesis
  proof cases
    case yes
    let ?s = "mfa_spent d token i step"
    obtain secret where secret: "get_totp_secret d i = Some secret"
      "code_matches env d i secret code = Some step"
      using yes(1) by (auto simp: mfa_accepts_def)
    note step = code_matches_step [OF secret(2)]
    have last_step: "get_totp_last_step ?s i = Some (sint step)"
      using secret(1) totp_secret_unverified_None [of d i] by (intro mfa_spent_last_step) force
    have token: "validate_mfa_pending_token ?s (ae_now env) token = None"
      by (simp add: mfa_spent_def mfa_token_consumed)
    have db': "snd (handle_mfa_verify env body d) = ?s
        \<or> (\<exists>u. find_user_by_id d i = Some u \<and> snd (handle_mfa_verify env body d)
              = ?s\<lparr>sessions := sessions d @ [new_session env d u]\<rparr>)"
      unfolding yes(2) finish_mfa_db by (auto split: option.splits)
    then have kept: "validate_mfa_pending_token (snd (handle_mfa_verify env body d)) (ae_now env) token = None"
      "get_totp_last_step (snd (handle_mfa_verify env body d)) i = Some (sint step)"
      using last_step token by (auto simp: validate_mfa_pending_token_def get_totp_last_step_def)
    have grant: "granted (fst (handle_mfa_verify env body d)) \<longleftrightarrow>
        (\<exists>u. find_user_by_id d i = Some u \<and> \<not> u_is_banned u \<and> \<not> locked_out d u
          \<and> \<not> has_key se_token (ae_session_token env) (sessions d))"
      unfolding yes(2) finish_mfa_granted by simp
    have sess: "sessions (snd (handle_mfa_verify env body d)) =
        (case find_user_by_id d i of
           Some u \<Rightarrow> if granted (fst (handle_mfa_verify env body d)) then sessions d @ [new_session env d u] else sessions d
         | None \<Rightarrow> sessions d)"
      unfolding grant unfolding yes(2) finish_mfa_db
      by (auto simp: can_start_def find_by_id_in split: option.splits)
    have acc: "mfa_accepts env body d t' m' i' c' s'
        \<longleftrightarrow> t' = token \<and> m' = m \<and> i' = i \<and> c' = code \<and> s' = step" for t' m' i' c' s'
      using mfa_accepts_unique [OF yes(1)] yes(1) by blast
    have not_granted: "\<not> granted (fst (handle_mfa_verify env body d))
        \<Longrightarrow> sessions (snd (handle_mfa_verify env body d)) = sessions d"
      using sess by (auto split: option.splits)
    have granted: "\<exists>u. find_user_by_id d i = Some u
        \<and> sessions (snd (handle_mfa_verify env body d)) = sessions d @ [new_session env d u]"
      if "granted (fst (handle_mfa_verify env body d))"
      using that grant sess by auto
    show ?thesis
      unfolding case_prod_beta Let_def acc
      using secret(1) step kept grant granted not_granted by simp
  next
    case no
    then show ?thesis by simp
  qed
qed

text \<open>An environment and a database to run the handlers on: Argon2 and HMAC are replaced by simple functions.\<close>

definition example_env :: auth_env where
  "example_env = \<lparr>ae_now = 10, ae_unix = 60, ae_session_token = ''fresh'', ae_csrf = ''c5'',
     ae_mfa_id = ''p2'', ae_user_id = ''u3'', ae_random_secret = Some ''12345678901234567890'',
     ae_parse = (\<lambda>s. Some (JArray [JString ''password''])), ae_hmac = (\<lambda>k m. replicate 20 CHR ''7''),
     ae_hash = (\<lambda>p. Some (CHR ''#'' # p)), ae_verify = (\<lambda>p h. h = CHR ''#'' # p),
     ae_recovery_hash = (\<lambda>k. CHR ''h'' # k), ae_is_uuid = (\<lambda>s. s \<noteq> []), ae_what = (\<lambda>e. ''what''),
     ae_config_hours = 1, ae_has_ssl = True\<rparr>"

definition example_auth_db :: db where
  "example_auth_db = example_db\<lparr>settings := [(''auth_methods'', ''x'')],
     password_credentials := [\<lparr>pw_user_id = ''u1'', pw_hash = ''#Secret123'', pw_created_at = 0\<rparr>,
                              \<lparr>pw_user_id = ''u2'', pw_hash = ''#Other456'', pw_created_at = 0\<rparr>],
     totp_credentials := [\<lparr>tc_user_id = ''u2'', tc_secret = ''MFRGG'', tc_verified = True, tc_last_step = Some 1\<rparr>],
     mfa_pending_tokens := [\<lparr>mt_id = ''p1'', mt_user_id = ''u2'', mt_auth_method = ''password'', mt_expires_at = 100\<rparr>],
     recovery_keys := [\<lparr>rk_id = ''r1'', rk_user_id = ''u1'', rk_key_hash = ''hK1'', rk_used = False\<rparr>,
                       \<lparr>rk_id = ''r2'', rk_user_id = ''u1'', rk_key_hash = ''hK2'', rk_used = False\<rparr>],
     recovery_tokens := [\<lparr>rt_id = ''q1'', rt_token = ''T'', rt_created_by = ''u1'', rt_for_user_id = ''u2'',
        rt_used = False, rt_used_at = None, rt_expires_at = 100, rt_created_at = 0\<rparr>]\<rparr>"

section \<open>Replacing the second factor\<close>

lemma code_matches_current:
  assumes "\<And>l. get_totp_last_step d i = Some l \<Longrightarrow> word_of_int l < ae_unix env div 30"
  shows "\<exists>step. code_matches env d i secret (compute_code (ae_hmac env) secret (ae_unix env div 30)) = Some step"
proof -
  have "[- 1..1] = [- 1, 0, 1 :: int]" by (simp add: upto_rec1)
  then show ?thesis
    using assms verify_loop_complete [of 0 "[-1..1]" "compute_code (ae_hmac env) secret" "ae_unix env div 30"
        "compute_code (ae_hmac env) secret (ae_unix env div 30)"
        "map_option word_of_int (get_totp_last_step d i)"]
    by (auto simp: code_matches_def verify_code_def)
qed

lemma totp_stored_tables:
  assumes "store_totp_secret d i s = Inr d'"
  shows "users d' = users d" "sessions d' = sessions d" "settings d' = settings d"
    "mfa_pending_tokens d' = mfa_pending_tokens d"
  using assms by (auto simp: store_totp_secret_def Let_def split: if_splits)

lemma verified_tables [simp]:
  "users (verify_totp d i) = users d" "sessions (verify_totp d i) = sessions d"
  "settings (verify_totp d i) = settings d"
  by (simp_all add: verify_totp_def update_totp_def)

lemma spent_secret [simp]: "get_totp_secret (mfa_spent d t i s) j = get_totp_secret d j"
proof -
  have "filter (\<lambda>c. tc_user_id c = j \<and> tc_verified c)
        (map (\<lambda>c. if tc_user_id c = i then c\<lparr>tc_last_step := Some n\<rparr> else c) cs)
      = map (\<lambda>c. if tc_user_id c = i then c\<lparr>tc_last_step := Some n\<rparr> else c)
          (filter (\<lambda>c. tc_user_id c = j \<and> tc_verified c) cs)" for n and cs :: "totp_credential list"
    by (induction cs) auto
  then show ?thesis
    by (simp add: mfa_spent_def get_totp_secret_def delete_mfa_pending_token_def set_totp_last_step_def
        update_totp_def first_row_map option.map_comp comp_def if_distrib cong: if_cong)
qed

text \<open>C17: The pending token that a password login returns is enough to log in, whatever second factor its
  user has set up: \<open>/mfa/setup\<close> replaces the secret without asking for a code of the old one, and
  \<open>/mfa/setup/verify\<close> then takes a code of the new secret, which the first reply contains. The user's
  own authenticator no longer works afterwards.\<close>

theorem mfa_setup_replaces_factor:
  assumes "validate_mfa_pending_token d (ae_now env1) token = Some (i, m)"
    and "validate_mfa_pending_token d (ae_now env2) token = Some (i, m)"
    and "ae_is_uuid env1 token" and "ae_is_uuid env2 token"
    and "find_user_by_id d i = Some u" and "\<not> u_is_banned u" and "\<not> locked_out d u"
    and "ae_random_secret env1 = Some raw"
    and "\<not> has_key se_token (ae_session_token env2) (sessions d)"
  shows "let (r1, d1) = handle_mfa_setup env1 (Some (JObject [(''mfa_token'', JString token)])) d;
             secret = base32_encode raw;
             code = compute_code (ae_hmac env2) secret (ae_unix env2 div 30);
             (r2, d2) = handle_mfa_setup_verify env2
               (Some (JObject [(''mfa_token'', JString token), (''code'', JString code)])) d1
         in json_string_field (rp_body r1) ''secret'' = Some secret
            \<and> granted r2 \<and> sessions d2 = sessions d @ [new_session env2 d u]
            \<and> get_totp_secret d2 i = Some secret"
proof -
  let ?secret = "base32_encode raw"
  let ?code = "compute_code (ae_hmac env2) ?secret (ae_unix env2 div 30)"
  have "has_key u_id i (users d)"
    using find_user_by_id_id [OF assms(5)] by (auto simp: has_key_iff)
  then obtain d1 where d1: "store_totp_secret d i ?secret = Inr d1"
    by (auto simp: store_totp_secret_def Let_def)
  note stored = totp_after_store [OF d1] and tables = totp_stored_tables [OF d1]
  have first_reply: "snd (handle_mfa_setup env1 (Some (JObject [(''mfa_token'', JString token)])) d) = d1"
    "json_string_field (rp_body (fst (handle_mfa_setup env1 (Some (JObject [(''mfa_token'', JString token)])) d)))
        ''secret'' = Some ?secret"
    using assms(1,3,5,8) d1
    by (simp_all add: handle_mfa_setup_def readers with_pending_def generate_secret_def ok_reply_def Let_def)
  obtain step where step: "code_matches env2 d1 i ?secret ?code = Some step"
    using code_matches_current [of d1 i env2] stored(3) by auto
  let ?d = "mfa_spent (verify_totp d1 i) token i step"
  have same: "find_user_by_id ?d i = Some u" "\<not> locked_out ?d u" "can_start env2 ?d u"
    "new_session env2 ?d u = new_session env2 d u" "sessions ?d = sessions d"
    using assms(5,7,9) tables find_by_id_in [OF assms(5)]
    by (simp_all add: find_user_by_id_def locked_out_def is_server_locked_down_def get_setting_def
        can_start_def new_session_def get_session_expiry_def)
  have "validate_mfa_pending_token d1 (ae_now env2) token = Some (i, m)"
    using assms(2) tables(4) by (simp add: validate_mfa_pending_token_def)
  then have "handle_mfa_setup_verify env2
      (Some (JObject [(''mfa_token'', JString token), (''code'', JString ?code)])) d1 = finish_mfa env2 i m ?d"
    using assms(4) stored(1) step
    by (simp add: handle_mfa_setup_verify_def readers with_pending_def mfa_spent_def Let_def)
  moreover have "granted (fst (finish_mfa env2 i m ?d))"
    using same assms(6,9) by (auto simp: finish_mfa_granted)
  moreover have "snd (finish_mfa env2 i m ?d) = ?d\<lparr>sessions := sessions d @ [new_session env2 d u]\<rparr>"
    using same assms(6) by (simp add: finish_mfa_db)
  moreover have "get_totp_secret ?d i = Some ?secret"
    using stored(1) totp_verified_after_verify by simp
  ultimately show ?thesis
    unfolding case_prod_beta Let_def first_reply by (simp add: get_totp_secret_def)
qed

theorem mfa_setup_replaces_factor_witness:
  "let (r1, d1) = handle_mfa_setup example_env (Some (JObject [(''mfa_token'', JString ''p1'')])) example_auth_db;
       secret = base32_encode ''12345678901234567890'';
       code = compute_code (ae_hmac example_env) secret (ae_unix example_env div 30);
       (r2, d2) = handle_mfa_setup_verify example_env
         (Some (JObject [(''mfa_token'', JString ''p1''), (''code'', JString code)])) d1
   in json_string_field (rp_body r1) ''secret'' = Some secret
      \<and> granted r2 \<and> sessions d2 = sessions example_auth_db
          @ [new_session example_env example_auth_db (example_account ''u2'' ''user'')]
      \<and> get_totp_secret d2 ''u2'' = Some secret"
  by (rule mfa_setup_replaces_factor [where m = "''password''"]) code_simp+

text \<open>The example user of the previous statement did have a verified second factor.\<close>

lemma example_has_totp: "has_totp example_auth_db ''u2''"
  by code_simp

definition example_mfa_body :: "json option" where
  "example_mfa_body = Some (JObject [(''mfa_token'', JString ''p1''),
     (''totp_code'', JString (compute_code (ae_hmac example_env) ''MFRGG'' (ae_unix example_env div 30)))])"

lemma example_code_accepted: "granted (fst (handle_mfa_verify example_env example_mfa_body example_auth_db))"
proof -
  have "get_totp_last_step example_auth_db ''u2'' = Some 1" by code_simp
  then have "\<exists>step. code_matches example_env example_auth_db ''u2'' ''MFRGG''
      (compute_code (ae_hmac example_env) ''MFRGG'' (ae_unix example_env div 30)) = Some step"
    by (intro code_matches_current) (auto simp: example_env_def)
  moreover have "validate_mfa_pending_token example_auth_db (ae_now example_env) ''p1'' = Some (''u2'', ''password'')"
    "get_totp_secret example_auth_db ''u2'' = Some ''MFRGG''" "ae_is_uuid example_env ''p1''" by code_simp+
  moreover have user: "find_user_by_id example_auth_db ''u2'' = Some (example_account ''u2'' ''user'')"
    "\<not> u_is_banned (example_account ''u2'' ''user'')"
    "\<not> locked_out example_auth_db (example_account ''u2'' ''user'')"
    "\<not> has_key se_token (ae_session_token example_env) (sessions example_auth_db)" by code_simp+
  from user have "granted (fst (finish_mfa example_env ''u2'' m (mfa_spent example_auth_db t ''u2'' step)))" for m t step
    by (simp add: finish_mfa_granted)
  ultimately show ?thesis
    by (auto simp: handle_mfa_verify_def example_mfa_body_def readers with_pending_def Let_def
        mfa_spent_def [symmetric])
qed

theorem mfa_verify_exact_witness:
  "\<exists>u. sessions (snd (handle_mfa_verify example_env example_mfa_body example_auth_db))
     = sessions example_auth_db @ [new_session example_env example_auth_db u]"
  using example_code_accepted mfa_verify_exact [of example_env example_mfa_body example_auth_db]
  unfolding case_prod_beta Let_def by blast

section \<open>Changing a password, registering\<close>

abbreviation succeeded :: "reply \<Rightarrow> bool" where
  "succeeded r \<equiv> rp_status r = ''200 OK''"

lemma replies_succeeded [simp]: "succeeded done_reply" "\<not> succeeded (caught env e)" "\<not> succeeded (at_error env j k)"
  by (simp_all add: done_reply_def ok_reply_def caught_def at_error_def err_reply_def)

lemma err_reply_status [simp]: "rp_status (err_reply s m) = s"
  by (simp add: err_reply_def)

lemma history_tables:
  assumes "add_password_history d now i h = Inr d'"
  shows "password_history d' = password_history d @ [\<lparr>pw_user_id = i, pw_hash = h, pw_created_at = now\<rparr>]"
    and "get_password_hash d' = get_password_hash d" and "users d' = users d"
  using assms by (auto simp: add_password_history_def get_password_hash_def fun_eq_iff split: if_splits)

text \<open>C18: A password change succeeds only for the holder of a valid session who knows the current password,
  with a new password that meets the policy and, where a history is kept, matches neither the current
  password nor a remembered one. Then exactly that user's password is the new one and the old one is
  remembered; in every other case no password changes.\<close>

theorem password_change_exact:
  "let (r, d') = handle_password_change env token body d; policy = get_password_policy d in
     if succeeded r
     then \<exists>i j current new old hash. validate_session d (ae_now env) token = Some i \<and> body = Some j
        \<and> json_string_field j ''current_password'' = Some current
        \<and> json_string_field j ''new_password'' = Some new
        \<and> get_password_hash d i = Some old \<and> ae_verify env current old \<and> meets_policy new policy
        \<and> \<not> (history_count policy > 0 \<and> (\<exists>h \<in> set (old # get_password_history d i (history_count policy)).
               ae_verify env new h))
        \<and> ae_hash env new = Some hash
        \<and> get_password_hash d' = (get_password_hash d)(i := Some hash)
        \<and> password_history d' = password_history d @
             [\<lparr>pw_user_id = i, pw_hash = old, pw_created_at = ae_now env\<rparr>]
     else get_password_hash d' = get_password_hash d"
proof -
  have stored: "get_password_hash d2 = (get_password_hash d1)(i := Some h)" "password_history d2 = password_history d1"
    if "store_password d1 now i h = Inr d2" for d1 d2 now i h
    using get_password_after_store [OF that] get_password_store_other_tables [OF that] by (auto simp: fun_eq_iff)
  show ?thesis
    by (auto simp: handle_password_change_def readers Let_def validate_password_iff matches_history_iff
        history_tables stored split: option.splits sum.splits)
qed

lemma registered_users:
  assumes "use_invite d now t i = Inr d'"
  shows "users d' = users d" "sessions d' = sessions d"
  using assms by (auto simp: use_invite_def Let_def split: option.splits if_splits)

lemma completed_tables:
  assumes "complete_user_creation env u t d = Inr d'"
  shows "users d' = users d \<and> sessions d' = sessions d"
  using assms registered_users by (auto simp: complete_user_creation_def split: if_splits)

lemma created_user:
  assumes "create_user d i now n dn pk role = Inr (u, d')"
  shows "users d' = users d @ [u] \<and> u_role u = role \<and> u_username u = n \<and> sessions d' = sessions d
    \<and> n \<notin> u_username ` set (users d)"
  using assms by (auto simp: create_user_def Let_def has_key_iff split: if_splits)

lemma start_session_users [simp]: "users (snd (start_session env u x f d)) = users d"
  by (simp add: start_session_db)

lemma account_created:
  "(snd (create_account env n dn p t d) = d \<and> \<not> granted (fst (create_account env n dn p t d)))
   \<or> (\<exists>u. users (snd (create_account env n dn p t d)) = users d @ [u] \<and> u_username u = n
        \<and> n \<notin> u_username ` set (users d) \<and> u_role u = (if users d = [] then ''owner'' else ''user''))"
proof (cases "create_user d (ae_user_id env) (ae_now env) n dn '''' (if count_users d = 0 then ''owner'' else ''user'')")
  case (Inr c)
  obtain u d1 where c: "c = (u, d1)" by (cases c)
  have u: "users d1 = users d @ [u]" "u_username u = n" "n \<notin> u_username ` set (users d)"
    "u_role u = (if users d = [] then ''owner'' else ''user'')"
    using created_user [OF Inr [unfolded c]] by (auto simp: count_users_def)
  have "users (snd (create_account env n dn p t d)) = users d1"
    using Inr c by (auto simp: create_account_def Let_def
      dest!: get_password_store_other_tables completed_tables split: option.splits sum.splits)
  with u show ?thesis by auto
qed (simp add: create_account_def Let_def)

text \<open>C19: Registering adds at most one account, of an unused name, and only while password login is
  enabled, with a password that meets the policy and as the registration mode allows: anybody when the
  server has no user yet or is open, otherwise (unless accounts need approval) the holder of a valid
  invite. The first account is the owner and every later one a plain user. Without a new account
  nothing else changes and nobody is logged in.\<close>

theorem registration_exact:
  "let (r, d') = handle_password_register env body d;
       mode = (case get_setting d ''registration_mode'' of Some m \<Rightarrow> m | None \<Rightarrow> ''invite'')
   in if users d' = users d then d' = d \<and> \<not> granted r
      else \<exists>j n p invite u. body = Some j \<and> json_string_field j ''username'' = Some n
        \<and> json_string_field j ''password'' = Some p
        \<and> invite = (case json_string_field j ''token'' of Some t \<Rightarrow> t | None \<Rightarrow> '''')
        \<and> is_auth_method_enabled (ae_parse env) d ''password'' \<and> meets_policy p (get_password_policy d)
        \<and> (users d = [] \<or> mode = ''open''
           \<or> (mode \<noteq> ''approval'' \<and> invite \<noteq> [] \<and> validate_invite d (ae_now env) invite))
        \<and> users d' = users d @ [u] \<and> u_username u = n \<and> n \<notin> u_username ` set (users d)
        \<and> u_role u = (if users d = [] then ''owner'' else ''user'')"
proof -
  have token: "json_get j ''token'' = None \<Longrightarrow> json_string_field j ''token'' = None" for j
    by (simp add: json_string_field_def)
  let ?H = "handle_password_register env body d"
  have cases: "(snd ?H = d \<and> \<not> granted (fst ?H))
    \<or> (\<exists>j n dn p invite. ?H = create_account env n dn p invite d \<and> body = Some j
        \<and> json_string_field j ''username'' = Some n \<and> json_string_field j ''password'' = Some p
        \<and> invite = (case json_string_field j ''token'' of Some t \<Rightarrow> t | None \<Rightarrow> '''')
        \<and> is_auth_method_enabled (ae_parse env) d ''password'' \<and> meets_policy p (get_password_policy d)
        \<and> check_registration_eligibility env d invite = '''')"
    by (auto simp: handle_password_register_def readers Let_def validate_password_iff token split: option.splits)
  have eligible: "check_registration_eligibility env d invite = '''' \<longleftrightarrow>
      users d = [] \<or> mode = ''open'' \<or> (mode \<noteq> ''approval'' \<and> invite \<noteq> [] \<and> validate_invite d (ae_now env) invite)"
    if "mode = (case get_setting d ''registration_mode'' of Some m \<Rightarrow> m | None \<Rightarrow> ''invite'')" for mode invite
    using that by (auto simp: check_registration_eligibility_def Let_def registration_open_iff count_users_def)
  show ?thesis
  proof (cases "users (snd ?H) = users d")
    case True
    then have "snd ?H = d \<and> \<not> granted (fst ?H)"
      using cases account_created [of env _ _ _ _ d] by (metis append_self_conv not_Cons_self2)
    with True show ?thesis by (simp add: case_prod_beta Let_def)
  next
    case False
    then obtain j n dn p invite where acc: "?H = create_account env n dn p invite d" "body = Some j"
        "json_string_field j ''username'' = Some n" "json_string_field j ''password'' = Some p"
        "invite = (case json_string_field j ''token'' of Some t \<Rightarrow> t | None \<Rightarrow> '''')"
        "is_auth_method_enabled (ae_parse env) d ''password''" "meets_policy p (get_password_policy d)"
        "check_registration_eligibility env d invite = ''''"
      using cases by metis
    moreover obtain u where "users (snd ?H) = users d @ [u]" "u_username u = n"
        "n \<notin> u_username ` set (users d)" "u_role u = (if users d = [] then ''owner'' else ''user'')"
      using account_created [of env n dn p invite d] False acc(1) by metis
    ultimately show ?thesis
      using False eligible [OF refl, of invite] unfolding case_prod_beta Let_def by auto
  qed
qed

section \<open>Recovery\<close>

definition unused_keys :: "db \<Rightarrow> string \<Rightarrow> nat" where
  "unused_keys d h = length (filter (\<lambda>k. rk_key_hash k = h \<and> \<not> rk_used k) (recovery_keys d))"

lemma unused_keys_sessions [simp]: "unused_keys (d\<lparr>sessions := s\<rparr>) h = unused_keys d h"
  by (simp add: unused_keys_def)

lemma consume_key_cases:
  assumes "distinct (map rk_id (recovery_keys d))"
  shows "(unused_keys d h = 0 \<and> verify_and_consume_recovery_key d h = (None, d))
    \<or> (\<exists>i d'. verify_and_consume_recovery_key d h = (Some i, d') \<and> unused_keys d h = Suc (unused_keys d' h))"
proof (cases "verify_and_consume_recovery_key d h")
  case (Pair x d')
  show ?thesis
  proof (cases x)
    case None
    with Pair show ?thesis by (auto simp: verify_and_consume_recovery_key_def unused_keys_def split: option.splits)
  next
    case (Some i)
    with Pair show ?thesis using recovery_key_consumed [OF _ assms] by (auto simp: unused_keys_def)
  qed
qed

text \<open>C20: A recovery key is good for one login: every login with it marks one of its stored hashes as used,
  and once none is left the attempt fails and changes nothing. (Row keys are distinct.)\<close>

theorem recovery_key_single_use:
  assumes "distinct (map rk_id (recovery_keys d))"
  shows "let (r, d') = handle_recovery_login env (Some (JObject [(''recovery_key'', JString key)])) d;
             h = ae_recovery_hash env key
         in (granted r \<longrightarrow> unused_keys d h = Suc (unused_keys d' h))
            \<and> (unused_keys d h = 0 \<longrightarrow> \<not> granted r \<and> d' = d)"
  using consume_key_cases [OF assms, of "ae_recovery_hash env key"]
  by (auto simp: handle_recovery_login_def readers case_prod_beta Let_def start_session_db split: option.splits)

theorem recovery_key_single_use_witness:
  "unused_keys (snd (handle_recovery_login example_env (Some (JObject [(''recovery_key'', JString ''K1'')]))
     example_auth_db)) ''hK1'' = 0"
proof -
  have "distinct (map rk_id (recovery_keys example_auth_db))" by code_simp
  moreover have hash: "ae_recovery_hash example_env ''K1'' = ''hK1''" "unused_keys example_auth_db ''hK1'' = 1"
    by code_simp+
  moreover have "granted (fst (handle_recovery_login example_env
      (Some (JObject [(''recovery_key'', JString ''K1'')])) example_auth_db))"
  proof -
    let ?c = "verify_and_consume_recovery_key example_auth_db ''hK1''"
    have "fst ?c = Some ''u1''" "find_user_by_id (snd ?c) ''u1'' = Some (example_account ''u1'' ''owner'')"
      "\<not> u_is_banned (example_account ''u1'' ''owner'')" "\<not> locked_out (snd ?c) (example_account ''u1'' ''owner'')"
      "can_start example_env (snd ?c) (example_account ''u1'' ''owner'')" by code_simp+
    then show ?thesis
      by (simp add: handle_recovery_login_def readers hash(1) case_prod_beta start_session_granted)
  qed
  ultimately show ?thesis
    using recovery_key_single_use [of example_auth_db example_env "''K1''"] by (simp add: case_prod_beta Let_def)
qed

text \<open>C21: A recovery token logs in exactly its own user, exactly when it is unused and unexpired and that user
  is neither banned nor locked out; after that no attempt with it, at any time, succeeds again.\<close>

theorem recovery_token_single_use:
  "let body = Some (JObject [(''token'', JString token)]);
       (r, d') = handle_recovery_token_login env body d;
       lets_in = (\<lambda>u. get_recovery_token_user_id d (ae_now env) token = Some (u_id u)
          \<and> find_user_by_id d (u_id u) = Some u \<and> \<not> u_is_banned u \<and> \<not> locked_out d u
          \<and> \<not> has_key se_token (ae_session_token env) (sessions d))
   in (granted r \<longleftrightarrow> (\<exists>u. lets_in u))
      \<and> (if granted r
         then (\<exists>u. lets_in u \<and> sessions d' = sessions d @ [new_session env d u])
           \<and> (\<forall>env2. \<not> granted (fst (handle_recovery_token_login env2 body d')))
         else sessions d' = sessions d)"
proof -
  let ?H = "handle_recovery_token_login env (Some (JObject [(''token'', JString token)])) d"
  let ?d = "use_recovery_token d (ae_now env) token"
  have same: "users ?d = users d" "sessions ?d = sessions d" "settings ?d = settings d"
    "can_start env ?d u = can_start env d u" "new_session env ?d u = new_session env d u" for u
    by (simp_all add: use_recovery_token_def can_start_def new_session_def get_session_expiry_def get_setting_def)
  have used: "get_recovery_token_user_id (?d\<lparr>sessions := s\<rparr>) t token = None" for s t
    using recovery_token_used [of d "ae_now env" token t] by (simp add: get_recovery_token_user_id_def)
  show ?thesis
  proof (cases "\<exists>u. get_recovery_token_user_id d (ae_now env) token = Some (u_id u)
          \<and> find_user_by_id d (u_id u) = Some u \<and> \<not> u_is_banned u \<and> \<not> locked_out d u")
    case True
    then obtain u where u: "get_recovery_token_user_id d (ae_now env) token = Some (u_id u)"
      "find_user_by_id d (u_id u) = Some u" "\<not> u_is_banned u" "\<not> locked_out d u" by blast
    then have "?H = start_session env u (\<lambda>_. recovered) (\<lambda>e. caught env (Db_exn e)) ?d"
      by (simp add: handle_recovery_token_login_def readers)
    moreover have "can_start env d u \<longleftrightarrow> \<not> has_key se_token (ae_session_token env) (sessions d)"
      using find_by_id_in [OF u(2)] by (simp add: can_start_def)
    ultimately have H: "granted (fst ?H) \<longleftrightarrow> \<not> has_key se_token (ae_session_token env) (sessions d)"
      "snd ?H = (if granted (fst ?H) then ?d\<lparr>sessions := sessions d @ [new_session env d u]\<rparr> else ?d)"
      by (simp_all add: start_session_granted start_session_db same)
    have "\<not> granted (fst (handle_recovery_token_login env2 (Some (JObject [(''token'', JString token)]))
        (?d\<lparr>sessions := s\<rparr>)))" for env2 s
      by (simp add: handle_recovery_token_login_def readers used)
    then show ?thesis
      using u H unfolding case_prod_beta Let_def by (auto simp: same)
  next
    case False
    then have refused: "u_is_banned u \<or> locked_out d u"
      if "get_recovery_token_user_id d (ae_now env) token = Some i" "find_user_by_id d i = Some u" for i u
      using that find_by_id_in [OF that(2)] by metis
    have "\<not> granted (fst ?H) \<and> sessions (snd ?H) = sessions d"
    proof (cases "get_recovery_token_user_id d (ae_now env) token")
      case (Some i)
      then show ?thesis
        using refused by (cases "find_user_by_id d i") (auto simp: handle_recovery_token_login_def readers)
    qed (simp add: handle_recovery_token_login_def readers)
    with False show ?thesis unfolding case_prod_beta Let_def by auto
  qed
qed

section \<open>Giving up the second factor\<close>

lemma set_step_has_totp [simp]: "has_totp (snd (set_totp_last_step d i n)) j = has_totp d j"
proof -
  have "length (filter (\<lambda>c. tc_user_id c = j \<and> tc_verified c)
        (map (\<lambda>c. if tc_user_id c = i then c\<lparr>tc_last_step := Some n\<rparr> else c) cs))
      = length (filter (\<lambda>c. tc_user_id c = j \<and> tc_verified c) cs)" for cs :: "totp_credential list"
    by (induction cs) auto
  then show ?thesis by (simp add: has_totp_def set_totp_last_step_def update_totp_def)
qed

text \<open>\<open>DELETE /api/users/me/totp\<close> takes away a verified second factor only from the holder of the session,
  only for a code of it at a fresh step, and only if no login method of that user needs one.\<close>

theorem totp_delete_needs_code:
  assumes "has_totp d i" and "\<not> has_totp (snd (me_totp_delete env token body d)) i"
  shows "\<exists>j code secret step. validate_session d (ae_now env) token = Some i \<and> body = Some j
    \<and> json_string_field j ''code'' = Some code \<and> get_totp_secret d i = Some secret
    \<and> compute_code (ae_hmac env) secret step = code
    \<and> (\<forall>l. get_totp_last_step d i = Some l \<longrightarrow> word_of_int l < step)
    \<and> blocking_methods (snd (set_totp_last_step d i (sint step))) i = []"
proof -
  have other: "has_totp (delete_totp d k) i" if "k \<noteq> i" "has_totp d i" for d k
    using that by (auto simp: has_totp_def delete_totp_def filter_empty_conv)
  obtain k where k: "validate_session d (ae_now env) token = Some k"
    using assms by (cases "validate_session d (ae_now env) token") (auto simp: me_totp_delete_def)
  obtain j code secret step where acc: "body = Some j" "json_string_field j ''code'' = Some code"
    "get_totp_secret d k = Some secret" "code_matches env d k secret code = Some step"
    "blocking_methods (snd (set_totp_last_step d k (sint step))) k = []"
    and removed: "\<not> has_totp (delete_totp (snd (set_totp_last_step d k (sint step))) k) i"
    using assms k by (auto simp: me_totp_delete_def readers Let_def split: option.splits if_splits)
  have "k = i" using removed other assms(1) by fastforce
  with k acc code_matches_step [OF acc(4)] show ?thesis by auto
qed

theorem totp_delete_needs_code_witness:
  "\<exists>step. 1 < step \<and> compute_code (ae_hmac example_env) ''MFRGG'' step
     = compute_code (ae_hmac example_env) ''MFRGG'' (ae_unix example_env div 30)"
proof -
  let ?body = "Some (JObject [(''code'', JString (compute_code (ae_hmac example_env) ''MFRGG'' (ae_unix example_env div 30)))])"
  have secret: "get_totp_secret example_auth_db ''u2'' = Some ''MFRGG''"
    and session: "validate_session example_auth_db (ae_now example_env) ''t2'' = Some ''u2''"
    and last_step: "get_totp_last_step example_auth_db ''u2'' = Some 1" by code_simp+
  obtain step where "code_matches example_env example_auth_db ''u2'' ''MFRGG''
      (compute_code (ae_hmac example_env) ''MFRGG'' (ae_unix example_env div 30)) = Some step"
    using code_matches_current [of example_auth_db "''u2''" example_env "''MFRGG''"] last_step
    by (auto simp: example_env_def)
  moreover have "blocking_methods (snd (set_totp_last_step example_auth_db ''u2'' n)) ''u2'' = []" for n
    by (simp add: blocking_methods_def set_totp_last_step_def update_totp_def get_setting_def
        example_auth_db_def example_db_def empty_db_def)
  ultimately have "\<not> has_totp (snd (me_totp_delete example_env ''t2'' ?body example_auth_db)) ''u2''"
    using secret session
    by (simp add: me_totp_delete_def readers Let_def has_totp_def delete_totp_def filter_empty_conv)
  from totp_delete_needs_code [OF example_has_totp this] secret last_step show ?thesis by auto
qed

text \<open>\<open>/api/users/me/totp/setup\<close>, in contrast, asks the holder of a session for nothing: it leaves him without
  a verified second factor at once, whatever he had before and whatever the server requires.\<close>

theorem totp_setup_drops_factor:
  assumes "validate_session d (ae_now env) token = Some i" and "find_user_by_id d i = Some u"
    and "ae_random_secret env = Some raw"
  shows "succeeded (fst (me_totp_setup env token d)) \<and> \<not> has_totp (snd (me_totp_setup env token d)) i"
proof -
  have "has_key u_id i (users d)"
    using find_user_by_id_id [OF assms(2)] by (auto simp: has_key_iff)
  then obtain d1 where d1: "store_totp_secret d i (base32_encode raw) = Inr d1"
    by (auto simp: store_totp_secret_def Let_def)
  with assms show ?thesis
    using totp_after_store(2) [OF d1]
    by (simp add: me_totp_setup_def generate_secret_def Let_def ok_reply_def has_totp_iff)
qed

theorem totp_setup_drops_factor_witness:
  "has_totp example_auth_db ''u2'' \<and> \<not> has_totp (snd (me_totp_setup example_env ''t2'' example_auth_db)) ''u2''"
proof -
  have "validate_session example_auth_db (ae_now example_env) ''t2'' = Some ''u2''"
    "find_user_by_id example_auth_db ''u2'' = Some (example_account ''u2'' ''user'')"
    "ae_random_secret example_env = Some ''12345678901234567890''" by code_simp+
  from totp_setup_drops_factor [OF this] example_has_totp show ?thesis by simp
qed


end
