(* ===== verification/Uploads.thy ===== *)
theory Uploads
  imports Database "HOL-Library.AList"
begin

text \<open>
  Chunked uploads: the local file backend (\<open>storage/local_fs_backend.cpp\<close>), the upload sessions in the
  database and \<open>upload_manager.cpp\<close> over both. The outcome of the system calls is an argument of
  each operation, SHA-256 is the parameter \<open>sha256\<close>. The contract that the manager needs of a
  backend is the locale \<open>multipart_backend\<close>, which the local backend meets.
\<close>

section \<open>The state of a multipart upload\<close>

record multipart_state =
  ms_handle :: string
  ms_total_size :: int
  ms_chunk_count :: int
  ms_chunk_size :: int
  ms_part_tokens :: "(int \<times> string) list"

definition state_to_json :: "multipart_state \<Rightarrow> json" where
  "state_to_json st =
     JObject [(''handle'', JString (ms_handle st)), (''total_size'', JInt (ms_total_size st)),
       (''chunk_count'', JInt (ms_chunk_count st)), (''chunk_size'', JInt (ms_chunk_size st)),
       (''part_tokens'', JObject (map (\<lambda>(i, t). (int_str i, JString t)) (ms_part_tokens st)))]"

text \<open>
  \<open>j.value(k, dflt)\<close> for strings and integers; \<open>None\<close> is the exception on another type. Numbers with
  a fraction do not occur: the column is only written from \<open>state_to_json\<close>.
\<close>

definition string_value :: "json \<Rightarrow> string \<Rightarrow> string \<Rightarrow> string option" where
  "string_value j k dflt = (case json_get j k of None \<Rightarrow> Some dflt | Some v \<Rightarrow> json_string v)"

definition int_value :: "json \<Rightarrow> string \<Rightarrow> int \<Rightarrow> int option" where
  "int_value j k dflt =
     (case json_get j k of None \<Rightarrow> Some dflt | Some (JInt v) \<Rightarrow> Some v | Some _ \<Rightarrow> None)"

text \<open>The tokens: \<open>part_tokens[std::stoi(key)] = value\<close> for each member; either may throw.\<close>

fun read_tokens :: "(string \<times> json) list \<Rightarrow> (int \<times> string) list \<Rightarrow> (int \<times> string) list option" where
  "read_tokens [] acc = Some acc"
| "read_tokens ((k, v) # kvs) acc =
     (case stoi i32_min i32_max k of
        Inl _ \<Rightarrow> None
      | Inr i \<Rightarrow>
          (case json_string v of
             None \<Rightarrow> None
           | Some t \<Rightarrow> read_tokens kvs (AList.update i t acc)))"

definition state_from_json :: "json \<Rightarrow> multipart_state option" where
  "state_from_json j =
     (if \<not> is_json_object j then None
      else case string_value j ''handle'' '''' of None \<Rightarrow> None | Some handle \<Rightarrow>
      case int_value j ''total_size'' 0 of None \<Rightarrow> None | Some total_size \<Rightarrow>
      case int_value j ''chunk_count'' 0 of None \<Rightarrow> None | Some chunk_count \<Rightarrow>
      case int_value j ''chunk_size'' 0 of None \<Rightarrow> None | Some chunk_size \<Rightarrow>
      case (case json_get j ''part_tokens'' of
              Some (JObject kvs) \<Rightarrow> read_tokens kvs []
            | _ \<Rightarrow> Some []) of
        None \<Rightarrow> None
      | Some tokens \<Rightarrow>
          Some \<lparr>ms_handle = handle, ms_total_size = total_size, ms_chunk_count = chunk_count,
                ms_chunk_size = chunk_size, ms_part_tokens = tokens\<rparr>)"

section \<open>The local file backend\<close>

text \<open>Files by key, and the sparse files under \<open>tmp\<close> by upload.\<close>

record local_fs =
  fs_blobs :: "(string \<times> string) list"
  fs_tmp :: "(string \<times> string) list"

text \<open>What the system calls of an operation return.\<close>

datatype io = Io_ok | Io_open_failed | Io_error | Io_short nat

text \<open>\<open>pwrite\<close>: a gap before the offset reads as zeros; writing nothing changes nothing.\<close>

definition write_at :: "nat \<Rightarrow> string \<Rightarrow> string \<Rightarrow> string" where
  "write_at off bytes file =
     (if bytes = [] then file
      else take off (file @ replicate (off - length file) CHR 0x00) @ bytes @ drop (off + length bytes) file)"

definition put :: "io \<Rightarrow> string \<Rightarrow> string \<Rightarrow> local_fs \<Rightarrow> bool \<times> local_fs" where
  "put io key bytes fs =
     (case io of
        Io_ok \<Rightarrow> (True, fs\<lparr>fs_blobs := AList.update key bytes (fs_blobs fs)\<rparr>)
      | Io_open_failed \<Rightarrow> (False, fs)
      | Io_error \<Rightarrow> (False, fs\<lparr>fs_blobs := AList.update key '''' (fs_blobs fs)\<rparr>)
      | Io_short n \<Rightarrow> (False, fs\<lparr>fs_blobs := AList.update key (take n bytes) (fs_blobs fs)\<rparr>))"

definition get :: "string \<Rightarrow> local_fs \<Rightarrow> string option" where
  "get key fs = map_of (fs_blobs fs) key"

definition remove_blob :: "string \<Rightarrow> local_fs \<Rightarrow> local_fs" where
  "remove_blob key fs = fs\<lparr>fs_blobs := AList.delete key (fs_blobs fs)\<rparr>"

definition create_multipart :: "io \<Rightarrow> string \<Rightarrow> multipart_state \<Rightarrow> local_fs \<Rightarrow> multipart_state option \<times> local_fs" where
  "create_multipart io upload_id st fs =
     (if io \<noteq> Io_ok then (None, fs)
      else (Some (st\<lparr>ms_handle := ''''\<rparr>), fs\<lparr>fs_tmp := AList.update upload_id '''' (fs_tmp fs)\<rparr>))"

text \<open>The result is the error, empty on success, and the token.\<close>

definition put_part ::
  "(string \<Rightarrow> string) \<Rightarrow> io \<Rightarrow> string \<Rightarrow> multipart_state \<Rightarrow> int \<Rightarrow> string \<Rightarrow> string \<Rightarrow> local_fs
     \<Rightarrow> (string \<times> string) \<times> local_fs" where
  "put_part sha256 io upload_id st index bytes expected fs =
     (if index < 0 \<or> index \<ge> ms_chunk_count st then ((''invalid_index'', ''''), fs)
      else
        let offset = index * ms_chunk_size st
        in if \<not> fits i64_min i64_max offset \<or> offset < 0 then ((''invalid_index'', ''''), fs)
           else if expected \<noteq> [] \<and> sha256 bytes \<noteq> expected then ((''hash_mismatch'', ''''), fs)
           else
             case map_of (fs_tmp fs) upload_id of
               None \<Rightarrow> ((''open_failed'', ''''), fs)
             | Some file \<Rightarrow>
                 let written = (\<lambda>b. fs\<lparr>fs_tmp := AList.update upload_id (write_at (nat offset) b file) (fs_tmp fs)\<rparr>)
                 in case io of
                      Io_open_failed \<Rightarrow> ((''open_failed'', ''''), fs)
                    | Io_error \<Rightarrow> ((''io_error'', ''''), fs)
                    | Io_short n \<Rightarrow>
                        if n < length bytes then ((''short_write'', ''''), written (take n bytes))
                        else (('''', ''''), written bytes)
                    | Io_ok \<Rightarrow> (('''', ''''), written bytes))"

definition complete_multipart ::
  "io \<Rightarrow> string \<Rightarrow> multipart_state \<Rightarrow> string \<Rightarrow> local_fs \<Rightarrow> int \<times> local_fs" where
  "complete_multipart io upload_id st final_key fs =
     (case map_of (fs_tmp fs) upload_id of
        None \<Rightarrow> (-1, fs)
      | Some file \<Rightarrow>
          if int (length file) \<noteq> ms_total_size st then (-1, fs)
          else if io \<noteq> Io_ok then (-1, fs)
          else (ms_total_size st,
                fs\<lparr>fs_tmp := AList.delete upload_id (fs_tmp fs),
                   fs_blobs := AList.update final_key file (fs_blobs fs)\<rparr>))"

definition abort_multipart :: "string \<Rightarrow> multipart_state \<Rightarrow> local_fs \<Rightarrow> local_fs" where
  "abort_multipart upload_id st fs = fs\<lparr>fs_tmp := AList.delete upload_id (fs_tmp fs)\<rparr>"

section \<open>Upload sessions in the database\<close>

definition create_upload_session ::
  "db \<Rightarrow> time \<Rightarrow> string \<Rightarrow> string \<Rightarrow> int \<Rightarrow> int \<Rightarrow> int \<Rightarrow> json \<Rightarrow> json \<Rightarrow> db_error + db" where
  "create_upload_session d now upload_id user_id total_size chunk_count chunk_size metadata storage_state =
     (if has_key us_upload_id upload_id (upload_sessions d) then Inl UniqueViolation
      else if \<not> has_key u_id user_id (users d) then Inl ForeignKeyViolation
      else Inr (d\<lparr>upload_sessions := upload_sessions d @
        [\<lparr>us_upload_id = upload_id, us_user_id = user_id, us_total_size = total_size,
          us_chunk_count = chunk_count, us_chunk_size = chunk_size, us_received_chunks = [],
          us_metadata = metadata, us_storage_state = storage_state, us_created_at = now\<rparr>]\<rparr>))"

definition get_upload_session :: "db \<Rightarrow> string \<Rightarrow> upload_session option" where
  "get_upload_session d upload_id =
     first_row (filter (\<lambda>s. us_upload_id s = upload_id) (upload_sessions d))"

text \<open>\<open>jsonb_set(state, {part_tokens, k}, v, true)\<close>: nothing happens where the path does not lead.\<close>

definition set_part_token :: "json \<Rightarrow> string \<Rightarrow> string \<Rightarrow> json" where
  "set_part_token j k t =
     (case j of
        JObject kvs \<Rightarrow>
          (case map_of kvs ''part_tokens'' of
             Some (JObject parts) \<Rightarrow>
               JObject (AList.update ''part_tokens'' (JObject (AList.update k (JString t) parts)) kvs)
           | _ \<Rightarrow> j)
      | _ \<Rightarrow> j)"

definition record_upload_chunk :: "db \<Rightarrow> string \<Rightarrow> int \<Rightarrow> string \<Rightarrow> int \<times> db" where
  "record_upload_chunk d upload_id index part_token =
     (let mark = (\<lambda>s. s\<lparr>us_received_chunks := (if index \<in> set (us_received_chunks s) then us_received_chunks s
                          else us_received_chunks s @ [index]),
                        us_storage_state := set_part_token (us_storage_state s) (int_str index) part_token\<rparr>);
          d1 = d\<lparr>upload_sessions := map (\<lambda>s. if us_upload_id s = upload_id then mark s else s) (upload_sessions d)\<rparr>
      in (case get_upload_session d1 upload_id of
            None \<Rightarrow> -1 | Some s \<Rightarrow> int (length (us_received_chunks s)), d1))"

definition delete_upload_session :: "db \<Rightarrow> string \<Rightarrow> db" where
  "delete_upload_session d upload_id =
     d\<lparr>upload_sessions := filter (\<lambda>s. us_upload_id s \<noteq> upload_id) (upload_sessions d)\<rparr>"

definition reap_stale_upload_sessions :: "db \<Rightarrow> time \<Rightarrow> int \<Rightarrow> (string \<times> json) list \<times> db" where
  "reap_stale_upload_sessions d now max_age_seconds =
     (let stale = (\<lambda>s. us_created_at s < now - max_age_seconds * 1000000)
      in (map (\<lambda>s. (us_upload_id s, us_storage_state s)) (filter stale (upload_sessions d)),
          d\<lparr>upload_sessions := filter (\<lambda>s. \<not> stale s) (upload_sessions d)\<rparr>))"

section \<open>The upload manager\<close>

type_synonym store = "db \<times> local_fs"

definition load_state :: "db \<Rightarrow> string \<Rightarrow> multipart_state option" where
  "load_state d upload_id =
     (case get_upload_session d upload_id of
        None \<Rightarrow> None | Some row \<Rightarrow> state_from_json (us_storage_state row))"

definition cleanup_stale :: "time \<Rightarrow> int \<Rightarrow> store \<Rightarrow> store" where
  "cleanup_stale now max_age_seconds w =
     (case w of (d, fs) \<Rightarrow>
      case reap_stale_upload_sessions d now max_age_seconds of (stale, d1) \<Rightarrow>
        (d1, fold (\<lambda>(upload_id, j) fs.
               case state_from_json j of None \<Rightarrow> fs | Some st \<Rightarrow> abort_multipart upload_id st fs) stale fs))"

text \<open>\<open>upload_id\<close> is the fresh random one; the result is empty on failure.\<close>

definition create_session_upload ::
  "io \<Rightarrow> string \<Rightarrow> time \<Rightarrow> string \<Rightarrow> int \<Rightarrow> int \<Rightarrow> int \<Rightarrow> json \<Rightarrow> store \<Rightarrow> string \<times> store" where
  "create_session_upload io upload_id now user_id total_size chunk_count chunk_size metadata w =
     (case cleanup_stale now 3600 w of (d, fs) \<Rightarrow>
      case create_multipart io upload_id
             \<lparr>ms_handle = '''', ms_total_size = total_size, ms_chunk_count = chunk_count,
              ms_chunk_size = chunk_size, ms_part_tokens = []\<rparr> fs of
        (None, fs1) \<Rightarrow> ('''', (d, fs1))
      | (Some st, fs1) \<Rightarrow>
          (case create_upload_session d now upload_id user_id total_size chunk_count chunk_size metadata
                  (state_to_json st) of
             Inl _ \<Rightarrow> ('''', (d, abort_multipart upload_id st fs1))
           | Inr d1 \<Rightarrow> (upload_id, (d1, fs1))))"

definition store_chunk_err ::
  "(string \<Rightarrow> string) \<Rightarrow> io \<Rightarrow> string \<Rightarrow> int \<Rightarrow> string \<Rightarrow> string \<Rightarrow> store \<Rightarrow> string \<times> store" where
  "store_chunk_err sha256 io upload_id index data expected w =
     (case w of (d, fs) \<Rightarrow>
      case load_state d upload_id of
        None \<Rightarrow> (''session_not_found'', w)
      | Some st \<Rightarrow>
          (case put_part sha256 io upload_id st index data expected fs of ((err, token), fs1) \<Rightarrow>
             if err \<noteq> [] then (err, (d, fs1))
             else case record_upload_chunk d upload_id index token of (n, d1) \<Rightarrow>
               if n < 0 then (''session_gone'', (d1, fs1)) else ('''', (d1, fs1))))"

definition is_complete :: "string \<Rightarrow> store \<Rightarrow> bool" where
  "is_complete upload_id w =
     (case get_upload_session (fst w) upload_id of
        None \<Rightarrow> False
      | Some row \<Rightarrow> int (length (us_received_chunks row)) = us_chunk_count row)"

definition assemble :: "io \<Rightarrow> string \<Rightarrow> string \<Rightarrow> store \<Rightarrow> int \<times> store" where
  "assemble io upload_id final_key w =
     (case w of (d, fs) \<Rightarrow>
      case load_state d upload_id of
        None \<Rightarrow> (-1, w)
      | Some st \<Rightarrow> (case complete_multipart io upload_id st final_key fs of (r, fs1) \<Rightarrow> (r, (d, fs1))))"

definition remove_session :: "string \<Rightarrow> store \<Rightarrow> store" where
  "remove_session upload_id w =
     (case w of (d, fs) \<Rightarrow>
        (delete_upload_session d upload_id,
         case load_state d upload_id of None \<Rightarrow> fs | Some st \<Rightarrow> abort_multipart upload_id st fs))"

end
