(* ===== verification/Upload_Props.thy ===== *)
theory Upload_Props
  imports Uploads
begin

text \<open>
  A chunked upload arrives whole. The contract of a backend is the locale \<open>multipart_backend\<close>; inside it
  a file that \<open>holds\<close> some positions of the content keeps them under every write of a right piece, also
  a short one. The local backend meets the contract, and with it the upload manager assembles the
  content from the chunks in any order, with retries, failures and other uploads in between.
\<close>

section \<open>Writing pieces into a sparse file\<close>

definition holds :: "string \<Rightarrow> nat set \<Rightarrow> string \<Rightarrow> bool" where
  "holds content P f \<longleftrightarrow>
     length f \<le> length content \<and> (\<forall>p \<in> P. p < length f \<and> f ! p = content ! p)"

lemma length_write_at:
  "length (write_at off b f) = (if b = [] then length f else max (length f) (off + length b))"
  by (auto simp: write_at_def)

lemma nth_write_at:
  assumes "p < length (write_at off b f)"
  shows "write_at off b f ! p =
    (if off \<le> p \<and> p < off + length b then b ! (p - off)
     else if p < length f then f ! p else CHR 0x00)"
proof (cases "b = []")
  case False
  define H where "H = take off (f @ replicate (off - length f) CHR 0x00)"
  have H: "length H = off" "p < off \<Longrightarrow> H ! p = (if p < length f then f ! p else CHR 0x00)"
    by (auto simp: H_def nth_append)
  have w: "write_at off b f = H @ b @ drop (off + length b) f"
    using False by (simp add: write_at_def H_def)
  consider "p < off" | "off \<le> p" "p < off + length b" | "off + length b \<le> p" by linarith
  then show ?thesis
    using assms H unfolding w by cases (auto simp: nth_append)
qed (use assms in \<open>auto simp: write_at_def\<close>)

lemma holds_write:
  assumes "holds content P f" and "take (length b) (drop off content) = b"
  shows "holds content (P \<union> {off ..< off + length b}) (write_at off b f)"
proof -
  have len: "b = [] \<or> off + length b \<le> length content"
  proof -
    have "length b = min (length b) (length content - off)"
      using arg_cong [OF assms(2), of length] by simp
    then show ?thesis by (cases b) auto
  qed
  have nth: "b ! k = content ! (off + k)" if "k < length b" for k
    using that len assms(2) by (metis nth_drop nth_take less_imp_le add_leD1 list.size(3) not_less_zero)
  have "p < length (write_at off b f) \<and> write_at off b f ! p = content ! p"
    if "p \<in> P \<union> {off ..< off + length b}" for p
  proof -
    have p: "p < length (write_at off b f)"
      using that assms(1) by (auto simp: holds_def length_write_at)
    then show ?thesis
      using that assms(1) nth [of "p - off"] by (auto simp: nth_write_at holds_def)
  qed
  then show ?thesis
    using assms(1) len by (auto simp: holds_def length_write_at)
qed

lemma holds_mono: "holds content P f \<Longrightarrow> Q \<subseteq> P \<Longrightarrow> holds content Q f"
  by (auto simp: holds_def)

lemma holds_all: "holds content {0 ..< length content} f \<Longrightarrow> f = content"
proof -
  assume h: "holds content {0 ..< length content} f"
  then have "length content \<le> length f"
    by (cases "length content") (auto simp: holds_def)
  with h show ?thesis by (intro nth_equalityI) (auto simp: holds_def)
qed

text \<open>Piece \<open>i\<close> of the content and the positions it covers.\<close>

definition piece :: "string \<Rightarrow> int \<Rightarrow> int \<Rightarrow> string" where
  "piece content c i = take (nat c) (drop (nat (i * c)) content)"

definition covers :: "string \<Rightarrow> int \<Rightarrow> int \<Rightarrow> nat set" where
  "covers content c i = {nat (i * c) ..< nat (i * c) + length (piece content c i)}"

lemma covers_all:
  assumes "0 < c" and "int (length content) \<le> n * c"
  shows "{0 ..< length content} \<subseteq> (\<Union>i \<in> {0 ..< n}. covers content c i)"
proof
  fix p assume p: "p \<in> {0 ..< length content}"
  define i where "i = int p div c"
  have eq: "int p = i * c + int p mod c" and lo: "0 \<le> int p mod c" and hi: "int p mod c < c"
    using assms(1) by (simp_all add: i_def)
  have i0: "0 \<le> i" using assms(1) by (simp add: i_def pos_imp_zdiv_nonneg_iff)
  have below: "i * c \<le> int p" and above: "int p < i * c + c" using eq lo hi by linarith+
  have "i * c < n * c" using below assms(2) p by auto
  then have i: "i \<in> {0 ..< n}" using i0 assms(1) by simp
  have "0 \<le> i * c" using i0 assms(1) by simp
  then have "nat (i * c) \<le> p" "p < nat (i * c) + nat c" using below above by linarith+
  then have "p \<in> covers content c i"
    using p by (auto simp: covers_def piece_def)
  with i show "p \<in> (\<Union>i \<in> {0 ..< n}. covers content c i)" by blast
qed

lemma piece_prefix:
  "k \<le> length (piece content c i) \<Longrightarrow>
     take (length (take k (piece content c i))) (drop (nat (i * c)) content) = take k (piece content c i)"
  by (auto simp: piece_def min_def)

section \<open>The contract of a backend\<close>

text \<open>
  A successful or failed part write leaves the staged bytes with some prefix of the part written at the
  part's offset, all of it on success; completing an upload makes the object exactly the staged bytes
  if their number is the declared one, and fails otherwise.
\<close>

locale multipart_backend =
  fixes staged :: "'s \<Rightarrow> string \<Rightarrow> string option"
    and object :: "'s \<Rightarrow> string \<Rightarrow> string option"
    and put_op :: "io \<Rightarrow> string \<Rightarrow> multipart_state \<Rightarrow> int \<Rightarrow> string \<Rightarrow> string \<Rightarrow> 's \<Rightarrow> (string \<times> string) \<times> 's"
    and complete_op :: "io \<Rightarrow> string \<Rightarrow> multipart_state \<Rightarrow> string \<Rightarrow> 's \<Rightarrow> int \<times> 's"
  assumes put_writes: "staged s u = Some f \<Longrightarrow> put_op io u st i b h s = ((e, t), s') \<Longrightarrow>
      \<exists>k \<le> length b. staged s' u = Some (write_at (nat (i * ms_chunk_size st)) (take k b) f)
        \<and> (e = '''' \<longrightarrow> k = length b \<and> 0 \<le> i \<and> i < ms_chunk_count st)"
    and put_other: "u \<noteq> v \<Longrightarrow> put_op io u st i b h s = (res, s') \<Longrightarrow> staged s' v = staged s v"
    and complete_object: "staged s u = Some f \<Longrightarrow> complete_op Io_ok u st key s = (r, s') \<Longrightarrow>
      if int (length f) = ms_total_size st then r = int (length f) \<and> object s' key = Some f else r = -1"
begin

lemma put_holds:
  assumes "staged s u = Some f" and "holds content P f"
    and "put_op io u st i (piece content (ms_chunk_size st) i) h s = ((e, t), s')"
  shows "\<exists>f'. staged s' u = Some f' \<and> holds content P f'
    \<and> (e = '''' \<longrightarrow> holds content (P \<union> covers content (ms_chunk_size st) i) f')"
proof -
  let ?b = "piece content (ms_chunk_size st) i" and ?off = "nat (i * ms_chunk_size st)"
  obtain k where k: "k \<le> length ?b" "staged s' u = Some (write_at ?off (take k ?b) f)"
    "e = '''' \<longrightarrow> k = length ?b"
    using put_writes [OF assms(1,3)] by blast
  have "holds content (P \<union> {?off ..< ?off + length (take k ?b)}) (write_at ?off (take k ?b) f)"
    using holds_write [OF assms(2) piece_prefix [OF k(1)]] .
  then show ?thesis
    using k by (auto simp: covers_def intro: holds_mono)
qed

lemma complete_content:
  assumes "staged s u = Some f" and "holds content (\<Union>i \<in> {0 ..< n}. covers content c i) f"
    and "0 < c" and "int (length content) \<le> n * c" and "ms_total_size st = int (length content)"
    and "complete_op Io_ok u st key s = (r, s')"
  shows "r = int (length content) \<and> object s' key = Some content"
proof -
  have "f = content"
    using holds_all holds_mono [OF assms(2) covers_all [OF assms(3,4)]] by blast
  then show ?thesis using complete_object [OF assms(1,6)] assms(5) by simp
qed

end

interpretation local_backend: multipart_backend
  "\<lambda>fs u. map_of (fs_tmp fs) u" "\<lambda>fs key. get key fs" "put_part sha256" complete_multipart for sha256
proof (unfold_locales, goal_cases)
  case (1 s u f io st i b h e t s')
  have write_nothing: "write_at (nat (i * ms_chunk_size st)) (take 0 b) f = f" by (simp add: write_at_def)
  consider (kept) "map_of (fs_tmp s') u = Some f" "e \<noteq> ''''"
    | (short) k where "k < length b" "e \<noteq> ''''"
        "map_of (fs_tmp s') u = Some (write_at (nat (i * ms_chunk_size st)) (take k b) f)"
    | (full) "0 \<le> i" "i < ms_chunk_count st"
        "map_of (fs_tmp s') u = Some (write_at (nat (i * ms_chunk_size st)) b f)"
    using 1 by (auto simp: put_part_def Let_def update_conv' split: if_splits io.splits)
  then show ?case
  proof cases
    case kept
    then show ?thesis using write_nothing by (intro exI [of _ 0]) simp
  next
    case (short k)
    then show ?thesis by (intro exI [of _ k]) simp
  next
    case full
    then show ?thesis by (intro exI [of _ "length b"]) simp
  qed
next
  case (2 u v io st i b h s res s')
  then show ?case by (auto simp: put_part_def Let_def update_conv' split: if_splits io.splits option.splits)
next
  case (3 s u f st key r s')
  then show ?case by (auto simp: complete_multipart_def get_def update_conv')
qed

section \<open>The stored state of an upload\<close>

definition state_good :: "json \<Rightarrow> int \<Rightarrow> int \<Rightarrow> int \<Rightarrow> bool" where
  "state_good j tot n c \<longleftrightarrow>
     (\<exists>kvs parts handle. j = JObject kvs \<and> map_of kvs ''handle'' = Some (JString handle)
        \<and> map_of kvs ''total_size'' = Some (JInt tot) \<and> map_of kvs ''chunk_count'' = Some (JInt n)
        \<and> map_of kvs ''chunk_size'' = Some (JInt c) \<and> map_of kvs ''part_tokens'' = Some (JObject parts)
        \<and> (\<forall>(k, v) \<in> set parts. (\<exists>i. stoi i32_min i32_max k = Inr i) \<and> (\<exists>t. v = JString t)))"

lemma read_tokens_some:
  "(\<forall>(k, v) \<in> set parts. (\<exists>i. stoi i32_min i32_max k = Inr i) \<and> (\<exists>t. v = JString t))
     \<Longrightarrow> \<exists>tokens. read_tokens parts acc = Some tokens"
  by (induction parts arbitrary: acc) auto

lemma state_good_read:
  assumes "state_good j tot n c"
  shows "\<exists>st. state_from_json j = Some st \<and> ms_total_size st = tot \<and> ms_chunk_count st = n
    \<and> ms_chunk_size st = c"
proof -
  obtain kvs parts handle where j: "j = JObject kvs" "map_of kvs ''handle'' = Some (JString handle)"
    "map_of kvs ''total_size'' = Some (JInt tot)" "map_of kvs ''chunk_count'' = Some (JInt n)"
    "map_of kvs ''chunk_size'' = Some (JInt c)" "map_of kvs ''part_tokens'' = Some (JObject parts)"
    "\<forall>(k, v) \<in> set parts. (\<exists>i. stoi i32_min i32_max k = Inr i) \<and> (\<exists>t. v = JString t)"
    using assms by (auto simp: state_good_def)
  obtain tokens where "read_tokens parts [] = Some tokens" using read_tokens_some [OF j(7)] by blast
  with j show ?thesis by (simp add: state_from_json_def string_value_def int_value_def)
qed

lemma set_update_subset: "set (AList.update k v al) \<subseteq> insert (k, v) (set al)"
  by (induction al) auto

lemma state_good_set:
  assumes "state_good j tot n c" and "fits i32_min i32_max i"
  shows "state_good (set_part_token j (int_str i) t) tot n c"
proof -
  obtain kvs parts handle where j: "j = JObject kvs" "map_of kvs ''handle'' = Some (JString handle)"
    "map_of kvs ''total_size'' = Some (JInt tot)" "map_of kvs ''chunk_count'' = Some (JInt n)"
    "map_of kvs ''chunk_size'' = Some (JInt c)" "map_of kvs ''part_tokens'' = Some (JObject parts)"
    "\<forall>(k, v) \<in> set parts. (\<exists>i. stoi i32_min i32_max k = Inr i) \<and> (\<exists>t. v = JString t)"
    using assms(1) by (auto simp: state_good_def)
  let ?parts = "AList.update (int_str i) (JString t) parts"
  have "\<forall>(k, v) \<in> set ?parts. (\<exists>i. stoi i32_min i32_max k = Inr i) \<and> (\<exists>t. v = JString t)"
  proof
    fix x assume "x \<in> set ?parts"
    then have "x = (int_str i, JString t) \<or> x \<in> set parts"
      using set_update_subset [of "int_str i" "JString t" parts] by blast
    then show "case x of (k, v) \<Rightarrow> (\<exists>i. stoi i32_min i32_max k = Inr i) \<and> (\<exists>t. v = JString t)"
      using j(7) stoi_int_str [OF assms(2)] by auto
  qed
  with j show ?thesis by (simp add: set_part_token_def state_good_def update_conv')
qed

lemma state_good_initial:
  "state_good (state_to_json \<lparr>ms_handle = h, ms_total_size = tot, ms_chunk_count = n, ms_chunk_size = c,
     ms_part_tokens = []\<rparr>) tot n c"
  by (simp add: state_to_json_def state_good_def)

section \<open>An upload among others\<close>

datatype upload_event =
    Chunk io string int string string
  | Assemble io string string
  | Remove string
  | Create io string time string int int int json

fun apply_event :: "(string \<Rightarrow> string) \<Rightarrow> upload_event \<Rightarrow> store \<Rightarrow> store" where
  "apply_event sha256 (Chunk io u i data expected) w = snd (store_chunk_err sha256 io u i data expected w)"
| "apply_event sha256 (Assemble io u key) w = snd (assemble io u key w)"
| "apply_event sha256 (Remove u) w = remove_session u w"
| "apply_event sha256 (Create io u now user tot n c metadata) w =
     snd (create_session_upload io u now user tot n c metadata w)"

text \<open>
  What may happen to the upload \<open>u\<close> of \<open>content\<close> begun at \<open>t0\<close>: its client sends right pieces, in
  whatever order and however often; other uploads do what they like, and none is begun more than an
  hour after \<open>t0\<close>, when the session of \<open>u\<close> would be reaped.
\<close>

fun fair_event :: "string \<Rightarrow> string \<Rightarrow> int \<Rightarrow> time \<Rightarrow> upload_event \<Rightarrow> bool" where
  "fair_event content u c t0 (Chunk io v i data expected) \<longleftrightarrow> v = u \<longrightarrow> data = piece content c i"
| "fair_event content u c t0 (Assemble io v key) \<longleftrightarrow> v \<noteq> u"
| "fair_event content u c t0 (Remove v) \<longleftrightarrow> v \<noteq> u"
| "fair_event content u c t0 (Create io v now user tot n k metadata) \<longleftrightarrow>
     v \<noteq> u \<and> now - 3600000000 \<le> t0"

definition upload_ok :: "string \<Rightarrow> string \<Rightarrow> int \<Rightarrow> int \<Rightarrow> time \<Rightarrow> store \<Rightarrow> bool" where
  "upload_ok content u n c t0 w \<longleftrightarrow>
     (\<exists>row f. filter (\<lambda>s. us_upload_id s = u) (upload_sessions (fst w)) = [row]
        \<and> us_created_at row = t0 \<and> us_chunk_count row = n \<and> distinct (us_received_chunks row)
        \<and> set (us_received_chunks row) \<subseteq> {0 ..< n}
        \<and> state_good (us_storage_state row) (int (length content)) n c
        \<and> map_of (fs_tmp (snd w)) u = Some f
        \<and> holds content (\<Union>i \<in> set (us_received_chunks row). covers content c i) f)"

text \<open>It only looks at the upload's own row and staged file.\<close>

lemma upload_ok_frame:
  assumes "upload_ok content u n c t0 w"
    and "filter (\<lambda>s. us_upload_id s = u) (upload_sessions (fst w'))
       = filter (\<lambda>s. us_upload_id s = u) (upload_sessions (fst w))"
    and "map_of (fs_tmp (snd w')) u = map_of (fs_tmp (snd w)) u"
  shows "upload_ok content u n c t0 w'"
  using assms by (simp add: upload_ok_def)

lemma filter_map_other:
  assumes "\<And>s. us_upload_id (g s) = us_upload_id s" and "u \<noteq> v"
  shows "filter (\<lambda>s. us_upload_id s = u) (map (\<lambda>s. if us_upload_id s = v then g s else s) xs)
       = filter (\<lambda>s. us_upload_id s = u) xs"
  using assms by (induction xs) auto

lemma filter_map_own:
  assumes "\<And>s. us_upload_id (g s) = us_upload_id s"
  shows "filter (\<lambda>s. us_upload_id s = u) (map (\<lambda>s. if us_upload_id s = u then g s else s) xs)
       = map g (filter (\<lambda>s. us_upload_id s = u) xs)"
  using assms by (induction xs) auto

lemma upload_ok_chunk_other:
  assumes "upload_ok content u n c t0 w" and "v \<noteq> u"
  shows "upload_ok content u n c t0 (snd (store_chunk_err sha256 io v i data expected w))"
proof (rule upload_ok_frame [OF assms(1)])
  obtain d fs where w: "w = (d, fs)" by (cases w)
  have staged: "map_of (fs_tmp fs') u = map_of (fs_tmp fs) u"
    if "put_part sha256 io v st i data expected fs = (res, fs')" for st res fs'
    using local_backend.put_other [OF assms(2) that] .
  show "map_of (fs_tmp (snd (snd (store_chunk_err sha256 io v i data expected w)))) u = map_of (fs_tmp (snd w)) u"
    unfolding w using staged
    by (auto simp: store_chunk_err_def split: option.splits prod.splits)
  show "filter (\<lambda>s. us_upload_id s = u) (upload_sessions (fst (snd (store_chunk_err sha256 io v i data expected w))))
      = filter (\<lambda>s. us_upload_id s = u) (upload_sessions (fst w))"
    unfolding w using assms(2)
    by (auto simp: store_chunk_err_def record_upload_chunk_def Let_def filter_map_other
        split: option.splits prod.splits)
qed

lemma upload_ok_chunk_own:
  assumes "upload_ok content u n c t0 w" and "n \<le> i32_max"
  shows "upload_ok content u n c t0 (snd (store_chunk_err sha256 io u i (piece content c i) expected w))"
proof -
  obtain d fs where w: "w = (d, fs)" by (cases w)
  obtain row f where row: "filter (\<lambda>s. us_upload_id s = u) (upload_sessions d) = [row]"
    "us_created_at row = t0" "us_chunk_count row = n" "distinct (us_received_chunks row)"
    "set (us_received_chunks row) \<subseteq> {0 ..< n}"
    "state_good (us_storage_state row) (int (length content)) n c"
    "map_of (fs_tmp fs) u = Some f"
    "holds content (\<Union>i \<in> set (us_received_chunks row). covers content c i) f"
    using assms(1) unfolding w upload_ok_def by auto
  obtain st where st: "state_from_json (us_storage_state row) = Some st" "ms_chunk_count st = n"
    "ms_chunk_size st = c" using state_good_read [OF row(6)] by blast
  then have load: "load_state d u = Some st"
    using row(1) by (simp add: load_state_def get_upload_session_def first_row_def)
  obtain e t fs1 where part: "put_part sha256 io u st i (piece content c i) expected fs = ((e, t), fs1)"
    by (metis prod.exhaust)
  obtain f' where f': "map_of (fs_tmp fs1) u = Some f'"
    "holds content (\<Union>i \<in> set (us_received_chunks row). covers content c i) f'"
    "e = '''' \<longrightarrow> holds content ((\<Union>i \<in> set (us_received_chunks row). covers content c i) \<union> covers content c i) f'"
    using local_backend.put_holds [OF row(7,8)] part st(3) by metis
  show ?thesis
  proof (cases "e = ''''")
    case False
    then have "snd (store_chunk_err sha256 io u i (piece content c i) expected w) = (d, fs1)"
      using load part by (simp add: w store_chunk_err_def)
    then show ?thesis using row f' by (auto simp: upload_ok_def)
  next
    case True
    have i: "0 \<le> i" "i < n" using local_backend.put_writes [OF row(7) part] True st(2) by auto
    define mark :: "upload_session \<Rightarrow> upload_session"
      where "mark = (\<lambda>s. s\<lparr>us_received_chunks := (if i \<in> set (us_received_chunks s)
        then us_received_chunks s else us_received_chunks s @ [i]),
        us_storage_state := set_part_token (us_storage_state s) (int_str i) t\<rparr>)"
    obtain m d1 where rec: "record_upload_chunk d u i t = (m, d1)" by (cases "record_upload_chunk d u i t")
    then have "upload_sessions d1 = map (\<lambda>s. if us_upload_id s = u then mark s else s) (upload_sessions d)"
      by (auto simp: record_upload_chunk_def Let_def mark_def)
    then have rows: "filter (\<lambda>s. us_upload_id s = u) (upload_sessions d1) = [mark row]"
      using filter_map_own [of mark u "upload_sessions d"] row(1) by (simp add: mark_def)
    then have "get_upload_session d1 u = Some (mark row)"
      by (simp add: get_upload_session_def first_row_def)
    then have "m \<ge> 0" using rec by (auto simp: record_upload_chunk_def Let_def)
    then have result: "snd (store_chunk_err sha256 io u i (piece content c i) expected w) = (d1, fs1)"
      using load part rec True by (simp add: w store_chunk_err_def)
    have "fits i32_min i32_max i" using i assms(2) by (simp add: fits_def)
    then have "state_good (us_storage_state (mark row)) (int (length content)) n c"
      using state_good_set [OF row(6)] by (simp add: mark_def)
    moreover have "holds content (\<Union>i \<in> set (us_received_chunks (mark row)). covers content c i) f'"
      using f'(3) True by (auto simp: mark_def intro: holds_mono)
    ultimately show ?thesis
      using rows row(2-5) i f'(1) unfolding result upload_ok_def by (auto simp: mark_def)
  qed
qed

lemma upload_ok_assemble_other:
  assumes "upload_ok content u n c t0 w" and "v \<noteq> u"
  shows "upload_ok content u n c t0 (snd (assemble io v key w))"
  using assms(2)
  by (cases w, intro upload_ok_frame [OF assms(1)])
    (auto simp: assemble_def complete_multipart_def delete_conv' split: option.splits)

lemma upload_ok_remove_other:
  assumes "upload_ok content u n c t0 w" and "v \<noteq> u"
  shows "upload_ok content u n c t0 (remove_session v w)"
proof (rule upload_ok_frame [OF assms(1)])
  show "filter (\<lambda>s. us_upload_id s = u) (upload_sessions (fst (remove_session v w)))
      = filter (\<lambda>s. us_upload_id s = u) (upload_sessions (fst w))"
    using assms(2) by (cases w) (auto simp: remove_session_def delete_upload_session_def intro: filter_cong)
  show "map_of (fs_tmp (snd (remove_session v w))) u = map_of (fs_tmp (snd w)) u"
    using assms(2) by (cases w) (auto simp: remove_session_def abort_multipart_def delete_conv' split: option.splits)
qed

lemma abort_all_other:
  assumes "\<forall>x \<in> set stale. fst x \<noteq> u"
  shows "map_of (fs_tmp (fold (\<lambda>(v, j) fs. case state_from_json j of None \<Rightarrow> fs
             | Some st \<Rightarrow> abort_multipart v st fs) stale fs)) u = map_of (fs_tmp fs) u"
  using assms
proof (induction stale arbitrary: fs)
  case (Cons x stale)
  obtain v j where x: "x = (v, j)" by (cases x)
  then have "v \<noteq> u" using Cons.prems by auto
  then have "map_of (fs_tmp (case state_from_json j of None \<Rightarrow> fs | Some st \<Rightarrow> abort_multipart v st fs)) u
      = map_of (fs_tmp fs) u"
    by (auto simp: abort_multipart_def delete_conv' split: option.splits)
  with Cons.IH Cons.prems show ?case by (simp add: x)
qed simp

lemma upload_ok_cleanup:
  assumes "upload_ok content u n c t0 w" and "now - 3600000000 \<le> t0"
  shows "upload_ok content u n c t0 (cleanup_stale now 3600 w)"
proof (rule upload_ok_frame [OF assms(1)])
  obtain d fs where w: "w = (d, fs)" by (cases w)
  obtain row where row: "filter (\<lambda>s. us_upload_id s = u) (upload_sessions d) = [row]" "us_created_at row = t0"
    using assms(1) unfolding w upload_ok_def by auto
  have own: "s = row" if "s \<in> set (upload_sessions d)" "us_upload_id s = u" for s
  proof -
    have "s \<in> set (filter (\<lambda>s. us_upload_id s = u) (upload_sessions d))" using that by simp
    then show ?thesis unfolding row(1) by simp
  qed
  have keep: "\<not> us_created_at s < now - 3600000000" if "s \<in> set (upload_sessions d)" "us_upload_id s = u" for s
    using own [OF that] row(2) assms(2) by simp
  show "filter (\<lambda>s. us_upload_id s = u) (upload_sessions (fst (cleanup_stale now 3600 w)))
      = filter (\<lambda>s. us_upload_id s = u) (upload_sessions (fst w))"
    using keep by (auto simp: w cleanup_stale_def reap_stale_upload_sessions_def Let_def intro!: filter_cong)
  have "\<forall>x \<in> set (fst (reap_stale_upload_sessions d now 3600)). fst x \<noteq> u"
    using keep by (auto simp: reap_stale_upload_sessions_def Let_def)
  from abort_all_other [OF this, of fs]
  show "map_of (fs_tmp (snd (cleanup_stale now 3600 w))) u = map_of (fs_tmp (snd w)) u"
    by (simp add: w cleanup_stale_def reap_stale_upload_sessions_def Let_def)
qed

lemma upload_ok_create_other:
  assumes "upload_ok content u n c t0 w" and "v \<noteq> u" and "now - 3600000000 \<le> t0"
  shows "upload_ok content u n c t0 (snd (create_session_upload io v now user tot k b metadata w))"
proof -
  have clean: "upload_ok content u n c t0 (cleanup_stale now 3600 w)"
    using upload_ok_cleanup [OF assms(1,3)] .
  obtain d fs where w: "cleanup_stale now 3600 w = (d, fs)" by (cases "cleanup_stale now 3600 w")
  show ?thesis
  proof (rule upload_ok_frame [OF clean])
    show "filter (\<lambda>s. us_upload_id s = u) (upload_sessions (fst (snd (create_session_upload io v now user tot k b metadata w))))
        = filter (\<lambda>s. us_upload_id s = u) (upload_sessions (fst (cleanup_stale now 3600 w)))"
      using assms(2) by (auto simp: w create_session_upload_def create_multipart_def create_upload_session_def
          split: sum.splits if_splits)
    show "map_of (fs_tmp (snd (snd (create_session_upload io v now user tot k b metadata w)))) u
        = map_of (fs_tmp (snd (cleanup_stale now 3600 w))) u"
      using assms(2) by (auto simp: w create_session_upload_def create_multipart_def abort_multipart_def
          update_conv' delete_conv' split: sum.splits)
  qed
qed

lemma upload_ok_event:
  assumes "upload_ok content u n c t0 w" and "n \<le> i32_max" and "fair_event content u c t0 ev"
  shows "upload_ok content u n c t0 (apply_event sha256 ev w)"
proof (cases ev)
  case (Chunk io v i data expected)
  then show ?thesis
    using assms upload_ok_chunk_own upload_ok_chunk_other by (cases "v = u") auto
qed (use assms in \<open>auto intro: upload_ok_assemble_other upload_ok_remove_other upload_ok_create_other\<close>)

lemma upload_ok_events:
  assumes "upload_ok content u n c t0 w" and "n \<le> i32_max" and "\<forall>ev \<in> set evs. fair_event content u c t0 ev"
  shows "upload_ok content u n c t0 (fold (apply_event sha256) evs w)"
  using assms(1,3)
proof (induction evs arbitrary: w)
  case (Cons ev evs)
  then have "upload_ok content u n c t0 (apply_event sha256 ev w)"
    using upload_ok_event [OF _ assms(2)] by simp
  with Cons show ?case by simp
qed simp

lemma upload_ok_created:
  assumes "create_session_upload io u t0 user (int (length content)) n c metadata w = (u, w0)" and "u \<noteq> ''''"
  shows "upload_ok content u n c t0 w0"
proof -
  let ?st = "\<lparr>ms_handle = '''', ms_total_size = int (length content), ms_chunk_count = n,
    ms_chunk_size = c, ms_part_tokens = []\<rparr>"
  obtain d fs where clean: "cleanup_stale t0 3600 w = (d, fs)" by (cases "cleanup_stale t0 3600 w")
  obtain d1 where d1: "create_upload_session d t0 u user (int (length content)) n c metadata (state_to_json ?st) = Inr d1"
    and w0: "w0 = (d1, fs\<lparr>fs_tmp := AList.update u '''' (fs_tmp fs)\<rparr>)"
    using assms by (auto simp: create_session_upload_def create_multipart_def clean split: if_splits sum.splits)
  have fresh: "filter (\<lambda>s. us_upload_id s = u) (upload_sessions d) = []"
    using d1 by (auto simp: create_upload_session_def has_key_iff filter_empty_conv split: if_splits)
  show ?thesis
    using d1 fresh state_good_initial
    by (auto simp: w0 create_upload_session_def upload_ok_def holds_def update_conv' split: if_splits)
qed

text \<open>C22: A chunked upload that the manager reports complete is assembled to exactly the client's content, in
  whatever order and however often its chunks came, whatever system calls failed on the way, and
  whatever other uploads were doing in the meantime, as long as no stale-session sweep came more
  than an hour after it began.\<close>

theorem upload_assembles_content:
  assumes "create_session_upload io u t0 user (int (length content)) n c metadata w = (u, w0)" and "u \<noteq> ''''"
    and "0 < c" and "int (length content) \<le> n * c" and "n \<le> i32_max"
    and "\<forall>ev \<in> set evs. fair_event content u c t0 ev"
    and "is_complete u (fold (apply_event sha256) evs w0)"
  shows "case assemble Io_ok u key (fold (apply_event sha256) evs w0) of (r, w2) \<Rightarrow>
    r = int (length content) \<and> get key (snd w2) = Some content"
proof -
  obtain d fs where w1: "fold (apply_event sha256) evs w0 = (d, fs)"
    by (cases "fold (apply_event sha256) evs w0")
  have "upload_ok content u n c t0 (d, fs)"
    using upload_ok_events [OF upload_ok_created [OF assms(1,2)] assms(5,6), of sha256] w1 by simp
  then obtain row f where row: "filter (\<lambda>s. us_upload_id s = u) (upload_sessions d) = [row]"
    "us_chunk_count row = n" "distinct (us_received_chunks row)" "set (us_received_chunks row) \<subseteq> {0 ..< n}"
    "state_good (us_storage_state row) (int (length content)) n c" "map_of (fs_tmp fs) u = Some f"
    "holds content (\<Union>i \<in> set (us_received_chunks row). covers content c i) f"
    unfolding upload_ok_def by auto
  have session: "get_upload_session d u = Some row"
    using row(1) by (simp add: get_upload_session_def first_row_def)
  then have "int (length (us_received_chunks row)) = n"
    using assms(7) row(2) by (simp add: is_complete_def w1)
  then have "card (set (us_received_chunks row)) = card {0 ..< n}"
    using distinct_card [OF row(3)] by simp
  then have all: "set (us_received_chunks row) = {0 ..< n}"
    using row(4) by (intro card_subset_eq) auto
  obtain st where st: "state_from_json (us_storage_state row) = Some st"
    "ms_total_size st = int (length content)" using state_good_read [OF row(5)] by blast
  obtain r fs2 where complete: "complete_multipart Io_ok u st key fs = (r, fs2)"
    by (cases "complete_multipart Io_ok u st key fs")
  have "r = int (length content) \<and> get key fs2 = Some content"
    using local_backend.complete_content [OF row(6) row(7) [unfolded all] assms(3,4) st(2) complete] .
  then show ?thesis
    using session st(1) complete by (simp add: w1 assemble_def load_state_def)
qed

text \<open>Eleven bytes in chunks of four: the last comes first, one is cut short and sent again.\<close>

theorem upload_assembles_content_witness:
  "get ''k'' (snd (snd (assemble Io_ok ''up'' ''k'' (fold (apply_event (\<lambda>s. s))
      [Chunk Io_ok ''up'' 2 ''rld'' '''', Chunk (Io_short 2) ''up'' 0 ''hell'' '''',
       Chunk Io_ok ''up'' 0 ''hell'' ''hell'', Chunk Io_ok ''up'' 1 ''o wo'' '''']
      (snd (create_session_upload Io_ok ''up'' 5 ''u2'' 11 3 4 (JObject []) (example_db, \<lparr>fs_blobs = [], fs_tmp = []\<rparr>)))))))
   = Some ''hello world''"
proof -
  let ?content = "''hello world''"
  let ?w0 = "snd (create_session_upload Io_ok ''up'' 5 ''u2'' 11 3 4 (JObject []) (example_db, \<lparr>fs_blobs = [], fs_tmp = []\<rparr>))"
  let ?evs = "[Chunk Io_ok ''up'' 2 ''rld'' '''', Chunk (Io_short 2) ''up'' 0 ''hell'' '''',
       Chunk Io_ok ''up'' 0 ''hell'' ''hell'', Chunk Io_ok ''up'' 1 ''o wo'' '''']"
  have "fst (create_session_upload Io_ok ''up'' 5 ''u2'' (int (length ?content)) 3 4 (JObject [])
      (example_db, \<lparr>fs_blobs = [], fs_tmp = []\<rparr>)) = ''up''" by code_simp
  then have "create_session_upload Io_ok ''up'' 5 ''u2'' (int (length ?content)) 3 4 (JObject [])
      (example_db, \<lparr>fs_blobs = [], fs_tmp = []\<rparr>) = (''up'', ?w0)"
    by (simp add: prod_eq_iff)
  moreover have "\<forall>ev \<in> set ?evs. fair_event ?content ''up'' 4 5 ev" by code_simp
  moreover have "is_complete ''up'' (fold (apply_event (\<lambda>s. s)) ?evs ?w0)" by code_simp
  ultimately show ?thesis
    using upload_assembles_content [of Io_ok "''up''" 5 "''u2''" ?content 3 4 "JObject []"
        "(example_db, \<lparr>fs_blobs = [], fs_tmp = []\<rparr>)" ?w0 ?evs "\<lambda>s. s" "''k''"]
    by (auto simp: case_prod_beta)
qed

end
