(* ===== verification/Recurrence.thy ===== *)
theory Recurrence
  imports Civil_Time "HOL-Library.Monad_Syntax"
begin

text \<open>
  The recurrence rules of calendar events (recurrence.cpp): parsing of time stamps and RRULE
  strings, and the expansion of a rule into occurrences inside a range. Integers are unbounded
  here, with the one addition that can leave the 32 bits of \<open>int\<close> written out; the value None stands
  for undefined behaviour (that overflow, or a read outside the table of month lengths) and for an
  expansion that never returns. Recurrence\_Props shows when neither happens.
\<close>

section \<open>Time stamps\<close>

definition safe_stoi :: "string \<Rightarrow> int \<Rightarrow> int" where
  "safe_stoi s fallback =
     (if s = [] then fallback
      else case from_chars i32_min i32_max s of Inr (v, []) \<Rightarrow> v | _ \<Rightarrow> fallback)"

definition substr :: "string \<Rightarrow> nat \<Rightarrow> nat \<Rightarrow> string" where
  "substr s pos n = take n (drop pos s)"

definition parse_iso8601 :: "string \<Rightarrow> tm" where
  "parse_iso8601 s =
     (let t = \<lparr>tm_year = 0, tm_mon = 0, tm_mday = 0, tm_hour = 0, tm_min = 0, tm_sec = 0\<rparr>;
          t = (if 10 \<le> length s
               then t\<lparr>tm_year := safe_stoi (substr s 0 4) 1970 - 1900,
                      tm_mon := safe_stoi (substr s 5 2) 1 - 1,
                      tm_mday := safe_stoi (substr s 8 2) 1\<rparr>
               else t)
      in if 19 \<le> length s
         then t\<lparr>tm_hour := safe_stoi (substr s 11 2) 0,
                tm_min := safe_stoi (substr s 14 2) 0,
                tm_sec := safe_stoi (substr s 17 2) 0\<rparr>
         else t)"

text \<open>\<open>%0wd\<close> of printf: the sign counts towards the width and precedes the zeros.\<close>

definition printf_0d :: "nat \<Rightarrow> int \<Rightarrow> string" where
  "printf_0d w i =
     (let ds = nat_str (nat \<bar>i\<bar>); sgn = (if i < 0 then ''-'' else [])
      in sgn @ replicate (w - length sgn - length ds) (CHR ''0'') @ ds)"

definition format_iso8601 :: "tm \<Rightarrow> string" where
  "format_iso8601 t = take 63
     (printf_0d 4 (tm_year t + 1900) @ ''-'' @ printf_0d 2 (tm_mon t + 1) @ ''-'' @ printf_0d 2 (tm_mday t) @
      ''T'' @ printf_0d 2 (tm_hour t) @ '':'' @ printf_0d 2 (tm_min t) @ '':'' @ printf_0d 2 (tm_sec t) @ ''Z'')"

definition tm_before :: "tm \<Rightarrow> tm \<Rightarrow> bool" where
  "tm_before a b =
     (if tm_year a \<noteq> tm_year b then tm_year a < tm_year b
      else if tm_mon a \<noteq> tm_mon b then tm_mon a < tm_mon b
      else if tm_mday a \<noteq> tm_mday b then tm_mday a < tm_mday b
      else if tm_hour a \<noteq> tm_hour b then tm_hour a < tm_hour b
      else if tm_min a \<noteq> tm_min b then tm_min a < tm_min b
      else tm_sec a < tm_sec b)"

definition tm_equal :: "tm \<Rightarrow> tm \<Rightarrow> bool" where
  "tm_equal a b \<longleftrightarrow> tm_year a = tm_year b \<and> tm_mon a = tm_mon b \<and> tm_mday a = tm_mday b
     \<and> tm_hour a = tm_hour b \<and> tm_min a = tm_min b \<and> tm_sec a = tm_sec b"

definition tm_before_or_equal :: "tm \<Rightarrow> tm \<Rightarrow> bool" where
  "tm_before_or_equal a b \<longleftrightarrow> tm_before a b \<or> tm_equal a b"

section \<open>Rules\<close>

datatype freq = DAILY | WEEKLY | MONTHLY | YEARLY

datatype weekday = SU | MO | TU | WE | TH | FR | SA

fun wday_num :: "weekday \<Rightarrow> int" where
  "wday_num SU = 0" | "wday_num MO = 1" | "wday_num TU = 2" | "wday_num WE = 3"
| "wday_num TH = 4" | "wday_num FR = 5" | "wday_num SA = 6"

record rrule =
  rr_freq :: freq
  rr_interval :: int
  rr_count :: "int option"
  rr_until :: "tm option"
  rr_by_day :: "weekday list"
  rr_by_monthday :: "int list"
  rr_by_month :: "int list"

definition default_rrule :: rrule where
  "default_rrule = \<lparr>rr_freq = WEEKLY, rr_interval = 1, rr_count = None, rr_until = None,
     rr_by_day = [], rr_by_monthday = [], rr_by_month = []\<rparr>"

definition parse_weekday :: "string \<Rightarrow> weekday" where
  "parse_weekday s =
     (if s = ''SU'' then SU else if s = ''MO'' then MO else if s = ''TU'' then TU
      else if s = ''WE'' then WE else if s = ''TH'' then TH else if s = ''FR'' then FR
      else if s = ''SA'' then SA else MO)"

definition split_parts :: "string \<Rightarrow> char \<Rightarrow> string list" where
  "split_parts s delim = filter (\<lambda>part. part \<noteq> []) (split_on delim s)"

definition normalize_until :: "string \<Rightarrow> string" where
  "normalize_until val =
     (if 8 \<le> length val then
        substr val 0 4 @ ''-'' @ substr val 4 2 @ ''-'' @ substr val 6 2 @
        (if 15 \<le> length val
         then ''T'' @ substr val 9 2 @ '':'' @ substr val 11 2 @ '':'' @ substr val 13 2 @ ''Z''
         else ''T23:59:59Z'')
      else [])"

definition strip_ordinal :: "string \<Rightarrow> string" where
  "strip_ordinal d = dropWhile (\<lambda>c. c = CHR ''-'' \<or> is_digit c) d"

definition rule_part :: "rrule \<Rightarrow> string \<Rightarrow> rrule" where
  "rule_part rule part =
     (if CHR ''='' \<notin> set part then rule
      else
        let key = takeWhile (\<lambda>c. c \<noteq> CHR ''='') part;
            val = tl (dropWhile (\<lambda>c. c \<noteq> CHR ''='') part)
        in if key = ''FREQ'' then
             (if val = ''DAILY'' then rule\<lparr>rr_freq := DAILY\<rparr>
              else if val = ''WEEKLY'' then rule\<lparr>rr_freq := WEEKLY\<rparr>
              else if val = ''MONTHLY'' then rule\<lparr>rr_freq := MONTHLY\<rparr>
              else if val = ''YEARLY'' then rule\<lparr>rr_freq := YEARLY\<rparr>
              else rule)
           else if key = ''INTERVAL'' then rule\<lparr>rr_interval := max 1 (safe_stoi val 1)\<rparr>
           else if key = ''COUNT'' then
             (let c = safe_stoi val (-1) in if 0 \<le> c then rule\<lparr>rr_count := Some c\<rparr> else rule)
           else if key = ''UNTIL'' then
             (let n = normalize_until val
              in if n \<noteq> [] then rule\<lparr>rr_until := Some (parse_iso8601 n)\<rparr> else rule)
           else if key = ''BYDAY'' then
             rule\<lparr>rr_by_day := rr_by_day rule @
               map parse_weekday (filter (\<lambda>d. length d = 2) (map strip_ordinal (split_parts val (CHR '',''))))\<rparr>
           else if key = ''BYMONTHDAY'' then
             rule\<lparr>rr_by_monthday := rr_by_monthday rule @
               filter (\<lambda>d. d \<noteq> 0) (map (\<lambda>n. safe_stoi n 0) (split_parts val (CHR '','')))\<rparr>
           else if key = ''BYMONTH'' then
             rule\<lparr>rr_by_month := rr_by_month rule @
               filter (\<lambda>m. 1 \<le> m \<and> m \<le> 12) (map (\<lambda>n. safe_stoi n 0) (split_parts val (CHR '','')))\<rparr>
           else rule)"

definition parse_rrule :: "string \<Rightarrow> rrule" where
  "parse_rrule rrule_str =
     (if rrule_str = [] then default_rrule
      else
        let s = (if starts_with ''RRULE:'' rrule_str then drop 6 rrule_str else rrule_str)
        in foldl rule_part default_rrule (split_parts s (CHR '';'')))"

section \<open>One step of a rule\<close>

text \<open>The table of month lengths is read at \<open>month\<close>; outside 0..11 that is undefined.\<close>

definition days_in_month :: "int \<Rightarrow> int \<Rightarrow> int option" where
  "days_in_month year month =
     (if 0 \<le> month \<and> month < 12 then Some (month_lengths (year + 1900) ! nat month) else None)"

function carry_months :: "tm \<Rightarrow> tm" where
  "carry_months t =
     (if 12 \<le> tm_mon t then carry_months (t\<lparr>tm_mon := tm_mon t - 12, tm_year := tm_year t + 1\<rparr>) else t)"
  by pat_completeness auto

termination
  by (relation "measure (\<lambda>t. nat (tm_mon t))") auto

declare carry_months.simps [simp del]

definition clamp_day :: "tm \<Rightarrow> tm option" where
  "clamp_day t = do {
     max_day \<leftarrow> days_in_month (tm_year t) (tm_mon t);
     Some (if max_day < tm_mday t then t\<lparr>tm_mday := max_day\<rparr> else t) }"

fun advance :: "tm \<Rightarrow> freq \<Rightarrow> int \<Rightarrow> tm option" where
  "advance t DAILY interval = Some (gmtime (timegm t + 86400 * interval))"
| "advance t WEEKLY interval = Some (gmtime (timegm t + 86400 * 7 * interval))"
| "advance t MONTHLY interval =
     (if tm_mon t + interval \<le> i32_max then clamp_day (carry_months (t\<lparr>tm_mon := tm_mon t + interval\<rparr>))
      else None)"
| "advance t YEARLY interval =
     (if tm_year t + interval \<le> i32_max then clamp_day (t\<lparr>tm_year := tm_year t + interval\<rparr>) else None)"

fun monthday_found :: "int list \<Rightarrow> tm \<Rightarrow> bool option" where
  "monthday_found [] t = Some False"
| "monthday_found (d # ds) t =
     (if 0 < d \<and> d = tm_mday t then Some True
      else if d < 0 then do {
        max_day \<leftarrow> days_in_month (tm_year t) (tm_mon t);
        if max_day + 1 + d = tm_mday t then Some True else monthday_found ds t }
      else monthday_found ds t)"

definition matches_by_rules :: "tm \<Rightarrow> rrule \<Rightarrow> bool option" where
  "matches_by_rules t rule =
     (if rr_by_month rule \<noteq> [] \<and> tm_mon t + 1 \<notin> set (rr_by_month rule) then Some False
      else do {
        md \<leftarrow> (if rr_by_monthday rule \<noteq> [] then monthday_found (rr_by_monthday rule) t else Some True);
        Some (md \<and>
          (rr_by_day rule \<noteq> [] \<and> rr_freq rule \<noteq> WEEKLY \<longrightarrow>
             gmtime_wday (timegm t) \<in> wday_num ` set (rr_by_day rule))) })"

section \<open>Expansion\<close>

abbreviation MAX_OCCURRENCES :: nat where "MAX_OCCURRENCES \<equiv> 1000"

definition past_until :: "rrule \<Rightarrow> tm \<Rightarrow> bool" where
  "past_until rule t \<longleftrightarrow> (case rr_until rule of Some u \<Rightarrow> tm_before u t | None \<Rightarrow> False)"

definition count_reached :: "rrule \<Rightarrow> int \<Rightarrow> bool" where
  "count_reached rule total_count \<longleftrightarrow> (case rr_count rule of Some c \<Rightarrow> c \<le> total_count | None \<Rightarrow> False)"

text \<open>
  The days of one week, in the order in which BYDAY lists them: \<open>Inl\<close> is a return out of both
  loops, \<open>Inr\<close> the counters at the end of the week.
\<close>

definition with_clock :: "tm \<Rightarrow> tm \<Rightarrow> tm" where
  "with_clock start t = t\<lparr>tm_hour := tm_hour start, tm_min := tm_min start, tm_sec := tm_sec start\<rparr>"

definition week_candidate :: "tm \<Rightarrow> tm \<Rightarrow> weekday \<Rightarrow> tm" where
  "week_candidate start current_week day =
     with_clock start (gmtime (timegm current_week + (wday_num day + 6) mod 7 * 86400))"

fun week_days ::
  "rrule \<Rightarrow> tm \<Rightarrow> tm \<Rightarrow> tm \<Rightarrow> tm \<Rightarrow> weekday list \<Rightarrow> int \<Rightarrow> string list \<Rightarrow> string list + int \<times> string list" where
  "week_days rule start rs re current_week [] total_count results = Inr (total_count, results)"
| "week_days rule start rs re current_week (day # days) total_count results =
     (let candidate = week_candidate start current_week day
      in if tm_before candidate start then week_days rule start rs re current_week days total_count results
         else if past_until rule candidate then Inl results
         else if count_reached rule total_count then Inl results
         else if \<not> tm_before candidate re then Inl results
         else
           let total_count = total_count + 1;
               results = (if tm_before_or_equal rs candidate then results @ [format_iso8601 candidate] else results)
           in if MAX_OCCURRENCES \<le> length results then Inl results
              else week_days rule start rs re current_week days total_count results)"

partial_function (option) week_loop ::
  "rrule \<Rightarrow> tm \<Rightarrow> tm \<Rightarrow> tm \<Rightarrow> tm \<Rightarrow> int \<Rightarrow> string list \<Rightarrow> string list option" where
  [code]: "week_loop rule start rs re current_week total_count results =
     (case week_days rule start rs re current_week (rr_by_day rule) total_count results of
        Inl r \<Rightarrow> Some r
      | Inr (total_count, results) \<Rightarrow>
          week_loop rule start rs re
            (with_clock start (gmtime (timegm current_week + 86400 * 7 * rr_interval rule))) total_count results)"

definition restore_mday :: "rrule \<Rightarrow> int \<Rightarrow> tm \<Rightarrow> tm option" where
  "restore_mday rule original_mday t =
     (if rr_freq rule = MONTHLY \<or> rr_freq rule = YEARLY then clamp_day (t\<lparr>tm_mday := original_mday\<rparr>) else Some t)"

partial_function (option) step_loop ::
  "rrule \<Rightarrow> tm \<Rightarrow> tm \<Rightarrow> int \<Rightarrow> tm \<Rightarrow> int \<Rightarrow> string list \<Rightarrow> string list option" where
  [code]: "step_loop rule rs re original_mday current total_count results =
     (if past_until rule current then Some results
      else if count_reached rule total_count then Some results
      else if \<not> tm_before current re then Some results
      else do {
        m \<leftarrow> matches_by_rules current rule;
        (let total_count = (if m then total_count + 1 else total_count);
             results = (if m \<and> tm_before_or_equal rs current then results @ [format_iso8601 current] else results)
         in if m \<and> MAX_OCCURRENCES \<le> length results then Some results
            else do {
              t \<leftarrow> advance current (rr_freq rule) (rr_interval rule);
              t \<leftarrow> restore_mday rule original_mday t;
              step_loop rule rs re original_mday t total_count results }) })"

definition monday_of :: "tm \<Rightarrow> tm" where
  "monday_of start = with_clock start
     (gmtime (timegm start - (gmtime_wday (timegm start) + 6) mod 7 * 86400))"

definition expand_rrule :: "rrule \<Rightarrow> string \<Rightarrow> string \<Rightarrow> string \<Rightarrow> string list option" where
  "expand_rrule rule dtstart range_start range_end =
     (let start = parse_iso8601 dtstart;
          rs = parse_iso8601 range_start;
          re = parse_iso8601 range_end
      in if rr_freq rule = WEEKLY \<and> rr_by_day rule \<noteq> []
         then week_loop rule start rs re (monday_of start) 0 []
         else step_loop rule rs re (tm_mday start) start 0 [])"

end
