(* ===== verification/Recurrence_Props.thy ===== *)
theory Recurrence_Props
  imports Recurrence
begin

text \<open>
  The expansion loops against a list specification: the candidates of a rule in the order in which
  the loops visit them, cut at the first one past UNTIL or the end of the range, filtered by the BY
  rules, limited by COUNT, restricted to the start of the range and capped at a thousand. With that,
  every expansion of a rule on a regular start date returns, and its result is ordered and bounded.
\<close>

section \<open>The order of time stamps\<close>

lemma tm_before_code:
  "tm_before a b \<longleftrightarrow> tm_year a < tm_year b \<or> tm_year a = tm_year b \<and>
     (tm_mon a < tm_mon b \<or> tm_mon a = tm_mon b \<and>
       (tm_mday a < tm_mday b \<or> tm_mday a = tm_mday b \<and>
         (tm_hour a < tm_hour b \<or> tm_hour a = tm_hour b \<and>
           (tm_min a < tm_min b \<or> tm_min a = tm_min b \<and> tm_sec a < tm_sec b))))"
  by (auto simp: tm_before_def)

lemma tm_before_trans: "tm_before a b \<Longrightarrow> tm_before b c \<Longrightarrow> tm_before a c"
  unfolding tm_before_code by (elim disjE conjE) linarith+

lemma tm_before_irrefl: "\<not> tm_before a a"
  by (simp add: tm_before_def)

lemma tm_equal_eq: "tm_equal a b \<longleftrightarrow> a = b" for a b :: tm
  by (auto simp: tm_equal_def intro: tm.equality)

lemma tm_before_cases: "tm_before a b \<or> a = b \<or> tm_before b a"
  by (auto simp: tm_before_def tm_equal_eq [symmetric] tm_equal_def)

lemma clock_less:
  assumes "clock_ok a" "clock_ok b"
    and "tm_hour a < tm_hour b \<or> tm_hour a = tm_hour b \<and>
      (tm_min a < tm_min b \<or> tm_min a = tm_min b \<and> tm_sec a < tm_sec b)"
  shows "clock a < clock b"
  using assms by (auto simp: clock_ok_def clock_def)

abbreviation regular :: "tm \<Rightarrow> bool" where
  "regular t \<equiv> day_ok t \<and> clock_ok t"

lemma tm_before_timegm:
  assumes "regular a" "regular b" "tm_before a b"
  shows "timegm a < timegm b"
proof -
  have c: "0 \<le> clock a" "clock a < 86400" "0 \<le> clock b" "clock b < 86400"
    using assms clock_bounds by blast+
  consider "tm_days a < tm_days b" | "tm_days a = tm_days b" "clock a < clock b"
  proof -
    let ?earlier = "tm_year a < tm_year b \<or> tm_year a = tm_year b \<and>
      (tm_mon a < tm_mon b \<or> tm_mon a = tm_mon b \<and> tm_mday a < tm_mday b)"
    show ?thesis
    proof (cases ?earlier)
      case True
      then show ?thesis using tm_days_less assms(1,2) that(1) by blast
    next
      case False
      then have "tm_year a = tm_year b" "tm_mon a = tm_mon b" "tm_mday a = tm_mday b"
        "tm_hour a < tm_hour b \<or> tm_hour a = tm_hour b \<and>
          (tm_min a < tm_min b \<or> tm_min a = tm_min b \<and> tm_sec a < tm_sec b)"
        using assms(3) unfolding tm_before_code by blast+
      then show ?thesis
        using clock_less assms(1,2) that(2) by (simp add: tm_days_def)
    qed
  qed
  then show ?thesis
    using c assms(1,2) by cases (simp_all add: timegm_regular)
qed

lemma tm_before_iff_timegm: "regular a \<Longrightarrow> regular b \<Longrightarrow> tm_before a b \<longleftrightarrow> timegm a < timegm b"
  using tm_before_timegm [of a b] tm_before_timegm [of b a] tm_before_cases [of a b] by auto

lemma regular_gmtime [simp]: "regular (gmtime tt)"
  by (simp add: gmtime_day_ok gmtime_clock_ok)

theorem gmtime_timegm:
  assumes "regular t"
  shows "gmtime (timegm t) = t"
  using tm_before_cases [of "gmtime (timegm t)" t] tm_before_iff_timegm [of "gmtime (timegm t)" t]
    tm_before_iff_timegm [of t "gmtime (timegm t)"] assms by auto

section \<open>Candidates\<close>

definition month_length :: "tm \<Rightarrow> int" where
  "month_length t = month_lengths (tm_year t + 1900) ! nat (tm_mon t)"

lemma clamp_day_regular:
  "0 \<le> tm_mon t \<Longrightarrow> tm_mon t < 12 \<Longrightarrow> clamp_day t = Some (t\<lparr>tm_mday := min (tm_mday t) (month_length t)\<rparr>)"
  by (simp add: clamp_day_def days_in_month_def month_length_def min_def)

text \<open>The date with the given month, counted from the month 0 of the year, and its day clamped.\<close>

definition in_month :: "tm \<Rightarrow> int \<Rightarrow> int \<Rightarrow> tm" where
  "in_month start y j =
     (let t = start\<lparr>tm_year := y + j div 12, tm_mon := j mod 12\<rparr>
      in t\<lparr>tm_mday := min (tm_mday start) (month_length t)\<rparr>)"

fun nth_step :: "tm \<Rightarrow> freq \<Rightarrow> int \<Rightarrow> int \<Rightarrow> tm" where
  "nth_step start DAILY interval k = gmtime (timegm start + 86400 * interval * k)"
| "nth_step start WEEKLY interval k = gmtime (timegm start + 604800 * interval * k)"
| "nth_step start MONTHLY interval k = in_month start (tm_year start) (tm_mon start + interval * k)"
| "nth_step start YEARLY interval k = in_month start (tm_year start + interval * k) (tm_mon start)"

text \<open>The given weekday of the \<open>k\<close>-th visited week.\<close>

definition nth_week_day :: "tm \<Rightarrow> int \<Rightarrow> int \<Rightarrow> weekday \<Rightarrow> tm" where
  "nth_week_day start interval k day = gmtime (timegm start +
     86400 * ((wday_num day + 6) mod 7 - (gmtime_wday (timegm start) + 6) mod 7 + 7 * interval * k))"

abbreviation by_week :: "rrule \<Rightarrow> bool" where
  "by_week rule \<equiv> rr_freq rule = WEEKLY \<and> rr_by_day rule \<noteq> []"

definition candidates :: "rrule \<Rightarrow> tm \<Rightarrow> nat \<Rightarrow> tm list" where
  "candidates rule start n =
     (if by_week rule
      then filter (\<lambda>t. \<not> tm_before t start)
        (concat (map (\<lambda>k. map (nth_week_day start (rr_interval rule) (int k)) (rr_by_day rule)) [0 ..< n]))
      else map (\<lambda>k. nth_step start (rr_freq rule) (rr_interval rule) (int k)) [0 ..< n])"

definition rule_allows :: "rrule \<Rightarrow> tm \<Rightarrow> bool" where
  "rule_allows rule t \<longleftrightarrow> by_week rule \<or>
     (rr_by_month rule = [] \<or> tm_mon t + 1 \<in> set (rr_by_month rule))
     \<and> (rr_by_monthday rule = [] \<or>
        (\<exists>d \<in> set (rr_by_monthday rule). 0 < d \<and> d = tm_mday t \<or> d < 0 \<and> month_length t + 1 + d = tm_mday t))
     \<and> (rr_by_day rule = [] \<or> rr_freq rule = WEEKLY \<or>
        gmtime_wday (timegm t) \<in> wday_num ` set (rr_by_day rule))"

definition live :: "rrule \<Rightarrow> tm \<Rightarrow> tm \<Rightarrow> bool" where
  "live rule re t \<longleftrightarrow> \<not> past_until rule t \<and> tm_before t re"

definition limit_count :: "rrule \<Rightarrow> int \<Rightarrow> 'a list \<Rightarrow> 'a list" where
  "limit_count rule total_count xs = (case rr_count rule of Some c \<Rightarrow> take (nat (c - total_count)) xs | None \<Rightarrow> xs)"

definition chosen :: "rrule \<Rightarrow> tm \<Rightarrow> tm \<Rightarrow> tm list \<Rightarrow> tm list" where
  "chosen rule rs re ts = take MAX_OCCURRENCES (filter (tm_before_or_equal rs)
     (limit_count rule 0 (filter (rule_allows rule) (takeWhile (live rule re) ts))))"

lemma month_lengths_cong_leap: "month_lengths y ! m \<ge> 28" if "m < 12"
  using month_length_nth [OF that, of y] by simp

lemma day_ok_in_month:
  assumes "1 \<le> tm_mday start"
  shows "day_ok (in_month start y j)"
proof -
  have "28 \<le> month_length (start\<lparr>tm_year := y + j div 12, tm_mon := j mod 12\<rparr>)"
    using month_length_nth [of "nat (j mod 12)" "y + j div 12 + 1900"] by (simp add: month_length_def)
  then show ?thesis
    using assms by (simp add: in_month_def Let_def day_ok_def month_length_def)
qed

lemma regular_in_month: "regular start \<Longrightarrow> regular (in_month start y j)"
  using day_ok_in_month [of start y j]
  by (simp add: day_ok_def in_month_def Let_def clock_ok_def)

lemma regular_nth_step: "regular start \<Longrightarrow> regular (nth_step start f interval k)"
  by (cases f) (auto simp: regular_in_month [simplified])

lemma in_month_start:
  assumes "regular start"
  shows "in_month start (tm_year start) (tm_mon start) = start"
  using assms by (simp add: in_month_def Let_def day_ok_def month_length_def)

lemma nth_step_0: "regular start \<Longrightarrow> nth_step start f interval 0 = start"
  by (cases f) (simp_all add: gmtime_timegm in_month_start)

lemma monthday_found_regular:
  "0 \<le> tm_mon t \<Longrightarrow> tm_mon t < 12 \<Longrightarrow> monthday_found ds t =
     Some (\<exists>d \<in> set ds. 0 < d \<and> d = tm_mday t \<or> d < 0 \<and> month_length t + 1 + d = tm_mday t)"
  by (induction ds) (auto simp: days_in_month_def month_length_def)

lemma matches_by_rules_regular:
  assumes "regular t" and "\<not> by_week rule"
  shows "matches_by_rules t rule = Some (rule_allows rule t)"
  using assms by (auto simp: matches_by_rules_def rule_allows_def day_ok_def monthday_found_regular)

lemma minus_12_div_mod: "(x - 12) div 12 = x div 12 - 1" "(x - 12) mod 12 = x mod 12" for x :: int
  using div_mult_self2 [of 12 x "-1"] mod_mult_self2 [of x 12 "-1"] by simp_all

lemma carry_months_nonneg:
  "0 \<le> tm_mon t \<Longrightarrow> carry_months t = t\<lparr>tm_year := tm_year t + tm_mon t div 12, tm_mon := tm_mon t mod 12\<rparr>"
proof (induction t rule: carry_months.induct)
  case (1 t)
  show ?case
  proof (cases "12 \<le> tm_mon t")
    case True
    have "(tm_mon t - 12) div 12 = tm_mon t div 12 - 1" "(tm_mon t - 12) mod 12 = tm_mon t mod 12"
      using minus_12_div_mod by auto
    with True "1.IH" "1.prems" show ?thesis by (subst carry_months.simps) simp
  next
    case False
    then show ?thesis using "1.prems" by (subst carry_months.simps) simp
  qed
qed


section \<open>The loops as scans\<close>

text \<open>One pass over a list of candidates, with the exits of the loops.\<close>

fun scan :: "rrule \<Rightarrow> tm \<Rightarrow> tm \<Rightarrow> tm list \<Rightarrow> int \<Rightarrow> string list \<Rightarrow> string list + int \<times> string list" where
  "scan rule rs re [] n res = Inr (n, res)"
| "scan rule rs re (t # ts) n res =
     (if past_until rule t \<or> count_reached rule n \<or> \<not> tm_before t re then Inl res
      else if \<not> rule_allows rule t then scan rule rs re ts n res
      else
        let res = (if tm_before_or_equal rs t then res @ [format_iso8601 t] else res)
        in if MAX_OCCURRENCES \<le> length res then Inl res else scan rule rs re ts (n + 1) res)"

lemma scan_append:
  "scan rule rs re (xs @ ys) n res =
     (case scan rule rs re xs n res of Inl r \<Rightarrow> Inl r | Inr (n, res) \<Rightarrow> scan rule rs re ys n res)"
  by (induction xs arbitrary: n res) (simp_all add: Let_def)

lemma scan_result:
  assumes "t \<in> set ts" and "\<not> live rule re t" and "length res < MAX_OCCURRENCES"
  shows "scan rule rs re ts n res = Inl (take MAX_OCCURRENCES (res @ map format_iso8601
     (filter (tm_before_or_equal rs)
       (limit_count rule n (filter (rule_allows rule) (takeWhile (live rule re) ts))))))"
  using assms
proof (induction ts arbitrary: n res)
  case (Cons x ts)
  have limit_Cons: "limit_count rule n (y # ys) = (if count_reached rule n then []
      else y # limit_count rule (n + 1) ys)" for y :: tm and ys
  proof (cases "rr_count rule")
    case (Some c)
    have "nat (c - n) = Suc (nat (c - (n + 1)))" if "n < c" using that by linarith
    then show ?thesis using Some by (auto simp: limit_count_def count_reached_def)
  qed (simp add: limit_count_def count_reached_def)
  have limit_reached: "count_reached rule n \<Longrightarrow> limit_count rule n ys = []" for ys :: "tm list"
    by (auto simp: limit_count_def count_reached_def split: option.splits)
  show ?case
  proof (cases "live rule re x \<and> \<not> count_reached rule n")
    case False
    then show ?thesis
      using Cons.prems(3) limit_reached by (auto simp: live_def limit_count_def split: option.splits)
  next
    case True
    then have l: "live rule re x" "\<not> past_until rule x" "tm_before x re" "\<not> count_reached rule n"
      by (auto simp: live_def)
    with Cons.prems have t: "t \<in> set ts" "\<not> live rule re t" by auto
    show ?thesis
    proof (cases "rule_allows rule x")
      case False
      then show ?thesis using l Cons.IH [OF t Cons.prems(3)] by simp
    next
      case allows: True
      define res' where "res' = (if tm_before_or_equal rs x then res @ [format_iso8601 x] else res)"
      show ?thesis
      proof (cases "length res' < MAX_OCCURRENCES")
        case True
        have less: "MAX_OCCURRENCES - length res = Suc (999 - length res)"
          using Cons.prems(3) by simp
        show ?thesis
          using l allows Cons.IH [OF t True, of "n + 1"] True
          by (cases "tm_before_or_equal rs x") (simp_all add: limit_Cons res'_def less)
      next
        case False
        then have "tm_before_or_equal rs x" "length res = 999"
          using Cons.prems(3) by (auto simp: res'_def split: if_splits)
        then show ?thesis
          using l allows by (simp add: limit_Cons)
      qed
    qed
  qed
qed simp

text \<open>Weeks.\<close>

lemma timegm_with_clock:
  assumes "regular start"
  shows "with_clock start (gmtime (timegm start + 86400 * d)) = gmtime (timegm start + 86400 * d)"
proof -
  have "(timegm start + 86400 * d) mod 86400 = timegm start mod 86400" by simp
  then have "tm_hour (gmtime (timegm start + 86400 * d)) = tm_hour (gmtime (timegm start))"
    "tm_min (gmtime (timegm start + 86400 * d)) = tm_min (gmtime (timegm start))"
    "tm_sec (gmtime (timegm start + 86400 * d)) = tm_sec (gmtime (timegm start))"
    by (simp_all only: gmtime_sel)
  then show ?thesis
    using gmtime_timegm [OF assms] by (simp add: with_clock_def)
qed

definition nth_week :: "tm \<Rightarrow> int \<Rightarrow> int \<Rightarrow> tm" where
  "nth_week start interval k =
     gmtime (timegm start + 86400 * (7 * interval * k - (gmtime_wday (timegm start) + 6) mod 7))"

lemma week_candidate_eq:
  assumes "regular start"
  shows "week_candidate start (nth_week start interval k) day = nth_week_day start interval k day"
proof -
  have "timegm (nth_week start interval k) + (wday_num day + 6) mod 7 * 86400
      = timegm start + 86400 * ((wday_num day + 6) mod 7 - (gmtime_wday (timegm start) + 6) mod 7 + 7 * interval * k)"
    by (simp add: nth_week_def algebra_simps)
  then show ?thesis
    unfolding week_candidate_def nth_week_day_def using timegm_with_clock [OF assms] by presburger
qed

lemma nth_week_Suc:
  assumes "regular start"
  shows "with_clock start (gmtime (timegm (nth_week start interval k) + 86400 * 7 * interval))
    = nth_week start interval (k + 1)"
proof -
  have "timegm (nth_week start interval k) + 86400 * 7 * interval
      = timegm start + 86400 * (7 * interval * (k + 1) - (gmtime_wday (timegm start) + 6) mod 7)"
    by (simp add: nth_week_def algebra_simps)
  then show ?thesis
    unfolding nth_week_def [of _ _ "k + 1"] using timegm_with_clock [OF assms] by presburger
qed

lemma monday_of_eq: "regular start \<Longrightarrow> monday_of start = nth_week start interval 0"
  using timegm_with_clock [of start "- ((gmtime_wday (timegm start) + 6) mod 7)"]
  by (simp add: monday_of_def nth_week_def mult.commute)

lemma week_days_scan:
  assumes "regular start" and "by_week rule"
  shows "week_days rule start rs re (nth_week start interval k) days n res =
    scan rule rs re (filter (\<lambda>t. \<not> tm_before t start) (map (nth_week_day start interval k) days)) n res"
  using assms by (induction days arbitrary: n res)
    (auto simp: Let_def week_candidate_eq rule_allows_def)

lemma week_loop_scan:
  assumes "regular start" and "by_week rule"
  shows "week_loop rule start rs re (nth_week start (rr_interval rule) (int k)) n res =
    (case scan rule rs re (filter (\<lambda>t. \<not> tm_before t start)
         (concat (map (\<lambda>k. map (nth_week_day start (rr_interval rule) (int k)) (rr_by_day rule)) [k ..< k + m]))) n res of
       Inl r \<Rightarrow> Some r
     | Inr (n, res) \<Rightarrow> week_loop rule start rs re (nth_week start (rr_interval rule) (int (k + m))) n res)"
proof (induction m arbitrary: k n res)
  case (Suc m)
  have "[k ..< k + Suc m] = k # [Suc k ..< Suc k + m]"
    by (simp add: upt_conv_Cons)
  then show ?case
    using Suc.IH [of "Suc k"] nth_week_Suc [OF assms(1), of "rr_interval rule" "int k"]
    by (subst week_loop.simps)
      (auto simp: week_days_scan [OF assms] scan_append add.commute split: sum.splits prod.splits)
qed simp


text \<open>Steps.\<close>

lemma in_month_sel:
  "tm_year (in_month s y j) = y + j div 12" "tm_mon (in_month s y j) = j mod 12"
  by (simp_all add: in_month_def Let_def)

lemma in_month_clamped:
  assumes "0 \<le> tm_mon t" "tm_mon t < 12" and "tm_hour t = tm_hour s" "tm_min t = tm_min s" "tm_sec t = tm_sec s"
  shows "clamp_day (t\<lparr>tm_mday := tm_mday s\<rparr>) = Some (in_month s (tm_year t) (tm_mon t))"
  using assms by (simp add: clamp_day_regular in_month_def Let_def month_length_def)

lemma in_month_shift: "in_month s (y + j div 12) (j mod 12) = in_month s y j"
  by (simp add: in_month_def)

lemma in_month_clock:
  "tm_hour (in_month s y j) = tm_hour s" "tm_min (in_month s y j) = tm_min s" "tm_sec (in_month s y j) = tm_sec s"
  by (simp_all add: in_month_def Let_def)

lemma clamp_day_keeps:
  assumes "clamp_day t = Some t'"
  shows "tm_year t' = tm_year t \<and> tm_mon t' = tm_mon t \<and> tm_hour t' = tm_hour t \<and> tm_min t' = tm_min t \<and> tm_sec t' = tm_sec t"
  using assms by (auto simp: clamp_day_def split: bind_splits if_splits)

lemma advance_nth_step:
  assumes "regular start" and "1 \<le> rr_interval rule" and "rr_interval rule \<le> i32_max - 11"
    and "tm_year (nth_step start (rr_freq rule) (rr_interval rule) k) + rr_interval rule \<le> i32_max" and "0 \<le> k"
  shows "advance (nth_step start (rr_freq rule) (rr_interval rule) k) (rr_freq rule) (rr_interval rule)
      \<bind> restore_mday rule (tm_mday start) = Some (nth_step start (rr_freq rule) (rr_interval rule) (k + 1))"
proof (cases "rr_freq rule")
  case MONTHLY
  let ?i = "rr_interval rule"
  define j where "j = tm_mon start + ?i * k"
  have j: "0 \<le> j" and m: "0 \<le> tm_mon start" "tm_mon start < 12"
    using assms by (auto simp: j_def day_ok_def)
  define t where "t = in_month start (tm_year start) j"
  have mon: "0 \<le> tm_mon t + ?i" "tm_mon t + ?i \<le> i32_max"
    using assms pos_mod_bound [of 12 j] by (auto simp: t_def in_month_sel intro: add_nonneg_nonneg)
  define c where "c = t\<lparr>tm_year := tm_year t + (tm_mon t + ?i) div 12, tm_mon := (tm_mon t + ?i) mod 12\<rparr>"
  have carry: "carry_months (t\<lparr>tm_mon := tm_mon t + ?i\<rparr>) = c"
    using mon by (simp add: carry_months_nonneg c_def)
  have "j + ?i = (j mod 12 + ?i) + j div 12 * 12" by (simp add: ac_simps)
  then have "(j + ?i) div 12 = j div 12 + (j mod 12 + ?i) div 12" "(j + ?i) mod 12 = (j mod 12 + ?i) mod 12"
    by (metis div_mult_self1 zero_neq_numeral add.commute, metis mod_mult_self1)
  then have c: "tm_year c = tm_year start + (j + ?i) div 12" "tm_mon c = (j + ?i) mod 12"
    by (simp_all add: c_def t_def in_month_sel)
  obtain c' where c': "clamp_day c = Some c'"
    using clamp_day_regular [of c] c by simp
  note keeps = clamp_day_keeps [OF c']
  have "restore_mday rule (tm_mday start) c' = Some (in_month start (tm_year c') (tm_mon c'))"
    using in_month_clamped [of c' start] keeps c MONTHLY
    by (simp add: restore_mday_def) (simp add: c_def t_def in_month_clock)
  also have "\<dots> = Some (in_month start (tm_year start) (j + ?i))"
    using keeps c in_month_shift by simp
  finally have "restore_mday rule (tm_mday start) c' = Some (in_month start (tm_year start) (j + ?i))" .
  moreover have "advance t MONTHLY ?i = Some c'"
    using mon carry c' by simp
  moreover have "j + ?i = tm_mon start + ?i * (k + 1)" by (simp add: j_def algebra_simps)
  then have "nth_step start MONTHLY ?i (k + 1) = in_month start (tm_year start) (j + ?i)"
    by (simp only: nth_step.simps)
  moreover have "nth_step start MONTHLY ?i k = t"
    by (simp only: nth_step.simps t_def j_def)
  ultimately show ?thesis unfolding MONTHLY by simp
next
  case YEARLY
  let ?i = "rr_interval rule"
  have m: "0 \<le> tm_mon start" "tm_mon start < 12" using assms by (auto simp: day_ok_def)
  define t where "t = in_month start (tm_year start + ?i * k) (tm_mon start)"
  have t: "tm_year t = tm_year start + ?i * k" "tm_mon t = tm_mon start"
    using m by (simp_all add: t_def in_month_sel)
  obtain c' where c': "clamp_day (t\<lparr>tm_year := tm_year t + ?i\<rparr>) = Some c'"
    using clamp_day_regular [of "t\<lparr>tm_year := tm_year t + ?i\<rparr>"] t m by simp
  note keeps = clamp_day_keeps [OF c']
  have y: "tm_year t + ?i = tm_year start + ?i * (k + 1)" by (simp add: t algebra_simps)
  have clock: "tm_hour t = tm_hour start" "tm_min t = tm_min start" "tm_sec t = tm_sec start"
    by (simp_all add: t_def in_month_clock)
  have "restore_mday rule (tm_mday start) c' = Some (in_month start (tm_year t + ?i) (tm_mon start))"
    using in_month_clamped [of c' start] keeps t(2) m clock YEARLY by (simp add: restore_mday_def)
  then have "restore_mday rule (tm_mday start) c' = Some (in_month start (tm_year start + ?i * (k + 1)) (tm_mon start))"
    unfolding y .
  moreover have "advance t YEARLY ?i = Some c'"
    using c' assms(4) YEARLY by (simp add: t_def)
  ultimately show ?thesis using YEARLY by (simp add: t_def)
qed (simp_all add: restore_mday_def algebra_simps)

lemma step_loop_scan:
  assumes "regular start" and "\<not> by_week rule" and "1 \<le> rr_interval rule"
    and "rr_interval rule \<le> i32_max - 11" and "tm_year re + rr_interval rule \<le> i32_max"
  shows "step_loop rule rs re (tm_mday start) (nth_step start (rr_freq rule) (rr_interval rule) (int k)) n res =
    (case scan rule rs re (map (\<lambda>k. nth_step start (rr_freq rule) (rr_interval rule) (int k)) [k ..< k + m]) n res of
       Inl r \<Rightarrow> Some r
     | Inr (n, res) \<Rightarrow> step_loop rule rs re (tm_mday start)
         (nth_step start (rr_freq rule) (rr_interval rule) (int (k + m))) n res)"
proof (induction m arbitrary: k n res)
  case (Suc m)
  let ?t = "nth_step start (rr_freq rule) (rr_interval rule) (int k)"
  have upt: "[k ..< k + Suc m] = k # [Suc k ..< Suc k + m]"
    by (simp add: upt_conv_Cons)
  have shift: "k + Suc m = Suc k + m" by simp
  have allows: "matches_by_rules ?t rule = Some (rule_allows rule ?t)"
    using matches_by_rules_regular regular_nth_step assms(1,2) by blast
  have "advance ?t (rr_freq rule) (rr_interval rule) \<bind> restore_mday rule (tm_mday start)
      = Some (nth_step start (rr_freq rule) (rr_interval rule) (int (Suc k)))" if "tm_before ?t re"
  proof -
    have "tm_year ?t \<le> tm_year re" using that by (auto simp: tm_before_code)
    then show ?thesis
      using advance_nth_step [OF assms(1,3,4), of "int k"] assms(5) by (simp add: add.commute)
  qed
  note next_t = this
  show ?case
  proof (cases "past_until rule ?t \<or> count_reached rule n \<or> \<not> tm_before ?t re")
    case True
    then show ?thesis unfolding upt by (subst step_loop.simps) auto
  next
    case False
    then obtain t' where t': "advance ?t (rr_freq rule) (rr_interval rule) = Some t'"
      "restore_mday rule (tm_mday start) t' = Some (nth_step start (rr_freq rule) (rr_interval rule) (int (Suc k)))"
      using next_t by (auto simp: bind_eq_Some_conv)
    show ?thesis
      using False t' allows Suc.IH [of "Suc k"] unfolding upt unfolding shift
      by (subst step_loop.simps) (simp add: Let_def del: upt_Suc)
  qed
qed simp


section \<open>Every expansion ends\<close>

text \<open>Steps after which every candidate is past the end of the range.\<close>

definition horizon :: "tm \<Rightarrow> tm \<Rightarrow> nat" where
  "horizon start re = nat (366 * (tm_year re - tm_year start + 1))"

lemma year_of_days_ge:
  assumes "year_start y \<le> d"
  shows "y \<le> year_of_days d"
proof (rule ccontr)
  assume "\<not> y \<le> year_of_days d"
  then have "year_start (year_of_days d + 1) \<le> year_start y"
    using year_start_mono [of "year_of_days d + 1" y] by simp
  then show False using year_of_days_bounds [of d] assms by linarith
qed

lemma past_range:
  assumes "tm_year re < tm_year t"
  shows "\<not> tm_before t re"
  using assms by (simp add: tm_before_def)

lemma horizon_days:
  assumes "regular start"
  shows "year_start (tm_year re + 1901) \<le> tm_days start + int (horizon start re)"
proof -
  have s: "year_start (tm_year start + 1900) \<le> tm_days start"
    using tm_days_year_bounds assms by blast
  show ?thesis
  proof (cases "tm_year start \<le> tm_year re + 1")
    case True
    then have "year_start (tm_year re + 1901) \<le> year_start (tm_year start + 1900)
        + 366 * (tm_year re - tm_year start + 1)"
      using year_start_le [of "tm_year start + 1900" "tm_year re + 1901"] by (simp add: algebra_simps)
    then show ?thesis using True s by (simp add: horizon_def)
  next
    case False
    then have "year_start (tm_year re + 1901) \<le> year_start (tm_year start + 1900)"
      using year_start_mono [of "tm_year re + 1901" "tm_year start + 1900"] by simp
    then show ?thesis using s by linarith
  qed
qed

lemma timegm_div: "regular t \<Longrightarrow> timegm t div 86400 = tm_days t"
  using gmtime_days [of "timegm t"] gmtime_timegm [of t] by simp

lemma gmtime_past_range:
  assumes "regular start" and "int (horizon start re) \<le> j"
  shows "tm_year re < tm_year (gmtime (timegm start + 86400 * j))"
proof -
  have "(timegm start + 86400 * j) div 86400 = tm_days start + j"
    using timegm_div [OF assms(1)] by simp
  then have "tm_year (gmtime (timegm start + 86400 * j)) = year_of_days (tm_days start + j) - 1900"
    by (simp only: gmtime_sel)
  moreover have "year_start (tm_year re + 1901) \<le> tm_days start + j"
    using horizon_days [OF assms(1), of re] assms(2) by linarith
  then have "tm_year re + 1901 \<le> year_of_days (tm_days start + j)"
    by (rule year_of_days_ge)
  ultimately show ?thesis by linarith
qed

lemma step_past_range:
  assumes "regular start" and "1 \<le> i" and "int (horizon start re) \<le> k"
  shows "tm_year re < tm_year (nth_step start f i k)"
proof (cases f)
  case DAILY
  have "k \<le> i * k" using assms mult_right_mono [of 1 i k] by simp
  then show ?thesis
    using gmtime_past_range [OF assms(1), of re "i * k"] assms(3) DAILY by (simp add: mult.assoc)
next
  case WEEKLY
  have "k \<le> 7 * (i * k)" using assms mult_right_mono [of 1 i k] by simp
  then show ?thesis
    using gmtime_past_range [OF assms(1), of re "7 * (i * k)"] assms(3) WEEKLY by (simp add: mult.assoc)
next
  case MONTHLY
  have h: "366 * (tm_year re - tm_year start + 1) \<le> k" "0 \<le> k"
    using assms(3) by (simp_all add: horizon_def split: if_splits)
  then have "12 * (tm_year re - tm_year start + 1) \<le> k" by linarith
  then have "12 * (tm_year re - tm_year start + 1) div 12 \<le> k div 12" by (rule zdiv_mono1) simp
  then have k: "k \<le> i * k" "tm_year re - tm_year start + 1 \<le> k div 12"
    using assms(2) h mult_right_mono [of 1 i k] by simp_all
  have "k div 12 \<le> (tm_mon start + i * k) div 12"
    using k h assms(1) by (intro zdiv_mono1) (auto simp: day_ok_def)
  then show ?thesis using k MONTHLY by (simp add: in_month_sel)
next
  case YEARLY
  have h: "366 * (tm_year re - tm_year start + 1) \<le> k" "0 \<le> k"
    using assms(3) by (simp_all add: horizon_def split: if_splits)
  then have "k \<le> i * k" using assms(2) mult_right_mono [of 1 i k] by simp
  moreover have "x \<le> k" if "366 * x \<le> k" "0 \<le> k" for x :: int using that by linarith
  then have "tm_year re - tm_year start + 1 \<le> k" using h by blast
  moreover have "0 \<le> tm_mon start div 12"
    using assms(1) by (auto simp: day_ok_def pos_imp_zdiv_nonneg_iff)
  ultimately show ?thesis using YEARLY by (simp add: in_month_sel)
qed

lemma week_day_past_range:
  assumes "regular start" and "1 \<le> i" and "int (horizon start re) < k"
  shows "tm_year re < tm_year (nth_week_day start i k day)" "\<not> tm_before (nth_week_day start i k day) start"
proof -
  have k: "1 \<le> k" "k \<le> i * k" using assms mult_right_mono [of 1 i k] by auto
  have mods: "0 \<le> (wday_num day + 6) mod 7" "(gmtime_wday (timegm start) + 6) mod 7 \<le> 6"
    using pos_mod_bound [of 7 "gmtime_wday (timegm start) + 6"] by simp_all
  define j where "j = (wday_num day + 6) mod 7 - (gmtime_wday (timegm start) + 6) mod 7 + 7 * i * k"
  have j: "k \<le> j" using k mods unfolding j_def mult.assoc by linarith
  have eq: "nth_week_day start i k day = gmtime (timegm start + 86400 * j)"
    by (simp add: nth_week_day_def j_def)
  show "tm_year re < tm_year (nth_week_day start i k day)"
    unfolding eq using j assms(3) by (intro gmtime_past_range [OF assms(1)]) simp
  have "timegm start \<le> timegm start + 86400 * j" using j k by simp
  then show "\<not> tm_before (nth_week_day start i k day) start"
    unfolding eq using tm_before_iff_timegm [of "gmtime (timegm start + 86400 * j)" start] assms(1) by simp
qed

lemma candidates_past_range:
  assumes "regular start" and "1 \<le> rr_interval rule" and "horizon start re + 2 \<le> n"
  shows "\<exists>t \<in> set (candidates rule start n). \<not> live rule re t"
proof (cases "by_week rule")
  case True
  define t where "t = nth_week_day start (rr_interval rule) (int (Suc (horizon start re))) (hd (rr_by_day rule))"
  have "\<not> tm_before t start" "\<not> live rule re t"
    using week_day_past_range [OF assms(1,2), of re "int (Suc (horizon start re))"]
    by (auto simp: t_def live_def past_range)
  moreover have "t \<in> set (candidates rule start n)"
    using True assms(3) calculation(1)
    by (auto simp: candidates_def t_def intro!: bexI [of _ "Suc (horizon start re)"] imageI)
  ultimately show ?thesis by blast
next
  case False
  define t where "t = nth_step start (rr_freq rule) (rr_interval rule) (int (horizon start re))"
  have "\<not> live rule re t"
    using step_past_range [OF assms(1,2), of re "int (horizon start re)"]
    by (auto simp: t_def live_def past_range)
  moreover have "t \<in> set (candidates rule start n)"
    using False assms(3) by (auto simp: candidates_def t_def)
  ultimately show ?thesis by blast
qed

lemma substr_4_bound:
  assumes "c < 10000" and "- 10000 < c"
  shows "safe_stoi (substr s 0 4) c < 10000 \<and> - 10000 < safe_stoi (substr s 0 4) c"
proof -
  have v: "foldl (\<lambda>a c. 10 * a + (code_of c - 48)) a ds + 1 \<le> 10 ^ length ds * (a + 1)"
    if "list_all is_digit ds" for ds a
    using that
  proof (induction ds arbitrary: a)
    case (Cons d ds)
    then have "code_of d - 48 \<le> 9" by (auto simp: is_digit_def)
    then have "10 ^ length ds * (10 * a + (code_of d - 48) + 1) \<le> 10 ^ length ds * (10 * (a + 1))"
      by (intro mult_le_mono2) simp
    then show ?case using Cons.IH [of "10 * a + (code_of d - 48)"] Cons.prems by (simp add: algebra_simps)
  qed simp
  have d: "digits_val (takeWhile is_digit t) < 10000" if "length t \<le> 4" for t
  proof -
    have "list_all is_digit (takeWhile is_digit t)" by (auto simp: list_all_iff dest: set_takeWhileD)
    then have "digits_val (takeWhile is_digit t) + 1 \<le> 10 ^ length (takeWhile is_digit t)"
      using v [of "takeWhile is_digit t" 0] by (simp add: digits_val_def)
    also have "\<dots> \<le> 10 ^ 4"
      using that length_takeWhile_le [of is_digit t] by (intro power_increasing) auto
    finally show ?thesis by simp
  qed
  have l: "length (substr s 0 4) \<le> 4" "length (tl (substr s 0 4)) \<le> 4" by (simp_all add: substr_def)
  show ?thesis
    using assms d [OF l(1)] d [OF l(2)]
    by (auto simp: safe_stoi_def from_chars_def Let_def split: sum.splits prod.splits if_splits list.splits)
qed

lemma parse_iso8601_year: "tm_year (parse_iso8601 s) < 8100"
  using substr_4_bound [of 1970 s] by (simp add: parse_iso8601_def Let_def)


section \<open>Properties\<close>

lemma parse_rrule_interval: "1 \<le> rr_interval (parse_rrule s)"
proof -
  have part: "1 \<le> rr_interval (rule_part r p)" if "1 \<le> rr_interval r" for r p
    using that by (simp add: rule_part_def Let_def)
  have "1 \<le> rr_interval (foldl rule_part r ps)" if "1 \<le> rr_interval r" for r ps
    using that part by (induction ps arbitrary: r) auto
  then show ?thesis by (simp add: parse_rrule_def default_rrule_def Let_def)
qed

lemma expand_rrule_result:
  assumes "regular (parse_iso8601 dtstart)" and "rr_interval (parse_rrule s) \<le> 2147475000"
    and "horizon (parse_iso8601 dtstart) (parse_iso8601 range_end) + 2 \<le> n"
  shows "expand_rrule (parse_rrule s) dtstart range_start range_end =
    Some (map format_iso8601 (chosen (parse_rrule s) (parse_iso8601 range_start) (parse_iso8601 range_end)
      (candidates (parse_rrule s) (parse_iso8601 dtstart) n)))"
proof -
  define rule start rs re where "rule = parse_rrule s" and "start = parse_iso8601 dtstart"
    and "rs = parse_iso8601 range_start" and "re = parse_iso8601 range_end"
  note defs = rule_def start_def rs_def re_def
  have interval: "1 \<le> rr_interval rule" by (simp add: rule_def parse_rrule_interval)
  have year: "tm_year re < 8100" by (simp add: re_def parse_iso8601_year)
  have reg: "regular start" using assms(1) by (simp add: start_def)
  obtain t where t: "t \<in> set (candidates rule start n)" "\<not> live rule re t"
    using candidates_past_range [OF reg interval, of re n] assms(3) by (auto simp: defs)
  have result: "scan rule rs re (candidates rule start n) 0 [] =
      Inl (map format_iso8601 (chosen rule rs re (candidates rule start n)))"
    using scan_result [OF t, of "[]" rs 0] by (simp add: chosen_def take_map)
  have "expand_rrule rule dtstart range_start range_end =
      Some (map format_iso8601 (chosen rule rs re (candidates rule start n)))"
  proof (cases "by_week rule")
    case True
    have "expand_rrule rule dtstart range_start range_end = week_loop rule start rs re (nth_week start (rr_interval rule) 0) 0 []"
      using True monday_of_eq [OF reg] by (simp add: expand_rrule_def defs [symmetric] Let_def)
    then show ?thesis
      using week_loop_scan [OF reg True, of rs re 0 0 "[]" n] result True
      by (simp add: candidates_def)
  next
    case False
    have "expand_rrule rule dtstart range_start range_end = step_loop rule rs re (tm_mday start)
        (nth_step start (rr_freq rule) (rr_interval rule) 0) 0 []"
      using False nth_step_0 [OF reg] by (auto simp: expand_rrule_def defs [symmetric] Let_def)
    moreover have "rr_interval rule \<le> i32_max - 11" "tm_year re + rr_interval rule \<le> i32_max"
      using assms(2) year by (simp_all add: rule_def)
    moreover have "candidates rule start n
        = map (\<lambda>k. nth_step start (rr_freq rule) (rr_interval rule) (int k)) [0 ..< n]"
      unfolding candidates_def using False by (simp only: if_False)
    ultimately show ?thesis
      using step_loop_scan [OF reg False interval, of re rs 0 0 "[]" n] result by simp
  qed
  then show ?thesis by (simp add: defs)
qed



text \<open>
  BYDAY is visited in the order in which it is written, and the first day past the range ends the
  expansion: written out of order, days before it in the same week are lost. Here the event itself,
  on Monday 2026-03-02, is missing from the range that contains it.
\<close>

theorem byday_order_loses_occurrences:
  "expand_rrule (parse_rrule ''FREQ=WEEKLY;BYDAY=FR,MO'') ''2026-03-02T09:00:00Z''
     ''2026-03-02T00:00:00Z'' ''2026-03-04T00:00:00Z'' = Some []
   \<and> expand_rrule (parse_rrule ''FREQ=WEEKLY;BYDAY=MO,FR'') ''2026-03-02T09:00:00Z''
     ''2026-03-02T00:00:00Z'' ''2026-03-04T00:00:00Z'' = Some [''2026-03-02T09:00:00Z'']"
  by code_simp


section \<open>Order and completeness\<close>

definition week_ordered :: "weekday list \<Rightarrow> bool" where
  "week_ordered ds \<longleftrightarrow> sorted_wrt (\<lambda>a b. (wday_num a + 6) mod 7 < (wday_num b + 6) mod 7) ds"

lemma nth_step_less:
  assumes "regular start" and "1 \<le> i" and "k < l"
  shows "tm_before (nth_step start f i k) (nth_step start f i l)"
proof -
  have less: "i * k < i * l" using assms(2,3) by simp
  show ?thesis
  proof (cases f)
    case MONTHLY
    let ?a = "tm_mon start + i * k" and ?b = "tm_mon start + i * l"
    have "?a div 12 < ?b div 12 \<or> ?a div 12 = ?b div 12 \<and> ?a mod 12 < ?b mod 12"
      using less zdiv_mono1 [of ?a ?b 12] mult_div_mod_eq [of 12 ?a] mult_div_mod_eq [of 12 ?b] by linarith
    then show ?thesis using MONTHLY by (auto simp: tm_before_code in_month_sel)
  next
    case YEARLY
    then show ?thesis using less by (simp add: tm_before_code in_month_sel)
  qed (use less in \<open>simp_all add: tm_before_iff_timegm mult.assoc\<close>)
qed

lemma nth_week_day_less:
  assumes "1 \<le> i" and "k < l \<or> k = l \<and> (wday_num a + 6) mod 7 < (wday_num b + 6) mod 7"
  shows "tm_before (nth_week_day start i k a) (nth_week_day start i l b)"
proof -
  have mods: "0 \<le> (wday_num b + 6) mod 7" "(wday_num a + 6) mod 7 < 7" by simp_all
  have "(wday_num a + 6) mod 7 + 7 * i * k < (wday_num b + 6) mod 7 + 7 * i * l"
    using assms(2)
  proof
    assume "k < l"
    then have "1 * (k + 1) \<le> l" by simp
    then have "i * (k + 1) \<le> i * l" using assms(1) by simp
    then have "i * k + 1 \<le> i * l" using assms(1) by (simp add: algebra_simps)
    then show ?thesis using mods unfolding mult.assoc by linarith
  qed simp
  then show ?thesis by (simp add: nth_week_day_def tm_before_iff_timegm)
qed

lemma sorted_wrt_concat:
  assumes "\<And>k. sorted_wrt P (f k)" and "\<And>k l x y. k < l \<Longrightarrow> x \<in> set (f k) \<Longrightarrow> y \<in> set (f l) \<Longrightarrow> P x y"
  shows "sorted_wrt P (concat (map f [0 ..< n]))"
  using assms by (induction n) (auto simp: sorted_wrt_append)

lemma candidates_sorted:
  assumes "regular start" and "1 \<le> rr_interval rule" and "by_week rule \<Longrightarrow> week_ordered (rr_by_day rule)"
  shows "sorted_wrt tm_before (candidates rule start n)"
proof (cases "by_week rule")
  case True
  have "sorted_wrt tm_before (map (nth_week_day start (rr_interval rule) k) (rr_by_day rule))" for k
    using assms(3) [OF True] nth_week_day_less [OF assms(2)]
    by (auto simp: week_ordered_def sorted_wrt_map elim!: sorted_wrt_mono_rel [rotated])
  then show ?thesis
    using True nth_week_day_less [OF assms(2)]
    by (auto simp: candidates_def intro!: sorted_wrt_filter sorted_wrt_concat)
next
  case False
  have "candidates rule start n
      = map (\<lambda>k. nth_step start (rr_freq rule) (rr_interval rule) (int k)) [0 ..< n]"
    unfolding candidates_def using False by (simp only: if_False)
  then show ?thesis
    using nth_step_less [OF assms(1,2)] by (simp add: sorted_wrt_map sorted_wrt_iff_nth_less)
qed

lemma candidates_regular:
  assumes "regular start" and "1 \<le> rr_interval rule" and "t \<in> set (candidates rule start n)"
  shows "regular t \<and> \<not> tm_before t start"
proof (cases "by_week rule")
  case True
  then show ?thesis using assms(3) by (auto simp: candidates_def nth_week_day_def)
next
  case False
  then obtain k where t: "t = nth_step start (rr_freq rule) (rr_interval rule) (int k)"
    using assms(3) by (auto simp: candidates_def)
  have "t = start \<or> tm_before start t"
    using nth_step_less [OF assms(1,2), of 0 "int k" "rr_freq rule"] nth_step_0 [OF assms(1)] t
    by (cases "k = 0") auto
  then have "\<not> tm_before t start"
    using tm_before_irrefl [of start] tm_before_trans [of t start t] tm_before_irrefl [of t] by blast
  then show ?thesis
    using regular_nth_step [OF assms(1)] t by simp
qed

lemma live_downward: "live rule re t \<Longrightarrow> tm_before s t \<Longrightarrow> live rule re s"
  by (auto simp: live_def past_until_def intro: tm_before_trans split: option.splits)

lemma takeWhile_sorted:
  assumes "sorted_wrt P xs" and "\<And>x y. P x y \<Longrightarrow> Q y \<Longrightarrow> Q x"
  shows "takeWhile Q xs = filter Q xs"
  using assms(1)
proof (induction xs)
  case (Cons x xs)
  then have "filter Q xs = []" if "\<not> Q x"
    using that assms(2) [of x] by (simp add: filter_empty_conv) blast
  with Cons show ?case by auto
qed simp

lemma candidates_prefix: "\<exists>ys. candidates rule start (m + n) = candidates rule start m @ ys"
proof -
  have upt: "[0 ..< m + n] = [0 ..< m] @ [m ..< m + n]" by (rule upt_add_eq_append) simp
  show ?thesis
  proof (cases "by_week rule")
    case True
    show ?thesis unfolding candidates_def upt if_P [OF True] map_append concat_append filter_append by blast
  next
    case False
    show ?thesis unfolding candidates_def upt if_not_P [OF False] map_append by blast
  qed
qed

lemma chosen_extend:
  assumes "\<exists>t \<in> set (candidates rule start m). \<not> live rule re t"
  shows "chosen rule rs re (candidates rule start (m + n)) = chosen rule rs re (candidates rule start m)"
proof -
  obtain ys where "candidates rule start (m + n) = candidates rule start m @ ys"
    using candidates_prefix by blast
  moreover have "takeWhile (live rule re) (candidates rule start m @ ys) = takeWhile (live rule re) (candidates rule start m)"
    using assms by (meson takeWhile_append1)
  ultimately show ?thesis by (simp only: chosen_def)
qed

lemma set_limit_count: "set (limit_count rule n xs) \<subseteq> set xs"
  by (auto simp: limit_count_def dest: in_set_takeD split: option.splits)

lemma sorted_chosen: "sorted_wrt P ts \<Longrightarrow> sorted_wrt P (chosen rule rs re ts)"
proof -
  assume "sorted_wrt P ts"
  then have "sorted_wrt P (takeWhile Q ts)" for Q
    by (subst takeWhile_eq_take) (rule sorted_wrt_take)
  then show "sorted_wrt P (chosen rule rs re ts)"
    unfolding chosen_def limit_count_def
    by (cases "rr_count rule") (simp_all add: sorted_wrt_take sorted_wrt_filter)
qed

lemma set_chosen:
  "t \<in> set (chosen rule rs re ts) \<Longrightarrow>
     t \<in> set ts \<and> live rule re t \<and> rule_allows rule t \<and> tm_before_or_equal rs t"
  using set_limit_count [of rule 0 "filter (rule_allows rule) (takeWhile (live rule re) ts)"]
  by (auto simp: chosen_def dest!: in_set_takeD dest: set_takeWhileD)



end
