(* ===== verification/Messages.thy ===== *)
theory Messages
  imports Access
begin

text \<open>
  Messages, reactions, mentions, notifications and read states: the \<open>Database\<close> methods of
  \<open>db/database.cpp\<close> that the WebSocket handlers call.
\<close>

section \<open>Messages\<close>

text \<open>
  What \<open>row_to_message\<close> gives the program for a row: the columns and the joined values of
  \<open>MSG_COLS\<close>. \<open>left200\<close> is PostgreSQL's \<open>LEFT(_, 200)\<close>, which counts code points.
\<close>

record message_view =
  mv_row :: message
  mv_username :: string
  mv_reply_username :: string
  mv_reply_content :: string
  mv_reply_is_deleted :: bool

definition find_message :: "db \<Rightarrow> string \<Rightarrow> message option" where
  "find_message d i = first_row (filter (\<lambda>m. m_id m = i) (messages d))"

definition username_of :: "db \<Rightarrow> string \<Rightarrow> string" where
  "username_of d i = (case find_user_by_id d i of Some u \<Rightarrow> u_username u | None \<Rightarrow> '''')"

definition row_to_message :: "(string \<Rightarrow> string) \<Rightarrow> db \<Rightarrow> message \<Rightarrow> message_view" where
  "row_to_message left200 d m =
     (let reply = (if m_reply_to m = [] then None else find_message d (m_reply_to m))
      in \<lparr>mv_row = m, mv_username = username_of d (m_user_id m),
          mv_reply_username = (case reply of Some r \<Rightarrow> username_of d (m_user_id r) | None \<Rightarrow> ''''),
          mv_reply_content = (case reply of Some r \<Rightarrow> left200 (m_content r) | None \<Rightarrow> ''''),
          mv_reply_is_deleted = (case reply of Some r \<Rightarrow> m_is_deleted r | None \<Rightarrow> False)\<rparr>)"

definition insert_message :: "(string \<Rightarrow> string) \<Rightarrow> db \<Rightarrow> message \<Rightarrow> db_error + message_view \<times> db" where
  "insert_message left200 d m =
     (if has_key m_id (m_id m) (messages d) then Inl UniqueViolation
      else if \<not> (has_key ch_id (m_channel_id m) (channels d) \<and> has_key u_id (m_user_id m) (users d)
                 \<and> ref_ok m_id (m_reply_to m) (messages d))
      then Inl ForeignKeyViolation
      else Inr (row_to_message left200 d m, d\<lparr>messages := messages d @ [m]\<rparr>))"

definition create_message ::
  "(string \<Rightarrow> string) \<Rightarrow> db \<Rightarrow> string \<Rightarrow> time \<Rightarrow> string \<Rightarrow> string \<Rightarrow> string \<Rightarrow> string
     \<Rightarrow> db_error + message_view \<times> db" where
  "create_message left200 d new_id now channel_id user_id content reply_to =
     insert_message left200 d
       \<lparr>m_id = new_id, m_channel_id = channel_id, m_user_id = user_id, m_content = content,
        m_created_at = now, m_edited_at = None, m_is_deleted = False, m_file_id = '''',
        m_file_name = '''', m_file_size = 0, m_file_type = '''', m_reply_to = reply_to,
        m_is_ai_assisted = False\<rparr>"

definition create_message_ai ::
  "(string \<Rightarrow> string) \<Rightarrow> db \<Rightarrow> string \<Rightarrow> time \<Rightarrow> string \<Rightarrow> string \<Rightarrow> string \<Rightarrow> string \<Rightarrow> bool
     \<Rightarrow> db_error + message_view \<times> db" where
  "create_message_ai left200 d new_id now channel_id user_id content reply_to is_ai_assisted =
     insert_message left200 d
       \<lparr>m_id = new_id, m_channel_id = channel_id, m_user_id = user_id, m_content = content,
        m_created_at = now, m_edited_at = None, m_is_deleted = False, m_file_id = '''',
        m_file_name = '''', m_file_size = 0, m_file_type = '''', m_reply_to = reply_to,
        m_is_ai_assisted = is_ai_assisted\<rparr>"

definition create_file_message ::
  "(string \<Rightarrow> string) \<Rightarrow> db \<Rightarrow> string \<Rightarrow> time \<Rightarrow> string \<Rightarrow> string \<Rightarrow> string \<Rightarrow> string \<Rightarrow> string
     \<Rightarrow> int \<Rightarrow> string \<Rightarrow> db_error + message_view \<times> db" where
  "create_file_message left200 d new_id now channel_id user_id content file_id file_name
     file_size file_type =
     insert_message left200 d
       \<lparr>m_id = new_id, m_channel_id = channel_id, m_user_id = user_id, m_content = content,
        m_created_at = now, m_edited_at = None, m_is_deleted = False, m_file_id = file_id,
        m_file_name = file_name, m_file_size = file_size, m_file_type = file_type,
        m_reply_to = '''', m_is_ai_assisted = False\<rparr>"

text \<open>
  \<open>UPDATE messages SET \<dots> WHERE \<dots> RETURNING\<close>: the first updated row, or the exception the caller
  throws when there is none.
\<close>

definition update_messages ::
  "(string \<Rightarrow> string) \<Rightarrow> db \<Rightarrow> (message \<Rightarrow> bool) \<Rightarrow> (message \<Rightarrow> message) \<Rightarrow> string
     \<Rightarrow> db_error + message_view \<times> db" where
  "update_messages left200 d p f err =
     (case first_row (filter p (messages d)) of
        None \<Rightarrow> Inl (Runtime err)
      | Some m \<Rightarrow> Inr (row_to_message left200 d (f m),
                      d\<lparr>messages := map (\<lambda>m. if p m then f m else m) (messages d)\<rparr>))"

definition edit_message ::
  "(string \<Rightarrow> string) \<Rightarrow> db \<Rightarrow> time \<Rightarrow> string \<Rightarrow> string \<Rightarrow> string \<Rightarrow> db_error + message_view \<times> db" where
  "edit_message left200 d now message_id user_id new_content =
     update_messages left200 d
       (\<lambda>m. m_id m = message_id \<and> m_user_id m = user_id \<and> \<not> m_is_deleted m)
       (\<lambda>m. m\<lparr>m_content := new_content, m_edited_at := Some now\<rparr>)
       ''Message not found or not owned by user''"

definition delete_message ::
  "(string \<Rightarrow> string) \<Rightarrow> db \<Rightarrow> string \<Rightarrow> string \<Rightarrow> db_error + message_view \<times> db" where
  "delete_message left200 d message_id user_id =
     update_messages left200 d
       (\<lambda>m. m_id m = message_id \<and> m_user_id m = user_id)
       (\<lambda>m. m\<lparr>m_is_deleted := True, m_content := ''''\<rparr>)
       ''Message not found or not owned by user''"

definition admin_delete_message ::
  "(string \<Rightarrow> string) \<Rightarrow> db \<Rightarrow> string \<Rightarrow> db_error + message_view \<times> db" where
  "admin_delete_message left200 d message_id =
     update_messages left200 d (\<lambda>m. m_id m = message_id)
       (\<lambda>m. m\<lparr>m_is_deleted := True, m_content := ''''\<rparr>) ''Message not found''"

text \<open>The channel and the author of a message.\<close>

definition get_message_ownership :: "db \<Rightarrow> string \<Rightarrow> (string \<times> string) option" where
  "get_message_ownership d i = map_option (\<lambda>m. (m_channel_id m, m_user_id m)) (find_message d i)"

definition get_message_channel_id :: "db \<Rightarrow> string \<Rightarrow> db_error + string" where
  "get_message_channel_id d i =
     (case find_message d i of None \<Rightarrow> Inl (Runtime ''Message not found'')
      | Some m \<Rightarrow> Inr (m_channel_id m))"

section \<open>Reactions\<close>

definition add_reaction :: "db \<Rightarrow> time \<Rightarrow> string \<Rightarrow> string \<Rightarrow> string \<Rightarrow> db_error + db" where
  "add_reaction d now message_id user_id emoji =
     (if list_ex (\<lambda>r. re_message_id r = message_id \<and> re_user_id r = user_id \<and> re_emoji r = emoji)
           (reactions d)
      then Inr d
      else if has_key m_id message_id (messages d) \<and> has_key u_id user_id (users d)
      then Inr (d\<lparr>reactions := reactions d @
             [\<lparr>re_message_id = message_id, re_user_id = user_id, re_emoji = emoji, re_created_at = now\<rparr>]\<rparr>)
      else Inl ForeignKeyViolation)"

definition remove_reaction :: "db \<Rightarrow> string \<Rightarrow> string \<Rightarrow> string \<Rightarrow> db" where
  "remove_reaction d message_id user_id emoji =
     d\<lparr>reactions := filter (\<lambda>r. \<not> (re_message_id r = message_id \<and> re_user_id r = user_id
        \<and> re_emoji r = emoji)) (reactions d)\<rparr>"

text \<open>Each reaction with the name of who made it; the join drops none, by the foreign key.\<close>

definition get_reactions :: "db \<Rightarrow> string \<Rightarrow> (string \<times> string \<times> string) list" where
  "get_reactions d message_id =
     map (\<lambda>r. (re_emoji r, re_user_id r, username_of d (re_user_id r)))
       (sort_key re_created_at
         (filter (\<lambda>r. re_message_id r = message_id \<and> has_key u_id (re_user_id r) (users d)) (reactions d)))"

section \<open>Read states\<close>

text \<open>
  The upsert keeps the later of the two times and, with it, its message id; the mentions up to
  the read point are cleared.
\<close>

definition update_read_state :: "db \<Rightarrow> string \<Rightarrow> string \<Rightarrow> string \<Rightarrow> time \<Rightarrow> db_error + db" where
  "update_read_state d channel_id user_id message_id timestamp =
     (let same = (\<lambda>r. rs_channel_id r = channel_id \<and> rs_user_id r = user_id);
          up = (\<lambda>r. r\<lparr>rs_last_read_at := max (rs_last_read_at r) timestamp,
                      rs_last_read_message_id :=
                        (if timestamp > rs_last_read_at r then message_id
                         else rs_last_read_message_id r)\<rparr>);
          clear = (\<lambda>d. d\<lparr>mentions := filter (\<lambda>me. \<not> (me_channel_id me = channel_id
                     \<and> me_mentioned_user_id me = user_id
                     \<and> list_ex (\<lambda>m. m_id m = me_message_id me \<and> m_channel_id m = channel_id
                          \<and> m_created_at m \<le> timestamp) (messages d))) (mentions d)\<rparr>)
      in if list_ex same (read_states d)
         then Inr (clear (d\<lparr>read_states := map (\<lambda>r. if same r then up r else r) (read_states d)\<rparr>))
         else if has_key ch_id channel_id (channels d) \<and> has_key u_id user_id (users d)
         then Inr (clear (d\<lparr>read_states := read_states d @
                [\<lparr>rs_channel_id = channel_id, rs_user_id = user_id, rs_last_read_at = timestamp,
                  rs_last_read_message_id = message_id\<rparr>]\<rparr>))
         else Inl ForeignKeyViolation)"

section \<open>Mentions\<close>

text \<open>
  The scan that \<open>parse_mentions\<close> and \<open>store_mentions\<close> share: after each \<open>@\<close>, the longest run of
  letters, digits, underscores and dashes.
\<close>

definition mention_char :: "char \<Rightarrow> bool" where
  "mention_char c \<longleftrightarrow> is_alnum c \<or> c = CHR ''_'' \<or> c = CHR ''-''"

function mention_tokens :: "string \<Rightarrow> string list" where
  "mention_tokens s =
     (case dropWhile (\<lambda>c. c \<noteq> CHR ''@'') s of
        [] \<Rightarrow> []
      | _ # r \<Rightarrow>
          (let tok = takeWhile mention_char r
           in if tok = [] then mention_tokens (dropWhile mention_char r)
              else tok # mention_tokens (dropWhile mention_char r)))"
  by pat_completeness auto

lemma mention_scan_shorter:
  "dropWhile p s = c # r \<Longrightarrow> length (dropWhile q r) < length s"
proof -
  assume "dropWhile p s = c # r"
  then have "Suc (length r) \<le> length s" by (metis length_Cons length_dropWhile_le)
  then show ?thesis using length_dropWhile_le [of q r] by linarith
qed

termination mention_tokens
  by (relation "measure length") (auto dest: mention_scan_shorter)

declare mention_tokens.simps [simp del]

text \<open>A member is its user id and name. \<open>"@channel"\<close> stands for everyone.\<close>

type_synonym member = "string \<times> string"

definition get_channel_member_usernames :: "db \<Rightarrow> string \<Rightarrow> member list" where
  "get_channel_member_usernames d channel_id =
     concat (map (\<lambda>cm. map (\<lambda>u. (cm_user_id cm, u_username u))
                          (filter (\<lambda>u. u_id u = cm_user_id cm) (users d)))
       (filter (\<lambda>cm. cm_channel_id cm = channel_id) (channel_members d)))"

definition parse_mentions :: "string \<Rightarrow> member list \<Rightarrow> string list" where
  "parse_mentions content members =
     concat (map (\<lambda>token.
        if token = ''channel'' then [''@channel'']
        else if list_ex (\<lambda>m. snd m = token) members then [token] else [])
       (mention_tokens content))"

definition mention_row :: "string \<Rightarrow> string \<Rightarrow> string \<Rightarrow> bool \<Rightarrow> mention" where
  "mention_row message_id channel_id user_id everyone =
     \<lparr>me_message_id = message_id, me_channel_id = channel_id, me_mentioned_user_id = user_id,
      me_is_channel_mention = everyone\<rparr>"

text \<open>
  The rows \<open>store_mentions\<close> inserts. Its \<open>ON CONFLICT DO NOTHING\<close> has no constraint to act on: the
  table's only key is the generated id.
\<close>

definition mention_rows :: "string \<Rightarrow> string \<Rightarrow> string \<Rightarrow> member list \<Rightarrow> string \<Rightarrow> mention list" where
  "mention_rows message_id channel_id content members sender =
     (let tokens = mention_tokens content in
      concat (map (\<lambda>token.
        if token = ''channel'' then []
        else case first_row (filter (\<lambda>m. snd m = token \<and> fst m \<noteq> sender) members) of
               Some m \<Rightarrow> [mention_row message_id channel_id (fst m) False]
             | None \<Rightarrow> []) tokens)
      @ (if ''channel'' \<in> set tokens
         then map (\<lambda>m. mention_row message_id channel_id (fst m) True)
                (filter (\<lambda>m. fst m \<noteq> sender) members)
         else []))"

definition store_mentions ::
  "db \<Rightarrow> string \<Rightarrow> string \<Rightarrow> string \<Rightarrow> member list \<Rightarrow> string \<Rightarrow> db_error + db" where
  "store_mentions d message_id channel_id content members sender =
     (let rows = mention_rows message_id channel_id content members sender in
      if list_all (\<lambda>r. has_key m_id (me_message_id r) (messages d)
           \<and> has_key u_id (me_mentioned_user_id r) (users d)) rows
      then Inr (d\<lparr>mentions := mentions d @ rows\<rparr>)
      else Inl ForeignKeyViolation)"

section \<open>Notifications\<close>

text \<open>
  \<open>encodable\<close> says whether PostgreSQL accepts the text: a UTF-8 database refuses any other bytes.
\<close>

definition create_notification ::
  "(string \<Rightarrow> bool) \<Rightarrow> db \<Rightarrow> string \<Rightarrow> time \<Rightarrow> string \<Rightarrow> string \<Rightarrow> string \<Rightarrow> string \<Rightarrow> string \<Rightarrow> string
     \<Rightarrow> db_error + string \<times> db" where
  "create_notification encodable d new_id now user_id type source_user_id channel_id message_id content =
     (if \<not> encodable content then Inl (Runtime ''invalid byte sequence for encoding'')
      else if \<not> (has_key u_id user_id (users d) \<and> ref_ok u_id source_user_id (users d)
                 \<and> ref_ok ch_id channel_id (channels d))
      then Inl ForeignKeyViolation
      else Inr (new_id, d\<lparr>notifications := notifications d @
        [\<lparr>nt_id = new_id, nt_user_id = user_id, nt_type = type, nt_source_user_id = source_user_id,
          nt_channel_id = channel_id, nt_message_id = message_id, nt_content = content,
          nt_is_read = False, nt_created_at = now\<rparr>]\<rparr>))"

definition get_unread_notification_count :: "db \<Rightarrow> string \<Rightarrow> int" where
  "get_unread_notification_count d user_id =
     int (length (filter (\<lambda>n. nt_user_id n = user_id \<and> \<not> nt_is_read n) (notifications d)))"

definition mark_all_notifications_read :: "db \<Rightarrow> string \<Rightarrow> db" where
  "mark_all_notifications_read d user_id =
     d\<lparr>notifications := map (\<lambda>n. if nt_user_id n = user_id \<and> \<not> nt_is_read n
                               then n\<lparr>nt_is_read := True\<rparr> else n) (notifications d)\<rparr>"

definition mark_notification_read :: "db \<Rightarrow> string \<Rightarrow> string \<Rightarrow> db" where
  "mark_notification_read d notification_id user_id =
     d\<lparr>notifications := map (\<lambda>n. if nt_id n = notification_id \<and> nt_user_id n = user_id
                               then n\<lparr>nt_is_read := True\<rparr> else n) (notifications d)\<rparr>"

text \<open>The number of rows the statement changed, and the new tables.\<close>

definition mark_channel_notifications_read :: "db \<Rightarrow> string \<Rightarrow> string \<Rightarrow> int \<times> db" where
  "mark_channel_notifications_read d channel_id user_id =
     (let hit = (\<lambda>n. nt_user_id n = user_id \<and> nt_channel_id n = channel_id \<and> \<not> nt_is_read n)
      in (int (length (filter hit (notifications d))),
          d\<lparr>notifications := map (\<lambda>n. if hit n then n\<lparr>nt_is_read := True\<rparr> else n) (notifications d)\<rparr>))"

section \<open>Lemmas\<close>

lemma mention_tokens_unfold:
  "mention_tokens s =
     (case dropWhile (\<lambda>c. c \<noteq> CHR ''@'') s of
        [] \<Rightarrow> []
      | _ # r \<Rightarrow>
          (if takeWhile mention_char r = [] then [] else [takeWhile mention_char r])
          @ mention_tokens (dropWhile mention_char r))"
  unfolding mention_tokens.simps [of s] Let_def
  by (cases "dropWhile (\<lambda>c. c \<noteq> CHR ''@'') s") (simp_all del: dropWhile_eq_Nil_conv)

text \<open>Every token is a nonempty run of name characters that follows an \<open>@\<close> in the text.\<close>

lemma mention_tokens_sound:
  "t \<in> set (mention_tokens s) \<Longrightarrow>
     t \<noteq> [] \<and> list_all mention_char t \<and> (\<exists>pre suf. s = pre @ CHR ''@'' # t @ suf)"
proof (induction s rule: length_induct)
  case (1 s)
  obtain c r where r: "dropWhile (\<lambda>c. c \<noteq> CHR ''@'') s = c # r"
  proof (cases "dropWhile (\<lambda>c. c \<noteq> CHR ''@'') s")
    case Nil
    then have "mention_tokens s = []"
      unfolding mention_tokens_unfold [of s] by (simp del: dropWhile_eq_Nil_conv)
    with "1.prems" show thesis by simp
  qed
  then have c: "c = CHR ''@''" by (metis (mono_tags, lifting) dropWhile_eq_Cons_conv)
  have s: "s = takeWhile (\<lambda>c. c \<noteq> CHR ''@'') s @ CHR ''@'' # r"
    using r c by (metis takeWhile_dropWhile_id)
  have cases: "t = takeWhile mention_char r \<and> takeWhile mention_char r \<noteq> []
      \<or> t \<in> set (mention_tokens (dropWhile mention_char r))"
    using "1.prems" unfolding mention_tokens_unfold [of s] r by (auto split: if_splits)
  have hd: "r = takeWhile mention_char r @ dropWhile mention_char r" by simp
  from cases show ?case
  proof
    assume t: "t = takeWhile mention_char r \<and> takeWhile mention_char r \<noteq> []"
    then have "s = takeWhile (\<lambda>c. c \<noteq> CHR ''@'') s @ CHR ''@'' # t @ dropWhile mention_char r"
      using s by simp
    moreover have "t \<noteq> [] \<and> list_all mention_char t"
      using t by (auto simp: list_all_iff dest: set_takeWhileD)
    ultimately show ?thesis by blast
  next
    assume t: "t \<in> set (mention_tokens (dropWhile mention_char r))"
    have "length (dropWhile mention_char r) < length s" using r by (rule mention_scan_shorter)
    then obtain pre suf where ih: "t \<noteq> []" "list_all mention_char t"
        "dropWhile mention_char r = pre @ CHR ''@'' # t @ suf"
      using "1.IH" t by blast
    have "s = (takeWhile (\<lambda>c. c \<noteq> CHR ''@'') s @ CHR ''@'' # takeWhile mention_char r @ pre)
        @ CHR ''@'' # t @ suf"
      using s hd ih(3) by (metis append.assoc append_Cons)
    with ih(1,2) show ?thesis by blast
  qed
qed

lemma parse_mentions_members:
  "t \<in> set (parse_mentions content members) \<Longrightarrow>
     t = ''@channel'' \<or> (t \<in> set (mention_tokens content) \<and> t \<in> snd ` set members)"
  by (auto simp: parse_mentions_def list_ex_iff image_iff split: if_splits)

lemma edit_message_sound:
  "edit_message left200 d now mid uid content = Inr (v, d') \<Longrightarrow>
     m_id (mv_row v) = mid \<and> m_user_id (mv_row v) = uid \<and> m_content (mv_row v) = content
     \<and> m_edited_at (mv_row v) = Some now"
  by (auto simp: edit_message_def update_messages_def row_to_message_def Let_def
      split: option.splits dest!: first_row_filter_Some)

end
