(* ===== verification/Listings.thy ===== *)
theory Listings
  imports Messages
begin

text \<open>
  The listing queries and the updates of profiles, spaces, channels, conversations, personal spaces
  and space tools (\<open>db/database.cpp\<close>), and the unread counters.
\<close>

section \<open>What PostgreSQL decides\<close>

text \<open>
  Parameters of the queries: \<open>LEFT(_, 200)\<close>, whether a text is valid in the database encoding, the
  collation order of names (as a sort key), the order of identifiers, \<open>ILIKE\<close> of a text with a
  pattern, \<open>LOWER\<close>, and which texts are UUIDs.
\<close>

record pg =
  pg_left200 :: "string \<Rightarrow> string"
  pg_encodable :: "string \<Rightarrow> bool"
  pg_collate :: "string \<Rightarrow> nat"
  pg_uuid_key :: "string \<Rightarrow> nat"
  pg_ilike :: "string \<Rightarrow> string \<Rightarrow> bool"
  pg_lower :: "string \<Rightarrow> string"
  pg_is_uuid :: "string \<Rightarrow> bool"

definition order_by_name_id :: "pg \<Rightarrow> ('r \<Rightarrow> string) \<Rightarrow> ('r \<Rightarrow> string) \<Rightarrow> 'r list \<Rightarrow> 'r list" where
  "order_by_name_id pg name i rows =
     sort_key (\<lambda>r. pg_collate pg (name r)) (sort_key (\<lambda>r. pg_uuid_key pg (i r)) rows)"

definition order_by_name :: "pg \<Rightarrow> ('r \<Rightarrow> string) \<Rightarrow> 'r list \<Rightarrow> 'r list" where
  "order_by_name pg name rows = sort_key (\<lambda>r. pg_collate pg (name r)) rows"

definition limit_offset :: "nat \<Rightarrow> nat \<Rightarrow> 'r list \<Rightarrow> 'r list" where
  "limit_offset limit offset rows = take limit (drop offset rows)"

text \<open>\<open>name ILIKE '%' || search || '%'\<close>, and the same on the description.\<close>

definition search_hits :: "pg \<Rightarrow> string \<Rightarrow> string \<Rightarrow> string \<Rightarrow> bool" where
  "search_hits pg search name description =
     (search = [] \<or> pg_ilike pg (''%'' @ search @ ''%'') name
      \<or> pg_ilike pg (''%'' @ search @ ''%'') description)"

section \<open>Users\<close>

definition list_users :: "pg \<Rightarrow> db \<Rightarrow> user list" where
  "list_users pg d = order_by_name pg u_username (users d)"

definition update_user_profile ::
  "db \<Rightarrow> string \<Rightarrow> string \<Rightarrow> string \<Rightarrow> string \<Rightarrow> string \<Rightarrow> db_error + user \<times> db" where
  "update_user_profile d user_id display_name bio status profile_color =
     (let f = (\<lambda>u. u\<lparr>u_display_name := display_name, u_bio := bio, u_status := status,
                     u_profile_color := profile_color\<rparr>)
      in case find_user_by_id d user_id of
           None \<Rightarrow> Inl (Runtime ''User not found'')
         | Some u \<Rightarrow> Inr (f u, update_user user_id f d))"

definition set_user_avatar :: "db \<Rightarrow> string \<Rightarrow> string \<Rightarrow> db" where
  "set_user_avatar d user_id file = update_user user_id (\<lambda>u. u\<lparr>u_avatar_file_id := file\<rparr>) d"

text \<open>The name a \<open>LEFT JOIN users\<close> gives, empty for no row.\<close>

definition username_of_id :: "db \<Rightarrow> string \<Rightarrow> string" where
  "username_of_id d i = (case find_user_by_id d i of None \<Rightarrow> '''' | Some u \<Rightarrow> u_username u)"

definition clear_user_avatar :: "db \<Rightarrow> string \<Rightarrow> db" where
  "clear_user_avatar d user_id = update_user user_id (\<lambda>u. u\<lparr>u_avatar_file_id := ''''\<rparr>) d"

section \<open>Channels\<close>

definition list_public_channels :: "pg \<Rightarrow> db \<Rightarrow> string \<Rightarrow> string \<Rightarrow> channel list" where
  "list_public_channels pg d user_id search =
     order_by_name pg ch_name (filter (\<lambda>c. ch_is_public c \<and> \<not> ch_is_direct c
        \<and> \<not> is_channel_member d (ch_id c) user_id
        \<and> search_hits pg search (ch_name c) (ch_description c)) (channels d))"

definition list_browsable_space_channels :: "pg \<Rightarrow> db \<Rightarrow> string \<Rightarrow> string \<Rightarrow> string \<Rightarrow> channel list" where
  "list_browsable_space_channels pg d space_id user_id search =
     order_by_name pg ch_name (filter (\<lambda>c. ch_space_id c = space_id \<and> \<not> ch_is_direct c
        \<and> \<not> is_channel_member d (ch_id c) user_id
        \<and> search_hits pg search (ch_name c) (ch_description c)) (channels d))"

definition list_all_channels :: "pg \<Rightarrow> db \<Rightarrow> nat \<Rightarrow> nat \<Rightarrow> channel list" where
  "list_all_channels pg d limit offset =
     limit_offset limit offset
       (order_by_name_id pg ch_name ch_id (filter (\<lambda>c. \<not> ch_is_direct c) (channels d)))"

definition list_visible_channels_for_user :: "pg \<Rightarrow> db \<Rightarrow> string \<Rightarrow> bool \<Rightarrow> nat \<Rightarrow> nat \<Rightarrow> channel list" where
  "list_visible_channels_for_user pg d user_id is_server_admin limit offset =
     limit_offset limit offset
       (order_by_name_id pg ch_name ch_id
         (if is_server_admin
          then filter (\<lambda>c. \<not> ch_is_direct c \<or> is_channel_member d (ch_id c) user_id) (channels d)
          else filter (\<lambda>c. is_channel_member d (ch_id c) user_id) (channels d)))"

definition update_channel ::
  "db \<Rightarrow> string \<Rightarrow> string \<Rightarrow> string \<Rightarrow> bool \<Rightarrow> string \<Rightarrow> bool \<Rightarrow> db_error + channel \<times> db" where
  "update_channel d channel_id name description is_public default_role default_join =
     (let f = (\<lambda>c. c\<lparr>ch_name := name, ch_description := description, ch_is_public := is_public,
                     ch_default_role := default_role, ch_default_join := default_join\<rparr>);
          d' = d\<lparr>channels := map (\<lambda>c. if ch_id c = channel_id then f c else c) (channels d)\<rparr>
      in case find_channel_by_id d' channel_id of
           None \<Rightarrow> Inl (Runtime ''Channel not found'')
         | Some c \<Rightarrow>
             if \<not> varchar_ok 100 name \<or> \<not> varchar_ok 20 default_role then Inl too_long else Inr (c, d'))"

record member_view =
  mb_user_id :: string
  mb_username :: string
  mb_display_name :: string
  mb_role :: string
  mb_is_online :: bool
  mb_last_seen :: "time option"

definition member_view_of :: "user \<Rightarrow> string \<Rightarrow> member_view" where
  "member_view_of u role = \<lparr>mb_user_id = u_id u, mb_username = u_username u,
     mb_display_name = u_display_name u, mb_role = role, mb_is_online = u_is_online u,
     mb_last_seen = u_last_seen u\<rparr>"

definition get_channel_members_with_roles :: "pg \<Rightarrow> db \<Rightarrow> string \<Rightarrow> member_view list" where
  "get_channel_members_with_roles pg d channel_id =
     sort_key (\<lambda>m. pg_collate pg (mb_role m)) (sort_key (\<lambda>m. pg_collate pg (mb_username m))
       (concat (map (\<lambda>cm. map (\<lambda>u. member_view_of u (cm_role cm))
                            (filter (\<lambda>u. u_id u = cm_user_id cm) (users d)))
          (filter (\<lambda>cm. cm_channel_id cm = channel_id) (channel_members d)))))"

definition get_channel_member_ids :: "db \<Rightarrow> string \<Rightarrow> string list" where
  "get_channel_member_ids d channel_id =
     map cm_user_id (filter (\<lambda>m. cm_channel_id m = channel_id) (channel_members d))"

section \<open>Conversations\<close>

definition create_conversation ::
  "db \<Rightarrow> string \<Rightarrow> time \<Rightarrow> string \<Rightarrow> string list \<Rightarrow> string \<Rightarrow> db_error + channel \<times> db" where
  "create_conversation d new_id now created_by member_ids name =
     (let ch = \<lparr>ch_id = new_id, ch_name = '''', ch_description = '''', ch_is_direct = True,
                ch_is_public = False, ch_default_role = ''write'', ch_created_by = created_by,
                ch_created_at = now, ch_space_id = '''', ch_conversation_name = name,
                ch_is_archived = False, ch_default_join = False\<rparr>
      in if \<not> varchar_ok 200 name then Inl too_long
         else if has_key ch_id new_id (channels d) then Inl UniqueViolation
         else if \<not> has_key u_id created_by (users d) then Inl ForeignKeyViolation
         else case add_members (d\<lparr>channels := channels d @ [ch]\<rparr>) new_id
                     (map (\<lambda>mid. (mid, ''write'')) member_ids) of
                Inl e \<Rightarrow> Inl e
              | Inr d' \<Rightarrow> Inr (ch, d'))"

definition list_user_conversations :: "db \<Rightarrow> string \<Rightarrow> channel list" where
  "list_user_conversations d user_id =
     rev (sort_key ch_created_at (rev (filter (\<lambda>c. ch_is_direct c \<and> is_channel_member d (ch_id c) user_id)
       (channels d))))"

definition add_conversation_member :: "db \<Rightarrow> string \<Rightarrow> string \<Rightarrow> db_error + db" where
  "add_conversation_member d channel_id user_id = add_channel_member d channel_id user_id ''write''"

definition rename_conversation :: "db \<Rightarrow> string \<Rightarrow> string \<Rightarrow> db_error + db" where
  "rename_conversation d channel_id name =
     (if \<not> varchar_ok 200 name \<and> list_ex (\<lambda>c. ch_id c = channel_id \<and> ch_is_direct c) (channels d)
      then Inl too_long
      else Inr (d\<lparr>channels := map (\<lambda>c. if ch_id c = channel_id \<and> ch_is_direct c
                           then c\<lparr>ch_conversation_name := name\<rparr> else c) (channels d)\<rparr>))"

section \<open>Spaces\<close>

definition list_user_spaces :: "pg \<Rightarrow> db \<Rightarrow> string \<Rightarrow> space list" where
  "list_user_spaces pg d user_id =
     order_by_name pg sp_name (filter (\<lambda>s. is_space_member d (sp_id s) user_id) (spaces d))"

definition list_public_spaces :: "pg \<Rightarrow> db \<Rightarrow> string \<Rightarrow> string \<Rightarrow> space list" where
  "list_public_spaces pg d user_id search =
     order_by_name pg sp_name (filter (\<lambda>s. sp_is_public s \<and> \<not> is_space_member d (sp_id s) user_id
        \<and> search_hits pg search (sp_name s) (sp_description s)) (spaces d))"

definition list_all_spaces :: "pg \<Rightarrow> db \<Rightarrow> nat \<Rightarrow> nat \<Rightarrow> space list" where
  "list_all_spaces pg d limit offset = limit_offset limit offset (order_by_name_id pg sp_name sp_id (spaces d))"

definition list_visible_spaces_for_user :: "pg \<Rightarrow> db \<Rightarrow> string \<Rightarrow> bool \<Rightarrow> nat \<Rightarrow> nat \<Rightarrow> space list" where
  "list_visible_spaces_for_user pg d user_id is_server_admin limit offset =
     limit_offset limit offset
       (order_by_name_id pg sp_name sp_id
         (if is_server_admin then spaces d
          else filter (\<lambda>s. is_space_member d (sp_id s) user_id) (spaces d)))"

definition update_space ::
  "db \<Rightarrow> string \<Rightarrow> string \<Rightarrow> string \<Rightarrow> bool \<Rightarrow> string \<Rightarrow> string \<Rightarrow> db_error + space \<times> db" where
  "update_space d space_id name description is_public default_role profile_color =
     (let f = (\<lambda>s. s\<lparr>sp_name := name, sp_description := description, sp_is_public := is_public,
                     sp_default_role := default_role, sp_profile_color := profile_color\<rparr>);
          d' = d\<lparr>spaces := map (\<lambda>s. if sp_id s = space_id then f s else s) (spaces d)\<rparr>
      in case find_space_by_id d' space_id of
           None \<Rightarrow> Inl (Runtime ''Space not found'')
         | Some s \<Rightarrow>
             if \<not> varchar_ok 100 name \<or> \<not> varchar_ok 20 default_role \<or> \<not> varchar_ok 7 profile_color
             then Inl too_long else Inr (s, d'))"

definition set_space_avatar :: "db \<Rightarrow> string \<Rightarrow> string \<Rightarrow> db" where
  "set_space_avatar d space_id file =
     d\<lparr>spaces := map (\<lambda>s. if sp_id s = space_id then s\<lparr>sp_avatar_file_id := file\<rparr> else s) (spaces d)\<rparr>"

definition clear_space_avatar :: "db \<Rightarrow> string \<Rightarrow> db" where
  "clear_space_avatar d space_id =
     d\<lparr>spaces := map (\<lambda>s. if sp_id s = space_id then s\<lparr>sp_avatar_file_id := ''''\<rparr> else s) (spaces d)\<rparr>"

definition get_space_members_with_roles :: "pg \<Rightarrow> db \<Rightarrow> string \<Rightarrow> member_view list" where
  "get_space_members_with_roles pg d space_id =
     sort_key (\<lambda>m. pg_collate pg (mb_role m)) (sort_key (\<lambda>m. pg_collate pg (mb_username m))
       (concat (map (\<lambda>sm. map (\<lambda>u. member_view_of u (sm_role sm))
                            (filter (\<lambda>u. u_id u = sm_user_id sm) (users d)))
          (filter (\<lambda>sm. sm_space_id sm = space_id) (space_members d)))))"

section \<open>Space tools and personal spaces\<close>

definition is_space_tool_enabled :: "db \<Rightarrow> string \<Rightarrow> string \<Rightarrow> bool" where
  "is_space_tool_enabled d space_id tool =
     list_ex (\<lambda>t. st_space_id t = space_id \<and> st_tool_name t = tool) (space_tools d)"

definition enable_space_tool :: "db \<Rightarrow> string \<Rightarrow> string \<Rightarrow> string \<Rightarrow> db_error + db" where
  "enable_space_tool d space_id tool user_id =
     (if is_space_tool_enabled d space_id tool then Inr d
      else if has_key sp_id space_id (spaces d) \<and> ref_ok u_id user_id (users d)
      then Inr (d\<lparr>space_tools := space_tools d @
             [\<lparr>st_space_id = space_id, st_tool_name = tool, st_enabled_by = user_id\<rparr>]\<rparr>)
      else Inl ForeignKeyViolation)"

definition disable_space_tool :: "db \<Rightarrow> string \<Rightarrow> string \<Rightarrow> db" where
  "disable_space_tool d space_id tool =
     d\<lparr>space_tools := filter (\<lambda>t. \<not> (st_space_id t = space_id \<and> st_tool_name t = tool)) (space_tools d)\<rparr>"

definition get_space_tools :: "pg \<Rightarrow> db \<Rightarrow> string \<Rightarrow> string list" where
  "get_space_tools pg d space_id =
     map st_tool_name (order_by_name pg st_tool_name
       (filter (\<lambda>t. st_space_id t = space_id) (space_tools d)))"

definition personal_tools :: "string list" where
  "personal_tools = [''files'', ''calendar'', ''tasks'', ''wiki'', ''minigames'']"

text \<open>A tool is allowed unless the setting exists and is \<open>"false"\<close>.\<close>

definition personal_tool_allowed :: "db \<Rightarrow> string \<Rightarrow> bool" where
  "personal_tool_allowed d tool =
     (get_setting d (''personal_spaces_'' @ tool @ ''_enabled'') \<noteq> Some ''false'')"

definition find_personal_space :: "db \<Rightarrow> string \<Rightarrow> space option" where
  "find_personal_space d user_id =
     first_row (filter (\<lambda>s. sp_is_personal s \<and> sp_personal_owner_id s = user_id) (spaces d))"

definition create_personal_space ::
  "db \<Rightarrow> string \<Rightarrow> time \<Rightarrow> string \<Rightarrow> string \<Rightarrow> db_error + space \<times> db" where
  "create_personal_space d new_id now user_id display_name =
     (let sp = \<lparr>sp_id = new_id, sp_name = display_name @ [CHR 0x27] @ ''s Space'',
                sp_description = '''', sp_is_public = False, sp_default_role = ''user'',
                sp_created_by = user_id, sp_created_at = now, sp_is_archived = False,
                sp_avatar_file_id = '''', sp_profile_color = '''', sp_is_personal = True,
                sp_personal_owner_id = user_id\<rparr>;
          tools = map (\<lambda>t. \<lparr>st_space_id = new_id, st_tool_name = t, st_enabled_by = user_id\<rparr>)
                    (filter (personal_tool_allowed d) personal_tools);
          d1 = d\<lparr>spaces := spaces d @ [sp],
                 space_members := space_members d @
                   [\<lparr>sm_space_id = new_id, sm_user_id = user_id, sm_role = ''owner''\<rparr>],
                 space_tools := space_tools d @ tools\<rparr>;
          d2 = (case get_setting d1 ''personal_spaces_storage_limit'' of
                  None \<Rightarrow> d1
                | Some v \<Rightarrow>
                    (let limit = (case stoi i64_min i64_max v of Inr n \<Rightarrow> n | Inl _ \<Rightarrow> 0)
                     in if limit > 0 then set_setting d1 (''space_storage_limit_'' @ new_id) v else d1))
      in if \<not> varchar_ok 100 (sp_name sp) then Inl too_long
         else if has_key sp_id new_id (spaces d) \<or> find_personal_space d user_id \<noteq> None then Inl UniqueViolation
         else if \<not> has_key u_id user_id (users d) then Inl ForeignKeyViolation
         else Inr (sp, d2))"

definition get_or_create_personal_space ::
  "db \<Rightarrow> string \<Rightarrow> time \<Rightarrow> string \<Rightarrow> string \<Rightarrow> db_error + space \<times> db" where
  "get_or_create_personal_space d new_id now user_id display_name =
     (case find_personal_space d user_id of
        Some s \<Rightarrow> Inr (s, d)
      | None \<Rightarrow> create_personal_space d new_id now user_id display_name)"

definition sync_personal_space_tools :: "db \<Rightarrow> string \<Rightarrow> db" where
  "sync_personal_space_tools d space_id =
     fold (\<lambda>tool d. if \<not> personal_tool_allowed d tool \<and> is_space_tool_enabled d space_id tool
                    then disable_space_tool d space_id tool else d) personal_tools d"

section \<open>Unread counters\<close>

definition unread_after :: "db \<Rightarrow> string \<Rightarrow> string \<Rightarrow> time \<Rightarrow> bool" where
  "unread_after d channel_id user_id created =
     (case first_row (filter (\<lambda>r. rs_channel_id r = channel_id \<and> rs_user_id r = user_id) (read_states d)) of
        None \<Rightarrow> True | Some r \<Rightarrow> created > rs_last_read_at r)"

definition get_unread_counts :: "db \<Rightarrow> string \<Rightarrow> (string \<times> int) list" where
  "get_unread_counts d user_id =
     filter (\<lambda>p. snd p > 0)
       (map (\<lambda>cm. (cm_channel_id cm,
                int (length (filter (\<lambda>m. m_channel_id m = cm_channel_id cm \<and> \<not> m_is_deleted m
                   \<and> unread_after d (cm_channel_id cm) user_id (m_created_at m) \<and> m_user_id m \<noteq> user_id)
                 (messages d)))))
          (filter (\<lambda>cm. cm_user_id cm = user_id) (channel_members d)))"

text \<open>
  Grouped by channel; \<open>COUNT(DISTINCT mn.message_id)\<close> counts a message once however often it
  mentions the user. Only channels of a space count.
\<close>

definition get_mention_unread_counts :: "db \<Rightarrow> string \<Rightarrow> (string \<times> int) list" where
  "get_mention_unread_counts d user_id =
     (let hits = filter (\<lambda>mn. me_mentioned_user_id mn = user_id
            \<and> list_ex (\<lambda>m. m_id m = me_message_id mn \<and> \<not> m_is_deleted m
                 \<and> unread_after d (me_channel_id mn) user_id (m_created_at m)) (messages d)
            \<and> list_ex (\<lambda>c. ch_id c = me_channel_id mn \<and> ch_space_id c \<noteq> []) (channels d)) (mentions d)
      in map (\<lambda>c. (c, int (length (remdups (map me_message_id (filter (\<lambda>mn. me_channel_id mn = c) hits))))))
           (remdups (map me_channel_id hits)))"

definition get_channel_read_receipts :: "db \<Rightarrow> string \<Rightarrow> (string \<times> string \<times> string \<times> time) list" where
  "get_channel_read_receipts d channel_id =
     concat (map (\<lambda>r. map (\<lambda>u. (rs_user_id r, u_username u, rs_last_read_message_id r, rs_last_read_at r))
                        (filter (\<lambda>u. u_id u = rs_user_id r) (users d)))
       (filter (\<lambda>r. rs_channel_id r = channel_id) (read_states d)))"

section \<open>Properties\<close>

definition example_pg :: pg where
  "example_pg = \<lparr>pg_left200 = take 200, pg_encodable = (\<lambda>_. True), pg_collate = length,
     pg_uuid_key = length, pg_ilike = (\<lambda>_ _. True),
     pg_lower = map lower_char, pg_is_uuid = (\<lambda>s. s \<noteq> [])\<rparr>"

lemma set_limit_offset: "set (limit_offset l k xs) \<subseteq> set xs"
  unfolding limit_offset_def using set_take_subset set_drop_subset by fastforce

text \<open>A user who is not a server admin is only ever listed channels he is a member of, and not even
  a server admin is listed a direct conversation he is not in; with a limit that is large enough,
  nothing visible is left out.\<close>

theorem visible_channels_exact:
  "set (list_visible_channels_for_user pg d user_id is_server_admin (length (channels d)) 0) =
     {c \<in> set (channels d). is_channel_member d (ch_id c) user_id \<or> (is_server_admin \<and> \<not> ch_is_direct c)}
   \<and> set (list_visible_channels_for_user pg d user_id is_server_admin limit offset) \<subseteq>
     set (list_visible_channels_for_user pg d user_id is_server_admin (length (channels d)) 0)"
proof
  have take_all: "length xs \<le> length (channels d) \<Longrightarrow> limit_offset (length (channels d)) 0 xs = xs"
    for xs :: "channel list" by (simp add: limit_offset_def)
  show eq: "set (list_visible_channels_for_user pg d user_id is_server_admin (length (channels d)) 0) =
     {c \<in> set (channels d). is_channel_member d (ch_id c) user_id \<or> (is_server_admin \<and> \<not> ch_is_direct c)}"
    by (auto simp: list_visible_channels_for_user_def take_all order_by_name_id_def length_sort)
  show "set (list_visible_channels_for_user pg d user_id is_server_admin limit offset) \<subseteq>
     set (list_visible_channels_for_user pg d user_id is_server_admin (length (channels d)) 0)"
    unfolding eq
    by (rule subset_trans, unfold list_visible_channels_for_user_def, rule set_limit_offset)
      (auto simp: order_by_name_id_def)
qed

end
