(* ===== verification/Ws_Hub.thy ===== *)
theory Ws_Hub
  imports Messages Complex_Main "HOL-Library.AList"
begin

text \<open>
  The connection hub of \<open>ws/ws_handler.cpp\<close>: which sockets a user has, which sockets a topic
  reaches, and the fan-out, control and open/close operations over them. A socket is the number
  that stands for its pointer; an \<open>unordered_map\<close> of socket sets is an association list whose values
  are lists without repetition. Callbacks of the event loop run one at a time, so each operation
  is one step of the hub. What a socket was sent, what was published to Redis and what was
  submitted to the thread pool are logs in the order the code produces them.
\<close>

section \<open>Frames and tasks\<close>

text \<open>The JSON documents of the protocol before \<open>dump()\<close>, one constructor per shape.\<close>

datatype control =
    CtrlSubscribe string string
  | CtrlUnsubscribe string string
  | CtrlSubscribeAdmins string
  | CtrlDisconnectUser string
  | CtrlDisconnectNonAdmins "string option"

datatype frame =
    FError string
  | FRateLimited int
  | FPong
  | FUnreadCounts "(string \<times> int) list" "(string \<times> int) list"
  | FNotificationCount int
  | FUserOnline string string
  | FUserOffline string "time option"
  | FNewNotification string string string string string string string string string time
  | FNewMessage message_view "string list"
  | FMessageEdited message_view
  | FMessageDeleted message_view
  | FTyping string string string
  | FReadReceipt string string string string time
  | FReactionAdded string string string string string
  | FReactionRemoved string string string string string
  | FWikiDenied string
  | FWikiRelay string string string string string
  | FControl control
  | FRest string

datatype pool_task =
    TaskOpen string string
  | TaskOffline string
  | TaskWikiJoin string string
  | TaskSend string string string string string string
  | TaskEdit string string string
  | TaskDelete string string string
  | TaskMarkRead string string string string time
  | TaskAddReaction string string string string
  | TaskRemoveReaction string string string string

section \<open>State\<close>

text \<open>\<open>wd_rl_tokens\<close> is the double of the token bucket; \<open>wd_rl_last_refill\<close> is in nanoseconds.\<close>

record ws_user_data =
  wd_user_id :: string
  wd_username :: string
  wd_role :: string
  wd_rl_tokens :: rat
  wd_rl_last_refill :: int
  wd_topics :: "string list"

record hub =
  h_user_sockets :: "(string \<times> nat list) list"
  h_topic_subscribers :: "(string \<times> nat list) list"
  h_data :: "(nat \<times> ws_user_data) list"
  h_redis :: bool
  h_sent :: "(nat \<times> frame) list"
  h_published :: "(string \<times> frame) list"
  h_submitted :: "pool_task list"

definition sockets_at :: "(string \<times> nat list) list \<Rightarrow> string \<Rightarrow> nat list" where
  "sockets_at al k = (case map_of al k of Some l \<Rightarrow> l | None \<Rightarrow> [])"

text \<open>\<open>map[key].insert(socket)\<close>.\<close>

definition insert_socket :: "string \<Rightarrow> nat \<Rightarrow> (string \<times> nat list) list \<Rightarrow> (string \<times> nat list) list" where
  "insert_socket k s al = AList.update k (List.insert s (sockets_at al k)) al"

text \<open>\<open>find\<close>, \<open>erase(socket)\<close>, and the key goes when its set is empty.\<close>

definition erase_socket :: "string \<Rightarrow> nat \<Rightarrow> (string \<times> nat list) list \<Rightarrow> (string \<times> nat list) list" where
  "erase_socket k s al =
     (case map_of al k of
        None \<Rightarrow> al
      | Some l \<Rightarrow> if removeAll s l = [] then AList.delete k al
                  else AList.update k (removeAll s l) al)"

definition ws_data :: "hub \<Rightarrow> nat \<Rightarrow> ws_user_data option" where
  "ws_data h s = map_of (h_data h) s"

definition subscribers :: "hub \<Rightarrow> string \<Rightarrow> nat list" where
  "subscribers h t = sockets_at (h_topic_subscribers h) t"

definition user_socks :: "hub \<Rightarrow> string \<Rightarrow> nat list" where
  "user_socks h u = sockets_at (h_user_sockets h) u"

definition update_ws_data :: "nat \<Rightarrow> (ws_user_data \<Rightarrow> ws_user_data) \<Rightarrow> hub \<Rightarrow> hub" where
  "update_ws_data s f h = h\<lparr>h_data := map (\<lambda>(k, d). if k = s then (k, f d) else (k, d)) (h_data h)\<rparr>"

definition topics_of :: "hub \<Rightarrow> nat \<Rightarrow> string list" where
  "topics_of h s = (case ws_data h s of Some d \<Rightarrow> wd_topics d | None \<Rightarrow> [])"

definition send :: "nat \<Rightarrow> frame \<Rightarrow> hub \<Rightarrow> hub" where
  "send s p h = h\<lparr>h_sent := h_sent h @ [(s, p)]\<rparr>"

definition publish :: "string \<Rightarrow> frame \<Rightarrow> hub \<Rightarrow> hub" where
  "publish t p h = (if h_redis h then h\<lparr>h_published := h_published h @ [(t, p)]\<rparr> else h)"

definition submit :: "pool_task \<Rightarrow> hub \<Rightarrow> hub" where
  "submit t h = h\<lparr>h_submitted := h_submitted h @ [t]\<rparr>"

section \<open>Topics\<close>

definition local_subscribe :: "nat \<Rightarrow> string \<Rightarrow> hub \<Rightarrow> hub" where
  "local_subscribe s t h =
     update_ws_data s (\<lambda>d. d\<lparr>wd_topics := List.insert t (wd_topics d)\<rparr>)
       (h\<lparr>h_topic_subscribers := insert_socket t s (h_topic_subscribers h)\<rparr>)"

definition local_unsubscribe :: "nat \<Rightarrow> string \<Rightarrow> hub \<Rightarrow> hub" where
  "local_unsubscribe s t h =
     update_ws_data s (\<lambda>d. d\<lparr>wd_topics := removeAll t (wd_topics d)\<rparr>)
       (h\<lparr>h_topic_subscribers := erase_socket t s (h_topic_subscribers h)\<rparr>)"

definition local_unsubscribe_all :: "nat \<Rightarrow> hub \<Rightarrow> hub" where
  "local_unsubscribe_all s h =
     (let topics = topics_of h s;
          h1 = update_ws_data s (\<lambda>d. d\<lparr>wd_topics := []\<rparr>) h
      in h1\<lparr>h_topic_subscribers := fold (\<lambda>t al. erase_socket t s al) topics (h_topic_subscribers h1)\<rparr>)"

definition local_fan_out :: "string \<Rightarrow> frame \<Rightarrow> hub \<Rightarrow> hub" where
  "local_fan_out t p h = fold (\<lambda>s. send s p) (subscribers h t) h"

definition broadcast_to_topic :: "string \<Rightarrow> frame \<Rightarrow> hub \<Rightarrow> hub" where
  "broadcast_to_topic t p h = publish t p (local_fan_out t p h)"

definition send_to_user :: "string \<Rightarrow> frame \<Rightarrow> hub \<Rightarrow> hub" where
  "send_to_user u p h = broadcast_to_topic (''user:'' @ u) p h"

text \<open>Fan-out that skips some sockets, shared by the typing, wiki relay and read receipt handlers.\<close>

definition fan_out_except :: "(nat \<Rightarrow> bool) \<Rightarrow> string \<Rightarrow> frame \<Rightarrow> hub \<Rightarrow> hub" where
  "fan_out_except skip t p h = fold (\<lambda>s h. if skip s then h else send s p h) (subscribers h t) h"

section \<open>Opening and closing a socket\<close>

definition ws_open :: "nat \<Rightarrow> ws_user_data \<Rightarrow> hub \<Rightarrow> hub" where
  "ws_open s d h =
     (let h1 = h\<lparr>h_data := (s, d) # h_data h\<rparr>;
          h2 = h1\<lparr>h_user_sockets := insert_socket (wd_user_id d) s (h_user_sockets h1)\<rparr>;
          h3 = local_subscribe s ''presence'' h2;
          h4 = local_subscribe s (''user:'' @ wd_user_id d) h3
      in submit (TaskOpen (wd_user_id d) (wd_username d)) h4)"

text \<open>After the \<open>close\<close> handler uWebSockets reclaims the socket and its user data.\<close>

definition ws_close :: "nat \<Rightarrow> hub \<Rightarrow> hub" where
  "ws_close s h =
     (case ws_data h s of
        None \<Rightarrow> h
      | Some d \<Rightarrow>
          let u = wd_user_id d;
              h1 = local_unsubscribe_all s h;
              was_last = (u \<in> fst ` set (h_user_sockets h1) \<and> removeAll s (user_socks h1 u) = []);
              h2 = h1\<lparr>h_user_sockets := erase_socket u s (h_user_sockets h1)\<rparr>;
              h3 = h2\<lparr>h_data := AList.delete s (h_data h2)\<rparr>
          in if was_last then submit (TaskOffline u) h3 else h3)"

definition close_all :: "hub \<Rightarrow> hub" where
  "close_all h = fold ws_close (concat (map snd (h_user_sockets h))) h"

section \<open>Control operations\<close>

abbreviation is_admin_data :: "ws_user_data \<Rightarrow> bool" where
  "is_admin_data d \<equiv> wd_role d = ''admin'' \<or> wd_role d = ''owner''"

definition local_subscribe_user :: "string \<Rightarrow> string \<Rightarrow> hub \<Rightarrow> hub" where
  "local_subscribe_user u t h = fold (\<lambda>s. local_subscribe s t) (user_socks h u) h"

definition local_unsubscribe_user :: "string \<Rightarrow> string \<Rightarrow> hub \<Rightarrow> hub" where
  "local_unsubscribe_user u t h = fold (\<lambda>s. local_unsubscribe s t) (user_socks h u) h"

definition local_subscribe_admins :: "string \<Rightarrow> hub \<Rightarrow> hub" where
  "local_subscribe_admins t h =
     fold (\<lambda>s h. case ws_data h s of
             Some d \<Rightarrow> if is_admin_data d then local_subscribe s t h else h
           | None \<Rightarrow> h)
       (concat (map snd (h_user_sockets h))) h"

definition local_disconnect_user :: "string \<Rightarrow> hub \<Rightarrow> hub" where
  "local_disconnect_user u h = fold ws_close (user_socks h u) h"

definition non_admin_sockets :: "hub \<Rightarrow> nat list" where
  "non_admin_sockets h =
     filter (\<lambda>s. case ws_data h s of Some d \<Rightarrow> \<not> is_admin_data d | None \<Rightarrow> False)
       (concat (map snd (h_user_sockets h)))"

text \<open>The message is a string, empty for none; here \<open>None\<close> is the empty one.\<close>

definition local_disconnect_non_admins :: "string option \<Rightarrow> hub \<Rightarrow> hub" where
  "local_disconnect_non_admins m h =
     (let to_close = non_admin_sockets h;
          h1 = (case m of Some msg \<Rightarrow> fold (\<lambda>s. send s (FRest msg)) to_close h | None \<Rightarrow> h)
      in fold ws_close to_close h1)"

definition publish_control :: "control \<Rightarrow> hub \<Rightarrow> hub" where
  "publish_control c h = publish ''ctrl'' (FControl c) h"

definition handle_control :: "control \<Rightarrow> hub \<Rightarrow> hub" where
  "handle_control c h =
     (case c of
        CtrlSubscribe u t \<Rightarrow> local_subscribe_user u t h
      | CtrlUnsubscribe u t \<Rightarrow> local_unsubscribe_user u t h
      | CtrlSubscribeAdmins t \<Rightarrow> local_subscribe_admins t h
      | CtrlDisconnectUser u \<Rightarrow> local_disconnect_user u h
      | CtrlDisconnectNonAdmins m \<Rightarrow> local_disconnect_non_admins m h)"

text \<open>A payload on the control topic that is no command is dropped.\<close>

definition on_redis_message :: "string \<Rightarrow> frame \<Rightarrow> hub \<Rightarrow> hub" where
  "on_redis_message t p h =
     (if t = ''ctrl'' then (case p of FControl c \<Rightarrow> handle_control c h | _ \<Rightarrow> h)
      else local_fan_out t p h)"

definition disconnect_user :: "string \<Rightarrow> hub \<Rightarrow> hub" where
  "disconnect_user u h = publish_control (CtrlDisconnectUser u) (local_disconnect_user u h)"

definition disconnect_non_admins :: "string option \<Rightarrow> hub \<Rightarrow> hub" where
  "disconnect_non_admins m h =
     publish_control (CtrlDisconnectNonAdmins m) (local_disconnect_non_admins m h)"

definition subscribe_user_to_channel :: "string \<Rightarrow> string \<Rightarrow> hub \<Rightarrow> hub" where
  "subscribe_user_to_channel u c h =
     (let t = ''channel:'' @ c in publish_control (CtrlSubscribe u t) (local_subscribe_user u t h))"

definition unsubscribe_user_from_channel :: "string \<Rightarrow> string \<Rightarrow> hub \<Rightarrow> hub" where
  "unsubscribe_user_from_channel u c h =
     (let t = ''channel:'' @ c in publish_control (CtrlUnsubscribe u t) (local_unsubscribe_user u t h))"

definition subscribe_admins_to_channel :: "string \<Rightarrow> hub \<Rightarrow> hub" where
  "subscribe_admins_to_channel c h =
     (let t = ''channel:'' @ c in publish_control (CtrlSubscribeAdmins t) (local_subscribe_admins t h))"

definition subscribe_user_to_space :: "string \<Rightarrow> string \<Rightarrow> hub \<Rightarrow> hub" where
  "subscribe_user_to_space u sp h =
     (let t = ''space:'' @ sp in publish_control (CtrlSubscribe u t) (local_subscribe_user u t h))"

definition unsubscribe_user_from_space :: "string \<Rightarrow> string \<Rightarrow> hub \<Rightarrow> hub" where
  "unsubscribe_user_from_space u sp h =
     (let t = ''space:'' @ sp in publish_control (CtrlUnsubscribe u t) (local_unsubscribe_user u t h))"

definition subscribe_admins_to_space :: "string \<Rightarrow> hub \<Rightarrow> hub" where
  "subscribe_admins_to_space sp h =
     (let t = ''space:'' @ sp in publish_control (CtrlSubscribeAdmins t) (local_subscribe_admins t h))"

definition broadcast_to_channel :: "string \<Rightarrow> frame \<Rightarrow> hub \<Rightarrow> hub" where
  "broadcast_to_channel c p h = broadcast_to_topic (''channel:'' @ c) p h"

definition broadcast_to_presence :: "frame \<Rightarrow> hub \<Rightarrow> hub" where
  "broadcast_to_presence p h = broadcast_to_topic ''presence'' p h"

definition broadcast_to_space :: "string \<Rightarrow> frame \<Rightarrow> hub \<Rightarrow> hub" where
  "broadcast_to_space sp p h = broadcast_to_topic (''space:'' @ sp) p h"

section \<open>Lemmas on the socket indexes\<close>

lemma sockets_at_insert:
  "sockets_at (insert_socket k s al) k' =
     (if k' = k then List.insert s (sockets_at al k) else sockets_at al k')"
  by (simp add: sockets_at_def insert_socket_def update_conv)

lemma sockets_at_erase:
  "sockets_at (erase_socket k s al) k' =
     (if k' = k then removeAll s (sockets_at al k) else sockets_at al k')"
  by (auto simp: sockets_at_def erase_socket_def update_conv delete_conv
      simp del: removeAll_filter_not_eq split: option.splits)

definition index_ok :: "(string \<times> nat list) list \<Rightarrow> bool" where
  "index_ok al \<longleftrightarrow> distinct (map fst al) \<and> list_all (\<lambda>(k, l). l \<noteq> [] \<and> distinct l) al"

lemma index_ok_iff:
  "index_ok al \<longleftrightarrow> distinct (map fst al) \<and> (\<forall>k l. map_of al k = Some l \<longrightarrow> l \<noteq> [] \<and> distinct l)"
  by (fastforce simp: index_ok_def list_all_iff)

lemma index_ok_insert: "index_ok al \<Longrightarrow> index_ok (insert_socket k s al)"
  unfolding index_ok_iff insert_socket_def
  by (auto simp: update_conv distinct_update sockets_at_def List.insert_def split: option.splits if_splits)

lemma index_ok_erase: "index_ok al \<Longrightarrow> index_ok (erase_socket k s al)"
  unfolding index_ok_iff erase_socket_def
  by (auto simp: update_conv delete_conv distinct_update distinct_delete distinct_removeAll
      simp del: removeAll_filter_not_eq map_of_eq_Some_iff split: option.splits if_splits)

lemma index_ok_distinct: "index_ok al \<Longrightarrow> distinct (sockets_at al k)"
  by (auto simp: index_ok_iff sockets_at_def split: option.splits)

lemma index_ok_key: "index_ok al \<Longrightarrow> sockets_at al k \<noteq> [] \<longleftrightarrow> k \<in> fst ` set al"
  by (auto simp: index_ok_iff sockets_at_def simp del: map_of_eq_Some_iff split: option.splits)
    (metis map_of_eq_None_iff option.distinct(1))

lemma set_concat_index: "index_ok al \<Longrightarrow> s \<in> set (concat (map snd al)) \<longleftrightarrow> (\<exists>k. s \<in> set (sockets_at al k))"
  by (force simp: index_ok_iff sockets_at_def split: option.splits)

lemma fold_erase:
  "sockets_at (fold (\<lambda>t al. erase_socket t s al) ts al) k =
     (if k \<in> set ts then removeAll s (sockets_at al k) else sockets_at al k)"
  by (induction ts arbitrary: al) (auto simp: sockets_at_erase)

lemma fold_erase_ok: "index_ok al \<Longrightarrow> index_ok (fold (\<lambda>t al. erase_socket t s al) ts al)"
  by (induction ts arbitrary: al) (simp_all add: index_ok_erase)

lemma ws_data_update [simp]:
  "ws_data (update_ws_data s f h) s' = (if s' = s then map_option f (ws_data h s) else ws_data h s')"
proof -
  have "map_of (map (\<lambda>(k, d). if k = s then (k, f d) else (k, d)) al) s' =
      (if s' = s then map_option f (map_of al s) else map_of al s')" for al :: "(nat \<times> ws_user_data) list"
    by (induction al) auto
  then show ?thesis by (simp add: ws_data_def update_ws_data_def)
qed

lemma update_ws_data_frame [simp]:
  "h_user_sockets (update_ws_data s f h) = h_user_sockets h"
  "h_topic_subscribers (update_ws_data s f h) = h_topic_subscribers h"
  "h_sent (update_ws_data s f h) = h_sent h"
  "h_published (update_ws_data s f h) = h_published h"
  "h_submitted (update_ws_data s f h) = h_submitted h"
  "h_redis (update_ws_data s f h) = h_redis h"
  by (simp_all add: update_ws_data_def)

lemma send_frame [simp]:
  "h_user_sockets (send s p h) = h_user_sockets h"
  "h_topic_subscribers (send s p h) = h_topic_subscribers h"
  "h_data (send s p h) = h_data h" "h_published (send s p h) = h_published h"
  "h_submitted (send s p h) = h_submitted h" "h_redis (send s p h) = h_redis h"
  by (simp_all add: send_def)

lemma subscribe_topics [simp]:
  "subscribers (local_subscribe s t h) t' =
     (if t' = t then List.insert s (subscribers h t) else subscribers h t')"
  "h_user_sockets (local_subscribe s t h) = h_user_sockets h"
  "ws_data (local_subscribe s t h) s' =
     (if s' = s then map_option (\<lambda>d. d\<lparr>wd_topics := List.insert t (wd_topics d)\<rparr>) (ws_data h s)
      else ws_data h s')"
  by (simp_all add: local_subscribe_def subscribers_def sockets_at_insert ws_data_def [of "h\<lparr>h_topic_subscribers := x\<rparr>" for x]
      ws_data_def [symmetric])

lemma unsubscribe_topics [simp]:
  "subscribers (local_unsubscribe s t h) t' =
     (if t' = t then removeAll s (subscribers h t) else subscribers h t')"
  "h_user_sockets (local_unsubscribe s t h) = h_user_sockets h"
  "ws_data (local_unsubscribe s t h) s' =
     (if s' = s then map_option (\<lambda>d. d\<lparr>wd_topics := removeAll t (wd_topics d)\<rparr>) (ws_data h s)
      else ws_data h s')"
  by (simp_all add: local_unsubscribe_def subscribers_def sockets_at_erase ws_data_def [of "h\<lparr>h_topic_subscribers := x\<rparr>" for x]
      ws_data_def [symmetric])

lemma unsubscribe_all_topics:
  "subscribers (local_unsubscribe_all s h) t =
     (if t \<in> set (topics_of h s) then removeAll s (subscribers h t) else subscribers h t)"
  "h_user_sockets (local_unsubscribe_all s h) = h_user_sockets h"
  "ws_data (local_unsubscribe_all s h) s' =
     (if s' = s then map_option (\<lambda>d. d\<lparr>wd_topics := []\<rparr>) (ws_data h s) else ws_data h s')"
  by (simp_all add: local_unsubscribe_all_def Let_def subscribers_def fold_erase
      ws_data_def [of "update_ws_data a b c\<lparr>h_topic_subscribers := x\<rparr>" for a b c x]
      ws_data_def [symmetric, of "update_ws_data a b c" for a b c])

section \<open>The hub invariant\<close>

text \<open>
  The two indexes and the per-socket reverse index agree, and everything they hold is an open
  socket: this is what keeps \<open>topic_subscribers_\<close> free of dangling pointers.
\<close>

definition hub_ok :: "hub \<Rightarrow> bool" where
  "hub_ok h \<longleftrightarrow> index_ok (h_user_sockets h) \<and> index_ok (h_topic_subscribers h)
     \<and> (\<forall>t s. s \<in> set (subscribers h t) \<longleftrightarrow> t \<in> set (topics_of h s))
     \<and> (\<forall>u s. s \<in> set (user_socks h u) \<longleftrightarrow> map_option wd_user_id (ws_data h s) = Some u)"

lemma hub_okD:
  assumes "hub_ok h"
  shows "index_ok (h_user_sockets h)" "index_ok (h_topic_subscribers h)"
    "s \<in> set (subscribers h t) \<longleftrightarrow> t \<in> set (topics_of h s)"
    "s \<in> set (user_socks h u) \<longleftrightarrow> map_option wd_user_id (ws_data h s) = Some u"
  using assms unfolding hub_ok_def by blast+

lemma subscriber_open: "hub_ok h \<Longrightarrow> s \<in> set (subscribers h t) \<Longrightarrow> ws_data h s \<noteq> None"
  by (cases "ws_data h s") (auto simp: hub_okD topics_of_def)

lemma user_sock_open: "hub_ok h \<Longrightarrow> s \<in> set (user_socks h u) \<Longrightarrow> ws_data h s \<noteq> None"
  by (auto simp: hub_okD)

lemma hub_ok_send [simp]: "hub_ok (send s p h) = hub_ok h"
  by (simp add: hub_ok_def subscribers_def user_socks_def topics_of_def ws_data_def)

lemma hub_ok_publish [simp]: "hub_ok (publish t p h) = hub_ok h"
  by (simp add: publish_def hub_ok_def subscribers_def user_socks_def topics_of_def ws_data_def)

lemma hub_ok_submit [simp]: "hub_ok (submit t h) = hub_ok h"
  by (simp add: submit_def hub_ok_def subscribers_def user_socks_def topics_of_def ws_data_def)

lemma index_ok_subscribe:
  "index_ok (h_topic_subscribers h) \<Longrightarrow> index_ok (h_topic_subscribers (local_subscribe s t h))"
  "index_ok (h_topic_subscribers h) \<Longrightarrow> index_ok (h_topic_subscribers (local_unsubscribe s t h))"
  by (simp_all add: local_subscribe_def local_unsubscribe_def index_ok_insert index_ok_erase)

lemma hub_ok_subscribe:
  assumes "hub_ok h" and "ws_data h s \<noteq> None"
  shows "hub_ok (local_subscribe s t h)"
  using assms unfolding hub_ok_def
  by (auto simp: index_ok_subscribe topics_of_def user_socks_def split: option.splits if_splits)

lemma hub_ok_unsubscribe:
  assumes "hub_ok h" and "ws_data h s \<noteq> None"
  shows "hub_ok (local_unsubscribe s t h)"
  using assms unfolding hub_ok_def
  by (auto simp: index_ok_subscribe topics_of_def user_socks_def split: option.splits if_splits)


text \<open>What the bulk operations preserve: the invariant, and which sockets are open.\<close>

definition same_sockets :: "hub \<Rightarrow> hub \<Rightarrow> bool" where
  "same_sockets h h' \<longleftrightarrow> (\<forall>s. map_option wd_user_id (ws_data h' s) = map_option wd_user_id (ws_data h s))
     \<and> h_user_sockets h' = h_user_sockets h"

lemma same_sockets_refl [simp]: "same_sockets h h"
  by (simp add: same_sockets_def)

lemma same_sockets_open: "same_sockets h h' \<Longrightarrow> ws_data h' s = None \<longleftrightarrow> ws_data h s = None"
  unfolding same_sockets_def by (metis option.map_disc_iff)

lemma user_sock_still_open:
  "same_sockets h h' \<Longrightarrow> hub_ok h \<Longrightarrow> s \<in> set (user_socks h u) \<Longrightarrow> ws_data h' s \<noteq> None"
  using user_sock_open same_sockets_open by metis

lemma same_sockets_subscribe: "same_sockets h h' \<Longrightarrow> same_sockets h (local_subscribe s t h')"
  by (auto simp: same_sockets_def option.map_comp comp_def)

lemma same_sockets_unsubscribe: "same_sockets h h' \<Longrightarrow> same_sockets h (local_unsubscribe s t h')"
  by (auto simp: same_sockets_def option.map_comp comp_def)

lemma fold_hub_ok:
  assumes "hub_ok h"
    and "\<And>s h'. s \<in> set ss \<Longrightarrow> hub_ok h' \<Longrightarrow> same_sockets h h' \<Longrightarrow> hub_ok (f s h') \<and> same_sockets h (f s h')"
  shows "hub_ok (fold f ss h) \<and> same_sockets h (fold f ss h)"
proof -
  have "hub_ok (fold f xs h') \<and> same_sockets h (fold f xs h')"
    if "set xs \<subseteq> set ss" "hub_ok h' \<and> same_sockets h h'" for xs h'
    using that assms(2) by (induction xs arbitrary: h') auto
  then show ?thesis using assms(1) by simp
qed

lemma hub_ok_subscribe_user: "hub_ok h \<Longrightarrow> hub_ok (local_subscribe_user u t h)"
  unfolding local_subscribe_user_def
  by (rule conjunct1, rule fold_hub_ok)
    (blast intro: hub_ok_subscribe same_sockets_subscribe dest: user_sock_still_open)+

lemma hub_ok_unsubscribe_user: "hub_ok h \<Longrightarrow> hub_ok (local_unsubscribe_user u t h)"
  unfolding local_unsubscribe_user_def
  by (rule conjunct1, rule fold_hub_ok)
    (blast intro: hub_ok_unsubscribe same_sockets_unsubscribe dest: user_sock_still_open)+

lemma hub_ok_subscribe_admins: "hub_ok h \<Longrightarrow> hub_ok (local_subscribe_admins t h)"
  unfolding local_subscribe_admins_def
  by (rule conjunct1, rule fold_hub_ok)
    (auto intro!: hub_ok_subscribe same_sockets_subscribe split: option.splits)

lemma fan_out_eq:
  "local_fan_out t p h = h\<lparr>h_sent := h_sent h @ map (\<lambda>s. (s, p)) (subscribers h t)\<rparr>"
proof -
  have "fold (\<lambda>s. send s p) xs h = h\<lparr>h_sent := h_sent h @ map (\<lambda>s. (s, p)) xs\<rparr>" for xs
    by (induction xs arbitrary: h) (simp_all add: send_def)
  then show ?thesis by (simp add: local_fan_out_def)
qed

lemma fan_out_except_eq:
  "fan_out_except skip t p h =
     h\<lparr>h_sent := h_sent h @ map (\<lambda>s. (s, p)) (filter (\<lambda>s. \<not> skip s) (subscribers h t))\<rparr>"
proof -
  have "fold (\<lambda>s h. if skip s then h else send s p h) xs h =
      h\<lparr>h_sent := h_sent h @ map (\<lambda>s. (s, p)) (filter (\<lambda>s. \<not> skip s) xs)\<rparr>" for xs
    by (induction xs arbitrary: h) (simp_all add: send_def)
  then show ?thesis by (simp add: fan_out_except_def)
qed

lemma hub_ok_sent [simp]: "hub_ok (h\<lparr>h_sent := x\<rparr>) = hub_ok h"
  by (simp add: hub_ok_def subscribers_def user_socks_def topics_of_def ws_data_def)

lemma hub_ok_fan_out [simp]: "hub_ok (local_fan_out t p h) = hub_ok h"
  by (simp add: fan_out_eq)

lemma hub_ok_broadcast [simp]: "hub_ok (broadcast_to_topic t p h) = hub_ok h"
  by (simp add: broadcast_to_topic_def)

lemma hub_ok_fan_out_except [simp]: "hub_ok (fan_out_except k t p h) = hub_ok h"
  by (simp add: fan_out_except_eq)

section \<open>Opening and closing\<close>

lemma hub_ok_open:
  assumes ok: "hub_ok h" and fresh: "ws_data h s = None" and "wd_topics d = []"
  shows "hub_ok (ws_open s d h)"
proof -
  let ?h = "h\<lparr>h_data := (s, d) # h_data h,
             h_user_sockets := insert_socket (wd_user_id d) s (h_user_sockets h)\<rparr>"
  have data: "ws_data ?h s' = (if s' = s then Some d else ws_data h s')" for s'
    by (simp add: ws_data_def)
  have subs: "subscribers ?h t = subscribers h t" for t by (simp add: subscribers_def)
  have users: "user_socks ?h u = (if u = wd_user_id d then List.insert s (user_socks h u) else user_socks h u)" for u
    by (simp add: user_socks_def sockets_at_insert)
  have "hub_ok ?h"
    unfolding hub_ok_def
  proof (intro conjI allI)
    show "index_ok (h_user_sockets ?h)" "index_ok (h_topic_subscribers ?h)"
      using ok by (simp_all add: hub_okD index_ok_insert)
    fix t s'
    show "s' \<in> set (subscribers ?h t) \<longleftrightarrow> t \<in> set (topics_of ?h s')"
      using hub_okD(3) [OF ok, of s' t] fresh assms(3) by (simp add: subs topics_of_def data)
    fix u
    show "s' \<in> set (user_socks ?h u) \<longleftrightarrow> map_option wd_user_id (ws_data ?h s') = Some u"
      using hub_okD(4) [OF ok, of s' u] fresh by (auto simp: users data)
  qed
  moreover have "ws_data ?h s \<noteq> None" using data by simp
  ultimately show ?thesis
    by (simp add: ws_open_def Let_def hub_ok_subscribe)
qed

lemma ws_close_data:
  "hub_ok h \<Longrightarrow> ws_data (ws_close s h) s' = (if s' = s then None else ws_data h s')"
  by (auto simp: ws_close_def Let_def submit_def ws_data_def [of "x\<lparr>h_data := y\<rparr>" for x y] delete_conv
      ws_data_def [symmetric, of "local_unsubscribe_all s h"] unsubscribe_all_topics
      ws_data_def [of "x\<lparr>h_submitted := y\<rparr>" for x y] split: option.splits)

lemma ws_close_subscribers:
  assumes "hub_ok h"
  shows "subscribers (ws_close s h) t = removeAll s (subscribers h t)"
proof (cases "ws_data h s")
  case None
  then have "s \<notin> set (subscribers h t)" using subscriber_open [OF assms] by blast
  then show ?thesis using None by (simp add: ws_close_def removeAll_id)
next
  case (Some d)
  have "subscribers (local_unsubscribe_all s h) t = removeAll s (subscribers h t)"
    using hub_okD(3) [OF assms, of s t] by (simp add: unsubscribe_all_topics removeAll_id)
  then show ?thesis using Some
    by (simp add: ws_close_def Let_def submit_def subscribers_def)
qed

lemma ws_close_users:
  assumes "hub_ok h"
  shows "user_socks (ws_close s h) u = removeAll s (user_socks h u)"
proof (cases "ws_data h s")
  case None
  then have "s \<notin> set (user_socks h u)" using user_sock_open [OF assms] by blast
  then show ?thesis using None by (simp add: ws_close_def removeAll_id)
next
  case (Some d)
  then have "u \<noteq> wd_user_id d \<Longrightarrow> s \<notin> set (user_socks h u)"
    using hub_okD(4) [OF assms, of s u] by auto
  then show ?thesis using Some
    by (simp add: ws_close_def Let_def submit_def user_socks_def sockets_at_erase
        unsubscribe_all_topics removeAll_id)
qed

lemma ws_close_indexes:
  assumes "hub_ok h"
  shows "index_ok (h_user_sockets (ws_close s h))" "index_ok (h_topic_subscribers (ws_close s h))"
  using assms
  by (auto simp: ws_close_def Let_def submit_def local_unsubscribe_all_def hub_okD
      index_ok_erase fold_erase_ok split: option.splits)

lemma hub_ok_close: "hub_ok h \<Longrightarrow> hub_ok (ws_close s h)"
  unfolding hub_ok_def [of "ws_close s h"]
  by (auto simp: ws_close_indexes ws_close_subscribers ws_close_users topics_of_def ws_close_data
      hub_okD simp del: removeAll_filter_not_eq split: if_splits)

lemma hub_ok_close_fold: "hub_ok h \<Longrightarrow> hub_ok (fold ws_close ss h)"
  by (induction ss arbitrary: h) (simp_all add: hub_ok_close)

lemma fold_close_data:
  "hub_ok h \<Longrightarrow> ws_data (fold ws_close ss h) s = (if s \<in> set ss then None else ws_data h s)"
  by (induction ss arbitrary: h) (auto simp: ws_close_data hub_ok_close)

lemma hub_ok_disconnect_user: "hub_ok h \<Longrightarrow> hub_ok (local_disconnect_user u h)"
  by (simp add: local_disconnect_user_def hub_ok_close_fold)

lemma hub_ok_fold_send: "hub_ok (fold (\<lambda>s. send s p) ss h) = hub_ok h"
  by (induction ss arbitrary: h) simp_all

lemma hub_ok_disconnect_non_admins: "hub_ok h \<Longrightarrow> hub_ok (local_disconnect_non_admins m h)"
  by (cases m) (simp_all add: local_disconnect_non_admins_def Let_def hub_ok_close_fold hub_ok_fold_send)

lemma hub_ok_control: "hub_ok h \<Longrightarrow> hub_ok (handle_control c h)"
  by (cases c) (simp_all add: handle_control_def hub_ok_subscribe_user hub_ok_unsubscribe_user
      hub_ok_subscribe_admins hub_ok_disconnect_user hub_ok_disconnect_non_admins)

lemma hub_ok_redis: "hub_ok h \<Longrightarrow> hub_ok (on_redis_message t p h)"
  by (auto simp: on_redis_message_def hub_ok_control split: frame.splits)

section \<open>The steps of the event loop\<close>

text \<open>
  One callback, with the arguments the loop gives it: a socket uWebSockets has just accepted or
  closed, a deferred closure of a handler, or an envelope from the subscriber thread. A handler
  only unsubscribes its own open socket (\<open>wiki_leave\<close>), and only deferred closures subscribe the
  sockets of a user.
\<close>

inductive hub_step :: "hub \<Rightarrow> hub \<Rightarrow> bool" where
  open_socket: "ws_data h s = None \<Longrightarrow> wd_topics d = [] \<Longrightarrow> hub_step h (ws_open s d h)"
| close_socket: "hub_step h (ws_close s h)"
| close_all_sockets: "hub_step h (close_all h)"
| subscribe_user: "hub_step h (local_subscribe_user u t h)"
| unsubscribe_user: "hub_step h (local_unsubscribe_user u t h)"
| leave: "ws_data h s \<noteq> None \<Longrightarrow> hub_step h (local_unsubscribe s t h)"
| subscribe_admins: "hub_step h (local_subscribe_admins t h)"
| drop_user: "hub_step h (local_disconnect_user u h)"
| drop_non_admins: "hub_step h (local_disconnect_non_admins m h)"
| redis: "hub_step h (on_redis_message t p h)"
| broadcast: "hub_step h (broadcast_to_topic t p h)"
| relay: "hub_step h (fan_out_except skip t p h)"
| control: "hub_step h (publish_control c h)"
| reply: "ws_data h s \<noteq> None \<Longrightarrow> hub_step h (send s p h)"
| task: "hub_step h (submit tk h)"

definition empty_hub :: "bool \<Rightarrow> hub" where
  "empty_hub redis = \<lparr>h_user_sockets = [], h_topic_subscribers = [], h_data = [], h_redis = redis,
     h_sent = [], h_published = [], h_submitted = []\<rparr>"

inductive hub_reachable :: "hub \<Rightarrow> bool" where
  start: "hub_reachable (empty_hub redis)"
| step: "hub_reachable h \<Longrightarrow> hub_step h h' \<Longrightarrow> hub_reachable h'"

lemma hub_ok_empty: "hub_ok (empty_hub r)"
  by (simp add: hub_ok_def empty_hub_def index_ok_def subscribers_def user_socks_def topics_of_def
      ws_data_def sockets_at_def)

lemma hub_step_ok: "hub_step h h' \<Longrightarrow> hub_ok h \<Longrightarrow> hub_ok h'"
  by (induction rule: hub_step.induct)
    (simp_all add: hub_ok_open hub_ok_close close_all_def hub_ok_close_fold hub_ok_subscribe_user
      hub_ok_unsubscribe_user hub_ok_unsubscribe hub_ok_subscribe_admins hub_ok_disconnect_user
      hub_ok_disconnect_non_admins hub_ok_redis publish_control_def)

lemma reachable_ok: "hub_reachable h \<Longrightarrow> hub_ok h"
  by (induction rule: hub_reachable.induct) (auto simp: hub_ok_empty hub_step_ok)

section \<open>Properties\<close>

text \<open>C10: Whatever sockets opened, closed, joined or left before, a broadcast sends its payload once
  to each socket whose own list holds the topic, to no other socket, and never to one that was
  closed.\<close>

theorem broadcast_reaches_subscribers:
  assumes "hub_reachable h"
  shows "\<exists>ss. h_sent (broadcast_to_topic t p h) = h_sent h @ map (\<lambda>s. (s, p)) ss
    \<and> distinct ss \<and> set ss = {s. t \<in> set (topics_of h s)}
    \<and> (\<forall>s \<in> set ss. ws_data h s \<noteq> None)"
proof (intro exI conjI ballI)
  note ok = reachable_ok [OF assms]
  show "h_sent (broadcast_to_topic t p h) = h_sent h @ map (\<lambda>s. (s, p)) (subscribers h t)"
    by (simp add: broadcast_to_topic_def publish_def fan_out_eq)
  show "distinct (subscribers h t)"
    unfolding subscribers_def using hub_okD(2) [OF ok] by (rule index_ok_distinct)
  show "set (subscribers h t) = {s. t \<in> set (topics_of h s)}" using hub_okD(3) [OF ok] by blast
  show "ws_data h s \<noteq> None" if "s \<in> set (subscribers h t)" for s
    using subscriber_open [OF ok that] .
qed

definition example_user :: "string \<Rightarrow> string \<Rightarrow> ws_user_data" where
  "example_user u r = \<lparr>wd_user_id = u, wd_username = u, wd_role = r, wd_rl_tokens = 20,
     wd_rl_last_refill = 0, wd_topics = []\<rparr>"

definition example_hub :: hub where
  "example_hub = ws_open 2 (example_user ''bob'' ''user'') (ws_open 1 (example_user ''ann'' ''admin'') (empty_hub False))"

lemma example_reachable: "hub_reachable example_hub"
proof -
  have "hub_reachable (ws_open 1 (example_user ''ann'' ''admin'') (empty_hub False))"
    by (rule hub_reachable.step [OF hub_reachable.start], rule hub_step.open_socket)
      (simp_all add: ws_data_def empty_hub_def example_user_def)
  then show ?thesis unfolding example_hub_def
    by (rule hub_reachable.step, intro hub_step.open_socket)
      (simp_all add: ws_data_def ws_open_def Let_def submit_def local_subscribe_def update_ws_data_def
        empty_hub_def example_user_def)
qed

lemma broadcast_reaches_subscribers_witness:
  "\<exists>ss. h_sent (broadcast_to_topic ''presence'' FPong example_hub) = h_sent example_hub @ map (\<lambda>s. (s, FPong)) ss
    \<and> distinct ss \<and> set ss = {s. ''presence'' \<in> set (topics_of example_hub s)}
    \<and> (\<forall>s \<in> set ss. ws_data example_hub s \<noteq> None)"
  by (rule broadcast_reaches_subscribers [OF example_reachable])

lemma publish_frame [simp]:
  "ws_data (publish t p h) s = ws_data h s" "subscribers (publish t p h) t' = subscribers h t'"
  "user_socks (publish t p h) u = user_socks h u" "h_sent (publish t p h) = h_sent h"
  by (simp_all add: publish_def ws_data_def subscribers_def user_socks_def)

lemma fold_close_subscribers:
  "hub_ok h \<Longrightarrow> set (subscribers (fold ws_close ss h) t) = set (subscribers h t) - set ss"
  by (induction ss arbitrary: h) (auto simp: ws_close_subscribers hub_ok_close)

lemma fold_close_users:
  "hub_ok h \<Longrightarrow> set (user_socks (fold ws_close ss h) u) = set (user_socks h u) - set ss"
  by (induction ss arbitrary: h) (auto simp: ws_close_users hub_ok_close)

text \<open>Disconnecting a user (a ban) closes every socket of that user and leaves no trace of them in
  any topic, and every other socket keeps its data and its subscriptions.\<close>

theorem disconnect_user_complete:
  assumes "hub_reachable h"
  shows "user_socks (disconnect_user u h) u = [] \<and>
    (\<forall>s. if s \<in> set (user_socks h u)
      then ws_data (disconnect_user u h) s = None
        \<and> (\<forall>t. s \<notin> set (subscribers (disconnect_user u h) t))
      else ws_data (disconnect_user u h) s = ws_data h s
        \<and> (\<forall>t. s \<in> set (subscribers (disconnect_user u h) t) \<longleftrightarrow> s \<in> set (subscribers h t)))"
proof -
  note ok = reachable_ok [OF assms]
  have "set (user_socks (disconnect_user u h) u) = {}"
    by (simp add: disconnect_user_def publish_control_def local_disconnect_user_def fold_close_users [OF ok])
  then show ?thesis
    by (auto simp: disconnect_user_def publish_control_def local_disconnect_user_def
        fold_close_data [OF ok] fold_close_subscribers [OF ok])
qed

lemma disconnect_user_complete_witness:
  "user_socks (disconnect_user ''bob'' example_hub) ''bob'' = []"
  using disconnect_user_complete [OF example_reachable, of "''bob''"] by blast

lemma non_admin_sockets_iff:
  "hub_ok h \<Longrightarrow> s \<in> set (non_admin_sockets h) \<longleftrightarrow> (\<exists>d. ws_data h s = Some d \<and> \<not> is_admin_data d)"
  by (auto simp: non_admin_sockets_def set_concat_index [OF hub_okD(1), of h]
      hub_okD(4) [unfolded user_socks_def] simp del: set_concat split: option.splits)

lemma fold_send_eq: "fold (\<lambda>s. send s p) ss h = h\<lparr>h_sent := h_sent h @ map (\<lambda>s. (s, p)) ss\<rparr>"
  by (induction ss arbitrary: h) (simp_all add: send_def)

lemma sent_frame [simp]: "ws_data (h\<lparr>h_sent := x\<rparr>) s = ws_data h s"
  by (simp add: ws_data_def)

lemma ws_close_sent: "h_sent (ws_close s h) = h_sent h"
  by (simp add: ws_close_def Let_def submit_def local_unsubscribe_all_def split: option.split)

lemma fold_close_sent: "h_sent (fold ws_close ss h) = h_sent h"
  by (induction ss arbitrary: h) (simp_all add: ws_close_sent)

text \<open>A lockdown leaves open exactly the sockets of admins and owners, untouched, and every other
  socket was sent the notice before it was closed.\<close>

theorem lockdown_keeps_admins:
  assumes "hub_reachable h"
  shows "(\<forall>s. ws_data (disconnect_non_admins (Some m) h) s =
            (case ws_data h s of Some d \<Rightarrow> if is_admin_data d then Some d else None | None \<Rightarrow> None))
    \<and> (\<forall>s d. ws_data h s = Some d \<and> \<not> is_admin_data d \<longrightarrow>
            (s, FRest m) \<in> set (h_sent (disconnect_non_admins (Some m) h)))"
proof -
  note ok = reachable_ok [OF assms]
  let ?ss = "non_admin_sockets h"
  have ok': "hub_ok (fold (\<lambda>s. send s (FRest m)) ?ss h)" using ok by (simp add: hub_ok_fold_send)
  have data: "ws_data (disconnect_non_admins (Some m) h) s = (if s \<in> set ?ss then None else ws_data h s)" for s
    by (simp add: disconnect_non_admins_def publish_control_def local_disconnect_non_admins_def Let_def
        fold_close_data [OF ok']) (simp add: fold_send_eq)
  moreover have "(s, FRest m) \<in> set (h_sent (disconnect_non_admins (Some m) h))" if "s \<in> set ?ss" for s
    using that by (simp add: disconnect_non_admins_def publish_control_def local_disconnect_non_admins_def
        Let_def fold_close_sent fold_send_eq)
  ultimately show ?thesis by (auto simp: non_admin_sockets_iff [OF ok] split: option.splits)
qed

lemma lockdown_keeps_admins_witness:
  "ws_data (disconnect_non_admins (Some ''bye'') example_hub) 2 = None"
  using lockdown_keeps_admins [OF example_reachable, of "''bye''"]
  by (auto simp: example_hub_def ws_data_def ws_open_def Let_def submit_def local_subscribe_def
      update_ws_data_def empty_hub_def example_user_def)

end
