(* ===== verification/Web.thy ===== *)
theory Web
  imports Listings Replies Uploads Ws_Hub Http_Utils
begin

text \<open>
  What the handlers of spaces, channels and tools share: the environment of a request, the session
  check in front, and the effects a handler defers to the event loop. A handler maps the tables to
  an answer, the new tables and the effects; None is an exception that nothing catches, after which
  the request is never answered. Effects run whether or not the client is still there.
\<close>

section \<open>Environment\<close>

text \<open>\<open>we_id\<close> are the keys the database generates, in the order in which it does.\<close>

record web_env =
  we_now :: time
  we_id :: "nat \<Rightarrow> string"
  we_random_hex :: "string option"
  we_io :: io
  we_pg :: pg
  we_what :: "exn \<Rightarrow> string"
  we_time_text :: "time \<Rightarrow> string"
  we_parse_time :: "string \<Rightarrow> time option"
  we_dump :: "json \<Rightarrow> string"

section \<open>Effects on the sockets\<close>

datatype effect =
    Subscribe_channel string string
  | Unsubscribe_channel string string
  | Admins_channel string
  | Subscribe_space string string
  | Unsubscribe_space string string
  | Admins_space string
  | To_channel string json
  | To_space string json
  | To_user string json
  | To_presence json
  | Disconnect_user string
  | Disconnect_non_admins "string option"

definition run_effect :: "(json \<Rightarrow> string) \<Rightarrow> effect \<Rightarrow> hub \<Rightarrow> hub" where
  "run_effect dump e h =
     (case e of
        Subscribe_channel u c \<Rightarrow> subscribe_user_to_channel u c h
      | Unsubscribe_channel u c \<Rightarrow> unsubscribe_user_from_channel u c h
      | Admins_channel c \<Rightarrow> subscribe_admins_to_channel c h
      | Subscribe_space u s \<Rightarrow> subscribe_user_to_space u s h
      | Unsubscribe_space u s \<Rightarrow> unsubscribe_user_from_space u s h
      | Admins_space s \<Rightarrow> subscribe_admins_to_space s h
      | To_channel c j \<Rightarrow> broadcast_to_channel c (FRest (dump j)) h
      | To_space s j \<Rightarrow> broadcast_to_space s (FRest (dump j)) h
      | To_user u j \<Rightarrow> send_to_user u (FRest (dump j)) h
      | To_presence j \<Rightarrow> broadcast_to_presence (FRest (dump j)) h
      | Disconnect_user u \<Rightarrow> disconnect_user u h
      | Disconnect_non_admins m \<Rightarrow> disconnect_non_admins m h)"

definition run_effects :: "(json \<Rightarrow> string) \<Rightarrow> effect list \<Rightarrow> hub \<Rightarrow> hub" where
  "run_effects dump es h = fold (run_effect dump) es h"

section \<open>Answers\<close>

type_synonym 's outcome = "(reply \<times> 's \<times> effect list) option"

definition refuse :: "string \<Rightarrow> string \<Rightarrow> 's \<Rightarrow> 's outcome" where
  "refuse status m s = Some (err_reply status m, s, [])"

definition refuse_flagged :: "string \<Rightarrow> string \<Rightarrow> 's \<Rightarrow> 's outcome" where
  "refuse_flagged m flag s =
     Some (\<lparr>rp_status = ''400'', rp_cookies = [],
             rp_body = JObject [(''error'', JString m), (flag, JBool True)]\<rparr>, s, [])"

definition failed :: "web_env \<Rightarrow> exn \<Rightarrow> 's \<Rightarrow> 's outcome" where
  "failed env e s = refuse ''400'' (we_what env e) s"

definition answer :: "json \<Rightarrow> 's \<Rightarrow> effect list \<Rightarrow> 's outcome" where
  "answer j s es = Some (ok_reply j, s, es)"

definition done_with :: "'s \<Rightarrow> effect list \<Rightarrow> 's outcome" where
  "done_with s es = Some (done_reply, s, es)"

definition signed_in :: "web_env \<Rightarrow> string \<Rightarrow> (string \<Rightarrow> db \<Rightarrow> db outcome) \<Rightarrow> db \<Rightarrow> db outcome" where
  "signed_in env token rest d =
     (case validate_session d (we_now env) token of
        None \<Rightarrow> refuse ''401'' ''Unauthorized'' d | Some user_id \<Rightarrow> rest user_id d)"

text \<open>A JSON body; None is one that does not parse.\<close>

definition with_body :: "web_env \<Rightarrow> json option \<Rightarrow> (json \<Rightarrow> 's \<Rightarrow> 's outcome) \<Rightarrow> 's \<Rightarrow> 's outcome" where
  "with_body env body rest d = (case body of None \<Rightarrow> failed env Parse_error d | Some j \<Rightarrow> rest j d)"

text \<open>A value that may be an exception, caught by the handler.\<close>

definition or_fail :: "web_env \<Rightarrow> exn + 'a \<Rightarrow> ('a \<Rightarrow> 's \<Rightarrow> 's outcome) \<Rightarrow> 's \<Rightarrow> 's outcome" where
  "or_fail env v rest d = (case v of Inl e \<Rightarrow> failed env e d | Inr x \<Rightarrow> rest x d)"

definition db_or_fail :: "web_env \<Rightarrow> db_error + 'a \<Rightarrow> ('a \<Rightarrow> 's \<Rightarrow> 's outcome) \<Rightarrow> 's \<Rightarrow> 's outcome" where
  "db_or_fail env v rest d = (case v of Inl e \<Rightarrow> failed env (Db_exn e) d | Inr x \<Rightarrow> rest x d)"

section \<open>Roles\<close>

definition server_admin :: "db \<Rightarrow> string \<Rightarrow> bool" where
  "server_admin d user_id =
     (case find_user_by_id d user_id of Some u \<Rightarrow> is_admin_role (u_role u) | None \<Rightarrow> False)"

definition space_manager :: "db \<Rightarrow> string \<Rightarrow> string \<Rightarrow> bool" where
  "space_manager d space_id user_id \<longleftrightarrow>
     is_admin_role (get_space_member_role d space_id user_id) \<or> server_admin d user_id"

text \<open>The higher of the rank in the space and what the server role gives.\<close>

definition actor_space_rank :: "db \<Rightarrow> string \<Rightarrow> string \<Rightarrow> int" where
  "actor_space_rank d space_id user_id =
     (let r = space_role_rank (get_space_member_role d space_id user_id)
      in case find_user_by_id d user_id of
           None \<Rightarrow> r
         | Some u \<Rightarrow>
             if u_role u = ''owner'' then space_role_rank ''owner''
             else if u_role u = ''admin'' \<and> r < space_role_rank ''admin'' then space_role_rank ''admin''
             else r)"

definition is_personal_space :: "db \<Rightarrow> string \<Rightarrow> bool" where
  "is_personal_space d space_id =
     (case find_space_by_id d space_id of Some s \<Rightarrow> sp_is_personal s | None \<Rightarrow> False)"

section \<open>What the answers show\<close>

definition opt_time_text :: "web_env \<Rightarrow> time option \<Rightarrow> string" where
  "opt_time_text env t = (case t of None \<Rightarrow> '''' | Some x \<Rightarrow> we_time_text env x)"

definition member_json :: "web_env \<Rightarrow> member_view \<Rightarrow> json" where
  "member_json env m =
     JObject [(''id'', JString (mb_user_id m)), (''username'', JString (mb_username m)),
       (''display_name'', JString (mb_display_name m)), (''is_online'', JBool (mb_is_online m)),
       (''last_seen'', JString (opt_time_text env (mb_last_seen m))), (''role'', JString (mb_role m))]"

definition channel_members_json :: "web_env \<Rightarrow> db \<Rightarrow> string \<Rightarrow> json" where
  "channel_members_json env d channel_id =
     JArray (map (member_json env) (get_channel_members_with_roles (we_pg env) d channel_id))"

definition space_members_json :: "web_env \<Rightarrow> db \<Rightarrow> string \<Rightarrow> json" where
  "space_members_json env d space_id =
     JArray (map (member_json env) (get_space_members_with_roles (we_pg env) d space_id))"

text \<open>The fields of a channel that every answer with a channel has.\<close>

definition channel_base :: "channel \<Rightarrow> (string \<times> json) list" where
  "channel_base c =
     [(''id'', JString (ch_id c)), (''name'', JString (ch_name c)),
      (''description'', JString (ch_description c)), (''is_public'', JBool (ch_is_public c)),
      (''default_role'', JString (ch_default_role c))]"

definition channel_full :: "web_env \<Rightarrow> channel \<Rightarrow> (string \<times> json) list" where
  "channel_full env c = channel_base c @
     [(''is_direct'', JBool (ch_is_direct c)), (''default_join'', JBool (ch_default_join c)),
      (''space_id'', JString (ch_space_id c)), (''is_archived'', JBool (ch_is_archived c)),
      (''created_at'', JString (we_time_text env (ch_created_at c)))]"

definition space_base :: "space \<Rightarrow> (string \<times> json) list" where
  "space_base s =
     [(''id'', JString (sp_id s)), (''name'', JString (sp_name s)),
      (''description'', JString (sp_description s)), (''is_public'', JBool (sp_is_public s)),
      (''default_role'', JString (sp_default_role s)),
      (''avatar_file_id'', JString (sp_avatar_file_id s)), (''profile_color'', JString (sp_profile_color s))]"

definition space_brief :: "space \<Rightarrow> json" where
  "space_brief s = JObject (space_base s @
     [(''is_personal'', JBool (sp_is_personal s)), (''personal_owner_id'', JString (sp_personal_owner_id s))])"

definition space_full :: "web_env \<Rightarrow> space \<Rightarrow> (string \<times> json) list" where
  "space_full env s = space_base s @
     [(''is_personal'', JBool (sp_is_personal s)), (''personal_owner_id'', JString (sp_personal_owner_id s)),
      (''created_at'', JString (we_time_text env (sp_created_at s))), (''is_archived'', JBool (sp_is_archived s))]"

definition notice :: "string \<Rightarrow> (string \<times> json) list \<Rightarrow> json" where
  "notice type kvs = JObject ((''type'', JString type) # kvs)"

end
