(* ===== verification/Space_Handler.thy ===== *)
theory Space_Handler
  imports Web
begin

text \<open>
  The endpoints of \<open>handlers/space_handler.cpp\<close>: spaces and their members, invites, the channels of
  a space, conversations, tools and shared resources; with the methods of \<open>db/database.cpp\<close> on
  invites and shared resources.
\<close>

section \<open>Invites and shared resources in the database\<close>

definition create_space_invite ::
  "db \<Rightarrow> string \<Rightarrow> time \<Rightarrow> string \<Rightarrow> string \<Rightarrow> string \<Rightarrow> string \<Rightarrow> db_error + string \<times> db" where
  "create_space_invite d new_id now space_id invited_user_id invited_by role =
     (if \<not> varchar_ok 20 role then Inl too_long
      else if has_key si_id new_id (space_invites d) then Inl UniqueViolation
      else if has_key sp_id space_id (spaces d) \<and> has_key u_id invited_user_id (users d)
              \<and> has_key u_id invited_by (users d)
      then Inr (new_id, d\<lparr>space_invites := space_invites d @
        [\<lparr>si_id = new_id, si_space_id = space_id, si_invited_user_id = invited_user_id,
          si_invited_by = invited_by, si_role = role, si_status = ''pending'', si_created_at = now\<rparr>]\<rparr>)
      else Inl ForeignKeyViolation)"

text \<open>The joins drop no row: space and inviter exist by the foreign keys.\<close>

definition get_space_invite :: "db \<Rightarrow> string \<Rightarrow> space_invite option" where
  "get_space_invite d invite_id = first_row (filter (\<lambda>i. si_id i = invite_id) (space_invites d))"

definition list_pending_space_invites :: "db \<Rightarrow> string \<Rightarrow> space_invite list" where
  "list_pending_space_invites d user_id =
     sort_key (\<lambda>i. - si_created_at i)
       (filter (\<lambda>i. si_invited_user_id i = user_id \<and> si_status i = ''pending'') (space_invites d))"

definition update_space_invite_status :: "db \<Rightarrow> string \<Rightarrow> string \<Rightarrow> db" where
  "update_space_invite_status d invite_id status =
     d\<lparr>space_invites := map (\<lambda>i. if si_id i = invite_id then i\<lparr>si_status := status\<rparr> else i) (space_invites d)\<rparr>"

definition has_pending_space_invite :: "db \<Rightarrow> string \<Rightarrow> string \<Rightarrow> bool" where
  "has_pending_space_invite d space_id user_id =
     list_ex (\<lambda>i. si_space_id i = space_id \<and> si_invited_user_id i = user_id \<and> si_status i = ''pending'')
       (space_invites d)"

record shared_resource =
  sr_id :: string
  sr_name :: string
  sr_space_id :: string
  sr_owner_username :: string
  sr_permission :: string
  sr_resource_type :: string

text \<open>The personal space of a row and its owner, for a user who is not the owner.\<close>

definition shared_space :: "db \<Rightarrow> string \<Rightarrow> string \<Rightarrow> (space \<times> user) list" where
  "shared_space d space_id user_id =
     concat (map (\<lambda>s. map (Pair s) (filter (\<lambda>u. u_id u = sp_personal_owner_id s) (users d)))
       (filter (\<lambda>s. sp_id s = space_id \<and> sp_is_personal s \<and> sp_personal_owner_id s \<noteq> user_id) (spaces d)))"

definition list_shared_with_user :: "db \<Rightarrow> string \<Rightarrow> shared_resource list" where
  "list_shared_with_user d user_id =
     concat (map (\<lambda>p. concat (map (\<lambda>f. map (\<lambda>(s, u).
           \<lparr>sr_id = sf_id f, sr_name = sf_name f, sr_space_id = sf_space_id f, sr_owner_username = u_username u,
            sr_permission = fp_permission p, sr_resource_type = ''file''\<rparr>) (shared_space d (sf_space_id f) user_id))
         (filter (\<lambda>f. sf_id f = fp_file_id p \<and> \<not> sf_is_deleted f) (space_files d))))
       (filter (\<lambda>p. fp_user_id p = user_id) (space_file_permissions d)))
     @ concat (map (\<lambda>p. concat (map (\<lambda>w. map (\<lambda>(s, u).
           \<lparr>sr_id = wp_id w, sr_name = wp_title w, sr_space_id = wp_space_id w, sr_owner_username = u_username u,
            sr_permission = wpp_permission p, sr_resource_type = ''wiki_page''\<rparr>) (shared_space d (wp_space_id w) user_id))
         (filter (\<lambda>w. wp_id w = wpp_page_id p \<and> \<not> wp_is_deleted w) (wiki_pages d))))
       (filter (\<lambda>p. wpp_user_id p = user_id) (wiki_page_permissions d)))
     @ concat (map (\<lambda>(type, tab). concat (map (\<lambda>p. map (\<lambda>(s, u).
           \<lparr>sr_id = sp_id s, sr_name = sp_name s, sr_space_id = sp_id s, sr_owner_username = u_username u,
            sr_permission = tp_permission p, sr_resource_type = type\<rparr>) (shared_space d (tp_space_id p) user_id))
         (filter (\<lambda>p. tp_user_id p = user_id) tab)))
       [(''calendar'', calendar_permissions d), (''task_board'', task_board_permissions d)])"

section \<open>Listing, creating and changing spaces\<close>

text \<open>\<open>limit\<close> and \<open>offset\<close> of a listing; None is the early refusal.\<close>

definition page_params :: "string \<Rightarrow> string \<Rightarrow> (nat \<times> nat) option" where
  "page_params limit_str offset_str =
     (let limit = nat (max 1 (min 500 (safe_parse_int_default limit_str 100)))
      in case safe_parse_int offset_str of
           None \<Rightarrow> Some (limit, 0) | Some off \<Rightarrow> if off < 0 then None else Some (limit, nat off))"

definition with_page ::
  "string \<Rightarrow> string \<Rightarrow> (nat \<Rightarrow> nat \<Rightarrow> db \<Rightarrow> db outcome) \<Rightarrow> db \<Rightarrow> db outcome" where
  "with_page limit_str offset_str rest d =
     (case page_params limit_str offset_str of
        None \<Rightarrow> refuse ''400'' ''offset must be non-negative'' d | Some (limit, offset) \<Rightarrow> rest limit offset d)"

text \<open>
  With personal spaces enabled, a user none of whose listed spaces is his own gets it created, or
  added at the front; then the tools of the first own one are synchronised.
\<close>

definition with_personal ::
  "web_env \<Rightarrow> string \<Rightarrow> space list \<Rightarrow> db \<Rightarrow> (space list \<times> db) option" where
  "with_personal env user_id listed d =
     (let own = (\<lambda>s. sp_is_personal s \<and> sp_personal_owner_id s = user_id);
          sync = (\<lambda>(l, d). case first_row (filter own l) of
                    None \<Rightarrow> (l, d) | Some s \<Rightarrow> (l, sync_personal_space_tools d (sp_id s)))
      in case find_user_by_id d user_id of
           Some u \<Rightarrow>
             if list_ex own listed then Some (sync (listed, d))
             else (case get_or_create_personal_space d (we_id env 0) (we_now env) user_id (u_display_name u) of
                     Inl e \<Rightarrow> None
                   | Inr (ps, d1) \<Rightarrow> Some (sync (ps # listed, sync_personal_space_tools d1 (sp_id ps))))
         | None \<Rightarrow> Some (sync (listed, d)))"

definition known_tools :: "string list" where
  "known_tools = [''files'', ''calendar'', ''tasks'', ''wiki'', ''minigames'', ''sandbox'']"

definition space_list_json :: "web_env \<Rightarrow> db \<Rightarrow> string \<Rightarrow> bool \<Rightarrow> space \<Rightarrow> json" where
  "space_list_json env d user_id is_server_admin s =
     (let role = get_space_member_role d (sp_id s) user_id
      in JObject (space_full env s @
           [(''my_role'', JString (if role = [] \<and> is_server_admin then ''admin'' else role)),
            (''members'', space_members_json env d (sp_id s)),
            (''enabled_tools'', JArray (map JString (get_space_tools (we_pg env) d (sp_id s))))]
           @ (if sp_is_personal s
              then [(''allowed_tools'', JArray (map JString (filter (personal_tool_allowed d) known_tools)))]
              else [])))"

definition space_list :: "web_env \<Rightarrow> string \<Rightarrow> string \<Rightarrow> string \<Rightarrow> db \<Rightarrow> db outcome" where
  "space_list env token limit_str offset_str =
     with_page limit_str offset_str (\<lambda>limit offset. signed_in env token (\<lambda>user_id d.
       let admin = server_admin d user_id;
           listed = list_visible_spaces_for_user (we_pg env) d user_id admin limit offset;
           enabled = (get_setting d ''personal_spaces_enabled'' = Some ''true'')
       in case (if enabled then with_personal env user_id listed d else Some (listed, d)) of
            None \<Rightarrow> None
          | Some (shown, d1) \<Rightarrow>
              answer (JArray (map (space_list_json env d1 user_id admin)
                (filter (\<lambda>s. \<not> (sp_is_personal s \<and> \<not> enabled \<and> (sp_personal_owner_id s \<noteq> user_id \<or> \<not> admin)))
                  shown))) d1 []))"

definition space_browse :: "web_env \<Rightarrow> string \<Rightarrow> string \<Rightarrow> db \<Rightarrow> db outcome" where
  "space_browse env token search = signed_in env token (\<lambda>user_id d.
     answer (JArray (map (\<lambda>s. JObject (space_base s @ [(''is_archived'', JBool (sp_is_archived s)),
         (''created_at'', JString (we_time_text env (sp_created_at s)))]))
       (filter (\<lambda>s. \<not> sp_is_personal s) (list_public_spaces (we_pg env) d user_id search)))) d [])"

definition space_create :: "web_env \<Rightarrow> string \<Rightarrow> json option \<Rightarrow> db \<Rightarrow> db outcome" where
  "space_create env token body = signed_in env token (\<lambda>user_id d.
     if \<not> server_admin d user_id then refuse ''403'' ''Only server admins can create spaces'' d
     else with_body env body (\<lambda>j.
       or_fail env (at_str j ''name'') (\<lambda>name.
       or_fail env (value_str j ''description'' '''') (\<lambda>description.
       or_fail env (value_bool j ''is_public'' True) (\<lambda>is_public.
       or_fail env (value_str j ''default_role'' ''user'') (\<lambda>default_role d.
         db_or_fail env (create_space d (we_id env 0) (we_now env) name description is_public user_id default_role)
           (\<lambda>(s, d1) _. answer (JObject (space_full env s @
               [(''my_role'', JString ''owner''), (''members'', space_members_json env d1 (sp_id s))]))
             d1 [Admins_space (sp_id s)]) d))))) d)"

definition space_details :: "web_env \<Rightarrow> string \<Rightarrow> string \<Rightarrow> db \<Rightarrow> db outcome" where
  "space_details env token space_id = signed_in env token (\<lambda>user_id d.
     case find_space_by_id d space_id of
       None \<Rightarrow> refuse ''404'' ''Space not found'' d
     | Some s \<Rightarrow>
         (let admin = server_admin d user_id; role = get_space_member_role d space_id user_id
          in if \<not> sp_is_public s \<and> \<not> admin \<and> \<not> is_space_member d space_id user_id
             then refuse ''403'' ''Not a member of this space'' d
             else answer (JObject (space_full env s @
               [(''my_role'', JString (if role = [] \<and> admin then ''admin'' else role)),
                (''members'', space_members_json env d space_id)])) d []))"

definition space_settings :: "web_env \<Rightarrow> string \<Rightarrow> string \<Rightarrow> json option \<Rightarrow> db \<Rightarrow> db outcome" where
  "space_settings env token space_id body = signed_in env token (\<lambda>user_id d.
     if \<not> space_manager d space_id user_id then refuse ''403'' ''Admin permission required'' d
     else case find_space_by_id d space_id of
       None \<Rightarrow> refuse ''404'' ''Space not found'' d
     | Some cur \<Rightarrow> with_body env body (\<lambda>j.
         or_fail env (value_str j ''name'' (sp_name cur)) (\<lambda>name.
         or_fail env (value_str j ''description'' (sp_description cur)) (\<lambda>description.
         or_fail env (value_bool j ''is_public'' (sp_is_public cur)) (\<lambda>is_public.
         or_fail env (value_str j ''default_role'' (sp_default_role cur)) (\<lambda>default_role.
         or_fail env (value_str j ''profile_color'' (sp_profile_color cur)) (\<lambda>profile_color d.
           db_or_fail env (update_space d space_id name description is_public default_role profile_color)
             (\<lambda>(s, d1) _. answer (space_brief s) d1
               [To_space space_id (notice ''space_updated'' [(''space'', space_brief s)])]) d)))))) d)"

section \<open>Joining, inviting, removing\<close>

text \<open>The new member joins the default channels that he is not yet in; None is an exception.\<close>

definition channel_added :: "web_env \<Rightarrow> db \<Rightarrow> channel \<Rightarrow> string \<Rightarrow> json" where
  "channel_added env d c user_id =
     notice ''channel_added'' [(''channel'', JObject (channel_full env c @
       [(''my_role'', JString (get_effective_role d (ch_id c) user_id)),
        (''members'', channel_members_json env d (ch_id c))]))]"

fun join_defaults :: "web_env \<Rightarrow> string \<Rightarrow> channel list \<Rightarrow> db \<Rightarrow> (db \<times> effect list) option" where
  "join_defaults env user_id [] d = Some (d, [])"
| "join_defaults env user_id (c # cs) d =
     (if is_channel_member d (ch_id c) user_id then join_defaults env user_id cs d
      else case add_channel_member d (ch_id c) user_id (ch_default_role c) of
             Inl e \<Rightarrow> None
           | Inr d1 \<Rightarrow>
               (case join_defaults env user_id cs d1 of
                  None \<Rightarrow> None
                | Some (d2, es) \<Rightarrow> Some (d2,
                    [Subscribe_channel user_id (ch_id c), To_user user_id (channel_added env d1 c user_id)] @ es)))"

definition space_join :: "web_env \<Rightarrow> string \<Rightarrow> string \<Rightarrow> db \<Rightarrow> db outcome" where
  "space_join env token space_id = signed_in env token (\<lambda>user_id d.
     case find_space_by_id d space_id of
       None \<Rightarrow> refuse ''404'' ''Space not found'' d
     | Some s \<Rightarrow>
         if \<not> sp_is_public s then refuse ''403'' ''This is a private space. You need an invite.'' d
         else case add_space_member d space_id user_id (sp_default_role s) of
           Inl e \<Rightarrow> None
         | Inr d1 \<Rightarrow>
             (case join_defaults env user_id (get_default_join_channels d1 space_id) d1 of
                None \<Rightarrow> None
              | Some (d2, es) \<Rightarrow> done_with d2 (Subscribe_space user_id space_id # es)))"

definition valid_space_role :: "string \<Rightarrow> bool" where
  "valid_space_role r \<longleftrightarrow> r = ''owner'' \<or> r = ''admin'' \<or> r = ''user''"

text \<open>\<open>sp\<close> is the row of the space, which may be missing for a server admin.\<close>

definition send_invite ::
  "web_env \<Rightarrow> string \<Rightarrow> space option \<Rightarrow> string \<Rightarrow> string \<Rightarrow> string \<Rightarrow> db \<Rightarrow> db outcome" where
  "send_invite env space_id sp user_id target member_role d =
     db_or_fail env (create_space_invite d (we_id env 0) (we_now env) space_id target user_id member_role)
       (\<lambda>(invite_id, d1) _.
          let space_name = (case sp of None \<Rightarrow> '''' | Some s \<Rightarrow> sp_name s);
              inviter = (case find_user_by_id d1 user_id of None \<Rightarrow> '''' | Some u \<Rightarrow> u_username u);
              content = ''Invited you to '' @ (case sp of None \<Rightarrow> ''a space'' | Some s \<Rightarrow> sp_name s)
          in db_or_fail env (create_notification (pg_encodable (we_pg env)) d1 (we_id env 1) (we_now env) target
                 ''space_invite'' user_id '''' '''' content)
               (\<lambda>(nid, d2) _. done_with d2
                  [To_user target (notice ''space_invite'' [(''invite'', JObject
                     [(''id'', JString invite_id), (''space_id'', JString space_id),
                      (''space_name'', JString space_name), (''invited_by_username'', JString inviter),
                      (''role'', JString member_role), (''created_at'', JString '''')])]),
                   To_user target (notice ''new_notification'' [(''notification'', JObject
                     [(''id'', JString nid), (''user_id'', JString target), (''type'', JString ''space_invite''),
                      (''source_user_id'', JString user_id), (''source_username'', JString inviter),
                      (''channel_id'', JString ''''), (''channel_name'', JString ''''), (''message_id'', JString ''''),
                      (''space_id'', JString space_id), (''content'', JString content),
                      (''created_at'', JString ''''), (''is_read'', JBool False)])])]) d1) d"

definition space_invite_member :: "web_env \<Rightarrow> string \<Rightarrow> string \<Rightarrow> json option \<Rightarrow> db \<Rightarrow> db outcome" where
  "space_invite_member env token space_id body = signed_in env token (\<lambda>user_id d.
     if is_personal_space d space_id then refuse ''400'' ''Cannot invite members to a personal space'' d
     else if \<not> space_manager d space_id user_id then refuse ''403'' ''Admin permission required'' d
     else with_body env body (\<lambda>j.
       or_fail env (at_str j ''user_id'') (\<lambda>target d.
         let sp = find_space_by_id d space_id
         in or_fail env (value_str j ''role'' (case sp of None \<Rightarrow> ''user'' | Some s \<Rightarrow> sp_default_role s))
              (\<lambda>member_role d.
                 if \<not> valid_space_role member_role then refuse ''400'' ''Invalid role'' d
                 else if space_role_rank member_role > actor_space_rank d space_id user_id
                 then refuse ''403'' ''Cannot invite above your own rank'' d
                 else if is_space_member d space_id target
                 then refuse ''400'' ''User is already a member of this space'' d
                 else if has_pending_space_invite d space_id target
                 then refuse ''400'' ''An invite is already pending for this user'' d
                 else send_invite env space_id sp user_id target member_role d) d)) d)"

definition space_kick :: "web_env \<Rightarrow> string \<Rightarrow> string \<Rightarrow> string \<Rightarrow> db \<Rightarrow> db outcome" where
  "space_kick env token space_id target = signed_in env token (\<lambda>user_id d.
     if \<not> space_manager d space_id user_id then refuse ''403'' ''Admin permission required'' d
     else
       let chans = filter (\<lambda>c. ch_space_id c = space_id) (list_user_channels d target)
       in done_with (remove_space_member d space_id target)
            (map (\<lambda>c. Unsubscribe_channel target (ch_id c)) chans
             @ [Unsubscribe_space target space_id,
                To_user target (notice ''space_removed'' [(''space_id'', JString space_id)])]))"

definition space_set_role :: "web_env \<Rightarrow> string \<Rightarrow> string \<Rightarrow> string \<Rightarrow> json option \<Rightarrow> db \<Rightarrow> db outcome" where
  "space_set_role env token space_id target body = signed_in env token (\<lambda>user_id d.
     if \<not> space_manager d space_id user_id then refuse ''403'' ''Admin permission required'' d
     else with_body env body (\<lambda>j.
       or_fail env (at_str j ''role'') (\<lambda>new_role d.
         let actor = actor_space_rank d space_id user_id;
             current_role = get_space_member_role d space_id target
         in if \<not> valid_space_role new_role then refuse ''400'' ''Invalid role'' d
            else if space_role_rank new_role > actor then refuse ''403'' ''Cannot promote above your own rank'' d
            else if space_role_rank new_role < space_role_rank current_role
                    \<and> space_role_rank current_role \<ge> actor \<and> user_id \<noteq> target
            then refuse ''403'' ''Cannot demote a user of equal or higher rank'' d
            else if current_role = ''owner'' \<and> new_role \<noteq> ''owner''
                    \<and> count_space_members_with_role d space_id ''owner'' \<le> 1
            then refuse_flagged ''Cannot demote last owner'' ''last_owner'' d
            else done_with (update_space_member_role d space_id target new_role)
              [To_user target (notice ''space_role_changed'' [(''space_id'', JString space_id), (''role'', JString new_role)]),
               To_space space_id (notice ''space_member_role_changed'' [(''space_id'', JString space_id),
                 (''user_id'', JString target), (''role'', JString new_role)])])) d)"

section \<open>Channels of a space, leaving, archiving\<close>

definition space_channels :: "web_env \<Rightarrow> string \<Rightarrow> string \<Rightarrow> db \<Rightarrow> db outcome" where
  "space_channels env token space_id = signed_in env token (\<lambda>user_id d.
     answer (JArray (map (\<lambda>c. JObject (channel_full env c @
         [(''my_role'', JString (get_effective_role d (ch_id c) user_id)),
          (''members'', channel_members_json env d (ch_id c))]))
       (filter (\<lambda>c. ch_space_id c = space_id) (list_user_channels d user_id)))) d [])"

fun add_missing :: "string \<Rightarrow> string \<Rightarrow> string list \<Rightarrow> db \<Rightarrow> db_error + db" where
  "add_missing channel_id role [] d = Inr d"
| "add_missing channel_id role (u # us) d =
     (if is_channel_member d channel_id u then add_missing channel_id role us d
      else case add_channel_member d channel_id u role of Inl e \<Rightarrow> Inl e | Inr d1 \<Rightarrow> add_missing channel_id role us d1)"

text \<open>Everybody in the channel is subscribed; all but the creator are told.\<close>

definition announce_channel :: "web_env \<Rightarrow> db \<Rightarrow> string \<Rightarrow> string \<Rightarrow> (string \<times> json) list \<Rightarrow> effect list" where
  "announce_channel env d user_id channel_id chan =
     (let ids = get_channel_member_ids d channel_id
      in map (\<lambda>m. Subscribe_channel m channel_id) ids
         @ map (\<lambda>m. To_user m (notice ''channel_added''
             [(''channel'', JObject (chan @ [(''my_role'', JString (get_effective_role d channel_id m))]))]))
             (filter (\<lambda>m. m \<noteq> user_id) ids)
         @ [Admins_channel channel_id])"

text \<open>\<open>d\<close> has the channel; on failure to add the members of the space it stays, with its first members.\<close>

definition space_channel_created ::
  "web_env \<Rightarrow> string \<Rightarrow> string \<Rightarrow> bool \<Rightarrow> channel \<Rightarrow> db \<Rightarrow> db outcome" where
  "space_channel_created env space_id user_id is_public c d =
     db_or_fail env
       (if is_public then add_missing (ch_id c) (ch_default_role c)
          (map mb_user_id (get_space_members_with_roles (we_pg env) d space_id)) d else Inr d)
       (\<lambda>d1 _. let chan = channel_full env c @ [(''members'', channel_members_json env d1 (ch_id c))]
               in answer (JObject (chan @ [(''my_role'', JString ''admin'')])) d1
                    (announce_channel env d1 user_id (ch_id c) chan)) d"

definition space_channel_create :: "web_env \<Rightarrow> string \<Rightarrow> string \<Rightarrow> json option \<Rightarrow> db \<Rightarrow> db outcome" where
  "space_channel_create env token space_id body = signed_in env token (\<lambda>user_id d.
     if is_personal_space d space_id then refuse ''400'' ''Personal spaces cannot have channels'' d
     else if \<not> space_manager d space_id user_id
     then refuse ''403'' ''Only space admins and owners can create channels'' d
     else with_body env body (\<lambda>j.
       or_fail env (at_str j ''name'') (\<lambda>name.
       or_fail env (value_str j ''description'' '''') (\<lambda>description.
       or_fail env (value_bool j ''is_public'' True) (\<lambda>is_public.
       or_fail env (value_str j ''default_role'' ''write'') (\<lambda>default_role.
       or_fail env (value_bool j ''default_join'' False) (\<lambda>default_join.
       or_fail env (string_elements j ''member_ids'') (\<lambda>ids d.
         db_or_fail env (create_channel d (we_id env 0) (we_now env) name description False user_id
             (user_id # filter (\<lambda>i. i \<noteq> user_id) ids) is_public default_role space_id default_join)
           (\<lambda>(c, d1) _. space_channel_created env space_id user_id is_public c d1) d))))))) d)"

definition space_leave :: "web_env \<Rightarrow> string \<Rightarrow> string \<Rightarrow> db \<Rightarrow> db outcome" where
  "space_leave env token space_id = signed_in env token (\<lambda>user_id d.
     if is_personal_space d space_id then refuse ''400'' ''Cannot leave your personal space'' d
     else if \<not> is_space_member d space_id user_id then refuse ''400'' ''Not a member'' d
     else if get_space_member_role d space_id user_id = ''owner''
             \<and> (case find_space_by_id d space_id of Some s \<Rightarrow> \<not> sp_is_archived s | None \<Rightarrow> False)
             \<and> count_space_members_with_role d space_id ''owner'' \<le> 1
     then refuse_flagged ''You are the last owner. Assign a new owner or archive the space.'' ''last_owner'' d
     else
       let chans = filter (\<lambda>c. ch_space_id c = space_id) (list_user_channels d user_id);
           d1 = fold (\<lambda>c d. remove_channel_member d (ch_id c) user_id) chans d
       in done_with (remove_space_member d1 space_id user_id)
            (concat (map (\<lambda>c. [Unsubscribe_channel user_id (ch_id c),
                To_channel (ch_id c) (notice ''member_left'' [(''channel_id'', JString (ch_id c)), (''user_id'', JString user_id)])])
               chans)
             @ [Unsubscribe_space user_id space_id,
                To_space space_id (notice ''space_member_left'' [(''space_id'', JString space_id), (''user_id'', JString user_id)]),
                To_user user_id (notice ''space_removed'' [(''space_id'', JString space_id)])]))"

definition archived_notice :: "string \<Rightarrow> string \<Rightarrow> string \<Rightarrow> bool \<Rightarrow> json" where
  "archived_notice type kind i archived =
     notice type [(kind, JObject [(''id'', JString i), (''is_archived'', JBool archived)])]"

definition space_archive :: "web_env \<Rightarrow> string \<Rightarrow> string \<Rightarrow> db \<Rightarrow> db outcome" where
  "space_archive env token space_id = signed_in env token (\<lambda>user_id d.
     if is_personal_space d space_id then refuse ''400'' ''Cannot archive a personal space'' d
     else if get_space_member_role d space_id user_id \<noteq> ''owner'' \<and> \<not> server_admin d user_id
     then refuse ''403'' ''Space owner or server admin required'' d
     else done_with (archive_space d space_id)
            [To_space space_id (archived_notice ''space_updated'' ''space'' space_id True)])"

definition space_unarchive :: "web_env \<Rightarrow> string \<Rightarrow> string \<Rightarrow> db \<Rightarrow> db outcome" where
  "space_unarchive env token space_id = signed_in env token (\<lambda>user_id d.
     if get_space_member_role d space_id user_id \<noteq> ''owner'' \<and> \<not> server_admin d user_id
     then refuse ''403'' ''Space owner or server admin required'' d
     else if is_server_archived d then refuse ''400'' ''Cannot unarchive: server is archived'' d
     else done_with (unarchive_space d space_id)
            [To_space space_id (archived_notice ''space_updated'' ''space'' space_id False)])"

section \<open>Conversations\<close>

definition conversation_json :: "web_env \<Rightarrow> db \<Rightarrow> channel \<Rightarrow> (string \<times> json) list" where
  "conversation_json env d c =
     [(''id'', JString (ch_id c)), (''name'', JString (ch_conversation_name c)), (''is_direct'', JBool True),
      (''created_at'', JString (we_time_text env (ch_created_at c))), (''my_role'', JString ''write''),
      (''members'', channel_members_json env d (ch_id c))]"

definition new_conversation_json :: "web_env \<Rightarrow> db \<Rightarrow> channel \<Rightarrow> json" where
  "new_conversation_json env d c = JObject (conversation_json env d c @
     [(''description'', JString ''''), (''is_public'', JBool False), (''default_role'', JString ''write'')])"

definition conv_list :: "web_env \<Rightarrow> string \<Rightarrow> db \<Rightarrow> db outcome" where
  "conv_list env token = signed_in env token (\<lambda>user_id d.
     answer (JArray (map (\<lambda>c. JObject (conversation_json env d c @ [(''is_archived'', JBool (ch_is_archived c))]))
       (list_user_conversations d user_id))) d [])"

text \<open>Two people and no name: the conversation they have already is used again.\<close>

definition conv_create :: "web_env \<Rightarrow> string \<Rightarrow> json option \<Rightarrow> db \<Rightarrow> db outcome" where
  "conv_create env token body = signed_in env token (\<lambda>user_id. with_body env body (\<lambda>j.
     or_fail env (value_str j ''name'' '''') (\<lambda>name.
     or_fail env (string_elements j ''member_ids'') (\<lambda>ids d.
       let members = user_id # filter (\<lambda>i. i \<noteq> user_id) ids;
           existing = (if length members = 2 \<and> name = [] then find_dm_channel d user_id (members ! 1) else None)
       in case existing of
            Some c \<Rightarrow> answer (JObject (conversation_json env d c)) d []
          | None \<Rightarrow>
              db_or_fail env (create_conversation d (we_id env 0) (we_now env) user_id members name)
                (\<lambda>(c, d1) _. let chan = new_conversation_json env d1 c
                   in answer chan d1 (concat (map (\<lambda>m. Subscribe_channel m (ch_id c) #
                        (if m \<noteq> user_id then [To_user m (notice ''channel_added'' [(''channel'', chan)])] else [])) members)))
                d))))"

text \<open>Any channel is taken, not only a conversation; the new member gets the role \<open>write\<close>.\<close>

definition conv_add_member :: "web_env \<Rightarrow> string \<Rightarrow> string \<Rightarrow> json option \<Rightarrow> db \<Rightarrow> db outcome" where
  "conv_add_member env token channel_id body = signed_in env token (\<lambda>user_id d.
     if \<not> is_channel_member d channel_id user_id then refuse ''403'' ''Not a member of this conversation'' d
     else with_body env body (\<lambda>j. or_fail env (at_str j ''user_id'') (\<lambda>target d.
       db_or_fail env (add_conversation_member d channel_id target) (\<lambda>d1 _.
         done_with d1 (Subscribe_channel target channel_id #
           (case find_channel_by_id d1 channel_id of
              None \<Rightarrow> []
            | Some c \<Rightarrow>
                [To_user target (notice ''channel_added'' [(''channel'', new_conversation_json env d1 c)]),
                 To_channel channel_id (notice ''conversation_member_added''
                   [(''channel_id'', JString channel_id), (''members'', channel_members_json env d1 channel_id)])]))) d)) d)"

definition conv_rename :: "web_env \<Rightarrow> string \<Rightarrow> string \<Rightarrow> json option \<Rightarrow> db \<Rightarrow> db outcome" where
  "conv_rename env token channel_id body = signed_in env token (\<lambda>user_id d.
     if \<not> is_channel_member d channel_id user_id then refuse ''403'' ''Not a member'' d
     else with_body env body (\<lambda>j. or_fail env (value_str j ''name'' '''') (\<lambda>name d.
       db_or_fail env (rename_conversation d channel_id name) (\<lambda>d1 _.
         done_with d1 [To_channel channel_id (notice ''conversation_renamed''
           [(''channel_id'', JString channel_id), (''name'', JString name)])]) d)) d)"

section \<open>Invites\<close>

definition invite_json :: "web_env \<Rightarrow> db \<Rightarrow> space_invite \<Rightarrow> json" where
  "invite_json env d i =
     JObject [(''id'', JString (si_id i)), (''space_id'', JString (si_space_id i)),
       (''space_name'', JString (case find_space_by_id d (si_space_id i) of None \<Rightarrow> '''' | Some s \<Rightarrow> sp_name s)),
       (''invited_by_username'', JString (case find_user_by_id d (si_invited_by i) of None \<Rightarrow> '''' | Some u \<Rightarrow> u_username u)),
       (''role'', JString (si_role i)), (''created_at'', JString (we_time_text env (si_created_at i)))]"

definition invite_list :: "web_env \<Rightarrow> string \<Rightarrow> db \<Rightarrow> db outcome" where
  "invite_list env token = signed_in env token (\<lambda>user_id d.
     answer (JArray (map (invite_json env d) (list_pending_space_invites d user_id))) d [])"

text \<open>An invite addressed to the user and still pending.\<close>

definition with_invite ::
  "string \<Rightarrow> string \<Rightarrow> (space_invite \<Rightarrow> db \<Rightarrow> db outcome) \<Rightarrow> db \<Rightarrow> db outcome" where
  "with_invite invite_id user_id rest d =
     (case get_space_invite d invite_id of
        None \<Rightarrow> refuse ''404'' ''Invite not found'' d
      | Some i \<Rightarrow>
          if si_invited_user_id i \<noteq> user_id then refuse ''404'' ''Invite not found'' d
          else if si_status i \<noteq> ''pending'' then refuse ''400'' ''Invite is no longer pending'' d
          else rest i d)"

definition invite_accept :: "web_env \<Rightarrow> string \<Rightarrow> string \<Rightarrow> db \<Rightarrow> db outcome" where
  "invite_accept env token invite_id = signed_in env token (\<lambda>user_id. with_invite invite_id user_id (\<lambda>i d.
     let s_id = si_space_id i; d1 = update_space_invite_status d invite_id ''accepted''
     in case add_space_member d1 s_id user_id (si_role i) of
          Inl e \<Rightarrow> None
        | Inr d2 \<Rightarrow>
            (case join_defaults env user_id (get_default_join_channels d2 s_id) d2 of
               None \<Rightarrow> None
             | Some (d3, es) \<Rightarrow>
                 let members = space_members_json env d3 s_id
                 in done_with d3 (Subscribe_space user_id s_id # es @
                   (case find_space_by_id d3 s_id of
                      None \<Rightarrow> []
                    | Some s \<Rightarrow>
                        [To_user user_id (notice ''space_added'' [(''space'', JObject (space_full env s @
                           [(''my_role'', JString (si_role i)), (''members'', members)]))]),
                         To_space s_id (notice ''space_updated''
                           [(''space'', JObject [(''id'', JString (sp_id s)), (''members'', members)])])])))))"

definition invite_decline :: "web_env \<Rightarrow> string \<Rightarrow> string \<Rightarrow> db \<Rightarrow> db outcome" where
  "invite_decline env token invite_id = signed_in env token (\<lambda>user_id. with_invite invite_id user_id (\<lambda>i d.
     done_with (update_space_invite_status d invite_id ''declined'') []))"

section \<open>Avatar, tools, shared resources\<close>

definition avatar_limit :: nat where "avatar_limit = 52428800"

definition avatar_failed :: "web_env \<Rightarrow> exn \<Rightarrow> store \<Rightarrow> store outcome" where
  "avatar_failed env e w = refuse ''500'' (we_what env e) w"

text \<open>
  The body is given whole. The old file goes first; \<open>updated->id\<close> on a space that is not there is
  undefined behaviour, here None.
\<close>

definition avatar_done :: "string \<Rightarrow> db \<Rightarrow> local_fs \<Rightarrow> store outcome" where
  "avatar_done space_id d fs =
     (case find_space_by_id d space_id of
        None \<Rightarrow> None
      | Some s \<Rightarrow> answer (space_brief s) (d, fs) [To_space space_id (notice ''space_updated'' [(''space'', space_brief s)])])"

definition drop_avatar :: "db \<Rightarrow> string \<Rightarrow> local_fs \<Rightarrow> local_fs" where
  "drop_avatar d space_id fs =
     (case find_space_by_id d space_id of
        None \<Rightarrow> fs | Some s \<Rightarrow> if sp_avatar_file_id s = [] then fs else remove_blob (sp_avatar_file_id s) fs)"

definition space_avatar_put ::
  "web_env \<Rightarrow> string \<Rightarrow> string \<Rightarrow> string \<Rightarrow> string \<Rightarrow> store \<Rightarrow> store outcome" where
  "space_avatar_put env token space_id content_type_query body w =
     (let content_type = (if content_type_query = [] then ''image/png'' else content_type_query)
      in case w of (d, fs) \<Rightarrow>
         if \<not> starts_with ''image/'' content_type then refuse ''400'' ''Only image files are allowed'' (d, fs)
         else if length body > avatar_limit then refuse ''413'' ''Image too large (max 20MB)'' (d, fs)
         else case validate_session d (we_now env) token of
           None \<Rightarrow> refuse ''401'' ''Unauthorized'' (d, fs)
         | Some user_id \<Rightarrow>
             if \<not> space_manager d space_id user_id then refuse ''403'' ''Admin permission required'' (d, fs)
             else
               let fs1 = drop_avatar d space_id fs
               in case we_random_hex env of
                    None \<Rightarrow> avatar_failed env Rand_failed (d, fs1)
                  | Some key \<Rightarrow>
                      (case put (we_io env) key body fs1 of
                         (False, fs2) \<Rightarrow> refuse ''500'' ''Failed to save image'' (d, fs2)
                       | (True, fs2) \<Rightarrow> avatar_done space_id (set_space_avatar d space_id key) fs2))"

definition space_avatar_delete :: "web_env \<Rightarrow> string \<Rightarrow> string \<Rightarrow> store \<Rightarrow> store outcome" where
  "space_avatar_delete env token space_id w =
     (case w of (d, fs) \<Rightarrow>
      case validate_session d (we_now env) token of
        None \<Rightarrow> refuse ''401'' ''Unauthorized'' (d, fs)
      | Some user_id \<Rightarrow>
          if \<not> space_manager d space_id user_id then refuse ''403'' ''Admin permission required'' (d, fs)
          else avatar_done space_id (clear_space_avatar d space_id) (drop_avatar d space_id fs))"

definition space_tools_get :: "web_env \<Rightarrow> string \<Rightarrow> string \<Rightarrow> db \<Rightarrow> db outcome" where
  "space_tools_get env token space_id = signed_in env token (\<lambda>user_id d.
     if \<not> is_space_member d space_id user_id \<and> \<not> server_admin d user_id
     then refuse ''403'' ''Not a member of this space'' d
     else answer (JArray (map JString (get_space_tools (we_pg env) d space_id))) d [])"

text \<open>Who may change the tools: the owner of a personal space, the managers of any other.\<close>

definition tools_refusal :: "db \<Rightarrow> string \<Rightarrow> string \<Rightarrow> string option" where
  "tools_refusal d space_id user_id =
     (case find_space_by_id d space_id of
        Some s \<Rightarrow>
          if sp_is_personal s
          then (if sp_personal_owner_id s \<noteq> user_id then Some ''Only the personal space owner can toggle tools'' else None)
          else if space_manager d space_id user_id then None else Some ''Admin access required''
      | None \<Rightarrow> if space_manager d space_id user_id then None else Some ''Admin access required'')"

definition space_tools_put :: "web_env \<Rightarrow> string \<Rightarrow> string \<Rightarrow> json option \<Rightarrow> db \<Rightarrow> db outcome" where
  "space_tools_put env token space_id body = signed_in env token (\<lambda>user_id d.
     case tools_refusal d space_id user_id of
       Some m \<Rightarrow> refuse ''403'' m d
     | None \<Rightarrow> with_body env body (\<lambda>j.
         or_fail env (at_str j ''tool'') (\<lambda>tool.
         or_fail env (at_bool j ''enabled'') (\<lambda>enabled d.
           if tool \<notin> set known_tools then refuse ''400'' ''Unknown tool'' d
           else if is_personal_space d space_id \<and> enabled \<and> \<not> personal_tool_allowed d tool
           then refuse ''400'' ''This tool is not allowed by server administrators'' d
           else db_or_fail env
                  (if enabled then enable_space_tool d space_id tool user_id else Inr (disable_space_tool d space_id tool))
                  (\<lambda>d1 _. answer (JObject [(''ok'', JBool True),
                     (''enabled_tools'', JArray (map JString (get_space_tools (we_pg env) d1 space_id)))]) d1 []) d))) d)"

definition shared_with_me :: "web_env \<Rightarrow> string \<Rightarrow> db \<Rightarrow> db outcome" where
  "shared_with_me env token = signed_in env token (\<lambda>user_id d.
     let items = (\<lambda>type. JArray (map (\<lambda>r. JObject [(''id'', JString (sr_id r)), (''name'', JString (sr_name r)),
             (''space_id'', JString (sr_space_id r)), (''owner_username'', JString (sr_owner_username r)),
             (''permission'', JString (sr_permission r))])
           (filter (\<lambda>r. sr_resource_type r = type) (list_shared_with_user d user_id))))
     in answer (JObject [(''files'', items ''file''), (''wiki_pages'', items ''wiki_page''),
          (''calendar_events'', items ''calendar''), (''task_boards'', items ''task_board'')]) d [])"

end
