(* ===== verification/Channel_Handler.thy ===== *)
theory Channel_Handler
  imports Space_Handler
begin

text \<open>
  The endpoints of \<open>handlers/channel_handler.cpp\<close>: channels and their members, messages and read
  receipts, direct conversations.
\<close>

section \<open>Messages of a channel\<close>

text \<open>The latest rows, and those before a time, newest last.\<close>

definition get_messages :: "pg \<Rightarrow> db \<Rightarrow> string \<Rightarrow> nat \<Rightarrow> time option \<Rightarrow> message_view list" where
  "get_messages pg d channel_id limit before =
     rev (take limit (map (row_to_message (pg_left200 pg) d)
       (sort_key (\<lambda>m. - m_created_at m)
         (filter (\<lambda>m. m_channel_id m = channel_id \<and> has_key u_id (m_user_id m) (users d)
            \<and> (case before of None \<Rightarrow> True | Some t \<Rightarrow> m_created_at m < t)) (messages d)))))"

definition message_json :: "web_env \<Rightarrow> db \<Rightarrow> message_view \<Rightarrow> json" where
  "message_json env d v =
     (let m = mv_row v; rs = get_reactions d (m_id m)
      in JObject (
        [(''id'', JString (m_id m)), (''channel_id'', JString (m_channel_id m)), (''user_id'', JString (m_user_id m)),
         (''username'', JString (mv_username v)), (''content'', JString (m_content m)),
         (''created_at'', JString (we_time_text env (m_created_at m))), (''is_deleted'', JBool (m_is_deleted m))]
        @ (case m_edited_at m of None \<Rightarrow> [] | Some t \<Rightarrow> [(''edited_at'', JString (we_time_text env t))])
        @ (if m_file_id m = [] then []
           else [(''file_id'', JString (m_file_id m)), (''file_name'', JString (m_file_name m)),
                 (''file_size'', JInt (m_file_size m)), (''file_type'', JString (m_file_type m))])
        @ (if m_reply_to m = [] then []
           else [(''reply_to_message_id'', JString (m_reply_to m)), (''reply_to_username'', JString (mv_reply_username v)),
                 (''reply_to_content'', JString (mv_reply_content v)), (''reply_to_is_deleted'', JBool (mv_reply_is_deleted v))])
        @ (if m_is_ai_assisted m then [(''is_ai_assisted'', JBool True)] else [])
        @ (if rs = [] then []
           else [(''reactions'', JArray (map (\<lambda>(e, u, n). JObject [(''emoji'', JString e), (''user_id'', JString u),
                    (''username'', JString n)]) rs))])))"

text \<open>A time that PostgreSQL cannot read is an exception that nothing catches.\<close>

definition chan_messages ::
  "web_env \<Rightarrow> string \<Rightarrow> string \<Rightarrow> string \<Rightarrow> string \<Rightarrow> db \<Rightarrow> db outcome" where
  "chan_messages env token channel_id before limit_str = signed_in env token (\<lambda>user_id d.
     if get_effective_role d channel_id user_id = [] then refuse ''403'' ''Not a member of this channel'' d
     else
       let limit = nat (max 1 (min 500 (safe_parse_int_default limit_str 50)));
           show_rows = (\<lambda>t. answer (JArray (map (message_json env d) (get_messages (we_pg env) d channel_id limit t))) d [])
       in if before = [] then show_rows None
          else (case we_parse_time env before of None \<Rightarrow> None | Some t \<Rightarrow> show_rows (Some t)))"

definition chan_read_receipts :: "web_env \<Rightarrow> string \<Rightarrow> string \<Rightarrow> db \<Rightarrow> db outcome" where
  "chan_read_receipts env token channel_id = signed_in env token (\<lambda>user_id d.
     if get_effective_role d channel_id user_id = [] then refuse ''403'' ''Not a member of this channel'' d
     else answer (JArray (map (\<lambda>(u, n, m, t). JObject [(''user_id'', JString u), (''username'', JString n),
            (''last_read_message_id'', JString m), (''last_read_at'', JString (we_time_text env t))])
          (get_channel_read_receipts d channel_id))) d [])"

section \<open>Listing and creating channels\<close>

definition chan_list_json :: "web_env \<Rightarrow> db \<Rightarrow> string \<Rightarrow> channel \<Rightarrow> json" where
  "chan_list_json env d user_id c =
     JObject (channel_base c @
       [(''is_direct'', JBool (ch_is_direct c)), (''default_join'', JBool (ch_default_join c)),
        (''created_at'', JString (we_time_text env (ch_created_at c))),
        (''my_role'', JString (get_effective_role d (ch_id c) user_id)), (''is_archived'', JBool (ch_is_archived c)),
        (''members'', channel_members_json env d (ch_id c))]
       @ (if ch_space_id c = [] then [] else [(''space_id'', JString (ch_space_id c))])
       @ (if ch_conversation_name c = [] then [] else [(''conversation_name'', JString (ch_conversation_name c))]))"

definition chan_list :: "web_env \<Rightarrow> string \<Rightarrow> string \<Rightarrow> string \<Rightarrow> db \<Rightarrow> db outcome" where
  "chan_list env token limit_str offset_str =
     with_page limit_str offset_str (\<lambda>limit offset. signed_in env token (\<lambda>user_id d.
       answer (JArray (map (chan_list_json env d user_id)
         (list_visible_channels_for_user (we_pg env) d user_id (server_admin d user_id) limit offset))) d []))"

definition chan_browse :: "web_env \<Rightarrow> string \<Rightarrow> string \<Rightarrow> string \<Rightarrow> db \<Rightarrow> db outcome" where
  "chan_browse env token search space_id = signed_in env token (\<lambda>user_id d.
     let pg = we_pg env;
         found = (if space_id = [] then list_public_channels pg d user_id search
                  else if space_manager d space_id user_id
                  then list_browsable_space_channels pg d space_id user_id search
                  else filter (\<lambda>c. ch_space_id c = space_id) (list_public_channels pg d user_id search))
     in answer (JArray (map (\<lambda>c. JObject (channel_base c @
          [(''default_join'', JBool (ch_default_join c)), (''is_archived'', JBool (ch_is_archived c)),
           (''space_id'', JString (ch_space_id c)), (''created_at'', JString (we_time_text env (ch_created_at c)))])) found)) d [])"

definition valid_channel_role :: "string \<Rightarrow> bool" where
  "valid_channel_role r \<longleftrightarrow> r = ''admin'' \<or> r = ''write'' \<or> r = ''read''"

text \<open>An unknown default role becomes \<open>write\<close>. Channels made here belong to no space.\<close>

definition chan_create :: "web_env \<Rightarrow> string \<Rightarrow> json option \<Rightarrow> db \<Rightarrow> db outcome" where
  "chan_create env token body = signed_in env token (\<lambda>user_id. with_body env body (\<lambda>j.
     or_fail env (at_str j ''name'') (\<lambda>name.
     or_fail env (value_str j ''description'' '''') (\<lambda>description.
     or_fail env (value_bool j ''is_public'' True) (\<lambda>is_public.
     or_fail env (value_str j ''default_role'' ''write'') (\<lambda>role.
     or_fail env (string_elements j ''member_ids'') (\<lambda>ids d.
       db_or_fail env (create_channel d (we_id env 0) (we_now env) name description False user_id
           (user_id # filter (\<lambda>i. i \<noteq> user_id) ids) is_public
           (if valid_channel_role role then role else ''write'') '''' False)
         (\<lambda>(c, d1) _. let chan = channel_base c @ [(''is_direct'', JBool (ch_is_direct c)),
               (''default_join'', JBool (ch_default_join c)), (''created_at'', JString (we_time_text env (ch_created_at c))),
               (''members'', channel_members_json env d1 (ch_id c))]
            in answer (JObject (chan @ [(''my_role'', JString ''admin'')])) d1
                 (announce_channel env d1 user_id (ch_id c) chan)) d)))))))"

definition dm_member_json :: "web_env \<Rightarrow> db \<Rightarrow> string \<Rightarrow> json list" where
  "dm_member_json env d i =
     (case find_user_by_id d i of
        None \<Rightarrow> []
      | Some u \<Rightarrow> [JObject [(''id'', JString (u_id u)), (''username'', JString (u_username u)),
          (''display_name'', JString (u_display_name u)), (''is_online'', JBool (u_is_online u)),
          (''last_seen'', JString (opt_time_text env (u_last_seen u)))]])"

definition dm_reply :: "web_env \<Rightarrow> channel \<Rightarrow> json" where
  "dm_reply env c = JObject [(''id'', JString (ch_id c)), (''name'', JString (ch_name c)), (''is_direct'', JBool True),
     (''created_at'', JString (we_time_text env (ch_created_at c)))]"

definition chan_create_dm :: "web_env \<Rightarrow> string \<Rightarrow> json option \<Rightarrow> db \<Rightarrow> db outcome" where
  "chan_create_dm env token body = signed_in env token (\<lambda>user_id. with_body env body (\<lambda>j.
     or_fail env (at_str j ''user_id'') (\<lambda>other d.
       case find_dm_channel d user_id other of
         Some c \<Rightarrow> answer (dm_reply env c) d []
       | None \<Rightarrow>
           db_or_fail env (create_channel d (we_id env 0) (we_now env) '''' '''' True user_id [user_id, other] True ''write'' '''' False)
             (\<lambda>(c, d1) _.
                let ids = get_channel_member_ids d1 (ch_id c);
                    chan = JObject [(''id'', JString (ch_id c)), (''name'', JString (ch_name c)),
                      (''description'', JString ''''), (''is_direct'', JBool True), (''is_public'', JBool False),
                      (''default_role'', JString ''write''), (''created_at'', JString (we_time_text env (ch_created_at c))),
                      (''my_role'', JString ''write''), (''members'', JArray (concat (map (dm_member_json env d1) ids)))]
                in answer (dm_reply env c) d1 (concat (map (\<lambda>m. Subscribe_channel m (ch_id c) #
                     (if m \<noteq> user_id then [To_user m (notice ''channel_added'' [(''channel'', chan)])] else [])) ids))) d)))"

section \<open>Members\<close>

text \<open>A public channel is open to everybody, whether or not he is in the space of the channel.\<close>

definition chan_join :: "web_env \<Rightarrow> string \<Rightarrow> string \<Rightarrow> db \<Rightarrow> db outcome" where
  "chan_join env token channel_id = signed_in env token (\<lambda>user_id d.
     case find_channel_by_id d channel_id of
       None \<Rightarrow> refuse ''404'' ''Channel not found'' d
     | Some c \<Rightarrow>
         if ch_is_direct c then refuse ''400'' ''Cannot join a DM channel'' d
         else
           let manager = ch_space_id c \<noteq> [] \<and> is_admin_role (get_space_member_role d (ch_space_id c) user_id)
                 \<or> server_admin d user_id
           in if \<not> ch_is_public c \<and> \<not> manager
              then refuse ''403'' ''This is a private channel. You need an invite.'' d
              else case add_channel_member d channel_id user_id (if manager then ''admin'' else ch_default_role c) of
                Inl e \<Rightarrow> None
              | Inr d1 \<Rightarrow> done_with d1 [Subscribe_channel user_id channel_id])"

definition chan_invited :: "web_env \<Rightarrow> db \<Rightarrow> string \<Rightarrow> string \<Rightarrow> string \<Rightarrow> effect list" where
  "chan_invited env d channel_id target role =
     (case find_channel_by_id d channel_id of
        None \<Rightarrow> []
      | Some c \<Rightarrow> [To_user target (notice ''channel_added'' [(''channel'', JObject (channel_base c @
          [(''is_direct'', JBool (ch_is_direct c)), (''created_at'', JString (we_time_text env (ch_created_at c))),
           (''my_role'', JString role), (''members'', channel_members_json env d channel_id)]
          @ (if ch_space_id c = [] then [] else [(''space_id'', JString (ch_space_id c))])))])])"

definition chan_add_member :: "web_env \<Rightarrow> string \<Rightarrow> string \<Rightarrow> json option \<Rightarrow> db \<Rightarrow> db outcome" where
  "chan_add_member env token channel_id body = signed_in env token (\<lambda>user_id d.
     let role = get_effective_role d channel_id user_id
     in if role \<noteq> ''admin'' then refuse ''403'' ''Admin permission required'' d
        else with_body env body (\<lambda>j.
          or_fail env (at_str j ''user_id'') (\<lambda>target.
          or_fail env (value_str j ''role'' '''') (\<lambda>wanted d.
            let member_role = (if wanted \<noteq> [] then wanted
                  else case find_channel_by_id d channel_id of Some c \<Rightarrow> ch_default_role c | None \<Rightarrow> ''write'')
            in if \<not> valid_channel_role member_role then refuse ''400'' ''Invalid role. Must be admin, write, or read'' d
               else if channel_role_rank member_role > channel_role_rank role
               then refuse ''403'' ''Cannot add a member above your own rank'' d
               else db_or_fail env (add_channel_member d channel_id target member_role) (\<lambda>d1 _.
                 done_with d1 (Subscribe_channel target channel_id # chan_invited env d1 channel_id target member_role)) d))) d)"

definition chan_kick :: "web_env \<Rightarrow> string \<Rightarrow> string \<Rightarrow> string \<Rightarrow> db \<Rightarrow> db outcome" where
  "chan_kick env token channel_id target = signed_in env token (\<lambda>user_id d.
     if get_effective_role d channel_id user_id \<noteq> ''admin'' then refuse ''403'' ''Admin permission required'' d
     else if target = user_id then refuse ''400'' ''Cannot remove yourself'' d
     else done_with (remove_channel_member d channel_id target)
       [Unsubscribe_channel target channel_id,
        To_user target (notice ''channel_removed'' [(''channel_id'', JString channel_id)])])"

definition chan_set_role :: "web_env \<Rightarrow> string \<Rightarrow> string \<Rightarrow> string \<Rightarrow> json option \<Rightarrow> db \<Rightarrow> db outcome" where
  "chan_set_role env token channel_id target body = signed_in env token (\<lambda>user_id d.
     let role = get_effective_role d channel_id user_id
     in if role \<noteq> ''admin'' then refuse ''403'' ''Admin permission required'' d
        else with_body env body (\<lambda>j. or_fail env (at_str j ''role'') (\<lambda>new_role d.
          let current_role = get_member_role d channel_id target;
              actor_rank = channel_role_rank role; target_rank = channel_role_rank current_role;
              new_rank = channel_role_rank new_role
          in if \<not> valid_channel_role new_role then refuse ''400'' ''Invalid role. Must be admin, write, or read'' d
             else if new_rank > actor_rank then refuse ''403'' ''Cannot promote above your own rank'' d
             else if new_rank < target_rank \<and> target_rank \<ge> actor_rank \<and> user_id \<noteq> target
             then refuse ''403'' ''Cannot demote a user of equal or higher rank'' d
             else if current_role = ''admin'' \<and> new_role \<noteq> ''admin''
                     \<and> count_channel_members_with_role d channel_id ''admin'' \<le> 1
             then refuse_flagged ''Cannot demote last admin'' ''last_admin'' d
             else done_with (update_member_role d channel_id target new_role)
               [To_user target (notice ''role_changed'' [(''channel_id'', JString channel_id), (''role'', JString new_role)]),
                To_channel channel_id (notice ''member_role_changed'' [(''channel_id'', JString channel_id),
                  (''user_id'', JString target), (''role'', JString new_role)])])) d)"

definition chan_settings :: "web_env \<Rightarrow> string \<Rightarrow> string \<Rightarrow> json option \<Rightarrow> db \<Rightarrow> db outcome" where
  "chan_settings env token channel_id body = signed_in env token (\<lambda>user_id d.
     if get_effective_role d channel_id user_id \<noteq> ''admin'' then refuse ''403'' ''Admin permission required'' d
     else case find_channel_by_id d channel_id of
       None \<Rightarrow> refuse ''404'' ''Channel not found'' d
     | Some cur \<Rightarrow> with_body env body (\<lambda>j.
         or_fail env (value_str j ''name'' (ch_name cur)) (\<lambda>name.
         or_fail env (value_str j ''description'' (ch_description cur)) (\<lambda>description.
         or_fail env (value_bool j ''is_public'' (ch_is_public cur)) (\<lambda>is_public.
         or_fail env (value_str j ''default_role'' (ch_default_role cur)) (\<lambda>default_role.
         or_fail env (value_bool j ''default_join'' (ch_default_join cur)) (\<lambda>default_join d.
           db_or_fail env (update_channel d channel_id name description is_public default_role default_join)
             (\<lambda>(c, d1) _. let chan = JObject (channel_base c @ [(''default_join'', JBool (ch_default_join c))])
                in answer chan d1 [To_channel channel_id (notice ''channel_updated'' [(''channel'', chan)])]) d)))))) d)"

text \<open>Leaving a conversation archives it when at most one person is left.\<close>

definition chan_leave_direct :: "string \<Rightarrow> string \<Rightarrow> db \<Rightarrow> db outcome" where
  "chan_leave_direct channel_id user_id d =
     (let d1 = remove_channel_member d channel_id user_id;
          alone = count_channel_members d1 channel_id \<le> 1
      in done_with (if alone then archive_channel d1 channel_id else d1)
           ([Unsubscribe_channel user_id channel_id]
            @ (if alone then [To_channel channel_id (archived_notice ''channel_updated'' ''channel'' channel_id True)] else [])
            @ [To_channel channel_id (notice ''member_left'' [(''channel_id'', JString channel_id), (''user_id'', JString user_id)]),
               To_user user_id (archived_notice ''channel_updated'' ''channel'' channel_id True)]))"

definition chan_leave :: "web_env \<Rightarrow> string \<Rightarrow> string \<Rightarrow> db \<Rightarrow> db outcome" where
  "chan_leave env token channel_id = signed_in env token (\<lambda>user_id d.
     if \<not> is_channel_member d channel_id user_id then refuse ''400'' ''Not a member'' d
     else case find_channel_by_id d channel_id of
       None \<Rightarrow> refuse ''404'' ''Channel not found'' d
     | Some c \<Rightarrow>
         if ch_is_direct c then chan_leave_direct channel_id user_id d
         else if get_member_role d channel_id user_id = ''admin'' \<and> \<not> ch_is_archived c
                 \<and> count_channel_members_with_role d channel_id ''admin'' \<le> 1
         then refuse_flagged ''You are the last admin. Assign a new admin or archive the channel.'' ''last_admin'' d
         else done_with (remove_channel_member d channel_id user_id)
           [Unsubscribe_channel user_id channel_id,
            To_channel channel_id (notice ''member_left'' [(''channel_id'', JString channel_id), (''user_id'', JString user_id)]),
            To_user user_id (notice ''channel_removed'' [(''channel_id'', JString channel_id)])])"

definition may_archive_channel :: "db \<Rightarrow> string \<Rightarrow> string \<Rightarrow> bool" where
  "may_archive_channel d channel_id user_id \<longleftrightarrow>
     get_effective_role d channel_id user_id = ''admin'' \<or> server_admin d user_id
     \<or> (case find_channel_by_id d channel_id of
          Some c \<Rightarrow> ch_space_id c \<noteq> [] \<and> get_space_member_role d (ch_space_id c) user_id = ''owner''
        | None \<Rightarrow> False)"

definition chan_archive :: "web_env \<Rightarrow> string \<Rightarrow> string \<Rightarrow> db \<Rightarrow> db outcome" where
  "chan_archive env token channel_id = signed_in env token (\<lambda>user_id d.
     if \<not> may_archive_channel d channel_id user_id then refuse ''403'' ''Permission denied'' d
     else done_with (archive_channel d channel_id)
       [To_channel channel_id (archived_notice ''channel_updated'' ''channel'' channel_id True)])"

text \<open>The state of the space is told before the permission is checked.\<close>

definition chan_unarchive :: "web_env \<Rightarrow> string \<Rightarrow> string \<Rightarrow> db \<Rightarrow> db outcome" where
  "chan_unarchive env token channel_id = signed_in env token (\<lambda>user_id d.
     if (case find_channel_by_id d channel_id of
           None \<Rightarrow> False
         | Some c \<Rightarrow> ch_space_id c \<noteq> []
             \<and> (case find_space_by_id d (ch_space_id c) of None \<Rightarrow> False | Some s \<Rightarrow> sp_is_archived s))
     then refuse ''400'' ''Cannot unarchive: parent space is archived'' d
     else if \<not> may_archive_channel d channel_id user_id then refuse ''403'' ''Permission denied'' d
     else done_with (unarchive_channel d channel_id)
       [To_channel channel_id (archived_notice ''channel_updated'' ''channel'' channel_id False)])"

end
