(* ===== verification/Outcomes.thy ===== *)
theory Outcomes
  imports Web
begin

text \<open>
  Rules to reason about what a handler ends in: a property of every state and list of effects it may
  leave behind, and that it answers at all. A step lemma on a handler unfolds it and applies them.
\<close>

section \<open>What holds afterwards\<close>

definition holds_after :: "('s \<Rightarrow> effect list \<Rightarrow> bool) \<Rightarrow> 's outcome \<Rightarrow> bool" where
  "holds_after Q a \<longleftrightarrow> (\<forall>r d' es. a = Some (r, d', es) \<longrightarrow> Q d' es)"

named_theorems outcome_rules \<open>what holds after an outcome\<close>

lemma after_simps [simp]:
  "holds_after Q None" "holds_after Q (Some (r, d, es)) = Q d es" "holds_after Q (refuse st m d) = Q d []"
  "holds_after Q (refuse_flagged m fl d) = Q d []" "holds_after Q (failed env e d) = Q d []"
  "holds_after Q (answer j d es) = Q d es" "holds_after Q (done_with d es) = Q d es"
  by (auto simp: holds_after_def refuse_def refuse_flagged_def failed_def answer_def done_with_def)

lemma after_session [outcome_rules]:
  "Q d [] \<Longrightarrow> (\<And>u. validate_session d (we_now env) t = Some u \<Longrightarrow> holds_after Q (rest u d))
     \<Longrightarrow> holds_after Q (signed_in env t rest d)"
  by (simp add: signed_in_def split: option.split)

lemma after_body [outcome_rules]:
  "Q d [] \<Longrightarrow> (\<And>j. b = Some j \<Longrightarrow> holds_after Q (rest j d)) \<Longrightarrow> holds_after Q (with_body env b rest d)"
  by (simp add: with_body_def split: option.split)

lemma after_value [outcome_rules]:
  "Q d [] \<Longrightarrow> (\<And>x. v = Inr x \<Longrightarrow> holds_after Q (rest x d)) \<Longrightarrow> holds_after Q (or_fail env v rest d)"
  by (simp add: or_fail_def split: sum.split)

lemma after_db [outcome_rules]:
  "Q d [] \<Longrightarrow> (\<And>x. v = Inr x \<Longrightarrow> holds_after Q (rest x d)) \<Longrightarrow> holds_after Q (db_or_fail env v rest d)"
  by (simp add: db_or_fail_def split: sum.split)

lemma after_option [outcome_rules]:
  "(x = None \<Longrightarrow> holds_after Q a) \<Longrightarrow> (\<And>y. x = Some y \<Longrightarrow> holds_after Q (f y))
     \<Longrightarrow> holds_after Q (case x of None \<Rightarrow> a | Some y \<Rightarrow> f y)"
  by (cases x) auto

lemma after_sum [outcome_rules]:
  "(\<And>e. x = Inl e \<Longrightarrow> holds_after Q (g e)) \<Longrightarrow> (\<And>y. x = Inr y \<Longrightarrow> holds_after Q (f y))
     \<Longrightarrow> holds_after Q (case x of Inl e \<Rightarrow> g e | Inr y \<Rightarrow> f y)"
  by (cases x) auto

lemma after_if [outcome_rules]:
  "(P \<Longrightarrow> holds_after Q a) \<Longrightarrow> (\<not> P \<Longrightarrow> holds_after Q b) \<Longrightarrow> holds_after Q (if P then a else b)"
  by simp

lemma after_prod [outcome_rules]:
  "(\<And>a b. x = (a, b) \<Longrightarrow> holds_after Q (f a b d)) \<Longrightarrow> holds_after Q ((case x of (a, b) \<Rightarrow> f a b) d)"
  by (cases x) auto

lemma after_pair [outcome_rules]:
  "(\<And>a b. x = (a, b) \<Longrightarrow> holds_after Q (f a b)) \<Longrightarrow> holds_after Q (case x of (a, b) \<Rightarrow> f a b)"
  by (cases x) auto

section \<open>That there is an answer\<close>

definition answered :: "'a option \<Rightarrow> bool" where
  "answered x \<longleftrightarrow> x \<noteq> None"

named_theorems answered_rules \<open>outcomes that are answers\<close>

lemma answered_simps [simp]:
  "answered (refuse st m d)" "answered (refuse_flagged m fl d)" "answered (failed env e d)"
  "answered (answer j d es)" "answered (done_with d es)" "answered (Some x)" "\<not> answered None"
  by (simp_all add: answered_def refuse_def refuse_flagged_def failed_def answer_def done_with_def)

lemma answered_session [answered_rules]:
  "(\<And>u. validate_session d (we_now env) t = Some u \<Longrightarrow> answered (rest u d)) \<Longrightarrow> answered (signed_in env t rest d)"
  by (simp add: signed_in_def split: option.split)

lemma answered_body [answered_rules]: "(\<And>j. answered (rest j d)) \<Longrightarrow> answered (with_body env b rest d)"
  by (simp add: with_body_def split: option.split)

lemma answered_value [answered_rules]: "(\<And>x. answered (rest x d)) \<Longrightarrow> answered (or_fail env v rest d)"
  by (simp add: or_fail_def split: sum.split)

lemma answered_db [answered_rules]: "(\<And>x. v = Inr x \<Longrightarrow> answered (rest x d)) \<Longrightarrow> answered (db_or_fail env v rest d)"
  by (simp add: db_or_fail_def split: sum.split)

lemma answered_option [answered_rules]:
  "(x = None \<Longrightarrow> answered a) \<Longrightarrow> (\<And>y. x = Some y \<Longrightarrow> answered (f y)) \<Longrightarrow> answered (case x of None \<Rightarrow> a | Some y \<Rightarrow> f y)"
  by (cases x) auto

lemma answered_if [answered_rules]: "(P \<Longrightarrow> answered a) \<Longrightarrow> (\<not> P \<Longrightarrow> answered b) \<Longrightarrow> answered (if P then a else b)"
  by simp

lemma answered_prod [answered_rules]:
  "(\<And>a b. x = (a, b) \<Longrightarrow> answered (f a b d)) \<Longrightarrow> answered ((case x of (a, b) \<Rightarrow> f a b) d)"
  by (cases x) auto

lemma answered_pair [answered_rules]:
  "(\<And>a b. x = (a, b) \<Longrightarrow> answered (f a b)) \<Longrightarrow> answered (case x of (a, b) \<Rightarrow> f a b)"
  by (cases x) auto

end
