(* ===== verification/Room_Access.thy ===== *)
theory Room_Access
  imports Channel_Handler Outcomes
begin

text \<open>
  Who is in which space and channel, and with which role, under the requests of \<open>space_handler.cpp\<close>
  and \<open>channel_handler.cpp\<close>. The memberships are two maps from a room and a user to a role; an
  abstract step says for what reason they may change, and the handlers refine it.
\<close>

section \<open>Requests\<close>

datatype room_request =
    Space_list string string
  | Space_browse string
  | Space_create "json option"
  | Space_details string
  | Space_settings string "json option"
  | Space_join string
  | Space_invite string "json option"
  | Space_kick string string
  | Space_set_role string string "json option"
  | Space_channels string
  | Space_channel_create string "json option"
  | Space_leave string
  | Space_archive string
  | Space_unarchive string
  | Conv_list
  | Conv_create "json option"
  | Conv_add_member string "json option"
  | Conv_rename string "json option"
  | Invite_list
  | Invite_accept string
  | Invite_decline string
  | Tools_get string
  | Tools_put string "json option"
  | Shared_with_me
  | Chan_messages string string string
  | Chan_receipts string
  | Chan_list string string
  | Chan_browse string string
  | Chan_create "json option"
  | Chan_create_dm "json option"
  | Chan_join string
  | Chan_add_member string "json option"
  | Chan_kick string string
  | Chan_set_role string string "json option"
  | Chan_settings string "json option"
  | Chan_leave string
  | Chan_archive string
  | Chan_unarchive string

fun room_serve :: "web_env \<Rightarrow> string \<Rightarrow> room_request \<Rightarrow> db \<Rightarrow> db outcome" where
  "room_serve env t (Space_list limit offset) = space_list env t limit offset"
| "room_serve env t (Space_browse search) = space_browse env t search"
| "room_serve env t (Space_create b) = space_create env t b"
| "room_serve env t (Space_details s) = space_details env t s"
| "room_serve env t (Space_settings s b) = space_settings env t s b"
| "room_serve env t (Space_join s) = space_join env t s"
| "room_serve env t (Space_invite s b) = space_invite_member env t s b"
| "room_serve env t (Space_kick s v) = space_kick env t s v"
| "room_serve env t (Space_set_role s v b) = space_set_role env t s v b"
| "room_serve env t (Space_channels s) = space_channels env t s"
| "room_serve env t (Space_channel_create s b) = space_channel_create env t s b"
| "room_serve env t (Space_leave s) = space_leave env t s"
| "room_serve env t (Space_archive s) = space_archive env t s"
| "room_serve env t (Space_unarchive s) = space_unarchive env t s"
| "room_serve env t Conv_list = conv_list env t"
| "room_serve env t (Conv_create b) = conv_create env t b"
| "room_serve env t (Conv_add_member c b) = conv_add_member env t c b"
| "room_serve env t (Conv_rename c b) = conv_rename env t c b"
| "room_serve env t Invite_list = invite_list env t"
| "room_serve env t (Invite_accept i) = invite_accept env t i"
| "room_serve env t (Invite_decline i) = invite_decline env t i"
| "room_serve env t (Tools_get s) = space_tools_get env t s"
| "room_serve env t (Tools_put s b) = space_tools_put env t s b"
| "room_serve env t Shared_with_me = shared_with_me env t"
| "room_serve env t (Chan_messages c before limit) = chan_messages env t c before limit"
| "room_serve env t (Chan_receipts c) = chan_read_receipts env t c"
| "room_serve env t (Chan_list limit offset) = chan_list env t limit offset"
| "room_serve env t (Chan_browse search s) = chan_browse env t search s"
| "room_serve env t (Chan_create b) = chan_create env t b"
| "room_serve env t (Chan_create_dm b) = chan_create_dm env t b"
| "room_serve env t (Chan_join c) = chan_join env t c"
| "room_serve env t (Chan_add_member c b) = chan_add_member env t c b"
| "room_serve env t (Chan_kick c v) = chan_kick env t c v"
| "room_serve env t (Chan_set_role c v b) = chan_set_role env t c v b"
| "room_serve env t (Chan_settings c b) = chan_settings env t c b"
| "room_serve env t (Chan_leave c) = chan_leave env t c"
| "room_serve env t (Chan_archive c) = chan_archive env t c"
| "room_serve env t (Chan_unarchive c) = chan_unarchive env t c"

section \<open>Memberships as maps\<close>

type_synonym roles = "string \<times> string \<Rightarrow> string option"

definition space_roles :: "db \<Rightarrow> roles" where
  "space_roles d = map_of (map (\<lambda>m. ((sm_space_id m, sm_user_id m), sm_role m)) (space_members d))"

definition channel_roles :: "db \<Rightarrow> roles" where
  "channel_roles d = map_of (map (\<lambda>m. ((cm_channel_id m, cm_user_id m), cm_role m)) (channel_members d))"

text \<open>The channels of a space.\<close>

definition in_channels_of :: "db \<Rightarrow> string \<Rightarrow> string \<Rightarrow> bool" where
  "in_channels_of d s c \<longleftrightarrow> (\<exists>ch \<in> set (channels d). ch_id ch = c \<and> ch_space_id ch = s)"

lemma map_of_first_row:
  "map_of (map (\<lambda>m. (key m, val m)) xs) k = map_option val (first_row (filter (\<lambda>m. key m = k) xs))"
  by (induction xs) (auto simp: first_row_def)

lemma space_roles_row:
  "space_roles d (s, v) = map_option sm_role
     (first_row (filter (\<lambda>m. sm_space_id m = s \<and> sm_user_id m = v) (space_members d)))"
  by (simp add: space_roles_def map_of_first_row)

lemma channel_roles_row:
  "channel_roles d (c, v) = map_option cm_role
     (first_row (filter (\<lambda>m. cm_channel_id m = c \<and> cm_user_id m = v) (channel_members d)))"
  by (simp add: channel_roles_def map_of_first_row)

lemma is_space_member_roles: "is_space_member d s v \<longleftrightarrow> space_roles d (s, v) \<noteq> None"
  by (simp add: is_space_member_def space_roles_row)

lemma is_channel_member_roles: "is_channel_member d c v \<longleftrightarrow> channel_roles d (c, v) \<noteq> None"
  by (simp add: is_channel_member_def channel_roles_row)

lemma space_role_roles: "get_space_member_role d s v = (case space_roles d (s, v) of None \<Rightarrow> '''' | Some r \<Rightarrow> r)"
  by (simp add: get_space_member_role_def space_roles_row) (simp add: first_row_def split: list.split)

lemma member_role_roles: "get_member_role d c v = (case channel_roles d (c, v) of None \<Rightarrow> '''' | Some r \<Rightarrow> r)"
  by (simp add: get_member_role_def channel_roles_row) (simp add: first_row_def split: list.split)

text \<open>What the methods of the database do to the maps.\<close>

lemma roles_cong:
  "space_members d' = space_members d \<Longrightarrow> space_roles d' = space_roles d"
  "channel_members d' = channel_members d \<Longrightarrow> channel_roles d' = channel_roles d"
  by (simp_all add: space_roles_def channel_roles_def)

lemma roles_space_insert:
  assumes "space_roles d (s, v) = None"
    and "space_members d' = space_members d @ [\<lparr>sm_space_id = s, sm_user_id = v, sm_role = r\<rparr>]"
  shows "space_roles d' = (space_roles d)((s, v) \<mapsto> r)"
  using assms by (auto simp: space_roles_def map_add_def fun_eq_iff split: option.split)

lemma roles_channel_insert:
  assumes "channel_roles d (c, v) = None"
    and "channel_members d' = channel_members d @ [\<lparr>cm_channel_id = c, cm_user_id = v, cm_role = r\<rparr>]"
  shows "channel_roles d' = (channel_roles d)((c, v) \<mapsto> r)"
  using assms by (auto simp: channel_roles_def map_add_def fun_eq_iff split: option.split)

lemma roles_add_space_member:
  assumes "add_space_member d s v r = Inr d'"
  shows "space_roles d' = (if space_roles d (s, v) = None then (space_roles d)((s, v) \<mapsto> r) else space_roles d)"
    "channel_members d' = channel_members d" "channels d' = channels d" "spaces d' = spaces d" "users d' = users d"
  using assms roles_space_insert [of d s v d' r]
  by (auto simp: add_space_member_def is_space_member_roles split: if_splits)

lemma roles_add_channel_member:
  assumes "add_channel_member d c v r = Inr d'"
  shows "channel_roles d' = (if channel_roles d (c, v) = None then (channel_roles d)((c, v) \<mapsto> r) else channel_roles d)"
    "space_members d' = space_members d" "channels d' = channels d" "spaces d' = spaces d" "users d' = users d"
  using assms roles_channel_insert [of d c v d' r]
  by (auto simp: add_channel_member_def is_channel_member_roles split: if_splits)

lemma map_of_update_key:
  assumes "\<And>m. key (f m) = key m" and "\<And>m. val (f m) = r"
  shows "map_of (map (\<lambda>m. (key m, val m)) (map (\<lambda>m. if key m = k then f m else m) xs)) =
     (\<lambda>j. if j = k then map_option (\<lambda>_. r) (map_of (map (\<lambda>m. (key m, val m)) xs) k)
          else map_of (map (\<lambda>m. (key m, val m)) xs) j)"
  by (induction xs) (auto simp: fun_eq_iff assms)

lemma upd_if_present:
  "(\<lambda>j. if j = k then map_option (\<lambda>_. r) (g k) else g j) = (if g k = None then g else g(k \<mapsto> r))"
  by (auto simp: fun_eq_iff)

lemma roles_update_space:
  "space_roles (update_space_member_role d s v r) =
     (if space_roles d (s, v) = None then space_roles d else (space_roles d)((s, v) \<mapsto> r))"
  "channel_roles (update_space_member_role d s v r) = channel_roles d"
proof -
  have "space_members (update_space_member_role d s v r) =
      map (\<lambda>m. if (sm_space_id m, sm_user_id m) = (s, v) then m\<lparr>sm_role := r\<rparr> else m) (space_members d)"
    by (simp add: update_space_member_role_def)
  then show "space_roles (update_space_member_role d s v r) =
     (if space_roles d (s, v) = None then space_roles d else (space_roles d)((s, v) \<mapsto> r))"
    by (simp only: space_roles_def, subst map_of_update_key [where r = r], simp, simp, simp only: upd_if_present)
qed (rule roles_cong(2), simp add: update_space_member_role_def)

lemma roles_update_channel:
  "channel_roles (update_member_role d c v r) =
     (if channel_roles d (c, v) = None then channel_roles d else (channel_roles d)((c, v) \<mapsto> r))"
  "space_roles (update_member_role d c v r) = space_roles d"
proof -
  have "channel_members (update_member_role d c v r) =
      map (\<lambda>m. if (cm_channel_id m, cm_user_id m) = (c, v) then m\<lparr>cm_role := r\<rparr> else m) (channel_members d)"
    by (simp add: update_member_role_def)
  then show "channel_roles (update_member_role d c v r) =
     (if channel_roles d (c, v) = None then channel_roles d else (channel_roles d)((c, v) \<mapsto> r))"
    by (simp only: channel_roles_def, subst map_of_update_key [where r = r], simp, simp, simp only: upd_if_present)
qed (rule roles_cong(1), simp add: update_member_role_def)

lemma map_of_filter_key:
  "map_of (map (\<lambda>m. (key m, val m)) (filter (\<lambda>m. \<not> P (key m)) xs)) =
     (\<lambda>k. if P k then None else map_of (map (\<lambda>m. (key m, val m)) xs) k)"
  by (induction xs) (auto simp: fun_eq_iff)

lemma roles_remove_channel:
  "channel_roles (remove_channel_member d c v) = (channel_roles d)((c, v) := None)"
  "space_roles (remove_channel_member d c v) = space_roles d"
proof -
  have "channel_members (remove_channel_member d c v) =
      filter (\<lambda>m. \<not> (cm_channel_id m, cm_user_id m) = (c, v)) (channel_members d)"
    by (simp add: remove_channel_member_def)
  then show "channel_roles (remove_channel_member d c v) = (channel_roles d)((c, v) := None)"
    by (simp only: channel_roles_def map_of_filter_key [where P = "\<lambda>k. k = (c, v)"] fun_upd_def)
qed (rule roles_cong(1), simp add: remove_channel_member_def)

lemma roles_remove_space:
  "space_roles (remove_space_member d s v) = (space_roles d)((s, v) := None)"
  "channel_roles (remove_space_member d s v) =
     (\<lambda>k. if snd k = v \<and> in_channels_of d s (fst k) then None else channel_roles d k)"
proof -
  have "space_members (remove_space_member d s v) =
      filter (\<lambda>m. \<not> (sm_space_id m, sm_user_id m) = (s, v)) (space_members d)"
    by (simp add: remove_space_member_def Let_def)
  then show "space_roles (remove_space_member d s v) = (space_roles d)((s, v) := None)"
    by (simp only: space_roles_def map_of_filter_key [where P = "\<lambda>k. k = (s, v)"] fun_upd_def)
  have "channel_members (remove_space_member d s v) =
      filter (\<lambda>m. \<not> (snd (cm_channel_id m, cm_user_id m) = v \<and> in_channels_of d s (fst (cm_channel_id m, cm_user_id m))))
        (channel_members d)"
    by (simp add: remove_space_member_def Let_def in_channels_of_def list_ex_iff)
  then show "channel_roles (remove_space_member d s v) =
     (\<lambda>k. if snd k = v \<and> in_channels_of d s (fst k) then None else channel_roles d k)"
    by (simp only: channel_roles_def map_of_filter_key [where P = "\<lambda>k. snd k = v \<and> in_channels_of d s (fst k)"])
qed


section \<open>The abstract step\<close>

definition may_enter :: "db \<Rightarrow> string \<Rightarrow> string \<Rightarrow> string \<Rightarrow> bool" where
  "may_enter d u s role \<longleftrightarrow>
     (\<exists>sp. find_space_by_id d s = Some sp \<and> sp_is_public sp \<and> role = sp_default_role sp)
     \<or> (\<exists>i \<in> set (space_invites d). si_space_id i = s \<and> si_invited_user_id i = u
          \<and> si_status i = ''pending'' \<and> role = si_role i)"

definition with_defaults :: "string \<Rightarrow> channel list \<Rightarrow> roles \<Rightarrow> roles" where
  "with_defaults u cs =
     fold (\<lambda>c r. if r (ch_id c, u) = None then r((ch_id c, u) \<mapsto> ch_default_role c) else r) cs"

definition channel_manager :: "db \<Rightarrow> channel \<Rightarrow> string \<Rightarrow> bool" where
  "channel_manager d c u \<longleftrightarrow>
     ch_space_id c \<noteq> [] \<and> is_admin_role (get_space_member_role d (ch_space_id c) u) \<or> server_admin d u"

text \<open>
  The memberships before, who acts, and the memberships after; \<open>K\<close> are the spaces from which
  somebody may be thrown out.
\<close>

inductive membership_step :: "string set \<Rightarrow> db \<Rightarrow> string \<Rightarrow> db \<Rightarrow> bool" where
  still: "space_roles d' = space_roles d \<Longrightarrow> channel_roles d' = channel_roles d \<Longrightarrow> membership_step K d u d'"
| enter_space: "may_enter d u s role \<Longrightarrow>
     space_roles d' = (if space_roles d (s, u) = None then (space_roles d)((s, u) \<mapsto> role) else space_roles d) \<Longrightarrow>
     channel_roles d' = with_defaults u (get_default_join_channels d s) (channel_roles d) \<Longrightarrow>
     membership_step K d u d'"
| set_space_role: "space_manager d s u \<Longrightarrow> valid_space_role role \<Longrightarrow> space_roles d (s, v) = Some current \<Longrightarrow>
     space_role_rank role \<le> actor_space_rank d s u \<Longrightarrow>
     (space_role_rank role < space_role_rank current \<Longrightarrow> space_role_rank current < actor_space_rank d s u \<or> u = v) \<Longrightarrow>
     (current = ''owner'' \<Longrightarrow> role \<noteq> ''owner'' \<Longrightarrow> 1 < count_space_members_with_role d s ''owner'') \<Longrightarrow>
     space_roles d' = (space_roles d)((s, v) \<mapsto> role) \<Longrightarrow> channel_roles d' = channel_roles d \<Longrightarrow>
     membership_step K d u d'"
| kick_from_space: "s \<in> K \<Longrightarrow> space_manager d s u \<Longrightarrow> space_roles d' = (space_roles d)((s, v) := None) \<Longrightarrow>
     channel_roles d' = (\<lambda>k. if snd k = v \<and> in_channels_of d s (fst k) then None else channel_roles d k) \<Longrightarrow>
     membership_step K d u d'"
| leave_space: "\<not> is_personal_space d s \<Longrightarrow>
     (\<forall>sp. find_space_by_id d s = Some sp \<and> \<not> sp_is_archived sp \<and> space_roles d (s, u) = Some ''owner''
        \<longrightarrow> 1 < count_space_members_with_role d s ''owner'') \<Longrightarrow>
     space_roles d' = (space_roles d)((s, u) := None) \<Longrightarrow>
     channel_roles d' = (\<lambda>k. if snd k = u \<and> in_channels_of d s (fst k) then None else channel_roles d k) \<Longrightarrow>
     membership_step K d u d'"
| new_space: "server_admin d u \<or> find_personal_space d u = None \<Longrightarrow> \<not> has_key sp_id s (spaces d) \<Longrightarrow>
     space_roles d' = [(s, u) \<mapsto> ''owner''] ++ space_roles d \<Longrightarrow> channel_roles d' = channel_roles d \<Longrightarrow>
     membership_step K d u d'"
| new_channel: "\<not> has_key ch_id c (channels d) \<Longrightarrow> space_id = [] \<or> space_manager d space_id u \<Longrightarrow>
     (\<exists>ch \<in> set (channels d'). ch_id ch = c \<and> ch_space_id ch = space_id) \<Longrightarrow>
     (\<forall>k. fst k \<noteq> c \<longrightarrow> channel_roles d' k = channel_roles d k) \<Longrightarrow> space_roles d' = space_roles d \<Longrightarrow>
     membership_step K d u d'"
| join_channel: "find_channel_by_id d c = Some ch \<Longrightarrow> \<not> ch_is_direct ch \<Longrightarrow>
     (channel_manager d ch u \<and> role = ''admin'') \<or> (ch_is_public ch \<and> role = ch_default_role ch) \<Longrightarrow>
     channel_roles d' = (channel_roles d)((c, u) \<mapsto> role) \<Longrightarrow> space_roles d' = space_roles d \<Longrightarrow>
     membership_step K d u d'"
| add_to_channel: "get_effective_role d c u = ''admin'' \<Longrightarrow> valid_channel_role role \<Longrightarrow>
     channel_roles d' = (channel_roles d)((c, v) \<mapsto> role) \<Longrightarrow> space_roles d' = space_roles d \<Longrightarrow>
     membership_step K d u d'"
| add_to_conversation: "is_channel_member d c u \<Longrightarrow> channel_roles d (c, v) = None \<Longrightarrow>
     channel_roles d' = (channel_roles d)((c, v) \<mapsto> ''write'') \<Longrightarrow> space_roles d' = space_roles d \<Longrightarrow>
     membership_step K d u d'"
| set_channel_role: "get_effective_role d c u = ''admin'' \<Longrightarrow> valid_channel_role role \<Longrightarrow>
     channel_roles d (c, v) = Some current \<Longrightarrow>
     (current = ''admin'' \<Longrightarrow> role \<noteq> ''admin'' \<Longrightarrow> 1 < count_channel_members_with_role d c ''admin'') \<Longrightarrow>
     channel_roles d' = (channel_roles d)((c, v) \<mapsto> role) \<Longrightarrow> space_roles d' = space_roles d \<Longrightarrow>
     membership_step K d u d'"
| kick_from_channel: "get_effective_role d c u = ''admin'' \<Longrightarrow> v \<noteq> u \<Longrightarrow>
     channel_roles d' = (channel_roles d)((c, v) := None) \<Longrightarrow> space_roles d' = space_roles d \<Longrightarrow>
     membership_step K d u d'"
| leave_channel: "find_channel_by_id d c = Some ch \<Longrightarrow>
     (channel_roles d (c, u) = Some ''admin'' \<Longrightarrow> \<not> ch_is_direct ch \<Longrightarrow> \<not> ch_is_archived ch
        \<Longrightarrow> 1 < count_channel_members_with_role d c ''admin'') \<Longrightarrow>
     channel_roles d' = (channel_roles d)((c, u) := None) \<Longrightarrow> space_roles d' = space_roles d \<Longrightarrow>
     membership_step K d u d'"

section \<open>Deferred subscriptions\<close>

text \<open>What the effects of a request subscribe and unsubscribe, as pairs of a room and a user.\<close>

definition joined :: "effect list \<Rightarrow> (string \<times> string) set" where
  "joined es = {(c, v). Subscribe_channel v c \<in> set es}"

definition parted :: "effect list \<Rightarrow> (string \<times> string) set" where
  "parted es = {(c, v). Unsubscribe_channel v c \<in> set es}"

definition space_joined :: "effect list \<Rightarrow> (string \<times> string) set" where
  "space_joined es = {(s, v). Subscribe_space v s \<in> set es}"

definition space_parted :: "effect list \<Rightarrow> (string \<times> string) set" where
  "space_parted es = {(s, v). Unsubscribe_space v s \<in> set es}"

lemmas subs_defs = joined_def parted_def space_joined_def space_parted_def

definition follows :: "db \<Rightarrow> db \<Rightarrow> effect list \<Rightarrow> bool" where
  "follows d d' es \<longleftrightarrow>
     dom (channel_roles d') - dom (channel_roles d) \<subseteq> joined es \<and> joined es \<subseteq> dom (channel_roles d')
     \<and> dom (channel_roles d) - dom (channel_roles d') \<subseteq> parted es \<and> parted es \<inter> dom (channel_roles d') = {}
     \<and> space_joined es \<subseteq> dom (space_roles d')
     \<and> dom (space_roles d) - dom (space_roles d') \<subseteq> space_parted es \<and> space_parted es \<inter> dom (space_roles d') = {}"

text \<open>The primary key and the foreign key of the members of spaces.\<close>

definition keys_distinct :: "db \<Rightarrow> bool" where
  "keys_distinct d \<longleftrightarrow> distinct (map (\<lambda>m. (sm_space_id m, sm_user_id m)) (space_members d))
     \<and> (\<forall>k \<in> set (map (\<lambda>m. (sm_space_id m, sm_user_id m)) (space_members d)). has_key sp_id (fst k) (spaces d))"

definition room_ok :: "string set \<Rightarrow> db \<Rightarrow> string \<Rightarrow> db \<Rightarrow> effect list \<Rightarrow> bool" where
  "room_ok K d u d' es \<longleftrightarrow> membership_step K d u d' \<and> follows d d' es \<and> (keys_distinct d \<longrightarrow> keys_distinct d')"

text \<open>Effects that only send.\<close>

definition quiet :: "effect \<Rightarrow> bool" where
  "quiet e = (case e of Subscribe_channel _ _ \<Rightarrow> False | Unsubscribe_channel _ _ \<Rightarrow> False
     | Subscribe_space _ _ \<Rightarrow> False | Unsubscribe_space _ _ \<Rightarrow> False | _ \<Rightarrow> True)"

lemma quiet_simps [simp]:
  "quiet (To_channel c j)" "quiet (To_space s j)" "quiet (To_user v j)" "quiet (Admins_channel c)" "quiet (Admins_space s)"
  by (simp_all add: quiet_def)

lemma has_key_ids: "map key xs = map key ys \<Longrightarrow> has_key key k xs = has_key key k ys"
  by (metis has_key_iff list.set_map)

lemma room_ok_still:
  assumes "space_members d' = space_members d" and "channel_members d' = channel_members d"
    and "map sp_id (spaces d') = map sp_id (spaces d)" and "list_all quiet es"
  shows "room_ok K d u d' es"
proof -
  have "joined es = {}" "parted es = {}" "space_joined es = {}" "space_parted es = {}"
    using assms(4) by (auto simp: subs_defs list_all_iff quiet_def)
  then show ?thesis
    using assms(1,2) roles_cong [of d' d] has_key_ids [OF assms(3)]
    by (simp add: room_ok_def follows_def keys_distinct_def membership_step.still)
qed

lemma room_ok_refl [simp]: "room_ok K d u d []"
  by (simp add: room_ok_still)

end
