(* ===== verification/Room_Steps.thy ===== *)
theory Room_Steps
  imports Room_Access
begin

text \<open>
  Every request of \<open>space_handler.cpp\<close> and \<open>channel_handler.cpp\<close> refines a step of the abstract
  memberships, and its deferred subscriptions follow them.
\<close>

section \<open>Rules for pages and invites\<close>

lemma after_page [outcome_rules]:
  "Q d [] \<Longrightarrow> (\<And>l k. page_params ls os = Some (l, k) \<Longrightarrow> holds_after Q (rest l k d)) \<Longrightarrow> holds_after Q (with_page ls os rest d)"
  by (simp add: with_page_def split: option.split)

lemma after_invite [outcome_rules]:
  "Q d [] \<Longrightarrow> (\<And>x. get_space_invite d i = Some x \<Longrightarrow> si_invited_user_id x = u \<Longrightarrow> si_status x = ''pending''
     \<Longrightarrow> holds_after Q (rest x d)) \<Longrightarrow> holds_after Q (with_invite i u rest d)"
  by (simp add: with_invite_def split: option.split)

section \<open>Requests that leave the memberships alone\<close>

named_theorems member_frames \<open>database methods that leave the memberships alone\<close>

lemma frame_update_space [member_frames]:
  "update_space d s n de p r c = Inr (x, d') \<Longrightarrow> space_members d' = space_members d \<and> channel_members d' = channel_members d
     \<and> map sp_id (spaces d') = map sp_id (spaces d)"
  by (auto simp: update_space_def Let_def split: option.splits if_splits)

lemma frame_update_channel [member_frames]:
  "update_channel d s n de p r c = Inr (x, d') \<Longrightarrow> space_members d' = space_members d \<and> channel_members d' = channel_members d
     \<and> map sp_id (spaces d') = map sp_id (spaces d)"
  by (auto simp: update_channel_def Let_def split: option.splits if_splits)

lemma frame_create_space_invite [member_frames]:
  "create_space_invite d i now s v b r = Inr (x, d') \<Longrightarrow> space_members d' = space_members d \<and> channel_members d' = channel_members d
     \<and> map sp_id (spaces d') = map sp_id (spaces d)"
  by (auto simp: create_space_invite_def split: if_splits)

lemma frame_create_notification [member_frames]:
  "create_notification enc d i now v ty s c m x = Inr (y, d') \<Longrightarrow> space_members d' = space_members d \<and> channel_members d' = channel_members d
     \<and> map sp_id (spaces d') = map sp_id (spaces d)"
  by (auto simp: create_notification_def split: if_splits)

lemma frame_rename [member_frames]:
  "rename_conversation d c n = Inr d' \<Longrightarrow> space_members d' = space_members d \<and> channel_members d' = channel_members d
     \<and> map sp_id (spaces d') = map sp_id (spaces d)"
  by (auto simp: rename_conversation_def split: if_splits)

lemma frame_tools [member_frames]:
  "(if e then enable_space_tool d s tn u else Inr (disable_space_tool d s tn)) = Inr d' \<Longrightarrow>
     space_members d' = space_members d \<and> channel_members d' = channel_members d \<and> map sp_id (spaces d') = map sp_id (spaces d)"
  by (auto simp: enable_space_tool_def disable_space_tool_def split: if_splits)

lemma frame_simps [simp]:
  "space_members (archive_space d s) = space_members d" "channel_members (archive_space d s) = channel_members d"
  "space_members (unarchive_space d s) = space_members d" "channel_members (unarchive_space d s) = channel_members d"
  "space_members (archive_channel d s) = space_members d" "channel_members (archive_channel d s) = channel_members d"
  "space_members (unarchive_channel d s) = space_members d" "channel_members (unarchive_channel d s) = channel_members d"
  "space_members (update_space_invite_status d i st) = space_members d"
  "channel_members (update_space_invite_status d i st) = channel_members d"
  "map sp_id (spaces (archive_space d s)) = map sp_id (spaces d)" "map sp_id (spaces (unarchive_space d s)) = map sp_id (spaces d)"
  "spaces (archive_channel d s) = spaces d" "spaces (unarchive_channel d s) = spaces d"
  "spaces (update_space_invite_status d i st) = spaces d"
  by (simp_all add: archive_space_def unarchive_space_def archive_channel_def unarchive_channel_def update_space_invite_status_def)

lemma quiet_list [simp]: "list_all quiet [] = True" by simp

text \<open>Which requests only look, or change other things than memberships.\<close>

fun leaves_members :: "room_request \<Rightarrow> bool" where
  "leaves_members (Space_list _ _) = False"
| "leaves_members (Space_create _) = False"
| "leaves_members (Space_join _) = False"
| "leaves_members (Space_kick _ _) = False"
| "leaves_members (Space_set_role _ _ _) = False"
| "leaves_members (Space_channel_create _ _) = False"
| "leaves_members (Space_leave _) = False"
| "leaves_members (Conv_create _) = False"
| "leaves_members (Conv_add_member _ _) = False"
| "leaves_members (Invite_accept _) = False"
| "leaves_members (Chan_create _) = False"
| "leaves_members (Chan_create_dm _) = False"
| "leaves_members (Chan_join _) = False"
| "leaves_members (Chan_add_member _ _) = False"
| "leaves_members (Chan_kick _ _) = False"
| "leaves_members (Chan_set_role _ _ _) = False"
| "leaves_members (Chan_leave _) = False"
| "leaves_members _ = True"

lemma step_settings:
  "holds_after (room_ok K d u) (space_settings env t s b d)" "holds_after (room_ok K d u) (chan_settings env t s b d)"
  unfolding space_settings_def chan_settings_def
  by (intro outcome_rules; auto intro: room_ok_still dest!: member_frames simp: Let_def)+

lemma step_looks:
  "holds_after (room_ok K d u) (space_browse env t x d)" "holds_after (room_ok K d u) (space_details env t s d)"
  "holds_after (room_ok K d u) (space_channels env t s d)" "holds_after (room_ok K d u) (conv_list env t d)"
  "holds_after (room_ok K d u) (invite_list env t d)" "holds_after (room_ok K d u) (space_tools_get env t s d)"
  "holds_after (room_ok K d u) (shared_with_me env t d)" "holds_after (room_ok K d u) (chan_messages env t s x y d)"
  "holds_after (room_ok K d u) (chan_read_receipts env t s d)" "holds_after (room_ok K d u) (chan_list env t x y d)"
  "holds_after (room_ok K d u) (chan_browse env t x s d)"
  unfolding space_browse_def space_details_def space_channels_def conv_list_def invite_list_def space_tools_get_def
    shared_with_me_def chan_messages_def chan_read_receipts_def chan_list_def chan_browse_def Let_def
  by (intro outcome_rules; simp add: Let_def)+

lemma step_archives:
  "holds_after (room_ok K d u) (space_archive env t s d)" "holds_after (room_ok K d u) (space_unarchive env t s d)"
  "holds_after (room_ok K d u) (chan_archive env t s d)" "holds_after (room_ok K d u) (chan_unarchive env t s d)"
  unfolding space_archive_def space_unarchive_def chan_archive_def chan_unarchive_def
  by (intro outcome_rules; auto intro: room_ok_still)+

lemma step_small:
  "holds_after (room_ok K d u) (conv_rename env t s b d)" "holds_after (room_ok K d u) (invite_decline env t s d)"
  "holds_after (room_ok K d u) (space_tools_put env t s b d)"
  unfolding conv_rename_def invite_decline_def space_tools_put_def
  by (intro outcome_rules; auto intro: room_ok_still dest!: member_frames)+

lemma step_invite: "holds_after (room_ok K d u) (space_invite_member env t s b d)"
  unfolding space_invite_member_def send_invite_def Let_def
  by (intro outcome_rules; auto intro: room_ok_still dest!: member_frames)

lemma leaves_members_ok: "leaves_members req \<Longrightarrow> holds_after (room_ok K d u) (room_serve env t req d)"
  by (cases req) (simp_all add: step_settings step_looks step_archives step_small step_invite)

section \<open>Subscriptions of lists of effects\<close>

lemma subs_append [simp]:
  "joined (x @ y) = joined x \<union> joined y" "parted (x @ y) = parted x \<union> parted y"
  "space_joined (x @ y) = space_joined x \<union> space_joined y" "space_parted (x @ y) = space_parted x \<union> space_parted y"
  by (auto simp: subs_defs)

lemma subs_quiet [simp]:
  "list_all quiet es \<Longrightarrow> joined es = {}" "list_all quiet es \<Longrightarrow> parted es = {}"
  "list_all quiet es \<Longrightarrow> space_joined es = {}" "list_all quiet es \<Longrightarrow> space_parted es = {}"
  by (auto simp: subs_defs list_all_iff quiet_def)

lemma subs_quiet_Cons [simp]:
  "quiet e \<Longrightarrow> joined (e # es) = joined es" "quiet e \<Longrightarrow> parted (e # es) = parted es"
  "quiet e \<Longrightarrow> space_joined (e # es) = space_joined es" "quiet e \<Longrightarrow> space_parted (e # es) = space_parted es"
  by (auto simp: subs_defs quiet_def)

lemma subs_Cons [simp]:
  "joined (Subscribe_channel v c # es) = insert (c, v) (joined es)" "parted (Subscribe_channel v c # es) = parted es"
  "space_joined (Subscribe_channel v c # es) = space_joined es" "space_parted (Subscribe_channel v c # es) = space_parted es"
  "joined (Unsubscribe_channel v c # es) = joined es" "parted (Unsubscribe_channel v c # es) = insert (c, v) (parted es)"
  "space_joined (Unsubscribe_channel v c # es) = space_joined es" "space_parted (Unsubscribe_channel v c # es) = space_parted es"
  "joined (Subscribe_space v c # es) = joined es" "parted (Subscribe_space v c # es) = parted es"
  "space_joined (Subscribe_space v c # es) = insert (c, v) (space_joined es)" "space_parted (Subscribe_space v c # es) = space_parted es"
  "joined (Unsubscribe_space v c # es) = joined es" "parted (Unsubscribe_space v c # es) = parted es"
  "space_joined (Unsubscribe_space v c # es) = space_joined es" "space_parted (Unsubscribe_space v c # es) = insert (c, v) (space_parted es)"
  by (auto simp: subs_defs)

lemma subs_Nil [simp]: "joined [] = {}" "parted [] = {}" "space_joined [] = {}" "space_parted [] = {}"
  by (auto simp: subs_defs)

text \<open>One channel membership added or removed, with the subscription that goes with it.\<close>

lemma keys_same_rows:
  "space_members d' = space_members d \<Longrightarrow> spaces d' = spaces d \<Longrightarrow> keys_distinct d \<Longrightarrow> keys_distinct d'"
  by (simp add: keys_distinct_def)

lemma room_ok_channel_add:
  assumes "add_channel_member d c v r = Inr d'" and "joined es = {(c, v)}" "parted es = {}" "space_joined es = {}" "space_parted es = {}"
    and "channel_roles d (c, v) = None \<Longrightarrow> membership_step K d u d'"
  shows "room_ok K d u d' es"
proof (cases "channel_roles d (c, v)")
  case None
  then show ?thesis
    using roles_add_channel_member [OF assms(1)] roles_cong(1) [of d' d] keys_same_rows [of d' d] assms(2-6)
    by (auto simp: room_ok_def follows_def)
next
  case (Some x)
  then show ?thesis
    using roles_add_channel_member [OF assms(1)] roles_cong(1) [of d' d] keys_same_rows [of d' d] assms(2-5)
    by (auto simp: room_ok_def follows_def intro: membership_step.still)
qed

lemma room_ok_channel_remove:
  assumes "joined es = {}" "parted es = {(c, v)}" "space_joined es = {}" "space_parted es = {}"
    and "channel_roles d' = (channel_roles d)((c, v) := None)" and "space_members d' = space_members d" and "spaces d' = spaces d"
    and "membership_step K d u d'"
  shows "room_ok K d u d' es"
  using roles_cong(1) [OF assms(6)] keys_same_rows [OF assms(6,7)] assms(1-5,8)
  by (auto simp: room_ok_def follows_def)

lemma frame_channel_members [simp]:
  "space_members (remove_channel_member d c v) = space_members d" "spaces (remove_channel_member d c v) = spaces d"
  "channels (remove_channel_member d c v) = channels d" "users (remove_channel_member d c v) = users d"
  "space_members (update_member_role d c v r) = space_members d" "spaces (update_member_role d c v r) = spaces d"
  "space_members (archive_channel d c) = space_members d" "spaces (archive_channel d c) = spaces d"
  "channel_roles (archive_channel d c) = channel_roles d" "space_roles (archive_channel d c) = space_roles d"
  by (simp_all add: remove_channel_member_def update_member_role_def archive_channel_def channel_roles_def space_roles_def)

section \<open>Requests on the members of a channel\<close>

lemma step_chan_join:
  assumes "validate_session d (we_now env) t = Some u"
  shows "holds_after (room_ok K d u) (chan_join env t c d)"
  unfolding chan_join_def Let_def
proof (intro outcome_rules; (simp; fail)?)
  fix v ch d'
  assume "validate_session d (we_now env) t = Some v" and c: "find_channel_by_id d c = Some ch" "\<not> ch_is_direct ch"
    and allowed: "\<not> (\<not> ch_is_public ch \<and> \<not> (ch_space_id ch \<noteq> [] \<and> is_admin_role (get_space_member_role d (ch_space_id ch) v)
      \<or> server_admin d v))"
    and d': "add_channel_member d c v (if ch_space_id ch \<noteq> [] \<and> is_admin_role (get_space_member_role d (ch_space_id ch) v)
      \<or> server_admin d v then ''admin'' else ch_default_role ch) = Inr d'"
  then have v: "v = u" using assms by simp
  show "holds_after (room_ok K d u) (done_with d' [Subscribe_channel v c])"
    using roles_add_channel_member [OF d'] roles_cong(1) [of d' d] allowed c v
    by (simp, intro room_ok_channel_add [OF d'])
      (auto intro!: membership_step.join_channel [OF c] simp: channel_manager_def fun_upd_def split: if_splits)
qed

lemma invited_quiet [simp]: "list_all quiet (chan_invited env d c v r)"
  by (simp add: chan_invited_def split: option.split)

lemma step_chan_add:
  assumes "validate_session d (we_now env) t = Some u"
  shows "holds_after (room_ok K d u) (chan_add_member env t c b d)"
  unfolding chan_add_member_def Let_def
proof (intro outcome_rules; (simp; fail)?)
  fix v j target wanted d'
  let ?role = "if wanted \<noteq> [] then wanted else case find_channel_by_id d c of None \<Rightarrow> ''write'' | Some x \<Rightarrow> ch_default_role x"
  assume v: "validate_session d (we_now env) t = Some v" "\<not> get_effective_role d c v \<noteq> ''admin''"
    and valid: "\<not> \<not> valid_channel_role ?role" and d': "add_channel_member d c target ?role = Inr d'"
  then have "get_effective_role d c u = ''admin''" "valid_channel_role ?role" using assms by simp_all
  then show "holds_after (room_ok K d u) (done_with d' (Subscribe_channel target c # chan_invited env d' c target ?role))"
    using roles_add_channel_member [OF d'] roles_cong(1) [of d' d]
    by (simp only: after_simps, intro room_ok_channel_add [OF d']) (auto intro: membership_step.add_to_channel)
qed

lemma step_conv_add:
  assumes "validate_session d (we_now env) t = Some u"
  shows "holds_after (room_ok K d u) (conv_add_member env t c b d)"
  unfolding conv_add_member_def add_conversation_member_def
proof (intro outcome_rules; (simp; fail)?)
  fix v j target d'
  assume v: "validate_session d (we_now env) t = Some v" "\<not> \<not> is_channel_member d c v"
    and d': "add_channel_member d c target ''write'' = Inr d'"
  then have "is_channel_member d c u" using assms by simp
  then show "holds_after (room_ok K d u) (done_with d' (Subscribe_channel target c #
      (case find_channel_by_id d' c of None \<Rightarrow> []
       | Some ch \<Rightarrow> [To_user target (notice ''channel_added'' [(''channel'', new_conversation_json env d' ch)]),
           To_channel c (notice ''conversation_member_added''
             [(''channel_id'', JString c), (''members'', channel_members_json env d' c)])])))"
    using roles_add_channel_member [OF d'] roles_cong(1) [of d' d]
    by (simp only: after_simps, intro room_ok_channel_add [OF d'])
      (auto intro: membership_step.add_to_conversation split: option.split)
qed

lemma step_chan_kick:
  assumes "validate_session d (we_now env) t = Some u"
  shows "holds_after (room_ok K d u) (chan_kick env t c target d)"
  unfolding chan_kick_def
  by (intro outcome_rules; (simp; fail)?)
    (use assms in \<open>auto intro!: room_ok_channel_remove membership_step.kick_from_channel simp: roles_remove_channel\<close>)

lemma step_chan_set_role:
  assumes "validate_session d (we_now env) t = Some u"
  shows "holds_after (room_ok K d u) (chan_set_role env t c target b d)"
  unfolding chan_set_role_def Let_def
proof (intro outcome_rules; (simp; fail)?)
  fix v j role
  assume v: "validate_session d (we_now env) t = Some v" "\<not> get_effective_role d c v \<noteq> ''admin''"
    and valid: "\<not> \<not> valid_channel_role role"
    and not_last: "\<not> (get_member_role d c target = ''admin'' \<and> role \<noteq> ''admin''
      \<and> count_channel_members_with_role d c ''admin'' \<le> 1)"
  let ?d = "update_member_role d c target role"
  have "membership_step K d u ?d"
  proof (cases "channel_roles d (c, target)")
    case None
    then show ?thesis by (intro membership_step.still) (simp_all add: roles_update_channel)
  next
    case (Some current)
    then show ?thesis
      using v valid not_last assms
      by (intro membership_step.set_channel_role [OF _ _ Some])
        (auto simp: roles_update_channel member_role_roles)
  qed
  then show "holds_after (room_ok K d u) (done_with ?d
      [To_user target (notice ''role_changed'' [(''channel_id'', JString c), (''role'', JString role)]),
       To_channel c (notice ''member_role_changed''
         [(''channel_id'', JString c), (''user_id'', JString target), (''role'', JString role)])])"
    by (auto simp: room_ok_def follows_def roles_update_channel keys_distinct_def split: if_splits)
qed

lemma step_chan_leave:
  assumes "validate_session d (we_now env) t = Some u"
  shows "holds_after (room_ok K d u) (chan_leave env t c d)"
  unfolding chan_leave_def chan_leave_direct_def Let_def
proof (intro outcome_rules; (simp; fail)?)
  fix v ch
  let ?d = "remove_channel_member d c v"
  assume v: "validate_session d (we_now env) t = Some v"
    and c: "find_channel_by_id d c = Some ch"
  {
    assume direct: "ch_is_direct ch"
    show "holds_after (room_ok K d u)
      (done_with (if count_channel_members ?d c \<le> 1 then archive_channel ?d c else ?d)
        ([Unsubscribe_channel v c] @
         (if count_channel_members ?d c \<le> 1
          then [To_channel c (archived_notice ''channel_updated'' ''channel'' c True)] else []) @
         [To_channel c (notice ''member_left'' [(''channel_id'', JString c), (''user_id'', JString v)]),
          To_user v (archived_notice ''channel_updated'' ''channel'' c True)]))"
      using v assms direct
      by (simp only: after_simps, intro room_ok_channel_remove [where c = c and v = u])
        (auto intro!: membership_step.leave_channel [OF c] simp: roles_remove_channel)
  next
    assume "\<not> ch_is_direct ch"
      and "\<not> (get_member_role d c v = ''admin'' \<and> \<not> ch_is_archived ch
        \<and> count_channel_members_with_role d c ''admin'' \<le> 1)"
    then show "holds_after (room_ok K d u)
      (done_with ?d [Unsubscribe_channel v c,
        To_channel c (notice ''member_left'' [(''channel_id'', JString c), (''user_id'', JString v)]),
        To_user v (notice ''channel_removed'' [(''channel_id'', JString c)])])"
      using v assms
      by (simp only: after_simps, intro room_ok_channel_remove [where c = c and v = u])
        (auto intro!: membership_step.leave_channel [OF c] simp: roles_remove_channel member_role_roles)
  }
qed

section \<open>Entering and leaving a space\<close>

lemma with_defaults_dom:
  "dom (with_defaults u cs r) = dom r \<union> (\<lambda>c. (ch_id c, u)) ` set cs"
  unfolding with_defaults_def by (induction cs arbitrary: r) (auto split: if_splits)

lemma with_defaults_Cons [simp]:
  "with_defaults u [] r = r"
  "with_defaults u (c # cs) r =
     with_defaults u cs (if r (ch_id c, u) = None then r((ch_id c, u) \<mapsto> ch_default_role c) else r)"
  by (simp_all add: with_defaults_def)

lemma join_defaults_roles:
  assumes "join_defaults env u cs d = Some (d', es)"
  shows "channel_roles d' = with_defaults u cs (channel_roles d) \<and> space_members d' = space_members d
     \<and> spaces d' = spaces d \<and> joined es = dom (channel_roles d') - dom (channel_roles d)
     \<and> parted es = {} \<and> space_joined es = {} \<and> space_parted es = {}"
  using assms
proof (induction cs arbitrary: d es)
  case (Cons c cs)
  show ?case
  proof (cases "channel_roles d (ch_id c, u)")
    case None
    then obtain d1 where d1: "add_channel_member d (ch_id c) u (ch_default_role c) = Inr d1"
      using Cons.prems by (auto simp: is_channel_member_roles split: sum.splits)
    obtain es1 where rest: "join_defaults env u cs d1 = Some (d', es1)"
      and es: "es = [Subscribe_channel u (ch_id c), To_user u (channel_added env d1 c u)] @ es1"
      using Cons.prems None d1 by (auto simp: is_channel_member_roles split: option.splits prod.splits)
    have d1r: "channel_roles d1 = (channel_roles d)((ch_id c, u) \<mapsto> ch_default_role c)"
      using roles_add_channel_member(1) [OF d1] None by simp
    have sub: "insert (ch_id c, u) (dom (channel_roles d)) \<subseteq> dom (channel_roles d')"
      using Cons.IH [OF rest] d1r by (auto simp: with_defaults_dom)
    have "joined es = insert (ch_id c, u) (dom (channel_roles d') - dom (channel_roles d1))"
      using Cons.IH [OF rest] es by simp
    also have "\<dots> = dom (channel_roles d') - dom (channel_roles d)"
      using sub None d1r by auto
    finally show ?thesis
      using Cons.IH [OF rest] roles_add_channel_member [OF d1] None es d1r by (simp add: fun_upd_def)
  next
    case (Some x)
    then show ?thesis
      using Cons by (simp add: is_channel_member_roles)
  qed
qed simp

lemma keys_add:
  assumes "add_space_member d s v r = Inr d'" and "keys_distinct d"
  shows "keys_distinct d'"
  using assms
  by (auto simp: add_space_member_def keys_distinct_def is_space_member_def filter_empty_conv split: if_splits)

lemma room_ok_enter:
  assumes "add_space_member d1 s u role = Inr d2" and "join_defaults env u (get_default_join_channels d2 s) d2 = Some (d3, es)"
    and d1: "space_members d1 = space_members d" "channel_members d1 = channel_members d" "spaces d1 = spaces d" "channels d1 = channels d"
    and "may_enter d u s role" and "list_all quiet qs"
  shows "room_ok K d u d3 (Subscribe_space u s # es @ qs)"
proof -
  have roles: "space_roles d1 = space_roles d" "channel_roles d1 = channel_roles d"
    using d1 by (simp_all add: space_roles_def channel_roles_def)
  have same: "channel_roles d2 = channel_roles d" "channels d2 = channels d"
    using roles_add_space_member [OF assms(1)] d1 by (simp_all add: channel_roles_def)
  then have defaults: "get_default_join_channels d2 s = get_default_join_channels d s"
    by (simp add: get_default_join_channels_def)
  note j = join_defaults_roles [OF assms(2)]
  have sr: "space_roles d3 = (if space_roles d (s, u) = None then (space_roles d)((s, u) \<mapsto> role) else space_roles d)"
    using j roles_add_space_member(1) [OF assms(1)] roles_cong(1) [of d3 d2] roles by simp
  have "membership_step K d u d3"
    by (rule membership_step.enter_space [OF assms(7) sr]) (use j same defaults in simp)
  moreover have "follows d d3 (Subscribe_space u s # es @ qs)"
    using j sr same assms(8) unfolding follows_def by (auto simp: with_defaults_dom)
  moreover have "keys_distinct d \<Longrightarrow> keys_distinct d1"
    using d1 by (simp add: keys_distinct_def)
  then have "keys_distinct d \<Longrightarrow> keys_distinct d3"
    using keys_add [OF assms(1)] keys_same_rows [of d3 d2] j by blast
  ultimately show ?thesis by (simp add: room_ok_def)
qed

lemma step_join:
  assumes "validate_session d (we_now env) t = Some u"
  shows "holds_after (room_ok K d u) (space_join env t s d)"
  unfolding space_join_def
proof (intro outcome_rules; (simp; fail)?)
  fix v sp d1 x d2 es
  assume "validate_session d (we_now env) t = Some v" "find_space_by_id d s = Some sp" "\<not> \<not> sp_is_public sp"
    "add_space_member d s v (sp_default_role sp) = Inr d1"
    "join_defaults env v (get_default_join_channels d1 s) d1 = Some x" "x = (d2, es)"
  then show "holds_after (room_ok K d u) (done_with d2 (Subscribe_space v s # es))"
    using assms room_ok_enter [of d s u _ d1 env d2 es d "[]"] by (simp add: may_enter_def)
qed

lemma step_accept:
  assumes "validate_session d (we_now env) t = Some u"
  shows "holds_after (room_ok K d u) (invite_accept env t i d)"
  unfolding invite_accept_def Let_def
proof (intro outcome_rules; (simp; fail)?)
  fix v y d2 d3 es and x :: space_invite
  let ?s = "si_space_id x"
  let ?more = "case find_space_by_id d3 ?s of None \<Rightarrow> [] | Some s \<Rightarrow>
      [To_user v (notice ''space_added'' [(''space'', JObject (space_full env s @
         [(''my_role'', JString (si_role x)), (''members'', space_members_json env d3 ?s)]))]),
       To_space ?s (notice ''space_updated''
         [(''space'', JObject [(''id'', JString (sp_id s)), (''members'', space_members_json env d3 ?s)])])]"
  assume v: "validate_session d (we_now env) t = Some v" and x: "get_space_invite d i = Some x"
    "si_invited_user_id x = v" "si_status x = ''pending''"
    and d2: "add_space_member (update_space_invite_status d i ''accepted'') ?s v (si_role x) = Inr d2"
    and d3: "join_defaults env v (get_default_join_channels d2 ?s) d2 = Some y" "y = (d3, es)"
  have enter: "may_enter d u ?s (si_role x)"
    using x v assms by (auto simp: may_enter_def get_space_invite_def dest!: first_row_filter_Some)
  have "channels (update_space_invite_status d i ''accepted'') = channels d"
    by (simp add: update_space_invite_status_def)
  then show "holds_after (room_ok K d u) (done_with d3 (Subscribe_space v ?s # es @ ?more))"
    using room_ok_enter [of _ ?s u "si_role x" d2 env d3 es d ?more] d2 d3 enter v assms
    by (simp split: option.split)
qed

lemma chans_of_user:
  "(\<lambda>c. (ch_id c, v)) ` set (filter (\<lambda>c. ch_space_id c = s) (list_user_channels d v)) =
     {k. snd k = v \<and> in_channels_of d s (fst k) \<and> channel_roles d k \<noteq> None}"
  by (force simp: list_user_channels_def in_channels_of_def is_channel_member_roles)

lemma keys_remove: "keys_distinct d \<Longrightarrow> keys_distinct (remove_space_member d s v)"
  by (auto simp: keys_distinct_def remove_space_member_def Let_def intro: distinct_map_filter)

lemma follows_removed:
  assumes "space_roles d' = (space_roles d)((s, v) := None)"
    and "channel_roles d' = (\<lambda>k. if snd k = v \<and> in_channels_of d s (fst k) then None else channel_roles d k)"
    and "parted es = (\<lambda>c. (ch_id c, v)) ` set (filter (\<lambda>c. ch_space_id c = s) (list_user_channels d v))"
    and "joined es = {}" "space_joined es = {}" "space_parted es = {(s, v)}"
  shows "follows d d' es"
  using assms unfolding chans_of_user by (auto simp: follows_def split: if_splits)

lemma step_space_kick:
  assumes "validate_session d (we_now env) t = Some u" and "s \<in> K"
  shows "holds_after (room_ok K d u) (space_kick env t s target d)"
  unfolding space_kick_def Let_def
proof (intro outcome_rules; (simp; fail)?)
  fix v
  assume "validate_session d (we_now env) t = Some v" and "\<not> \<not> space_manager d s v"
  then have "membership_step K d u (remove_space_member d s target)"
    using assms by (intro membership_step.kick_from_space [where s = s and v = target]) (simp_all add: roles_remove_space)
  moreover have "follows d (remove_space_member d s target)
     (map (\<lambda>c. Unsubscribe_channel target (ch_id c)) (filter (\<lambda>c. ch_space_id c = s) (list_user_channels d target)) @
      [Unsubscribe_space target s, To_user target (notice ''space_removed'' [(''space_id'', JString s)])])"
    by (rule follows_removed [OF roles_remove_space]) (auto simp: subs_defs)
  ultimately show "holds_after (room_ok K d u) (done_with (remove_space_member d s target)
     (map (\<lambda>c. Unsubscribe_channel target (ch_id c)) (filter (\<lambda>c. ch_space_id c = s) (list_user_channels d target)) @
      [Unsubscribe_space target s, To_user target (notice ''space_removed'' [(''space_id'', JString s)])]))"
    by (simp add: room_ok_def keys_remove)
qed

lemma fold_remove_frame:
  "space_members (fold (\<lambda>c d. remove_channel_member d (ch_id c) u) cs d) = space_members d"
  "channels (fold (\<lambda>c d. remove_channel_member d (ch_id c) u) cs d) = channels d"
  "spaces (fold (\<lambda>c d. remove_channel_member d (ch_id c) u) cs d) = spaces d"
  "channel_roles (fold (\<lambda>c d. remove_channel_member d (ch_id c) u) cs d) =
     (\<lambda>k. if k \<in> (\<lambda>c. (ch_id c, u)) ` set cs then None else channel_roles d k)"
  by (induction cs arbitrary: d) (auto simp: roles_remove_channel fun_eq_iff)

lemma step_space_leave:
  assumes "validate_session d (we_now env) t = Some u"
  shows "holds_after (room_ok K d u) (space_leave env t s d)"
  unfolding space_leave_def Let_def
proof (intro outcome_rules; (simp; fail)?)
  fix v
  let ?chans = "filter (\<lambda>c. ch_space_id c = s) (list_user_channels d v)"
  let ?d1 = "fold (\<lambda>c d. remove_channel_member d (ch_id c) v) ?chans d"
  let ?d = "remove_space_member ?d1 s v"
  let ?es = "concat (map (\<lambda>c. [Unsubscribe_channel v (ch_id c), To_channel (ch_id c)
         (notice ''member_left'' [(''channel_id'', JString (ch_id c)), (''user_id'', JString v)])]) ?chans) @
     [Unsubscribe_space v s,
      To_space s (notice ''space_member_left'' [(''space_id'', JString s), (''user_id'', JString v)]),
      To_user v (notice ''space_removed'' [(''space_id'', JString s)])]"
  assume v: "validate_session d (we_now env) t = Some v" and p: "\<not> is_personal_space d s"
    and l: "\<not> (get_space_member_role d s v = ''owner''
        \<and> (case find_space_by_id d s of None \<Rightarrow> False | Some s \<Rightarrow> \<not> sp_is_archived s)
        \<and> count_space_members_with_role d s ''owner'' \<le> 1)"
  have roles: "space_roles ?d = (space_roles d)((s, v) := None)"
    "channel_roles ?d = (\<lambda>k. if snd k = v \<and> in_channels_of d s (fst k) then None else channel_roles d k)"
    unfolding roles_remove_space fold_remove_frame chans_of_user roles_cong(1) [OF fold_remove_frame(1)]
    by (auto simp: in_channels_of_def fold_remove_frame(2) fun_eq_iff)
  have "membership_step K d u ?d"
    using v assms p l roles
    by (intro membership_step.leave_space [where s = s]) (auto simp: space_role_roles split: option.splits)
  moreover have "follows d ?d ?es"
    by (rule follows_removed [OF roles]) (auto simp: subs_defs)
  moreover have "keys_distinct d \<Longrightarrow> keys_distinct ?d"
    by (rule keys_remove) (simp add: keys_distinct_def fold_remove_frame)
  ultimately show "holds_after (room_ok K d u) (done_with ?d ?es)"
    by (simp add: room_ok_def)
qed

lemma keys_update_role: "keys_distinct (update_space_member_role d s v r) = keys_distinct d"
proof -
  have rows: "map (\<lambda>m. (sm_space_id m, sm_user_id m)) (space_members (update_space_member_role d s v r)) =
      map (\<lambda>m. (sm_space_id m, sm_user_id m)) (space_members d)"
    by (simp add: update_space_member_role_def)
  have "spaces (update_space_member_role d s v r) = spaces d"
    by (simp add: update_space_member_role_def)
  then show ?thesis unfolding keys_distinct_def rows by simp
qed

lemma step_space_set_role:
  assumes "validate_session d (we_now env) t = Some u"
  shows "holds_after (room_ok K d u) (space_set_role env t s target b d)"
  unfolding space_set_role_def Let_def
proof (intro outcome_rules; (simp; fail)?)
  fix v j role
  let ?cur = "get_space_member_role d s target"
  let ?d = "update_space_member_role d s target role"
  assume v: "validate_session d (we_now env) t = Some v" "\<not> \<not> space_manager d s v"
    and valid: "\<not> \<not> valid_space_role role" "\<not> space_role_rank role > actor_space_rank d s v"
    and higher: "\<not> (space_role_rank role < space_role_rank ?cur \<and> space_role_rank ?cur \<ge> actor_space_rank d s v \<and> v \<noteq> target)"
    and not_last: "\<not> (?cur = ''owner'' \<and> role \<noteq> ''owner'' \<and> count_space_members_with_role d s ''owner'' \<le> 1)"
  have "membership_step K d u ?d"
  proof (cases "space_roles d (s, target)")
    case None
    then show ?thesis by (intro membership_step.still) (simp_all add: roles_update_space)
  next
    case (Some current)
    then have "?cur = current" by (simp add: space_role_roles)
    then show ?thesis
      using v valid higher not_last assms
      by (intro membership_step.set_space_role [OF _ _ Some]) (auto simp: roles_update_space Some)
  qed
  then show "holds_after (room_ok K d u) (done_with ?d
      [To_user target (notice ''space_role_changed'' [(''space_id'', JString s), (''role'', JString role)]),
       To_space s (notice ''space_member_role_changed''
         [(''space_id'', JString s), (''user_id'', JString target), (''role'', JString role)])])"
    by (auto simp: room_ok_def follows_def roles_update_space keys_update_role split: if_splits)
qed

section \<open>New spaces\<close>

text \<open>A row for the creator of a new space, as owner.\<close>

lemma room_ok_new_space:
  assumes "space_members d' = space_members d @ [\<lparr>sm_space_id = s, sm_user_id = u, sm_role = ''owner''\<rparr>]"
    and "channel_members d' = channel_members d" and "\<not> has_key sp_id s (spaces d)"
    and "map sp_id (spaces d') = map sp_id (spaces d) @ [s]"
    and "server_admin d u \<or> find_personal_space d u = None" and "list_all quiet es"
  shows "room_ok K d u d' es"
proof -
  have roles: "space_roles d' = [(s, u) \<mapsto> ''owner''] ++ space_roles d"
    using assms(1) by (simp add: space_roles_def map_add_def fun_eq_iff split: option.split)
  have "set (map sp_id (spaces d')) = insert s (set (map sp_id (spaces d)))"
    using assms(4) by simp
  then have key: "has_key sp_id x (spaces d') \<longleftrightarrow> x = s \<or> has_key sp_id x (spaces d)" for x
    by (auto simp: has_key_iff)
  have "membership_step K d u d'"
    by (rule membership_step.new_space [OF assms(5,3) roles roles_cong(2) [OF assms(2)]])
  moreover have "follows d d' es"
    using roles_cong(2) [OF assms(2)] roles assms(6) by (auto simp: follows_def)
  moreover have "keys_distinct d \<Longrightarrow> keys_distinct d'"
    using assms(1,3) key by (auto simp: keys_distinct_def)
  ultimately show ?thesis by (simp add: room_ok_def)
qed

lemma frame_setting [simp]:
  "space_members (set_setting d k v) = space_members d" "channel_members (set_setting d k v) = channel_members d"
  "spaces (set_setting d k v) = spaces d" "users (set_setting d k v) = users d"
  by (simp_all add: set_setting_def)

lemma create_space_rows:
  assumes "create_space d i now n de p u r = Inr (sp, d')"
  shows "space_members d' = space_members d @ [\<lparr>sm_space_id = i, sm_user_id = u, sm_role = ''owner''\<rparr>]"
    "channel_members d' = channel_members d" "\<not> has_key sp_id i (spaces d)" "map sp_id (spaces d') = map sp_id (spaces d) @ [i]"
  using assms by (auto simp: create_space_def Let_def split: if_splits option.splits)

lemma create_personal_rows:
  assumes "create_personal_space d i now u n = Inr (sp, d')"
  shows "space_members d' = space_members d @ [\<lparr>sm_space_id = i, sm_user_id = u, sm_role = ''owner''\<rparr>]"
    "channel_members d' = channel_members d" "\<not> has_key sp_id i (spaces d)" "map sp_id (spaces d') = map sp_id (spaces d) @ [i]"
    "find_personal_space d u = None"
  using assms by (auto simp: create_personal_space_def Let_def split: if_splits option.splits)

lemma step_space_create:
  assumes "validate_session d (we_now env) t = Some u"
  shows "holds_after (room_ok K d u) (space_create env t b d)"
  unfolding space_create_def
  by (intro outcome_rules; (simp; fail)?)
    (use assms in \<open>auto intro!: room_ok_new_space dest: create_space_rows\<close>)

lemma sync_frame:
  "space_members (sync_personal_space_tools d s) = space_members d"
  "channel_members (sync_personal_space_tools d s) = channel_members d"
  "spaces (sync_personal_space_tools d s) = spaces d"
proof -
  have "space_members (fold (\<lambda>tool d. if \<not> personal_tool_allowed d tool \<and> is_space_tool_enabled d s tool
          then disable_space_tool d s tool else d) ts d) = space_members d
      \<and> channel_members (fold (\<lambda>tool d. if \<not> personal_tool_allowed d tool \<and> is_space_tool_enabled d s tool
          then disable_space_tool d s tool else d) ts d) = channel_members d
      \<and> spaces (fold (\<lambda>tool d. if \<not> personal_tool_allowed d tool \<and> is_space_tool_enabled d s tool
          then disable_space_tool d s tool else d) ts d) = spaces d" for ts
    by (induction ts arbitrary: d) (simp_all add: disable_space_tool_def)
  then show "space_members (sync_personal_space_tools d s) = space_members d"
    "channel_members (sync_personal_space_tools d s) = channel_members d"
    "spaces (sync_personal_space_tools d s) = spaces d"
    by (simp_all add: sync_personal_space_tools_def)
qed

lemma with_personal_ok:
  assumes "with_personal env u listed d = Some (shown, d')"
  shows "room_ok K d u d' []"
proof -
  consider "space_members d' = space_members d" "channel_members d' = channel_members d" "spaces d' = spaces d"
    | sp d1 n where "create_personal_space d (we_id env 0) (we_now env) u n = Inr (sp, d1)"
        "space_members d' = space_members d1" "channel_members d' = channel_members d1" "spaces d' = spaces d1"
    using assms
    by (auto simp: with_personal_def Let_def get_or_create_personal_space_def sync_frame
        split: option.splits if_splits sum.splits prod.splits)
  then show ?thesis
  proof cases
    case 1
    then show ?thesis by (simp add: room_ok_still)
  next
    case 2
    then show ?thesis
      using create_personal_rows [OF 2(1)] by (intro room_ok_new_space) simp_all
  qed
qed

lemma step_space_list:
  assumes "validate_session d (we_now env) t = Some u"
  shows "holds_after (room_ok K d u) (space_list env t x y d)"
  unfolding space_list_def Let_def
  by (intro outcome_rules; (simp; fail)?)
    (use assms in \<open>auto intro: with_personal_ok split: if_splits\<close>)

section \<open>New channels\<close>

text \<open>Only memberships of channel \<open>c\<close> are added, for the users in \<open>new\<close>.\<close>

definition grows_at :: "string \<Rightarrow> string set \<Rightarrow> db \<Rightarrow> db \<Rightarrow> bool" where
  "grows_at c new d d' \<longleftrightarrow> space_members d' = space_members d \<and> spaces d' = spaces d \<and> channels d' = channels d
     \<and> (\<forall>k. fst k \<noteq> c \<longrightarrow> channel_roles d' k = channel_roles d k)
     \<and> (\<forall>v. channel_roles d' (c, v) \<noteq> None \<longleftrightarrow> channel_roles d (c, v) \<noteq> None \<or> v \<in> new)"

lemma grows_refl: "grows_at c {} d d"
  by (simp add: grows_at_def)

lemma grows_trans: "grows_at c m d d1 \<Longrightarrow> grows_at c n d1 d2 \<Longrightarrow> grows_at c (m \<union> n) d d2"
  unfolding grows_at_def by auto

lemma grows_add: "add_channel_member d c v r = Inr d' \<Longrightarrow> grows_at c {v} d d'"
  using roles_add_channel_member [of d c v r d'] by (auto simp: grows_at_def)

lemma grows_add_members: "add_members d c ms = Inr d' \<Longrightarrow> grows_at c (fst ` set ms) d d'"
proof (induction ms arbitrary: d)
  case (Cons m ms)
  then show ?case
    using grows_trans [OF grows_add] by (cases m) (auto split: sum.splits)
qed (simp add: grows_refl)

lemma grows_add_missing: "add_missing c r us d = Inr d' \<Longrightarrow> \<exists>new. grows_at c new d d'"
proof (induction us arbitrary: d)
  case (Cons u us)
  then show ?case
    using grows_trans [OF grows_add] by (auto split: sum.splits if_splits) blast
qed (auto intro: grows_refl)

lemma created_channel:
  assumes "create_channel d i now n de dir u ms pub r s dj = Inr (c, d')"
  shows "ch_id c = i" "ch_space_id c = s" "\<not> has_key ch_id i (channels d)"
    "grows_at i (set ms) (d\<lparr>channels := channels d @ [c]\<rparr>) d'"
proof -
  obtain d1 where "add_members (d\<lparr>channels := channels d @ [c]\<rparr>) i
      (map (\<lambda>mid. (mid, if \<not> dir \<and> mid = u then ''admin'' else r)) ms) = Inr d1" "d1 = d'"
    and c: "ch_id c = i" "ch_space_id c = s" "\<not> has_key ch_id i (channels d)"
    using assms by (auto simp: create_channel_def Let_def split: if_splits sum.splits)
  then show "ch_id c = i" "ch_space_id c = s" "\<not> has_key ch_id i (channels d)"
    "grows_at i (set ms) (d\<lparr>channels := channels d @ [c]\<rparr>) d'"
    using grows_add_members by (fastforce simp: image_image)+
qed

lemma created_conversation:
  assumes "create_conversation d i now u ms n = Inr (c, d')"
  shows "ch_id c = i" "ch_space_id c = []" "\<not> has_key ch_id i (channels d)"
    "grows_at i (set ms) (d\<lparr>channels := channels d @ [c]\<rparr>) d'"
proof -
  obtain d1 where "add_members (d\<lparr>channels := channels d @ [c]\<rparr>) i (map (\<lambda>mid. (mid, ''write'')) ms) = Inr d1" "d1 = d'"
    and c: "ch_id c = i" "ch_space_id c = []" "\<not> has_key ch_id i (channels d)"
    using assms by (auto simp: create_conversation_def Let_def split: if_splits sum.splits)
  then show "ch_id c = i" "ch_space_id c = []" "\<not> has_key ch_id i (channels d)"
    "grows_at i (set ms) (d\<lparr>channels := channels d @ [c]\<rparr>) d'"
    using grows_add_members by (fastforce simp: image_image)+
qed

lemma room_ok_new_channel:
  assumes "grows_at (ch_id c) new (d\<lparr>channels := channels d @ [c]\<rparr>) d'" and "\<not> has_key ch_id (ch_id c) (channels d)"
    and "ch_space_id c = [] \<or> space_manager d (ch_space_id c) u"
    and "(\<lambda>v. (ch_id c, v)) ` new \<subseteq> joined es" and "\<forall>k \<in> joined es. fst k = ch_id c \<and> channel_roles d' k \<noteq> None"
    and "parted es = {}" "space_joined es = {}" "space_parted es = {}"
  shows "room_ok K d u d' es"
proof -
  have same: "channel_roles (d\<lparr>channels := channels d @ [c]\<rparr>) = channel_roles d" by (simp add: channel_roles_def)
  have rows: "space_members d' = space_members d" "spaces d' = spaces d" "channels d' = channels d @ [c]"
    using assms(1) by (simp_all add: grows_at_def)
  have "membership_step K d u d'"
    by (rule membership_step.new_channel [OF assms(2,3)])
      (use assms(1) same rows roles_cong(1) [OF rows(1)] in \<open>auto simp: grows_at_def\<close>)
  moreover have "dom (channel_roles d') - dom (channel_roles d) \<subseteq> joined es \<and> dom (channel_roles d) \<subseteq> dom (channel_roles d')"
  proof -
    have "channel_roles d' k \<noteq> None \<longleftrightarrow> channel_roles d k \<noteq> None \<or> fst k = ch_id c \<and> snd k \<in> new" for k
      using assms(1) same by (cases k; cases "fst k = ch_id c") (auto simp: grows_at_def)
    then show ?thesis using assms(4) by (auto simp: dom_def image_subset_iff)
  qed
  moreover have "joined es \<subseteq> dom (channel_roles d')"
    using assms(5) by blast
  ultimately have "follows d d' es"
    using assms(6-8) roles_cong(1) [OF rows(1)] unfolding follows_def by (intro conjI) auto
  moreover note \<open>membership_step K d u d'\<close>
  ultimately show ?thesis
    using keys_same_rows [OF rows(1,2)] by (simp add: room_ok_def)
qed

lemma set_member_ids: "set (get_channel_member_ids d c) = {v. channel_roles d (c, v) \<noteq> None}"
  by (auto simp: get_channel_member_ids_def channel_roles_row filter_empty_conv)

lemma announce_subs:
  "joined (announce_channel env d u c chan) = {(c, v) |v. channel_roles d (c, v) \<noteq> None}"
  "parted (announce_channel env d u c chan) = {}" "space_joined (announce_channel env d u c chan) = {}"
  "space_parted (announce_channel env d u c chan) = {}"
  using set_member_ids [of d c] by (auto simp: announce_channel_def Let_def subs_defs)

lemma new_members_present: "grows_at c new d d' \<Longrightarrow> v \<in> new \<Longrightarrow> channel_roles d' (c, v) \<noteq> None"
  by (simp add: grows_at_def)

lemma room_ok_announced:
  assumes "grows_at (ch_id c) new (d\<lparr>channels := channels d @ [c]\<rparr>) d'" and "\<not> has_key ch_id (ch_id c) (channels d)"
    and "ch_space_id c = [] \<or> space_manager d (ch_space_id c) u"
  shows "room_ok K d u d' (announce_channel env d' v (ch_id c) chan)"
  using new_members_present [OF assms(1)]
  by (intro room_ok_new_channel [OF assms]) (auto simp: announce_subs simp del: not_None_eq)

lemma created_announced:
  assumes "create_channel d i now n de dir u ms pub r s dj = Inr (c, d1)" and "s = [] \<or> space_manager d s u"
  shows "room_ok K d u d1 (announce_channel env d1 v (ch_id c) chan)"
  using created_channel [OF assms(1)] assms(2) by (intro room_ok_announced) simp_all

lemma step_chan_create:
  assumes "validate_session d (we_now env) t = Some u"
  shows "holds_after (room_ok K d u) (chan_create env t b d)"
  unfolding chan_create_def Let_def
proof (intro outcome_rules; (simp; fail)?, goal_cases)
  case (1 v j name description is_public role ids x c d1)
  then show ?case using assms by (auto intro: created_announced)
qed

lemma add_missing_works:
  "set us \<subseteq> u_id ` set (users d) \<Longrightarrow> has_key ch_id i (channels d) \<Longrightarrow> \<exists>d'. add_missing i r us d = Inr d'"
proof (induction us arbitrary: d)
  case (Cons w us)
  show ?case
  proof (cases "is_channel_member d i w")
    case False
    then have "\<exists>d2. add_channel_member d i w r = Inr d2"
      using Cons.prems by (simp add: add_channel_member_def has_key_iff)
    then obtain d2 where d2: "add_channel_member d i w r = Inr d2" ..
    show ?thesis
      using Cons False d2 roles_add_channel_member(3,5) [OF d2] by simp
  qed (use Cons in simp)
qed simp

lemma step_space_channel_create:
  assumes "validate_session d (we_now env) t = Some u"
  shows "holds_after (room_ok K d u) (space_channel_create env t s b d)"
  unfolding space_channel_create_def
proof (intro outcome_rules; (simp; fail)?, goal_cases)
  case (1 v j name description is_public default_role default_join ids x c d1)
  then have man: "space_manager d s u" "v = u"
    and x: "create_channel d (we_id env 0) (we_now env) name description False u (u # filter (\<lambda>i. i \<noteq> u) ids)
        is_public default_role s default_join = Inr (c, d1)"
    using assms by simp_all
  note c = created_channel [OF x]
  show ?case
  proof (cases is_public)
    case True
    let ?us = "map mb_user_id (get_space_members_with_roles (we_pg env) d1 s)"
    have "set ?us \<subseteq> u_id ` set (users d1)"
      by (auto simp: get_space_members_with_roles_def member_view_of_def) (metis imageI)
    moreover have "has_key ch_id (ch_id c) (channels d1)"
      using c by (simp add: grows_at_def has_key_def)
    ultimately obtain d2 where d2: "add_missing (ch_id c) (ch_default_role c) ?us d1 = Inr d2"
      using add_missing_works by blast
    then obtain new where new: "grows_at (ch_id c) new d1 d2" using grows_add_missing by blast
    have "room_ok K d u d2 (announce_channel env d2 u (ch_id c) chan)" for chan
      using c man by (intro room_ok_announced [OF grows_trans [OF _ new]]) simp_all
    then show ?thesis
      using True d2 man by (simp add: space_channel_created_def db_or_fail_def Let_def)
  next
    case False
    then show ?thesis
      using created_announced [OF x] man by (simp add: space_channel_created_def db_or_fail_def Let_def)
  qed
qed

lemma subs_subscribe_list:
  assumes "\<And>m. list_all quiet (f m)"
  shows "joined (concat (map (\<lambda>m. Subscribe_channel m c # f m) ids)) = (\<lambda>m. (c, m)) ` set ids"
    "parted (concat (map (\<lambda>m. Subscribe_channel m c # f m) ids)) = {}"
    "space_joined (concat (map (\<lambda>m. Subscribe_channel m c # f m) ids)) = {}"
    "space_parted (concat (map (\<lambda>m. Subscribe_channel m c # f m) ids)) = {}"
  using assms by (induction ids) auto

lemma created_dm:
  assumes "create_channel d i now n de dir u ms pub r [] dj = Inr (c, d1)" and "\<And>m. list_all quiet (f m)"
  shows "room_ok K d u d1 (concat (map (\<lambda>m. Subscribe_channel m (ch_id c) # f m) (get_channel_member_ids d1 (ch_id c))))"
  using created_channel [OF assms(1)] new_members_present
  by (intro room_ok_new_channel [where new = "set ms"])
    (auto simp: subs_subscribe_list [OF assms(2)] set_member_ids simp del: not_None_eq)

lemma step_chan_create_dm: "holds_after (room_ok K d u) (chan_create_dm env t b d)"
  if "validate_session d (we_now env) t = Some u"
  unfolding chan_create_dm_def Let_def
proof (intro outcome_rules; (simp; fail)?, goal_cases)
  case (1 v j other x c d1)
  then have "create_channel d (we_id env 0) (we_now env) '''' '''' True u [u, other] True ''write'' '''' False = Inr (c, d1)"
    using that by simp
  from created_dm [OF this] show ?case
    by (simp only: after_simps) (simp del: concat.simps)
qed

lemma created_group:
  assumes "create_conversation d i now u ms n = Inr (c, d1)" and "\<And>m. list_all quiet (f m)"
  shows "room_ok K d u d1 (concat (map (\<lambda>m. Subscribe_channel m (ch_id c) # f m) ms))"
  using created_conversation [OF assms(1)] new_members_present
  by (intro room_ok_new_channel [where new = "set ms"])
    (auto simp: subs_subscribe_list [OF assms(2)] simp del: not_None_eq)

lemma step_conv_create: "holds_after (room_ok K d u) (conv_create env t b d)"
  if "validate_session d (we_now env) t = Some u"
  unfolding conv_create_def Let_def
proof (intro outcome_rules; (simp; fail)?, goal_cases)
  case (1 v j name ids x c d1)
  then have "v = u" "create_conversation d (we_id env 0) (we_now env) v (v # filter (\<lambda>i. i \<noteq> v) ids) name = Inr (c, d1)"
    using that by simp_all
  then show ?case unfolding after_simps by (intro created_group) auto
qed

section \<open>All requests\<close>

fun kicked :: "room_request \<Rightarrow> string set" where
  "kicked (Space_kick s v) = {s}"
| "kicked _ = {}"

lemma room_serve_ok:
  assumes "validate_session d (we_now env) t = Some u"
  shows "holds_after (room_ok (kicked req) d u) (room_serve env t req d)"
proof (cases "leaves_members req")
  case False
  then show ?thesis
    using assms
    by (cases req)
      (simp_all add: step_space_list step_space_create step_join step_space_kick step_space_set_role
        step_space_channel_create step_space_leave step_conv_create step_conv_add step_accept step_chan_create
        step_chan_create_dm step_chan_join step_chan_add step_chan_kick step_chan_set_role step_chan_leave)
qed (rule leaves_members_ok)

lemma after_no_session:
  "validate_session d (we_now env) t = None \<Longrightarrow> holds_after (\<lambda>d' es. d' = d \<and> es = []) (signed_in env t rest d)"
  by (simp add: signed_in_def)

lemma room_serve_unauthorised:
  assumes "validate_session d (we_now env) t = None"
  shows "holds_after (\<lambda>d' es. d' = d \<and> es = []) (room_serve env t req d)"
proof -
  note s = after_no_session [OF assms]
  show ?thesis
    by (cases req) (simp_all add: s space_browse_def space_create_def space_details_def space_settings_def space_join_def
      space_invite_member_def space_kick_def space_set_role_def space_channels_def space_channel_create_def space_leave_def
      space_archive_def space_unarchive_def conv_list_def conv_create_def conv_add_member_def conv_rename_def invite_list_def
      invite_accept_def invite_decline_def space_tools_get_def space_tools_put_def shared_with_me_def chan_messages_def
      chan_read_receipts_def chan_browse_def chan_create_def chan_create_dm_def chan_join_def chan_add_member_def
      chan_kick_def chan_set_role_def chan_settings_def chan_leave_def chan_archive_def chan_unarchive_def
      space_list_def chan_list_def with_page_def del: split_paired_All split: option.splits prod.splits)
qed

text \<open>What an answered request has done.\<close>

lemma room_served:
  assumes "room_serve env t req d = Some (r, d', es)"
  shows "(d' = d \<and> es = []) \<or> (\<exists>u. validate_session d (we_now env) t = Some u \<and> room_ok (kicked req) d u d' es)"
proof (cases "validate_session d (we_now env) t")
  case None
  then show ?thesis using room_serve_unauthorised assms by (auto simp: holds_after_def)
next
  case (Some u)
  then show ?thesis using room_serve_ok [OF Some, of req] assms by (auto simp: holds_after_def)
qed

end
