(* ===== verification/Recursive_Query.thy ===== *)
theory Recursive_Query
  imports Main "HOL-Library.Monad_Syntax"
begin

text \<open>
  The recursive queries of \<open>db/database.cpp\<close> (\<open>WITH RECURSIVE ... UNION ALL\<close>): a query is evaluated
  as PostgreSQL does, level by level until a level is empty. The value None of \<open>closure\<close> is a query
  that never returns, as on a cyclic tree.
\<close>

section \<open>Evaluation\<close>

partial_function (option) closure :: "('a \<Rightarrow> 'a list) \<Rightarrow> 'a list \<Rightarrow> 'a list option" where
  [code]: "closure next work =
     (if work = [] then Some []
      else do { rest \<leftarrow> closure next (concat (map next work)); Some (work @ rest) })"

section \<open>Level-by-level queries\<close>

abbreviation next_rel :: "('a \<Rightarrow> 'a list) \<Rightarrow> ('a \<times> 'a) set" where
  "next_rel next \<equiv> {(x, y). y \<in> set (next x)}"

lemma rtrancl_Image_step: "r\<^sup>* `` A = A \<union> r\<^sup>* `` (r `` A)"
proof
  show "r\<^sup>* `` A \<subseteq> A \<union> r\<^sup>* `` (r `` A)"
  proof
    fix y assume "y \<in> r\<^sup>* `` A"
    then obtain x where "x \<in> A" "(x, y) \<in> r\<^sup>*" by blast
    then show "y \<in> A \<union> r\<^sup>* `` (r `` A)" by (auto elim: converse_rtranclE)
  qed
  show "A \<union> r\<^sup>* `` (r `` A) \<subseteq> r\<^sup>* `` A"
    by (auto intro: converse_rtrancl_into_rtrancl)
qed

lemma closure_induct [consumes 1, case_names stop level]:
  assumes "closure next work = Some r"
    and "P [] []"
    and "\<And>work rest. work \<noteq> [] \<Longrightarrow> P (concat (map next work)) rest \<Longrightarrow> P work (work @ rest)"
  shows "P work r"
proof -
  have "next' = next \<longrightarrow> P work r" if "closure next' work = Some r" for next'
  proof (induction rule: closure.raw_induct [OF _ that])
    case (1 cl next' work r)
    then show ?case
      using assms(2,3) by (auto simp: bind_eq_Some_conv split: if_splits)
  qed
  then show ?thesis using assms(1) by blast
qed

lemma closure_set:
  assumes "closure next work = Some r"
  shows "set r = (next_rel next)\<^sup>* `` set work"
  using assms
proof (induction work r rule: closure_induct)
  case (level work rest)
  have "next_rel next `` set work = set (concat (map next work))" by auto
  then show ?case using level rtrancl_Image_step [of "next_rel next" "set work"] by simp
qed simp

lemma closure_cycle:
  assumes "x \<in> set work" and "x \<in> C" and "\<And>x. x \<in> C \<Longrightarrow> \<exists>y \<in> C. y \<in> set (next x)"
  shows "closure next work = None"
proof (rule ccontr)
  assume "closure next work \<noteq> None"
  then obtain r where "closure next work = Some r" by blast
  then have "C \<inter> set work = {}"
  proof (induction work r rule: closure_induct)
    case (level work rest)
    show ?case
    proof (rule ccontr)
      assume "C \<inter> set work \<noteq> {}"
      then obtain x where "x \<in> C" "x \<in> set work" by blast
      moreover obtain y where "y \<in> C" "y \<in> set (next x)" using assms(3) [OF \<open>x \<in> C\<close>] by blast
      ultimately have "y \<in> C \<inter> set (concat (map next work))" by auto
      then show False using level by blast
    qed
  qed simp
  then show False using assms(1,2) by blast
qed

lemma closure_Nil [simp]: "closure next [] = Some []"
  by (subst closure.simps) simp

text \<open>A query ends when some measure falls along it.\<close>

lemma closure_ends:
  assumes "\<And>x y. P x \<Longrightarrow> y \<in> set (next x) \<Longrightarrow> P y \<and> m y < (m x :: nat)"
    and "\<And>x. x \<in> set work \<Longrightarrow> P x"
  shows "\<exists>r. closure next work = Some r"
proof -
  have "\<exists>r. closure next work = Some r" if "\<forall>x \<in> set work. P x \<and> m x < n" for n work
    using that
  proof (induction n arbitrary: work)
    case 0
    then have "work = []" by (cases work) auto
    then show ?case by simp
  next
    case (Suc n)
    have "\<forall>y \<in> set (concat (map next work)). P y \<and> m y < n"
      using Suc.prems assms(1) by fastforce
    then obtain r where "closure next (concat (map next work)) = Some r"
      using Suc.IH by blast
    then show ?case by (subst closure.simps) simp
  qed
  moreover have "\<forall>x \<in> set work. P x \<and> m x < Suc (Max (insert 0 (m ` set work)))"
    using assms(2) by (simp add: less_Suc_eq_le)
  ultimately show ?thesis by blast
qed

end
