(* ===== verification/Space_Files.thy ===== *)
theory Space_Files
  imports Listings Recursive_Query "HOL-Library.Char_ord" "HOL-Library.List_Lexorder"
begin

text \<open>
  Files and folders of a space with their versions and permissions: the methods of
  \<open>db/database.cpp\<close> on \<open>space_files\<close>, \<open>space_file_versions\<close> and \<open>space_file_permissions\<close>.
  Space\_Tree shows that the trees the program builds have no cycles, so that the recursive queries
  end.
  Row ids are non-empty; the case folding of \<open>LOWER\<close> is a parameter.
\<close>

section \<open>Recursive queries\<close>

definition parent_rows :: "db \<Rightarrow> space_file \<Rightarrow> space_file list" where
  "parent_rows d f = filter (\<lambda>p. sf_parent_id f \<noteq> [] \<and> sf_id p = sf_parent_id f) (space_files d)"

definition child_rows :: "db \<Rightarrow> (space_file \<Rightarrow> bool) \<Rightarrow> space_file \<Rightarrow> space_file list" where
  "child_rows d keep f = filter (\<lambda>c. sf_parent_id c = sf_id f \<and> keep c) (space_files d)"

definition rows_with_id :: "db \<Rightarrow> string \<Rightarrow> space_file list" where
  "rows_with_id d i = filter (\<lambda>f. sf_id f = i) (space_files d)"

definition not_deleted :: "space_file \<Rightarrow> bool" where
  "not_deleted f \<longleftrightarrow> \<not> sf_is_deleted f"

definition of_files_tool :: "space_file \<Rightarrow> bool" where
  "of_files_tool f \<longleftrightarrow> sf_tool_source f = Some ''files'' \<or> sf_tool_source f = None"

definition update_space_file :: "string \<Rightarrow> (space_file \<Rightarrow> space_file) \<Rightarrow> db \<Rightarrow> db" where
  "update_space_file i g d = d\<lparr>space_files := map (\<lambda>f. if sf_id f = i then g f else f) (space_files d)\<rparr>"

section \<open>Names\<close>

definition space_file_name_exists ::
  "(string \<Rightarrow> string) \<Rightarrow> db \<Rightarrow> string \<Rightarrow> string \<Rightarrow> string \<Rightarrow> string \<Rightarrow> bool" where
  "space_file_name_exists lower d space_id parent_id name exclude_id =
     (filter (\<lambda>f. sf_space_id f = space_id \<and> \<not> sf_is_deleted f \<and> sf_parent_id f = parent_id
        \<and> lower (sf_name f) = lower name \<and> (exclude_id = [] \<or> sf_id f \<noteq> exclude_id)) (space_files d) \<noteq> [])"

text \<open>The unique index on the space, the parent and the lowered name of rows not deleted.\<close>

definition name_taken :: "(string \<Rightarrow> string) \<Rightarrow> db \<Rightarrow> space_file \<Rightarrow> bool" where
  "name_taken lower d f \<longleftrightarrow> \<not> sf_is_deleted f \<and>
     list_ex (\<lambda>g. sf_id g \<noteq> sf_id f \<and> \<not> sf_is_deleted g \<and> sf_space_id g = sf_space_id f
        \<and> sf_parent_id g = sf_parent_id f \<and> lower (sf_name g) = lower (sf_name f)) (space_files d)"

definition insert_space_file :: "(string \<Rightarrow> string) \<Rightarrow> db \<Rightarrow> space_file \<Rightarrow> db_error + db" where
  "insert_space_file lower d f =
     (if \<not> varchar_ok 255 (sf_name f) then Inl too_long
      else if has_key sf_id (sf_id f) (space_files d) \<or> name_taken lower d f then Inl UniqueViolation
      else if has_key sp_id (sf_space_id f) (spaces d) \<and> ref_ok sf_id (sf_parent_id f) (space_files d)
              \<and> has_key u_id (sf_created_by f) (users d)
      then Inr (d\<lparr>space_files := space_files d @ [f]\<rparr>)
      else Inl ForeignKeyViolation)"

definition replace_space_file ::
  "(string \<Rightarrow> string) \<Rightarrow> db \<Rightarrow> string \<Rightarrow> (space_file \<Rightarrow> space_file) \<Rightarrow> db_error + db" where
  "replace_space_file lower d i g =
     (case first_row (rows_with_id d i) of
        None \<Rightarrow> Inr d
      | Some f \<Rightarrow>
          (if \<not> varchar_ok 255 (sf_name (g f)) then Inl too_long
           else if name_taken lower d (g f) then Inl UniqueViolation
           else if \<not> ref_ok sf_id (sf_parent_id (g f)) (space_files d) then Inl ForeignKeyViolation
           else Inr (update_space_file i g d)))"

section \<open>Creating\<close>

definition grant_owner :: "string \<Rightarrow> string \<Rightarrow> db \<Rightarrow> db" where
  "grant_owner file_id user_id d =
     (if list_ex (\<lambda>p. fp_file_id p = file_id \<and> fp_user_id p = user_id) (space_file_permissions d) then d
      else d\<lparr>space_file_permissions := space_file_permissions d @
        [\<lparr>fp_file_id = file_id, fp_user_id = user_id, fp_permission = ''owner'', fp_granted_by = user_id\<rparr>]\<rparr>)"

definition create_space_folder ::
  "(string \<Rightarrow> string) \<Rightarrow> db \<Rightarrow> string \<Rightarrow> time \<Rightarrow> string \<Rightarrow> string \<Rightarrow> string \<Rightarrow> string
     \<Rightarrow> db_error + space_file \<times> db" where
  "create_space_folder lower d new_id now space_id parent_id name created_by =
     (let f = \<lparr>sf_id = new_id, sf_space_id = space_id, sf_parent_id = parent_id, sf_name = name,
               sf_is_folder = True, sf_disk_file_id = '''', sf_file_size = 0, sf_mime_type = '''',
               sf_created_by = created_by, sf_created_at = now, sf_updated_at = now,
               sf_is_deleted = False, sf_tool_source = Some ''files''\<rparr>
      in case insert_space_file lower d f of
           Inl e \<Rightarrow> Inl e
         | Inr d1 \<Rightarrow> Inr (f, grant_owner new_id created_by d1))"

definition create_space_file ::
  "(string \<Rightarrow> string) \<Rightarrow> db \<Rightarrow> string \<Rightarrow> string \<Rightarrow> time \<Rightarrow> string \<Rightarrow> string \<Rightarrow> string \<Rightarrow> string \<Rightarrow> int
     \<Rightarrow> string \<Rightarrow> string \<Rightarrow> db_error + space_file \<times> db" where
  "create_space_file lower d new_id version_id now space_id parent_id name disk_file_id file_size mime_type
       created_by =
     (let f = \<lparr>sf_id = new_id, sf_space_id = space_id, sf_parent_id = parent_id, sf_name = name,
               sf_is_folder = False, sf_disk_file_id = disk_file_id, sf_file_size = file_size,
               sf_mime_type = mime_type, sf_created_by = created_by, sf_created_at = now,
               sf_updated_at = now, sf_is_deleted = False, sf_tool_source = Some ''files''\<rparr>
      in case insert_space_file lower d f of
           Inl e \<Rightarrow> Inl e
         | Inr d1 \<Rightarrow>
             Inr (f, grant_owner new_id created_by
               (d1\<lparr>space_file_versions := space_file_versions d1 @
                  [\<lparr>sv_id = version_id, sv_file_id = new_id, sv_version_number = 1,
                    sv_disk_file_id = disk_file_id, sv_file_size = file_size, sv_mime_type = mime_type,
                    sv_uploaded_by = created_by, sv_created_at = now\<rparr>]\<rparr>)))"

section \<open>Reading\<close>

definition find_space_file :: "db \<Rightarrow> string \<Rightarrow> space_file option" where
  "find_space_file d file_id = first_row (rows_with_id d file_id)"

text \<open>The size shown for a folder is that of the files below it that are not deleted.\<close>

definition folder_size :: "db \<Rightarrow> space_file \<Rightarrow> int option" where
  "folder_size d f = do {
     below \<leftarrow> closure (child_rows d not_deleted) (child_rows d not_deleted f);
     Some (sum_list (map sf_file_size (filter (\<lambda>c. \<not> sf_is_folder c) below))) }"

fun map_option_list :: "('a \<Rightarrow> 'b option) \<Rightarrow> 'a list \<Rightarrow> 'b list option" where
  "map_option_list f [] = Some []"
| "map_option_list f (x # xs) = do { y \<leftarrow> f x; ys \<leftarrow> map_option_list f xs; Some (y # ys) }"

definition list_space_files :: "pg \<Rightarrow> db \<Rightarrow> string \<Rightarrow> string \<Rightarrow> space_file list option" where
  "list_space_files pg d space_id parent_id =
     map_option_list
       (\<lambda>f. if sf_is_folder f then do { n \<leftarrow> folder_size d f; Some (f\<lparr>sf_file_size := n\<rparr>) } else Some f)
       (sort_key (\<lambda>f. if sf_is_folder f then 0 else 1 :: nat)
         (order_by_name pg sf_name
           (filter (\<lambda>f. sf_space_id f = space_id \<and> \<not> sf_is_deleted f \<and> of_files_tool f
              \<and> sf_parent_id f = parent_id) (space_files d))))"

text \<open>The files below a folder with their paths relative to it.\<close>

definition path_children :: "db \<Rightarrow> space_file \<times> string \<Rightarrow> (space_file \<times> string) list" where
  "path_children d = (\<lambda>(f, path). map (\<lambda>c. (c, path @ ''/'' @ sf_name c))
     (child_rows d (\<lambda>c. \<not> sf_is_deleted c \<and> of_files_tool c) f))"

definition list_space_files_recursive ::
  "pg \<Rightarrow> db \<Rightarrow> string \<Rightarrow> string \<Rightarrow> (string \<times> string \<times> int) list option" where
  "list_space_files_recursive pg d space_id folder_id = do {
     tree \<leftarrow> closure (path_children d)
       (map (\<lambda>c. (c, sf_name c))
         (filter (\<lambda>f. sf_parent_id f = folder_id \<and> sf_space_id f = space_id \<and> \<not> sf_is_deleted f
            \<and> of_files_tool f) (space_files d)));
     Some (map (\<lambda>(f, path). (sf_disk_file_id f, path, sf_file_size f))
       (sort_key (\<lambda>(f, path). pg_collate pg path) (filter (\<lambda>(f, path). \<not> sf_is_folder f) tree))) }"

text \<open>From the root down to the row itself.\<close>

definition get_space_file_path :: "db \<Rightarrow> string \<Rightarrow> (string \<times> string) list option" where
  "get_space_file_path d file_id = do {
     ancestors \<leftarrow> closure (parent_rows d) (rows_with_id d file_id);
     Some (map (\<lambda>f. (sf_id f, sf_name f)) (rev ancestors)) }"

section \<open>Changing and deleting\<close>

definition rename_space_file ::
  "(string \<Rightarrow> string) \<Rightarrow> db \<Rightarrow> time \<Rightarrow> string \<Rightarrow> string \<Rightarrow> db_error + db" where
  "rename_space_file lower d now file_id new_name =
     replace_space_file lower d file_id (\<lambda>f. f\<lparr>sf_name := new_name, sf_updated_at := now\<rparr>)"

definition move_space_file ::
  "(string \<Rightarrow> string) \<Rightarrow> db \<Rightarrow> time \<Rightarrow> string \<Rightarrow> string \<Rightarrow> db_error + db" where
  "move_space_file lower d now file_id new_parent_id =
     replace_space_file lower d file_id (\<lambda>f. f\<lparr>sf_parent_id := new_parent_id, sf_updated_at := now\<rparr>)"

definition soft_delete_space_file :: "db \<Rightarrow> time \<Rightarrow> string \<Rightarrow> db option" where
  "soft_delete_space_file d now file_id = do {
     rows \<leftarrow> closure (child_rows d not_deleted) (rows_with_id d file_id);
     Some (d\<lparr>space_files := map (\<lambda>f. if sf_id f \<in> set (map sf_id rows)
       then f\<lparr>sf_is_deleted := True, sf_updated_at := now\<rparr> else f) (space_files d)\<rparr>) }"

text \<open>
  The rows of the whole subtree go, deleted ones too, with their versions and permissions; the
  result is the blobs they referred to, in byte order and without repetition.
\<close>

definition hard_delete_space_file :: "db \<Rightarrow> string \<Rightarrow> (string list \<times> db) option" where
  "hard_delete_space_file d file_id = do {
     rows \<leftarrow> closure (child_rows d (\<lambda>c. True)) (rows_with_id d file_id);
     let file_ids = map sf_id rows;
     let disk_ids = concat (map (\<lambda>fid.
           filter (\<lambda>did. did \<noteq> [])
             (map sv_disk_file_id (filter (\<lambda>v. sv_file_id v = fid) (space_file_versions d))) @
           (case first_row (rows_with_id d fid) of
              None \<Rightarrow> [] | Some f \<Rightarrow> filter (\<lambda>did. did \<noteq> []) [sf_disk_file_id f])) file_ids);
     Some (remdups_adj (sort disk_ids),
       d\<lparr>space_file_versions := filter (\<lambda>v. sv_file_id v \<notin> set file_ids) (space_file_versions d),
         space_file_permissions := filter (\<lambda>p. fp_file_id p \<notin> set file_ids) (space_file_permissions d),
         space_files := filter (\<lambda>f. sf_id f \<notin> set file_ids) (space_files d)\<rparr>) }"

definition set_space_file_tool_source :: "db \<Rightarrow> string \<Rightarrow> string \<Rightarrow> db" where
  "set_space_file_tool_source d file_id tool_source =
     update_space_file file_id (\<lambda>f. f\<lparr>sf_tool_source := Some tool_source\<rparr>) d"


section \<open>Permissions\<close>

definition set_file_permission :: "db \<Rightarrow> string \<Rightarrow> string \<Rightarrow> string \<Rightarrow> string \<Rightarrow> db_error + db" where
  "set_file_permission d file_id user_id permission granted_by =
     (if \<not> varchar_ok 20 permission then Inl too_long
      else if list_ex (\<lambda>p. fp_file_id p = file_id \<and> fp_user_id p = user_id) (space_file_permissions d)
      then (if has_key u_id granted_by (users d)
            then Inr (d\<lparr>space_file_permissions := map (\<lambda>p. if fp_file_id p = file_id \<and> fp_user_id p = user_id
              then p\<lparr>fp_permission := permission, fp_granted_by := granted_by\<rparr> else p) (space_file_permissions d)\<rparr>)
            else Inl ForeignKeyViolation)
      else if has_key sf_id file_id (space_files d) \<and> has_key u_id user_id (users d)
              \<and> has_key u_id granted_by (users d)
      then Inr (d\<lparr>space_file_permissions := space_file_permissions d @
        [\<lparr>fp_file_id = file_id, fp_user_id = user_id, fp_permission = permission, fp_granted_by = granted_by\<rparr>]\<rparr>)
      else Inl ForeignKeyViolation)"

definition remove_file_permission :: "db \<Rightarrow> string \<Rightarrow> string \<Rightarrow> db" where
  "remove_file_permission d file_id user_id =
     d\<lparr>space_file_permissions := filter (\<lambda>p. \<not> (fp_file_id p = file_id \<and> fp_user_id p = user_id))
        (space_file_permissions d)\<rparr>"

text \<open>\<open>CASE permission WHEN 'owner' THEN 2 WHEN 'edit' THEN 1 ELSE 0 END\<close>.\<close>

definition permission_rank :: "string \<Rightarrow> nat" where
  "permission_rank p = (if p = ''owner'' then 2 else if p = ''edit'' then 1 else 0)"

definition get_file_permissions :: "pg \<Rightarrow> db \<Rightarrow> string \<Rightarrow> (space_file_permission \<times> user \<times> user option) list" where
  "get_file_permissions pg d file_id =
     sort_key (\<lambda>(p, u, g). 2 - permission_rank (fp_permission p))
       (sort_key (\<lambda>(p, u, g). pg_collate pg (u_username u))
         (concat (map (\<lambda>p. case find_user_by_id d (fp_user_id p) of
              None \<Rightarrow> [] | Some u \<Rightarrow> [(p, u, find_user_by_id d (fp_granted_by p))])
            (filter (\<lambda>p. fp_file_id p = file_id) (space_file_permissions d)))))"

text \<open>
  The highest permission on the row or one of its ancestors; without any, \<open>owner\<close> for the creator
  and \<open>view\<close> for everybody else, never the empty string.
\<close>

definition get_effective_file_permission :: "db \<Rightarrow> string \<Rightarrow> string \<Rightarrow> string option" where
  "get_effective_file_permission d file_id user_id = do {
     ancestors \<leftarrow> closure (parent_rows d) (rows_with_id d file_id);
     (case first_row (sort_key (\<lambda>p. 2 - permission_rank (fp_permission p))
             (filter (\<lambda>p. fp_user_id p = user_id \<and> fp_file_id p \<in> set (map sf_id ancestors))
               (space_file_permissions d))) of
        Some p \<Rightarrow> Some (fp_permission p)
      | None \<Rightarrow>
          (if list_ex (\<lambda>f. sf_id f = file_id \<and> sf_created_by f = user_id) (space_files d)
           then Some ''owner'' else Some ''view'')) }"

text \<open>\<open>has_resource_permission_in_space\<close> for the tool \<open>files\<close>.\<close>

definition has_file_permission_in_space :: "db \<Rightarrow> string \<Rightarrow> string \<Rightarrow> bool" where
  "has_file_permission_in_space d space_id user_id =
     list_ex (\<lambda>p. fp_user_id p = user_id \<and>
        list_ex (\<lambda>f. sf_id f = fp_file_id p \<and> sf_space_id f = space_id) (space_files d)) (space_file_permissions d)"

section \<open>Versions\<close>

definition list_file_versions :: "db \<Rightarrow> string \<Rightarrow> space_file_version list" where
  "list_file_versions d file_id =
     rev (sort_key sv_version_number (filter (\<lambda>v. sv_file_id v = file_id) (space_file_versions d)))"

definition next_version :: "db \<Rightarrow> string \<Rightarrow> int" where
  "next_version d file_id =
     (case map sv_version_number (filter (\<lambda>v. sv_file_id v = file_id) (space_file_versions d)) of
        [] \<Rightarrow> 0 | n # ns \<Rightarrow> foldl max n ns) + 1"

definition create_file_version ::
  "db \<Rightarrow> string \<Rightarrow> time \<Rightarrow> string \<Rightarrow> string \<Rightarrow> int \<Rightarrow> string \<Rightarrow> string \<Rightarrow> db_error + space_file_version \<times> db" where
  "create_file_version d version_id now file_id disk_file_id file_size mime_type uploaded_by =
     (let v = \<lparr>sv_id = version_id, sv_file_id = file_id, sv_version_number = next_version d file_id,
               sv_disk_file_id = disk_file_id, sv_file_size = file_size, sv_mime_type = mime_type,
               sv_uploaded_by = uploaded_by, sv_created_at = now\<rparr>
      in if has_key sv_id version_id (space_file_versions d) then Inl UniqueViolation
         else if \<not> has_key sf_id file_id (space_files d) \<or> \<not> has_key u_id uploaded_by (users d)
         then Inl ForeignKeyViolation
         else Inr (v, update_space_file file_id
           (\<lambda>f. f\<lparr>sf_disk_file_id := disk_file_id, sf_file_size := file_size, sf_mime_type := mime_type,
                  sf_updated_at := now\<rparr>)
           (d\<lparr>space_file_versions := space_file_versions d @ [v]\<rparr>)))"

definition get_file_version :: "db \<Rightarrow> string \<Rightarrow> space_file_version option" where
  "get_file_version d version_id = first_row (filter (\<lambda>v. sv_id v = version_id) (space_file_versions d))"

section \<open>Storage in use\<close>

definition in_space :: "db \<Rightarrow> (space_file \<Rightarrow> bool) \<Rightarrow> space_file_version \<Rightarrow> bool" where
  "in_space d keep v = list_ex (\<lambda>f. sf_id f = sv_file_id v \<and> keep f) (space_files d)"

definition get_space_storage_used :: "db \<Rightarrow> string \<Rightarrow> int" where
  "get_space_storage_used d space_id =
     sum_list (map sv_file_size (filter (in_space d (\<lambda>f. sf_space_id f = space_id \<and> \<not> sf_is_deleted f))
       (space_file_versions d)))"

definition get_total_personal_spaces_storage_used :: "db \<Rightarrow> int" where
  "get_total_personal_spaces_storage_used d =
     sum_list (map sv_file_size (filter (in_space d (\<lambda>f. \<not> sf_is_deleted f
         \<and> list_ex (\<lambda>s. sp_id s = sf_space_id f \<and> sp_is_personal s) (spaces d)))
       (space_file_versions d)))"

definition get_total_file_size :: "db \<Rightarrow> int" where
  "get_total_file_size d =
     sum_list (map m_file_size (filter (\<lambda>m. m_file_id m \<noteq> []) (messages d)))
     + sum_list (map sv_file_size (space_file_versions d))"

definition tool_labels :: "(string \<times> string) list" where
  "tool_labels = [(''files'', ''Files''), (''wiki'', ''Wiki''), (''calendar'', ''Calendar''), (''tasks'', ''Tasks'')]"

definition tool_of :: "space_file \<Rightarrow> string" where
  "tool_of f = (case sf_tool_source f of None \<Rightarrow> ''files'' | Some t \<Rightarrow> t)"

text \<open>One entry per tool and one per channel with attachments, each group in falling size.\<close>

definition get_space_storage_breakdown :: "db \<Rightarrow> string \<Rightarrow> (string \<times> string \<times> int) list" where
  "get_space_storage_breakdown d space_id =
     (let live = (\<lambda>t f. sf_space_id f = space_id \<and> \<not> sf_is_deleted f \<and> tool_of f = t);
          tools = remdups (map tool_of (filter (\<lambda>f. sf_space_id f = space_id \<and> \<not> sf_is_deleted f
                    \<and> list_ex (\<lambda>v. sv_file_id v = sf_id f) (space_file_versions d)) (space_files d)));
          used = (\<lambda>t. sum_list (map sv_file_size (filter (in_space d (live t)) (space_file_versions d))));
          attached = (\<lambda>c. filter (\<lambda>m. m_channel_id m = ch_id c \<and> m_file_id m \<noteq> [] \<and> m_file_size m > 0) (messages d));
          chans = filter (\<lambda>c. ch_space_id c = space_id \<and> attached c \<noteq> []) (channels d);
          size = (\<lambda>c. sum_list (map m_file_size (attached c)))
      in map (\<lambda>t. (case map_of tool_labels t of Some l \<Rightarrow> l | None \<Rightarrow> t, ''tool'', used t))
           (sort_key (\<lambda>t. - used t) tools)
         @ map (\<lambda>c. (''#'' @ ch_name c, ''channel'', size c)) (sort_key (\<lambda>c. - size c) chans))"

text \<open>Old versions go, oldest first and never the newest of a file, until enough is freed.\<close>

fun free_versions :: "int \<Rightarrow> int \<Rightarrow> space_file_version list \<Rightarrow> db \<Rightarrow> db" where
  "free_versions bytes_to_free freed [] d = d"
| "free_versions bytes_to_free freed (v # vs) d =
     (if bytes_to_free \<le> freed then d
      else free_versions bytes_to_free (freed + sv_file_size v) vs
        (d\<lparr>space_file_versions := filter (\<lambda>w. sv_id w \<noteq> sv_id v) (space_file_versions d)\<rparr>))"

definition delete_oldest_file_versions :: "db \<Rightarrow> string \<Rightarrow> int \<Rightarrow> db" where
  "delete_oldest_file_versions d space_id bytes_to_free =
     free_versions bytes_to_free 0
       (sort_key sv_created_at (filter (\<lambda>v. in_space d (\<lambda>f. sf_space_id f = space_id) v
          \<and> sv_version_number v < next_version d (sv_file_id v) - 1) (space_file_versions d))) d"

text \<open>Where a blob belongs: a message's channel, else the space of a file row (only folders have a NULL type).\<close>

record file_info =
  fi_file_name :: string
  fi_file_type :: string
  fi_channel_id :: string
  fi_space_id :: string

definition get_file_info :: "db \<Rightarrow> string \<Rightarrow> file_info option" where
  "get_file_info d file_id =
     (case first_row (filter (\<lambda>m. m_file_id m = file_id) (messages d)) of
        Some m \<Rightarrow> Some \<lparr>fi_file_name = m_file_name m, fi_file_type = m_file_type m,
                    fi_channel_id = m_channel_id m, fi_space_id = ''''\<rparr>
      | None \<Rightarrow>
          (case first_row (filter (\<lambda>f. sf_disk_file_id f = file_id) (space_files d)) of
             None \<Rightarrow> None
           | Some f \<Rightarrow> Some \<lparr>fi_file_name = sf_name f,
               fi_file_type = (if sf_is_folder f then ''application/octet-stream'' else sf_mime_type f),
               fi_channel_id = '''', fi_space_id = sf_space_id f\<rparr>))"

end
