(* ===== verification/File_Access.thy ===== *)
theory File_Access
  imports Http_Utils
begin

text \<open>
  Size limits, blob names and download headers (\<open>handlers/file_access_utils.cpp\<close>,
  \<open>handlers/format_utils.cpp\<close>). Sums of sizes are taken in 64 bits, as the code does.
\<close>

definition add64 :: "int \<Rightarrow> int \<Rightarrow> int" where
  "add64 a b = sint (word_of_int (a + b) :: 64 word)"

definition sanitize_for_header :: "string \<Rightarrow> string" where
  "sanitize_for_header filename =
     filter (\<lambda>c. code_of c \<noteq> 13 \<and> code_of c \<noteq> 10)
       (map (\<lambda>c. if code_of c = 34 then char_of (39 :: nat) else c) filename)"

definition parse_max_file_size :: "string option \<Rightarrow> int \<Rightarrow> int" where
  "parse_max_file_size setting fallback = parse_i64_setting_or setting fallback"

definition parse_max_storage_size :: "string option \<Rightarrow> int" where
  "parse_max_storage_size setting = parse_i64_setting_or setting 0"

definition parse_space_storage_limit :: "string option \<Rightarrow> int" where
  "parse_space_storage_limit setting = parse_i64_setting_or setting 0"

definition exceeds_file_size_limit :: "int \<Rightarrow> int \<Rightarrow> bool" where
  "exceeds_file_size_limit max_size file_size \<longleftrightarrow> max_size > 0 \<and> file_size > max_size"

definition exceeds_storage_limit :: "int \<Rightarrow> int \<Rightarrow> int \<Rightarrow> bool" where
  "exceeds_storage_limit limit used incoming_size \<longleftrightarrow> limit > 0 \<and> add64 used incoming_size > limit"

definition is_valid_hex_id :: "string \<Rightarrow> bool" where
  "is_valid_hex_id value \<longleftrightarrow> value \<noteq> [] \<and> list_all is_xdigit value"

definition format_size :: "int \<Rightarrow> string" where
  "format_size bytes =
     (if bytes < 1024 then int_str bytes @ '' B''
      else if bytes < 1048576 then int_str (bytes div 1024) @ '' KB''
      else if bytes < 1073741824 then int_str (bytes div 1048576) @ '' MB''
      else int_str (bytes div 1073741824) @ '' GB'')"

definition file_too_large_message :: "int \<Rightarrow> string" where
  "file_too_large_message max_size = ''File too large (max '' @ format_size max_size @ '')''"

definition quoted :: "string \<Rightarrow> string" where
  "quoted s = char_of (34 :: nat) # s @ [char_of (34 :: nat)]"

definition inline_disposition :: "string \<Rightarrow> string" where
  "inline_disposition file_name = ''inline; filename='' @ quoted (sanitize_for_header file_name)"

definition attachment_disposition :: "string \<Rightarrow> string" where
  "attachment_disposition file_name = ''attachment; filename='' @ quoted (sanitize_for_header file_name)"

definition versioned_attachment_disposition :: "int \<Rightarrow> string \<Rightarrow> string" where
  "versioned_attachment_disposition version_number file_name =
     ''attachment; filename='' @ quoted (''v'' @ int_str version_number @ ''_'' @ sanitize_for_header file_name)"

text \<open>A file name cannot end the header line or its quoted part, whatever the client named the file.\<close>

lemma sanitize_for_header_safe:
  "c \<in> set (sanitize_for_header s) \<Longrightarrow> code_of c \<noteq> 13 \<and> code_of c \<noteq> 10 \<and> code_of c \<noteq> 34"
  by (auto simp: sanitize_for_header_def split: if_splits)

text \<open>Within 64 bits the check says what it means.\<close>

lemma sint_word_of_int_64: "fits i64_min i64_max v \<Longrightarrow> sint (word_of_int v :: 64 word) = v"
  by (simp add: fits_def signed_of_int signed_take_bit_int_eq_self)

lemma add64_exact: "fits i64_min i64_max (a + b) \<Longrightarrow> add64 a b = a + b"
  unfolding add64_def by (rule sint_word_of_int_64)

end
