(* ===== verification/Space_File_Handler.thy ===== *)
theory Space_File_Handler
  imports Space_Files File_Access Uploads Replies
begin

text \<open>
  The endpoints of \<open>handlers/space_file_handler.cpp\<close>. A handler takes the session token, the path
  parameters and the body, and the store (database and blobs); it answers with a reply and the new
  store, or with None when it never answers: a query that does not end, or an exception no handler
  catches. Each database method is a transaction of its own. Guards for CSRF and body size are those
  of Http\_Utils; ids in paths are UUIDs.
\<close>

section \<open>Environment\<close>

record file_env =
  fe_now :: time
  fe_new_id :: string
  fe_version_id :: string
  fe_upload_id :: string
  fe_random_hex :: "string option"
  fe_io :: io
  fe_lower :: "string \<Rightarrow> string"
  fe_sha256 :: "string \<Rightarrow> string"
  fe_pg :: pg
  fe_what :: "exn \<Rightarrow> string"
  fe_time_text :: "time \<Rightarrow> string"
  fe_max_file_size :: int

type_synonym 'r answer = "('r \<times> store) option"

definition space_file_to_json :: "file_env \<Rightarrow> db \<Rightarrow> space_file \<Rightarrow> (string \<times> json) list" where
  "space_file_to_json env d f =
     [(''id'', JString (sf_id f)), (''space_id'', JString (sf_space_id f)),
      (''parent_id'', if sf_parent_id f = [] then JNull else JString (sf_parent_id f)),
      (''name'', JString (sf_name f)), (''is_folder'', JBool (sf_is_folder f)),
      (''file_size'', JInt (sf_file_size f)), (''mime_type'', JString (sf_mime_type f)),
      (''created_by'', JString (sf_created_by f)),
      (''created_by_username'', JString (username_of_id d (sf_created_by f))),
      (''created_at'', JString (fe_time_text env (sf_created_at f))),
      (''updated_at'', JString (fe_time_text env (sf_updated_at f)))]"

definition space_file_version_to_json :: "file_env \<Rightarrow> db \<Rightarrow> space_file_version \<Rightarrow> json" where
  "space_file_version_to_json env d v =
     JObject [(''id'', JString (sv_id v)), (''file_id'', JString (sv_file_id v)),
       (''version_number'', JInt (sv_version_number v)), (''file_size'', JInt (sv_file_size v)),
       (''mime_type'', JString (sv_mime_type v)), (''uploaded_by'', JString (sv_uploaded_by v)),
       (''uploaded_by_username'', JString (username_of_id d (sv_uploaded_by v))),
       (''created_at'', JString (fe_time_text env (sv_created_at v)))]"

section \<open>Access\<close>

definition check_space_access_sync :: "db \<Rightarrow> string \<Rightarrow> string \<Rightarrow> bool" where
  "check_space_access_sync d space_id user_id \<longleftrightarrow>
     is_space_member d space_id user_id
     \<or> (case find_user_by_id d user_id of Some u \<Rightarrow> is_admin_role (u_role u) | None \<Rightarrow> False)
     \<or> (case find_space_by_id d space_id of
          Some s \<Rightarrow> sp_is_personal s \<and> has_file_permission_in_space d space_id user_id
        | None \<Rightarrow> False)"

text \<open>None is a query that never ends.\<close>

definition get_access_level :: "db \<Rightarrow> string \<Rightarrow> string \<Rightarrow> string \<Rightarrow> string option" where
  "get_access_level d space_id file_id user_id =
     (let space_role = get_space_member_role d space_id user_id
      in if (case find_user_by_id d user_id of Some u \<Rightarrow> is_admin_role (u_role u) | None \<Rightarrow> False)
         then Some ''owner''
         else if is_admin_role space_role then Some ''owner''
         else if (case find_space_by_id d space_id of Some s \<Rightarrow> sp_is_personal s | None \<Rightarrow> False) \<and> space_role = []
         then (if file_id = [] then Some ''none''
               else do {
                 file_perm \<leftarrow> get_effective_file_permission d file_id user_id;
                 Some (if file_perm = [] then ''none'' else file_perm) })
         else if file_id = [] then Some ''view''
         else do {
           file_perm \<leftarrow> get_effective_file_permission d file_id user_id;
           Some (if file_perm \<noteq> [] then file_perm else ''view'') })"

definition perm_rank :: "string \<Rightarrow> int" where
  "perm_rank p = (if p = ''owner'' then 2 else if p = ''edit'' then 1 else 0)"

definition require_permission_sync :: "db \<Rightarrow> string \<Rightarrow> string \<Rightarrow> string \<Rightarrow> string \<Rightarrow> bool option" where
  "require_permission_sync d space_id file_id user_id required_level = do {
     level \<leftarrow> get_access_level d space_id file_id user_id;
     Some (perm_rank required_level \<le> perm_rank level) }"

text \<open>Whether the total limit of all personal spaces would be exceeded.\<close>

definition personal_total_limit_exceeded :: "db \<Rightarrow> string \<Rightarrow> int \<Rightarrow> bool" where
  "personal_total_limit_exceeded d space_id upload_size =
     (case find_space_by_id d space_id of
        None \<Rightarrow> False
      | Some s \<Rightarrow> sp_is_personal s \<and>
          (case get_setting d ''personal_spaces_total_storage_limit'' of
             None \<Rightarrow> False
           | Some v \<Rightarrow>
               (case stoi i64_min i64_max v of
                  Inl _ \<Rightarrow> False
                | Inr limit \<Rightarrow> limit > 0
                    \<and> add64 (get_total_personal_spaces_storage_used d) upload_size > limit)))"

definition with_session ::
  "file_env \<Rightarrow> string \<Rightarrow> (string \<Rightarrow> store \<Rightarrow> reply answer) \<Rightarrow> store \<Rightarrow> reply answer" where
  "with_session env token rest w =
     (case validate_session (fst w) (fe_now env) token of
        None \<Rightarrow> Some (err_reply ''401'' ''Unauthorized'', w)
      | Some user_id \<Rightarrow> rest user_id w)"

definition with_access ::
  "string \<Rightarrow> string \<Rightarrow> (store \<Rightarrow> reply answer) \<Rightarrow> store \<Rightarrow> reply answer" where
  "with_access space_id user_id rest w =
     (if check_space_access_sync (fst w) space_id user_id then rest w
      else Some (err_reply ''403'' ''Not a member of this space'', w))"

definition with_permission ::
  "string \<Rightarrow> string \<Rightarrow> string \<Rightarrow> string \<Rightarrow> (store \<Rightarrow> reply answer) \<Rightarrow> store \<Rightarrow> reply answer" where
  "with_permission space_id file_id user_id required_level rest w = do {
     ok \<leftarrow> require_permission_sync (fst w) space_id file_id user_id required_level;
     if ok then rest w
     else Some (err_reply ''403'' (''Requires '' @ required_level @ '' permission''), w) }"

text \<open>The row at an id, of the given space and not deleted.\<close>

definition live_file :: "db \<Rightarrow> string \<Rightarrow> string \<Rightarrow> space_file option" where
  "live_file d space_id file_id =
     (case find_space_file d file_id of
        None \<Rightarrow> None | Some f \<Rightarrow> if sf_space_id f \<noteq> space_id \<or> sf_is_deleted f then None else Some f)"

definition is_valid_parent :: "db \<Rightarrow> string \<Rightarrow> string \<Rightarrow> bool" where
  "is_valid_parent d space_id parent_id \<longleftrightarrow>
     parent_id = [] \<or> (case live_file d space_id parent_id of None \<Rightarrow> False | Some p \<Rightarrow> sf_is_folder p)"

definition live_plain_file :: "db \<Rightarrow> string \<Rightarrow> string \<Rightarrow> space_file option" where
  "live_plain_file d space_id file_id =
     (case live_file d space_id file_id of
        None \<Rightarrow> None | Some f \<Rightarrow> if sf_is_folder f then None else Some f)"

definition name_conflict :: reply where
  "name_conflict = err_reply ''409'' ''A file or folder with this name already exists''"

definition breadcrumbs :: "(string \<times> string) list \<Rightarrow> json" where
  "breadcrumbs path = JArray (map (\<lambda>(i, n). JObject [(''id'', JString i), (''name'', JString n)]) path)"

section \<open>Folders and listings\<close>

definition list_files :: "file_env \<Rightarrow> string \<Rightarrow> string \<Rightarrow> string \<Rightarrow> store \<Rightarrow> reply answer" where
  "list_files env token space_id parent_id =
     with_session env token (\<lambda>user_id. with_access space_id user_id (\<lambda>w. do {
       files \<leftarrow> list_space_files (fe_pg env) (fst w) space_id parent_id;
       path \<leftarrow> (if parent_id = [] then Some [] else get_space_file_path (fst w) parent_id);
       my_perm \<leftarrow> get_access_level (fst w) space_id parent_id user_id;
       Some (ok_reply (JObject
         [(''files'', JArray (map (\<lambda>f. JObject (space_file_to_json env (fst w) f)) files)),
          (''path'', breadcrumbs path), (''my_permission'', JString my_perm)]), w) }))"

definition create_folder ::
  "file_env \<Rightarrow> string \<Rightarrow> string \<Rightarrow> json option \<Rightarrow> store \<Rightarrow> reply answer" where
  "create_folder env token space_id body =
     with_session env token (\<lambda>user_id. with_access space_id user_id (\<lambda>w.
       let failed = (\<lambda>e. Some (err_reply ''400'' (fe_what env e), w))
       in case body of None \<Rightarrow> failed Parse_error | Some j \<Rightarrow>
          case at_str j ''name'' of Inl e \<Rightarrow> failed e | Inr name \<Rightarrow>
          case string_value j ''parent_id'' '''' of None \<Rightarrow> failed (Not_a_string ''parent_id'') | Some parent_id \<Rightarrow>
          if name = [] \<or> length name > 255 then Some (err_reply ''400'' ''Invalid folder name'', w)
          else with_permission space_id parent_id user_id ''edit'' (\<lambda>(d, fs).
            if space_file_name_exists (fe_lower env) d space_id parent_id name '''' then Some (name_conflict, (d, fs))
            else if \<not> is_valid_parent d space_id parent_id
            then Some (err_reply ''400'' ''Invalid parent folder'', (d, fs))
            else case create_space_folder (fe_lower env) d (fe_new_id env) (fe_now env) space_id parent_id name user_id of
                Inl UniqueViolation \<Rightarrow> Some (name_conflict, (d, fs))
              | Inl e \<Rightarrow> Some (err_reply ''400'' (fe_what env (Db_exn e)), (d, fs))
              | Inr (f, d1) \<Rightarrow> Some (ok_reply (JObject (space_file_to_json env d1 f)), (d1, fs))) w))"

definition get_file :: "file_env \<Rightarrow> string \<Rightarrow> string \<Rightarrow> string \<Rightarrow> store \<Rightarrow> reply answer" where
  "get_file env token space_id file_id =
     with_session env token (\<lambda>user_id. with_access space_id user_id (\<lambda>w.
       case live_file (fst w) space_id file_id of
         None \<Rightarrow> Some (err_reply ''404'' ''File not found'', w)
       | Some f \<Rightarrow> do {
           my_perm \<leftarrow> get_access_level (fst w) space_id file_id user_id;
           path \<leftarrow> get_space_file_path (fst w) file_id;
           Some (ok_reply (JObject (space_file_to_json env (fst w) f
             @ [(''my_permission'', JString my_perm), (''path'', breadcrumbs path)])), w) }))"


section \<open>Uploads\<close>

text \<open>The three storage limits, in the order in which they are checked; Some is the refusal.\<close>

definition over_limit :: "db \<Rightarrow> string \<Rightarrow> int \<Rightarrow> reply option" where
  "over_limit d space_id bytes =
     (if exceeds_storage_limit (parse_max_storage_size (get_setting d ''max_storage_size''))
           (get_total_file_size d) bytes
      then Some (err_reply ''413'' ''Server storage limit reached'')
      else if exceeds_storage_limit (parse_space_storage_limit (get_setting d (''space_storage_limit_'' @ space_id)))
           (get_space_storage_used d space_id) bytes
      then Some (err_reply ''413'' ''Space storage limit reached'')
      else if personal_total_limit_exceeded d space_id bytes
      then Some (err_reply ''413'' ''Total personal spaces storage limit reached'')
      else None)"

definition too_large :: "file_env \<Rightarrow> db \<Rightarrow> int \<Rightarrow> reply option" where
  "too_large env d bytes =
     (let max_size = parse_max_file_size (get_setting d ''max_file_size'') (fe_max_file_size env)
      in if exceeds_file_size_limit max_size bytes
         then Some (err_reply ''413'' (file_too_large_message max_size)) else None)"

definition default_to :: "string \<Rightarrow> string \<Rightarrow> string" where
  "default_to dflt s = (if s = [] then dflt else s)"

definition upload_file ::
  "file_env \<Rightarrow> string \<Rightarrow> string \<Rightarrow> string \<Rightarrow> string \<Rightarrow> string \<Rightarrow> string \<Rightarrow> store \<Rightarrow> reply answer" where
  "upload_file env token space_id parent_id filename_query content_type_query body =
     (let filename = default_to ''upload'' filename_query;
          content_type = default_to ''application/octet-stream'' content_type_query;
          bytes = int (length body)
      in with_session env token (\<lambda>user_id w.
         case too_large env (fst w) bytes of Some r \<Rightarrow> Some (r, w) | None \<Rightarrow>
         with_access space_id user_id (with_permission space_id parent_id user_id ''edit'' (\<lambda>(d, fs).
           if \<not> is_valid_parent d space_id parent_id then Some (err_reply ''400'' ''Invalid parent folder'', (d, fs))
           else if space_file_name_exists (fe_lower env) d space_id parent_id filename ''''
           then Some (name_conflict, (d, fs))
           else case over_limit d space_id bytes of Some r \<Rightarrow> Some (r, (d, fs)) | None \<Rightarrow>
           case fe_random_hex env of None \<Rightarrow> Some (err_reply ''500'' (fe_what env Rand_failed), (d, fs)) | Some key \<Rightarrow>
           case put (fe_io env) key body fs of
             (False, fs1) \<Rightarrow> Some (err_reply ''500'' ''Failed to save file'', (d, fs1))
           | (True, fs1) \<Rightarrow>
               (case create_space_file (fe_lower env) d (fe_new_id env) (fe_version_id env) (fe_now env)
                   space_id parent_id filename key bytes content_type user_id of
                  Inl UniqueViolation \<Rightarrow> Some (name_conflict, (d, remove_blob key fs1))
                | Inl e \<Rightarrow> Some (err_reply ''500'' (fe_what env (Db_exn e)), (d, remove_blob key fs1))
                | Inr (f, d1) \<Rightarrow> Some (ok_reply (JObject (space_file_to_json env d1 f)), (d1, fs1))))) w))"

text \<open>
  The numbers of an upload request: \<open>j.value\<close> throws on a body that is not an object or a value
  that is not a number; \<open>chunk_count\<close> is an \<open>int\<close>. Numbers with a fraction, which the library would
  truncate, are not modelled.
\<close>

definition request_numbers :: "json \<Rightarrow> (int \<times> int \<times> int) option" where
  "request_numbers j =
     (if \<not> is_json_object j then None
      else case int_value j ''total_size'' 0 of None \<Rightarrow> None | Some total_size \<Rightarrow>
      case (case json_get j ''chunk_count'' of None \<Rightarrow> Some 0 | Some v \<Rightarrow> json_int32 v) of None \<Rightarrow> None | Some chunk_count \<Rightarrow>
      case int_value j ''chunk_size'' 0 of None \<Rightarrow> None | Some chunk_size \<Rightarrow>
      Some (total_size, chunk_count, chunk_size))"

definition bad_chunking :: "int \<Rightarrow> int \<Rightarrow> bool" where
  "bad_chunking chunk_count chunk_size \<longleftrightarrow> chunk_count \<le> 0 \<or> chunk_size \<le> 0 \<or> chunk_size > 67108864"

definition start_upload ::
  "file_env \<Rightarrow> string \<Rightarrow> int \<times> int \<times> int \<Rightarrow> json \<Rightarrow> store \<Rightarrow> reply answer" where
  "start_upload env user_id numbers metadata w =
     (case numbers of (total_size, chunk_count, chunk_size) \<Rightarrow>
      case create_session_upload (fe_io env) (fe_upload_id env) (fe_now env) user_id total_size chunk_count
          chunk_size metadata w of
        (upload_id, w1) \<Rightarrow> Some (ok_reply (JObject [(''upload_id'', JString upload_id)]), w1))"

definition upload_init :: "file_env \<Rightarrow> string \<Rightarrow> string \<Rightarrow> json option \<Rightarrow> store \<Rightarrow> reply answer" where
  "upload_init env token space_id body =
     with_session env token (\<lambda>user_id w.
       let invalid = Some (err_reply ''400'' ''Invalid request body'', w)
       in case body of None \<Rightarrow> invalid | Some j \<Rightarrow>
          case string_value j ''filename'' ''upload'' of None \<Rightarrow> invalid | Some filename \<Rightarrow>
          case string_value j ''content_type'' ''application/octet-stream'' of None \<Rightarrow> invalid | Some content_type \<Rightarrow>
          case request_numbers j of None \<Rightarrow> invalid | Some (total_size, chunk_count, chunk_size) \<Rightarrow>
          case string_value j ''parent_id'' '''' of None \<Rightarrow> invalid | Some parent_id \<Rightarrow>
          if bad_chunking chunk_count chunk_size
          then Some (err_reply ''400'' ''Invalid chunk count or size'', w)
          else with_access space_id user_id (with_permission space_id parent_id user_id ''edit'' (\<lambda>(d, fs).
            if \<not> is_valid_parent d space_id parent_id then Some (err_reply ''400'' ''Invalid parent folder'', (d, fs))
            else if space_file_name_exists (fe_lower env) d space_id parent_id filename ''''
            then Some (name_conflict, (d, fs))
            else case too_large env d total_size of Some r \<Rightarrow> Some (r, (d, fs)) | None \<Rightarrow>
            case over_limit d space_id total_size of Some r \<Rightarrow> Some (r, (d, fs)) | None \<Rightarrow>
            start_upload env user_id (total_size, chunk_count, chunk_size)
              (JObject [(''filename'', JString filename), (''content_type'', JString content_type),
                 (''space_id'', JString space_id), (''parent_id'', JString parent_id)]) (d, fs))) w)"

text \<open>The session of an upload, if it is the user's own.\<close>

definition own_upload :: "db \<Rightarrow> string \<Rightarrow> string \<Rightarrow> upload_session option" where
  "own_upload d upload_id user_id =
     (case get_upload_session d upload_id of
        None \<Rightarrow> None | Some s \<Rightarrow> if us_user_id s \<noteq> user_id then None else Some s)"

definition upload_chunk ::
  "file_env \<Rightarrow> string \<Rightarrow> string \<Rightarrow> string \<Rightarrow> string \<Rightarrow> string \<Rightarrow> store \<Rightarrow> reply answer" where
  "upload_chunk env token upload_id index_query expected_hash body =
     (let index = (case stoi i32_min i32_max index_query of Inr i \<Rightarrow> i | Inl _ \<Rightarrow> -1)
      in with_session env token (\<lambda>user_id w.
         case own_upload (fst w) upload_id user_id of
           None \<Rightarrow> Some (err_reply ''404'' ''Upload session not found'', w)
         | Some s \<Rightarrow>
             (case store_chunk_err (fe_sha256 env) (fe_io env) upload_id index body expected_hash w of (err, w1) \<Rightarrow>
                Some (if err = [] then done_reply
                      else if err = ''hash_mismatch'' then err_reply ''409'' ''Chunk integrity check failed''
                      else if err = ''invalid_index'' then err_reply ''400'' ''Invalid chunk index''
                      else err_reply ''500'' ''Failed to store chunk'', w1))))"

definition version_chunk ::
  "file_env \<Rightarrow> string \<Rightarrow> string \<Rightarrow> string \<Rightarrow> string \<Rightarrow> string \<Rightarrow> store \<Rightarrow> reply answer" where
  "version_chunk = upload_chunk"

text \<open>Assembling, and what follows a failure to: \<open>rest\<close> runs with the blob in place.\<close>

definition with_assembled ::
  "file_env \<Rightarrow> upload_session \<Rightarrow> string \<Rightarrow> (string \<Rightarrow> int \<Rightarrow> store \<Rightarrow> reply answer) \<Rightarrow> store \<Rightarrow> reply answer" where
  "with_assembled env s upload_id rest w =
     (case fe_random_hex env of
        None \<Rightarrow> Some (err_reply ''500'' (fe_what env Rand_failed), remove_session upload_id w)
      | Some key \<Rightarrow>
          (case assemble (fe_io env) upload_id key w of (bytes, w1) \<Rightarrow>
             if bytes < 0 then Some (err_reply ''500'' ''Failed to assemble file'', remove_session upload_id w1)
             else if bytes \<noteq> us_total_size s
             then Some (err_reply ''400'' ''Assembled file size does not match expected size'',
                    remove_session upload_id (apsnd (remove_blob key) w1))
             else rest key bytes w1))"

definition refuse_upload :: "string \<Rightarrow> reply \<Rightarrow> store \<Rightarrow> reply answer" where
  "refuse_upload upload_id r w = Some (r, remove_session upload_id w)"

definition not_member :: reply where
  "not_member = err_reply ''403'' ''Not a member of this space''"

definition needs_edit :: reply where
  "needs_edit = err_reply ''403'' ''Requires edit permission''"

text \<open>From the permission check on; \<open>parent_id\<close> comes from the metadata of the session.\<close>

definition finish_upload ::
  "file_env \<Rightarrow> string \<Rightarrow> upload_session \<Rightarrow> string \<Rightarrow> string \<Rightarrow> string \<Rightarrow> store \<Rightarrow> reply answer" where
  "finish_upload env user_id s space_id upload_id parent_id w = do {
     ok \<leftarrow> require_permission_sync (fst w) space_id parent_id user_id ''edit'';
     if \<not> ok then refuse_upload upload_id needs_edit w
     else
       case string_value (us_metadata s) ''filename'' ''upload'' of
         None \<Rightarrow> refuse_upload upload_id (err_reply ''500'' (fe_what env (Not_a_string ''filename''))) w
       | Some filename \<Rightarrow>
       case string_value (us_metadata s) ''content_type'' ''application/octet-stream'' of
         None \<Rightarrow> refuse_upload upload_id (err_reply ''500'' (fe_what env (Not_a_string ''content_type''))) w
       | Some content_type \<Rightarrow>
       with_assembled env s upload_id (\<lambda>key bytes (d, fs).
         case create_space_file (fe_lower env) d (fe_new_id env) (fe_version_id env) (fe_now env)
             space_id parent_id filename key bytes content_type user_id of
           Inl UniqueViolation \<Rightarrow> refuse_upload upload_id name_conflict (d, fs)
         | Inl e \<Rightarrow> refuse_upload upload_id (err_reply ''500'' (fe_what env (Db_exn e))) (d, fs)
         | Inr (f, d1) \<Rightarrow>
             Some (ok_reply (JObject (space_file_to_json env d1 f)), remove_session upload_id (d1, fs))) w }"

definition upload_complete :: "file_env \<Rightarrow> string \<Rightarrow> string \<Rightarrow> string \<Rightarrow> store \<Rightarrow> reply answer" where
  "upload_complete env token space_id upload_id =
     with_session env token (\<lambda>user_id w.
       case own_upload (fst w) upload_id user_id of
         None \<Rightarrow> Some (err_reply ''404'' ''Upload session not found'', w)
       | Some s \<Rightarrow>
           if \<not> is_complete upload_id w then Some (err_reply ''400'' ''Not all chunks have been uploaded'', w)
           else if \<not> check_space_access_sync (fst w) space_id user_id then refuse_upload upload_id not_member w
           else do {
             parent_id \<leftarrow> string_value (us_metadata s) ''parent_id'' '''';
             finish_upload env user_id s space_id upload_id parent_id w })"

section \<open>Downloading, renaming, moving, deleting\<close>

datatype download = Refused reply | Blob_reply string string string

text \<open>The session token may also come as a query parameter here.\<close>

definition download_file ::
  "file_env \<Rightarrow> string \<Rightarrow> string \<Rightarrow> string \<Rightarrow> string \<Rightarrow> string \<Rightarrow> store \<Rightarrow> download answer" where
  "download_file env header_token query_token space_id file_id inline_query w =
     (let token = default_to query_token header_token
      in case validate_session (fst w) (fe_now env) token of
           None \<Rightarrow> Some (Refused (err_reply ''401'' ''Unauthorized''), w)
         | Some user_id \<Rightarrow>
             if \<not> check_space_access_sync (fst w) space_id user_id then Some (Refused not_member, w)
             else case live_plain_file (fst w) space_id file_id of
               None \<Rightarrow> Some (Refused (err_reply ''404'' ''File not found''), w)
             | Some f \<Rightarrow>
                 (case get (sf_disk_file_id f) (snd w) of
                    None \<Rightarrow> Some (Refused (err_reply ''404'' ''File data not found on disk''), w)
                  | Some data \<Rightarrow>
                      Some (Blob_reply (default_to ''application/octet-stream'' (sf_mime_type f))
                        (if inline_query = [] then attachment_disposition (sf_name f)
                         else inline_disposition (sf_name f)) data, w)))"

definition update_rename ::
  "file_env \<Rightarrow> string \<Rightarrow> space_file \<Rightarrow> json \<Rightarrow> db \<Rightarrow> reply + db" where
  "update_rename env space_id file j d =
     (case json_get j ''name'' of
        None \<Rightarrow> Inr d
      | Some v \<Rightarrow>
          (case json_string v of
             None \<Rightarrow> Inl (err_reply ''400'' (fe_what env (Not_a_string ''name'')))
           | Some new_name \<Rightarrow>
               if new_name = [] \<or> length new_name > 255 then Inl (err_reply ''400'' ''Invalid name'')
               else if space_file_name_exists (fe_lower env) d space_id (sf_parent_id file) new_name (sf_id file)
               then Inl name_conflict
               else case rename_space_file (fe_lower env) d (fe_now env) (sf_id file) new_name of
                   Inl UniqueViolation \<Rightarrow> Inl name_conflict
                 | Inl e \<Rightarrow> Inl (err_reply ''400'' (fe_what env (Db_exn e)))
                 | Inr d1 \<Rightarrow> Inr d1))"

text \<open>The checks before a move; \<open>Inr\<close> lets it go ahead.\<close>

definition check_move :: "db \<Rightarrow> string \<Rightarrow> space_file \<Rightarrow> string \<Rightarrow> (reply + unit) option" where
  "check_move d space_id file new_parent =
     (if new_parent = [] then Some (Inr ())
      else if new_parent = sf_id file then Some (Inl (err_reply ''400'' ''Cannot move a folder into itself''))
      else if \<not> is_valid_parent d space_id new_parent then Some (Inl (err_reply ''400'' ''Invalid parent folder''))
      else if \<not> sf_is_folder file then Some (Inr ())
      else do {
        path \<leftarrow> get_space_file_path d new_parent;
        Some (if sf_id file \<in> set (map fst path)
              then Inl (err_reply ''400'' ''Cannot move a folder into its own descendant'') else Inr ()) })"

definition update_move ::
  "file_env \<Rightarrow> string \<Rightarrow> space_file \<Rightarrow> json \<Rightarrow> db \<Rightarrow> (reply + db) option" where
  "update_move env space_id file j d =
     (case json_get j ''parent_id'' of
        None \<Rightarrow> Some (Inr d)
      | Some v \<Rightarrow>
          (case (case v of JNull \<Rightarrow> Some '''' | _ \<Rightarrow> json_string v) of
             None \<Rightarrow> Some (Inl (err_reply ''400'' (fe_what env (Not_a_string ''parent_id''))))
           | Some new_parent \<Rightarrow> do {
               checked \<leftarrow> check_move d space_id file new_parent;
               (case checked of
                  Inl r \<Rightarrow> Some (Inl r)
                | Inr _ \<Rightarrow>
                    (case string_value j ''name'' (sf_name file) of
                       None \<Rightarrow> Some (Inl (err_reply ''400'' (fe_what env (Not_a_string ''name''))))
                     | Some current_name \<Rightarrow>
                         if space_file_name_exists (fe_lower env) d space_id new_parent current_name (sf_id file)
                         then Some (Inl (err_reply ''409''
                           ''A file or folder with this name already exists in the destination''))
                         else case move_space_file (fe_lower env) d (fe_now env) (sf_id file) new_parent of
                             Inl UniqueViolation \<Rightarrow> Some (Inl name_conflict)
                           | Inl e \<Rightarrow> Some (Inl (err_reply ''400'' (fe_what env (Db_exn e))))
                           | Inr d1 \<Rightarrow> Some (Inr d1))) }))"

text \<open>The rename is committed before the move is checked, and stays when the move is refused.\<close>

definition update_file ::
  "file_env \<Rightarrow> string \<Rightarrow> string \<Rightarrow> string \<Rightarrow> json option \<Rightarrow> store \<Rightarrow> reply answer" where
  "update_file env token space_id file_id body =
     with_session env token (\<lambda>user_id. with_access space_id user_id (with_permission space_id file_id user_id ''edit''
       (\<lambda>(d, fs).
         case live_file d space_id file_id of
           None \<Rightarrow> Some (err_reply ''404'' ''File not found'', (d, fs))
         | Some file \<Rightarrow>
             (case body of None \<Rightarrow> Some (err_reply ''400'' (fe_what env Parse_error), (d, fs)) | Some j \<Rightarrow>
              case update_rename env space_id file j d of
                Inl r \<Rightarrow> Some (r, (d, fs))
              | Inr d1 \<Rightarrow> do {
                  moved \<leftarrow> update_move env space_id file j d1;
                  (case moved of
                     Inl r \<Rightarrow> Some (r, (d1, fs))
                   | Inr d2 \<Rightarrow> do {
                       f \<leftarrow> find_space_file d2 file_id;
                       Some (ok_reply (JObject (space_file_to_json env d2 f)), (d2, fs)) }) }))))"

definition delete_file :: "file_env \<Rightarrow> string \<Rightarrow> string \<Rightarrow> string \<Rightarrow> store \<Rightarrow> reply answer" where
  "delete_file env token space_id file_id =
     with_session env token (\<lambda>user_id. with_access space_id user_id (with_permission space_id file_id user_id ''owner''
       (\<lambda>(d, fs).
         case live_file d space_id file_id of
           None \<Rightarrow> Some (err_reply ''404'' ''File not found'', (d, fs))
         | Some file \<Rightarrow> do {
             (disk_ids, d1) \<leftarrow> hard_delete_space_file d file_id;
             Some (done_reply, (d1, fold remove_blob disk_ids fs)) })))"

definition get_storage :: "file_env \<Rightarrow> string \<Rightarrow> string \<Rightarrow> store \<Rightarrow> reply answer" where
  "get_storage env token space_id =
     with_session env token (\<lambda>user_id. with_access space_id user_id (\<lambda>w.
       Some (ok_reply (JObject
         [(''used'', JInt (get_space_storage_used (fst w) space_id)),
          (''limit'', JInt (case get_setting (fst w) (''space_storage_limit_'' @ space_id) of
             None \<Rightarrow> 0 | Some v \<Rightarrow> (case stoi i64_min i64_max v of Inr n \<Rightarrow> n | Inl _ \<Rightarrow> 0))),
          (''breakdown'', JArray (map (\<lambda>(n, t, u). JObject [(''name'', JString n), (''type'', JString t), (''used'', JInt u)])
             (filter (\<lambda>(n, t, u). u > 0) (get_space_storage_breakdown (fst w) space_id))))]), w)))"

section \<open>Permission endpoints\<close>

text \<open>The rows' own ids and creation times, which the reply also carries, are left out.\<close>

definition get_permissions :: "file_env \<Rightarrow> string \<Rightarrow> string \<Rightarrow> string \<Rightarrow> store \<Rightarrow> reply answer" where
  "get_permissions env token space_id file_id =
     with_session env token (\<lambda>user_id. with_access space_id user_id (\<lambda>w.
       case live_file (fst w) space_id file_id of
         None \<Rightarrow> Some (err_reply ''404'' ''File not found'', w)
       | Some f \<Rightarrow> do {
           my_perm \<leftarrow> get_access_level (fst w) space_id file_id user_id;
           Some (ok_reply (JObject
             [(''permissions'', JArray (map (\<lambda>(p, u, g). JObject
                 [(''file_id'', JString (fp_file_id p)), (''user_id'', JString (fp_user_id p)),
                  (''username'', JString (u_username u)), (''display_name'', JString (u_display_name u)),
                  (''permission'', JString (fp_permission p)), (''granted_by'', JString (fp_granted_by p)),
                  (''granted_by_username'', JString (case g of None \<Rightarrow> '''' | Some x \<Rightarrow> u_username x))])
                (get_file_permissions (fe_pg env) (fst w) file_id))),
              (''my_permission'', JString my_perm)]), w) }))"

definition put_permission ::
  "file_env \<Rightarrow> string \<Rightarrow> string \<Rightarrow> string \<Rightarrow> json option \<Rightarrow> store \<Rightarrow> reply answer" where
  "put_permission env token space_id file_id body =
     with_session env token (\<lambda>user_id. with_access space_id user_id (with_permission space_id file_id user_id ''owner''
       (\<lambda>(d, fs).
         let failed = (\<lambda>e. Some (err_reply ''400'' (fe_what env e), (d, fs)));
             refuse = (\<lambda>m. Some (err_reply ''400'' m, (d, fs)))
         in case body of None \<Rightarrow> failed Parse_error | Some j \<Rightarrow>
            case at_str j ''user_id'' of Inl e \<Rightarrow> failed e | Inr target_user_id \<Rightarrow>
            case at_str j ''permission'' of Inl e \<Rightarrow> failed e | Inr permission \<Rightarrow>
            if permission \<noteq> ''owner'' \<and> permission \<noteq> ''edit'' \<and> permission \<noteq> ''view''
            then refuse ''Invalid permission level (must be owner, edit, or view)''
            else if (case find_space_by_id d space_id of Some s \<Rightarrow> sp_is_personal s | None \<Rightarrow> False) \<and> permission = ''owner''
            then refuse ''Cannot assign owner permission in a personal space''
            else if find_user_by_id d target_user_id = None then refuse ''User not found''
            else do {
              parent_perm \<leftarrow>
                (case find_space_file d file_id of
                   None \<Rightarrow> Some None
                 | Some f \<Rightarrow> if sf_parent_id f = [] then Some None
                             else map_option Some (get_effective_file_permission d (sf_parent_id f) target_user_id));
              (case parent_perm of
                 Some p \<Rightarrow>
                   if perm_rank permission < perm_rank p
                   then refuse (''Cannot set permission below inherited level ('' @ p @ '')'')
                   else (case set_file_permission d file_id target_user_id permission user_id of
                           Inl e \<Rightarrow> failed (Db_exn e) | Inr d1 \<Rightarrow> Some (done_reply, (d1, fs)))
               | None \<Rightarrow> (case set_file_permission d file_id target_user_id permission user_id of
                           Inl e \<Rightarrow> failed (Db_exn e) | Inr d1 \<Rightarrow> Some (done_reply, (d1, fs)))) })))"

definition delete_permission ::
  "file_env \<Rightarrow> string \<Rightarrow> string \<Rightarrow> string \<Rightarrow> string \<Rightarrow> store \<Rightarrow> reply answer" where
  "delete_permission env token space_id file_id target_user_id =
     with_session env token (\<lambda>user_id. with_access space_id user_id (with_permission space_id file_id user_id ''owner''
       (\<lambda>(d, fs). Some (done_reply, (remove_file_permission d file_id target_user_id, fs)))))"


section \<open>Version endpoints\<close>

definition version_init ::
  "file_env \<Rightarrow> string \<Rightarrow> string \<Rightarrow> string \<Rightarrow> json option \<Rightarrow> store \<Rightarrow> reply answer" where
  "version_init env token space_id file_id body =
     with_session env token (\<lambda>user_id w.
       let invalid = Some (err_reply ''400'' ''Invalid request body'', w)
       in case body of None \<Rightarrow> invalid | Some j \<Rightarrow>
          case request_numbers j of None \<Rightarrow> invalid | Some (total_size, chunk_count, chunk_size) \<Rightarrow>
          if bad_chunking chunk_count chunk_size
          then Some (err_reply ''400'' ''Invalid chunk count or size'', w)
          else with_access space_id user_id (with_permission space_id file_id user_id ''edit'' (\<lambda>(d, fs).
            case live_plain_file d space_id file_id of
              None \<Rightarrow> Some (err_reply ''404'' ''File not found'', (d, fs))
            | Some file \<Rightarrow>
                (case too_large env d total_size of Some r \<Rightarrow> Some (r, (d, fs)) | None \<Rightarrow>
                 case over_limit d space_id total_size of Some r \<Rightarrow> Some (r, (d, fs)) | None \<Rightarrow>
                 start_upload env user_id (total_size, chunk_count, chunk_size)
                   (JObject [(''space_id'', JString space_id), (''file_id'', JString file_id),
                      (''mime_type'', JString (sf_mime_type file))]) (d, fs)))) w)"

definition version_complete ::
  "file_env \<Rightarrow> string \<Rightarrow> string \<Rightarrow> string \<Rightarrow> string \<Rightarrow> store \<Rightarrow> reply answer" where
  "version_complete env token space_id file_id upload_id =
     with_session env token (\<lambda>user_id w.
       case own_upload (fst w) upload_id user_id of
         None \<Rightarrow> Some (err_reply ''404'' ''Upload session not found'', w)
       | Some s \<Rightarrow>
           if \<not> is_complete upload_id w then Some (err_reply ''400'' ''Not all chunks have been uploaded'', w)
           else if \<not> check_space_access_sync (fst w) space_id user_id then refuse_upload upload_id not_member w
           else do {
             ok \<leftarrow> require_permission_sync (fst w) space_id file_id user_id ''edit'';
             if \<not> ok then refuse_upload upload_id needs_edit w
             else if live_plain_file (fst w) space_id file_id = None
             then refuse_upload upload_id (err_reply ''404'' ''File not found'') w
             else with_assembled env s upload_id (\<lambda>key bytes (d, fs).
               case string_value (us_metadata s) ''mime_type'' '''' of
                 None \<Rightarrow> refuse_upload upload_id (err_reply ''500'' (fe_what env (Not_a_string ''mime_type''))) (d, fs)
               | Some mime_type \<Rightarrow>
               case create_file_version d (fe_version_id env) (fe_now env) file_id key bytes mime_type user_id of
                 Inl e \<Rightarrow> refuse_upload upload_id (err_reply ''500'' (fe_what env (Db_exn e))) (d, fs)
               | Inr (v, d1) \<Rightarrow> Some (ok_reply (space_file_version_to_json env d1 v), remove_session upload_id (d1, fs))) w })"

definition list_versions :: "file_env \<Rightarrow> string \<Rightarrow> string \<Rightarrow> string \<Rightarrow> store \<Rightarrow> reply answer" where
  "list_versions env token space_id file_id =
     with_session env token (\<lambda>user_id. with_access space_id user_id (\<lambda>w.
       case live_plain_file (fst w) space_id file_id of
         None \<Rightarrow> Some (err_reply ''404'' ''File not found'', w)
       | Some f \<Rightarrow> Some (ok_reply (JObject [(''versions'',
           JArray (map (space_file_version_to_json env (fst w)) (list_file_versions (fst w) file_id)))]), w)))"

definition upload_version ::
  "file_env \<Rightarrow> string \<Rightarrow> string \<Rightarrow> string \<Rightarrow> string \<Rightarrow> store \<Rightarrow> reply answer" where
  "upload_version env token space_id file_id body =
     (let bytes = int (length body)
      in with_session env token (\<lambda>user_id w.
         case too_large env (fst w) bytes of Some r \<Rightarrow> Some (r, w) | None \<Rightarrow>
         with_access space_id user_id (with_permission space_id file_id user_id ''edit'' (\<lambda>(d, fs).
           case live_plain_file d space_id file_id of
             None \<Rightarrow> Some (err_reply ''404'' ''File not found'', (d, fs))
           | Some file \<Rightarrow>
               (case over_limit d space_id bytes of Some r \<Rightarrow> Some (r, (d, fs)) | None \<Rightarrow>
                case fe_random_hex env of None \<Rightarrow> Some (err_reply ''500'' (fe_what env Rand_failed), (d, fs)) | Some key \<Rightarrow>
                case put (fe_io env) key body fs of
                  (False, fs1) \<Rightarrow> Some (err_reply ''500'' ''Failed to save file'', (d, fs1))
                | (True, fs1) \<Rightarrow>
                    (case create_file_version d (fe_version_id env) (fe_now env) file_id key bytes (sf_mime_type file) user_id of
                       Inl e \<Rightarrow> Some (err_reply ''500'' (fe_what env (Db_exn e)), (d, fs1))
                     | Inr (v, d1) \<Rightarrow> Some (ok_reply (space_file_version_to_json env d1 v), (d1, fs1)))))) w))"

definition file_version_of :: "db \<Rightarrow> string \<Rightarrow> string \<Rightarrow> space_file_version option" where
  "file_version_of d file_id version_id =
     (case get_file_version d version_id of
        None \<Rightarrow> None | Some v \<Rightarrow> if sv_file_id v \<noteq> file_id then None else Some v)"

definition download_version ::
  "file_env \<Rightarrow> string \<Rightarrow> string \<Rightarrow> string \<Rightarrow> string \<Rightarrow> string \<Rightarrow> store \<Rightarrow> download answer" where
  "download_version env header_token query_token space_id file_id version_id w =
     (let token = default_to query_token header_token
      in case validate_session (fst w) (fe_now env) token of
           None \<Rightarrow> Some (Refused (err_reply ''401'' ''Unauthorized''), w)
         | Some user_id \<Rightarrow>
             if \<not> check_space_access_sync (fst w) space_id user_id then Some (Refused not_member, w)
             else case live_plain_file (fst w) space_id file_id of
               None \<Rightarrow> Some (Refused (err_reply ''404'' ''File not found''), w)
             | Some f \<Rightarrow>
                 (case file_version_of (fst w) file_id version_id of
                    None \<Rightarrow> Some (Refused (err_reply ''404'' ''Version not found''), w)
                  | Some v \<Rightarrow>
                      (case get (sv_disk_file_id v) (snd w) of
                         None \<Rightarrow> Some (Refused (err_reply ''404'' ''Version data not found on disk''), w)
                       | Some data \<Rightarrow>
                           Some (Blob_reply (default_to ''application/octet-stream'' (sv_mime_type v))
                             (versioned_attachment_disposition (sv_version_number v) (sf_name f)) data, w))))"

definition revert_version ::
  "file_env \<Rightarrow> string \<Rightarrow> string \<Rightarrow> string \<Rightarrow> string \<Rightarrow> store \<Rightarrow> reply answer" where
  "revert_version env token space_id file_id version_id =
     with_session env token (\<lambda>user_id. with_access space_id user_id (with_permission space_id file_id user_id ''edit''
       (\<lambda>(d, fs).
         case live_plain_file d space_id file_id of
           None \<Rightarrow> Some (err_reply ''404'' ''File not found'', (d, fs))
         | Some file \<Rightarrow>
             (case file_version_of d file_id version_id of
                None \<Rightarrow> Some (err_reply ''404'' ''Version not found'', (d, fs))
              | Some v \<Rightarrow>
                  (case create_file_version d (fe_version_id env) (fe_now env) file_id (sv_disk_file_id v)
                      (sv_file_size v) (sv_mime_type v) user_id of
                     Inl e \<Rightarrow> None
                   | Inr (v1, d1) \<Rightarrow> Some (ok_reply (space_file_version_to_json env d1 v1), (d1, fs)))))))"

end
