(* ===== verification/Space_Tree.thy ===== *)
theory Space_Tree
  imports Space_File_Handler
begin

text \<open>
  The folders of all spaces form a forest, and stay one: then every recursive query ends. The
  invariant comes first, then one preservation lemma per
  database method, and the requests as steps.
\<close>

section \<open>The forest\<close>

definition forest_by :: "(string \<Rightarrow> nat) \<Rightarrow> space_file list \<Rightarrow> bool" where
  "forest_by rank fs \<longleftrightarrow> distinct (map sf_id fs) \<and> (\<forall>f \<in> set fs. sf_id f \<noteq> [])
     \<and> (\<forall>f \<in> set fs. sf_parent_id f \<noteq> [] \<longrightarrow> sf_parent_id f \<in> sf_id ` set fs
          \<and> rank (sf_parent_id f) < rank (sf_id f))
     \<and> (\<forall>f \<in> set fs. \<forall>p \<in> set fs. sf_is_folder f \<and> sf_id p = sf_parent_id f \<longrightarrow> sf_is_folder p)"

lemma forestD:
  assumes "forest_by rank fs"
  shows "distinct (map sf_id fs)"
    and "f \<in> set fs \<Longrightarrow> sf_id f \<noteq> []"
    and "f \<in> set fs \<Longrightarrow> sf_parent_id f \<noteq> [] \<Longrightarrow> sf_parent_id f \<in> sf_id ` set fs"
    and "f \<in> set fs \<Longrightarrow> sf_parent_id f \<noteq> [] \<Longrightarrow> rank (sf_parent_id f) < rank (sf_id f)"
    and "f \<in> set fs \<Longrightarrow> p \<in> set fs \<Longrightarrow> sf_is_folder f \<Longrightarrow> sf_id p = sf_parent_id f \<Longrightarrow> sf_is_folder p"
  using assms unfolding forest_by_def by blast+

lemma forestI:
  assumes "distinct (map sf_id fs)"
    and "\<And>f. f \<in> set fs \<Longrightarrow> sf_id f \<noteq> []"
    and "\<And>f. f \<in> set fs \<Longrightarrow> sf_parent_id f \<noteq> [] \<Longrightarrow> sf_parent_id f \<in> sf_id ` set fs"
    and "\<And>f. f \<in> set fs \<Longrightarrow> sf_parent_id f \<noteq> [] \<Longrightarrow> rank (sf_parent_id f) < rank (sf_id f)"
    and "\<And>f p. f \<in> set fs \<Longrightarrow> p \<in> set fs \<Longrightarrow> sf_is_folder f \<Longrightarrow> sf_id p = sf_parent_id f \<Longrightarrow> sf_is_folder p"
  shows "forest_by rank fs"
  using assms unfolding forest_by_def by blast

lemma forest_unique:
  "forest_by rank fs \<Longrightarrow> f \<in> set fs \<Longrightarrow> g \<in> set fs \<Longrightarrow> sf_id f = sf_id g \<Longrightarrow> f = g"
  by (auto dest!: forestD(1) simp: distinct_map inj_on_eq_iff)

text \<open>
  Ids are unique, parents exist, the parent of a folder is a folder, and some rank grows from every
  parent to its children.
\<close>

definition tree_ok :: "db \<Rightarrow> bool" where
  "tree_ok d \<longleftrightarrow> (\<exists>rank. forest_by rank (space_files d))"

lemma forest_rank:
  "forest_by rank fs \<Longrightarrow> f \<in> set fs \<Longrightarrow> p \<in> set fs \<Longrightarrow> sf_parent_id f = sf_id p
     \<Longrightarrow> rank (sf_id p) < rank (sf_id f)"
  unfolding forest_by_def by metis

lemma parent_rows_end:
  assumes "tree_ok d"
  shows "\<exists>r. closure (parent_rows d) (rows_with_id d i) = Some r"
proof -
  obtain rank where rank: "forest_by rank (space_files d)" using assms by (auto simp: tree_ok_def)
  show ?thesis
  proof (rule closure_ends [where P = "\<lambda>f. f \<in> set (space_files d)" and m = "\<lambda>f. rank (sf_id f)"])
    fix x y
    assume "x \<in> set (space_files d)" "y \<in> set (parent_rows d x)"
    then show "y \<in> set (space_files d) \<and> rank (sf_id y) < rank (sf_id x)"
      using forest_rank [OF rank, of x y] by (auto simp: parent_rows_def)
  qed (simp add: rows_with_id_def)
qed

lemma child_rows_end:
  assumes "tree_ok d" and "set work \<subseteq> set (space_files d)"
  shows "\<exists>r. closure (child_rows d keep) work = Some r"
proof -
  obtain rank where rank: "forest_by rank (space_files d)" using assms by (auto simp: tree_ok_def)
  define top where "top = Max (insert 0 ((\<lambda>f. rank (sf_id f)) ` set (space_files d)))"
  have top: "rank (sf_id f) \<le> top" if "f \<in> set (space_files d)" for f
    using that by (simp add: top_def)
  show ?thesis
  proof (rule closure_ends [where P = "\<lambda>f. f \<in> set (space_files d)" and m = "\<lambda>f. top - rank (sf_id f)"])
    fix x y
    assume x: "x \<in> set (space_files d)" and y: "y \<in> set (child_rows d keep x)"
    then have "y \<in> set (space_files d)" "rank (sf_id x) < rank (sf_id y)"
      using forest_rank [OF rank, of y x] by (auto simp: child_rows_def)
    then show "y \<in> set (space_files d) \<and> top - rank (sf_id y) < top - rank (sf_id x)"
      using top [of y] by simp
  qed (use assms(2) in auto)
qed

lemma path_children_end:
  assumes "tree_ok d" and "fst ` set work \<subseteq> set (space_files d)"
  shows "\<exists>r. closure (path_children d) work = Some r"
proof -
  obtain rank where rank: "forest_by rank (space_files d)" using assms by (auto simp: tree_ok_def)
  define top where "top = Max (insert 0 ((\<lambda>f. rank (sf_id f)) ` set (space_files d)))"
  have top: "rank (sf_id f) \<le> top" if "f \<in> set (space_files d)" for f
    using that by (simp add: top_def)
  show ?thesis
  proof (rule closure_ends [where P = "\<lambda>p. fst p \<in> set (space_files d)" and m = "\<lambda>p. top - rank (sf_id (fst p))"])
    fix x y
    assume x: "fst x \<in> set (space_files d)" and y: "y \<in> set (path_children d x)"
    then have "fst y \<in> set (space_files d)" "rank (sf_id (fst x)) < rank (sf_id (fst y))"
      using forest_rank [OF rank, of "fst y" "fst x"]
      by (auto simp: path_children_def child_rows_def split: prod.splits)
    then show "fst y \<in> set (space_files d) \<and> top - rank (sf_id (fst y)) < top - rank (sf_id (fst x))"
      using top [of "fst y"] by simp
  qed (use assms(2) in auto)
qed


section \<open>Methods keep the forest\<close>

lemma forest_by_map:
  assumes "\<And>f. sf_id (g f) = sf_id f \<and> sf_parent_id (g f) = sf_parent_id f \<and> sf_is_folder (g f) = sf_is_folder f"
  shows "forest_by rank (map g fs) \<longleftrightarrow> forest_by rank fs"
  using assms by (simp add: forest_by_def o_def image_image)

lemma tree_ok_update:
  assumes "\<And>f. sf_id (g f) = sf_id f \<and> sf_parent_id (g f) = sf_parent_id f \<and> sf_is_folder (g f) = sf_is_folder f"
  shows "tree_ok (update_space_file i g d) \<longleftrightarrow> tree_ok d"
  unfolding tree_ok_def update_space_file_def using forest_by_map [of "\<lambda>f. if sf_id f = i then g f else f"] assms
  by simp

lemma tree_ok_insert:
  assumes "tree_ok d" and "insert_space_file lower d f = Inr d'" and "sf_id f \<noteq> []"
    and "sf_is_folder f \<Longrightarrow> \<forall>p \<in> set (space_files d). sf_id p = sf_parent_id f \<longrightarrow> sf_is_folder p"
  shows "tree_ok d'"
proof -
  obtain rank where rank: "forest_by rank (space_files d)" using assms(1) by (auto simp: tree_ok_def)
  have d': "space_files d' = space_files d @ [f]" "sf_id f \<notin> sf_id ` set (space_files d)"
    and parent: "sf_parent_id f = [] \<or> sf_parent_id f \<in> sf_id ` set (space_files d)"
    using assms(2) by (auto simp: insert_space_file_def ref_ok_def has_key_iff split: if_splits)
  define rank' where "rank' = rank (sf_id f := Suc (rank (sf_parent_id f)))"
  have "sf_parent_id g \<noteq> sf_id f" if "g \<in> set (space_files d)" for g
    using rank d'(2) that assms(3) unfolding forest_by_def by metis
  note no_child = this
  have "forest_by rank' (space_files d')"
  proof (rule forestI)
    show "distinct (map sf_id (space_files d'))" using d' forestD(1) [OF rank] by simp
    fix g assume g: "g \<in> set (space_files d')"
    show "sf_id g \<noteq> []" using g d' forestD(2) [OF rank] assms(3) by auto
    show "sf_parent_id g \<noteq> [] \<Longrightarrow> sf_parent_id g \<in> sf_id ` set (space_files d')"
      using g d' parent forestD(3) [OF rank] by auto
    show "rank' (sf_parent_id g) < rank' (sf_id g)" if "sf_parent_id g \<noteq> []"
    proof (cases "g = f")
      case True
      then show ?thesis using parent d'(2) that by (auto simp: rank'_def)
    next
      case False
      then have g': "g \<in> set (space_files d)" using g d' by simp
      then have "sf_id g \<noteq> sf_id f" using d'(2) by (metis imageI)
      then show ?thesis
        using forestD(4) [OF rank g' that] no_child [OF g'] by (simp add: rank'_def)
    qed
    fix p assume "p \<in> set (space_files d')" "sf_is_folder g" "sf_id p = sf_parent_id g"
    then show "sf_is_folder p"
    proof (cases "p = f")
      case True
      then have "g \<notin> set (space_files d)" using no_child \<open>sf_id p = sf_parent_id g\<close> by metis
      then have "sf_parent_id f = sf_id f" using g d' True \<open>sf_id p = sf_parent_id g\<close> by auto
      then show ?thesis using parent d'(2) assms(3) by metis
    next
      case False
      then have p: "p \<in> set (space_files d)" using \<open>p \<in> set (space_files d')\<close> d' by simp
      show ?thesis
      proof (cases "g = f")
        case True
        then show ?thesis using assms(4) p \<open>sf_is_folder g\<close> \<open>sf_id p = sf_parent_id g\<close> by simp
      next
        case False
        then show ?thesis
          using forestD(5) [OF rank _ p] g d' \<open>sf_is_folder g\<close> \<open>sf_id p = sf_parent_id g\<close> by simp
      qed
    qed
  qed
  then show ?thesis by (auto simp: tree_ok_def)
qed

lemma space_files_grant_owner [simp]: "space_files (grant_owner i u d) = space_files d"
  by (simp add: grant_owner_def)

lemma tree_ok_cong: "space_files d' = space_files d \<Longrightarrow> tree_ok d' = tree_ok d"
  by (simp add: tree_ok_def)

lemma tree_ok_create_folder:
  assumes "tree_ok d" and "create_space_folder lower d i now s p name u = Inr (f, d')" and "i \<noteq> []"
    and "\<forall>g \<in> set (space_files d). sf_id g = p \<longrightarrow> sf_is_folder g"
  shows "tree_ok d'"
proof -
  obtain d1 where "insert_space_file lower d f = Inr d1" "space_files d' = space_files d1"
    "sf_id f = i" "sf_parent_id f = p"
    using assms(2) by (auto simp: create_space_folder_def Let_def split: sum.splits)
  then show ?thesis
    using tree_ok_insert [OF assms(1), of lower f d1] tree_ok_cong [of d' d1] assms(3,4) by simp
qed

lemma tree_ok_create_file:
  assumes "tree_ok d" and "create_space_file lower d i v now s p name k n m u = Inr (f, d')" and "i \<noteq> []"
  shows "tree_ok d'"
proof -
  obtain d1 where "insert_space_file lower d f = Inr d1" "space_files d' = space_files d1"
    "sf_id f = i" "\<not> sf_is_folder f"
    using assms(2) by (auto simp: create_space_file_def Let_def split: sum.splits)
  then show ?thesis
    using tree_ok_insert [OF assms(1), of lower f d1] tree_ok_cong [of d' d1] assms(3) by simp
qed

lemma tree_ok_rename:
  assumes "tree_ok d" and "rename_space_file lower d now i name = Inr d'"
  shows "tree_ok d'"
  using assms by (auto simp: rename_space_file_def replace_space_file_def tree_ok_update
      split: option.splits if_splits)

lemma tree_ok_create_version:
  assumes "tree_ok d" and "create_file_version d v now i k n m u = Inr (x, d')"
  shows "tree_ok d'"
  using assms tree_ok_cong [of "d\<lparr>space_file_versions := vs\<rparr>" d for vs]
  by (auto simp: create_file_version_def Let_def tree_ok_update split: if_splits)

text \<open>Ancestors, by their ids.\<close>

definition parent_ids :: "db \<Rightarrow> (string \<times> string) set" where
  "parent_ids d = {(sf_id f, sf_parent_id f) | f. f \<in> set (space_files d) \<and> sf_parent_id f \<noteq> []}"

lemma ancestors_parent_ids:
  assumes "tree_ok d" and "closure (parent_rows d) (rows_with_id d i) = Some r"
    and "(i, j) \<in> (parent_ids d)\<^sup>*" and "i \<in> sf_id ` set (space_files d)"
  shows "j \<in> sf_id ` set r"
proof -
  obtain rank where rank: "forest_by rank (space_files d)" using assms(1) by (auto simp: tree_ok_def)
  have "\<exists>y. sf_id y = j \<and> y \<in> set (space_files d) \<and> y \<in> (next_rel (parent_rows d))\<^sup>* `` set (rows_with_id d i)"
    using assms(3)
  proof (induction rule: rtrancl_induct)
    case base
    then show ?case using assms(4) by (auto simp: rows_with_id_def)
  next
    case (step j k)
    then obtain y where y: "sf_id y = j" "y \<in> set (space_files d)"
      "y \<in> (next_rel (parent_rows d))\<^sup>* `` set (rows_with_id d i)" by blast
    obtain x where x: "x \<in> set (space_files d)" "sf_id x = j" "sf_parent_id x = k" "k \<noteq> []"
      using step by (auto simp: parent_ids_def)
    have "x = y" using rank x y unfolding forest_by_def by (metis distinct_map inj_on_eq_iff)
    obtain z where z: "z \<in> set (space_files d)" "sf_id z = k"
      using rank x unfolding forest_by_def by (metis imageE)
    then have "(y, z) \<in> next_rel (parent_rows d)" using x \<open>x = y\<close> by (simp add: parent_rows_def)
    then show ?case using y z by (auto intro: rtrancl_into_rtrancl)
  qed
  then show ?thesis using closure_set [OF assms(2)] by auto
qed

lemma folder_ancestors:
  assumes "tree_ok d" and "(i, j) \<in> (parent_ids d)\<^sup>*"
    and "f \<in> set (space_files d)" "sf_id f = i" "sf_is_folder f"
    and "g \<in> set (space_files d)" "sf_id g = j"
  shows "sf_is_folder g"
proof -
  obtain rank where rank: "forest_by rank (space_files d)" using assms(1) by (auto simp: tree_ok_def)
  have same: "x = y" if "x \<in> set (space_files d)" "y \<in> set (space_files d)" "sf_id x = sf_id y" for x y
    using rank that unfolding forest_by_def by (metis distinct_map inj_on_eq_iff)
  show ?thesis
    using assms(2,6,7)
  proof (induction arbitrary: g rule: rtrancl_induct)
    case base
    then show ?case using same [of g f] assms(3-5) by simp
  next
    case (step j k)
    then obtain x where x: "x \<in> set (space_files d)" "sf_id x = j" "sf_parent_id x = k"
      by (auto simp: parent_ids_def)
    then have "sf_is_folder x" using step.IH by blast
    then show ?case using rank x step.prems unfolding forest_by_def by metis
  qed
qed

lemma tree_ok_reparent:
  assumes "tree_ok d" and f: "f \<in> set (space_files d)" "sf_id f = i"
    and p: "p = [] \<or> (\<exists>g \<in> set (space_files d). sf_id g = p \<and> sf_is_folder g)"
    and not_below: "p \<noteq> [] \<Longrightarrow> (p, i) \<notin> (parent_ids d)\<^sup>*"
  shows "tree_ok (update_space_file i (\<lambda>f. f\<lparr>sf_parent_id := p, sf_updated_at := now\<rparr>) d)"
proof -
  obtain rank where rank: "forest_by rank (space_files d)" using assms(1) by (auto simp: tree_ok_def)
  define below where "below = {j. (j, i) \<in> (parent_ids d)\<^sup>*}"
  define rank' where "rank' j = rank j + (if j \<in> below then Suc (rank p) else 0)" for j
  define g where "g = (\<lambda>f :: space_file. if sf_id f = i then f\<lparr>sf_parent_id := p, sf_updated_at := now\<rparr> else f)"
  have ids: "sf_id (g x) = sf_id x" "sf_is_folder (g x) = sf_is_folder x"
    and parents: "sf_parent_id (g x) = (if sf_id x = i then p else sf_parent_id x)" for x
    by (simp_all add: g_def)
  have up: "sf_id x \<in> below" if "x \<in> set (space_files d)" "sf_parent_id x \<noteq> []" "sf_parent_id x \<in> below" for x
    using that by (auto simp: below_def parent_ids_def intro: converse_rtrancl_into_rtrancl)
  have down: "sf_parent_id x \<in> below" if x: "x \<in> set (space_files d)" "sf_id x \<noteq> i" "sf_id x \<in> below" for x
  proof -
    obtain k where "(sf_id x, k) \<in> parent_ids d" "(k, i) \<in> (parent_ids d)\<^sup>*"
      using x(2,3) unfolding below_def mem_Collect_eq by (meson converse_rtranclE)
    moreover from this obtain y where "y \<in> set (space_files d)" "sf_id y = sf_id x" "sf_parent_id y = k"
      by (auto simp: parent_ids_def)
    moreover have "y = x" using rank x calculation unfolding forest_by_def by (metis distinct_map inj_on_eq_iff)
    ultimately show ?thesis by (simp add: below_def)
  qed
  have "forest_by rank' (map g (space_files d))"
  proof (rule forestI)
    show "distinct (map sf_id (map g (space_files d)))"
      using forestD(1) [OF rank] by (simp add: o_def ids)
    fix y assume "y \<in> set (map g (space_files d))"
    then obtain x where x: "x \<in> set (space_files d)" "y = g x" by auto
    show "sf_id y \<noteq> []" unfolding x(2) ids by (rule forestD(2) [OF rank x(1)])
    { assume parent: "sf_parent_id y \<noteq> []"
      have "sf_parent_id y \<in> sf_id ` set (space_files d)"
      proof (cases "sf_id x = i")
        case True
        then show ?thesis using p parent x(2) parents by force
      next
        case False
        then show ?thesis using forestD(3) [OF rank x(1)] parent x(2) parents by simp
      qed
      then show "sf_parent_id y \<in> sf_id ` set (map g (space_files d))"
        by (simp add: image_image ids)
      show "rank' (sf_parent_id y) < rank' (sf_id y)"
      proof (cases "sf_id x = i")
        case True
        then show ?thesis using x parent not_below by (simp add: rank'_def below_def ids parents)
      next
        case False
        then have "sf_parent_id x \<noteq> []" using x parent parents by simp
        then show ?thesis
          using forestD(4) [OF rank x(1)] up [OF x(1)] down [OF x(1) False] x(2) False
          by (auto simp: rank'_def ids parents)
      qed }
    fix z assume "z \<in> set (map g (space_files d))" "sf_is_folder y" "sf_id z = sf_parent_id y"
    then obtain w where w: "w \<in> set (space_files d)" "sf_id w = sf_parent_id y" "sf_is_folder z = sf_is_folder w" "sf_is_folder x"
      using x ids by (auto simp: ids)
    show "sf_is_folder z"
    proof (cases "sf_id x = i")
      case True
      then have "sf_id w = p" using w(2) x(2) parents by simp
      then obtain q where "q \<in> set (space_files d)" "sf_id q = sf_id w" "sf_is_folder q"
        using p forestD(2) [OF rank w(1)] by blast
      then show ?thesis using forest_unique [OF rank _ w(1)] w(3) by blast
    next
      case False
      then show ?thesis using forestD(5) [OF rank x(1) w(1) w(4)] w(2,3) x(2) parents by simp
    qed
  qed
  then show ?thesis by (auto simp: tree_ok_def update_space_file_def g_def)
qed


lemma rows_with_id_first:
  "first_row (rows_with_id d i) = Some f \<Longrightarrow> f \<in> set (space_files d) \<and> sf_id f = i"
  by (auto simp: first_row_def rows_with_id_def filter_eq_Cons_iff split: list.splits)

lemma live_file_row:
  "live_file d s i = Some f \<Longrightarrow> f \<in> set (space_files d) \<and> sf_id f = i"
  using rows_with_id_first by (auto simp: live_file_def find_space_file_def split: option.splits if_splits)

lemma valid_parent_row:
  "is_valid_parent d s p \<Longrightarrow> p \<noteq> [] \<Longrightarrow> \<exists>g \<in> set (space_files d). sf_id g = p \<and> sf_is_folder g"
  using live_file_row by (fastforce simp: is_valid_parent_def split: option.splits)

lemma path_ends: "tree_ok d \<Longrightarrow> \<exists>path. get_space_file_path d i = Some path"
  using parent_rows_end [of d i] by (auto simp: get_space_file_path_def)

lemma check_move_ends: "tree_ok d \<Longrightarrow> \<exists>r. check_move d s f p = Some r"
  using path_ends [of d p] by (auto simp: check_move_def)

lemma tree_ok_move:
  assumes "tree_ok d" and f: "f \<in> set (space_files d)" "sf_id f = sf_id file" "sf_is_folder f = sf_is_folder file"
    and "check_move d s file p = Some (Inr ())" and "move_space_file lower d now (sf_id file) p = Inr d'"
  shows "tree_ok d'"
proof -
  obtain rank where rank: "forest_by rank (space_files d)" using assms(1) by (auto simp: tree_ok_def)
  have p: "p = [] \<or> (\<exists>g \<in> set (space_files d). sf_id g = p \<and> sf_is_folder g)"
    using assms(5) valid_parent_row by (auto simp: check_move_def split: if_splits)
  have "(p, sf_id file) \<notin> (parent_ids d)\<^sup>*" if "p \<noteq> []"
  proof
    assume below: "(p, sf_id file) \<in> (parent_ids d)\<^sup>*"
    obtain g where g: "g \<in> set (space_files d)" "sf_id g = p" "sf_is_folder g" using p \<open>p \<noteq> []\<close> by blast
    then have folder: "sf_is_folder file" using folder_ancestors [OF assms(1) below] f by metis
    obtain r where r: "closure (parent_rows d) (rows_with_id d p) = Some r"
      using parent_rows_end [OF assms(1)] by blast
    have "sf_id file \<in> sf_id ` set r"
      using ancestors_parent_ids [OF assms(1) r below] g by blast
    then show False
      using assms(5) \<open>p \<noteq> []\<close> folder r
      by (auto simp: check_move_def get_space_file_path_def image_image split: if_splits)
  qed
  then have "tree_ok (update_space_file (sf_id file) (\<lambda>f. f\<lparr>sf_parent_id := p, sf_updated_at := now\<rparr>) d)"
    using tree_ok_reparent [OF assms(1) f(1,2) p] by blast
  then show ?thesis
    using assms(1,6) by (auto simp: move_space_file_def replace_space_file_def split: option.splits if_splits)
qed

lemma tree_ok_subset:
  assumes "tree_ok d" and "space_files d' = filter keep (space_files d)"
    and "\<And>f p. f \<in> set (space_files d) \<Longrightarrow> p \<in> set (space_files d) \<Longrightarrow> keep f \<Longrightarrow> sf_parent_id f = sf_id p \<Longrightarrow> keep p"
  shows "tree_ok d'"
proof -
  obtain rank where rank: "forest_by rank (space_files d)" using assms(1) by (auto simp: tree_ok_def)
  have "forest_by rank (space_files d')"
  proof (rule forestI)
    show "distinct (map sf_id (space_files d'))"
      using forestD(1) [OF rank] by (simp add: assms(2) distinct_map_filter)
    fix f assume f: "f \<in> set (space_files d')"
    then have f': "f \<in> set (space_files d)" "keep f" by (auto simp: assms(2))
    show "sf_id f \<noteq> []" by (rule forestD(2) [OF rank f'(1)])
    { assume "sf_parent_id f \<noteq> []"
      then show "sf_parent_id f \<in> sf_id ` set (space_files d')" "rank (sf_parent_id f) < rank (sf_id f)"
        using forestD(3,4) [OF rank f'(1)] assms(3) [OF f'(1) _ f'(2)] by (auto simp: assms(2)) }
    fix p assume "p \<in> set (space_files d')" "sf_is_folder f" "sf_id p = sf_parent_id f"
    then show "sf_is_folder p" using forestD(5) [OF rank f'(1)] by (simp add: assms(2))
  qed
  then show ?thesis by (auto simp: tree_ok_def)
qed

lemma tree_ok_hard_delete:
  assumes "tree_ok d" and "hard_delete_space_file d i = Some (ids, d')"
  shows "tree_ok d'"
proof -
  obtain rank where rank: "forest_by rank (space_files d)" using assms(1) by (auto simp: tree_ok_def)
  obtain rows where rows: "closure (child_rows d (\<lambda>c. True)) (rows_with_id d i) = Some rows"
    and d': "space_files d' = filter (\<lambda>f. sf_id f \<notin> sf_id ` set rows) (space_files d)"
    using assms(2) by (auto simp: hard_delete_space_file_def Let_def bind_eq_Some_conv)
  show ?thesis
  proof (rule tree_ok_subset [OF assms(1) d'])
    fix f p
    assume f: "f \<in> set (space_files d)" "sf_id f \<notin> sf_id ` set rows" and p: "p \<in> set (space_files d)" "sf_parent_id f = sf_id p"
    show "sf_id p \<notin> sf_id ` set rows"
    proof
      assume "sf_id p \<in> sf_id ` set rows"
      then obtain q where q: "q \<in> set rows" "sf_id q = sf_id p" by auto
      then have "f \<in> set (child_rows d (\<lambda>c. True) q)" using f p by (simp add: child_rows_def)
      then have "f \<in> set rows"
        using q(1) unfolding closure_set [OF rows] by (auto intro: rtrancl_into_rtrancl)
      then show False using f(2) by blast
    qed
  qed
qed

lemma hard_delete_ends: "tree_ok d \<Longrightarrow> \<exists>r. hard_delete_space_file d i = Some r"
  using child_rows_end [of d "rows_with_id d i" "\<lambda>c. True"] filter_is_subset
  by (auto simp: hard_delete_space_file_def Let_def rows_with_id_def)

lemma permission_ends: "tree_ok d \<Longrightarrow> \<exists>p. get_effective_file_permission d i u = Some p"
  using parent_rows_end [of d i] by (auto simp: get_effective_file_permission_def split: option.splits)

lemma access_level_ends: "tree_ok d \<Longrightarrow> \<exists>l. get_access_level d s i u = Some l"
  using permission_ends [of d i u] by (auto simp: get_access_level_def Let_def)

lemma require_permission_ends: "tree_ok d \<Longrightarrow> \<exists>b. require_permission_sync d s i u level = Some b"
  using access_level_ends [of d s i u] by (auto simp: require_permission_sync_def)

lemma map_option_list_ends: "(\<And>x. x \<in> set xs \<Longrightarrow> \<exists>y. f x = Some y) \<Longrightarrow> \<exists>ys. map_option_list f xs = Some ys"
  by (induction xs) force+

lemma list_space_files_ends:
  assumes "tree_ok d"
  shows "\<exists>fs. list_space_files pg d s p = Some fs"
proof -
  have ends: "\<exists>n. folder_size d f = Some n" for f
    using child_rows_end [OF assms, of "child_rows d not_deleted f" not_deleted]
    by (auto simp: folder_size_def child_rows_def)
  have "\<exists>y. (if sf_is_folder f then do { n \<leftarrow> folder_size d f; Some (f\<lparr>sf_file_size := n\<rparr>) } else Some f) = Some y" for f
    using ends [of f] by auto
  then show ?thesis
    unfolding list_space_files_def by (intro map_option_list_ends)
qed

lemma list_recursive_ends:
  assumes "tree_ok d"
  shows "\<exists>es. list_space_files_recursive pg d s i = Some es"
  using path_children_end [OF assms, of "map (\<lambda>c. (c, sf_name c))
      (filter (\<lambda>f. sf_parent_id f = i \<and> sf_space_id f = s \<and> \<not> sf_is_deleted f \<and> of_files_tool f) (space_files d))"]
  by (force simp: list_space_files_recursive_def)


section \<open>Requests\<close>

datatype space_request =
    List_files string
  | Create_folder "json option"
  | Upload_file string string string string
  | Upload_init "json option"
  | Upload_chunk string string string string
  | Upload_complete string
  | Version_init string "json option"
  | Version_complete string string
  | Get_file string
  | Update_file string "json option"
  | Delete_file string
  | Get_storage
  | Get_permissions string
  | Put_permission string "json option"
  | Delete_permission string string
  | List_versions string
  | Upload_version string string
  | Revert_version string string

fun serve :: "file_env \<Rightarrow> string \<Rightarrow> string \<Rightarrow> space_request \<Rightarrow> store \<Rightarrow> reply answer" where
  "serve env token s (List_files p) = list_files env token s p"
| "serve env token s (Create_folder b) = create_folder env token s b"
| "serve env token s (Upload_file p n t b) = upload_file env token s p n t b"
| "serve env token s (Upload_init b) = upload_init env token s b"
| "serve env token s (Upload_chunk u i h b) = upload_chunk env token u i h b"
| "serve env token s (Upload_complete u) = upload_complete env token s u"
| "serve env token s (Version_init i b) = version_init env token s i b"
| "serve env token s (Version_complete i u) = version_complete env token s i u"
| "serve env token s (Get_file i) = get_file env token s i"
| "serve env token s (Update_file i b) = update_file env token s i b"
| "serve env token s (Delete_file i) = delete_file env token s i"
| "serve env token s Get_storage = get_storage env token s"
| "serve env token s (Get_permissions i) = get_permissions env token s i"
| "serve env token s (Put_permission i b) = put_permission env token s i b"
| "serve env token s (Delete_permission i u) = delete_permission env token s i u"
| "serve env token s (List_versions i) = list_versions env token s i"
| "serve env token s (Upload_version i b) = upload_version env token s i b"
| "serve env token s (Revert_version i v) = revert_version env token s i v"

text \<open>An answer that leaves a forest behind, and an answer that does so if there is one.\<close>

definition good :: "'r answer \<Rightarrow> bool" where
  "good a \<longleftrightarrow> (\<exists>r w. a = Some (r, w) \<and> tree_ok (fst w))"

definition keeps :: "'r answer \<Rightarrow> bool" where
  "keeps a \<longleftrightarrow> (\<forall>r w. a = Some (r, w) \<longrightarrow> tree_ok (fst w))"

named_theorems good_rules \<open>answers that leave a forest behind\<close>

lemma good_keeps: "good a \<Longrightarrow> keeps a"
  by (auto simp: good_def keeps_def)

lemma good_answer [simp]: "good (Some (r, w)) \<longleftrightarrow> tree_ok (fst w)"
  by (simp add: good_def)

lemma keeps_answer [simp]: "keeps (Some (r, w)) \<longleftrightarrow> tree_ok (fst w)" "keeps None"
  by (cases w; auto simp: keeps_def)+

lemma good_session [good_rules]:
  "tree_ok (fst w) \<Longrightarrow> (\<And>u. good (rest u w)) \<Longrightarrow> good (with_session env token rest w)"
  by (auto simp: with_session_def split: option.splits)

lemma good_access [good_rules]: "tree_ok (fst w) \<Longrightarrow> good (rest w) \<Longrightarrow> good (with_access s u rest w)"
  by (auto simp: with_access_def)

lemma good_permission [good_rules]:
  "tree_ok (fst w) \<Longrightarrow> good (rest w) \<Longrightarrow> good (with_permission s i u level rest w)"
  using require_permission_ends [of "fst w" s i u level] by (auto simp: with_permission_def)

lemma keeps_session: "tree_ok (fst w) \<Longrightarrow> (\<And>u. keeps (rest u w)) \<Longrightarrow> keeps (with_session env token rest w)"
  by (auto simp: with_session_def split: option.splits)

lemma keeps_access: "tree_ok (fst w) \<Longrightarrow> keeps (rest w) \<Longrightarrow> keeps (with_access s u rest w)"
  by (auto simp: with_access_def)

lemma keeps_permission: "tree_ok (fst w) \<Longrightarrow> keeps (rest w) \<Longrightarrow> keeps (with_permission s i u level rest w)"
  using require_permission_ends [of "fst w" s i u level] by (auto simp: with_permission_def)

text \<open>One rule per construct of the handlers, so that a proof follows the code.\<close>

lemma good_if [good_rules]: "(P \<Longrightarrow> good a) \<Longrightarrow> (\<not> P \<Longrightarrow> good b) \<Longrightarrow> good (if P then a else b)"
  by simp

lemma good_option [good_rules]:
  "(x = None \<Longrightarrow> good a) \<Longrightarrow> (\<And>y. x = Some y \<Longrightarrow> good (b y)) \<Longrightarrow> good (case x of None \<Rightarrow> a | Some y \<Rightarrow> b y)"
  by (cases x) auto

lemma good_sum [good_rules]:
  "(\<And>y. x = Inl y \<Longrightarrow> good (a y)) \<Longrightarrow> (\<And>y. x = Inr y \<Longrightarrow> good (b y)) \<Longrightarrow> good (case x of Inl y \<Rightarrow> a y | Inr y \<Rightarrow> b y)"
  by (cases x) auto

lemma good_prod [good_rules]: "(\<And>a b. x = (a, b) \<Longrightarrow> good (f a b)) \<Longrightarrow> good (case x of (a, b) \<Rightarrow> f a b)"
  by (cases x) auto

lemma good_bool [good_rules]: "(x \<Longrightarrow> good a) \<Longrightarrow> (\<not> x \<Longrightarrow> good b) \<Longrightarrow> good (case x of True \<Rightarrow> a | False \<Rightarrow> b)"
  by (cases x) auto

lemma good_db_error [good_rules]:
  "good a \<Longrightarrow> good b \<Longrightarrow> (\<And>m. good (c m)) \<Longrightarrow>
     good (case x of ForeignKeyViolation \<Rightarrow> a | UniqueViolation \<Rightarrow> b | Runtime m \<Rightarrow> c m)"
  by (cases x) auto

lemma good_bind [good_rules]:
  "\<exists>y. x = Some y \<Longrightarrow> (\<And>y. x = Some y \<Longrightarrow> good (f y)) \<Longrightarrow> good (x \<bind> f)"
  by auto

lemma good_return [good_rules]: "tree_ok (fst w) \<Longrightarrow> good (Some (r, w))"
  by simp

lemmas query_ends = list_space_files_ends path_ends access_level_ends require_permission_ends
  check_move_ends hard_delete_ends permission_ends

text \<open>Uploads do not touch the rows.\<close>

lemma space_files_uploads [simp]:
  "space_files (fst (remove_session u w)) = space_files (fst w)"
  "space_files (fst (snd (assemble io u k w))) = space_files (fst w)"
  "space_files (fst (snd (store_chunk_err sha io u i b e w))) = space_files (fst w)"
  "space_files (fst (snd (create_session_upload io u now user t c z m w))) = space_files (fst w)"
  by (auto simp: remove_session_def delete_upload_session_def assemble_def store_chunk_err_def
      record_upload_chunk_def create_session_upload_def cleanup_stale_def reap_stale_upload_sessions_def
      create_upload_session_def Let_def split: prod.splits option.splits sum.splits if_splits)

lemma tree_ok_uploads [simp]:
  "tree_ok (fst (remove_session u w)) = tree_ok (fst w)"
  "tree_ok (fst (snd (assemble io u k w))) = tree_ok (fst w)"
  "tree_ok (fst (snd (store_chunk_err sha io u i b e w))) = tree_ok (fst w)"
  "tree_ok (fst (snd (create_session_upload io u now user t c z m w))) = tree_ok (fst w)"
  by (rule tree_ok_cong; simp)+

lemma good_start_upload [good_rules]:
  assumes "tree_ok (fst w)"
  shows "good (start_upload env u n m w)"
proof -
  obtain t c z where n: "n = (t, c, z)" by (cases n)
  obtain x w1 where w1: "create_session_upload (fe_io env) (fe_upload_id env) (fe_now env) u t c z m w = (x, w1)"
    by (cases "create_session_upload (fe_io env) (fe_upload_id env) (fe_now env) u t c z m w")
  then have "tree_ok (fst w1)"
    using tree_ok_uploads(4) [of "fe_io env" "fe_upload_id env" "fe_now env" u t c z m w] assms by simp
  then show ?thesis by (simp add: start_upload_def n w1)
qed

lemma good_refuse [good_rules]: "tree_ok (fst w) \<Longrightarrow> good (refuse_upload u r w)"
  by (simp add: refuse_upload_def)

lemma good_assembled:
  assumes "tree_ok (fst w)" and "\<And>k n w'. tree_ok (fst w') \<Longrightarrow> good (rest k n w')"
  shows "good (with_assembled env s u rest w)"
proof -
  have "tree_ok (fst w1)" if "assemble (fe_io env) u k w = (n, w1)" for k n w1
    using tree_ok_uploads(2) [of "fe_io env" u k w] that assms(1) by simp
  then show ?thesis
    using assms by (auto simp: with_assembled_def split: option.splits prod.splits)
qed
section \<open>Every handler\<close>

lemma good_list_files: "tree_ok (fst w) \<Longrightarrow> good (list_files env t s p w)"
  unfolding list_files_def by (intro good_rules) (auto intro!: query_ends)

lemma folder_parent:
  assumes "tree_ok d" and "is_valid_parent d s p" and "g \<in> set (space_files d)" and "sf_id g = p"
  shows "sf_is_folder g"
proof -
  obtain rank where rank: "forest_by rank (space_files d)" using assms(1) by (auto simp: tree_ok_def)
  then have "p \<noteq> []" using forestD(2) [OF rank assms(3)] assms(4) by simp
  then show ?thesis
    using valid_parent_row [OF assms(2)] forest_unique [OF rank assms(3)] assms(4) by blast
qed

lemma good_create_folder:
  assumes "tree_ok d" and "fe_new_id env \<noteq> []"
  shows "good (create_folder env t s b (d, fs))"
  unfolding create_folder_def Let_def
  by (intro good_rules) (use assms folder_parent in \<open>auto dest: tree_ok_create_folder [OF assms(1) _ assms(2)]\<close>)

lemma good_get_file: "tree_ok (fst w) \<Longrightarrow> good (get_file env t s i w)"
  unfolding get_file_def by (intro good_rules) (auto intro!: query_ends)

lemma good_upload_file:
  assumes "tree_ok d" and "fe_new_id env \<noteq> []"
  shows "good (upload_file env t s p n ct b (d, fs))"
  unfolding upload_file_def Let_def
  by (intro good_rules) (use assms in \<open>auto dest: tree_ok_create_file [OF assms(1) _ assms(2)]\<close>)

lemma good_upload_init: "tree_ok d \<Longrightarrow> good (upload_init env t s b (d, fs))"
  unfolding upload_init_def Let_def by (intro good_rules) auto

lemma good_upload_chunk:
  assumes "tree_ok d"
  shows "good (upload_chunk env t u i h b (d, fs))"
  unfolding upload_chunk_def Let_def
proof (intro good_rules)
  fix k w1
  assume "store_chunk_err (fe_sha256 env) (fe_io env) u (case stoi i32_min i32_max i of Inl _ \<Rightarrow> - 1 | Inr i \<Rightarrow> i) b h (d, fs) = (k, w1)"
  then show "tree_ok (fst w1)"
    using tree_ok_uploads(3) [of "fe_sha256 env" "fe_io env" u "case stoi i32_min i32_max i of Inl _ \<Rightarrow> - 1 | Inr i \<Rightarrow> i" b h "(d, fs)"] assms
    by simp
qed (use assms in auto)


lemma tree_ok_set_permission: "set_file_permission d i u p g = Inr d' \<Longrightarrow> tree_ok d' = tree_ok d"
  by (rule tree_ok_cong) (auto simp: set_file_permission_def split: if_splits)

lemma some_bind: "\<exists>x. m = Some x \<Longrightarrow> (\<And>x. \<exists>y. f x = Some y) \<Longrightarrow> \<exists>y. m \<bind> f = Some y"
  by auto

lemma some_option_case:
  "\<exists>y. a = Some y \<Longrightarrow> (\<And>x. \<exists>y. f x = Some y) \<Longrightarrow> \<exists>y. (case m of None \<Rightarrow> a | Some x \<Rightarrow> f x) = Some y"
  by (cases m) auto

lemma some_sum_case:
  "(\<And>x. \<exists>y. f x = Some y) \<Longrightarrow> (\<And>x. \<exists>y. g x = Some y)
     \<Longrightarrow> \<exists>y. (case m of Inl x \<Rightarrow> f x | Inr x \<Rightarrow> g x) = Some y"
  by (cases m) auto

lemma update_rename_kept:
  assumes "tree_ok d" and live: "live_file d s i = Some row" and rename: "update_rename env s row j d = Inr d1"
  shows "tree_ok d1 \<and> (\<exists>f \<in> set (space_files d1). sf_id f = sf_id row \<and> sf_is_folder f = sf_is_folder row)"
proof (cases "d1 = d")
  case False
  then obtain name where name: "rename_space_file (fe_lower env) d (fe_now env) (sf_id row) name = Inr d1"
    using rename by (auto simp: update_rename_def split: option.splits if_splits sum.splits db_error.splits)
  then have "d1 = update_space_file (sf_id row) (\<lambda>f. f\<lparr>sf_name := name, sf_updated_at := fe_now env\<rparr>) d"
    using False by (auto simp: rename_space_file_def replace_space_file_def split: option.splits if_splits)
  then have "tree_ok d1" "row\<lparr>sf_name := name, sf_updated_at := fe_now env\<rparr> \<in> set (space_files d1)"
    using tree_ok_rename [OF assms(1) name] live_file_row [OF live] by (force simp: update_space_file_def)+
  then show ?thesis by (intro conjI bexI) simp_all
qed (use assms live_file_row [OF live] in auto)

lemma update_move_kept:
  assumes d1: "tree_ok d1" and row: "\<exists>f \<in> set (space_files d1). sf_id f = sf_id row \<and> sf_is_folder f = sf_is_folder row"
    and moved: "update_move env s row j d1 = Some (Inr d2)"
  shows "tree_ok d2 \<and> sf_id row \<in> sf_id ` set (space_files d2)"
proof (cases "d2 = d1")
  case False
  then obtain p where p: "check_move d1 s row p = Some (Inr ())"
    "move_space_file (fe_lower env) d1 (fe_now env) (sf_id row) p = Inr d2"
    using moved by (auto simp: update_move_def bind_eq_Some_conv split: option.splits if_splits sum.splits db_error.splits)
      (metis old.sum.exhaust old.unit.exhaust)+
  then have "space_files d2 = map (\<lambda>f. if sf_id f = sf_id row then f\<lparr>sf_parent_id := p, sf_updated_at := fe_now env\<rparr> else f) (space_files d1)"
    using False by (auto simp: move_space_file_def replace_space_file_def update_space_file_def split: option.splits if_splits)
  then have "map sf_id (space_files d2) = map sf_id (space_files d1)" by simp
  then have "sf_id ` set (space_files d2) = sf_id ` set (space_files d1)" by (metis set_map)
  then show ?thesis using tree_ok_move [OF d1 _ _ _ p] row by (metis imageI)
qed (use d1 row in \<open>metis imageI\<close>)

lemma update_move_ends:
  assumes "tree_ok d"
  shows "\<exists>y. update_move env s row j d = Some y"
  unfolding update_move_def
  by (intro some_option_case some_bind check_move_ends [OF assms] some_sum_case) (auto split: option.splits sum.splits db_error.splits)

lemma find_space_file_ends: "i \<in> sf_id ` set (space_files d) \<Longrightarrow> \<exists>y. find_space_file d i = Some y"
  by (auto simp: find_space_file_def rows_with_id_def filter_empty_conv first_row_def split: list.splits)

lemma good_update_file:
  assumes "tree_ok d"
  shows "good (update_file env t s i b (d, fs))"
proof -
  have "tree_ok d1 \<and> (\<exists>y. update_move env s row j d1 = Some y)
      \<and> (\<forall>d2. update_move env s row j d1 = Some (Inr d2) \<longrightarrow> tree_ok d2 \<and> (\<exists>y. find_space_file d2 i = Some y))"
    if "live_file d s i = Some row" "update_rename env s row j d = Inr d1" for row j d1
    using update_rename_kept [OF assms that] update_move_ends update_move_kept live_file_row [OF that(1)]
      find_space_file_ends by metis
  then show ?thesis
    unfolding update_file_def by (intro good_rules) (use assms in auto)
qed

lemma good_delete_file:
  assumes "tree_ok d"
  shows "good (delete_file env t s i (d, fs))"
  unfolding delete_file_def
  by (intro good_rules) (use assms hard_delete_ends tree_ok_hard_delete in auto)

lemma good_put_permission:
  assumes "tree_ok d"
  shows "good (put_permission env t s i b (d, fs))"
  unfolding put_permission_def Let_def
  by (intro good_rules) (use assms permission_ends [OF assms] tree_ok_set_permission in \<open>auto split: option.splits\<close>)

lemma good_reads:
  assumes "tree_ok d"
  shows "good (get_storage env t s (d, fs))" "good (get_permissions env t s i (d, fs))"
    "good (list_versions env t s i (d, fs))" "good (delete_permission env t s i x (d, fs))"
  unfolding get_storage_def get_permissions_def list_versions_def delete_permission_def
  using tree_ok_cong [of "remove_file_permission d i x" d]
  by (intro good_rules; auto simp: assms remove_file_permission_def intro!: query_ends)+

lemma good_version_init: "tree_ok d \<Longrightarrow> good (version_init env t s i b (d, fs))"
  unfolding version_init_def Let_def by (intro good_rules) auto

lemma good_upload_version:
  assumes "tree_ok d"
  shows "good (upload_version env t s i b (d, fs))"
  unfolding upload_version_def Let_def
  by (intro good_rules) (use assms tree_ok_create_version [OF assms] in auto)

lemma good_version_complete:
  assumes "tree_ok d"
  shows "good (version_complete env t s i u (d, fs))"
  unfolding version_complete_def
  by (intro good_rules good_assembled)
    (use assms in \<open>auto intro!: query_ends dest: tree_ok_create_version\<close>)

lemma good_finish_upload:
  assumes "tree_ok (fst w)" and "fe_new_id env \<noteq> []"
  shows "good (finish_upload env uid up s u p w)"
  unfolding finish_upload_def
  by (intro good_rules good_assembled)
    (use assms in \<open>auto intro!: query_ends dest: tree_ok_create_file [OF _ _ assms(2)]\<close>)

lemma keeps_upload_complete:
  assumes "tree_ok d" and "fe_new_id env \<noteq> []"
  shows "keeps (upload_complete env t s u (d, fs))"
proof -
  have "keeps (x \<bind> (\<lambda>p. finish_upload env uid up s u p w))" if "tree_ok (fst w)" for x uid up w
    using good_keeps [OF good_finish_upload [OF that assms(2)]] by (cases x) simp_all
  then show ?thesis
    using assms(1) unfolding upload_complete_def
    by (intro keeps_session) (auto simp: refuse_upload_def split: option.splits)
qed

lemma keeps_revert_version:
  assumes "tree_ok d"
  shows "keeps (revert_version env t s i v (d, fs))"
  unfolding revert_version_def
  by (intro keeps_session keeps_access keeps_permission)
    (use assms in \<open>auto split: option.splits sum.splits dest: tree_ok_create_version\<close>)

section \<open>Reachable stores\<close>

text \<open>
  Requests in any order, each as one step, interleaved with anything that leaves the rows of the
  files alone.
\<close>

inductive served :: "store \<Rightarrow> store \<Rightarrow> bool" for w0 where
  start: "served w0 w0"
| request: "served w0 w \<Longrightarrow> fe_new_id env \<noteq> [] \<Longrightarrow> serve env token s req w = Some (r, w') \<Longrightarrow> served w0 w'"
| elsewhere: "served w0 w \<Longrightarrow> space_files d = space_files (fst w) \<Longrightarrow> served w0 (d, fs)"

lemma keeps_serve:
  assumes "tree_ok (fst w)" and "fe_new_id env \<noteq> []"
  shows "keeps (serve env token s req w)"
proof -
  obtain d fs where w: "w = (d, fs)" by (cases w)
  have "tree_ok d" using assms(1) w by simp
  note rules = good_list_files good_create_folder [OF this assms(2)] good_upload_file [OF this assms(2)]
    good_upload_init [OF this] good_upload_chunk [OF this] good_version_init [OF this]
    good_version_complete [OF this] good_get_file good_update_file [OF this] good_delete_file [OF this]
    good_reads [OF this] good_put_permission [OF this] good_upload_version [OF this]
  show ?thesis
    using assms(1) keeps_upload_complete [OF \<open>tree_ok d\<close> assms(2)] keeps_revert_version [OF \<open>tree_ok d\<close>]
    by (cases req) (simp_all add: w rules good_keeps)
qed

definition catches_all :: "space_request \<Rightarrow> bool" where
  "catches_all req = (case req of Upload_complete u \<Rightarrow> False | Revert_version i v \<Rightarrow> False | _ \<Rightarrow> True)"

lemma good_serve:
  assumes "tree_ok (fst w)" and "fe_new_id env \<noteq> []" and "catches_all req"
  shows "good (serve env token s req w)"
proof -
  obtain d fs where w: "w = (d, fs)" by (cases w)
  have "tree_ok d" using assms(1) w by simp
  note rules = good_list_files good_create_folder [OF this assms(2)] good_upload_file [OF this assms(2)]
    good_upload_init [OF this] good_upload_chunk [OF this] good_version_init [OF this]
    good_version_complete [OF this] good_get_file good_update_file [OF this] good_delete_file [OF this]
    good_reads [OF this] good_put_permission [OF this] good_upload_version [OF this]
  show ?thesis
    using assms(1,3) by (cases req) (simp_all add: w rules catches_all_def)
qed



section \<open>An example\<close>

definition example_file_env :: file_env where
  "example_file_env = \<lparr>fe_now = 5, fe_new_id = ''f3'', fe_version_id = ''v9'', fe_upload_id = ''up1'',
     fe_random_hex = Some ''ab12'', fe_io = Io_ok, fe_lower = (\<lambda>s. s), fe_sha256 = (\<lambda>s. s),
     fe_pg = \<lparr>pg_left200 = (\<lambda>s. s), pg_encodable = (\<lambda>s. True), pg_collate = length, pg_uuid_key = length,
              pg_ilike = (=), pg_lower = map lower_char, pg_is_uuid = (\<lambda>s. True)\<rparr>,
     fe_what = (\<lambda>e. ''error''), fe_time_text = (\<lambda>t. ''time''), fe_max_file_size = 1000\<rparr>"

definition example_row :: "string \<Rightarrow> string \<Rightarrow> bool \<Rightarrow> space_file" where
  "example_row i p folder = \<lparr>sf_id = i, sf_space_id = ''s1'', sf_parent_id = p, sf_name = ''name-'' @ i,
     sf_is_folder = folder, sf_disk_file_id = (if folder then '''' else ''aa'' @ i), sf_file_size = 0,
     sf_mime_type = '''', sf_created_by = ''u1'', sf_created_at = 0, sf_updated_at = 0,
     sf_is_deleted = False, sf_tool_source = Some ''files''\<rparr>"

definition example_tree :: store where
  "example_tree = (example_db\<lparr>space_files := [example_row ''f1'' '''' True, example_row ''f2'' ''f1'' True]\<rparr>,
     \<lparr>fs_blobs = [], fs_tmp = []\<rparr>)"

lemma example_tree_ok: "tree_ok (fst example_tree)"
  unfolding tree_ok_def
  by (rule exI [of _ "\<lambda>i. if i = ''f1'' then 0 else 1"])
    (simp add: forest_by_def example_tree_def example_row_def)


end
