(* ===== verification/Space_File_Props.thy ===== *)
theory Space_File_Props
  imports Space_Tree
begin

text \<open>
  Who can get at the files of a space, and what deleting takes away. First what holds for a user
  without access, then the ways around that: a grant on a file of another space, a move into a
  folder of one's own, and two moves at once.
\<close>

section \<open>Users without access\<close>

text \<open>An answer that is a refusal and leaves rows, versions, grants and blobs alone.\<close>

definition same_files :: "store \<Rightarrow> store \<Rightarrow> bool" where
  "same_files w w' \<longleftrightarrow> space_files (fst w') = space_files (fst w)
     \<and> space_file_versions (fst w') = space_file_versions (fst w)
     \<and> space_file_permissions (fst w') = space_file_permissions (fst w)
     \<and> fs_blobs (snd w') = fs_blobs (snd w)"

definition shut :: "store \<Rightarrow> reply answer \<Rightarrow> bool" where
  "shut w a \<longleftrightarrow> (\<forall>r w'. a = Some (r, w') \<longrightarrow> rp_status r \<noteq> ''200 OK'' \<and> same_files w w')"

named_theorems shut_rules \<open>answers to a user without access\<close>

lemma same_files_refl [simp]: "same_files w w"
  by (simp add: same_files_def)

lemma shut_answer [simp]: "shut w (Some (r, w')) \<longleftrightarrow> rp_status r \<noteq> ''200 OK'' \<and> same_files w w'"
  by (cases w') (auto simp: shut_def)

lemma err_status [simp]: "rp_status (err_reply s m) = s"
  by (simp add: err_reply_def)

lemma ok_status [simp]: "rp_status (ok_reply j) = ''200 OK''"
  by (simp add: ok_reply_def)

lemma not_member_status [simp]: "rp_status not_member = ''403''"
  by (simp add: not_member_def)

lemma shut_access [shut_rules]:
  "\<not> check_space_access_sync (fst w) s u \<Longrightarrow> shut w (with_access s u rest w)"
  by (simp add: with_access_def)

lemma shut_session [shut_rules]:
  "(\<And>u. validate_session (fst w) (fe_now env) t = Some u \<Longrightarrow> shut w (rest u w)) \<Longrightarrow> shut w (with_session env t rest w)"
  by (simp add: with_session_def split: option.splits)

lemma shut_option [shut_rules]:
  "(x = None \<Longrightarrow> shut w a) \<Longrightarrow> (\<And>y. x = Some y \<Longrightarrow> shut w (f y)) \<Longrightarrow> shut w (case x of None \<Rightarrow> a | Some y \<Rightarrow> f y)"
  by (cases x) auto

lemma shut_if [shut_rules]: "(P \<Longrightarrow> shut w a) \<Longrightarrow> (\<not> P \<Longrightarrow> shut w b) \<Longrightarrow> shut w (if P then a else b)"
  by simp

lemma shut_prod [shut_rules]: "(\<And>a b. x = (a, b) \<Longrightarrow> shut w (f a b)) \<Longrightarrow> shut w (case x of (a, b) \<Rightarrow> f a b)"
  by (cases x) auto

lemma same_files_remove_session [simp]: "same_files w (remove_session u w)"
  by (cases w) (auto simp: remove_session_def same_files_def abort_multipart_def delete_upload_session_def
    split: option.splits)

lemma shut_refuse [shut_rules]: "rp_status r \<noteq> ''200 OK'' \<Longrightarrow> shut w (refuse_upload u r w)"
  by (simp add: refuse_upload_def)

lemma too_large_status: "too_large env d n = Some r \<Longrightarrow> rp_status r = ''413''"
  by (auto simp: too_large_def Let_def split: if_splits)

text \<open>All requests name a space and check access to it, but the chunks of an upload do not.\<close>

definition names_space :: "space_request \<Rightarrow> bool" where
  "names_space req = (case req of Upload_chunk u i h b \<Rightarrow> False | _ \<Rightarrow> True)"

lemma shut_serve:
  assumes "validate_session (fst w) (fe_now env) t = Some u" and "\<not> check_space_access_sync (fst w) s u"
    and "names_space req"
  shows "shut w (serve env t s req w)"
  using assms
  by (cases req)
    (simp_all add: names_space_def list_files_def create_folder_def upload_file_def upload_init_def upload_complete_def
      version_init_def version_complete_def get_file_def update_file_def delete_file_def get_storage_def
      get_permissions_def put_permission_def delete_permission_def list_versions_def upload_version_def
      revert_version_def Let_def, (intro shut_rules; auto dest: too_large_status)+)


definition without_members :: store where
  "without_members = (example_db\<lparr>space_members := []\<rparr>, snd example_tree)"

lemma without_members_facts:
  "validate_session (fst without_members) (fe_now example_file_env) ''t2'' = Some ''u2''"
  "\<not> check_space_access_sync (fst without_members) ''s1'' ''u2''"
  by code_simp+


section \<open>A grant on a file of another space\<close>

lemma set_permission_grants:
  assumes "set_file_permission d i u p g = Inr d1"
  shows "users d1 = users d" "sessions d1 = sessions d" "spaces d1 = spaces d" "space_members d1 = space_members d"
    "space_files d1 = space_files d"
    "\<exists>x \<in> set (space_file_permissions d1). fp_user_id x = u \<and> fp_file_id x = i \<and> fp_permission x = p"
proof -
  show "users d1 = users d" "sessions d1 = sessions d" "spaces d1 = spaces d" "space_members d1 = space_members d"
    "space_files d1 = space_files d"
    using assms by (auto simp: set_file_permission_def split: if_splits)
  show "\<exists>x \<in> set (space_file_permissions d1). fp_user_id x = u \<and> fp_file_id x = i \<and> fp_permission x = p"
  proof (cases "list_ex (\<lambda>p. fp_file_id p = i \<and> fp_user_id p = u) (space_file_permissions d)")
    case True
    then obtain x where "x \<in> set (space_file_permissions d)" "fp_file_id x = i" "fp_user_id x = u"
      by (auto simp: list_ex_iff)
    then have "x\<lparr>fp_permission := p, fp_granted_by := g\<rparr> \<in> set (space_file_permissions d1)"
      using assms True by (force simp: set_file_permission_def split: if_splits)
    with \<open>fp_file_id x = i\<close> \<open>fp_user_id x = u\<close> show ?thesis by (intro bexI) simp_all
  qed (use assms in \<open>auto simp: set_file_permission_def split: if_splits\<close>)
qed

lemma valid_user:
  assumes "validate_session d now t = Some u"
  shows "has_key u_id u (users d)" "find_user_by_id d u \<noteq> None"
proof -
  show *: "has_key u_id u (users d)"
    using assms by (auto simp: validate_session_def has_key_def list_ex_iff dest!: first_row_filter_Some)
  show "find_user_by_id d u \<noteq> None"
    using * by (auto simp: find_user_by_id_def has_key_def list_ex_iff first_row_def filter_empty_conv split: list.splits)
qed

lemma role_member: "get_space_member_role d s u \<noteq> [] \<Longrightarrow> is_space_member d s u"
  by (auto simp: get_space_member_role_def is_space_member_def first_row_def split: list.splits)

lemma filter_key_unique:
  "x \<in> set xs \<Longrightarrow> distinct (map k xs) \<Longrightarrow> filter (\<lambda>y. k y = k x) xs = [x]"
proof (induction xs)
  case (Cons a xs)
  have "filter (\<lambda>y. k y = k x) xs = []" if "k a = k x"
    using Cons.prems that by (auto simp: filter_empty_conv) (metis imageI)+
  then show ?case using Cons by auto
qed simp

lemma unique_row:
  assumes "f \<in> set (space_files d)" and "distinct (map sf_id (space_files d))"
  shows "find_space_file d (sf_id f) = Some f"
  using filter_key_unique [OF assms] by (simp add: find_space_file_def rows_with_id_def first_row_def)

lemma granted_in_space:
  assumes "x \<in> set (space_file_permissions d)" and "fp_user_id x = u" and "fp_file_id x = sf_id f"
    and "f \<in> set (space_files d)"
  shows "has_file_permission_in_space d (sf_space_id f) u"
  using assms by (force simp: has_file_permission_in_space_def list_ex_iff)

lemma personal_access:
  "find_space_by_id d s = Some sp \<Longrightarrow> sp_is_personal sp \<Longrightarrow> has_file_permission_in_space d s u
     \<Longrightarrow> check_space_access_sync d s u"
  by (simp add: check_space_access_sync_def)

lemma foreign_grant:
  assumes session: "validate_session d (fe_now env) t = Some u"
    and role: "is_admin_role (get_space_member_role d own u)"
    and f: "f \<in> set (space_files d)" "distinct (map sf_id (space_files d))"
    and above: "sf_parent_id f = [] \<or> get_effective_file_permission d (sf_parent_id f) u \<in> {Some ''view'', Some ''edit''}"
  shows "\<exists>d1. put_permission env t own (sf_id f)
        (Some (JObject [(''user_id'', JString u), (''permission'', JString ''edit'')])) (d, fs) = Some (done_reply, (d1, fs))
      \<and> set_file_permission d (sf_id f) u ''edit'' u = Inr d1"
proof -
  have member: "is_space_member d own u"
    by (rule role_member) (use role in auto)
  have level: "get_access_level d own (sf_id f) u = Some ''owner''"
    using role by (auto simp: get_access_level_def Let_def)
  have "has_key sf_id (sf_id f) (space_files d)"
    using f(1) by (auto simp: has_key_def list_ex_iff)
  then have "\<exists>d1. set_file_permission d (sf_id f) u ''edit'' u = Inr d1"
    using valid_user [OF session]
    by (cases "list_ex (\<lambda>p. fp_file_id p = sf_id f \<and> fp_user_id p = u) (space_file_permissions d)")
      (simp_all add: set_file_permission_def varchar_ok_def)
  then obtain d1 where d1: "set_file_permission d (sf_id f) u ''edit'' u = Inr d1" ..
  show ?thesis
    using session member level d1 valid_user [OF session] unique_row [OF f] above
    by (intro exI [of _ d1])
      (auto simp: put_permission_def with_session_def with_access_def check_space_access_sync_def with_permission_def
        require_permission_sync_def at_str_def perm_rank_def)
qed

text \<open>C27: An owner or admin of any one space, such as everybody's own personal space, can open a
  personal space of somebody else that he has no access to: through the URL of his own space he
  grants himself a permission on a file of the other, because the handler never compares the space
  of the file with the space of the URL; then the file downloads and the space lists.\<close>

theorem foreign_permission_grant:
  assumes "validate_session d (fe_now env) t = Some u" and "is_admin_role (get_space_member_role d own u)"
    and "f \<in> set (space_files d)" and "distinct (map sf_id (space_files d))"
    and "sf_parent_id f = [] \<or> get_effective_file_permission d (sf_parent_id f) u \<in> {Some ''view'', Some ''edit''}"
    and "find_space_by_id d (sf_space_id f) = Some victim" and "sp_is_personal victim"
    and "\<not> sf_is_folder f" and "\<not> sf_is_deleted f" and "get (sf_disk_file_id f) fs = Some data" and "t \<noteq> []"
  shows "\<exists>d1. put_permission env t own (sf_id f)
        (Some (JObject [(''user_id'', JString u), (''permission'', JString ''edit'')])) (d, fs) = Some (done_reply, (d1, fs))
      \<and> check_space_access_sync d1 (sf_space_id f) u
      \<and> (\<exists>mime disposition. download_file env t [] (sf_space_id f) (sf_id f) [] (d1, fs)
           = Some (Blob_reply mime disposition data, (d1, fs)))"
proof -
  obtain d1 where d1: "put_permission env t own (sf_id f)
        (Some (JObject [(''user_id'', JString u), (''permission'', JString ''edit'')])) (d, fs) = Some (done_reply, (d1, fs))"
    and grant: "set_file_permission d (sf_id f) u ''edit'' u = Inr d1"
    using foreign_grant [OF assms(1-5)] by blast
  note same = set_permission_grants [OF grant]
  have access: "check_space_access_sync d1 (sf_space_id f) u"
    using same assms(3,6,7) granted_in_space by (intro personal_access) (auto simp: find_space_by_id_def)
  have "live_plain_file d1 (sf_space_id f) (sf_id f) = Some f"
    using unique_row [of f d1] same(5) assms(3,4,8,9) by (simp add: live_plain_file_def live_file_def)
  moreover have "validate_session d1 (fe_now env) t = Some u"
    using assms(1) same by (simp add: validate_session_def)
  ultimately have "\<exists>mime disposition. download_file env t [] (sf_space_id f) (sf_id f) [] (d1, fs)
      = Some (Blob_reply mime disposition data, (d1, fs))"
    using access assms(10,11) by (simp add: download_file_def default_to_def Let_def)
  with d1 access show ?thesis by blast
qed

text \<open>The owner \<open>u1\<close> and the user \<open>u2\<close>, each with a personal space; one file in the first.\<close>

definition personal_space_of :: "string \<Rightarrow> string \<Rightarrow> space" where
  "personal_space_of i u = \<lparr>sp_id = i, sp_name = i, sp_description = '''', sp_is_public = False,
     sp_default_role = ''user'', sp_created_by = u, sp_created_at = 0, sp_is_archived = False,
     sp_avatar_file_id = '''', sp_profile_color = '''', sp_is_personal = True, sp_personal_owner_id = u\<rparr>"

definition secret_file :: space_file where
  "secret_file = (example_row ''f9'' '''' False)\<lparr>sf_space_id := ''p1''\<rparr>"

definition example_personal :: store where
  "example_personal = (example_db\<lparr>spaces := [personal_space_of ''p1'' ''u1'', personal_space_of ''p2'' ''u2''],
       space_members := [\<lparr>sm_space_id = ''p1'', sm_user_id = ''u1'', sm_role = ''owner''\<rparr>,
                         \<lparr>sm_space_id = ''p2'', sm_user_id = ''u2'', sm_role = ''owner''\<rparr>],
       space_files := [secret_file]\<rparr>,
     \<lparr>fs_blobs = [(''aaf9'', ''secret'')], fs_tmp = []\<rparr>)"

lemma example_personal_facts:
  "validate_session (fst example_personal) (fe_now example_file_env) ''t2'' = Some ''u2''"
  "is_admin_role (get_space_member_role (fst example_personal) ''p2'' ''u2'')"
  "find_space_by_id (fst example_personal) (sf_space_id secret_file) = Some (personal_space_of ''p1'' ''u1'')"
  "get (sf_disk_file_id secret_file) (snd example_personal) = Some ''secret''"
  "\<not> check_space_access_sync (fst example_personal) ''p1'' ''u2''"
  by code_simp+

lemma foreign_permission_grant_witness:
  "\<exists>d1. put_permission example_file_env ''t2'' ''p2'' ''f9''
        (Some (JObject [(''user_id'', JString ''u2''), (''permission'', JString ''edit'')])) example_personal
      = Some (done_reply, (d1, snd example_personal))
    \<and> check_space_access_sync d1 ''p1'' ''u2'' \<and> \<not> check_space_access_sync (fst example_personal) ''p1'' ''u2''"
  using foreign_permission_grant [OF example_personal_facts(1,2), of secret_file "personal_space_of ''p1'' ''u1''"
      "snd example_personal" "''secret''"] example_personal_facts(3-5)
  by (auto simp: secret_file_def example_row_def personal_space_of_def example_personal_def)

section \<open>Deleting\<close>

text \<open>The ids of a row and everything below it, whatever the space and deleted or not.\<close>

definition subtree_ids :: "db \<Rightarrow> string \<Rightarrow> string set" where
  "subtree_ids d i = (if i \<in> sf_id ` set (space_files d)
     then {j. (i, j) \<in> {(sf_parent_id f, sf_id f) | f. f \<in> set (space_files d)}\<^sup>*} else {})"

lemma subtree_rows:
  assumes "closure (child_rows d (\<lambda>c. True)) (rows_with_id d i) = Some rows"
  shows "sf_id ` set rows = subtree_ids d i"
proof -
  let ?r = "next_rel (child_rows d (\<lambda>c. True))" and ?e = "{(sf_parent_id f, sf_id f) | f. f \<in> set (space_files d)}"
  have fwd: "(sf_id x, sf_id y) \<in> ?e\<^sup>*" if "(x, y) \<in> ?r\<^sup>*" for x y
    using that
  proof induction
    case (step y z)
    then have "(sf_id y, sf_id z) \<in> ?e" by (force simp: child_rows_def)
    with step.IH show ?case by (rule rtrancl_into_rtrancl)
  qed simp
  have bwd: "\<exists>y. (x, y) \<in> ?r\<^sup>* \<and> sf_id y = j" if "(sf_id x, j) \<in> ?e\<^sup>*" for x j
    using that
  proof induction
    case (step k j)
    then obtain y f where "(x, y) \<in> ?r\<^sup>*" "sf_id y = k" "f \<in> set (space_files d)" "sf_parent_id f = k" "sf_id f = j"
      by auto
    then have "(y, f) \<in> ?r" by (simp add: child_rows_def)
    with \<open>(x, y) \<in> ?r\<^sup>*\<close> have "(x, f) \<in> ?r\<^sup>*" by (rule rtrancl_into_rtrancl)
    with \<open>sf_id f = j\<close> show ?case by blast
  qed blast
  show ?thesis
  proof (intro set_eqI iffI)
    fix j assume "j \<in> sf_id ` set rows"
    then obtain x y where "x \<in> set (rows_with_id d i)" "(x, y) \<in> ?r\<^sup>*" "j = sf_id y"
      unfolding closure_set [OF assms] by blast
    then show "j \<in> subtree_ids d i" using fwd [of x y] by (auto simp: subtree_ids_def rows_with_id_def)
  next
    fix j assume "j \<in> subtree_ids d i"
    then obtain x where x: "x \<in> set (rows_with_id d i)" "(sf_id x, j) \<in> ?e\<^sup>*"
      by (auto simp: subtree_ids_def rows_with_id_def split: if_splits)
    from bwd [OF x(2)] x(1) show "j \<in> sf_id ` set rows" unfolding closure_set [OF assms] by blast
  qed
qed

text \<open>The blobs that the rows and versions of a subtree refer to.\<close>

definition subtree_blobs :: "db \<Rightarrow> string \<Rightarrow> string set" where
  "subtree_blobs d i =
     (sv_disk_file_id ` {v \<in> set (space_file_versions d). sv_file_id v \<in> subtree_ids d i}
      \<union> sf_disk_file_id ` {f \<in> set (space_files d). sf_id f \<in> subtree_ids d i}) - {''''}"

definition without_subtree :: "db \<Rightarrow> string \<Rightarrow> db" where
  "without_subtree d i = d\<lparr>space_files := filter (\<lambda>f. sf_id f \<notin> subtree_ids d i) (space_files d),
     space_file_versions := filter (\<lambda>v. sv_file_id v \<notin> subtree_ids d i) (space_file_versions d),
     space_file_permissions := filter (\<lambda>p. fp_file_id p \<notin> subtree_ids d i) (space_file_permissions d)\<rparr>"

lemma hard_delete_spec:
  assumes "tree_ok d"
  shows "\<exists>keys. hard_delete_space_file d i = Some (keys, without_subtree d i) \<and> set keys = subtree_blobs d i"
proof -
  obtain rows where rows: "closure (child_rows d (\<lambda>c. True)) (rows_with_id d i) = Some rows"
    using child_rows_end [OF assms, of "rows_with_id d i" "\<lambda>c. True"] by (auto simp: rows_with_id_def)
  have ids: "sf_id ` set rows = subtree_ids d i" by (rule subtree_rows [OF rows])
  have distinct: "distinct (map sf_id (space_files d))"
    using assms forestD(1) by (auto simp: tree_ok_def)
  have row: "first_row (rows_with_id d (sf_id f)) = Some f" if "f \<in> set (space_files d)" for f
    using unique_row [OF that distinct] by (simp add: find_space_file_def)
  have blobs: "set (case first_row (rows_with_id d j) of None \<Rightarrow> [] | Some f \<Rightarrow> filter (\<lambda>did. did \<noteq> []) [sf_disk_file_id f])
      = sf_disk_file_id ` {f \<in> set (space_files d). sf_id f = j} - {''''}" for j
  proof (cases "j \<in> sf_id ` set (space_files d)")
    case True
    then obtain f where f: "f \<in> set (space_files d)" "sf_id f = j" by blast
    then have "{g \<in> set (space_files d). sf_id g = j} = {f}"
      using distinct by (auto simp: distinct_map inj_on_eq_iff)
    with row [OF f(1)] f(2) show ?thesis by simp
  next
    case False
    then have "rows_with_id d j = []" by (auto simp: rows_with_id_def filter_empty_conv)
    with False show ?thesis by (auto simp: first_row_def)
  qed
  show ?thesis
    using rows ids by (auto simp: hard_delete_space_file_def Let_def without_subtree_def subtree_blobs_def blobs)
qed

lemma get_remove_blobs: "get k (fold remove_blob ks fs) = (if k \<in> set ks then None else get k fs)"
  by (induction ks arbitrary: fs) (auto simp: get_def remove_blob_def map_of_delete AList.delete_conv')

text \<open>C28: Deleting ends for every tree, and either changes nothing or was asked for by somebody with
  owner permission on a live row of the space; then exactly that row and all below it go, with their
  versions, grants and blobs, and every other row, version, grant and blob stays as it was.\<close>

theorem delete_file_exact:
  assumes "tree_ok d"
  shows "case delete_file env t s i (d, fs) of None \<Rightarrow> False | Some (r, (d', fs')) \<Rightarrow>
    (if rp_status r = ''200 OK''
     then (\<exists>u. validate_session d (fe_now env) t = Some u \<and> get_access_level d s i u = Some ''owner'')
        \<and> live_file d s i \<noteq> None \<and> d' = without_subtree d i
        \<and> (\<forall>key. get key fs' = (if key \<in> subtree_blobs d i then None else get key fs))
     else d' = d \<and> fs' = fs)"
proof -
  obtain keys where keys: "hard_delete_space_file d i = Some (keys, without_subtree d i)" "set keys = subtree_blobs d i"
    using hard_delete_spec [OF assms] by blast
  have owner: "perm_rank ''owner'' \<le> perm_rank l \<longleftrightarrow> l = ''owner''" for l by (simp add: perm_rank_def)
  show ?thesis
  proof (cases "validate_session d (fe_now env) t")
    case (Some u)
    obtain l where l: "get_access_level d s i u = Some l" using access_level_ends [OF assms] by blast
    show ?thesis
      using Some l keys
      by (auto simp: delete_file_def with_session_def with_access_def with_permission_def require_permission_sync_def owner
        get_remove_blobs done_reply_def not_member_def split: option.splits)
  qed (simp add: delete_file_def with_session_def)
qed

lemma delete_file_exact_witness:
  "case delete_file example_file_env ''t1'' ''s1'' ''f1'' example_tree of None \<Rightarrow> False | Some (r, (d', fs')) \<Rightarrow>
     d' = (if rp_status r = ''200 OK'' then without_subtree (fst example_tree) ''f1'' else fst example_tree)"
  using delete_file_exact [OF example_tree_ok, of example_file_env "''t1''" "''s1''" "''f1''" "snd example_tree"]
  by (auto split: option.splits prod.splits if_splits)

section \<open>Two ways around the checks\<close>

definition two_folders :: db where
  "two_folders = example_db\<lparr>space_files := [example_row ''a'' '''' True, example_row ''b'' '''' True]\<rparr>"

text \<open>
  A move checks the ancestors of the destination and then updates the row, in two transactions. Two
  moves that both pass the check first and update then make a cycle; after that no query that walks
  up from either folder ends.
\<close>

lemma racing_moves_make_a_cycle:
  "\<exists>d1 d2. check_move two_folders ''s1'' (example_row ''a'' '''' True) ''b'' = Some (Inr ())
     \<and> check_move two_folders ''s1'' (example_row ''b'' '''' True) ''a'' = Some (Inr ())
     \<and> move_space_file (\<lambda>s. s) two_folders 5 ''a'' ''b'' = Inr d1
     \<and> move_space_file (\<lambda>s. s) d1 5 ''b'' ''a'' = Inr d2
     \<and> get_space_file_path d2 ''a'' = None \<and> get_effective_file_permission d2 ''a'' ''u2'' = None"
proof -
  let ?a = "(example_row ''a'' '''' True)\<lparr>sf_parent_id := ''b'', sf_updated_at := 5\<rparr>"
  let ?b = "(example_row ''b'' '''' True)\<lparr>sf_parent_id := ''a'', sf_updated_at := 5\<rparr>"
  let ?d1 = "two_folders\<lparr>space_files := [?a, example_row ''b'' '''' True]\<rparr>"
  let ?d2 = "two_folders\<lparr>space_files := [?a, ?b]\<rparr>"
  have checks: "check_move two_folders ''s1'' (example_row ''a'' '''' True) ''b'' = Some (Inr ())"
    "check_move two_folders ''s1'' (example_row ''b'' '''' True) ''a'' = Some (Inr ())"
    by code_simp+
  have moves: "move_space_file (\<lambda>s. s) two_folders 5 ''a'' ''b'' = Inr ?d1" "move_space_file (\<lambda>s. s) ?d1 5 ''b'' ''a'' = Inr ?d2"
    by (simp_all add: move_space_file_def replace_space_file_def update_space_file_def two_folders_def rows_with_id_def
      first_row_def varchar_ok_def name_taken_def ref_ok_def has_key_def example_row_def)
  have "closure (parent_rows ?d2) (rows_with_id ?d2 ''a'') = None"
    by (rule closure_cycle [where C = "{?a, ?b}" and x = ?a])
      (auto simp: rows_with_id_def parent_rows_def example_row_def)
  then have "get_space_file_path ?d2 ''a'' = None" "get_effective_file_permission ?d2 ''a'' ''u2'' = None"
    by (simp_all add: get_space_file_path_def get_effective_file_permission_def)
  with checks moves show ?thesis by blast
qed

text \<open>
  A member with edit permission on a folder makes a folder of his own in it, which he owns, and moves
  somebody else's file there: the permission is inherited, so he may now delete it.
\<close>

definition edit_only :: store where
  "edit_only = (example_db\<lparr>space_files := [example_row ''f1'' '''' True, example_row ''f2'' ''f1'' False],
     space_file_permissions := [\<lparr>fp_file_id = ''f1'', fp_user_id = ''u2'', fp_permission = ''edit'',
       fp_granted_by = ''u1''\<rparr>]\<rparr>, \<lparr>fs_blobs = [], fs_tmp = []\<rparr>)"

definition make_own_folder :: "store \<Rightarrow> store" where
  "make_own_folder w = (case create_folder example_file_env ''t2'' ''s1''
     (Some (JObject [(''name'', JString ''mine''), (''parent_id'', JString ''f1'')])) w of Some (r, w') \<Rightarrow> w' | None \<Rightarrow> w)"

definition move_there :: "store \<Rightarrow> store" where
  "move_there w = (case update_file example_file_env ''t2'' ''s1'' ''f2''
     (Some (JObject [(''parent_id'', JString ''f3'')])) w of Some (r, w') \<Rightarrow> w' | None \<Rightarrow> w)"

lemma move_escalates_edit_to_owner:
  "get_access_level (fst edit_only) ''s1'' ''f2'' ''u2'' = Some ''edit''"
  "get_access_level (fst (move_there (make_own_folder edit_only))) ''s1'' ''f2'' ''u2'' = Some ''owner''"
  by code_simp+

end
