(* ===== verification/Room_Props.thy ===== *)
theory Room_Props
  imports Room_Steps Space_File_Props
begin

text \<open>
  Properties of the endpoints of spaces and channels: memberships change only as the abstract step
  allows, subscriptions follow memberships, owners stay, every request is answered; and the ways
  around the roles.
\<close>

section \<open>Refinement\<close>

text \<open>C29: Whatever a request to the endpoints of spaces, channels, conversations and invites does, the
  memberships and roles change by one step of the abstract policy, taken by the user the session
  belongs to (entering by invitation or into a public space, a role change within one's rank, new
  rooms, joining, adding, leaving, removing), and not at all without a session.\<close>

theorem room_requests_refine:
  assumes "room_serve env t req d = Some (r, d', es)"
  shows "(d' = d \<and> es = []) \<or>
    (\<exists>u. validate_session d (we_now env) t = Some u \<and> membership_step (kicked req) d u d')"
  using room_served [OF assms] by (auto simp: room_ok_def)

definition example_web :: web_env where
  "example_web = \<lparr>we_now = 5, we_id = (\<lambda>n. ''new'' @ nat_str n), we_random_hex = Some ''hex'',
     we_io = fe_io example_file_env, we_pg = example_pg, we_what = (\<lambda>_. ''what''), we_time_text = (\<lambda>_. ''time''),
     we_parse_time = (\<lambda>_. None), we_dump = (\<lambda>_. ''json'')\<rparr>"


section \<open>Owners\<close>

lemma keys_role:
  assumes "keys_distinct d" and "m \<in> set (space_members d)"
  shows "space_roles d (sm_space_id m, sm_user_id m) = Some (sm_role m)"
proof -
  have "distinct (map fst (map (\<lambda>m. ((sm_space_id m, sm_user_id m), sm_role m)) (space_members d)))"
    using assms(1) by (simp add: keys_distinct_def comp_def)
  then show ?thesis
    unfolding space_roles_def using assms(2) by (intro map_of_is_SomeI) auto
qed

lemma another_owner:
  assumes "keys_distinct d" and "1 < count_space_members_with_role d s r"
  shows "\<exists>w. w \<noteq> v \<and> space_roles d (s, w) = Some r"
proof (rule ccontr)
  assume none: "\<not> ?thesis"
  let ?rows = "filter (\<lambda>m. sm_space_id m = s \<and> sm_role m = r) (space_members d)"
  have "(sm_space_id m, sm_user_id m) = (s, v)" if "m \<in> set ?rows" for m
    using keys_role [OF assms(1), of m] that none by auto
  then have "set (map (\<lambda>m. (sm_space_id m, sm_user_id m)) ?rows) \<subseteq> {(s, v)}" by auto
  then have "card (set (map (\<lambda>m. (sm_space_id m, sm_user_id m)) ?rows)) \<le> 1"
    using card_mono [of "{(s, v)}"] by fastforce
  moreover have "distinct (map (\<lambda>m. (sm_space_id m, sm_user_id m)) ?rows)"
    using assms(1) by (simp add: keys_distinct_def distinct_map_filter)
  ultimately have "length ?rows \<le> 1" using distinct_card by fastforce
  then show False using assms(2) by (simp add: count_space_members_with_role_def)
qed

text \<open>C31: A space that is not archived and has an owner keeps one under every request except the removal
  of a member from that space, whoever makes it; rows of members stay unique and refer to spaces.\<close>

theorem space_keeps_owner:
  assumes "room_serve env t req d = Some (r, d', es)" and "keys_distinct d" and "s \<notin> kicked req"
    and "find_space_by_id d s = Some sp" and "\<not> sp_is_archived sp" and "space_roles d (s, v) = Some ''owner''"
  shows "keys_distinct d' \<and> (\<exists>w. space_roles d' (s, w) = Some ''owner'')"
  using room_served [OF assms(1)]
proof (elim disjE exE conjE)
  fix u
  assume "room_ok (kicked req) d u d' es"
  then have step: "membership_step (kicked req) d u d'" and keys: "keys_distinct d'"
    using assms(2) by (auto simp: room_ok_def)
  from step have "\<exists>w. space_roles d' (s, w) = Some ''owner''"
  proof cases
    case (set_space_role s' role v' current)
    show ?thesis
    proof (cases "(s', v') = (s, v) \<and> role \<noteq> ''owner''")
      case True
      then have "1 < count_space_members_with_role d s ''owner''"
        using set_space_role assms(6) by auto
      then obtain w where "w \<noteq> v" "space_roles d (s, w) = Some ''owner''"
        using another_owner [OF assms(2)] by blast
      then show ?thesis using set_space_role True by auto
    qed (use set_space_role assms(6) in \<open>auto intro!: exI [of _ v]\<close>)
  next
    case (leave_space s')
    show ?thesis
    proof (cases "(s', u) = (s, v)")
      case True
      then have "1 < count_space_members_with_role d s ''owner''"
        using leave_space assms(4-6) by auto
      then obtain w where "w \<noteq> v" "space_roles d (s, w) = Some ''owner''"
        using another_owner [OF assms(2)] by blast
      then show ?thesis using leave_space True by auto
    qed (use leave_space assms(6) in \<open>auto intro!: exI [of _ v]\<close>)
  qed (use assms(3,6) in \<open>(intro exI [of _ v]; force)+\<close>)
  then show ?thesis using keys by simp
qed (use assms in auto)

section \<open>Every request is answered\<close>

lemma answered_page [answered_rules]: "(\<And>l k. answered (rest l k d)) \<Longrightarrow> answered (with_page ls os rest d)"
  by (simp add: with_page_def split: option.split)

lemma answered_invite [answered_rules]:
  "(\<And>x. get_space_invite d i = Some x \<Longrightarrow> answered (rest x d)) \<Longrightarrow> answered (with_invite i u rest d)"
  by (simp add: with_invite_def split: option.split)

lemma join_defaults_total:
  assumes "set (map ch_id cs) \<subseteq> ch_id ` set (channels d)" and "has_key u_id u (users d)"
  shows "\<exists>d' es. join_defaults env u cs d = Some (d', es)"
  using assms
proof (induction cs arbitrary: d)
  case (Cons c cs)
  show ?case
  proof (cases "is_channel_member d (ch_id c) u")
    case False
    then have "\<exists>d1. add_channel_member d (ch_id c) u (ch_default_role c) = Inr d1"
      using Cons.prems by (auto simp: add_channel_member_def has_key_iff)
    then obtain d1 where d1: "add_channel_member d (ch_id c) u (ch_default_role c) = Inr d1" ..
    have "\<exists>d' es. join_defaults env u cs d1 = Some (d', es)"
      using Cons roles_add_channel_member [OF d1] by simp
    then show ?thesis using False d1 by auto
  qed (use Cons in simp)
qed simp

lemma enter_answered:
  assumes "add_space_member d s u r = x" and "has_key sp_id s (spaces d)" and "has_key u_id u (users d)"
  shows "\<exists>d1 d2 es. x = Inr d1 \<and> join_defaults env u (get_default_join_channels d1 s) d1 = Some (d2, es)"
proof -
  obtain d1 where d1: "add_space_member d s u r = Inr d1"
    using assms(2,3) by (cases "add_space_member d s u r") (auto simp: add_space_member_def split: if_splits)
  have "\<exists>d2 es. join_defaults env u (get_default_join_channels d1 s) d1 = Some (d2, es)"
    by (rule join_defaults_total)
      (use roles_add_space_member [OF d1] assms(3) in \<open>auto simp: get_default_join_channels_def\<close>)
  then show ?thesis using d1 assms(1) by auto
qed

lemma find_space_key: "find_space_by_id d s = Some sp \<Longrightarrow> has_key sp_id s (spaces d)"
  by (auto simp: find_space_by_id_def has_key_iff dest!: first_row_filter_Some)

lemma find_channel_key: "find_channel_by_id d c = Some ch \<Longrightarrow> has_key ch_id c (channels d)"
  by (auto simp: find_channel_by_id_def has_key_iff dest!: first_row_filter_Some)

lemma answered_join: "answered (space_join env t s d)"
  unfolding space_join_def
proof (intro answered_rules answered_simps)
  fix u sp
  assume "validate_session d (we_now env) t = Some u" "find_space_by_id d s = Some sp"
  then obtain d1 d2 es where "add_space_member d s u (sp_default_role sp) = Inr d1"
    "join_defaults env u (get_default_join_channels d1 s) d1 = Some (d2, es)"
    using enter_answered [OF refl find_space_key valid_user(1)] by blast
  then show "answered (case add_space_member d s u (sp_default_role sp) of Inl e \<Rightarrow> None
     | Inr d1 \<Rightarrow> (case join_defaults env u (get_default_join_channels d1 s) d1 of None \<Rightarrow> None
         | Some (d2, es) \<Rightarrow> done_with d2 (Subscribe_space u s # es)))"
    by simp
qed

lemma answered_accept:
  assumes "\<forall>i \<in> set (space_invites d). has_key sp_id (si_space_id i) (spaces d)"
  shows "answered (invite_accept env t i d)"
  unfolding invite_accept_def Let_def
proof (intro answered_rules answered_simps, goal_cases)
  case (1 u x)
  have "has_key sp_id (si_space_id x) (spaces (update_space_invite_status d i ''accepted''))"
    using 1 assms by (auto simp: get_space_invite_def dest!: first_row_filter_Some)
  moreover have "has_key u_id u (users (update_space_invite_status d i ''accepted''))"
    using valid_user(1) [OF 1(1)] by (simp add: update_space_invite_status_def)
  ultimately obtain d1 d2 es where "add_space_member (update_space_invite_status d i ''accepted'') (si_space_id x) u (si_role x) = Inr d1"
    "join_defaults env u (get_default_join_channels d1 (si_space_id x)) d1 = Some (d2, es)"
    using enter_answered [OF refl] by metis
  then show ?case by simp
qed

lemma answered_chan_join: "answered (chan_join env t c d)"
  unfolding chan_join_def Let_def
proof (intro answered_rules answered_simps, goal_cases)
  case (1 u ch)
  then have "has_key ch_id c (channels d)" "has_key u_id u (users d)"
    using find_channel_key valid_user(1) by auto
  then show ?case
    by (cases "is_channel_member d c u") (simp_all add: add_channel_member_def)
qed

text \<open>
  The requests on which the handler lets an exception escape: a time that cannot be read, and the
  creation of a personal space that fails.
\<close>

definition answerable :: "web_env \<Rightarrow> db \<Rightarrow> room_request \<Rightarrow> bool" where
  "answerable env d req =
     (case req of
        Chan_messages c before limit \<Rightarrow> before = [] \<or> we_parse_time env before \<noteq> None
      | Space_list limit offset \<Rightarrow> \<not> has_key sp_id (we_id env 0) (spaces d)
          \<and> (\<forall>u \<in> set (users d). varchar_ok 100 (u_display_name u @ [CHR 0x27] @ ''s Space''))
      | _ \<Rightarrow> True)"

lemma with_personal_answered:
  assumes "\<not> has_key sp_id (we_id env 0) (spaces d)"
    and "\<forall>u \<in> set (users d). varchar_ok 100 (u_display_name u @ [CHR 0x27] @ ''s Space'')"
  shows "answered (with_personal env u listed d)"
proof (cases "find_user_by_id d u")
  case (Some x)
  then have x: "x \<in> set (users d)" "u_id x = u" using find_user_by_id_id by auto
  then have "has_key u_id u (users d)" by (auto simp: has_key_iff)
  then have "\<exists>sp d1. get_or_create_personal_space d (we_id env 0) (we_now env) u (u_display_name x) = Inr (sp, d1)"
    using assms x(1) by (auto simp: get_or_create_personal_space_def create_personal_space_def Let_def split: option.split)
  then show ?thesis using Some by (auto simp: with_personal_def Let_def)
qed (simp add: with_personal_def Let_def)

lemma answered_space_list:
  "answerable env d (Space_list x y) \<Longrightarrow> answered (space_list env t x y d)"
  unfolding space_list_def Let_def answerable_def
  using with_personal_answered [of env d]
  by (intro answered_rules answered_simps; auto split: if_splits; metis answered_simps(7))

lemma answered_chan_messages:
  "answerable env d (Chan_messages c x y) \<Longrightarrow> answered (chan_messages env t c x y d)"
  unfolding chan_messages_def Let_def answerable_def
  by (intro answered_rules answered_simps) auto

lemma answered_rest:
  assumes "\<forall>s. req \<noteq> Space_join s" "\<forall>i. req \<noteq> Invite_accept i" "\<forall>c. req \<noteq> Chan_join c"
    "\<forall>x y. req \<noteq> Space_list x y" "\<forall>c x y. req \<noteq> Chan_messages c x y"
  shows "answered (room_serve env t req d)"
  using assms
  by (cases req) (simp_all only: room_serve.simps space_browse_def space_create_def space_details_def space_settings_def
      space_invite_member_def send_invite_def space_kick_def space_set_role_def space_channels_def space_channel_create_def
      space_channel_created_def space_leave_def
      space_archive_def space_unarchive_def conv_list_def conv_create_def conv_add_member_def conv_rename_def invite_list_def
      invite_decline_def space_tools_get_def space_tools_put_def shared_with_me_def
      chan_read_receipts_def chan_browse_def chan_create_def chan_create_dm_def chan_add_member_def
      chan_kick_def chan_set_role_def chan_settings_def chan_leave_def chan_leave_direct_def chan_archive_def
      chan_unarchive_def chan_list_def Let_def, (intro answered_rules answered_simps | simp)+)


section \<open>Ways around the roles\<close>

definition user_body :: "string \<Rightarrow> json option" where
  "user_body v = Some (JObject [(''user_id'', JString v)])"

text \<open>C33: The endpoint that adds people to a conversation takes any channel: whoever is in it, with
  whatever role, adds anybody with permission to write, also where the endpoint for the members of a
  channel refuses him because he is no admin there.\<close>

theorem any_member_opens_channel:
  assumes "validate_session d (we_now env) t = Some u" and "is_channel_member d c u"
    and "find_channel_by_id d c = Some ch" and "has_key u_id v (users d)" and "\<not> is_channel_member d c v"
    and "get_effective_role d c u \<noteq> ''admin''"
  shows "\<exists>d' es. room_serve env t (Conv_add_member c (user_body v)) d = Some (done_reply, d', es)
      \<and> channel_roles d' (c, v) = Some ''write'' \<and> Subscribe_channel v c \<in> set es
      \<and> room_serve env t (Chan_add_member c (user_body v)) d
        = Some (err_reply ''403'' ''Admin permission required'', d, [])"
proof -
  have key: "has_key ch_id c (channels d)" using find_channel_key [OF assms(3)] .
  have at: "at_str (JObject [(''user_id'', JString v)]) ''user_id'' = Inr v"
    by (simp add: at_str_def)
  obtain d' where d': "add_channel_member d c v ''write'' = Inr d'"
    using assms(4,5) key by (auto simp: add_channel_member_def)
  have "channel_roles d' (c, v) = Some ''write''"
    using roles_add_channel_member(1) [OF d'] assms(5) by (simp add: is_channel_member_roles)
  then have "\<exists>d' es. room_serve env t (Conv_add_member c (user_body v)) d = Some (done_reply, d', es)
      \<and> channel_roles d' (c, v) = Some ''write'' \<and> Subscribe_channel v c \<in> set es"
    using assms(1,2) at d'
    by (simp add: conv_add_member_def signed_in_def user_body_def with_body_def or_fail_def db_or_fail_def
        add_conversation_member_def done_with_def)
  moreover have "room_serve env t (Chan_add_member c (user_body v)) d
      = Some (err_reply ''403'' ''Admin permission required'', d, [])"
    using assms(1,6) by (simp add: chan_add_member_def signed_in_def refuse_def)
  ultimately show ?thesis by blast
qed

text \<open>A member of a public channel of a private space need not be in the space.\<close>

lemma outsider_joins_channel_of_private_space:
  assumes "validate_session d (we_now env) t = Some u" and "find_channel_by_id d c = Some ch"
    and "\<not> ch_is_direct ch" and "ch_is_public ch" and "\<not> is_channel_member d c u"
  shows "\<exists>d'. room_serve env t (Chan_join c) d = Some (done_reply, d', [Subscribe_channel u c])
      \<and> is_channel_member d' c u"
proof -
  obtain d' where d': "add_channel_member d c u (if ch_space_id ch \<noteq> [] \<and> is_admin_role (get_space_member_role d (ch_space_id ch) u)
      \<or> server_admin d u then ''admin'' else ch_default_role ch) = Inr d'"
    using assms(5) find_channel_key [OF assms(2)] valid_user(1) [OF assms(1)] by (simp add: add_channel_member_def)
  then have "is_channel_member d' c u"
    using roles_add_channel_member(1) [OF d'] by (auto simp: is_channel_member_roles)
  then show ?thesis
    using d' assms by (simp add: chan_join_def signed_in_def done_with_def Let_def)
qed

lemma admin_manages: "space_roles d (s, u) = Some ''admin'' \<Longrightarrow> space_manager d s u"
  by (simp add: space_manager_def space_role_roles)

text \<open>An admin of a space removes its owners.\<close>

lemma admin_removes_any_owner:
  assumes "validate_session d (we_now env) t = Some u" and "space_roles d (s, u) = Some ''admin''"
  shows "\<exists>d' es. room_serve env t (Space_kick s v) d = Some (done_reply, d', es)
      \<and> space_roles d' = (space_roles d)((s, v) := None)"
  using assms admin_manages [OF assms(2)]
  by (simp add: space_kick_def signed_in_def done_with_def roles_remove_space Let_def)

definition owner_default :: json where
  "owner_default = JObject [(''is_public'', JBool True), (''default_role'', JString ''owner'')]"

lemma owner_default_fields:
  "value_str owner_default ''name'' x = Inr x" "value_str owner_default ''description'' x = Inr x"
  "value_bool owner_default ''is_public'' b = Inr True" "value_str owner_default ''default_role'' x = Inr ''owner''"
  "value_str owner_default ''profile_color'' x = Inr x"
  by (simp_all add: owner_default_def value_str_def value_bool_def)

lemma set_owner_default:
  assumes "validate_session d (we_now env) t = Some u" and "space_roles d (s, u) = Some ''admin''"
    and "find_space_by_id d s = Some sp" and "varchar_ok 100 (sp_name sp)" "varchar_ok 7 (sp_profile_color sp)"
  shows "\<exists>r d' es sp'. room_serve env t (Space_settings s (Some owner_default)) d = Some (r, d', es)
      \<and> find_space_by_id d' s = Some sp' \<and> sp_is_public sp' \<and> sp_default_role sp' = ''owner''
      \<and> sp_is_personal sp' = sp_is_personal sp \<and> users d' = users d \<and> sessions d' = sessions d
      \<and> space_roles d' = space_roles d"
proof -
  let ?f = "\<lambda>s. s\<lparr>sp_name := sp_name sp, sp_description := sp_description sp, sp_is_public := True,
      sp_default_role := ''owner'', sp_profile_color := sp_profile_color sp\<rparr>"
  let ?d = "d\<lparr>spaces := map (\<lambda>x. if sp_id x = s then ?f x else x) (spaces d)\<rparr>"
  have "sp_id sp = s" using assms(3) by (auto simp: find_space_by_id_def dest!: first_row_filter_Some)
  then have found: "find_space_by_id ?d s = Some (?f sp)"
    using assms(3) by (simp add: find_space_by_id_def first_row_filter_map)
  have "update_space d s (sp_name sp) (sp_description sp) True ''owner'' (sp_profile_color sp) = Inr (?f sp, ?d)"
    using found assms(4,5) by (simp add: update_space_def Let_def varchar_ok_def)
  then show ?thesis
    using assms admin_manages [OF assms(2)] found
    by (simp add: space_settings_def signed_in_def with_body_def or_fail_def owner_default_fields db_or_fail_def
        answer_def space_roles_def)
qed

lemma leave_as_admin:
  assumes "validate_session d (we_now env) t = Some u" and "space_roles d (s, u) = Some ''admin''"
    and "find_space_by_id d s = Some sp" and "\<not> sp_is_personal sp"
  shows "\<exists>r d' es. room_serve env t (Space_leave s) d = Some (r, d', es) \<and> find_space_by_id d' s = Some sp
      \<and> users d' = users d \<and> sessions d' = sessions d \<and> space_roles d' (s, u) = None"
proof -
  let ?d1 = "\<lambda>cs. fold (\<lambda>c d. remove_channel_member d (ch_id c) u) cs d"
  have frame: "users (?d1 cs) = users d" "sessions (?d1 cs) = sessions d" for cs
    by (induction cs arbitrary: d) (simp_all add: remove_channel_member_def)
  have gone: "users (remove_space_member x s u) = users x" "sessions (remove_space_member x s u) = sessions x"
    "spaces (remove_space_member x s u) = spaces x" for x
    by (simp_all add: remove_space_member_def Let_def)
  show ?thesis
    using assms
    by (simp add: space_leave_def signed_in_def is_personal_space_def is_space_member_roles space_role_roles Let_def
        done_with_def roles_remove_space find_space_by_id_def fold_remove_frame gone frame)
qed

text \<open>C34: An admin of a space makes himself its owner, although the role change refuses that as above his
  rank: the settings take any default role, so he makes the space public with default role owner,
  leaves, and joins again.\<close>

theorem admin_makes_himself_owner:
  assumes "validate_session d (we_now env) t = Some u" and "space_roles d (s, u) = Some ''admin''"
    and "find_space_by_id d s = Some sp" and "\<not> sp_is_personal sp"
    and "varchar_ok 100 (sp_name sp)" "varchar_ok 7 (sp_profile_color sp)" and "\<not> server_admin d u"
  shows "\<exists>r1 d1 es1 r2 d2 es2 r3 d3 es3.
      room_serve env t (Space_settings s (Some owner_default)) d = Some (r1, d1, es1)
      \<and> room_serve env t (Space_leave s) d1 = Some (r2, d2, es2)
      \<and> room_serve env t (Space_join s) d2 = Some (r3, d3, es3) \<and> space_roles d3 (s, u) = Some ''owner''
      \<and> room_serve env t (Space_set_role s u (Some (JObject [(''role'', JString ''owner'')]))) d
        = Some (err_reply ''403'' ''Cannot promote above your own rank'', d, [])"
proof -
  obtain r1 d1 es1 sp1 where one: "room_serve env t (Space_settings s (Some owner_default)) d = Some (r1, d1, es1)"
    and d1: "find_space_by_id d1 s = Some sp1" "sp_is_public sp1" "sp_default_role sp1 = ''owner''" "\<not> sp_is_personal sp1"
      "users d1 = users d" "sessions d1 = sessions d" "space_roles d1 = space_roles d"
    using set_owner_default [OF assms(1-3,5,6)] assms(4) by auto
  have session: "validate_session x (we_now env) t = Some u" if "users x = users d" "sessions x = sessions d" for x
    using assms(1) that by (simp add: validate_session_def)
  obtain r2 d2 es2 where two: "room_serve env t (Space_leave s) d1 = Some (r2, d2, es2)"
    and d2: "find_space_by_id d2 s = Some sp1" "users d2 = users d1" "sessions d2 = sessions d1" "space_roles d2 (s, u) = None"
    using leave_as_admin [OF session _ d1(1,4)] d1 assms(2) by (metis (full_types))
  have s2: "validate_session d2 (we_now env) t = Some u" using session d1 d2 by simp
  obtain x1 d3 es where j: "add_space_member d2 s u ''owner'' = Inr x1"
    "join_defaults env u (get_default_join_channels x1 s) x1 = Some (d3, es)"
    using enter_answered [OF refl find_space_key [OF d2(1)] valid_user(1) [OF s2]] by blast
  have "space_roles d3 (s, u) = Some ''owner''"
    using join_defaults_roles [OF j(2)] roles_add_space_member(1) [OF j(1)] d2(4) roles_cong(1) [of d3 x1] by simp
  moreover have "room_serve env t (Space_join s) d2 = Some (done_reply, d3, Subscribe_space u s # es)"
    using s2 d2(1) d1(2,3) j by (simp add: space_join_def signed_in_def done_with_def)
  moreover have "room_serve env t (Space_set_role s u (Some (JObject [(''role'', JString ''owner'')]))) d
      = Some (err_reply ''403'' ''Cannot promote above your own rank'', d, [])"
    using assms admin_manages [OF assms(2)]
    by (auto simp: space_set_role_def signed_in_def with_body_def at_str_def or_fail_def valid_space_role_def
        actor_space_rank_def space_role_roles space_role_rank_def server_admin_def refuse_def Let_def split: option.splits)
  ultimately show ?thesis using one two by blast
qed

section \<open>Witnesses\<close>

definition left_example :: "reply \<times> db \<times> effect list" where
  "left_example = the (room_serve example_web ''t2'' (Space_leave ''s1'') example_db)"

lemma left_example:
  "room_serve example_web ''t2'' (Space_leave ''s1'') example_db =
     Some (fst left_example, fst (snd left_example), snd (snd left_example))"
proof -
  have "room_serve example_web ''t2'' (Space_leave ''s1'') example_db \<noteq> None" by code_simp
  then show ?thesis by (auto simp: left_example_def)
qed

lemma room_requests_refine_witness:
  "membership_step {} example_db ''u2'' (fst (snd left_example))
     \<and> space_roles (fst (snd left_example)) (''s1'', ''u2'') = None"
proof -
  have "validate_session example_db (we_now example_web) ''t2'' = Some ''u2''"
    and other: "fst (snd left_example) \<noteq> example_db" "space_roles (fst (snd left_example)) (''s1'', ''u2'') = None"
    by code_simp+
  then show ?thesis
    using room_requests_refine [OF left_example] by auto
qed


lemma space_keeps_owner_witness:
  "\<exists>w. space_roles (fst (snd left_example)) (''s1'', w) = Some ''owner''"
proof -
  have "keys_distinct example_db" "space_roles example_db (''s1'', ''u1'') = Some ''owner''"
    "map_option sp_is_archived (find_space_by_id example_db ''s1'') = Some False"
    by code_simp+
  then show ?thesis
    using space_keeps_owner [OF left_example, of "''s1''" _ "''u1''"] by auto
qed


definition example_admins :: db where
  "example_admins = example_db\<lparr>space_members := [\<lparr>sm_space_id = ''s1'', sm_user_id = ''u1'', sm_role = ''owner''\<rparr>,
     \<lparr>sm_space_id = ''s1'', sm_user_id = ''u2'', sm_role = ''admin''\<rparr>]\<rparr>"

lemma admin_makes_himself_owner_witness:
  "\<exists>r1 d1 es1. room_serve example_web ''t2'' (Space_settings ''s1'' (Some owner_default)) example_admins = Some (r1, d1, es1)"
proof -
  have *: "validate_session example_admins (we_now example_web) ''t2'' = Some ''u2''"
    "space_roles example_admins (''s1'', ''u2'') = Some ''admin''" "\<not> server_admin example_admins ''u2''"
    by code_simp+
  have "map_option (\<lambda>s. (sp_is_personal s, varchar_ok 100 (sp_name s), varchar_ok 7 (sp_profile_color s)))
      (find_space_by_id example_admins ''s1'') = Some (False, True, True)"
    by code_simp
  then obtain sp where "find_space_by_id example_admins ''s1'' = Some sp" "\<not> sp_is_personal sp"
    "varchar_ok 100 (sp_name sp)" "varchar_ok 7 (sp_profile_color sp)"
    by auto
  from admin_makes_himself_owner [OF *(1,2) this *(3)] show ?thesis by blast
qed

definition example_outside :: db where
  "example_outside = example_db\<lparr>channel_members := [\<lparr>cm_channel_id = ''c1'', cm_user_id = ''u2'', cm_role = ''read''\<rparr>]\<rparr>"

lemma any_member_opens_channel_witness:
  "\<exists>d' es. room_serve example_web ''t2'' (Conv_add_member ''c1'' (user_body ''u1'')) example_outside = Some (done_reply, d', es)
     \<and> channel_roles d' (''c1'', ''u1'') = Some ''write''"
proof -
  have *: "validate_session example_outside (we_now example_web) ''t2'' = Some ''u2''"
    "is_channel_member example_outside ''c1'' ''u2''" "has_key u_id ''u1'' (users example_outside)"
    "\<not> is_channel_member example_outside ''c1'' ''u1''" "get_effective_role example_outside ''c1'' ''u2'' \<noteq> ''admin''"
    "find_channel_by_id example_outside ''c1'' \<noteq> None"
    by code_simp+
  then obtain ch where "find_channel_by_id example_outside ''c1'' = Some ch" by auto
  from any_member_opens_channel [OF *(1,2) this *(3-5)] show ?thesis by blast
qed

text \<open>A display name of 93 characters: the first listing of spaces is never answered.\<close>

lemma long_name_never_answered:
  "room_serve example_web ''t2'' (Space_list '''' '''')
     (example_db\<lparr>users := [(example_account ''u2'' ''user'')\<lparr>u_display_name := replicate 93 CHR ''n''\<rparr>],
        settings := [(''personal_spaces_enabled'', ''true'')]\<rparr>) = None"
  by code_simp

end
