(* ===== verification/Wiki.thy ===== *)
theory Wiki
  imports Listings Recursive_Query
begin

text \<open>
  The pages of a wiki: the methods of \<open>db/database.cpp\<close> on \<open>wiki_pages\<close>, \<open>wiki_page_versions\<close>,
  \<open>wiki_page_permissions\<close> and \<open>wiki_permissions\<close>. The search column and its index are not modelled. The
  case folding of \<open>LOWER\<close> is a parameter; NULL is the empty string; row ids are non-empty.
\<close>

section \<open>Pages\<close>

definition page_rows :: "db \<Rightarrow> string \<Rightarrow> wiki_page list" where
  "page_rows d i = filter (\<lambda>p. wp_id p = i) (wiki_pages d)"

definition page_parents :: "db \<Rightarrow> wiki_page \<Rightarrow> wiki_page list" where
  "page_parents d p = filter (\<lambda>q. wp_parent_id p \<noteq> [] \<and> wp_id q = wp_parent_id p) (wiki_pages d)"

definition page_children :: "db \<Rightarrow> wiki_page \<Rightarrow> wiki_page list" where
  "page_children d p = filter (\<lambda>q. wp_parent_id q = wp_id p \<and> \<not> wp_is_deleted q) (wiki_pages d)"

definition update_page_rows :: "string \<Rightarrow> (wiki_page \<Rightarrow> wiki_page) \<Rightarrow> db \<Rightarrow> db" where
  "update_page_rows i g d = d\<lparr>wiki_pages := map (\<lambda>p. if wp_id p = i then g p else p) (wiki_pages d)\<rparr>"

text \<open>The unique index on the space, the parent and the lowered slug of rows not deleted.\<close>

definition slug_taken :: "(string \<Rightarrow> string) \<Rightarrow> db \<Rightarrow> wiki_page \<Rightarrow> bool" where
  "slug_taken lower d p \<longleftrightarrow> \<not> wp_is_deleted p \<and>
     list_ex (\<lambda>q. wp_id q \<noteq> wp_id p \<and> \<not> wp_is_deleted q \<and> wp_space_id q = wp_space_id p
        \<and> wp_parent_id q = wp_parent_id p \<and> lower (wp_slug q) = lower (wp_slug p)) (wiki_pages d)"

definition page_widths_ok :: "wiki_page \<Rightarrow> bool" where
  "page_widths_ok p \<longleftrightarrow> varchar_ok 500 (wp_title p) \<and> varchar_ok 500 (wp_slug p) \<and> varchar_ok 50 (wp_icon p)"

definition grant_page_owner :: "string \<Rightarrow> time \<Rightarrow> string \<Rightarrow> string \<Rightarrow> db \<Rightarrow> db" where
  "grant_page_owner perm_id now page_id user_id d =
     (if list_ex (\<lambda>p. wpp_page_id p = page_id \<and> wpp_user_id p = user_id) (wiki_page_permissions d) then d
      else d\<lparr>wiki_page_permissions := wiki_page_permissions d @
        [\<lparr>wpp_id = perm_id, wpp_page_id = page_id, wpp_user_id = user_id, wpp_permission = ''owner'',
          wpp_granted_by = user_id, wpp_created_at = now\<rparr>]\<rparr>)"

definition create_wiki_page ::
  "(string \<Rightarrow> string) \<Rightarrow> db \<Rightarrow> string \<Rightarrow> string \<Rightarrow> time \<Rightarrow> string \<Rightarrow> string \<Rightarrow> string \<Rightarrow> string \<Rightarrow> bool
     \<Rightarrow> string \<Rightarrow> string \<Rightarrow> string \<Rightarrow> int \<Rightarrow> string \<Rightarrow> db_error + wiki_page \<times> db" where
  "create_wiki_page lower d new_id perm_id now space_id parent_id title slug is_folder content content_text
       icon position created_by =
     (let p = \<lparr>wp_id = new_id, wp_space_id = space_id, wp_parent_id = parent_id, wp_title = title,
               wp_slug = slug, wp_is_folder = is_folder, wp_content = content,
               wp_content_text = content_text, wp_icon = icon, wp_cover_image_file_id = '''',
               wp_position = position, wp_is_deleted = False, wp_created_by = created_by,
               wp_created_at = now, wp_updated_at = now, wp_last_edited_by = created_by\<rparr>
      in if \<not> page_widths_ok p then Inl too_long
         else if has_key wp_id new_id (wiki_pages d) \<or> slug_taken lower d p then Inl UniqueViolation
         else if has_key sp_id space_id (spaces d) \<and> ref_ok wp_id parent_id (wiki_pages d)
                 \<and> has_key u_id created_by (users d)
         then Inr (p, grant_page_owner perm_id now new_id created_by
                        (d\<lparr>wiki_pages := wiki_pages d @ [p]\<rparr>))
         else Inl ForeignKeyViolation)"

text \<open>\<open>ORDER BY is_folder DESC, position ASC, title ASC\<close>.\<close>

definition order_pages :: "pg \<Rightarrow> wiki_page list \<Rightarrow> wiki_page list" where
  "order_pages pg ps =
     sort_key (\<lambda>p. if wp_is_folder p then 0 else 1 :: nat)
       (sort_key wp_position (order_by_name pg wp_title ps))"

definition list_wiki_pages :: "pg \<Rightarrow> db \<Rightarrow> string \<Rightarrow> string \<Rightarrow> wiki_page list" where
  "list_wiki_pages pg d space_id parent_id =
     order_pages pg (filter (\<lambda>p. wp_space_id p = space_id \<and> \<not> wp_is_deleted p
        \<and> wp_parent_id p = parent_id) (wiki_pages d))"

definition get_wiki_tree :: "pg \<Rightarrow> db \<Rightarrow> string \<Rightarrow> wiki_page list" where
  "get_wiki_tree pg d space_id =
     order_pages pg (filter (\<lambda>p. wp_space_id p = space_id \<and> \<not> wp_is_deleted p) (wiki_pages d))"

definition replace_page ::
  "(string \<Rightarrow> string) \<Rightarrow> db \<Rightarrow> string \<Rightarrow> (wiki_page \<Rightarrow> wiki_page) \<Rightarrow> (db_error + wiki_page \<times> db) option" where
  "replace_page lower d i g =
     (case first_row (page_rows d i) of
        None \<Rightarrow> None
      | Some p \<Rightarrow> Some
          (if \<not> page_widths_ok (g p) then Inl too_long
           else if slug_taken lower d (g p) then Inl UniqueViolation
           else if \<not> ref_ok wp_id (wp_parent_id (g p)) (wiki_pages d) then Inl ForeignKeyViolation
           else Inr (g p, update_page_rows i g d)))"

text \<open>Reading the row of an update that found none throws.\<close>

definition update_wiki_page ::
  "(string \<Rightarrow> string) \<Rightarrow> db \<Rightarrow> time \<Rightarrow> string \<Rightarrow> string \<Rightarrow> string \<Rightarrow> string \<Rightarrow> string \<Rightarrow> string \<Rightarrow> string \<Rightarrow> string
     \<Rightarrow> db_error + wiki_page \<times> db" where
  "update_wiki_page lower d now page_id title slug content content_text icon cover_image_file_id edited_by =
     (case replace_page lower d page_id (\<lambda>p. p\<lparr>wp_title := title, wp_slug := slug, wp_content := content,
              wp_content_text := content_text, wp_icon := icon, wp_cover_image_file_id := cover_image_file_id,
              wp_last_edited_by := edited_by, wp_updated_at := now\<rparr>) of
        None \<Rightarrow> Inl (Runtime ''row number out of range'')
      | Some (Inl e) \<Rightarrow> Inl e
      | Some (Inr r) \<Rightarrow> if has_key u_id edited_by (users d) then Inr r else Inl ForeignKeyViolation)"

definition move_wiki_page :: "(string \<Rightarrow> string) \<Rightarrow> db \<Rightarrow> time \<Rightarrow> string \<Rightarrow> string \<Rightarrow> db_error + db" where
  "move_wiki_page lower d now page_id new_parent_id =
     (case replace_page lower d page_id (\<lambda>p. p\<lparr>wp_parent_id := new_parent_id, wp_updated_at := now\<rparr>) of
        None \<Rightarrow> Inr d | Some (Inl e) \<Rightarrow> Inl e | Some (Inr (p, d1)) \<Rightarrow> Inr d1)"

definition reorder_wiki_pages :: "db \<Rightarrow> (string \<times> int) list \<Rightarrow> db" where
  "reorder_wiki_pages d page_positions =
     fold (\<lambda>(page_id, position). update_page_rows page_id (\<lambda>p. p\<lparr>wp_position := position\<rparr>)) page_positions d"

definition soft_delete_wiki_page :: "db \<Rightarrow> time \<Rightarrow> string \<Rightarrow> db option" where
  "soft_delete_wiki_page d now page_id = do {
     rows \<leftarrow> closure (page_children d) (page_rows d page_id);
     Some (d\<lparr>wiki_pages := map (\<lambda>p. if wp_id p \<in> set (map wp_id rows)
       then p\<lparr>wp_is_deleted := True, wp_updated_at := now\<rparr> else p) (wiki_pages d)\<rparr>) }"

text \<open>From the root down to the page itself.\<close>

definition get_wiki_page_path :: "db \<Rightarrow> string \<Rightarrow> (string \<times> string) list option" where
  "get_wiki_page_path d page_id = do {
     ancestors \<leftarrow> closure (page_parents d) (page_rows d page_id);
     Some (map (\<lambda>p. (wp_id p, wp_title p)) (rev ancestors)) }"

definition wiki_page_slug_exists ::
  "(string \<Rightarrow> string) \<Rightarrow> db \<Rightarrow> string \<Rightarrow> string \<Rightarrow> string \<Rightarrow> string \<Rightarrow> bool" where
  "wiki_page_slug_exists lower d space_id parent_id exclude_id slug =
     (filter (\<lambda>p. wp_space_id p = space_id \<and> \<not> wp_is_deleted p \<and> wp_parent_id p = parent_id
        \<and> lower (wp_slug p) = lower slug \<and> (exclude_id = [] \<or> wp_id p \<noteq> exclude_id)) (wiki_pages d) \<noteq> [])"

section \<open>Versions\<close>

definition next_page_version :: "db \<Rightarrow> string \<Rightarrow> int" where
  "next_page_version d page_id =
     (case map wv_version_number (filter (\<lambda>v. wv_page_id v = page_id) (wiki_page_versions d)) of
        [] \<Rightarrow> 0 | n # ns \<Rightarrow> foldl max n ns) + 1"

definition create_wiki_page_version ::
  "db \<Rightarrow> string \<Rightarrow> time \<Rightarrow> string \<Rightarrow> string \<Rightarrow> string \<Rightarrow> string \<Rightarrow> string \<Rightarrow> bool \<Rightarrow> db_error + db" where
  "create_wiki_page_version d new_id now page_id title content content_text edited_by is_major =
     (if \<not> varchar_ok 500 title then Inl too_long
      else if has_key wv_id new_id (wiki_page_versions d) then Inl UniqueViolation
      else if has_key wp_id page_id (wiki_pages d) \<and> has_key u_id edited_by (users d)
      then Inr (d\<lparr>wiki_page_versions := wiki_page_versions d @
        [\<lparr>wv_id = new_id, wv_page_id = page_id, wv_version_number = next_page_version d page_id,
          wv_title = title, wv_content = content, wv_content_text = content_text, wv_is_major = is_major,
          wv_edited_by = edited_by, wv_created_at = now\<rparr>]\<rparr>)
      else Inl ForeignKeyViolation)"

definition list_wiki_page_versions :: "db \<Rightarrow> string \<Rightarrow> bool \<Rightarrow> wiki_page_version list" where
  "list_wiki_page_versions d page_id major_only =
     sort_key (\<lambda>v. - wv_version_number v)
       (filter (\<lambda>v. wv_page_id v = page_id \<and> (major_only \<longrightarrow> wv_is_major v)) (wiki_page_versions d))"

text \<open>\<open>is_major\<close> is not among the selected columns, so that its default remains.\<close>

definition get_wiki_page_version :: "db \<Rightarrow> string \<Rightarrow> wiki_page_version option" where
  "get_wiki_page_version d version_id =
     map_option (\<lambda>v. v\<lparr>wv_is_major := False\<rparr>)
       (first_row (filter (\<lambda>v. wv_id v = version_id) (wiki_page_versions d)))"

section \<open>Permissions\<close>

definition set_wiki_page_permission ::
  "db \<Rightarrow> string \<Rightarrow> time \<Rightarrow> string \<Rightarrow> string \<Rightarrow> string \<Rightarrow> string \<Rightarrow> db_error + db" where
  "set_wiki_page_permission d new_id now page_id user_id permission granted_by =
     (if \<not> varchar_ok 20 permission then Inl too_long
      else if \<not> (has_key wp_id page_id (wiki_pages d) \<and> has_key u_id user_id (users d)
                 \<and> has_key u_id granted_by (users d))
      then Inl ForeignKeyViolation
      else if list_ex (\<lambda>p. wpp_page_id p = page_id \<and> wpp_user_id p = user_id) (wiki_page_permissions d)
      then Inr (d\<lparr>wiki_page_permissions := map (\<lambda>p. if wpp_page_id p = page_id \<and> wpp_user_id p = user_id
             then p\<lparr>wpp_permission := permission, wpp_granted_by := granted_by\<rparr> else p) (wiki_page_permissions d)\<rparr>)
      else Inr (d\<lparr>wiki_page_permissions := wiki_page_permissions d @
        [\<lparr>wpp_id = new_id, wpp_page_id = page_id, wpp_user_id = user_id, wpp_permission = permission,
          wpp_granted_by = granted_by, wpp_created_at = now\<rparr>]\<rparr>))"

definition remove_wiki_page_permission :: "db \<Rightarrow> string \<Rightarrow> string \<Rightarrow> db" where
  "remove_wiki_page_permission d page_id user_id =
     d\<lparr>wiki_page_permissions := filter (\<lambda>p. \<not> (wpp_page_id p = page_id \<and> wpp_user_id p = user_id))
        (wiki_page_permissions d)\<rparr>"

text \<open>The rank that SQL gives a permission: \<open>owner\<close>, then \<open>edit\<close>, then any other.\<close>

definition grant_rank :: "string \<Rightarrow> nat" where
  "grant_rank p = (if p = ''owner'' then 2 else if p = ''edit'' then 1 else 0)"

definition get_wiki_page_permissions :: "pg \<Rightarrow> db \<Rightarrow> string \<Rightarrow> (wiki_page_permission \<times> user) list" where
  "get_wiki_page_permissions pg d page_id =
     sort_key (\<lambda>(p, u). 2 - grant_rank (wpp_permission p))
       (sort_key (\<lambda>(p, u). pg_collate pg (u_username u))
         (concat (map (\<lambda>p. map (Pair p) (filter (\<lambda>u. u_id u = wpp_user_id p) (users d)))
            (filter (\<lambda>p. wpp_page_id p = page_id) (wiki_page_permissions d)))))"

text \<open>
  The highest permission on the page or one of its ancestors; without any, \<open>owner\<close> for the creator
  and \<open>view\<close> for everybody else.
\<close>

definition get_effective_wiki_page_permission :: "db \<Rightarrow> string \<Rightarrow> string \<Rightarrow> string option" where
  "get_effective_wiki_page_permission d page_id user_id = do {
     ancestors \<leftarrow> closure (page_parents d) (page_rows d page_id);
     (case first_row (sort_key (\<lambda>p. 2 - grant_rank (wpp_permission p))
             (filter (\<lambda>p. wpp_user_id p = user_id \<and> wpp_page_id p \<in> set (map wp_id ancestors))
               (wiki_page_permissions d))) of
        Some p \<Rightarrow> Some (wpp_permission p)
      | None \<Rightarrow>
          (if list_ex (\<lambda>p. wp_id p = page_id \<and> wp_created_by p = user_id) (wiki_pages d)
           then Some ''owner'' else Some ''view'')) }"

definition set_wiki_permission ::
  "db \<Rightarrow> string \<Rightarrow> time \<Rightarrow> string \<Rightarrow> string \<Rightarrow> string \<Rightarrow> string \<Rightarrow> db_error + db" where
  "set_wiki_permission d new_id now space_id user_id permission granted_by =
     (if \<not> varchar_ok 20 permission then Inl too_long
      else if \<not> (has_key sp_id space_id (spaces d) \<and> has_key u_id user_id (users d)
                 \<and> has_key u_id granted_by (users d))
      then Inl ForeignKeyViolation
      else if list_ex (\<lambda>p. wk_space_id p = space_id \<and> wk_user_id p = user_id) (wiki_permissions d)
      then Inr (d\<lparr>wiki_permissions := map (\<lambda>p. if wk_space_id p = space_id \<and> wk_user_id p = user_id
             then p\<lparr>wk_permission := permission, wk_granted_by := granted_by\<rparr> else p) (wiki_permissions d)\<rparr>)
      else Inr (d\<lparr>wiki_permissions := wiki_permissions d @
        [\<lparr>wk_id = new_id, wk_space_id = space_id, wk_user_id = user_id, wk_permission = permission,
          wk_granted_by = granted_by, wk_created_at = now\<rparr>]\<rparr>))"

definition remove_wiki_permission :: "db \<Rightarrow> string \<Rightarrow> string \<Rightarrow> db" where
  "remove_wiki_permission d space_id user_id =
     d\<lparr>wiki_permissions := filter (\<lambda>p. \<not> (wk_space_id p = space_id \<and> wk_user_id p = user_id))
        (wiki_permissions d)\<rparr>"

definition get_wiki_permissions :: "db \<Rightarrow> string \<Rightarrow> (wiki_permission \<times> user) list" where
  "get_wiki_permissions d space_id =
     concat (map (\<lambda>p. map (Pair p) (filter (\<lambda>u. u_id u = wk_user_id p) (users d)))
       (filter (\<lambda>p. wk_space_id p = space_id) (wiki_permissions d)))"

definition get_wiki_permission :: "db \<Rightarrow> string \<Rightarrow> string \<Rightarrow> string" where
  "get_wiki_permission d space_id user_id =
     (case first_row (filter (\<lambda>p. wk_space_id p = space_id \<and> wk_user_id p = user_id) (wiki_permissions d)) of
        None \<Rightarrow> '''' | Some p \<Rightarrow> wk_permission p)"

end
