(* ===== verification/Wiki_Handler.thy ===== *)
theory Wiki_Handler
  imports Wiki Web
begin

text \<open>
  The endpoints of \<open>handlers/wiki_handler.cpp\<close> on pages, versions and permissions. The answer None is a
  request that is never answered: a recursive query on a cycle of pages does not end.
\<close>

section \<open>Slugs\<close>

text \<open>Runs of hyphens become one; the flag is \<open>prev_hyphen\<close>.\<close>

fun collapse_hyphens :: "bool \<Rightarrow> string \<Rightarrow> string" where
  "collapse_hyphens prev [] = []"
| "collapse_hyphens prev (c # cs) =
     (if c = CHR ''-'' then (if prev then [] else [c]) @ collapse_hyphens True cs
      else c # collapse_hyphens False cs)"

definition trim_hyphens :: "string \<Rightarrow> string" where
  "trim_hyphens s = rev (dropWhile (\<lambda>c. c = CHR ''-'') (rev (dropWhile (\<lambda>c. c = CHR ''-'') s)))"

definition generate_slug :: "string \<Rightarrow> string" where
  "generate_slug title =
     (let slug = map (\<lambda>c. if is_alnum c then lower_char c else CHR ''-'') title;
          result = collapse_hyphens False slug
      in if trim_hyphens result = [] then ''page'' else trim_hyphens result)"

definition slug_of_title :: "string \<Rightarrow> string" where
  "slug_of_title title = (let slug = generate_slug title in if slug = [] then ''page'' else slug)"

text \<open>The search for a free suffix; None is the overflow of the counter.\<close>

partial_function (option) free_suffix :: "(string \<Rightarrow> bool) \<Rightarrow> string \<Rightarrow> int \<Rightarrow> string option" where
  [code]: "free_suffix taken slug suffix =
     (if suffix > i32_max then None
      else if taken (slug @ ''-'' @ int_str suffix) then free_suffix taken slug (suffix + 1)
      else Some (slug @ ''-'' @ int_str suffix))"

definition unique_slug :: "(string \<Rightarrow> bool) \<Rightarrow> string \<Rightarrow> string option" where
  "unique_slug taken slug = (if taken slug then free_suffix taken slug 2 else Some slug)"

section \<open>JSON\<close>

definition page_to_json :: "wiki_page \<Rightarrow> string \<Rightarrow> string \<Rightarrow> string \<Rightarrow> string \<Rightarrow> (string \<times> json) list" where
  "page_to_json p creator editor created updated =
     [(''id'', JString (wp_id p)), (''space_id'', JString (wp_space_id p)),
      (''parent_id'', if wp_parent_id p = [] then JNull else JString (wp_parent_id p)),
      (''title'', JString (wp_title p)), (''slug'', JString (wp_slug p)), (''is_folder'', JBool (wp_is_folder p)),
      (''content'', JString (wp_content p)), (''content_text'', JString (wp_content_text p)),
      (''icon'', JString (wp_icon p)), (''cover_image_file_id'', JString (wp_cover_image_file_id p)),
      (''position'', JInt (wp_position p)), (''is_deleted'', JBool (wp_is_deleted p)),
      (''created_by'', JString (wp_created_by p)), (''created_by_username'', JString creator),
      (''created_at'', JString created), (''updated_at'', JString updated),
      (''last_edited_by'', JString (wp_last_edited_by p)), (''last_edited_by_username'', JString editor)]"

text \<open>A row with the names of its users.\<close>

definition page_row_json :: "web_env \<Rightarrow> db \<Rightarrow> wiki_page \<Rightarrow> (string \<times> json) list" where
  "page_row_json env d p = page_to_json p (username_of_id d (wp_created_by p)) (username_of_id d (wp_last_edited_by p))
     (we_time_text env (wp_created_at p)) (we_time_text env (wp_updated_at p))"

text \<open>The sidebar query selects only some columns.\<close>

definition tree_row_json :: "db \<Rightarrow> wiki_page \<Rightarrow> (string \<times> json) list" where
  "tree_row_json d p = page_to_json
     (p\<lparr>wp_space_id := '''', wp_content := '''', wp_content_text := '''', wp_cover_image_file_id := '''',
        wp_created_by := '''', wp_last_edited_by := ''''\<rparr>) (username_of_id d (wp_created_by p)) '''' '''' ''''"

definition version_to_json :: "web_env \<Rightarrow> db \<Rightarrow> wiki_page_version \<Rightarrow> json" where
  "version_to_json env d v =
     JObject [(''id'', JString (wv_id v)), (''page_id'', JString (wv_page_id v)),
       (''version_number'', JInt (wv_version_number v)), (''title'', JString (wv_title v)),
       (''content'', JString (wv_content v)), (''content_text'', JString (wv_content_text v)),
       (''is_major'', JBool (wv_is_major v)), (''edited_by'', JString (wv_edited_by v)),
       (''edited_by_username'', JString (username_of_id d (wv_edited_by v))),
       (''created_at'', JString (we_time_text env (wv_created_at v)))]"

text \<open>The fields that permissions of pages and of spaces share, after the id of what is shared.\<close>

definition grant_json :: "web_env \<Rightarrow> db \<Rightarrow> string \<Rightarrow> string \<times> string \<Rightarrow> user \<Rightarrow> string \<Rightarrow> string \<Rightarrow> time \<Rightarrow> json" where
  "grant_json env d i subject u permission granted_by created_at =
     JObject [(''id'', JString i), (fst subject, JString (snd subject)), (''user_id'', JString (u_id u)),
       (''username'', JString (u_username u)), (''display_name'', JString (u_display_name u)),
       (''permission'', JString permission), (''granted_by'', JString granted_by),
       (''granted_by_username'', JString (username_of_id d granted_by)),
       (''created_at'', JString (we_time_text env created_at))]"

definition page_permission_to_json :: "web_env \<Rightarrow> db \<Rightarrow> wiki_page_permission \<times> user \<Rightarrow> json" where
  "page_permission_to_json env d = (\<lambda>(p, u). grant_json env d (wpp_id p) (''page_id'', wpp_page_id p) u
     (wpp_permission p) (wpp_granted_by p) (wpp_created_at p))"

definition wiki_permission_to_json :: "web_env \<Rightarrow> db \<Rightarrow> wiki_permission \<times> user \<Rightarrow> json" where
  "wiki_permission_to_json env d = (\<lambda>(p, u). grant_json env d (wk_id p) (''space_id'', wk_space_id p) u
     (wk_permission p) (wk_granted_by p) (wk_created_at p))"

section \<open>Access\<close>

definition check_wiki_access :: "db \<Rightarrow> string \<Rightarrow> string \<Rightarrow> bool" where
  "check_wiki_access d space_id user_id \<longleftrightarrow>
     is_space_member d space_id user_id \<or> server_admin d user_id
     \<or> (is_personal_space d space_id \<and> has_wiki_permission_in_space d space_id user_id)"

definition wiki_access_level :: "db \<Rightarrow> string \<Rightarrow> string \<Rightarrow> string" where
  "wiki_access_level d space_id user_id =
     (if server_admin d user_id then ''owner''
      else if is_admin_role (get_space_member_role d space_id user_id) then ''owner''
      else let wiki_perm = get_wiki_permission d space_id user_id
           in if wiki_perm \<noteq> [] then wiki_perm else ''view'')"

definition wiki_perm_rank :: "string \<Rightarrow> int" where
  "wiki_perm_rank p = (if p = ''owner'' then 2 else if p = ''edit'' then 1 else 0)"

definition page_access_level :: "db \<Rightarrow> string \<Rightarrow> string \<Rightarrow> string \<Rightarrow> string option" where
  "page_access_level d space_id page_id user_id = do {
     let base = wiki_access_level d space_id user_id;
     page_perm \<leftarrow> get_effective_wiki_page_permission d page_id user_id;
     Some (if page_perm \<noteq> [] \<and> wiki_perm_rank page_perm > wiki_perm_rank base then page_perm else base) }"

definition with_wiki_access :: "string \<Rightarrow> string \<Rightarrow> (db \<Rightarrow> db outcome) \<Rightarrow> db \<Rightarrow> db outcome" where
  "with_wiki_access space_id user_id rest d =
     (if check_wiki_access d space_id user_id then rest d
      else refuse ''403'' ''Not a member of this space'' d)"

definition with_wiki_level :: "string \<Rightarrow> string \<Rightarrow> string \<Rightarrow> (db \<Rightarrow> db outcome) \<Rightarrow> db \<Rightarrow> db outcome" where
  "with_wiki_level space_id user_id required_level rest d =
     (if wiki_perm_rank required_level \<le> wiki_perm_rank (wiki_access_level d space_id user_id) then rest d
      else refuse ''403'' (''Requires '' @ required_level @ '' permission'') d)"

definition with_page_level ::
  "string \<Rightarrow> string \<Rightarrow> string \<Rightarrow> string \<Rightarrow> (db \<Rightarrow> db outcome) \<Rightarrow> db \<Rightarrow> db outcome" where
  "with_page_level space_id page_id user_id required_level rest d = do {
     level \<leftarrow> page_access_level d space_id page_id user_id;
     if wiki_perm_rank required_level \<le> wiki_perm_rank level then rest d
     else refuse ''403'' (''Requires '' @ required_level @ '' permission'') d }"

definition live_page :: "db \<Rightarrow> string \<Rightarrow> string \<Rightarrow> wiki_page option" where
  "live_page d space_id page_id =
     (case find_wiki_page d page_id of
        None \<Rightarrow> None | Some p \<Rightarrow> if wp_space_id p \<noteq> space_id \<or> wp_is_deleted p then None else Some p)"

definition with_live_page ::
  "string \<Rightarrow> string \<Rightarrow> (wiki_page \<Rightarrow> db \<Rightarrow> db outcome) \<Rightarrow> db \<Rightarrow> db outcome" where
  "with_live_page space_id page_id rest d =
     (case live_page d space_id page_id of
        None \<Rightarrow> refuse ''404'' ''Page not found'' d | Some p \<Rightarrow> rest p d)"

text \<open>The checks in front of the endpoints of a space and of a page.\<close>

definition in_wiki ::
  "web_env \<Rightarrow> string \<Rightarrow> string \<Rightarrow> string \<Rightarrow> (string \<Rightarrow> db \<Rightarrow> db outcome) \<Rightarrow> db \<Rightarrow> db outcome" where
  "in_wiki env token space_id required_level rest =
     signed_in env token (\<lambda>user_id. with_wiki_access space_id user_id
       (with_wiki_level space_id user_id required_level (rest user_id)))"

definition at_page_level ::
  "web_env \<Rightarrow> string \<Rightarrow> string \<Rightarrow> string \<Rightarrow> string \<Rightarrow> (string \<Rightarrow> db \<Rightarrow> db outcome) \<Rightarrow> db \<Rightarrow> db outcome" where
  "at_page_level env token space_id page_id required_level rest =
     signed_in env token (\<lambda>user_id. with_wiki_access space_id user_id
       (with_page_level space_id page_id user_id required_level (rest user_id)))"

definition on_page ::
  "web_env \<Rightarrow> string \<Rightarrow> string \<Rightarrow> string \<Rightarrow> string \<Rightarrow> (string \<Rightarrow> wiki_page \<Rightarrow> db \<Rightarrow> db outcome) \<Rightarrow> db \<Rightarrow> db outcome" where
  "on_page env token space_id page_id required_level rest =
     at_page_level env token space_id page_id required_level
       (\<lambda>user_id. with_live_page space_id page_id (rest user_id))"

text \<open>An id from a body that is cast to a UUID.\<close>

definition uuid_or_fail :: "web_env \<Rightarrow> string \<Rightarrow> ('s \<Rightarrow> 's outcome) \<Rightarrow> 's \<Rightarrow> 's outcome" where
  "uuid_or_fail env i rest d = (if pg_is_uuid (we_pg env) i then rest d else failed env Invalid_uuid d)"

section \<open>Reading\<close>

definition wiki_list :: "web_env \<Rightarrow> string \<Rightarrow> string \<Rightarrow> string \<Rightarrow> db \<Rightarrow> db outcome" where
  "wiki_list env token space_id parent_id =
     in_wiki env token space_id ''view'' (\<lambda>user_id d.
       answer (JObject
         [(''pages'', JArray (map (\<lambda>p. JObject (page_row_json env d p)) (list_wiki_pages (we_pg env) d space_id parent_id))),
          (''my_permission'', JString (wiki_access_level d space_id user_id))]) d [])"

definition wiki_tree :: "web_env \<Rightarrow> string \<Rightarrow> string \<Rightarrow> db \<Rightarrow> db outcome" where
  "wiki_tree env token space_id =
     in_wiki env token space_id ''view'' (\<lambda>user_id d.
       answer (JObject
         [(''pages'', JArray (map (\<lambda>p. JObject (tree_row_json d p)) (get_wiki_tree (we_pg env) d space_id))),
          (''my_permission'', JString (wiki_access_level d space_id user_id))]) d [])"

text \<open>The path query does not select the slug, so that every slug in the path is empty.\<close>

definition wiki_get :: "web_env \<Rightarrow> string \<Rightarrow> string \<Rightarrow> string \<Rightarrow> db \<Rightarrow> db outcome" where
  "wiki_get env token space_id page_id =
     on_page env token space_id page_id ''view'' (\<lambda>user_id page d. do {
       my_permission \<leftarrow> page_access_level d space_id page_id user_id;
       path \<leftarrow> get_wiki_page_path d page_id;
       answer (JObject (page_row_json env d page @
         [(''my_permission'', JString my_permission),
          (''path'', JArray (map (\<lambda>(i, title). JObject [(''id'', JString i), (''title'', JString title),
             (''slug'', JString '''')]) path))])) d [] })"

definition wiki_versions :: "web_env \<Rightarrow> string \<Rightarrow> string \<Rightarrow> string \<Rightarrow> db \<Rightarrow> db outcome" where
  "wiki_versions env token space_id page_id =
     on_page env token space_id page_id ''view'' (\<lambda>user_id page d.
       answer (JObject [(''versions'',
         JArray (map (version_to_json env d) (list_wiki_page_versions d page_id True)))]) d [])"

definition with_version ::
  "string \<Rightarrow> string \<Rightarrow> (wiki_page_version \<Rightarrow> db \<Rightarrow> db outcome) \<Rightarrow> db \<Rightarrow> db outcome" where
  "with_version page_id version_id rest d =
     (case get_wiki_page_version d version_id of
        None \<Rightarrow> refuse ''404'' ''Version not found'' d
      | Some v \<Rightarrow> if wv_page_id v \<noteq> page_id then refuse ''404'' ''Version not found'' d else rest v d)"

definition wiki_version_get :: "web_env \<Rightarrow> string \<Rightarrow> string \<Rightarrow> string \<Rightarrow> string \<Rightarrow> db \<Rightarrow> db outcome" where
  "wiki_version_get env token space_id page_id version_id =
     on_page env token space_id page_id ''view'' (\<lambda>user_id page.
       with_version page_id version_id (\<lambda>v d. answer (version_to_json env d v) d []))"

section \<open>Creating and editing\<close>

text \<open>The new page is committed before its first version.\<close>

definition create_with_version ::
  "web_env \<Rightarrow> string \<Rightarrow> string \<Rightarrow> string \<Rightarrow> string \<Rightarrow> string \<Rightarrow> bool \<Rightarrow> string \<Rightarrow> string \<Rightarrow> int \<Rightarrow> db \<Rightarrow> db outcome" where
  "create_with_version env space_id user_id parent_id title slug is_folder content icon position d =
     (if parent_id \<noteq> [] \<and> \<not> pg_is_uuid (we_pg env) parent_id then failed env Invalid_uuid d
      else db_or_fail env
        (create_wiki_page (pg_lower (we_pg env)) d (we_id env 0) (we_id env 1) (we_now env) space_id parent_id
           title slug is_folder content content icon position user_id)
        (\<lambda>(page, d1) _. db_or_fail env
          (create_wiki_page_version d1 (we_id env 2) (we_now env) (wp_id page) title content content user_id True)
          (\<lambda>d2 _. answer (JObject (page_to_json page (username_of_id d2 user_id) ''''
                   (we_time_text env (wp_created_at page)) (we_time_text env (wp_updated_at page)))) d2 []) d1) d)"

definition wiki_create :: "web_env \<Rightarrow> string \<Rightarrow> string \<Rightarrow> json option \<Rightarrow> db \<Rightarrow> db outcome" where
  "wiki_create env token space_id body =
     in_wiki env token space_id ''edit'' (\<lambda>user_id. with_body env body (\<lambda>j.
       or_fail env (at_str j ''title'') (\<lambda>title. or_fail env (value_str j ''parent_id'' '''') (\<lambda>parent_id.
       or_fail env (value_bool j ''is_folder'' False) (\<lambda>is_folder. or_fail env (value_str j ''content'' '''') (\<lambda>content.
       or_fail env (value_str j ''icon'' '''') (\<lambda>icon. or_fail env (value_int j ''position'' 0) (\<lambda>position d.
       if title = [] \<or> length title > 255 then refuse ''400'' ''Title is required (max 255 characters)'' d
       else do {
         slug \<leftarrow> unique_slug (wiki_page_slug_exists (pg_lower (we_pg env)) d space_id parent_id '''') (slug_of_title title);
         create_with_version env space_id user_id parent_id title slug is_folder content icon position d }))))))))"

text \<open>A snapshot of what is about to be replaced, unless the newest major version has it.\<close>

definition snapshot_before :: "web_env \<Rightarrow> string \<Rightarrow> wiki_page \<Rightarrow> db \<Rightarrow> db_error + db" where
  "snapshot_before env user_id existing d =
     (case list_wiki_page_versions d (wp_id existing) True of
        v # _ \<Rightarrow>
          if wv_title v \<noteq> wp_title existing \<or> wv_content v \<noteq> wp_content existing
          then create_wiki_page_version d (we_id env 0) (we_now env) (wp_id existing) (wp_title existing)
                 (wp_content existing) (wp_content_text existing) user_id True
          else Inr d
      | [] \<Rightarrow> create_wiki_page_version d (we_id env 0) (we_now env) (wp_id existing) (wp_title existing)
                (wp_content existing) (wp_content_text existing) user_id True)"

text \<open>The answer to a change of a page.\<close>

definition page_changed :: "web_env \<Rightarrow> string \<Rightarrow> wiki_page \<Rightarrow> db \<Rightarrow> db outcome" where
  "page_changed env user_id page d =
     answer (JObject (page_to_json page (username_of_id d (wp_created_by page)) (username_of_id d user_id)
       (we_time_text env (wp_created_at page)) (we_time_text env (wp_updated_at page)))) d []"

definition wiki_update :: "web_env \<Rightarrow> string \<Rightarrow> string \<Rightarrow> string \<Rightarrow> json option \<Rightarrow> db \<Rightarrow> db outcome" where
  "wiki_update env token space_id page_id body =
     on_page env token space_id page_id ''edit'' (\<lambda>user_id existing. with_body env body (\<lambda>j.
       or_fail env (value_str j ''title'' (wp_title existing)) (\<lambda>title.
       or_fail env (value_str j ''content'' (wp_content existing)) (\<lambda>content.
       or_fail env (value_str j ''icon'' (wp_icon existing)) (\<lambda>icon.
       or_fail env (value_str j ''cover_image_file_id'' (wp_cover_image_file_id existing)) (\<lambda>cover.
       or_fail env (value_bool j ''create_version'' False) (\<lambda>create_version d. do {
         slug \<leftarrow> (if title = wp_title existing then Some (wp_slug existing)
                  else unique_slug (wiki_page_slug_exists (pg_lower (we_pg env)) d space_id (wp_parent_id existing) page_id)
                         (slug_of_title title));
         db_or_fail env (if create_version then snapshot_before env user_id existing d else Inr d) (\<lambda>d1 _.
           db_or_fail env (update_wiki_page (pg_lower (we_pg env)) d1 (we_now env) page_id title slug content content
               icon cover user_id)
             (\<lambda>(page, d2) _. page_changed env user_id page d2) d1) d })))))))"

text \<open>Keeps what the page has now as a version, then writes the old version over it.\<close>

definition wiki_revert :: "web_env \<Rightarrow> string \<Rightarrow> string \<Rightarrow> string \<Rightarrow> string \<Rightarrow> db \<Rightarrow> db outcome" where
  "wiki_revert env token space_id page_id version_id =
     on_page env token space_id page_id ''edit'' (\<lambda>user_id page. with_version page_id version_id (\<lambda>version d.
       db_or_fail env (create_wiki_page_version d (we_id env 0) (we_now env) page_id (wp_title page)
           (wp_content page) (wp_content_text page) user_id False)
         (\<lambda>d1 _. db_or_fail env (update_wiki_page (pg_lower (we_pg env)) d1 (we_now env) page_id (wv_title version)
             (wp_slug page) (wv_content version) (wv_content_text version) (wp_icon page)
             (wp_cover_image_file_id page) user_id)
           (\<lambda>(updated, d2) _. page_changed env user_id updated d2) d1) d))"

section \<open>Deleting, moving and ordering\<close>

definition wiki_delete :: "web_env \<Rightarrow> string \<Rightarrow> string \<Rightarrow> string \<Rightarrow> db \<Rightarrow> db outcome" where
  "wiki_delete env token space_id page_id =
     signed_in env token (\<lambda>user_id. with_wiki_access space_id user_id (with_live_page space_id page_id (\<lambda>page.
       with_page_level space_id page_id user_id (if wp_created_by page = user_id then ''edit'' else ''owner'')
         (\<lambda>d. do { d1 \<leftarrow> soft_delete_wiki_page d (we_now env) page_id; done_with d1 [] }))))"

definition wiki_move :: "web_env \<Rightarrow> string \<Rightarrow> string \<Rightarrow> string \<Rightarrow> json option \<Rightarrow> db \<Rightarrow> db outcome" where
  "wiki_move env token space_id page_id body =
     on_page env token space_id page_id ''edit'' (\<lambda>user_id page. with_body env body (\<lambda>j.
       or_fail env (value_str j ''parent_id'' '''') (\<lambda>new_parent_id d.
         if new_parent_id \<noteq> [] \<and> \<not> pg_is_uuid (we_pg env) new_parent_id then failed env Invalid_uuid d
         else db_or_fail env (move_wiki_page (pg_lower (we_pg env)) d (we_now env) page_id new_parent_id) (\<lambda>d1 _.
           answer (JObject (case find_wiki_page d1 page_id of
               Some updated \<Rightarrow> page_row_json env d1 updated | None \<Rightarrow> page_row_json env d page)) d1 []) d)))"

fun read_positions :: "json list \<Rightarrow> exn + (string \<times> int) list" where
  "read_positions [] = Inr []"
| "read_positions (p # ps) =
     (case at_str p ''id'' of Inl e \<Rightarrow> Inl e | Inr i \<Rightarrow>
      case at_int p ''position'' of Inl e \<Rightarrow> Inl e | Inr n \<Rightarrow>
      case read_positions ps of Inl e \<Rightarrow> Inl e | Inr rest \<Rightarrow> Inr ((i, n) # rest))"

definition positions_of :: "json \<Rightarrow> exn + (string \<times> int) list" where
  "positions_of j = (case json_get j ''positions'' of
     None \<Rightarrow> Inl (Missing_key ''positions'') | Some (JArray ps) \<Rightarrow> read_positions ps
   | Some _ \<Rightarrow> Inl (Wrong_type ''positions''))"

text \<open>One transaction: an id that is no UUID undoes the others.\<close>

definition wiki_reorder :: "web_env \<Rightarrow> string \<Rightarrow> string \<Rightarrow> json option \<Rightarrow> db \<Rightarrow> db outcome" where
  "wiki_reorder env token space_id body =
     in_wiki env token space_id ''edit'' (\<lambda>user_id. with_body env body (\<lambda>j.
       or_fail env (positions_of j) (\<lambda>page_positions d.
         if list_ex (\<lambda>(i, n). \<not> pg_is_uuid (we_pg env) i) page_positions then failed env Invalid_uuid d
         else done_with (reorder_wiki_pages d page_positions) [])))"

section \<open>Permissions\<close>

definition wiki_page_grants :: "web_env \<Rightarrow> string \<Rightarrow> string \<Rightarrow> string \<Rightarrow> db \<Rightarrow> db outcome" where
  "wiki_page_grants env token space_id page_id =
     at_page_level env token space_id page_id ''view'' (\<lambda>user_id d. do {
       my_permission \<leftarrow> page_access_level d space_id page_id user_id;
       answer (JObject
         [(''permissions'', JArray (map (page_permission_to_json env d) (get_wiki_page_permissions (we_pg env) d page_id))),
          (''my_permission'', JString my_permission)]) d [] })"

text \<open>The user and the permission of a grant, as its two endpoints check them.\<close>

definition grant_request ::
  "web_env \<Rightarrow> string \<Rightarrow> json \<Rightarrow> (string \<Rightarrow> string \<Rightarrow> db \<Rightarrow> db outcome) \<Rightarrow> db \<Rightarrow> db outcome" where
  "grant_request env space_id j rest =
     or_fail env (at_str j ''user_id'') (\<lambda>target_user_id. or_fail env (at_str j ''permission'') (\<lambda>permission d.
       if permission \<noteq> ''owner'' \<and> permission \<noteq> ''edit'' \<and> permission \<noteq> ''view''
       then refuse ''400'' ''Invalid permission level'' d
       else if is_personal_space d space_id \<and> permission = ''owner''
       then refuse ''400'' ''Cannot assign owner permission in a personal space'' d
       else uuid_or_fail env target_user_id (rest target_user_id permission) d))"

definition wiki_page_grant :: "web_env \<Rightarrow> string \<Rightarrow> string \<Rightarrow> string \<Rightarrow> json option \<Rightarrow> db \<Rightarrow> db outcome" where
  "wiki_page_grant env token space_id page_id body =
     at_page_level env token space_id page_id ''owner'' (\<lambda>user_id. with_body env body (\<lambda>j.
       grant_request env space_id j (\<lambda>target_user_id permission d.
         db_or_fail env (set_wiki_page_permission d (we_id env 0) (we_now env) page_id target_user_id permission user_id)
           (\<lambda>d1 _. done_with d1 []) d)))"

definition wiki_page_ungrant :: "web_env \<Rightarrow> string \<Rightarrow> string \<Rightarrow> string \<Rightarrow> string \<Rightarrow> db \<Rightarrow> db outcome" where
  "wiki_page_ungrant env token space_id page_id target_user_id =
     at_page_level env token space_id page_id ''owner'' (\<lambda>user_id d.
       done_with (remove_wiki_page_permission d page_id target_user_id) [])"

definition wiki_grants :: "web_env \<Rightarrow> string \<Rightarrow> string \<Rightarrow> db \<Rightarrow> db outcome" where
  "wiki_grants env token space_id =
     in_wiki env token space_id ''view'' (\<lambda>user_id d.
       answer (JObject
         [(''permissions'', JArray (map (wiki_permission_to_json env d) (get_wiki_permissions d space_id))),
          (''my_permission'', JString (wiki_access_level d space_id user_id))]) d [])"

definition wiki_grant :: "web_env \<Rightarrow> string \<Rightarrow> string \<Rightarrow> json option \<Rightarrow> db \<Rightarrow> db outcome" where
  "wiki_grant env token space_id body =
     in_wiki env token space_id ''owner'' (\<lambda>user_id. with_body env body (\<lambda>j.
       grant_request env space_id j (\<lambda>target_user_id permission d.
         db_or_fail env (set_wiki_permission d (we_id env 0) (we_now env) space_id target_user_id permission user_id)
           (\<lambda>d1 _. done_with d1 []) d)))"

definition wiki_ungrant :: "web_env \<Rightarrow> string \<Rightarrow> string \<Rightarrow> string \<Rightarrow> db \<Rightarrow> db outcome" where
  "wiki_ungrant env token space_id target_user_id =
     in_wiki env token space_id ''owner'' (\<lambda>user_id d.
       done_with (remove_wiki_permission d space_id target_user_id) [])"

end
