(* ===== verification/Wiki_Upload.thy ===== *)
theory Wiki_Upload
  imports Wiki_Handler Space_File_Handler
begin

text \<open>
  The uploads of \<open>handlers/wiki_handler.cpp\<close>: pictures of a wiki, stored in chunks and kept as files of the
  space that its file listing does not show. Receiving a chunk is the code of the space files.
\<close>

definition with_wiki_edit :: "string \<Rightarrow> string \<Rightarrow> (store \<Rightarrow> reply answer) \<Rightarrow> store \<Rightarrow> reply answer" where
  "with_wiki_edit space_id user_id rest w =
     (if \<not> check_wiki_access (fst w) space_id user_id then Some (not_member, w)
      else if wiki_perm_rank (wiki_access_level (fst w) space_id user_id) < wiki_perm_rank ''edit''
      then Some (needs_edit, w)
      else rest w)"

text \<open>The limit of all personal spaces together is not checked here.\<close>

definition wiki_over_limit :: "db \<Rightarrow> string \<Rightarrow> int \<Rightarrow> reply option" where
  "wiki_over_limit d space_id bytes =
     (if exceeds_storage_limit (parse_max_storage_size (get_setting d ''max_storage_size''))
           (get_total_file_size d) bytes
      then Some (err_reply ''413'' ''Server storage limit reached'')
      else if exceeds_storage_limit (parse_space_storage_limit (get_setting d (''space_storage_limit_'' @ space_id)))
           (get_space_storage_used d space_id) bytes
      then Some (err_reply ''413'' ''Space storage limit reached'')
      else None)"

definition wiki_upload_init :: "file_env \<Rightarrow> string \<Rightarrow> string \<Rightarrow> json option \<Rightarrow> store \<Rightarrow> reply answer" where
  "wiki_upload_init env token space_id body =
     with_session env token (\<lambda>user_id w.
       let invalid = Some (err_reply ''400'' ''Invalid request body'', w)
       in case body of None \<Rightarrow> invalid | Some j \<Rightarrow>
          case string_value j ''filename'' ''upload'' of None \<Rightarrow> invalid | Some filename \<Rightarrow>
          case string_value j ''content_type'' ''application/octet-stream'' of None \<Rightarrow> invalid | Some content_type \<Rightarrow>
          case request_numbers j of None \<Rightarrow> invalid | Some (total_size, chunk_count, chunk_size) \<Rightarrow>
          if bad_chunking chunk_count chunk_size
          then Some (err_reply ''400'' ''Invalid chunk count or size'', w)
          else with_wiki_edit space_id user_id (\<lambda>(d, fs).
            case too_large env d total_size of Some r \<Rightarrow> Some (r, (d, fs)) | None \<Rightarrow>
            case wiki_over_limit d space_id total_size of Some r \<Rightarrow> Some (r, (d, fs)) | None \<Rightarrow>
            start_upload env user_id (total_size, chunk_count, chunk_size)
              (JObject [(''filename'', JString filename), (''content_type'', JString content_type),
                 (''space_id'', JString space_id)]) (d, fs)) w)"

definition wiki_upload_chunk ::
  "file_env \<Rightarrow> string \<Rightarrow> string \<Rightarrow> string \<Rightarrow> string \<Rightarrow> string \<Rightarrow> store \<Rightarrow> reply answer" where
  "wiki_upload_chunk = upload_chunk"

definition store_wiki_file ::
  "file_env \<Rightarrow> string \<Rightarrow> string \<Rightarrow> string \<Rightarrow> string \<Rightarrow> string \<Rightarrow> string \<Rightarrow> int \<Rightarrow> store \<Rightarrow> reply answer" where
  "store_wiki_file env user_id space_id upload_id filename content_type key bytes = (\<lambda>(d, fs).
     case create_space_file (fe_lower env) d (fe_new_id env) (fe_version_id env) (fe_now env)
         space_id '''' (key @ ''_'' @ filename) key bytes content_type user_id of
       Inl UniqueViolation \<Rightarrow>
         refuse_upload upload_id (err_reply ''409'' ''A file with this name already exists'') (d, fs)
     | Inl e \<Rightarrow> refuse_upload upload_id (err_reply ''500'' (fe_what env (Db_exn e))) (d, fs)
     | Inr (f, d1) \<Rightarrow>
         Some (ok_reply (JObject [(''file_id'', JString (sf_id f)), (''url'', JString (''/api/files/'' @ key))]),
               remove_session upload_id (set_space_file_tool_source d1 (sf_id f) ''wiki'', fs)))"

definition wiki_upload_complete :: "file_env \<Rightarrow> string \<Rightarrow> string \<Rightarrow> string \<Rightarrow> store \<Rightarrow> reply answer" where
  "wiki_upload_complete env token space_id upload_id =
     with_session env token (\<lambda>user_id w.
       case own_upload (fst w) upload_id user_id of
         None \<Rightarrow> Some (err_reply ''404'' ''Upload session not found'', w)
       | Some s \<Rightarrow>
           if \<not> is_complete upload_id w then Some (err_reply ''400'' ''Not all chunks have been uploaded'', w)
           else if \<not> check_wiki_access (fst w) space_id user_id then refuse_upload upload_id not_member w
           else if wiki_perm_rank (wiki_access_level (fst w) space_id user_id) < wiki_perm_rank ''edit''
           then refuse_upload upload_id needs_edit w
           else
             case string_value (us_metadata s) ''filename'' ''upload'' of
               None \<Rightarrow> refuse_upload upload_id (err_reply ''500'' (fe_what env (Not_a_string ''filename''))) w
             | Some filename \<Rightarrow>
             case string_value (us_metadata s) ''content_type'' ''application/octet-stream'' of
               None \<Rightarrow> refuse_upload upload_id (err_reply ''500'' (fe_what env (Not_a_string ''content_type''))) w
             | Some content_type \<Rightarrow>
             with_assembled env s upload_id
               (store_wiki_file env user_id space_id upload_id filename content_type) w)"

end
