(* ===== verification/Wiki_Props.thy ===== *)
theory Wiki_Props
  imports Wiki_Upload Outcomes
begin

text \<open>
  What holds of the wiki: slugs are well formed and the search for a free one ends, pages change only
  by users with the permission for it, histories only grow; and the ways around the permissions.
\<close>

section \<open>Slugs\<close>

definition slug_char :: "char \<Rightarrow> bool" where
  "slug_char c \<longleftrightarrow> is_lower c \<or> is_digit c \<or> c = CHR ''-''"

text \<open>No two hyphens in a row.\<close>

definition apart :: "char \<Rightarrow> char \<Rightarrow> bool" where
  "apart a b \<longleftrightarrow> a \<noteq> CHR ''-'' \<or> b \<noteq> CHR ''-''"

lemma apart_sym: "(\<lambda>a b. apart b a) = apart"
  by (auto simp: apart_def fun_eq_iff)

definition well_formed_slug :: "string \<Rightarrow> bool" where
  "well_formed_slug s \<longleftrightarrow> s \<noteq> [] \<and> list_all slug_char s \<and> hd s \<noteq> CHR ''-'' \<and> last s \<noteq> CHR ''-''
     \<and> successively apart s"

lemma slug_char_title: "slug_char (if is_alnum c then lower_char c else CHR ''-'')"
  by (auto simp: slug_char_def lower_char_def char_class code_of_char_of)

lemma collapse_chars: "list_all slug_char s \<Longrightarrow> list_all slug_char (collapse_hyphens b s)"
  by (induction b s rule: collapse_hyphens.induct) auto

lemma collapse_successive:
  "successively apart (collapse_hyphens b s)
     \<and> (b \<longrightarrow> collapse_hyphens b s = [] \<or> hd (collapse_hyphens b s) \<noteq> CHR ''-'')"
proof (induction b s rule: collapse_hyphens.induct)
  case (2 prev c cs)
  then show ?case by (auto simp: successively_Cons apart_def)
qed simp

lemma dropWhile_last: "dropWhile P xs \<noteq> [] \<Longrightarrow> last (dropWhile P xs) = last xs"
  by (metis dropWhile_eq_drop last_drop dropWhile_eq_Nil_conv drop_eq_Nil not_le)

lemma successively_dropWhile: "successively P xs \<Longrightarrow> successively P (dropWhile Q xs)"
  by (induction xs) (auto simp: successively_Cons)

lemma trim_facts:
  assumes "trim_hyphens s \<noteq> []"
  shows "hd (trim_hyphens s) \<noteq> CHR ''-''" "last (trim_hyphens s) \<noteq> CHR ''-''"
    "set (trim_hyphens s) \<subseteq> set s"
    "successively apart s \<Longrightarrow>
       successively apart (trim_hyphens s)"
proof -
  let ?h = "\<lambda>c. c = CHR ''-''"
  let ?t = "dropWhile ?h s"
  have ne: "dropWhile ?h (rev ?t) \<noteq> []"
    using assms unfolding trim_hyphens_def rev_is_Nil_conv .
  have "?t \<noteq> []"
  proof
    assume t: "?t = []"
    show False using ne unfolding t by simp
  qed
  note ne = ne this
  have "hd (trim_hyphens s) = last (dropWhile ?h (rev ?t))" by (simp add: trim_hyphens_def hd_rev)
  also have "\<dots> = hd ?t" using ne by (simp add: dropWhile_last last_rev)
  finally show "hd (trim_hyphens s) \<noteq> CHR ''-''" using hd_dropWhile [of ?h s] ne by simp
  show "last (trim_hyphens s) \<noteq> CHR ''-''"
    using hd_dropWhile [of ?h "rev ?t"] ne by (simp add: trim_hyphens_def last_rev)
  show "set (trim_hyphens s) \<subseteq> set s"
    by (auto simp: trim_hyphens_def dest!: set_dropWhileD)
  show "successively apart (trim_hyphens s)"
    if "successively apart s"
  proof -
    have "successively apart (rev ?t)"
      using successively_dropWhile [OF that, of ?h] unfolding successively_rev apart_sym .
    then have "successively apart (dropWhile ?h (rev ?t))"
      by (rule successively_dropWhile)
    then show ?thesis unfolding trim_hyphens_def successively_rev apart_sym .
  qed
qed

lemma generated_slug: "well_formed_slug (generate_slug title)"
proof -
  let ?s = "map (\<lambda>c. if is_alnum c then lower_char c else CHR ''-'') title"
  have chars: "list_all slug_char (collapse_hyphens False ?s)"
    by (intro collapse_chars) (simp add: list.pred_map comp_def slug_char_title list.pred_True)
  have "well_formed_slug ''page''"
    by (simp add: well_formed_slug_def slug_char_def char_class apart_def)
  then show ?thesis
    using trim_facts [of "collapse_hyphens False ?s"] collapse_successive [of False ?s] chars
    by (auto simp: generate_slug_def Let_def well_formed_slug_def list_all_iff subset_iff)
qed

lemma int_str_inject: "int_str i = int_str j \<Longrightarrow> i = j"
proof -
  assume *: "int_str i = int_str j"
  have s: "from_chars (min i j) (max i j) (int_str i) = Inr (i, [])"
    "from_chars (min i j) (max i j) (int_str j) = Inr (j, [])"
    by (auto intro!: from_chars_int_str simp: fits_def)
  show "i = j" using s unfolding * by simp
qed

lemma suffixed_slug:
  assumes "well_formed_slug s" and "0 \<le> n"
  shows "well_formed_slug (s @ ''-'' @ int_str n)"
proof -
  have d: "\<And>c. c \<in> set (nat_str (nat n)) \<Longrightarrow> is_digit c" and ne: "nat_str (nat n) \<noteq> []"
    using nat_str_digits by auto
  have nh: "is_digit c \<Longrightarrow> c \<noteq> CHR ''-''" for c by (auto simp: char_class)
  have "successively apart xs" if "\<And>c. c \<in> set xs \<Longrightarrow> is_digit c" for xs
    using that by (induction xs) (auto simp: successively_Cons apart_def dest: nh)
  from this [of "nat_str (nat n)"] d have "successively apart (nat_str (nat n))" .
  moreover have "hd (nat_str (nat n)) \<noteq> CHR ''-''" "last (nat_str (nat n)) \<noteq> CHR ''-''"
    using d ne nh by (meson hd_in_set last_in_set)+
  ultimately show ?thesis
    using assms d ne by (auto simp: well_formed_slug_def int_str_def slug_char_def list_all_iff
      successively_append_iff successively_Cons apart_def)
qed

text \<open>As long as the search goes on, every suffix tried is taken.\<close>

lemma free_suffix_runs:
  assumes "free_suffix taken s n = None" and "n \<le> m" and "m \<le> i32_max"
  shows "taken (s @ ''-'' @ int_str m)"
  using assms
proof (induction "nat (m - n)" arbitrary: n)
  case 0
  then have "n = m" by simp
  then show ?case using 0 by (subst (asm) free_suffix.simps) (auto split: if_splits)
next
  case (Suc k)
  then have "free_suffix taken s (n + 1) = None"
    by (subst (asm) (2) free_suffix.simps) (auto split: if_splits)
  then show ?case using Suc.hyps(1) [of "n + 1"] Suc.hyps(2) Suc.prems by simp
qed

lemma free_suffix_Some:
  assumes "free_suffix taken s n = Some t"
  shows "\<exists>m \<ge> n. t = s @ ''-'' @ int_str m \<and> \<not> taken t"
proof -
  have "taken' = taken \<longrightarrow> s' = s \<longrightarrow> (\<exists>m \<ge> n. t = s @ ''-'' @ int_str m \<and> \<not> taken t)"
    if "free_suffix taken' s' n = Some t" for taken' s'
  proof (induction rule: free_suffix.raw_induct [OF _ that])
    case (1 fs taken' s' n t)
    show ?case
    proof (intro impI)
      assume eq: "taken' = taken" "s' = s"
      show "\<exists>m \<ge> n. t = s @ ''-'' @ int_str m \<and> \<not> taken t"
      proof (cases "taken (s @ ''-'' @ int_str n)")
        case True
        then have "fs taken' s' (n + 1) = Some t" using 1(2) eq by (simp split: if_splits)
        then obtain m where "n + 1 \<le> m" "t = s @ ''-'' @ int_str m \<and> \<not> taken t" using 1(1) eq by blast
        then show ?thesis by (intro exI [of _ m]) auto
      next
        case False
        then show ?thesis using 1(2) eq by (auto split: if_splits)
      qed
    qed
  qed
  then show ?thesis using assms by blast
qed

text \<open>
  \<open>wiki_page_slug_exists\<close> cannot hold for more suffixes than there are pages, when \<open>LOWER\<close> leaves plain
  slugs as they are.
\<close>

lemma suffixes_taken:
  assumes lower: "\<And>s. list_all slug_char s \<Longrightarrow> lower s = s" and s: "well_formed_slug s"
    and "\<And>m. 2 \<le> m \<Longrightarrow> m \<le> i32_max \<Longrightarrow> wiki_page_slug_exists lower d space parent ex (s @ ''-'' @ int_str m)"
  shows "2147483646 \<le> length (wiki_pages d)"
proof -
  let ?f = "\<lambda>m. s @ ''-'' @ int_str m"
  have "?f m \<in> (\<lambda>p. lower (wp_slug p)) ` set (wiki_pages d)" if "m \<in> {2..i32_max}" for m
  proof -
    have "wiki_page_slug_exists lower d space parent ex (?f m)" using assms(3) that by simp
    then obtain p where "p \<in> set (wiki_pages d)" "lower (wp_slug p) = lower (?f m)"
      by (auto simp: wiki_page_slug_exists_def filter_empty_conv)
    moreover have "lower (?f m) = ?f m"
      using suffixed_slug [OF s, of m] that lower by (simp add: well_formed_slug_def)
    ultimately show ?thesis by force
  qed
  then have "card (?f ` {2..i32_max}) \<le> card ((\<lambda>p. lower (wp_slug p)) ` set (wiki_pages d))"
    by (intro card_mono) auto
  also have "\<dots> \<le> length (wiki_pages d)"
    using card_image_le [of "set (wiki_pages d)" "\<lambda>p. lower (wp_slug p)"] card_length [of "wiki_pages d"] by simp
  finally show ?thesis
    using card_image [of ?f "{2..i32_max}"] by (simp add: inj_on_def int_str_inject)
qed

text \<open>C35: Choosing the slug of a page always ends, with fewer than 2147483646 pages in the database and a
  \<open>LOWER\<close> that leaves plain slugs alone: it is lower case letters, digits and single hyphens inside, and
  no other page of the same space and parent has it. (The bound is the number of suffixes an \<open>int\<close> can
  count; no two suffixes give the same slug, so that each taken one accounts for a page.)\<close>

theorem wiki_slug_found:
  assumes "\<And>s. list_all slug_char s \<Longrightarrow> lower s = s" and "length (wiki_pages d) < 2147483646"
  shows "\<exists>slug. unique_slug (wiki_page_slug_exists lower d space_id parent_id exclude_id) (slug_of_title title) = Some slug
     \<and> well_formed_slug slug \<and> \<not> wiki_page_slug_exists lower d space_id parent_id exclude_id slug"
proof -
  let ?taken = "wiki_page_slug_exists lower d space_id parent_id exclude_id"
  have wf: "well_formed_slug (slug_of_title title)"
    using generated_slug [of title] by (simp add: slug_of_title_def Let_def well_formed_slug_def)
  show ?thesis
  proof (cases "?taken (slug_of_title title)")
    case True
    have "free_suffix ?taken (slug_of_title title) 2 \<noteq> None"
      using suffixes_taken [OF assms(1) wf, of d space_id parent_id exclude_id] assms(2)
        free_suffix_runs [of ?taken "slug_of_title title" 2] by fastforce
    then obtain t where t: "free_suffix ?taken (slug_of_title title) 2 = Some t" by blast
    obtain m where m: "m \<ge> 2" "t = slug_of_title title @ ''-'' @ int_str m" "\<not> ?taken t"
      using free_suffix_Some [OF t] by blast
    then show ?thesis
      using t True suffixed_slug [OF wf, of m] by (simp add: unique_slug_def)
  next
    case False
    then show ?thesis using wf by (simp add: unique_slug_def)
  qed
qed

text \<open>The space \<open>s1\<close> of the example with a page of the owner and one below it of the user.\<close>

definition example_page :: "string \<Rightarrow> string \<Rightarrow> string \<Rightarrow> string \<Rightarrow> wiki_page" where
  "example_page i parent_id title creator =
     \<lparr>wp_id = i, wp_space_id = ''s1'', wp_parent_id = parent_id, wp_title = title, wp_slug = generate_slug title,
      wp_is_folder = False, wp_content = ''text of '' @ i, wp_content_text = ''text of '' @ i, wp_icon = '''',
      wp_cover_image_file_id = '''', wp_position = 0, wp_is_deleted = False, wp_created_by = creator,
      wp_created_at = 1, wp_updated_at = 1, wp_last_edited_by = creator\<rparr>"

definition example_wiki :: db where
  "example_wiki = example_db\<lparr>wiki_pages := [example_page ''w1'' '''' ''Home'' ''u1'', example_page ''w2'' ''w1'' ''Notes'' ''u2''],
     wiki_page_permissions := [\<lparr>wpp_id = ''g1'', wpp_page_id = ''w1'', wpp_user_id = ''u1'', wpp_permission = ''owner'',
        wpp_granted_by = ''u1'', wpp_created_at = 1\<rparr>]\<rparr>"

lemma wiki_slug_found_witness:
  "\<exists>slug. unique_slug (wiki_page_slug_exists (map lower_char) example_wiki ''s1'' '''' '''') (slug_of_title ''HOME!'') = Some slug
     \<and> well_formed_slug slug \<and> \<not> wiki_page_slug_exists (map lower_char) example_wiki ''s1'' '''' '''' slug
     \<and> wiki_page_slug_exists (map lower_char) example_wiki ''s1'' '''' '''' (slug_of_title ''HOME!'')"
proof -
  have plain: "map lower_char s = s" if "list_all slug_char s" for s
  proof (rule map_idI)
    fix c assume "c \<in> set s"
    then have "slug_char c" using that by (simp add: list_all_iff)
    then show "lower_char c = c" by (auto simp: slug_char_def lower_char_def char_class)
  qed
  have "length (wiki_pages example_wiki) < 2147483646" by (simp add: example_wiki_def)
  from wiki_slug_found [OF plain this] obtain slug where
    "unique_slug (wiki_page_slug_exists (map lower_char) example_wiki ''s1'' '''' '''') (slug_of_title ''HOME!'') = Some slug
     \<and> well_formed_slug slug \<and> \<not> wiki_page_slug_exists (map lower_char) example_wiki ''s1'' '''' '''' slug" by blast
  moreover have "wiki_page_slug_exists (map lower_char) example_wiki ''s1'' '''' '''' (slug_of_title ''HOME!'')"
    by code_simp
  ultimately show ?thesis by blast
qed

end
