(* ===== verification/Task_Db.thy ===== *)
theory Task_Db
  imports Listings
begin

text \<open>
  Task boards: the tables and the methods of \<open>db/database.cpp\<close> on them. They are a record of their own
  beside the other tables; a method that refers to users or spaces takes both. Deleting a row deletes
  what refers to it, by the foreign keys.
\<close>

section \<open>Tables\<close>

record task_board =
  tb_id :: string
  tb_space_id :: string
  tb_name :: string
  tb_description :: string
  tb_created_by :: string
  tb_created_at :: time
  tb_updated_at :: time

record task_column =
  co_id :: string
  co_board_id :: string
  co_name :: string
  co_position :: int
  co_wip_limit :: int
  co_color :: string
  co_created_at :: time

record task =
  tk_id :: string
  tk_board_id :: string
  tk_column_id :: string
  tk_title :: string
  tk_description :: string
  tk_priority :: string
  tk_due_date :: "time option"
  tk_start_date :: "time option"
  tk_duration_days :: int
  tk_color :: string
  tk_position :: int
  tk_created_by :: string
  tk_created_at :: time
  tk_updated_at :: time

record task_label =
  tl_id :: string
  tl_board_id :: string
  tl_name :: string
  tl_color :: string

record task_checklist =
  cl_id :: string
  cl_task_id :: string
  cl_title :: string
  cl_position :: int

record checklist_item =
  ci_id :: string
  ci_checklist_id :: string
  ci_content :: string
  ci_is_checked :: bool
  ci_position :: int

record task_dependency =
  td_id :: string
  td_task_id :: string
  td_depends_on_id :: string
  td_dependency_type :: string
  td_created_at :: time

text \<open>The details are the JSON value whose text the column holds.\<close>

record task_activity =
  ta_id :: string
  ta_task_id :: string
  ta_user_id :: string
  ta_action :: string
  ta_details :: json
  ta_created_at :: time

text \<open>Assignees are pairs of a task and a user, label assignments of a task and a label.\<close>

record boards =
  task_boards :: "task_board list"
  task_columns :: "task_column list"
  tasks :: "task list"
  task_assignees :: "(string \<times> string) list"
  task_labels :: "task_label list"
  task_label_assignments :: "(string \<times> string) list"
  task_checklists :: "task_checklist list"
  task_checklist_items :: "checklist_item list"
  task_dependencies :: "task_dependency list"
  task_activities :: "task_activity list"

text \<open>Reading the row of a statement that returned none throws.\<close>

definition no_such_row :: db_error where
  "no_such_row = Runtime ''row number out of range''"

section \<open>Deleting with what refers to it\<close>

definition drop_checklists :: "(task_checklist \<Rightarrow> bool) \<Rightarrow> boards \<Rightarrow> boards" where
  "drop_checklists gone b =
     (let ids = map cl_id (filter gone (task_checklists b))
      in b\<lparr>task_checklists := filter (\<lambda>c. \<not> gone c) (task_checklists b),
           task_checklist_items := filter (\<lambda>i. ci_checklist_id i \<notin> set ids) (task_checklist_items b)\<rparr>)"

definition drop_tasks :: "(task \<Rightarrow> bool) \<Rightarrow> boards \<Rightarrow> boards" where
  "drop_tasks gone b =
     (let ids = map tk_id (filter gone (tasks b));
          b1 = drop_checklists (\<lambda>c. cl_task_id c \<in> set ids) b
      in b1\<lparr>tasks := filter (\<lambda>t. \<not> gone t) (tasks b),
            task_assignees := filter (\<lambda>a. fst a \<notin> set ids) (task_assignees b),
            task_label_assignments := filter (\<lambda>a. fst a \<notin> set ids) (task_label_assignments b),
            task_dependencies := filter (\<lambda>e. td_task_id e \<notin> set ids \<and> td_depends_on_id e \<notin> set ids) (task_dependencies b),
            task_activities := filter (\<lambda>a. ta_task_id a \<notin> set ids) (task_activities b)\<rparr>)"

definition drop_labels :: "(task_label \<Rightarrow> bool) \<Rightarrow> boards \<Rightarrow> boards" where
  "drop_labels gone b =
     (let ids = map tl_id (filter gone (task_labels b))
      in b\<lparr>task_labels := filter (\<lambda>l. \<not> gone l) (task_labels b),
           task_label_assignments := filter (\<lambda>a. snd a \<notin> set ids) (task_label_assignments b)\<rparr>)"

definition drop_columns :: "(task_column \<Rightarrow> bool) \<Rightarrow> boards \<Rightarrow> boards" where
  "drop_columns gone b =
     (let ids = map co_id (filter gone (task_columns b));
          b1 = drop_tasks (\<lambda>t. tk_column_id t \<in> set ids) b
      in b1\<lparr>task_columns := filter (\<lambda>c. \<not> gone c) (task_columns b)\<rparr>)"

section \<open>Boards\<close>

definition create_task_board ::
  "db \<Rightarrow> boards \<Rightarrow> string \<Rightarrow> time \<Rightarrow> string \<Rightarrow> string \<Rightarrow> string \<Rightarrow> string \<Rightarrow> db_error + task_board \<times> boards" where
  "create_task_board d b new_id now space_id name description created_by =
     (let row = \<lparr>tb_id = new_id, tb_space_id = space_id, tb_name = name, tb_description = description,
                 tb_created_by = created_by, tb_created_at = now, tb_updated_at = now\<rparr>
      in if \<not> varchar_ok 255 name then Inl too_long
         else if has_key tb_id new_id (task_boards b) then Inl UniqueViolation
         else if has_key sp_id space_id (spaces d) \<and> has_key u_id created_by (users d)
         then Inr (row, b\<lparr>task_boards := task_boards b @ [row]\<rparr>)
         else Inl ForeignKeyViolation)"

definition list_task_boards :: "boards \<Rightarrow> string \<Rightarrow> task_board list" where
  "list_task_boards b space_id =
     sort_key tb_created_at (filter (\<lambda>r. tb_space_id r = space_id) (task_boards b))"

definition find_task_board :: "boards \<Rightarrow> string \<Rightarrow> task_board option" where
  "find_task_board b board_id = first_row (filter (\<lambda>r. tb_id r = board_id) (task_boards b))"

definition update_task_board ::
  "boards \<Rightarrow> time \<Rightarrow> string \<Rightarrow> string \<Rightarrow> string \<Rightarrow> db_error + task_board \<times> boards" where
  "update_task_board b now board_id name description =
     (let f = (\<lambda>r. r\<lparr>tb_name := name, tb_description := description, tb_updated_at := now\<rparr>)
      in case find_task_board b board_id of
           None \<Rightarrow> Inl no_such_row
         | Some r \<Rightarrow>
             if \<not> varchar_ok 255 name then Inl too_long
             else Inr (f r, b\<lparr>task_boards := map (\<lambda>r. if tb_id r = board_id then f r else r) (task_boards b)\<rparr>))"

definition delete_task_board :: "boards \<Rightarrow> string \<Rightarrow> boards" where
  "delete_task_board b board_id =
     (let b1 = drop_columns (\<lambda>c. co_board_id c = board_id)
                 (drop_tasks (\<lambda>t. tk_board_id t = board_id) (drop_labels (\<lambda>l. tl_board_id l = board_id) b))
      in b1\<lparr>task_boards := filter (\<lambda>r. tb_id r \<noteq> board_id) (task_boards b)\<rparr>)"

section \<open>Columns\<close>

definition create_task_column ::
  "boards \<Rightarrow> string \<Rightarrow> time \<Rightarrow> string \<Rightarrow> string \<Rightarrow> int \<Rightarrow> int \<Rightarrow> string \<Rightarrow> db_error + task_column \<times> boards" where
  "create_task_column b new_id now board_id name position wip_limit color =
     (let row = \<lparr>co_id = new_id, co_board_id = board_id, co_name = name, co_position = position,
                 co_wip_limit = wip_limit, co_color = color, co_created_at = now\<rparr>
      in if \<not> varchar_ok 255 name \<or> \<not> varchar_ok 50 color then Inl too_long
         else if has_key co_id new_id (task_columns b) then Inl UniqueViolation
         else if has_key tb_id board_id (task_boards b)
         then Inr (row, b\<lparr>task_columns := task_columns b @ [row]\<rparr>)
         else Inl ForeignKeyViolation)"

definition list_task_columns :: "boards \<Rightarrow> string \<Rightarrow> task_column list" where
  "list_task_columns b board_id =
     sort_key co_position (filter (\<lambda>c. co_board_id c = board_id) (task_columns b))"

definition find_task_column :: "boards \<Rightarrow> string \<Rightarrow> task_column option" where
  "find_task_column b column_id = first_row (filter (\<lambda>c. co_id c = column_id) (task_columns b))"

definition update_column_rows :: "(task_column \<Rightarrow> bool) \<Rightarrow> (task_column \<Rightarrow> task_column) \<Rightarrow> boards \<Rightarrow> boards" where
  "update_column_rows P f b = b\<lparr>task_columns := map (\<lambda>c. if P c then f c else c) (task_columns b)\<rparr>"

definition update_task_column ::
  "boards \<Rightarrow> string \<Rightarrow> string \<Rightarrow> int \<Rightarrow> string \<Rightarrow> db_error + task_column \<times> boards" where
  "update_task_column b column_id name wip_limit color =
     (let f = (\<lambda>c. c\<lparr>co_name := name, co_wip_limit := wip_limit, co_color := color\<rparr>)
      in case find_task_column b column_id of
           None \<Rightarrow> Inl no_such_row
         | Some c \<Rightarrow>
             if \<not> varchar_ok 255 name \<or> \<not> varchar_ok 50 color then Inl too_long
             else Inr (f c, update_column_rows (\<lambda>c. co_id c = column_id) f b))"

fun place_columns :: "string \<Rightarrow> int \<Rightarrow> string list \<Rightarrow> boards \<Rightarrow> boards" where
  "place_columns board_id i [] b = b"
| "place_columns board_id i (c # cs) b =
     place_columns board_id (i + 1) cs
       (update_column_rows (\<lambda>r. co_id r = c \<and> co_board_id r = board_id) (\<lambda>r. r\<lparr>co_position := i\<rparr>) b)"

definition reorder_task_columns :: "boards \<Rightarrow> string \<Rightarrow> string list \<Rightarrow> boards" where
  "reorder_task_columns b board_id column_ids = place_columns board_id 0 column_ids b"

definition delete_task_column :: "boards \<Rightarrow> string \<Rightarrow> boards" where
  "delete_task_column b column_id = drop_columns (\<lambda>c. co_id c = column_id) b"

section \<open>Tasks\<close>

text \<open>\<open>NULLIF($, '')::timestamptz\<close>, with the parser of the database.\<close>

definition cast_time :: "(string \<Rightarrow> time option) \<Rightarrow> string \<Rightarrow> db_error + time option" where
  "cast_time parse s =
     (if s = [] then Inr None
      else case parse s of
             None \<Rightarrow> Inl (Runtime ''invalid input syntax for type timestamp with time zone'')
           | Some t \<Rightarrow> Inr (Some t))"

definition task_widths_ok :: "task \<Rightarrow> bool" where
  "task_widths_ok t \<longleftrightarrow> varchar_ok 255 (tk_title t) \<and> varchar_ok 20 (tk_priority t) \<and> varchar_ok 50 (tk_color t)"

definition create_task ::
  "(string \<Rightarrow> time option) \<Rightarrow> db \<Rightarrow> boards \<Rightarrow> string \<Rightarrow> time \<Rightarrow> string \<Rightarrow> string \<Rightarrow> string \<Rightarrow> string \<Rightarrow> string \<Rightarrow> string
     \<Rightarrow> string \<Rightarrow> int \<Rightarrow> string \<Rightarrow> string \<Rightarrow> int \<Rightarrow> db_error + task \<times> boards" where
  "create_task parse d b new_id now board_id column_id title description priority due_date color position
       created_by start_date duration_days =
     (case cast_time parse due_date of Inl e \<Rightarrow> Inl e | Inr due \<Rightarrow>
      case cast_time parse start_date of Inl e \<Rightarrow> Inl e | Inr start \<Rightarrow>
      let t = \<lparr>tk_id = new_id, tk_board_id = board_id, tk_column_id = column_id, tk_title = title,
               tk_description = description, tk_priority = priority, tk_due_date = due, tk_start_date = start,
               tk_duration_days = duration_days, tk_color = color, tk_position = position,
               tk_created_by = created_by, tk_created_at = now, tk_updated_at = now\<rparr>
      in if \<not> task_widths_ok t then Inl too_long
         else if has_key tk_id new_id (tasks b) then Inl UniqueViolation
         else if has_key tb_id board_id (task_boards b) \<and> has_key co_id column_id (task_columns b)
                 \<and> has_key u_id created_by (users d)
         then Inr (t, b\<lparr>tasks := tasks b @ [t]\<rparr>)
         else Inl ForeignKeyViolation)"

definition list_tasks :: "boards \<Rightarrow> string \<Rightarrow> task list" where
  "list_tasks b board_id = sort_key tk_position (filter (\<lambda>t. tk_board_id t = board_id) (tasks b))"

definition list_column_tasks :: "boards \<Rightarrow> string \<Rightarrow> task list" where
  "list_column_tasks b column_id = sort_key tk_position (filter (\<lambda>t. tk_column_id t = column_id) (tasks b))"

definition find_task :: "boards \<Rightarrow> string \<Rightarrow> task option" where
  "find_task b task_id = first_row (filter (\<lambda>t. tk_id t = task_id) (tasks b))"

definition update_task_rows :: "string \<Rightarrow> (task \<Rightarrow> task) \<Rightarrow> boards \<Rightarrow> boards" where
  "update_task_rows i f b = b\<lparr>tasks := map (\<lambda>t. if tk_id t = i then f t else t) (tasks b)\<rparr>"

definition update_task ::
  "(string \<Rightarrow> time option) \<Rightarrow> boards \<Rightarrow> time \<Rightarrow> string \<Rightarrow> string \<Rightarrow> string \<Rightarrow> string \<Rightarrow> string \<Rightarrow> string \<Rightarrow> string \<Rightarrow> int
     \<Rightarrow> string \<Rightarrow> int \<Rightarrow> db_error + task \<times> boards" where
  "update_task parse b now task_id column_id title description priority due_date color position start_date
       duration_days =
     (case cast_time parse due_date of Inl e \<Rightarrow> Inl e | Inr due \<Rightarrow>
      case cast_time parse start_date of Inl e \<Rightarrow> Inl e | Inr start \<Rightarrow>
      let f = (\<lambda>t. t\<lparr>tk_column_id := column_id, tk_title := title, tk_description := description,
                     tk_priority := priority, tk_due_date := due, tk_color := color, tk_position := position,
                     tk_start_date := start, tk_duration_days := duration_days, tk_updated_at := now\<rparr>)
      in case find_task b task_id of
           None \<Rightarrow> Inl no_such_row
         | Some t \<Rightarrow>
             if \<not> task_widths_ok (f t) then Inl too_long
             else if has_key co_id column_id (task_columns b) then Inr (f t, update_task_rows task_id f b)
             else Inl ForeignKeyViolation)"

definition delete_task :: "boards \<Rightarrow> string \<Rightarrow> boards" where
  "delete_task b task_id = drop_tasks (\<lambda>t. tk_id t = task_id) b"

definition reorder_tasks :: "boards \<Rightarrow> (string \<times> int) list \<Rightarrow> boards" where
  "reorder_tasks b task_positions =
     fold (\<lambda>(task_id, pos). update_task_rows task_id (\<lambda>t. t\<lparr>tk_position := pos\<rparr>)) task_positions b"

definition get_column_task_count :: "boards \<Rightarrow> string \<Rightarrow> int" where
  "get_column_task_count b column_id = int (length (filter (\<lambda>t. tk_column_id t = column_id) (tasks b)))"

section \<open>Assignees and labels\<close>

definition add_task_assignee :: "db \<Rightarrow> boards \<Rightarrow> string \<Rightarrow> string \<Rightarrow> db_error + boards" where
  "add_task_assignee d b task_id user_id =
     (if (task_id, user_id) \<in> set (task_assignees b) then Inr b
      else if has_key tk_id task_id (tasks b) \<and> has_key u_id user_id (users d)
      then Inr (b\<lparr>task_assignees := task_assignees b @ [(task_id, user_id)]\<rparr>)
      else Inl ForeignKeyViolation)"

definition remove_task_assignee :: "boards \<Rightarrow> string \<Rightarrow> string \<Rightarrow> boards" where
  "remove_task_assignee b task_id user_id =
     b\<lparr>task_assignees := filter (\<lambda>a. a \<noteq> (task_id, user_id)) (task_assignees b)\<rparr>"

definition get_task_assignees :: "db \<Rightarrow> boards \<Rightarrow> string \<Rightarrow> user list" where
  "get_task_assignees d b task_id =
     concat (map (\<lambda>a. filter (\<lambda>u. u_id u = snd a) (users d)) (filter (\<lambda>a. fst a = task_id) (task_assignees b)))"

definition create_task_label ::
  "boards \<Rightarrow> string \<Rightarrow> string \<Rightarrow> string \<Rightarrow> string \<Rightarrow> db_error + task_label \<times> boards" where
  "create_task_label b new_id board_id name color =
     (let row = \<lparr>tl_id = new_id, tl_board_id = board_id, tl_name = name, tl_color = color\<rparr>
      in if \<not> varchar_ok 100 name \<or> \<not> varchar_ok 50 color then Inl too_long
         else if has_key tl_id new_id (task_labels b) then Inl UniqueViolation
         else if has_key tb_id board_id (task_boards b)
         then Inr (row, b\<lparr>task_labels := task_labels b @ [row]\<rparr>)
         else Inl ForeignKeyViolation)"

definition list_task_labels :: "pg \<Rightarrow> boards \<Rightarrow> string \<Rightarrow> task_label list" where
  "list_task_labels pg b board_id =
     order_by_name pg tl_name (filter (\<lambda>l. tl_board_id l = board_id) (task_labels b))"

definition find_label :: "boards \<Rightarrow> string \<Rightarrow> task_label option" where
  "find_label b label_id = first_row (filter (\<lambda>l. tl_id l = label_id) (task_labels b))"

definition update_task_label ::
  "boards \<Rightarrow> string \<Rightarrow> string \<Rightarrow> string \<Rightarrow> db_error + task_label \<times> boards" where
  "update_task_label b label_id name color =
     (let f = (\<lambda>l. l\<lparr>tl_name := name, tl_color := color\<rparr>)
      in case find_label b label_id of
           None \<Rightarrow> Inl no_such_row
         | Some l \<Rightarrow>
             if \<not> varchar_ok 100 name \<or> \<not> varchar_ok 50 color then Inl too_long
             else Inr (f l, b\<lparr>task_labels := map (\<lambda>l. if tl_id l = label_id then f l else l) (task_labels b)\<rparr>))"

definition delete_task_label :: "boards \<Rightarrow> string \<Rightarrow> boards" where
  "delete_task_label b label_id = drop_labels (\<lambda>l. tl_id l = label_id) b"

definition assign_task_label :: "boards \<Rightarrow> string \<Rightarrow> string \<Rightarrow> db_error + boards" where
  "assign_task_label b task_id label_id =
     (if (task_id, label_id) \<in> set (task_label_assignments b) then Inr b
      else if has_key tk_id task_id (tasks b) \<and> has_key tl_id label_id (task_labels b)
      then Inr (b\<lparr>task_label_assignments := task_label_assignments b @ [(task_id, label_id)]\<rparr>)
      else Inl ForeignKeyViolation)"

definition unassign_task_label :: "boards \<Rightarrow> string \<Rightarrow> string \<Rightarrow> boards" where
  "unassign_task_label b task_id label_id =
     b\<lparr>task_label_assignments := filter (\<lambda>a. a \<noteq> (task_id, label_id)) (task_label_assignments b)\<rparr>"

definition get_task_labels :: "boards \<Rightarrow> string \<Rightarrow> task_label list" where
  "get_task_labels b task_id =
     concat (map (\<lambda>a. filter (\<lambda>l. tl_id l = snd a) (task_labels b))
       (filter (\<lambda>a. fst a = task_id) (task_label_assignments b)))"

section \<open>Checklists\<close>

definition create_task_checklist ::
  "boards \<Rightarrow> string \<Rightarrow> string \<Rightarrow> string \<Rightarrow> int \<Rightarrow> db_error + task_checklist \<times> boards" where
  "create_task_checklist b new_id task_id title position =
     (let row = \<lparr>cl_id = new_id, cl_task_id = task_id, cl_title = title, cl_position = position\<rparr>
      in if \<not> varchar_ok 255 title then Inl too_long
         else if has_key cl_id new_id (task_checklists b) then Inl UniqueViolation
         else if has_key tk_id task_id (tasks b)
         then Inr (row, b\<lparr>task_checklists := task_checklists b @ [row]\<rparr>)
         else Inl ForeignKeyViolation)"

definition get_task_checklists :: "boards \<Rightarrow> string \<Rightarrow> task_checklist list" where
  "get_task_checklists b task_id =
     sort_key cl_position (filter (\<lambda>c. cl_task_id c = task_id) (task_checklists b))"

definition find_checklist :: "boards \<Rightarrow> string \<Rightarrow> task_checklist option" where
  "find_checklist b checklist_id = first_row (filter (\<lambda>c. cl_id c = checklist_id) (task_checklists b))"

definition update_task_checklist ::
  "boards \<Rightarrow> string \<Rightarrow> string \<Rightarrow> db_error + task_checklist \<times> boards" where
  "update_task_checklist b checklist_id title =
     (let f = (\<lambda>c. c\<lparr>cl_title := title\<rparr>)
      in case find_checklist b checklist_id of
           None \<Rightarrow> Inl no_such_row
         | Some c \<Rightarrow>
             if \<not> varchar_ok 255 title then Inl too_long
             else Inr (f c, b\<lparr>task_checklists := map (\<lambda>c. if cl_id c = checklist_id then f c else c) (task_checklists b)\<rparr>))"

definition delete_task_checklist :: "boards \<Rightarrow> string \<Rightarrow> boards" where
  "delete_task_checklist b checklist_id = drop_checklists (\<lambda>c. cl_id c = checklist_id) b"

definition create_checklist_item ::
  "boards \<Rightarrow> string \<Rightarrow> string \<Rightarrow> string \<Rightarrow> int \<Rightarrow> db_error + checklist_item \<times> boards" where
  "create_checklist_item b new_id checklist_id content position =
     (let row = \<lparr>ci_id = new_id, ci_checklist_id = checklist_id, ci_content = content, ci_is_checked = False,
                 ci_position = position\<rparr>
      in if \<not> varchar_ok 500 content then Inl too_long
         else if has_key ci_id new_id (task_checklist_items b) then Inl UniqueViolation
         else if has_key cl_id checklist_id (task_checklists b)
         then Inr (row, b\<lparr>task_checklist_items := task_checklist_items b @ [row]\<rparr>)
         else Inl ForeignKeyViolation)"

definition get_checklist_items :: "boards \<Rightarrow> string \<Rightarrow> checklist_item list" where
  "get_checklist_items b checklist_id =
     sort_key ci_position (filter (\<lambda>i. ci_checklist_id i = checklist_id) (task_checklist_items b))"

definition find_checklist_item :: "boards \<Rightarrow> string \<Rightarrow> checklist_item option" where
  "find_checklist_item b item_id = first_row (filter (\<lambda>i. ci_id i = item_id) (task_checklist_items b))"

definition update_checklist_item ::
  "boards \<Rightarrow> string \<Rightarrow> string \<Rightarrow> bool \<Rightarrow> db_error + checklist_item \<times> boards" where
  "update_checklist_item b item_id content is_checked =
     (let f = (\<lambda>i. i\<lparr>ci_content := content, ci_is_checked := is_checked\<rparr>)
      in case find_checklist_item b item_id of
           None \<Rightarrow> Inl no_such_row
         | Some i \<Rightarrow>
             if \<not> varchar_ok 500 content then Inl too_long
             else Inr (f i, b\<lparr>task_checklist_items :=
                  map (\<lambda>i. if ci_id i = item_id then f i else i) (task_checklist_items b)\<rparr>))"

definition delete_checklist_item :: "boards \<Rightarrow> string \<Rightarrow> boards" where
  "delete_checklist_item b item_id =
     b\<lparr>task_checklist_items := filter (\<lambda>i. ci_id i \<noteq> item_id) (task_checklist_items b)\<rparr>"

section \<open>Dependencies\<close>

text \<open>
  A second dependency between the same tasks changes the type of the first, whose id and time the
  answer has. A task may not depend on itself; longer cycles are not looked for.
\<close>

definition add_task_dependency ::
  "boards \<Rightarrow> string \<Rightarrow> time \<Rightarrow> string \<Rightarrow> string \<Rightarrow> string \<Rightarrow> db_error + task_dependency \<times> boards" where
  "add_task_dependency b new_id now task_id depends_on_id dependency_type =
     (if \<not> varchar_ok 30 dependency_type then Inl too_long
      else if task_id = depends_on_id then Inl (Runtime ''violates check constraint'')
      else if \<not> (has_key tk_id task_id (tasks b) \<and> has_key tk_id depends_on_id (tasks b)) then Inl ForeignKeyViolation
      else case first_row (filter (\<lambda>e. td_task_id e = task_id \<and> td_depends_on_id e = depends_on_id) (task_dependencies b)) of
             Some e \<Rightarrow> Inr (e\<lparr>td_dependency_type := dependency_type\<rparr>,
               b\<lparr>task_dependencies := map (\<lambda>e. if td_task_id e = task_id \<and> td_depends_on_id e = depends_on_id
                  then e\<lparr>td_dependency_type := dependency_type\<rparr> else e) (task_dependencies b)\<rparr>)
           | None \<Rightarrow>
               let row = \<lparr>td_id = new_id, td_task_id = task_id, td_depends_on_id = depends_on_id,
                          td_dependency_type = dependency_type, td_created_at = now\<rparr>
               in if has_key td_id new_id (task_dependencies b) then Inl UniqueViolation
                  else Inr (row, b\<lparr>task_dependencies := task_dependencies b @ [row]\<rparr>))"

definition remove_task_dependency :: "boards \<Rightarrow> string \<Rightarrow> boards" where
  "remove_task_dependency b dependency_id =
     b\<lparr>task_dependencies := filter (\<lambda>e. td_id e \<noteq> dependency_id) (task_dependencies b)\<rparr>"

definition get_task_dependencies :: "boards \<Rightarrow> string \<Rightarrow> task_dependency list" where
  "get_task_dependencies b board_id =
     filter (\<lambda>e. list_ex (\<lambda>t. tk_id t = td_task_id e \<and> tk_board_id t = board_id) (tasks b)) (task_dependencies b)"

section \<open>The board of a label, a checklist, an item, a dependency\<close>

definition task_board_of :: "boards \<Rightarrow> string \<Rightarrow> string option" where
  "task_board_of b task_id = map_option tk_board_id (find_task b task_id)"

definition get_label_board_id :: "boards \<Rightarrow> string \<Rightarrow> string option" where
  "get_label_board_id b label_id = map_option tl_board_id (find_label b label_id)"

definition get_checklist_board_id :: "boards \<Rightarrow> string \<Rightarrow> string option" where
  "get_checklist_board_id b checklist_id =
     (case find_checklist b checklist_id of None \<Rightarrow> None | Some c \<Rightarrow> task_board_of b (cl_task_id c))"

definition get_checklist_item_board_id :: "boards \<Rightarrow> string \<Rightarrow> string option" where
  "get_checklist_item_board_id b item_id =
     (case find_checklist_item b item_id of None \<Rightarrow> None | Some i \<Rightarrow> get_checklist_board_id b (ci_checklist_id i))"

definition get_dependency_board_id :: "boards \<Rightarrow> string \<Rightarrow> string option" where
  "get_dependency_board_id b dependency_id =
     (case first_row (filter (\<lambda>e. td_id e = dependency_id) (task_dependencies b)) of
        None \<Rightarrow> None | Some e \<Rightarrow> task_board_of b (td_task_id e))"

section \<open>Activity\<close>

definition log_task_activity ::
  "db \<Rightarrow> boards \<Rightarrow> string \<Rightarrow> time \<Rightarrow> string \<Rightarrow> string \<Rightarrow> string \<Rightarrow> json \<Rightarrow> db_error + boards" where
  "log_task_activity d b new_id now task_id user_id action details =
     (if \<not> varchar_ok 50 action then Inl too_long
      else if has_key ta_id new_id (task_activities b) then Inl UniqueViolation
      else if has_key tk_id task_id (tasks b) \<and> has_key u_id user_id (users d)
      then Inr (b\<lparr>task_activities := task_activities b @
        [\<lparr>ta_id = new_id, ta_task_id = task_id, ta_user_id = user_id, ta_action = action, ta_details = details,
          ta_created_at = now\<rparr>]\<rparr>)
      else Inl ForeignKeyViolation)"

definition get_task_activity :: "boards \<Rightarrow> string \<Rightarrow> nat \<Rightarrow> task_activity list" where
  "get_task_activity b task_id limit =
     take limit (sort_key (\<lambda>a. - ta_created_at a) (filter (\<lambda>a. ta_task_id a = task_id) (task_activities b)))"

end
