(* ===== verification/Task_Tables.thy ===== *)
theory Task_Tables
  imports Task_Db
begin

text \<open>
  The tables of the task boards, taken apart by space: what the rows of a board are, and the invariant
  that keeps them together: a task is in a column of its own board, a dependency joins tasks of one
  board, ids are unique and references lead somewhere. One lemma for each way a table changes says that
  the invariant holds afterwards and that the boards of other spaces keep their rows.
\<close>

section \<open>The invariant, and what a board consists of\<close>

text \<open>What the tables say about where each row belongs.\<close>

definition board_ids :: "boards \<Rightarrow> string list" where
  "board_ids b = map tb_id (task_boards b)"

definition column_places :: "boards \<Rightarrow> (string \<times> string) list" where
  "column_places b = map (\<lambda>c. (co_id c, co_board_id c)) (task_columns b)"

definition task_places :: "boards \<Rightarrow> (string \<times> string \<times> string) list" where
  "task_places b = map (\<lambda>t. (tk_id t, tk_column_id t, tk_board_id t)) (tasks b)"

definition label_places :: "boards \<Rightarrow> (string \<times> string) list" where
  "label_places b = map (\<lambda>l. (tl_id l, tl_board_id l)) (task_labels b)"

definition checklist_places :: "boards \<Rightarrow> (string \<times> string) list" where
  "checklist_places b = map (\<lambda>c. (cl_id c, cl_task_id c)) (task_checklists b)"

definition item_places :: "boards \<Rightarrow> (string \<times> string) list" where
  "item_places b = map (\<lambda>i. (ci_id i, ci_checklist_id i)) (task_checklist_items b)"

definition dependency_places :: "boards \<Rightarrow> (string \<times> string \<times> string) list" where
  "dependency_places b = map (\<lambda>e. (td_id e, td_task_id e, td_depends_on_id e)) (task_dependencies b)"

definition on_board :: "boards \<Rightarrow> string \<Rightarrow> string \<Rightarrow> bool" where
  "on_board b i k \<longleftrightarrow> (\<exists>t \<in> set (tasks b). tk_id t = k \<and> tk_board_id t = i)"

lemma on_board_places: "on_board b i k \<longleftrightarrow> (\<exists>c. (k, c, i) \<in> set (task_places b))"
  unfolding on_board_def task_places_def set_map image_iff by auto

definition dependencies_ok :: "boards \<Rightarrow> bool" where
  "dependencies_ok b \<longleftrightarrow> (\<forall>(e, k, k') \<in> set (dependency_places b). \<exists>i. on_board b i k \<and> on_board b i k')"

lemma dependencies_ok_code [code]:
  "dependencies_ok b \<longleftrightarrow> list_all (\<lambda>(e, k, k'). list_ex (\<lambda>t. tk_id t = k \<and> on_board b (tk_board_id t) k') (tasks b)) (dependency_places b)"
  unfolding dependencies_ok_def on_board_def list_all_iff list_ex_iff
  by (rule ball_cong [OF refl]) (simp add: split_beta; blast)

definition boards_ok :: "boards \<Rightarrow> bool" where
  "boards_ok b \<longleftrightarrow>
     distinct (board_ids b) \<and> distinct (map fst (column_places b)) \<and> distinct (map fst (task_places b))
     \<and> distinct (map fst (label_places b)) \<and> distinct (map fst (checklist_places b))
     \<and> distinct (map fst (item_places b)) \<and> distinct (map fst (dependency_places b))
     \<and> snd ` set (column_places b) \<subseteq> set (board_ids b) \<and> snd ` set (label_places b) \<subseteq> set (board_ids b)
     \<and> snd ` set (task_places b) \<subseteq> set (column_places b)
     \<and> snd ` set (checklist_places b) \<subseteq> fst ` set (task_places b)
     \<and> snd ` set (item_places b) \<subseteq> fst ` set (checklist_places b)
     \<and> dependencies_ok b"

lemmas place_defs = board_ids_def column_places_def task_places_def label_places_def checklist_places_def
  item_places_def dependency_places_def

definition task_ids :: "boards \<Rightarrow> string \<Rightarrow> string set" where
  "task_ids b i = tk_id ` {t \<in> set (tasks b). tk_board_id t = i}"

definition checklist_ids :: "boards \<Rightarrow> string \<Rightarrow> string set" where
  "checklist_ids b i = cl_id ` {c \<in> set (task_checklists b). cl_task_id c \<in> task_ids b i}"

text \<open>All rows of a board, but for the labels its tasks are given.\<close>

definition same_part :: "boards \<Rightarrow> boards \<Rightarrow> string \<Rightarrow> bool" where
  "same_part b b' i \<longleftrightarrow>
     filter (\<lambda>r. tb_id r = i) (task_boards b') = filter (\<lambda>r. tb_id r = i) (task_boards b)
     \<and> filter (\<lambda>c. co_board_id c = i) (task_columns b') = filter (\<lambda>c. co_board_id c = i) (task_columns b)
     \<and> filter (\<lambda>t. tk_board_id t = i) (tasks b') = filter (\<lambda>t. tk_board_id t = i) (tasks b)
     \<and> filter (\<lambda>l. tl_board_id l = i) (task_labels b') = filter (\<lambda>l. tl_board_id l = i) (task_labels b)
     \<and> filter (\<lambda>a. fst a \<in> task_ids b i) (task_assignees b') = filter (\<lambda>a. fst a \<in> task_ids b i) (task_assignees b)
     \<and> filter (\<lambda>c. cl_task_id c \<in> task_ids b i) (task_checklists b') = filter (\<lambda>c. cl_task_id c \<in> task_ids b i) (task_checklists b)
     \<and> filter (\<lambda>c. ci_checklist_id c \<in> checklist_ids b i) (task_checklist_items b')
         = filter (\<lambda>c. ci_checklist_id c \<in> checklist_ids b i) (task_checklist_items b)
     \<and> filter (\<lambda>e. td_task_id e \<in> task_ids b i) (task_dependencies b') = filter (\<lambda>e. td_task_id e \<in> task_ids b i) (task_dependencies b)
     \<and> filter (\<lambda>a. ta_task_id a \<in> task_ids b i) (task_activities b') = filter (\<lambda>a. ta_task_id a \<in> task_ids b i) (task_activities b)"

definition space_board :: "string \<Rightarrow> boards \<Rightarrow> string \<Rightarrow> bool" where
  "space_board sp b i \<longleftrightarrow> (\<exists>r \<in> set (task_boards b). tb_id r = i \<and> tb_space_id r = sp)"

definition elsewhere :: "string \<Rightarrow> boards \<Rightarrow> string \<Rightarrow> bool" where
  "elsewhere sp b i \<longleftrightarrow> (\<exists>r \<in> set (task_boards b). tb_id r = i \<and> tb_space_id r \<noteq> sp)"

definition keeps_others :: "string \<Rightarrow> boards \<Rightarrow> boards \<Rightarrow> bool" where
  "keeps_others sp b b' \<longleftrightarrow> boards_ok b' \<and> (\<forall>i. elsewhere sp b i \<longrightarrow> same_part b b' i)"

lemma set_filter_eq: "filter P xs = filter P ys \<Longrightarrow> {x \<in> set xs. P x} = {x \<in> set ys. P x}"
  by (metis set_filter)

lemma same_part_tasks:
  assumes "same_part b b' i" shows "task_ids b' i = task_ids b i"
proof -
  have "filter (\<lambda>t. tk_board_id t = i) (tasks b') = filter (\<lambda>t. tk_board_id t = i) (tasks b)"
    using assms by (simp add: same_part_def)
  from set_filter_eq [OF this] show ?thesis by (simp add: task_ids_def)
qed

lemma same_part_checklists:
  assumes "same_part b b' i" shows "checklist_ids b' i = checklist_ids b i"
proof -
  have "filter (\<lambda>c. cl_task_id c \<in> task_ids b i) (task_checklists b') = filter (\<lambda>c. cl_task_id c \<in> task_ids b i) (task_checklists b)"
    using assms by (simp add: same_part_def)
  from set_filter_eq [OF this] same_part_tasks [OF assms] show ?thesis by (simp add: checklist_ids_def)
qed

lemma same_part_refl [simp]: "same_part b b i"
  by (simp add: same_part_def)

lemma same_part_trans: "same_part b b1 i \<Longrightarrow> same_part b1 b2 i \<Longrightarrow> same_part b b2 i"
  using same_part_tasks [of b b1 i] same_part_checklists [of b b1 i] by (simp add: same_part_def)

lemma elsewhere_kept: "elsewhere sp b i \<Longrightarrow> same_part b b' i \<Longrightarrow> elsewhere sp b' i"
  unfolding same_part_def elsewhere_def using set_filter_eq [of "\<lambda>r. tb_id r = i" "task_boards b'" "task_boards b"] by blast

lemma keeps_refl: "boards_ok b \<Longrightarrow> keeps_others sp b b"
  by (simp add: keeps_others_def)

lemma keeps_trans: "keeps_others sp b b1 \<Longrightarrow> keeps_others sp b1 b2 \<Longrightarrow> keeps_others sp b b2"
  unfolding keeps_others_def using same_part_trans elsewhere_kept by blast

lemma keepsI: "boards_ok b' \<Longrightarrow> (\<And>i. elsewhere sp b i \<Longrightarrow> same_part b b' i) \<Longrightarrow> keeps_others sp b b'"
  by (simp add: keeps_others_def)

lemma keeps_ok: "keeps_others sp b b' \<Longrightarrow> boards_ok b'"
  by (simp add: keeps_others_def)

lemma not_both: "boards_ok b \<Longrightarrow> space_board sp b i \<Longrightarrow> elsewhere sp b i \<Longrightarrow> False"
  by (auto simp: boards_ok_def space_board_def elsewhere_def board_ids_def distinct_map inj_on_def)

section \<open>Rows of a table\<close>

lemma filter_map_others:
  "(\<And>x. x \<in> set xs \<Longrightarrow> P x \<or> P (f x) \<Longrightarrow> f x = x) \<Longrightarrow> filter P (map f xs) = filter P xs"
  by (induction xs) (auto, metis+)

lemma filter_map_if:
  "\<forall>x \<in> set xs. P x \<longrightarrow> \<not> Q x \<and> \<not> Q (f x) \<Longrightarrow> filter Q (map (\<lambda>x. if P x then f x else x) xs) = filter Q xs"
  by (induction xs) auto

lemma filter_filter_others: "(\<And>x. x \<in> set xs \<Longrightarrow> P x \<Longrightarrow> Q x) \<Longrightarrow> filter P (filter Q xs) = filter P xs"
  by (induction xs) auto

lemma unique_key: "distinct (map k xs) \<Longrightarrow> x \<in> set xs \<Longrightarrow> y \<in> set xs \<Longrightarrow> k x = k y \<Longrightarrow> x = y"
  by (auto simp: distinct_map inj_on_def)

lemma distinct_map_same_key: "(\<And>x. k (f x) = k x) \<Longrightarrow> map k (map f xs) = map k xs"
  by simp

lemma first_row_in: "first_row (filter P xs) = Some x \<Longrightarrow> x \<in> set xs \<and> P x"
  by (rule first_row_filter_Some)

text \<open>Where a task or a checklist belongs.\<close>

definition task_in :: "string \<Rightarrow> boards \<Rightarrow> string \<Rightarrow> bool" where
  "task_in sp b k \<longleftrightarrow> (\<exists>t \<in> set (tasks b). tk_id t = k \<and> space_board sp b (tk_board_id t))"

definition checklist_in :: "string \<Rightarrow> boards \<Rightarrow> string \<Rightarrow> bool" where
  "checklist_in sp b k \<longleftrightarrow> (\<exists>c \<in> set (task_checklists b). cl_id c = k \<and> task_in sp b (cl_task_id c))"

lemma task_in_other:
  assumes "boards_ok b" and "task_in sp b k" and "elsewhere sp b i"
  shows "k \<notin> task_ids b i"
proof
  assume "k \<in> task_ids b i"
  moreover have "distinct (map tk_id (tasks b))" using assms(1) by (simp add: boards_ok_def place_defs comp_def)
  ultimately have "space_board sp b i"
    using assms(2) unique_key [of tk_id "tasks b"] by (auto simp: task_ids_def task_in_def)
  then show False using not_both assms by blast
qed

lemma checklist_in_other:
  assumes "boards_ok b" and "checklist_in sp b k" and "elsewhere sp b i"
  shows "k \<notin> checklist_ids b i"
proof
  assume "k \<in> checklist_ids b i"
  then obtain c where c: "c \<in> set (task_checklists b)" "cl_id c = k" "cl_task_id c \<in> task_ids b i"
    by (auto simp: checklist_ids_def)
  obtain c' where "c' \<in> set (task_checklists b)" "cl_id c' = k" "task_in sp b (cl_task_id c')"
    using assms(2) by (auto simp: checklist_in_def)
  moreover have "distinct (map cl_id (task_checklists b))" using assms(1) by (simp add: boards_ok_def place_defs comp_def)
  ultimately have "task_in sp b (cl_task_id c)" using c unique_key by metis
  then show False using task_in_other assms c(3) by blast
qed


section \<open>Changes of one table\<close>

lemma elsewhere_known: "elsewhere sp b i \<Longrightarrow> has_key tb_id i (task_boards b)"
  by (auto simp: elsewhere_def has_key_def list_ex_iff)

lemma elsewhere_not: "boards_ok b \<Longrightarrow> elsewhere sp b i \<Longrightarrow> space_board sp b k \<Longrightarrow> k \<noteq> i"
  using not_both by blast

lemma boards_ok_same:
  "boards_ok b \<Longrightarrow> board_ids b' = board_ids b \<Longrightarrow> column_places b' = column_places b \<Longrightarrow> task_places b' = task_places b
     \<Longrightarrow> label_places b' = label_places b \<Longrightarrow> checklist_places b' = checklist_places b
     \<Longrightarrow> item_places b' = item_places b \<Longrightarrow> dependency_places b' = dependency_places b \<Longrightarrow> boards_ok b'"
  by (simp add: boards_ok_def dependencies_ok_def on_board_places)

lemma dependencies_ok_more:
  "dependencies_ok b \<Longrightarrow> (\<And>i k. on_board b i k \<Longrightarrow> on_board b' i k)
     \<Longrightarrow> set (dependency_places b') \<subseteq> set (dependency_places b) \<Longrightarrow> dependencies_ok b'"
  unfolding dependencies_ok_def split_beta by (meson subsetD)

lemma ok_column:
  "boards_ok b \<Longrightarrow> t \<in> set (tasks b) \<Longrightarrow> (tk_column_id t, tk_board_id t) \<in> set (column_places b)"
  unfolding boards_ok_def task_places_def by (metis (no_types, lifting) image_eqI image_subset_iff list.set_map snd_conv)

lemma has_key_image: "has_key k i xs \<longleftrightarrow> i \<in> k ` set xs"
  by (auto simp: has_key_def list_ex_iff)

lemma in_space_known: "space_board sp b i \<Longrightarrow> i \<in> set (board_ids b)"
  by (auto simp: space_board_def board_ids_def)

lemma keeps_add_board:
  assumes "boards_ok b" and "\<not> has_key tb_id (tb_id r) (task_boards b)"
  shows "keeps_others sp b (b\<lparr>task_boards := task_boards b @ [r]\<rparr>)" (is "keeps_others sp b ?b")
proof (rule keepsI)
  have "board_ids ?b = board_ids b @ [tb_id r]" and "column_places ?b = column_places b" and "task_places ?b = task_places b"
    and "label_places ?b = label_places b" and "checklist_places ?b = checklist_places b"
    and "item_places ?b = item_places b" and "dependency_places ?b = dependency_places b"
    and "tb_id r \<notin> set (board_ids b)"
    using assms(2) by (simp_all add: place_defs has_key_image)
  then show "boards_ok ?b"
    using assms(1) by (auto simp: boards_ok_def dependencies_ok_def on_board_places)
  show "same_part b ?b i" if "elsewhere sp b i" for i
    using elsewhere_known [OF that] assms by (auto simp: same_part_def)
qed

lemma keeps_map_boards:
  assumes "boards_ok b" and "space_board sp b k" and "\<And>r. tb_id (f r) = tb_id r"
  shows "keeps_others sp b (b\<lparr>task_boards := map (\<lambda>r. if tb_id r = k then f r else r) (task_boards b)\<rparr>)"
    (is "keeps_others sp b ?b")
proof (rule keepsI)
  show "boards_ok ?b" using assms(1,3) by (elim boards_ok_same) (simp_all add: place_defs)
  show "same_part b ?b i" if "elsewhere sp b i" for i
    using elsewhere_not [OF assms(1) that assms(2)] assms(3)
    by (auto simp: same_part_def intro!: filter_map_others split: if_splits)
qed

lemma keeps_add_column:
  assumes "boards_ok b" and "space_board sp b (co_board_id c)" and "\<not> has_key co_id (co_id c) (task_columns b)"
  shows "keeps_others sp b (b\<lparr>task_columns := task_columns b @ [c]\<rparr>)" (is "keeps_others sp b ?b")
proof (rule keepsI)
  have "board_ids ?b = board_ids b" and "column_places ?b = column_places b @ [(co_id c, co_board_id c)]"
    and "task_places ?b = task_places b" and "label_places ?b = label_places b"
    and "checklist_places ?b = checklist_places b" and "item_places ?b = item_places b"
    and "dependency_places ?b = dependency_places b" and "co_id c \<notin> fst ` set (column_places b)"
    using assms(3) by (simp_all add: place_defs has_key_image image_image)
  then show "boards_ok ?b"
    using assms(1) in_space_known [OF assms(2)] by (auto simp: boards_ok_def dependencies_ok_def on_board_places)
  show "same_part b ?b i" if "elsewhere sp b i" for i
    using elsewhere_not [OF assms(1) that assms(2)] by (auto simp: same_part_def)
qed

lemma keeps_map_columns:
  assumes "boards_ok b" and "\<And>c. c \<in> set (task_columns b) \<Longrightarrow> P c \<Longrightarrow> space_board sp b (co_board_id c)"
    and "\<And>c. co_id (f c) = co_id c" and "\<And>c. co_board_id (f c) = co_board_id c"
  shows "keeps_others sp b (update_column_rows P f b)"
proof (rule keepsI)
  show "boards_ok (update_column_rows P f b)"
    using assms(1,3,4) by (elim boards_ok_same) (simp_all add: place_defs update_column_rows_def)
  show "same_part b (update_column_rows P f b) i" if i: "elsewhere sp b i" for i
  proof -
    have "\<forall>c \<in> set (task_columns b). P c \<longrightarrow> co_board_id c \<noteq> i"
      using elsewhere_not [OF assms(1) i] assms(2) by blast
    then show ?thesis using assms(4) by (simp add: same_part_def update_column_rows_def filter_map_if)
  qed
qed

lemma task_in_known: "task_in sp b k \<Longrightarrow> k \<in> fst ` set (task_places b)"
  by (force simp: task_in_def task_places_def image_image)

lemma keeps_add_task:
  assumes "boards_ok b" and "space_board sp b (tk_board_id t)" and "(tk_column_id t, tk_board_id t) \<in> set (column_places b)"
    and "\<not> has_key tk_id (tk_id t) (tasks b)"
  shows "keeps_others sp b (b\<lparr>tasks := tasks b @ [t]\<rparr>)" (is "keeps_others sp b ?b")
proof (rule keepsI)
  have "board_ids ?b = board_ids b" and "column_places ?b = column_places b"
    and "task_places ?b = task_places b @ [(tk_id t, tk_column_id t, tk_board_id t)]" and "label_places ?b = label_places b"
    and "checklist_places ?b = checklist_places b" and "item_places ?b = item_places b"
    and "dependency_places ?b = dependency_places b" and "tk_id t \<notin> fst ` set (task_places b)"
    using assms(4) by (simp_all add: place_defs has_key_image image_image)
  moreover from this have "dependencies_ok ?b"
    using assms(1) by (intro dependencies_ok_more [of b ?b]) (auto simp: on_board_def boards_ok_def)
  ultimately show "boards_ok ?b"
    using assms(1,3) by (auto simp: boards_ok_def)
  show "same_part b ?b i" if "elsewhere sp b i" for i
    using elsewhere_not [OF assms(1) that assms(2)] by (auto simp: same_part_def)
qed

lemma keeps_map_tasks:
  assumes "boards_ok b" and "task_in sp b k" and "\<And>t. tk_id (f t) = tk_id t" and "\<And>t. tk_board_id (f t) = tk_board_id t"
    and "\<And>t. t \<in> set (tasks b) \<Longrightarrow> tk_id t = k \<Longrightarrow> (tk_column_id (f t), tk_board_id t) \<in> set (column_places b)"
  shows "keeps_others sp b (update_task_rows k f b)" (is "keeps_others sp b ?b")
proof (rule keepsI)
  have "board_ids ?b = board_ids b" and "column_places ?b = column_places b" and "label_places ?b = label_places b"
    and "checklist_places ?b = checklist_places b" and "item_places ?b = item_places b"
    and "dependency_places ?b = dependency_places b" and ids: "map fst (task_places ?b) = map fst (task_places b)"
    using assms(3) by (simp_all add: place_defs update_task_rows_def comp_def)
  moreover have "fst ` set (task_places ?b) = fst ` set (task_places b)"
    using ids by (metis set_map)
  moreover have "snd ` set (task_places ?b) \<subseteq> set (column_places b)"
    using ok_column [OF assms(1)] assms(4,5) by (auto simp: task_places_def update_task_rows_def)
  moreover have "dependencies_ok ?b"
  proof (rule dependencies_ok_more)
    show "dependencies_ok b" using assms(1) by (simp add: boards_ok_def)
    show "on_board ?b i j" if on: "on_board b i j" for i j
    proof -
      obtain t where t: "t \<in> set (tasks b)" "tk_id t = j" "tk_board_id t = i"
        using on unfolding on_board_def by blast
      define t' where "t' = (if tk_id t = k then f t else t)"
      have "t' \<in> set (tasks ?b)" "tk_id t' = j" "tk_board_id t' = i"
        using t assms(3,4) by (auto simp: t'_def update_task_rows_def)
      then show ?thesis unfolding on_board_def by blast
    qed
  qed (simp add: dependency_places_def update_task_rows_def)
  ultimately show "boards_ok ?b"
    using assms(1) by (simp add: boards_ok_def)
  show "same_part b ?b i" if i: "elsewhere sp b i" for i
  proof -
    have "\<forall>t \<in> set (tasks b). tk_id t = k \<longrightarrow> tk_board_id t \<noteq> i"
      using task_in_other [OF assms(1,2) i] by (auto simp: task_ids_def)
    then show ?thesis using assms(4) by (simp add: same_part_def update_task_rows_def filter_map_if)
  qed
qed

section \<open>The tables of a task\<close>

lemma keeps_assignees:
  assumes "boards_ok b" and "\<And>a. fst a \<noteq> k \<Longrightarrow> P a" and "task_in sp b k"
  shows "keeps_others sp b (b\<lparr>task_assignees := filter P (task_assignees b)\<rparr>)" (is "keeps_others sp b ?b")
proof (rule keepsI)
  show "boards_ok ?b" using assms(1) by (rule boards_ok_same) (simp_all add: place_defs)
  show "same_part b ?b i" if i: "elsewhere sp b i" for i
  proof -
    have "filter (\<lambda>a. fst a \<in> task_ids b i) (filter P (task_assignees b)) = filter (\<lambda>a. fst a \<in> task_ids b i) (task_assignees b)"
      using task_in_other [OF assms(1,3) i] assms(2) by (intro filter_filter_others) metis
    then show ?thesis by (simp add: same_part_def)
  qed
qed

lemma keeps_add_assignee:
  assumes "boards_ok b" and "task_in sp b k"
  shows "keeps_others sp b (b\<lparr>task_assignees := task_assignees b @ [(k, u)]\<rparr>)" (is "keeps_others sp b ?b")
proof (rule keepsI)
  show "boards_ok ?b" using assms(1) by (rule boards_ok_same) (simp_all add: place_defs)
  show "same_part b ?b i" if i: "elsewhere sp b i" for i
    using task_in_other [OF assms i] by (simp add: same_part_def)
qed

lemma keeps_label_assignments:
  assumes "boards_ok b" shows "keeps_others sp b (b\<lparr>task_label_assignments := xs\<rparr>)" (is "keeps_others sp b ?b")
proof (rule keepsI)
  show "boards_ok ?b" using assms(1) by (rule boards_ok_same) (simp_all add: place_defs)
qed (simp add: same_part_def)

lemma keeps_add_activity:
  assumes "boards_ok b" and "task_in sp b (ta_task_id a)"
  shows "keeps_others sp b (b\<lparr>task_activities := task_activities b @ [a]\<rparr>)" (is "keeps_others sp b ?b")
proof (rule keepsI)
  show "boards_ok ?b" using assms(1) by (rule boards_ok_same) (simp_all add: place_defs)
  show "same_part b ?b i" if i: "elsewhere sp b i" for i
    using task_in_other [OF assms i] by (simp add: same_part_def)
qed

lemma keeps_add_label:
  assumes "boards_ok b" and "space_board sp b (tl_board_id l)" and "\<not> has_key tl_id (tl_id l) (task_labels b)"
  shows "keeps_others sp b (b\<lparr>task_labels := task_labels b @ [l]\<rparr>)" (is "keeps_others sp b ?b")
proof (rule keepsI)
  have "board_ids ?b = board_ids b" and "column_places ?b = column_places b" and "task_places ?b = task_places b"
    and "label_places ?b = label_places b @ [(tl_id l, tl_board_id l)]" and "checklist_places ?b = checklist_places b"
    and "item_places ?b = item_places b" and "dependency_places ?b = dependency_places b"
    and "tl_id l \<notin> fst ` set (label_places b)"
    using assms(3) by (simp_all add: place_defs has_key_image image_image)
  then show "boards_ok ?b"
    using assms(1) in_space_known [OF assms(2)] by (auto simp: boards_ok_def dependencies_ok_def on_board_places)
  show "same_part b ?b i" if "elsewhere sp b i" for i
    using elsewhere_not [OF assms(1) that assms(2)] by (auto simp: same_part_def)
qed

text \<open>The label with the id is in the space.\<close>

lemma keeps_map_labels:
  assumes "boards_ok b" and "\<forall>l \<in> set (task_labels b). tl_id l = k \<longrightarrow> space_board sp b (tl_board_id l)"
    and "\<And>l. tl_id (f l) = tl_id l" and "\<And>l. tl_board_id (f l) = tl_board_id l"
  shows "keeps_others sp b (b\<lparr>task_labels := map (\<lambda>l. if tl_id l = k then f l else l) (task_labels b)\<rparr>)"
    (is "keeps_others sp b ?b")
proof (rule keepsI)
  show "boards_ok ?b" using assms(1,3,4) by (elim boards_ok_same) (simp_all add: place_defs)
  show "same_part b ?b i" if i: "elsewhere sp b i" for i
  proof -
    have "\<forall>l \<in> set (task_labels b). tl_id l = k \<longrightarrow> tl_board_id l \<noteq> i"
      using elsewhere_not [OF assms(1) i] assms(2) by blast
    then show ?thesis using assms(4) by (simp add: same_part_def filter_map_if)
  qed
qed

section \<open>Checklists and dependencies\<close>

lemma checklist_in_known: "checklist_in sp b k \<Longrightarrow> k \<in> fst ` set (checklist_places b)"
  unfolding checklist_in_def checklist_places_def set_map image_image by auto

lemma keeps_add_checklist:
  assumes "boards_ok b" and "task_in sp b (cl_task_id c)" and "\<not> has_key cl_id (cl_id c) (task_checklists b)"
  shows "keeps_others sp b (b\<lparr>task_checklists := task_checklists b @ [c]\<rparr>)" (is "keeps_others sp b ?b")
proof (rule keepsI)
  have "board_ids ?b = board_ids b" and "column_places ?b = column_places b" and "task_places ?b = task_places b"
    and "label_places ?b = label_places b" and "checklist_places ?b = checklist_places b @ [(cl_id c, cl_task_id c)]"
    and "item_places ?b = item_places b" and "dependency_places ?b = dependency_places b"
    and "cl_id c \<notin> fst ` set (checklist_places b)"
    using assms(3) by (simp_all add: place_defs has_key_image image_image)
  then show "boards_ok ?b"
    using assms(1) task_in_known [OF assms(2)] by (auto simp: boards_ok_def dependencies_ok_def on_board_places)
  show "same_part b ?b i" if "elsewhere sp b i" for i
    using task_in_other [OF assms(1,2) that] by (simp add: same_part_def)
qed

lemma keeps_map_checklists:
  assumes "boards_ok b" and "checklist_in sp b k"
    and "\<And>c. cl_id (f c) = cl_id c" and "\<And>c. cl_task_id (f c) = cl_task_id c"
  shows "keeps_others sp b (b\<lparr>task_checklists := map (\<lambda>c. if cl_id c = k then f c else c) (task_checklists b)\<rparr>)"
    (is "keeps_others sp b ?b")
proof (rule keepsI)
  show "boards_ok ?b" using assms(1,3,4) by (elim boards_ok_same) (simp_all add: place_defs)
  show "same_part b ?b i" if i: "elsewhere sp b i" for i
  proof -
    have "\<forall>c \<in> set (task_checklists b). cl_id c = k \<longrightarrow> cl_task_id c \<notin> task_ids b i"
      using checklist_in_other [OF assms(1,2) i] by (auto simp: checklist_ids_def)
    then show ?thesis using assms(4) by (simp add: same_part_def filter_map_if)
  qed
qed

lemma keeps_add_item:
  assumes "boards_ok b" and "checklist_in sp b (ci_checklist_id c)" and "\<not> has_key ci_id (ci_id c) (task_checklist_items b)"
  shows "keeps_others sp b (b\<lparr>task_checklist_items := task_checklist_items b @ [c]\<rparr>)" (is "keeps_others sp b ?b")
proof (rule keepsI)
  have "board_ids ?b = board_ids b" and "column_places ?b = column_places b" and "task_places ?b = task_places b"
    and "label_places ?b = label_places b" and "checklist_places ?b = checklist_places b"
    and "item_places ?b = item_places b @ [(ci_id c, ci_checklist_id c)]" and "dependency_places ?b = dependency_places b"
    and "ci_id c \<notin> fst ` set (item_places b)"
    using assms(3) by (simp_all add: place_defs has_key_image image_image)
  then show "boards_ok ?b"
    using assms(1) checklist_in_known [OF assms(2)] by (auto simp: boards_ok_def dependencies_ok_def on_board_places)
  show "same_part b ?b i" if "elsewhere sp b i" for i
    using checklist_in_other [OF assms(1,2) that] by (simp add: same_part_def)
qed

definition item_in :: "string \<Rightarrow> boards \<Rightarrow> string \<Rightarrow> bool" where
  "item_in sp b k \<longleftrightarrow> (\<forall>i \<in> set (task_checklist_items b). ci_id i = k \<longrightarrow> checklist_in sp b (ci_checklist_id i))"

lemma item_in_other:
  "boards_ok b \<Longrightarrow> item_in sp b k \<Longrightarrow> elsewhere sp b i
     \<Longrightarrow> \<forall>c \<in> set (task_checklist_items b). ci_id c = k \<longrightarrow> ci_checklist_id c \<notin> checklist_ids b i"
  unfolding item_in_def using checklist_in_other by blast

lemma keeps_map_items:
  assumes "boards_ok b" and "item_in sp b k"
    and "\<And>i. ci_id (f i) = ci_id i" and "\<And>i. ci_checklist_id (f i) = ci_checklist_id i"
  shows "keeps_others sp b (b\<lparr>task_checklist_items := map (\<lambda>i. if ci_id i = k then f i else i) (task_checklist_items b)\<rparr>)"
    (is "keeps_others sp b ?b")
proof (rule keepsI)
  show "boards_ok ?b" using assms(1,3,4) by (elim boards_ok_same) (simp_all add: place_defs)
  show "same_part b ?b i" if i: "elsewhere sp b i" for i
    using item_in_other [OF assms(1,2) i] assms(4) by (simp add: same_part_def filter_map_if)
qed

lemma distinct_map_sub: "distinct (map f xs) \<Longrightarrow> distinct (map f (filter P xs))"
  by (simp add: distinct_map_filter)

lemma keeps_drop_items:
  assumes "boards_ok b" and "item_in sp b k"
  shows "keeps_others sp b (b\<lparr>task_checklist_items := filter (\<lambda>i. ci_id i \<noteq> k) (task_checklist_items b)\<rparr>)"
    (is "keeps_others sp b ?b")
proof (rule keepsI)
  have "board_ids ?b = board_ids b" and "column_places ?b = column_places b" and "task_places ?b = task_places b"
    and "label_places ?b = label_places b" and "checklist_places ?b = checklist_places b"
    and "item_places ?b = filter (\<lambda>(i, c). i \<noteq> k) (item_places b)" and "dependency_places ?b = dependency_places b"
    by (simp_all add: place_defs filter_map comp_def)
  then show "boards_ok ?b"
    using assms(1) by (auto simp: boards_ok_def dependencies_ok_def on_board_places intro: distinct_map_sub)
  show "same_part b ?b i" if i: "elsewhere sp b i" for i
  proof -
    have "filter (\<lambda>c. ci_checklist_id c \<in> checklist_ids b i) (filter (\<lambda>i. ci_id i \<noteq> k) (task_checklist_items b))
        = filter (\<lambda>c. ci_checklist_id c \<in> checklist_ids b i) (task_checklist_items b)"
      using item_in_other [OF assms i] by (intro filter_filter_others) blast
    then show ?thesis by (simp add: same_part_def)
  qed
qed


lemma keeps_add_dependency:
  assumes "boards_ok b" and "task_in sp b (td_task_id e)" and "on_board b i (td_task_id e)" and "on_board b i (td_depends_on_id e)"
    and "\<not> has_key td_id (td_id e) (task_dependencies b)"
  shows "keeps_others sp b (b\<lparr>task_dependencies := task_dependencies b @ [e]\<rparr>)" (is "keeps_others sp b ?b")
proof (rule keepsI)
  have "board_ids ?b = board_ids b" and "column_places ?b = column_places b" and "task_places ?b = task_places b"
    and "label_places ?b = label_places b" and "checklist_places ?b = checklist_places b" and "item_places ?b = item_places b"
    and "dependency_places ?b = dependency_places b @ [(td_id e, td_task_id e, td_depends_on_id e)]"
    and "td_id e \<notin> fst ` set (dependency_places b)"
    using assms(5) by (simp_all add: place_defs has_key_image image_image)
  then show "boards_ok ?b"
    using assms(1,3,4) by (auto simp: boards_ok_def dependencies_ok_def on_board_places)
  show "same_part b ?b j" if "elsewhere sp b j" for j
    using task_in_other [OF assms(1,2) that] by (simp add: same_part_def)
qed

lemma keeps_map_dependencies:
  assumes "boards_ok b" and "task_in sp b k" and "\<And>e. P e \<Longrightarrow> td_task_id e = k" and "\<And>e. td_id (f e) = td_id e"
    and "\<And>e. td_task_id (f e) = td_task_id e" and "\<And>e. td_depends_on_id (f e) = td_depends_on_id e"
  shows "keeps_others sp b (b\<lparr>task_dependencies := map (\<lambda>e. if P e then f e else e) (task_dependencies b)\<rparr>)"
    (is "keeps_others sp b ?b")
proof (rule keepsI)
  show "boards_ok ?b" using assms(1,4-6) by (elim boards_ok_same) (simp_all add: place_defs)
  show "same_part b ?b i" if i: "elsewhere sp b i" for i
  proof -
    have "\<forall>e \<in> set (task_dependencies b). P e \<longrightarrow> td_task_id e \<notin> task_ids b i"
      using task_in_other [OF assms(1,2) i] assms(3) by blast
    then show ?thesis using assms(5) by (simp add: same_part_def filter_map_if)
  qed
qed

lemma keeps_drop_dependencies:
  assumes "boards_ok b" and "\<forall>e \<in> set (task_dependencies b). td_id e = k \<longrightarrow> task_in sp b (td_task_id e)"
  shows "keeps_others sp b (b\<lparr>task_dependencies := filter (\<lambda>e. td_id e \<noteq> k) (task_dependencies b)\<rparr>)"
    (is "keeps_others sp b ?b")
proof (rule keepsI)
  have "board_ids ?b = board_ids b" and "column_places ?b = column_places b" and "task_places ?b = task_places b"
    and "label_places ?b = label_places b" and "checklist_places ?b = checklist_places b" and "item_places ?b = item_places b"
    and "dependency_places ?b = filter (\<lambda>e. fst e \<noteq> k) (dependency_places b)"
    by (simp_all add: place_defs filter_map comp_def)
  then show "boards_ok ?b"
    using assms(1) by (auto simp: boards_ok_def dependencies_ok_def on_board_places intro: distinct_map_sub)
  show "same_part b ?b i" if i: "elsewhere sp b i" for i
  proof -
    have "filter (\<lambda>e. td_task_id e \<in> task_ids b i) (filter (\<lambda>e. td_id e \<noteq> k) (task_dependencies b))
        = filter (\<lambda>e. td_task_id e \<in> task_ids b i) (task_dependencies b)"
      using task_in_other [OF assms(1) _ i] assms(2) by (intro filter_filter_others) blast
    then show ?thesis by (simp add: same_part_def)
  qed
qed

section \<open>Deleting\<close>

text \<open>References among the rows that stay when rows go together with what refers to them.\<close>

lemma kept_refs:
  assumes "g ` set ys \<subseteq> f ` set xs" shows "g ` set (filter (\<lambda>y. g y \<notin> I) ys) \<subseteq> f ` set (filter (\<lambda>x. f x \<notin> I) xs)"
proof
  fix z assume "z \<in> g ` set (filter (\<lambda>y. g y \<notin> I) ys)"
  then obtain y where "y \<in> set ys" "g y \<notin> I" "z = g y" by auto
  moreover from this obtain x where "x \<in> set xs" "f x = g y" using assms by (metis image_iff subset_iff)
  ultimately show "z \<in> f ` set (filter (\<lambda>x. f x \<notin> I) xs)" by (intro image_eqI [of _ _ x]) auto
qed

lemma fewer_refs: "g ` set ys \<subseteq> S \<Longrightarrow> g ` set (filter P ys) \<subseteq> S"
  by auto

lemma keeps_drop_checklists:
  assumes "boards_ok b" and "\<forall>c \<in> set (task_checklists b). gone c \<longrightarrow> task_in sp b (cl_task_id c)"
  shows "keeps_others sp b (drop_checklists gone b)"
proof (rule keepsI)
  let ?ids = "cl_id ` set (filter gone (task_checklists b))" and ?b = "drop_checklists gone b"
  have d: "distinct (map cl_id (task_checklists b))" using assms(1) by (simp add: boards_ok_def place_defs comp_def)
  have kept: "filter (\<lambda>c. \<not> gone c) (task_checklists b) = filter (\<lambda>c. cl_id c \<notin> ?ids) (task_checklists b)"
    using unique_key [OF d] by (intro filter_cong) auto
  have "board_ids ?b = board_ids b" and "column_places ?b = column_places b" and "task_places ?b = task_places b"
    and "label_places ?b = label_places b" and "checklist_places ?b = filter (\<lambda>c. fst c \<notin> ?ids) (checklist_places b)"
    and "item_places ?b = filter (\<lambda>i. snd i \<notin> ?ids) (item_places b)"
    and "dependency_places ?b = dependency_places b"
    by (simp_all add: place_defs filter_map comp_def drop_checklists_def kept)
  moreover have "snd ` set (filter (\<lambda>i. snd i \<notin> ?ids) (item_places b)) \<subseteq> fst ` set (filter (\<lambda>c. fst c \<notin> ?ids) (checklist_places b))"
    using assms(1) by (intro kept_refs) (simp add: boards_ok_def)
  moreover have "snd ` set (filter (\<lambda>c. fst c \<notin> ?ids) (checklist_places b)) \<subseteq> fst ` set (task_places b)"
    using assms(1) by (intro fewer_refs) (simp add: boards_ok_def)
  ultimately show "boards_ok ?b"
    using assms(1) by (simp add: boards_ok_def dependencies_ok_def on_board_places distinct_map_sub del: set_filter)
  show "same_part b ?b i" if i: "elsewhere sp b i" for i
  proof -
    have a: "\<forall>c \<in> set (task_checklists b). cl_task_id c \<in> task_ids b i \<longrightarrow> \<not> gone c"
      using task_in_other [OF assms(1) _ i] assms(2) by blast
    have c: "?ids \<inter> checklist_ids b i = {}"
      using a unique_key [OF d] by (auto simp: checklist_ids_def)
    have "filter (\<lambda>c. cl_task_id c \<in> task_ids b i) (filter (\<lambda>c. \<not> gone c) (task_checklists b))
        = filter (\<lambda>c. cl_task_id c \<in> task_ids b i) (task_checklists b)"
      using a by (intro filter_filter_others) blast
    moreover have "filter (\<lambda>c. ci_checklist_id c \<in> checklist_ids b i)
          (filter (\<lambda>c. ci_checklist_id c \<notin> ?ids) (task_checklist_items b))
        = filter (\<lambda>c. ci_checklist_id c \<in> checklist_ids b i) (task_checklist_items b)"
      using c by (intro filter_filter_others) blast
    ultimately show ?thesis by (simp add: same_part_def drop_checklists_def)
  qed
qed


lemma dependency_one_board:
  assumes "boards_ok b" and "e \<in> set (task_dependencies b)" and "td_task_id e \<in> task_ids b i"
  shows "td_depends_on_id e \<in> task_ids b i"
proof -
  have "(td_id e, td_task_id e, td_depends_on_id e) \<in> set (dependency_places b)"
    using assms(2) by (auto simp: dependency_places_def)
  moreover have "dependencies_ok b" using assms(1) by (simp add: boards_ok_def)
  ultimately obtain j where j: "on_board b j (td_task_id e)" "on_board b j (td_depends_on_id e)"
    unfolding dependencies_ok_def by blast
  have "distinct (map tk_id (tasks b))" using assms(1) by (simp add: boards_ok_def place_defs comp_def)
  moreover obtain t where t: "t \<in> set (tasks b)" "tk_id t = td_task_id e" "tk_board_id t = j"
    using j(1) unfolding on_board_def by blast
  moreover obtain u where "u \<in> set (tasks b)" "tk_id u = td_task_id e" "tk_board_id u = i"
    using assms(3) by (auto simp: task_ids_def)
  ultimately have "j = i" using unique_key [of tk_id "tasks b" t u] by simp
  then show ?thesis using j(2) unfolding on_board_def task_ids_def by (metis (mono_tags, lifting) imageI mem_Collect_eq)
qed

lemma keeps_drop_tasks:
  assumes "boards_ok b" and "\<forall>t \<in> set (tasks b). gone t \<longrightarrow> space_board sp b (tk_board_id t)"
  shows "keeps_others sp b (drop_tasks gone b)"
proof (rule keepsI)
  let ?ids = "tk_id ` set (filter gone (tasks b))" and ?b = "drop_tasks gone b"
  let ?b1 = "drop_checklists (\<lambda>c. cl_task_id c \<in> ?ids) b"
  have d: "distinct (map tk_id (tasks b))" using assms(1) by (simp add: boards_ok_def place_defs comp_def)
  have kept: "filter (\<lambda>t. \<not> gone t) (tasks b) = filter (\<lambda>t. tk_id t \<notin> ?ids) (tasks b)"
    using unique_key [OF d] by (intro filter_cong) auto
  have own: "\<forall>k \<in> ?ids. task_in sp b k" using assms(2) by (auto simp: task_in_def)
  have b1: "keeps_others sp b ?b1"
    by (intro keeps_drop_checklists assms(1) ballI impI) (rule bspec [OF own])
  have p: "board_ids ?b = board_ids b" "column_places ?b = column_places b"
    "task_places ?b = filter (\<lambda>t. fst t \<notin> ?ids) (task_places b)" "label_places ?b = label_places b"
    "checklist_places ?b = filter (\<lambda>c. snd c \<notin> ?ids) (checklist_places b)" "checklist_places ?b = checklist_places ?b1"
    "item_places ?b = item_places ?b1"
    "dependency_places ?b = filter (\<lambda>e. fst (snd e) \<notin> ?ids \<and> snd (snd e) \<notin> ?ids) (dependency_places b)"
    by (simp_all add: place_defs filter_map comp_def drop_tasks_def drop_checklists_def Let_def kept)
  have "snd ` set (checklist_places ?b) \<subseteq> fst ` set (task_places ?b)"
    unfolding p(3,5) using assms(1) by (intro kept_refs) (simp add: boards_ok_def)
  moreover have "snd ` set (task_places ?b) \<subseteq> set (column_places b)"
    unfolding p(3) using assms(1) by (intro fewer_refs) (simp add: boards_ok_def)
  moreover have "dependencies_ok ?b"
  proof -
    have "on_board ?b i k" if "on_board b i k" and "k \<notin> ?ids" for i k
      using that unfolding on_board_places p(3) by auto
    moreover have "dependencies_ok b" using assms(1) by (simp add: boards_ok_def)
    ultimately show ?thesis unfolding dependencies_ok_def p(8) by (auto simp del: set_filter simp: set_filter [abs_def]) blast
  qed
  ultimately show "boards_ok ?b"
    using assms(1) keeps_ok [OF b1] p by (simp add: boards_ok_def distinct_map_sub del: set_filter)
  show "same_part b ?b i" if i: "elsewhere sp b i" for i
  proof -
    have t: "?ids \<inter> task_ids b i = {}" using own task_in_other [OF assms(1) _ i] by blast
    have "\<forall>t \<in> set (tasks b). tk_board_id t = i \<longrightarrow> \<not> gone t"
      using elsewhere_not [OF assms(1) i] assms(2) by blast
    then have "filter (\<lambda>t. tk_board_id t = i) (filter (\<lambda>t. \<not> gone t) (tasks b)) = filter (\<lambda>t. tk_board_id t = i) (tasks b)"
      by (intro filter_filter_others) blast
    moreover have "filter (\<lambda>a. fst a \<in> task_ids b i) (filter (\<lambda>a. fst a \<notin> ?ids) (task_assignees b))
        = filter (\<lambda>a. fst a \<in> task_ids b i) (task_assignees b)"
      using t by (intro filter_filter_others) blast
    moreover have "filter (\<lambda>a. ta_task_id a \<in> task_ids b i) (filter (\<lambda>a. ta_task_id a \<notin> ?ids) (task_activities b))
        = filter (\<lambda>a. ta_task_id a \<in> task_ids b i) (task_activities b)"
      using t by (intro filter_filter_others) blast
    moreover have "filter (\<lambda>e. td_task_id e \<in> task_ids b i)
          (filter (\<lambda>e. td_task_id e \<notin> ?ids \<and> td_depends_on_id e \<notin> ?ids) (task_dependencies b))
        = filter (\<lambda>e. td_task_id e \<in> task_ids b i) (task_dependencies b)"
      using t dependency_one_board [OF assms(1)] by (intro filter_filter_others) blast
    moreover have "same_part b ?b1 i" using b1 i by (simp add: keeps_others_def)
    ultimately show ?thesis by (simp add: same_part_def drop_tasks_def Let_def drop_checklists_def)
  qed
qed

lemma keeps_drop_labels:
  assumes "boards_ok b" and "\<forall>l \<in> set (task_labels b). gone l \<longrightarrow> space_board sp b (tl_board_id l)"
  shows "keeps_others sp b (drop_labels gone b)"
proof (rule keepsI)
  let ?ids = "tl_id ` set (filter gone (task_labels b))" and ?b = "drop_labels gone b"
  have d: "distinct (map tl_id (task_labels b))" using assms(1) by (simp add: boards_ok_def place_defs comp_def)
  have kept: "filter (\<lambda>l. \<not> gone l) (task_labels b) = filter (\<lambda>l. tl_id l \<notin> ?ids) (task_labels b)"
    using unique_key [OF d] by (intro filter_cong) auto
  have "board_ids ?b = board_ids b" "column_places ?b = column_places b" "task_places ?b = task_places b"
    "label_places ?b = filter (\<lambda>l. fst l \<notin> ?ids) (label_places b)" "checklist_places ?b = checklist_places b"
    "item_places ?b = item_places b" "dependency_places ?b = dependency_places b"
    by (simp_all add: place_defs filter_map comp_def drop_labels_def Let_def kept)
  moreover have "snd ` set (filter (\<lambda>l. fst l \<notin> ?ids) (label_places b)) \<subseteq> set (board_ids b)"
    using assms(1) by (intro fewer_refs) (simp add: boards_ok_def)
  ultimately show "boards_ok ?b"
    using assms(1) by (simp add: boards_ok_def dependencies_ok_def on_board_places distinct_map_sub del: set_filter)
  show "same_part b ?b i" if i: "elsewhere sp b i" for i
  proof -
    have "\<forall>l \<in> set (task_labels b). tl_board_id l = i \<longrightarrow> \<not> gone l"
      using elsewhere_not [OF assms(1) i] assms(2) by blast
    then have "filter (\<lambda>l. tl_board_id l = i) (filter (\<lambda>l. \<not> gone l) (task_labels b)) = filter (\<lambda>l. tl_board_id l = i) (task_labels b)"
      by (intro filter_filter_others) blast
    then show ?thesis by (simp add: same_part_def drop_labels_def Let_def)
  qed
qed

lemma in_space_same: "task_boards b' = task_boards b \<Longrightarrow> space_board sp b' i = space_board sp b i"
  by (simp add: space_board_def)

lemma dropped_tables:
  "task_boards (drop_tasks gone b) = task_boards b" "task_columns (drop_tasks gone b) = task_columns b"
  "tasks (drop_tasks gone b) = filter (\<lambda>t. \<not> gone t) (tasks b)" "task_labels (drop_tasks gone b) = task_labels b"
  "task_boards (drop_columns lost b) = task_boards b" "task_columns (drop_columns lost b) = filter (\<lambda>c. \<not> lost c) (task_columns b)"
  "task_labels (drop_columns lost b) = task_labels b"
  "task_boards (drop_labels off b) = task_boards b" "tasks (drop_labels off b) = tasks b"
  "task_columns (drop_labels off b) = task_columns b" "task_labels (drop_labels off b) = filter (\<lambda>l. \<not> off l) (task_labels b)"
  by (simp_all add: drop_tasks_def drop_columns_def drop_checklists_def drop_labels_def Let_def)

lemma keeps_drop_columns:
  assumes "boards_ok b" and "\<forall>c \<in> set (task_columns b). gone c \<longrightarrow> space_board sp b (co_board_id c)"
  shows "keeps_others sp b (drop_columns gone b)"
proof -
  let ?ids = "co_id ` set (filter gone (task_columns b))" and ?b = "drop_columns gone b"
  let ?b1 = "drop_tasks (\<lambda>t. tk_column_id t \<in> ?ids) b"
  have d: "distinct (map co_id (task_columns b))" using assms(1) by (simp add: boards_ok_def place_defs comp_def)
  have b: "?b = ?b1\<lparr>task_columns := filter (\<lambda>c. \<not> gone c) (task_columns ?b1)\<rparr>"
    by (simp add: drop_columns_def Let_def dropped_tables)
  have "\<forall>t \<in> set (tasks b). tk_column_id t \<in> ?ids \<longrightarrow> space_board sp b (tk_board_id t)"
  proof (intro ballI impI)
    fix t assume t: "t \<in> set (tasks b)" and "tk_column_id t \<in> ?ids"
    then obtain c where c: "c \<in> set (task_columns b)" "gone c" "co_id c = tk_column_id t" by auto
    obtain c' where "c' \<in> set (task_columns b)" "co_id c' = tk_column_id t" "co_board_id c' = tk_board_id t"
      using ok_column [OF assms(1) t] unfolding column_places_def by auto
    moreover from this have "c' = c" using unique_key [OF d] c by simp
    ultimately show "space_board sp b (tk_board_id t)" using assms(2) c by metis
  qed
  then have b1: "keeps_others sp b ?b1" by (rule keeps_drop_tasks [OF assms(1)])
  have "keeps_others sp ?b1 ?b"
  proof (rule keepsI)
    have kept: "filter (\<lambda>c. \<not> gone c) (task_columns b) = filter (\<lambda>c. co_id c \<notin> ?ids) (task_columns b)"
      using unique_key [OF d] by (intro filter_cong) auto
    have p: "board_ids ?b = board_ids ?b1" "column_places ?b = filter (\<lambda>c. fst c \<notin> ?ids) (column_places ?b1)"
      "task_places ?b = task_places ?b1" "label_places ?b = label_places ?b1" "checklist_places ?b = checklist_places ?b1"
      "item_places ?b = item_places ?b1" "dependency_places ?b = dependency_places ?b1"
      unfolding b by (simp_all add: place_defs filter_map comp_def dropped_tables kept)
    have ok: "boards_ok ?b1" by (rule keeps_ok [OF b1])
    have "snd ` set (filter (\<lambda>c. fst c \<notin> ?ids) (column_places ?b1)) \<subseteq> set (board_ids ?b1)"
      using ok by (intro fewer_refs) (simp add: boards_ok_def)
    moreover have "snd ` set (task_places ?b1) \<subseteq> set (filter (\<lambda>c. fst c \<notin> ?ids) (column_places ?b1))"
    proof
      fix z assume "z \<in> snd ` set (task_places ?b1)"
      then obtain t where t: "t \<in> set (tasks ?b1)" "z = (tk_column_id t, tk_board_id t)" by (auto simp: task_places_def)
      then have "tk_column_id t \<notin> ?ids" by (simp add: dropped_tables)
      with t ok_column [OF ok t(1)] show "z \<in> set (filter (\<lambda>c. fst c \<notin> ?ids) (column_places ?b1))" by simp
    qed
    ultimately show "boards_ok ?b"
      using ok p by (simp add: boards_ok_def dependencies_ok_def on_board_places distinct_map_sub del: set_filter)
    show "same_part ?b1 ?b i" if i: "elsewhere sp ?b1 i" for i
    proof -
      have "elsewhere sp b i" using i by (simp add: elsewhere_def dropped_tables)
      then have "\<forall>c \<in> set (task_columns b). co_board_id c = i \<longrightarrow> \<not> gone c"
        using elsewhere_not [OF assms(1)] assms(2) by blast
      then have "filter (\<lambda>c. co_board_id c = i) (filter (\<lambda>c. \<not> gone c) (task_columns b)) = filter (\<lambda>c. co_board_id c = i) (task_columns b)"
        by (intro filter_filter_others) blast
      then show ?thesis unfolding b by (simp add: same_part_def dropped_tables)
    qed
  qed
  with b1 show ?thesis by (rule keeps_trans)
qed

lemma keeps_delete_board:
  assumes "boards_ok b" and "space_board sp b k"
  shows "keeps_others sp b (delete_task_board b k)"
proof -
  let ?b1 = "drop_labels (\<lambda>l. tl_board_id l = k) b"
  let ?b2 = "drop_tasks (\<lambda>t. tk_board_id t = k) ?b1"
  let ?b3 = "drop_columns (\<lambda>c. co_board_id c = k) ?b2"
  let ?b = "delete_task_board b k"
  have b: "?b = ?b3\<lparr>task_boards := filter (\<lambda>r. tb_id r \<noteq> k) (task_boards ?b3)\<rparr>"
    by (simp add: delete_task_board_def Let_def dropped_tables)
  have b1: "keeps_others sp b ?b1" using assms by (intro keeps_drop_labels) auto
  have b2: "keeps_others sp ?b1 ?b2"
    using keeps_ok [OF b1] assms(2) by (intro keeps_drop_tasks) (auto simp: in_space_same [of ?b1 b] dropped_tables)
  have "keeps_others sp ?b2 ?b3"
    using keeps_ok [OF b2] assms(2) by (intro keeps_drop_columns) (auto simp: in_space_same [of ?b2 b] dropped_tables)
  then have b3: "keeps_others sp b ?b3" using b1 b2 keeps_trans by blast
  have "keeps_others sp ?b3 ?b"
  proof (rule keepsI)
    have ok: "boards_ok ?b3" by (rule keeps_ok [OF b3])
    have p: "board_ids ?b = filter (\<lambda>i. i \<noteq> k) (board_ids ?b3)" "column_places ?b = column_places ?b3"
      "task_places ?b = task_places ?b3" "label_places ?b = label_places ?b3" "checklist_places ?b = checklist_places ?b3"
      "item_places ?b = item_places ?b3" "dependency_places ?b = dependency_places ?b3"
      unfolding b by (simp_all add: place_defs filter_map comp_def)
    have "k \<notin> snd ` set (column_places ?b3)" and "k \<notin> snd ` set (label_places ?b3)"
      by (auto simp: place_defs dropped_tables)
    moreover have "snd ` set (column_places ?b3) \<subseteq> set (board_ids ?b3)" and "snd ` set (label_places ?b3) \<subseteq> set (board_ids ?b3)"
      using ok by (simp_all add: boards_ok_def)
    ultimately have "snd ` set (column_places ?b3) \<subseteq> set (board_ids ?b)" and "snd ` set (label_places ?b3) \<subseteq> set (board_ids ?b)"
      unfolding p(1) set_filter by blast+
    then show "boards_ok ?b"
      using ok p by (simp add: boards_ok_def dependencies_ok_def on_board_places del: set_filter)
    show "same_part ?b3 ?b i" if i: "elsewhere sp ?b3 i" for i
    proof -
      have "space_board sp ?b3 k" using assms(2) by (simp add: space_board_def dropped_tables)
      then have "i \<noteq> k" using elsewhere_not [OF ok i] by blast
      then have "filter (\<lambda>r. tb_id r = i) (filter (\<lambda>r. tb_id r \<noteq> k) (task_boards ?b3)) = filter (\<lambda>r. tb_id r = i) (task_boards ?b3)"
        by (intro filter_filter_others) blast
      then show ?thesis unfolding b by (simp add: same_part_def)
    qed
  qed
  with b3 show ?thesis by (rule keeps_trans)
qed

end
