(* ===== verification/Tool_Access.thy ===== *)
theory Tool_Access
  imports Web
begin

text \<open>
  What the handlers of task boards and of the calendar share: their state is the tables of accounts and
  spaces beside those of the tool; the permissions of a space, \<open>task_board_permissions\<close> and
  \<open>calendar_permissions\<close>, have the same shape. The field that holds a permission table is given by its
  reader and its writer.
\<close>

section \<open>Permissions in the database\<close>

definition set_tool_permission ::
  "db \<Rightarrow> tool_permission list \<Rightarrow> string \<Rightarrow> time \<Rightarrow> string \<Rightarrow> string \<Rightarrow> string \<Rightarrow> string
     \<Rightarrow> db_error + tool_permission list" where
  "set_tool_permission d rows new_id now space_id user_id permission granted_by =
     (if \<not> varchar_ok 20 permission then Inl too_long
      else if \<not> (has_key sp_id space_id (spaces d) \<and> has_key u_id user_id (users d)
                 \<and> has_key u_id granted_by (users d))
      then Inl ForeignKeyViolation
      else if list_ex (\<lambda>p. tp_space_id p = space_id \<and> tp_user_id p = user_id) rows
      then Inr (map (\<lambda>p. if tp_space_id p = space_id \<and> tp_user_id p = user_id
             then p\<lparr>tp_permission := permission, tp_granted_by := granted_by\<rparr> else p) rows)
      else Inr (rows @
        [\<lparr>tp_id = new_id, tp_space_id = space_id, tp_user_id = user_id, tp_permission = permission,
          tp_granted_by = granted_by, tp_created_at = now\<rparr>]))"

definition remove_tool_permission :: "tool_permission list \<Rightarrow> string \<Rightarrow> string \<Rightarrow> tool_permission list" where
  "remove_tool_permission rows space_id user_id =
     filter (\<lambda>p. \<not> (tp_space_id p = space_id \<and> tp_user_id p = user_id)) rows"

definition get_tool_permissions :: "db \<Rightarrow> tool_permission list \<Rightarrow> string \<Rightarrow> (tool_permission \<times> user) list" where
  "get_tool_permissions d rows space_id =
     concat (map (\<lambda>p. map (Pair p) (filter (\<lambda>u. u_id u = tp_user_id p) (users d)))
       (filter (\<lambda>p. tp_space_id p = space_id) rows))"

definition get_tool_permission :: "tool_permission list \<Rightarrow> string \<Rightarrow> string \<Rightarrow> string" where
  "get_tool_permission rows space_id user_id =
     (case first_row (filter (\<lambda>p. tp_space_id p = space_id \<and> tp_user_id p = user_id) rows) of
        None \<Rightarrow> '''' | Some p \<Rightarrow> tp_permission p)"

text \<open>\<open>has_resource_permission_in_space\<close> for the tools \<open>tasks\<close> and \<open>calendar\<close>.\<close>

definition has_tool_permission_in_space :: "tool_permission list \<Rightarrow> string \<Rightarrow> string \<Rightarrow> bool" where
  "has_tool_permission_in_space rows space_id user_id =
     list_ex (\<lambda>p. tp_space_id p = space_id \<and> tp_user_id p = user_id) rows"

section \<open>Access\<close>

definition check_tool_access :: "(db \<Rightarrow> tool_permission list) \<Rightarrow> db \<Rightarrow> string \<Rightarrow> string \<Rightarrow> bool" where
  "check_tool_access rows d space_id user_id \<longleftrightarrow>
     is_space_member d space_id user_id \<or> server_admin d user_id
     \<or> (is_personal_space d space_id \<and> has_tool_permission_in_space (rows d) space_id user_id)"

definition tool_access_level :: "(db \<Rightarrow> tool_permission list) \<Rightarrow> db \<Rightarrow> string \<Rightarrow> string \<Rightarrow> string" where
  "tool_access_level rows d space_id user_id =
     (if server_admin d user_id then ''owner''
      else if is_admin_role (get_space_member_role d space_id user_id) then ''owner''
      else let perm = get_tool_permission (rows d) space_id user_id in if perm \<noteq> [] then perm else ''view'')"

definition tool_perm_rank :: "string \<Rightarrow> int" where
  "tool_perm_rank p = (if p = ''owner'' then 2 else if p = ''edit'' then 1 else 0)"

text \<open>The session of the request, and membership of the space, before everything else.\<close>

definition in_tool ::
  "(db \<Rightarrow> tool_permission list) \<Rightarrow> web_env \<Rightarrow> string \<Rightarrow> string \<Rightarrow> (string \<Rightarrow> db \<times> 't \<Rightarrow> (db \<times> 't) outcome)
     \<Rightarrow> db \<times> 't \<Rightarrow> (db \<times> 't) outcome" where
  "in_tool rows env token space_id rest s =
     (case validate_session (fst s) (we_now env) token of
        None \<Rightarrow> refuse ''401'' ''Unauthorized'' s
      | Some user_id \<Rightarrow>
          if check_tool_access rows (fst s) space_id user_id then rest user_id s
          else refuse ''403'' ''Not a member of this space'' s)"

definition with_tool_level ::
  "(db \<Rightarrow> tool_permission list) \<Rightarrow> string \<Rightarrow> string \<Rightarrow> string \<Rightarrow> (db \<times> 't \<Rightarrow> (db \<times> 't) outcome)
     \<Rightarrow> db \<times> 't \<Rightarrow> (db \<times> 't) outcome" where
  "with_tool_level rows space_id user_id required_level rest s =
     (if tool_perm_rank required_level \<le> tool_perm_rank (tool_access_level rows (fst s) space_id user_id) then rest s
      else refuse ''403'' (''Requires '' @ required_level @ '' permission'') s)"

section \<open>The endpoints on permissions\<close>

definition tool_permission_json :: "web_env \<Rightarrow> db \<Rightarrow> tool_permission \<times> user \<Rightarrow> json" where
  "tool_permission_json env d = (\<lambda>(p, u).
     JObject [(''id'', JString (tp_id p)), (''space_id'', JString (tp_space_id p)), (''user_id'', JString (tp_user_id p)),
       (''username'', JString (u_username u)), (''display_name'', JString (u_display_name u)),
       (''permission'', JString (tp_permission p)), (''granted_by'', JString (tp_granted_by p)),
       (''granted_by_username'', JString (username_of_id d (tp_granted_by p))),
       (''created_at'', JString (we_time_text env (tp_created_at p)))])"

definition list_tool_grants ::
  "(db \<Rightarrow> tool_permission list) \<Rightarrow> ((tool_permission \<times> user) list \<Rightarrow> (tool_permission \<times> user) list) \<Rightarrow> web_env
     \<Rightarrow> string \<Rightarrow> string \<Rightarrow> db \<times> 't \<Rightarrow> (db \<times> 't) outcome" where
  "list_tool_grants rows order env token space_id =
     in_tool rows env token space_id (\<lambda>user_id s.
       answer (JObject
         [(''permissions'', JArray (map (tool_permission_json env (fst s)) (order (get_tool_permissions (fst s) (rows (fst s)) space_id)))),
          (''my_permission'', JString (tool_access_level rows (fst s) space_id user_id))]) s [])"

definition tool_grant ::
  "(db \<Rightarrow> tool_permission list) \<Rightarrow> (tool_permission list \<Rightarrow> db \<Rightarrow> db) \<Rightarrow> web_env \<Rightarrow> string \<Rightarrow> string \<Rightarrow> json option
     \<Rightarrow> db \<times> 't \<Rightarrow> (db \<times> 't) outcome" where
  "tool_grant rows write env token space_id body =
     in_tool rows env token space_id (\<lambda>user_id. with_tool_level rows space_id user_id ''owner'' (with_body env body (\<lambda>j.
       or_fail env (at_str j ''user_id'') (\<lambda>target_user_id. or_fail env (at_str j ''permission'') (\<lambda>permission s.
         if permission \<noteq> ''owner'' \<and> permission \<noteq> ''edit'' \<and> permission \<noteq> ''view''
         then refuse ''400'' ''Permission must be owner, edit, or view'' s
         else if is_personal_space (fst s) space_id \<and> permission = ''owner''
         then refuse ''400'' ''Cannot assign owner permission in a personal space'' s
         else if \<not> pg_is_uuid (we_pg env) target_user_id then failed env Invalid_uuid s
         else db_or_fail env (set_tool_permission (fst s) (rows (fst s)) (we_id env 0) (we_now env) space_id target_user_id
                 permission user_id)
           (\<lambda>new _. done_with (write new (fst s), snd s) []) s)))))"

definition tool_ungrant ::
  "(db \<Rightarrow> tool_permission list) \<Rightarrow> (tool_permission list \<Rightarrow> db \<Rightarrow> db) \<Rightarrow> web_env \<Rightarrow> string \<Rightarrow> string \<Rightarrow> string
     \<Rightarrow> db \<times> 't \<Rightarrow> (db \<times> 't) outcome" where
  "tool_ungrant rows write env token space_id target_user_id =
     in_tool rows env token space_id (\<lambda>user_id. with_tool_level rows space_id user_id ''owner'' (\<lambda>s.
       done_with (write (remove_tool_permission (rows (fst s)) space_id target_user_id) (fst s), snd s) []))"

section \<open>Statements\<close>

text \<open>A statement on the tables of the tool that may fail; its result and the new tables go on.\<close>

definition on_tables ::
  "web_env \<Rightarrow> (db \<Rightarrow> 't \<Rightarrow> db_error + 'a \<times> 't) \<Rightarrow> ('a \<Rightarrow> db \<times> 't \<Rightarrow> (db \<times> 't) outcome) \<Rightarrow> db \<times> 't \<Rightarrow> (db \<times> 't) outcome" where
  "on_tables env f rest s =
     (case f (fst s) (snd s) of Inl e \<Rightarrow> failed env (Db_exn e) s | Inr (x, b) \<Rightarrow> rest x (fst s, b))"

definition with_unit :: "db_error + 't \<Rightarrow> db_error + unit \<times> 't" where
  "with_unit r = (case r of Inl e \<Rightarrow> Inl e | Inr b \<Rightarrow> Inr ((), b))"

section \<open>Loops of a handler that may throw\<close>

text \<open>Each iteration is a transaction: an exception leaves what the earlier ones did.\<close>

fun each_or_stop :: "('x \<Rightarrow> 's \<Rightarrow> exn + 's) \<Rightarrow> 'x list \<Rightarrow> 's \<Rightarrow> exn option \<times> 's" where
  "each_or_stop f [] s = (None, s)"
| "each_or_stop f (x # xs) s = (case f x s of Inl e \<Rightarrow> (Some e, s) | Inr s' \<Rightarrow> each_or_stop f xs s')"

definition each_or_fail ::
  "web_env \<Rightarrow> ('x \<Rightarrow> 's \<Rightarrow> exn + 's) \<Rightarrow> 'x list \<Rightarrow> ('s \<Rightarrow> 's outcome) \<Rightarrow> 's \<Rightarrow> 's outcome" where
  "each_or_fail env f xs rest s =
     (case each_or_stop f xs s of (Some e, s') \<Rightarrow> failed env e s' | (None, s') \<Rightarrow> rest s')"

text \<open>\<open>get<std::vector<std::string>>\<close>.\<close>

definition string_vector :: "json \<Rightarrow> string \<Rightarrow> exn + string list" where
  "string_vector j k =
     (case j of
        JArray xs \<Rightarrow> (case all_strings xs of None \<Rightarrow> Inl (Not_a_string k) | Some ss \<Rightarrow> Inr ss)
      | _ \<Rightarrow> Inl (Wrong_type k))"

end
