(* ===== verification/Task_Handler.thy ===== *)
theory Task_Handler
  imports Task_Db Tool_Access
begin

text \<open>
  The endpoints of \<open>handlers/task_board_handler.cpp\<close>. Ids in paths are UUIDs; an id from a body that is not
  one makes the query throw.
\<close>

type_synonym task_state = "db \<times> boards"

section \<open>JSON\<close>

definition board_to_json :: "web_env \<Rightarrow> db \<Rightarrow> task_board \<Rightarrow> (string \<times> json) list" where
  "board_to_json env d r =
     [(''id'', JString (tb_id r)), (''space_id'', JString (tb_space_id r)), (''name'', JString (tb_name r)),
      (''description'', JString (tb_description r)), (''created_by'', JString (tb_created_by r)),
      (''created_by_username'', JString (username_of_id d (tb_created_by r))),
      (''created_at'', JString (we_time_text env (tb_created_at r))),
      (''updated_at'', JString (we_time_text env (tb_updated_at r)))]"

definition column_to_json :: "web_env \<Rightarrow> task_column \<Rightarrow> json" where
  "column_to_json env c =
     JObject [(''id'', JString (co_id c)), (''board_id'', JString (co_board_id c)), (''name'', JString (co_name c)),
       (''position'', JInt (co_position c)), (''wip_limit'', JInt (co_wip_limit c)), (''color'', JString (co_color c)),
       (''created_at'', JString (we_time_text env (co_created_at c)))]"

text \<open>The dates as they were read from the database, or as the request gave them.\<close>

definition task_to_json :: "web_env \<Rightarrow> db \<Rightarrow> task \<Rightarrow> string \<Rightarrow> string \<Rightarrow> (string \<times> json) list" where
  "task_to_json env d t due_date start_date =
     [(''id'', JString (tk_id t)), (''board_id'', JString (tk_board_id t)), (''column_id'', JString (tk_column_id t)),
      (''title'', JString (tk_title t)), (''description'', JString (tk_description t)),
      (''priority'', JString (tk_priority t)), (''due_date'', JString due_date), (''start_date'', JString start_date),
      (''duration_days'', JInt (tk_duration_days t)), (''color'', JString (tk_color t)),
      (''position'', JInt (tk_position t)), (''created_by'', JString (tk_created_by t)),
      (''created_by_username'', JString (username_of_id d (tk_created_by t))),
      (''created_at'', JString (we_time_text env (tk_created_at t))),
      (''updated_at'', JString (we_time_text env (tk_updated_at t)))]"

definition task_row_json :: "web_env \<Rightarrow> db \<Rightarrow> task \<Rightarrow> (string \<times> json) list" where
  "task_row_json env d t = task_to_json env d t (opt_time_text env (tk_due_date t)) (opt_time_text env (tk_start_date t))"

definition dependency_to_json :: "web_env \<Rightarrow> task_dependency \<Rightarrow> json" where
  "dependency_to_json env e =
     JObject [(''id'', JString (td_id e)), (''task_id'', JString (td_task_id e)),
       (''depends_on_id'', JString (td_depends_on_id e)), (''dependency_type'', JString (td_dependency_type e)),
       (''created_at'', JString (we_time_text env (td_created_at e)))]"

definition assignee_to_json :: "user \<Rightarrow> json" where
  "assignee_to_json u =
     JObject [(''user_id'', JString (u_id u)), (''username'', JString (u_username u)),
       (''display_name'', JString (u_display_name u))]"

definition label_to_json :: "task_label \<Rightarrow> json" where
  "label_to_json l =
     JObject [(''id'', JString (tl_id l)), (''board_id'', JString (tl_board_id l)), (''name'', JString (tl_name l)),
       (''color'', JString (tl_color l))]"

definition checklist_to_json :: "task_checklist \<Rightarrow> (string \<times> json) list" where
  "checklist_to_json c =
     [(''id'', JString (cl_id c)), (''task_id'', JString (cl_task_id c)), (''title'', JString (cl_title c)),
      (''position'', JInt (cl_position c))]"

definition checklist_item_to_json :: "checklist_item \<Rightarrow> json" where
  "checklist_item_to_json i =
     JObject [(''id'', JString (ci_id i)), (''checklist_id'', JString (ci_checklist_id i)),
       (''content'', JString (ci_content i)), (''is_checked'', JBool (ci_is_checked i)),
       (''position'', JInt (ci_position i))]"

definition activity_to_json :: "web_env \<Rightarrow> db \<Rightarrow> task_activity \<Rightarrow> json" where
  "activity_to_json env d a =
     JObject [(''id'', JString (ta_id a)), (''task_id'', JString (ta_task_id a)), (''user_id'', JString (ta_user_id a)),
       (''username'', JString (username_of_id d (ta_user_id a))),
       (''display_name'', JString (case find_user_by_id d (ta_user_id a) of None \<Rightarrow> '''' | Some u \<Rightarrow> u_display_name u)),
       (''action'', JString (ta_action a)), (''details'', JString (we_dump env (ta_details a))),
       (''created_at'', JString (we_time_text env (ta_created_at a)))]"

definition people_and_labels :: "db \<Rightarrow> boards \<Rightarrow> string \<Rightarrow> (string \<times> json) list" where
  "people_and_labels d b task_id =
     [(''assignees'', JArray (map assignee_to_json (get_task_assignees d b task_id))),
      (''labels'', JArray (map label_to_json (get_task_labels b task_id)))]"

section \<open>Access\<close>

abbreviation task_grants :: "db \<Rightarrow> tool_permission list" where
  "task_grants \<equiv> task_board_permissions"

definition in_tasks ::
  "web_env \<Rightarrow> string \<Rightarrow> string \<Rightarrow> (string \<Rightarrow> task_state \<Rightarrow> task_state outcome) \<Rightarrow> task_state \<Rightarrow> task_state outcome" where
  "in_tasks = in_tool task_grants"

definition with_task_level ::
  "string \<Rightarrow> string \<Rightarrow> string \<Rightarrow> (task_state \<Rightarrow> task_state outcome) \<Rightarrow> task_state \<Rightarrow> task_state outcome" where
  "with_task_level = with_tool_level task_grants"

definition editing ::
  "web_env \<Rightarrow> string \<Rightarrow> string \<Rightarrow> (string \<Rightarrow> task_state \<Rightarrow> task_state outcome) \<Rightarrow> task_state \<Rightarrow> task_state outcome" where
  "editing env token space_id rest =
     in_tasks env token space_id (\<lambda>user_id. with_task_level space_id user_id ''edit'' (rest user_id))"

text \<open>The board of the path, if it is in the space of the path.\<close>

definition with_board ::
  "string \<Rightarrow> string \<Rightarrow> (task_board \<Rightarrow> task_state \<Rightarrow> task_state outcome) \<Rightarrow> task_state \<Rightarrow> task_state outcome" where
  "with_board space_id board_id rest s =
     (case find_task_board (snd s) board_id of
        None \<Rightarrow> refuse ''404'' ''Board not found'' s
      | Some r \<Rightarrow> if tb_space_id r \<noteq> space_id then refuse ''404'' ''Board not found'' s else rest r s)"

definition board_in_space :: "boards \<Rightarrow> string \<Rightarrow> string option \<Rightarrow> bool" where
  "board_in_space b space_id resource_board_id =
     (case resource_board_id of
        None \<Rightarrow> False
      | Some i \<Rightarrow> (case find_task_board b i of None \<Rightarrow> False | Some r \<Rightarrow> tb_space_id r = space_id))"

definition with_resource ::
  "string \<Rightarrow> (boards \<Rightarrow> string option) \<Rightarrow> (task_state \<Rightarrow> task_state outcome) \<Rightarrow> task_state \<Rightarrow> task_state outcome" where
  "with_resource space_id board_of rest s =
     (if board_in_space (snd s) space_id (board_of (snd s)) then rest s else refuse ''404'' ''Resource not found'' s)"

definition with_task ::
  "string \<Rightarrow> string \<Rightarrow> (task \<Rightarrow> task_state \<Rightarrow> task_state outcome) \<Rightarrow> task_state \<Rightarrow> task_state outcome" where
  "with_task board_id task_id rest s =
     (case find_task (snd s) task_id of
        None \<Rightarrow> refuse ''404'' ''Task not found'' s
      | Some t \<Rightarrow> if tk_board_id t \<noteq> board_id then refuse ''404'' ''Task not found'' s else rest t s)"

definition with_column ::
  "string \<Rightarrow> string \<Rightarrow> (task_column \<Rightarrow> task_state \<Rightarrow> task_state outcome) \<Rightarrow> task_state \<Rightarrow> task_state outcome" where
  "with_column board_id column_id rest s =
     (case find_task_column (snd s) column_id of
        None \<Rightarrow> refuse ''404'' ''Column not found'' s
      | Some c \<Rightarrow> if co_board_id c \<noteq> board_id then refuse ''404'' ''Column not found'' s else rest c s)"

definition valid_uuid :: "web_env \<Rightarrow> string \<Rightarrow> exn + unit" where
  "valid_uuid env i = (if pg_is_uuid (we_pg env) i then Inr () else Inl Invalid_uuid)"

section \<open>Boards\<close>

definition tasks_list_boards :: "web_env \<Rightarrow> string \<Rightarrow> string \<Rightarrow> task_state \<Rightarrow> task_state outcome" where
  "tasks_list_boards env token space_id =
     in_tasks env token space_id (\<lambda>user_id s.
       answer (JObject
         [(''boards'', JArray (map (\<lambda>r. JObject (board_to_json env (fst s) r)) (list_task_boards (snd s) space_id))),
          (''my_permission'', JString (tool_access_level task_grants (fst s) space_id user_id))]) s [])"

definition tasks_create_board :: "web_env \<Rightarrow> string \<Rightarrow> string \<Rightarrow> json option \<Rightarrow> task_state \<Rightarrow> task_state outcome" where
  "tasks_create_board env token space_id body =
     editing env token space_id (\<lambda>user_id. with_body env body (\<lambda>j.
       or_fail env (at_str j ''name'') (\<lambda>name. or_fail env (value_str j ''description'' '''') (\<lambda>description s.
       if name = [] \<or> length name > 255 then refuse ''400'' ''Name is required (max 255 characters)'' s
       else on_tables env (\<lambda>d b. create_task_board d b (we_id env 0) (we_now env) space_id name description user_id) (\<lambda>board.
         on_tables env (\<lambda>d b. create_task_column b (we_id env 1) (we_now env) (tb_id board) ''To Do'' 0 0 '''') (\<lambda>_.
         on_tables env (\<lambda>d b. create_task_column b (we_id env 2) (we_now env) (tb_id board) ''In Progress'' 1 0 '''') (\<lambda>_.
         on_tables env (\<lambda>d b. create_task_column b (we_id env 3) (we_now env) (tb_id board) ''Done'' 2 0 '''') (\<lambda>_ s.
           answer (JObject (board_to_json env (fst s) board @
             [(''columns'', JArray (map (column_to_json env) (list_task_columns (snd s) (tb_id board))))])) s [])))) s))))"

definition tasks_get_board :: "web_env \<Rightarrow> string \<Rightarrow> string \<Rightarrow> string \<Rightarrow> task_state \<Rightarrow> task_state outcome" where
  "tasks_get_board env token space_id board_id =
     in_tasks env token space_id (\<lambda>user_id. with_board space_id board_id (\<lambda>board s.
       answer (JObject (board_to_json env (fst s) board @
         [(''my_permission'', JString (tool_access_level task_grants (fst s) space_id user_id)),
          (''columns'', JArray (map (column_to_json env) (list_task_columns (snd s) board_id))),
          (''tasks'', JArray (map (\<lambda>t. JObject (task_row_json env (fst s) t @ people_and_labels (fst s) (snd s) (tk_id t)))
             (list_tasks (snd s) board_id))),
          (''board_labels'', JArray (map label_to_json (list_task_labels (we_pg env) (snd s) board_id))),
          (''dependencies'', JArray (map (dependency_to_json env) (get_task_dependencies (snd s) board_id)))])) s []))"

definition tasks_update_board :: "web_env \<Rightarrow> string \<Rightarrow> string \<Rightarrow> string \<Rightarrow> json option \<Rightarrow> task_state \<Rightarrow> task_state outcome" where
  "tasks_update_board env token space_id board_id body =
     editing env token space_id (\<lambda>user_id. with_board space_id board_id (\<lambda>existing. with_body env body (\<lambda>j.
       or_fail env (value_str j ''name'' (tb_name existing)) (\<lambda>name.
       or_fail env (value_str j ''description'' (tb_description existing)) (\<lambda>description.
       on_tables env (\<lambda>d b. update_task_board b (we_now env) board_id name description) (\<lambda>board s.
         answer (JObject (board_to_json env (fst s) board)) s []))))))"

text \<open>The creator may delete a board whatever his permission is now.\<close>

definition tasks_delete_board :: "web_env \<Rightarrow> string \<Rightarrow> string \<Rightarrow> string \<Rightarrow> task_state \<Rightarrow> task_state outcome" where
  "tasks_delete_board env token space_id board_id =
     in_tasks env token space_id (\<lambda>user_id. with_board space_id board_id (\<lambda>board.
       (if tb_created_by board \<noteq> user_id then with_task_level space_id user_id ''owner'' else (\<lambda>rest. rest))
         (\<lambda>s. done_with (fst s, delete_task_board (snd s) board_id) [])))"

section \<open>Columns\<close>

definition tasks_create_column :: "web_env \<Rightarrow> string \<Rightarrow> string \<Rightarrow> string \<Rightarrow> json option \<Rightarrow> task_state \<Rightarrow> task_state outcome" where
  "tasks_create_column env token space_id board_id body =
     editing env token space_id (\<lambda>user_id. with_board space_id board_id (\<lambda>board. with_body env body (\<lambda>j.
       or_fail env (at_str j ''name'') (\<lambda>name. or_fail env (value_int j ''position'' 999) (\<lambda>position.
       or_fail env (value_int j ''wip_limit'' 0) (\<lambda>wip_limit. or_fail env (value_str j ''color'' '''') (\<lambda>color.
       on_tables env (\<lambda>d b. create_task_column b (we_id env 0) (we_now env) board_id name position wip_limit color)
         (\<lambda>col s. answer (column_to_json env col) s []))))))))"

definition tasks_update_column ::
  "web_env \<Rightarrow> string \<Rightarrow> string \<Rightarrow> string \<Rightarrow> string \<Rightarrow> json option \<Rightarrow> task_state \<Rightarrow> task_state outcome" where
  "tasks_update_column env token space_id board_id column_id body =
     editing env token space_id (\<lambda>user_id. with_board space_id board_id (\<lambda>board. with_column board_id column_id (\<lambda>col.
       with_body env body (\<lambda>j.
       or_fail env (value_str j ''name'' (co_name col)) (\<lambda>name.
       or_fail env (value_int j ''wip_limit'' (co_wip_limit col)) (\<lambda>wip_limit.
       or_fail env (value_str j ''color'' (co_color col)) (\<lambda>color.
       on_tables env (\<lambda>d b. update_task_column b column_id name wip_limit color)
         (\<lambda>updated s. answer (column_to_json env updated) s []))))))))"

definition column_ids_of :: "json \<Rightarrow> exn + string list" where
  "column_ids_of j = (case json_get j ''column_ids'' of
     None \<Rightarrow> Inl (Missing_key ''column_ids'') | Some v \<Rightarrow> string_vector v ''column_ids'')"

definition tasks_reorder_columns :: "web_env \<Rightarrow> string \<Rightarrow> string \<Rightarrow> string \<Rightarrow> json option \<Rightarrow> task_state \<Rightarrow> task_state outcome" where
  "tasks_reorder_columns env token space_id board_id body =
     editing env token space_id (\<lambda>user_id. with_board space_id board_id (\<lambda>board. with_body env body (\<lambda>j.
       or_fail env (column_ids_of j) (\<lambda>column_ids s.
         if \<not> list_all (pg_is_uuid (we_pg env)) column_ids then failed env Invalid_uuid s
         else done_with (fst s, reorder_task_columns (snd s) board_id column_ids) []))))"

definition tasks_delete_column :: "web_env \<Rightarrow> string \<Rightarrow> string \<Rightarrow> string \<Rightarrow> string \<Rightarrow> task_state \<Rightarrow> task_state outcome" where
  "tasks_delete_column env token space_id board_id column_id =
     editing env token space_id (\<lambda>user_id. with_board space_id board_id (\<lambda>board. with_column board_id column_id (\<lambda>col s.
       if get_column_task_count (snd s) column_id > 0
       then refuse ''400'' ''Column still has tasks. Move or delete them first.'' s
       else done_with (fst s, delete_task_column (snd s) column_id) [])))"

section \<open>Tasks\<close>

definition assign_users ::
  "web_env \<Rightarrow> string \<Rightarrow> string \<Rightarrow> task_state \<Rightarrow> exn + task_state" where
  "assign_users env task_id user_id s =
     (if \<not> pg_is_uuid (we_pg env) user_id then Inl Invalid_uuid
      else case add_task_assignee (fst s) (snd s) task_id user_id of
             Inl e \<Rightarrow> Inl (Db_exn e) | Inr b \<Rightarrow> Inr (fst s, b))"

definition assign_labels :: "web_env \<Rightarrow> string \<Rightarrow> string \<Rightarrow> task_state \<Rightarrow> exn + task_state" where
  "assign_labels env task_id label_id s =
     (if \<not> pg_is_uuid (we_pg env) label_id then Inl Invalid_uuid
      else case assign_task_label (snd s) task_id label_id of
             Inl e \<Rightarrow> Inl (Db_exn e) | Inr b \<Rightarrow> Inr (fst s, b))"

text \<open>An element of a list in the body is read where it is used, after the ones before it were stored.\<close>

definition with_string :: "string \<Rightarrow> (string \<Rightarrow> 's \<Rightarrow> exn + 's) \<Rightarrow> json \<Rightarrow> 's \<Rightarrow> exn + 's" where
  "with_string k f j s = (case json_string j of None \<Rightarrow> Inl (Not_a_string k) | Some i \<Rightarrow> f i s)"

definition elements_at :: "json \<Rightarrow> string \<Rightarrow> json list" where
  "elements_at j k = (case json_get j k of None \<Rightarrow> [] | Some v \<Rightarrow> json_elements v)"

text \<open>The column must be of the board; that the labels are is not checked.\<close>

definition tasks_create_task :: "web_env \<Rightarrow> string \<Rightarrow> string \<Rightarrow> string \<Rightarrow> json option \<Rightarrow> task_state \<Rightarrow> task_state outcome" where
  "tasks_create_task env token space_id board_id body =
     editing env token space_id (\<lambda>user_id. with_board space_id board_id (\<lambda>board. with_body env body (\<lambda>j.
       or_fail env (at_str j ''column_id'') (\<lambda>column_id. or_fail env (at_str j ''title'') (\<lambda>title.
       or_fail env (value_str j ''description'' '''') (\<lambda>description. or_fail env (value_str j ''priority'' ''medium'') (\<lambda>priority.
       or_fail env (value_str j ''due_date'' '''') (\<lambda>due_date. or_fail env (value_str j ''color'' '''') (\<lambda>color.
       or_fail env (value_int j ''position'' 0) (\<lambda>position. or_fail env (value_str j ''start_date'' '''') (\<lambda>start_date.
       or_fail env (value_int j ''duration_days'' 0) (\<lambda>duration_days. or_fail env (valid_uuid env column_id) (\<lambda>_ s.
       if \<not> (case find_task_column (snd s) column_id of None \<Rightarrow> False | Some c \<Rightarrow> co_board_id c = board_id)
       then refuse ''400'' ''Column does not belong to this board'' s
       else if title = [] \<or> length title > 255 then refuse ''400'' ''Title is required (max 255 characters)'' s
       else on_tables env (\<lambda>d b. create_task (we_parse_time env) d b (we_id env 0) (we_now env) board_id column_id title
               description priority due_date color position user_id start_date duration_days) (\<lambda>task.
         each_or_fail env (with_string ''assignee_ids'' (assign_users env (tk_id task))) (elements_at j ''assignee_ids'') (
         each_or_fail env (with_string ''label_ids'' (assign_labels env (tk_id task))) (elements_at j ''label_ids'') (
         on_tables env (\<lambda>d b. with_unit (log_task_activity d b (we_id env 1) (we_now env) (tk_id task) user_id ''created''
               (JObject [(''title'', JString title)]))) (\<lambda>_ s.
           answer (JObject (task_to_json env (fst s) task due_date start_date
             @ people_and_labels (fst s) (snd s) (tk_id task))) s [])))) s)))))))))))))"

definition tasks_get_task ::
  "web_env \<Rightarrow> string \<Rightarrow> string \<Rightarrow> string \<Rightarrow> string \<Rightarrow> task_state \<Rightarrow> task_state outcome" where
  "tasks_get_task env token space_id board_id task_id =
     in_tasks env token space_id (\<lambda>user_id. with_board space_id board_id (\<lambda>board. with_task board_id task_id (\<lambda>task s.
       answer (JObject (task_row_json env (fst s) task @
         [(''my_permission'', JString (tool_access_level task_grants (fst s) space_id user_id))]
         @ people_and_labels (fst s) (snd s) task_id @
         [(''checklists'', JArray (map (\<lambda>c. JObject (checklist_to_json c @
             [(''items'', JArray (map checklist_item_to_json (get_checklist_items (snd s) (cl_id c))))]))
             (get_task_checklists (snd s) task_id))),
          (''activity'', JArray (map (activity_to_json env (fst s)) (get_task_activity (snd s) task_id 50)))])) s [])))"

definition changed_field :: "string \<Rightarrow> string \<Rightarrow> string \<Rightarrow> (string \<times> json) list" where
  "changed_field k before after =
     (if before = after then [] else [(k, JObject [(''from'', JString before), (''to'', JString after)])])"

text \<open>Those no longer listed are removed, then the listed ones added; without a list nothing changes.\<close>

definition sync_list ::
  "web_env \<Rightarrow> json \<Rightarrow> string \<Rightarrow> (task_state \<Rightarrow> string list) \<Rightarrow> (boards \<Rightarrow> string \<Rightarrow> boards)
     \<Rightarrow> (string \<Rightarrow> task_state \<Rightarrow> exn + task_state) \<Rightarrow> (task_state \<Rightarrow> task_state outcome) \<Rightarrow> task_state \<Rightarrow> task_state outcome" where
  "sync_list env j k current discard assign rest s =
     (case json_get j k of
        None \<Rightarrow> rest s
      | Some v \<Rightarrow>
          or_fail env (string_vector v k) (\<lambda>new_ids s.
            each_or_fail env assign new_ids rest
              (fst s, fold (\<lambda>i b. discard b i) (filter (\<lambda>i. i \<notin> set new_ids) (current s)) (snd s))) s)"

definition tasks_update_task ::
  "web_env \<Rightarrow> string \<Rightarrow> string \<Rightarrow> string \<Rightarrow> string \<Rightarrow> json option \<Rightarrow> task_state \<Rightarrow> task_state outcome" where
  "tasks_update_task env token space_id board_id task_id body =
     editing env token space_id (\<lambda>user_id. with_board space_id board_id (\<lambda>board. with_task board_id task_id (\<lambda>existing.
       with_body env body (\<lambda>j.
       let old_due = opt_time_text env (tk_due_date existing); old_start = opt_time_text env (tk_start_date existing) in
       or_fail env (value_str j ''column_id'' (tk_column_id existing)) (\<lambda>column_id.
       or_fail env (value_str j ''title'' (tk_title existing)) (\<lambda>title.
       or_fail env (value_str j ''description'' (tk_description existing)) (\<lambda>description.
       or_fail env (value_str j ''priority'' (tk_priority existing)) (\<lambda>priority.
       or_fail env (value_str j ''due_date'' old_due) (\<lambda>due_date. or_fail env (value_str j ''color'' (tk_color existing)) (\<lambda>color.
       or_fail env (value_int j ''position'' (tk_position existing)) (\<lambda>position.
       or_fail env (value_str j ''start_date'' old_start) (\<lambda>start_date.
       or_fail env (value_int j ''duration_days'' (tk_duration_days existing)) (\<lambda>duration_days.
       or_fail env (if column_id = tk_column_id existing then Inr () else valid_uuid env column_id) (\<lambda>_ s.
       if column_id \<noteq> tk_column_id existing
          \<and> \<not> (case find_task_column (snd s) column_id of None \<Rightarrow> False | Some c \<Rightarrow> co_board_id c = board_id)
       then refuse ''400'' ''Column does not belong to this board'' s
       else
         let changes = changed_field ''column'' (tk_column_id existing) column_id
               @ changed_field ''title'' (tk_title existing) title
               @ changed_field ''priority'' (tk_priority existing) priority @ changed_field ''due_date'' old_due due_date in
         on_tables env (\<lambda>d b. update_task (we_parse_time env) b (we_now env) task_id column_id title description priority
             due_date color position start_date duration_days) (\<lambda>task.
         sync_list env j ''assignee_ids'' (\<lambda>s. map u_id (get_task_assignees (fst s) (snd s) task_id))
           (\<lambda>b. remove_task_assignee b task_id) (assign_users env task_id) (
         sync_list env j ''label_ids'' (\<lambda>s. map tl_id (get_task_labels (snd s) task_id))
           (\<lambda>b. unassign_task_label b task_id) (assign_labels env task_id) (
         on_tables env (\<lambda>d b. if changes = [] then Inr ((), b)
             else with_unit (log_task_activity d b (we_id env 0) (we_now env) task_id user_id
               (if column_id \<noteq> tk_column_id existing then ''moved'' else ''updated'') (JObject changes))) (\<lambda>_ s.
           answer (JObject (task_to_json env (fst s) task due_date start_date
             @ people_and_labels (fst s) (snd s) task_id)) s [])))) s)))))))))))))) "

definition tasks_delete_task ::
  "web_env \<Rightarrow> string \<Rightarrow> string \<Rightarrow> string \<Rightarrow> string \<Rightarrow> task_state \<Rightarrow> task_state outcome" where
  "tasks_delete_task env token space_id board_id task_id =
     in_tasks env token space_id (\<lambda>user_id. with_board space_id board_id (\<lambda>board. with_task board_id task_id (\<lambda>task.
       (if tk_created_by task \<noteq> user_id then with_task_level space_id user_id ''owner'' else (\<lambda>rest. rest))
         (\<lambda>s. done_with (fst s, delete_task (snd s) task_id) []))))"

text \<open>
  The new positions are collected while tasks are moved to their columns, each in a transaction of its
  own; a task or column of another board stops the loop, and what was moved stays moved.
\<close>

datatype reordering = Positions "(string \<times> int) list" | Foreign | Threw exn

definition move_to_column ::
  "web_env \<Rightarrow> nat \<Rightarrow> string \<Rightarrow> string \<Rightarrow> task \<Rightarrow> string \<Rightarrow> int \<Rightarrow> task_state \<Rightarrow> reordering option \<times> task_state" where
  "move_to_column env n user_id board_id t new_col pos s =
     (if \<not> pg_is_uuid (we_pg env) new_col then (Some (Threw Invalid_uuid), s)
      else if \<not> (case find_task_column (snd s) new_col of None \<Rightarrow> False | Some c \<Rightarrow> co_board_id c = board_id)
      then (Some Foreign, s)
      else case update_task (we_parse_time env) (snd s) (we_now env) (tk_id t) new_col (tk_title t) (tk_description t)
             (tk_priority t) (opt_time_text env (tk_due_date t)) (tk_color t) pos (opt_time_text env (tk_start_date t))
             (tk_duration_days t) of
          Inl e \<Rightarrow> (Some (Threw (Db_exn e)), s)
        | Inr (x, b1) \<Rightarrow>
            (case log_task_activity (fst s) b1 (we_id env n) (we_now env) (tk_id t) user_id ''moved''
                (JObject [(''column'', JObject [(''from'', JString (tk_column_id t)), (''to'', JString new_col)])]) of
               Inl e \<Rightarrow> (Some (Threw (Db_exn e)), (fst s, b1)) | Inr b2 \<Rightarrow> (None, (fst s, b2))))"

fun reorder_loop ::
  "web_env \<Rightarrow> nat \<Rightarrow> string \<Rightarrow> string \<Rightarrow> json list \<Rightarrow> (string \<times> int) list \<Rightarrow> task_state \<Rightarrow> reordering \<times> task_state" where
  "reorder_loop env n user_id board_id [] positions s = (Positions positions, s)"
| "reorder_loop env n user_id board_id (item # items) positions s =
     (case at_str item ''id'' of Inl e \<Rightarrow> (Threw e, s) | Inr tid \<Rightarrow>
      case at_int item ''position'' of Inl e \<Rightarrow> (Threw e, s) | Inr pos \<Rightarrow>
      if \<not> pg_is_uuid (we_pg env) tid then (Threw Invalid_uuid, s)
      else case find_task (snd s) tid of None \<Rightarrow> (Foreign, s) | Some t \<Rightarrow>
      if tk_board_id t \<noteq> board_id then (Foreign, s)
      else case json_get item ''column_id'' of
          None \<Rightarrow> reorder_loop env (n + 1) user_id board_id items (positions @ [(tid, pos)]) s
        | Some v \<Rightarrow>
            (case json_string v of None \<Rightarrow> (Threw (Not_a_string ''column_id''), s) | Some new_col \<Rightarrow>
             if new_col = tk_column_id t
             then reorder_loop env (n + 1) user_id board_id items (positions @ [(tid, pos)]) s
             else case move_to_column env n user_id board_id t new_col pos s of
                 (Some r, s1) \<Rightarrow> (r, s1)
               | (None, s1) \<Rightarrow> reorder_loop env (n + 1) user_id board_id items (positions @ [(tid, pos)]) s1))"

definition tasks_reorder :: "web_env \<Rightarrow> string \<Rightarrow> string \<Rightarrow> string \<Rightarrow> json option \<Rightarrow> task_state \<Rightarrow> task_state outcome" where
  "tasks_reorder env token space_id board_id body =
     editing env token space_id (\<lambda>user_id. with_board space_id board_id (\<lambda>board. with_body env body (\<lambda>j s.
       case json_get j ''tasks'' of
         None \<Rightarrow> failed env (Missing_key ''tasks'') s
       | Some v \<Rightarrow>
           (case reorder_loop env 0 user_id board_id (json_elements v) [] s of
              (Threw e, s1) \<Rightarrow> failed env e s1
            | (Foreign, s1) \<Rightarrow> refuse ''400'' ''Task or column does not belong to this board'' s1
            | (Positions ps, s1) \<Rightarrow> done_with (fst s1, reorder_tasks (snd s1) ps) []))))"

section \<open>Checklists\<close>

definition tasks_create_checklist ::
  "web_env \<Rightarrow> string \<Rightarrow> string \<Rightarrow> string \<Rightarrow> string \<Rightarrow> json option \<Rightarrow> task_state \<Rightarrow> task_state outcome" where
  "tasks_create_checklist env token space_id board_id task_id body =
     editing env token space_id (\<lambda>user_id.
       with_resource space_id (\<lambda>b. case find_task b task_id of
           None \<Rightarrow> None | Some t \<Rightarrow> if tk_board_id t = board_id then Some (tk_board_id t) else None) (
       with_body env body (\<lambda>j. or_fail env (at_str j ''title'') (\<lambda>title. or_fail env (value_int j ''position'' 0) (\<lambda>position.
       on_tables env (\<lambda>d b. create_task_checklist b (we_id env 0) task_id title position) (\<lambda>cl.
       on_tables env (\<lambda>d b. with_unit (log_task_activity d b (we_id env 1) (we_now env) task_id user_id ''checklist_added''
             (JObject [(''title'', JString title)]))) (\<lambda>_ s.
         answer (JObject (checklist_to_json cl @ [(''items'', JArray [])])) s [])))))))"

text \<open>Of the path only the space and the innermost id count from here on.\<close>

definition tasks_delete_checklist :: "web_env \<Rightarrow> string \<Rightarrow> string \<Rightarrow> string \<Rightarrow> task_state \<Rightarrow> task_state outcome" where
  "tasks_delete_checklist env token space_id checklist_id =
     editing env token space_id (\<lambda>user_id.
       with_resource space_id (\<lambda>b. get_checklist_board_id b checklist_id) (\<lambda>s.
         done_with (fst s, delete_task_checklist (snd s) checklist_id) []))"

definition tasks_create_item :: "web_env \<Rightarrow> string \<Rightarrow> string \<Rightarrow> string \<Rightarrow> json option \<Rightarrow> task_state \<Rightarrow> task_state outcome" where
  "tasks_create_item env token space_id checklist_id body =
     editing env token space_id (\<lambda>user_id.
       with_resource space_id (\<lambda>b. get_checklist_board_id b checklist_id) (
       with_body env body (\<lambda>j. or_fail env (at_str j ''content'') (\<lambda>content. or_fail env (value_int j ''position'' 0) (\<lambda>position.
       on_tables env (\<lambda>d b. create_checklist_item b (we_id env 0) checklist_id content position) (\<lambda>item s.
         answer (checklist_item_to_json item) s []))))))"

text \<open>A request without a content empties it, and one without \<open>is_checked\<close> unchecks the item.\<close>

definition tasks_update_item :: "web_env \<Rightarrow> string \<Rightarrow> string \<Rightarrow> string \<Rightarrow> json option \<Rightarrow> task_state \<Rightarrow> task_state outcome" where
  "tasks_update_item env token space_id item_id body =
     editing env token space_id (\<lambda>user_id.
       with_resource space_id (\<lambda>b. get_checklist_item_board_id b item_id) (
       with_body env body (\<lambda>j. or_fail env (value_str j ''content'' '''') (\<lambda>content.
       or_fail env (value_bool j ''is_checked'' False) (\<lambda>is_checked.
       on_tables env (\<lambda>d b. update_checklist_item b item_id content is_checked) (\<lambda>item s.
         answer (checklist_item_to_json item) s []))))))"

definition tasks_delete_item :: "web_env \<Rightarrow> string \<Rightarrow> string \<Rightarrow> string \<Rightarrow> task_state \<Rightarrow> task_state outcome" where
  "tasks_delete_item env token space_id item_id =
     editing env token space_id (\<lambda>user_id.
       with_resource space_id (\<lambda>b. get_checklist_item_board_id b item_id) (\<lambda>s.
         done_with (fst s, delete_checklist_item (snd s) item_id) []))"

section \<open>Labels\<close>

definition tasks_create_label :: "web_env \<Rightarrow> string \<Rightarrow> string \<Rightarrow> string \<Rightarrow> json option \<Rightarrow> task_state \<Rightarrow> task_state outcome" where
  "tasks_create_label env token space_id board_id body =
     editing env token space_id (\<lambda>user_id. with_board space_id board_id (\<lambda>board. with_body env body (\<lambda>j.
       or_fail env (at_str j ''name'') (\<lambda>name. or_fail env (value_str j ''color'' '''') (\<lambda>color.
       on_tables env (\<lambda>d b. create_task_label b (we_id env 0) board_id name color) (\<lambda>label s.
         answer (label_to_json label) s []))))))"

definition tasks_update_label :: "web_env \<Rightarrow> string \<Rightarrow> string \<Rightarrow> string \<Rightarrow> json option \<Rightarrow> task_state \<Rightarrow> task_state outcome" where
  "tasks_update_label env token space_id label_id body =
     editing env token space_id (\<lambda>user_id.
       with_resource space_id (\<lambda>b. get_label_board_id b label_id) (with_body env body (\<lambda>j.
       or_fail env (at_str j ''name'') (\<lambda>name. or_fail env (value_str j ''color'' '''') (\<lambda>color.
       on_tables env (\<lambda>d b. update_task_label b label_id name color) (\<lambda>label s. answer (label_to_json label) s []))))))"

definition tasks_delete_label :: "web_env \<Rightarrow> string \<Rightarrow> string \<Rightarrow> string \<Rightarrow> task_state \<Rightarrow> task_state outcome" where
  "tasks_delete_label env token space_id label_id =
     editing env token space_id (\<lambda>user_id.
       with_resource space_id (\<lambda>b. get_label_board_id b label_id) (\<lambda>s.
         done_with (fst s, delete_task_label (snd s) label_id) []))"

section \<open>Dependencies\<close>

definition tasks_add_dependency :: "web_env \<Rightarrow> string \<Rightarrow> string \<Rightarrow> string \<Rightarrow> json option \<Rightarrow> task_state \<Rightarrow> task_state outcome" where
  "tasks_add_dependency env token space_id board_id body =
     editing env token space_id (\<lambda>user_id. with_board space_id board_id (\<lambda>board. with_body env body (\<lambda>j.
       or_fail env (at_str j ''task_id'') (\<lambda>task_id. or_fail env (at_str j ''depends_on_id'') (\<lambda>depends_on_id.
       or_fail env (value_str j ''dependency_type'' ''finish_to_start'') (\<lambda>dep_type.
       or_fail env (valid_uuid env task_id) (\<lambda>_. or_fail env (valid_uuid env depends_on_id) (\<lambda>_ s.
       if task_board_of (snd s) task_id \<noteq> Some board_id \<or> task_board_of (snd s) depends_on_id \<noteq> Some board_id
       then refuse ''400'' ''Both tasks must belong to this board'' s
       else on_tables env (\<lambda>d b. add_task_dependency b (we_id env 0) (we_now env) task_id depends_on_id dep_type) (\<lambda>dep.
         on_tables env (\<lambda>d b. with_unit (log_task_activity d b (we_id env 1) (we_now env) task_id user_id ''dependency_added''
               (JObject [(''depends_on_id'', JString depends_on_id), (''type'', JString dep_type)]))) (\<lambda>_ s.
           answer (dependency_to_json env dep) s [])) s))))))))"

definition tasks_remove_dependency :: "web_env \<Rightarrow> string \<Rightarrow> string \<Rightarrow> string \<Rightarrow> task_state \<Rightarrow> task_state outcome" where
  "tasks_remove_dependency env token space_id dep_id =
     editing env token space_id (\<lambda>user_id.
       with_resource space_id (\<lambda>b. get_dependency_board_id b dep_id) (\<lambda>s.
         done_with (fst s, remove_task_dependency (snd s) dep_id) []))"

section \<open>Permissions\<close>

definition tasks_grants :: "web_env \<Rightarrow> string \<Rightarrow> string \<Rightarrow> task_state \<Rightarrow> task_state outcome" where
  "tasks_grants env token space_id = list_tool_grants task_grants (\<lambda>rows. rows) env token space_id"

definition tasks_grant :: "web_env \<Rightarrow> string \<Rightarrow> string \<Rightarrow> json option \<Rightarrow> task_state \<Rightarrow> task_state outcome" where
  "tasks_grant env token space_id body =
     tool_grant task_grants (\<lambda>rows d. d\<lparr>task_board_permissions := rows\<rparr>) env token space_id body"

definition tasks_ungrant :: "web_env \<Rightarrow> string \<Rightarrow> string \<Rightarrow> string \<Rightarrow> task_state \<Rightarrow> task_state outcome" where
  "tasks_ungrant env token space_id target_user_id =
     tool_ungrant task_grants (\<lambda>rows d. d\<lparr>task_board_permissions := rows\<rparr>) env token space_id target_user_id"

end
