(* ===== verification/Tool_Outcomes.thy ===== *)
theory Tool_Outcomes
  imports Tool_Access Outcomes
begin

text \<open>The rules on outcomes for the steps that the endpoints of task boards and calendar share.\<close>

lemma after_tool [outcome_rules]:
  assumes "Q s []" and "\<And>u. validate_session (fst s) (we_now env) t = Some u \<Longrightarrow> check_tool_access rows (fst s) sp u
     \<Longrightarrow> holds_after Q (rest u s)"
  shows "holds_after Q (in_tool rows env t sp rest s)"
  using assms by (simp add: in_tool_def split: option.split)

lemma after_level [outcome_rules]:
  assumes "Q s []" and "tool_perm_rank l \<le> tool_perm_rank (tool_access_level rows (fst s) sp u) \<Longrightarrow> holds_after Q (rest s)"
  shows "holds_after Q (with_tool_level rows sp u l rest s)"
  using assms by (simp add: with_tool_level_def)

lemma after_tables [outcome_rules]:
  assumes "Q s []" and "\<And>x b'. f (fst s) (snd s) = Inr (x, b') \<Longrightarrow> holds_after Q (rest x (fst s, b'))"
  shows "holds_after Q (on_tables env f rest s)"
  using assms by (simp add: on_tables_def split: sum.split prod.split)

lemma after_if_applied [outcome_rules]:
  "(P \<Longrightarrow> holds_after Q (f x s)) \<Longrightarrow> (\<not> P \<Longrightarrow> holds_after Q (g x s)) \<Longrightarrow> holds_after Q ((if P then f else g) x s)"
  by simp

lemma each_or_stop_keeps:
  "I s \<Longrightarrow> (\<And>x s s'. I s \<Longrightarrow> f x s = Inr s' \<Longrightarrow> I s') \<Longrightarrow> I (snd (each_or_stop f xs s))"
  by (induction xs arbitrary: s) (auto split: sum.split)

lemma after_each:
  assumes "I s" and "\<And>x s s'. I s \<Longrightarrow> f x s = Inr s' \<Longrightarrow> I s'" and "\<And>s. I s \<Longrightarrow> Q s []" and "\<And>s. I s \<Longrightarrow> holds_after Q (rest s)"
  shows "holds_after Q (each_or_fail env f xs rest s)"
  using each_or_stop_keeps [of I s f xs] assms
  by (auto simp: each_or_fail_def split: prod.split option.split)

lemma with_unit_Inr: "with_unit r = Inr (x, b) \<longleftrightarrow> r = Inr b"
  by (cases r) (simp_all add: with_unit_def)

end
