(* ===== verification/Task_Isolation.thy ===== *)
theory Task_Isolation
  imports Task_Tables Task_Handler Tool_Outcomes
begin

text \<open>
  A request to the task boards of one space leaves the boards of the others alone, and changes nothing
  unless it comes from someone who may edit. Each database method is shown to keep to the space it is
  used in, each endpoint to use it there.
\<close>

section \<open>Requests\<close>

datatype task_request =
    List_boards
  | Create_board "json option"
  | Get_board string
  | Update_board string "json option"
  | Delete_board string
  | Create_column string "json option"
  | Update_column string string "json option"
  | Reorder_columns string "json option"
  | Delete_column string string
  | Create_task string "json option"
  | Get_task string string
  | Update_task string string "json option"
  | Delete_task string string
  | Reorder_tasks string "json option"
  | Create_checklist string string "json option"
  | Delete_checklist string
  | Create_item string "json option"
  | Update_item string "json option"
  | Delete_item string
  | Create_label string "json option"
  | Update_label string "json option"
  | Delete_label string
  | Add_dependency string "json option"
  | Remove_dependency string
  | Task_grants
  | Task_grant "json option"
  | Task_ungrant string

fun task_serve :: "web_env \<Rightarrow> string \<Rightarrow> string \<Rightarrow> task_request \<Rightarrow> task_state \<Rightarrow> task_state outcome" where
  "task_serve env t sp List_boards = tasks_list_boards env t sp"
| "task_serve env t sp (Create_board j) = tasks_create_board env t sp j"
| "task_serve env t sp (Get_board i) = tasks_get_board env t sp i"
| "task_serve env t sp (Update_board i j) = tasks_update_board env t sp i j"
| "task_serve env t sp (Delete_board i) = tasks_delete_board env t sp i"
| "task_serve env t sp (Create_column i j) = tasks_create_column env t sp i j"
| "task_serve env t sp (Update_column i c j) = tasks_update_column env t sp i c j"
| "task_serve env t sp (Reorder_columns i j) = tasks_reorder_columns env t sp i j"
| "task_serve env t sp (Delete_column i c) = tasks_delete_column env t sp i c"
| "task_serve env t sp (Create_task i j) = tasks_create_task env t sp i j"
| "task_serve env t sp (Get_task i k) = tasks_get_task env t sp i k"
| "task_serve env t sp (Update_task i k j) = tasks_update_task env t sp i k j"
| "task_serve env t sp (Delete_task i k) = tasks_delete_task env t sp i k"
| "task_serve env t sp (Reorder_tasks i j) = tasks_reorder env t sp i j"
| "task_serve env t sp (Create_checklist i k j) = tasks_create_checklist env t sp i k j"
| "task_serve env t sp (Delete_checklist c) = tasks_delete_checklist env t sp c"
| "task_serve env t sp (Create_item c j) = tasks_create_item env t sp c j"
| "task_serve env t sp (Update_item i j) = tasks_update_item env t sp i j"
| "task_serve env t sp (Delete_item i) = tasks_delete_item env t sp i"
| "task_serve env t sp (Create_label i j) = tasks_create_label env t sp i j"
| "task_serve env t sp (Update_label l j) = tasks_update_label env t sp l j"
| "task_serve env t sp (Delete_label l) = tasks_delete_label env t sp l"
| "task_serve env t sp (Add_dependency i j) = tasks_add_dependency env t sp i j"
| "task_serve env t sp (Remove_dependency e) = tasks_remove_dependency env t sp e"
| "task_serve env t sp Task_grants = tasks_grants env t sp"
| "task_serve env t sp (Task_grant j) = tasks_grant env t sp j"
| "task_serve env t sp (Task_ungrant u) = tasks_ungrant env t sp u"

section \<open>The methods\<close>

text \<open>A change that keeps the other spaces and takes no task or board from its own.\<close>

definition stays :: "string \<Rightarrow> boards \<Rightarrow> boards \<Rightarrow> bool" where
  "stays sp b b' \<longleftrightarrow> keeps_others sp b b' \<and> (\<forall>k. task_in sp b k \<longrightarrow> task_in sp b' k) \<and> (\<forall>i. space_board sp b i \<longrightarrow> space_board sp b' i)"

lemma stays_refl: "boards_ok b \<Longrightarrow> stays sp b b"
  by (simp add: stays_def keeps_refl)

lemma stays_trans: "stays sp b b1 \<Longrightarrow> stays sp b1 b2 \<Longrightarrow> stays sp b b2"
  unfolding stays_def using keeps_trans by blast

lemma stays_keeps: "stays sp b b' \<Longrightarrow> keeps_others sp b b'"
  by (simp add: stays_def)

lemma stays_ok: "stays sp b b' \<Longrightarrow> boards_ok b'"
  by (rule keeps_ok [OF stays_keeps])

lemma stays_task: "stays sp b b' \<Longrightarrow> task_in sp b k \<Longrightarrow> task_in sp b' k"
  by (simp add: stays_def)

lemma stays_space: "stays sp b b' \<Longrightarrow> space_board sp b k \<Longrightarrow> space_board sp b' k"
  by (simp add: stays_def)

lemma in_space_rows: "space_board sp b i \<longleftrightarrow> (i, sp) \<in> set (map (\<lambda>r. (tb_id r, tb_space_id r)) (task_boards b))"
  unfolding space_board_def set_map image_iff by auto

lemma task_in_rows:
  "task_in sp b k \<longleftrightarrow> (\<exists>i. (k, i) \<in> set (map (\<lambda>t. (tk_id t, tk_board_id t)) (tasks b)) \<and> space_board sp b i)"
  unfolding task_in_def set_map image_iff by auto

lemma staysI:
  assumes "keeps_others sp b b'" and "map (\<lambda>r. (tb_id r, tb_space_id r)) (task_boards b') = map (\<lambda>r. (tb_id r, tb_space_id r)) (task_boards b)"
    and "map (\<lambda>t. (tk_id t, tk_board_id t)) (tasks b') = map (\<lambda>t. (tk_id t, tk_board_id t)) (tasks b)"
  shows "stays sp b b'"
  using assms unfolding stays_def task_in_rows in_space_rows by simp

named_theorems method_stays \<open>methods of the database that keep what is there\<close>

lemma create_board_stays:
  assumes "create_task_board d b i now sp nm desc u = Inr (r, b')" and "boards_ok b"
  shows "stays s b b' \<and> space_board sp b' (tb_id r)"
proof -
  have "\<not> has_key tb_id i (task_boards b)" and r: "b' = b\<lparr>task_boards := task_boards b @ [r]\<rparr>" "tb_id r = i" "tb_space_id r = sp"
    using assms(1) by (auto simp: create_task_board_def Let_def split: if_splits)
  then have "keeps_others s b b'" using keeps_add_board assms(2) by simp
  with r show ?thesis by (auto simp: stays_def task_in_def space_board_def)
qed

lemma update_board_stays [method_stays]:
  assumes "update_task_board b now k nm desc = Inr (r, b')" and "boards_ok b" and "space_board sp b k"
  shows "stays sp b b'"
proof -
  have b: "b' = b\<lparr>task_boards := map (\<lambda>r. if tb_id r = k then r\<lparr>tb_name := nm, tb_description := desc, tb_updated_at := now\<rparr> else r)
        (task_boards b)\<rparr>"
    using assms(1) by (auto simp: update_task_board_def Let_def split: option.splits if_splits)
  have "keeps_others sp b b'" unfolding b using assms(2,3) by (intro keeps_map_boards) auto
  then show ?thesis by (rule staysI) (simp_all add: b)
qed

lemma create_column_stays [method_stays]:
  assumes "create_task_column b i now k nm pos w c = Inr (r, b')" and "boards_ok b" and "space_board sp b k"
  shows "stays sp b b'"
proof -
  have "\<not> has_key co_id (co_id r) (task_columns b)" and b: "b' = b\<lparr>task_columns := task_columns b @ [r]\<rparr>" and "co_board_id r = k"
    using assms(1) by (auto simp: create_task_column_def Let_def split: if_splits)
  then have "keeps_others sp b b'" using keeps_add_column assms(2,3) by simp
  then show ?thesis by (rule staysI) (simp_all add: b)
qed

lemma update_column_stays [method_stays]:
  assumes "update_task_column b k nm w c = Inr (r, b')" and "boards_ok b" and "find_task_column b k = Some col"
    and "space_board sp b (co_board_id col)"
  shows "stays sp b b'"
proof -
  have b: "b' = update_column_rows (\<lambda>c. co_id c = k) (\<lambda>r. r\<lparr>co_name := nm, co_wip_limit := w, co_color := c\<rparr>) b"
    using assms(1) by (auto simp: update_task_column_def Let_def split: option.splits if_splits)
  have d: "distinct (map co_id (task_columns b))" using assms(2) by (simp add: boards_ok_def place_defs comp_def)
  have col: "col \<in> set (task_columns b)" "co_id col = k" using assms(3) first_row_in by (fastforce simp: find_task_column_def)+
  have "space_board sp b (co_board_id r)" if "r \<in> set (task_columns b)" "co_id r = k" for r
    using unique_key [OF d that(1) col(1)] that(2) col(2) assms(4) by simp
  then have "keeps_others sp b b'" unfolding b using assms(2) by (intro keeps_map_columns) auto
  then show ?thesis by (rule staysI) (simp_all add: b update_column_rows_def)
qed

lemma place_columns_stays:
  "boards_ok b \<Longrightarrow> space_board sp b k \<Longrightarrow> stays sp b (place_columns k n cs b)"
proof (induction cs arbitrary: n b)
  case (Cons c cs)
  let ?b = "update_column_rows (\<lambda>r. co_id r = c \<and> co_board_id r = k) (\<lambda>r. r\<lparr>co_position := n\<rparr>) b"
  have "keeps_others sp b ?b" using Cons.prems by (intro keeps_map_columns) auto
  then have b: "stays sp b ?b" by (rule staysI) (simp_all add: update_column_rows_def)
  then show ?case
    using Cons.IH [OF stays_ok [OF b] stays_space [OF b Cons.prems(2)]] stays_trans by simp
qed (simp add: stays_refl)

definition column_of :: "boards \<Rightarrow> string \<Rightarrow> string \<Rightarrow> bool" where
  "column_of b i k \<longleftrightarrow> (\<exists>c. find_task_column b k = Some c \<and> co_board_id c = i)"

lemma column_of_place: "column_of b i k \<Longrightarrow> (k, i) \<in> set (column_places b)"
  unfolding column_of_def find_task_column_def column_places_def
  by (auto dest!: first_row_in)

lemma create_task_stays:
  assumes "create_task parse d b i now bd col ti de pr due c pos u st dur = Inr (t, b')" and "boards_ok b"
    and "space_board sp b bd" and "column_of b bd col"
  shows "stays sp b b' \<and> task_in sp b' (tk_id t)"
proof -
  have "\<not> has_key tk_id (tk_id t) (tasks b)" and t: "b' = b\<lparr>tasks := tasks b @ [t]\<rparr>" "tk_board_id t = bd" "tk_column_id t = col"
    using assms(1) by (auto simp: create_task_def Let_def split: if_splits sum.splits)
  then have "keeps_others sp b b'" using assms(2,3) column_of_place [OF assms(4)] by (auto intro!: keeps_add_task)
  then show ?thesis using assms(3) t by (auto simp: stays_def task_in_def space_board_def)
qed

lemma find_task_in: "find_task b k = Some t \<Longrightarrow> t \<in> set (tasks b) \<and> tk_id t = k"
  unfolding find_task_def by (drule first_row_in) simp

text \<open>The column is one of the board of the task, or the one the task is in.\<close>

lemma update_task_stays:
  assumes "update_task parse b now k col ti de pr due c pos st dur = Inr (x, b')" and "boards_ok b"
    and t: "find_task b k = Some t" and "space_board sp b (tk_board_id t)" and "col = tk_column_id t \<or> column_of b (tk_board_id t) col"
  shows "stays sp b b'"
proof -
  obtain due' st' where b: "b' = update_task_rows k (\<lambda>t. t\<lparr>tk_column_id := col, tk_title := ti, tk_description := de,
      tk_priority := pr, tk_due_date := due', tk_color := c, tk_position := pos, tk_start_date := st',
      tk_duration_days := dur, tk_updated_at := now\<rparr>) b"
    using assms(1) by (auto simp: update_task_def Let_def split: option.splits if_splits sum.splits)
  have d: "distinct (map tk_id (tasks b))" using assms(2) by (simp add: boards_ok_def place_defs comp_def)
  have t: "t \<in> set (tasks b)" "tk_id t = k" using find_task_in [OF t] by auto
  have "(col, tk_board_id t) \<in> set (column_places b)"
    using assms(5) column_of_place ok_column [OF assms(2) t(1)] by auto
  then have "(col, tk_board_id s) \<in> set (column_places b)" if "s \<in> set (tasks b)" "tk_id s = k" for s
    using unique_key [OF d that(1) t(1)] that(2) t(2) by simp
  moreover have "task_in sp b k" using t assms(4) by (auto simp: task_in_def)
  ultimately have "keeps_others sp b b'" unfolding b using assms(2) by (intro keeps_map_tasks) auto
  then show ?thesis by (rule staysI) (simp_all add: b update_task_rows_def)
qed

lemma reorder_tasks_stays:
  "boards_ok b \<Longrightarrow> \<forall>k \<in> fst ` set ps. task_in sp b k \<Longrightarrow> stays sp b (reorder_tasks b ps)"
proof (induction ps arbitrary: b)
  case Nil
  then show ?case by (simp add: reorder_tasks_def stays_refl)
next
  case (Cons p ps)
  obtain k n where p: "p = (k, n)" by (cases p)
  let ?b = "update_task_rows k (\<lambda>t. t\<lparr>tk_position := n\<rparr>) b"
  have "keeps_others sp b ?b" using Cons.prems ok_column p by (intro keeps_map_tasks) auto
  then have b: "stays sp b ?b" by (rule staysI) (simp_all add: update_task_rows_def)
  have "stays sp ?b (reorder_tasks ?b ps)"
    using Cons.IH [OF stays_ok [OF b]] stays_task [OF b] Cons.prems(2) by simp
  then show ?case using stays_trans [OF b] by (simp add: reorder_tasks_def p)
qed

lemma assign_user_stays [method_stays]:
  assumes "add_task_assignee d b k u = Inr b'" and "boards_ok b" and "task_in sp b k"
  shows "stays sp b b'"
proof (cases "(k, u) \<in> set (task_assignees b)")
  case True
  then show ?thesis using assms by (simp add: add_task_assignee_def stays_refl)
next
  case False
  then have b: "b' = b\<lparr>task_assignees := task_assignees b @ [(k, u)]\<rparr>"
    using assms(1) by (auto simp: add_task_assignee_def split: if_splits)
  have "keeps_others sp b b'" unfolding b using assms(2,3) by (rule keeps_add_assignee)
  then show ?thesis by (rule staysI) (simp_all add: b)
qed

lemma remove_assignee_stays [method_stays]:
  assumes "boards_ok b" and "task_in sp b k" shows "stays sp b (remove_task_assignee b k u)"
proof -
  have "keeps_others sp b (remove_task_assignee b k u)"
    unfolding remove_task_assignee_def using assms by (intro keeps_assignees [of _ k]) auto
  then show ?thesis by (rule staysI) (simp_all add: remove_task_assignee_def)
qed

lemma assignments_stay: "boards_ok b \<Longrightarrow> stays sp b (b\<lparr>task_label_assignments := xs\<rparr>)"
  by (rule staysI [OF keeps_label_assignments]) simp_all

lemma assign_label_stays [method_stays]: "assign_task_label b k l = Inr b' \<Longrightarrow> boards_ok b \<Longrightarrow> stays sp b b'"
  by (auto simp: assign_task_label_def stays_refl assignments_stay split: if_splits)

lemma unassign_label_stays [method_stays]: "boards_ok b \<Longrightarrow> stays sp b (unassign_task_label b k l)"
  by (simp add: unassign_task_label_def assignments_stay)

lemma log_stays [method_stays]:
  assumes "log_task_activity d b i now k u act det = Inr b'" and "boards_ok b" and "task_in sp b k"
  shows "stays sp b b'"
proof -
  obtain a where b: "b' = b\<lparr>task_activities := task_activities b @ [a]\<rparr>" and "ta_task_id a = k"
    using assms(1) by (auto simp: log_task_activity_def split: if_splits)
  then have "keeps_others sp b b'" using keeps_add_activity assms(2,3) by simp
  then show ?thesis by (rule staysI) (simp_all add: b)
qed


lemma create_label_stays [method_stays]:
  assumes "create_task_label b i k nm c = Inr (r, b')" and "boards_ok b" and "space_board sp b k"
  shows "stays sp b b'"
proof -
  have "\<not> has_key tl_id (tl_id r) (task_labels b)" and b: "b' = b\<lparr>task_labels := task_labels b @ [r]\<rparr>" and "tl_board_id r = k"
    using assms(1) by (auto simp: create_task_label_def Let_def split: if_splits)
  then have "keeps_others sp b b'" using keeps_add_label assms(2,3) by simp
  then show ?thesis by (rule staysI) (simp_all add: b)
qed

section \<open>Where the ids of a path lead\<close>

lemma board_in_space_there: "board_in_space b sp (Some i) \<Longrightarrow> space_board sp b i"
  unfolding board_in_space_def space_board_def find_task_board_def
  by (auto split: option.splits dest: first_row_in)

lemma board_in_space_some: "board_in_space b sp x \<Longrightarrow> \<exists>i. x = Some i \<and> space_board sp b i"
  using board_in_space_there by (cases x) (auto simp: board_in_space_def)

lemma task_board_there: "task_board_of b k = Some i \<Longrightarrow> space_board sp b i \<Longrightarrow> task_in sp b k"
  unfolding task_board_of_def task_in_def by (auto dest: find_task_in)

lemma label_there:
  assumes "boards_ok b" and "board_in_space b sp (get_label_board_id b k)"
  shows "\<forall>l \<in> set (task_labels b). tl_id l = k \<longrightarrow> space_board sp b (tl_board_id l)"
proof -
  obtain l where l: "find_label b k = Some l" "space_board sp b (tl_board_id l)"
    using board_in_space_some [OF assms(2)] by (auto simp: get_label_board_id_def)
  have "l \<in> set (task_labels b)" "tl_id l = k" using l(1) first_row_in by (fastforce simp: find_label_def)+
  moreover have "distinct (map tl_id (task_labels b))" using assms(1) by (simp add: boards_ok_def place_defs comp_def)
  ultimately show ?thesis using unique_key [of tl_id "task_labels b" l] l(2) by metis
qed

lemma checklist_there:
  assumes "get_checklist_board_id b k = Some i" and "space_board sp b i"
  shows "checklist_in sp b k"
proof -
  obtain c where c: "find_checklist b k = Some c" "task_board_of b (cl_task_id c) = Some i"
    using assms(1) by (auto simp: get_checklist_board_id_def split: option.splits)
  have "c \<in> set (task_checklists b)" "cl_id c = k" using c(1) first_row_in by (fastforce simp: find_checklist_def)+
  then show ?thesis using task_board_there [OF c(2) assms(2)] by (auto simp: checklist_in_def)
qed

lemma item_there:
  assumes "boards_ok b" and "get_checklist_item_board_id b k = Some i" and "space_board sp b i"
  shows "item_in sp b k"
proof -
  obtain c where c: "find_checklist_item b k = Some c" "get_checklist_board_id b (ci_checklist_id c) = Some i"
    using assms(2) by (auto simp: get_checklist_item_board_id_def split: option.splits)
  have "c \<in> set (task_checklist_items b)" "ci_id c = k" using c(1) first_row_in by (fastforce simp: find_checklist_item_def)+
  moreover have "distinct (map ci_id (task_checklist_items b))" using assms(1) by (simp add: boards_ok_def place_defs comp_def)
  ultimately show ?thesis
    using unique_key [of ci_id "task_checklist_items b" c] checklist_there [OF c(2) assms(3)] unfolding item_in_def by metis
qed

lemma dependency_there:
  assumes "boards_ok b" and "get_dependency_board_id b k = Some i" and "space_board sp b i"
  shows "\<forall>e \<in> set (task_dependencies b). td_id e = k \<longrightarrow> task_in sp b (td_task_id e)"
proof -
  obtain e where e: "first_row (filter (\<lambda>e. td_id e = k) (task_dependencies b)) = Some e" "task_board_of b (td_task_id e) = Some i"
    using assms(2) by (auto simp: get_dependency_board_id_def split: option.splits)
  have "e \<in> set (task_dependencies b)" "td_id e = k" using first_row_in [OF e(1)] by auto
  moreover have "distinct (map td_id (task_dependencies b))" using assms(1) by (simp add: boards_ok_def place_defs comp_def)
  ultimately show ?thesis
    using unique_key [of td_id "task_dependencies b" e] task_board_there [OF e(2) assms(3)] by metis
qed

lemma on_boardI: "task_board_of b k = Some i \<Longrightarrow> on_board b i k"
  unfolding task_board_of_def on_board_def by (auto dest: find_task_in)

section \<open>Methods on what a path leads to\<close>

lemma update_label_keeps:
  assumes "update_task_label b k nm c = Inr (r, b')" and "boards_ok b" and "board_in_space b sp (get_label_board_id b k)"
  shows "keeps_others sp b b'"
proof -
  have b: "b' = b\<lparr>task_labels := map (\<lambda>l. if tl_id l = k then l\<lparr>tl_name := nm, tl_color := c\<rparr> else l) (task_labels b)\<rparr>"
    using assms(1) by (auto simp: update_task_label_def Let_def split: option.splits if_splits)
  show ?thesis unfolding b using assms(2) label_there [OF assms(2,3)] by (intro keeps_map_labels) auto
qed

lemma delete_label_keeps:
  "boards_ok b \<Longrightarrow> board_in_space b sp (get_label_board_id b k) \<Longrightarrow> keeps_others sp b (delete_task_label b k)"
  unfolding delete_task_label_def by (rule keeps_drop_labels [OF _ label_there])

lemma create_checklist_stays [method_stays]:
  assumes "create_task_checklist b i k ti pos = Inr (r, b')" and "boards_ok b" and "task_in sp b k"
  shows "stays sp b b'"
proof -
  have "\<not> has_key cl_id (cl_id r) (task_checklists b)" and b: "b' = b\<lparr>task_checklists := task_checklists b @ [r]\<rparr>" and "cl_task_id r = k"
    using assms(1) by (auto simp: create_task_checklist_def Let_def split: if_splits)
  then have "keeps_others sp b b'" using keeps_add_checklist assms(2,3) by simp
  then show ?thesis by (rule staysI) (simp_all add: b)
qed

lemma delete_checklist_keeps:
  assumes "boards_ok b" and "board_in_space b sp (get_checklist_board_id b k)"
  shows "keeps_others sp b (delete_task_checklist b k)"
proof -
  have "checklist_in sp b k" using board_in_space_some [OF assms(2)] checklist_there by blast
  then obtain c where c: "c \<in> set (task_checklists b)" "cl_id c = k" "task_in sp b (cl_task_id c)" by (auto simp: checklist_in_def)
  have d: "distinct (map cl_id (task_checklists b))" using assms(1) by (simp add: boards_ok_def place_defs comp_def)
  show ?thesis unfolding delete_task_checklist_def
    using unique_key [OF d _ c(1)] c by (intro keeps_drop_checklists assms(1) ballI impI) metis
qed

lemma create_item_keeps:
  assumes "create_checklist_item b i k ct pos = Inr (r, b')" and "boards_ok b" and "board_in_space b sp (get_checklist_board_id b k)"
  shows "keeps_others sp b b'"
proof -
  have "\<not> has_key ci_id (ci_id r) (task_checklist_items b)" and b: "b' = b\<lparr>task_checklist_items := task_checklist_items b @ [r]\<rparr>"
    and "ci_checklist_id r = k"
    using assms(1) by (auto simp: create_checklist_item_def Let_def split: if_splits)
  moreover have "checklist_in sp b k" using board_in_space_some [OF assms(3)] checklist_there by blast
  ultimately show ?thesis using keeps_add_item assms(2) by simp
qed

lemma update_item_keeps:
  assumes "update_checklist_item b k ct ch = Inr (r, b')" and "boards_ok b" and "board_in_space b sp (get_checklist_item_board_id b k)"
  shows "keeps_others sp b b'"
proof -
  have b: "b' = b\<lparr>task_checklist_items := map (\<lambda>i. if ci_id i = k then i\<lparr>ci_content := ct, ci_is_checked := ch\<rparr> else i)
        (task_checklist_items b)\<rparr>"
    using assms(1) by (auto simp: update_checklist_item_def Let_def split: option.splits if_splits)
  have "item_in sp b k" using board_in_space_some [OF assms(3)] item_there [OF assms(2)] by blast
  then show ?thesis unfolding b using assms(2) by (intro keeps_map_items) auto
qed

lemma delete_item_keeps:
  assumes "boards_ok b" and "board_in_space b sp (get_checklist_item_board_id b k)"
  shows "keeps_others sp b (delete_checklist_item b k)"
  unfolding delete_checklist_item_def
  using board_in_space_some [OF assms(2)] item_there [OF assms(1)] keeps_drop_items [OF assms(1)] by blast

lemma add_dependency_stays [method_stays]:
  assumes "add_task_dependency b i now k k' ty = Inr (r, b')" and "boards_ok b" and "space_board sp b bd"
    and "task_board_of b k = Some bd" and "task_board_of b k' = Some bd"
  shows "stays sp b b'"
proof -
  let ?f = "\<lambda>e. e\<lparr>td_dependency_type := ty\<rparr>" and ?P = "\<lambda>e. td_task_id e = k \<and> td_depends_on_id e = k'"
  have k: "task_in sp b k" by (rule task_board_there [OF assms(4,3)])
  consider "b' = b\<lparr>task_dependencies := map (\<lambda>e. if ?P e then ?f e else e) (task_dependencies b)\<rparr>"
    | "b' = b\<lparr>task_dependencies := task_dependencies b @ [r]\<rparr>" "td_task_id r = k" "td_depends_on_id r = k'"
      "\<not> has_key td_id (td_id r) (task_dependencies b)"
    using assms(1) by (auto simp: add_task_dependency_def Let_def split: option.splits if_splits)
  then show ?thesis
  proof cases
    case 1
    have "keeps_others sp b b'" unfolding 1 using assms(2) k by (intro keeps_map_dependencies) auto
    then show ?thesis by (rule staysI) (simp_all add: 1)
  next
    case 2
    have "keeps_others sp b b'"
      unfolding 2(1) using assms(2) k 2 on_boardI [OF assms(4)] on_boardI [OF assms(5)] by (intro keeps_add_dependency) auto
    then show ?thesis by (rule staysI) (simp_all add: 2)
  qed
qed

lemma remove_dependency_keeps:
  assumes "boards_ok b" and "board_in_space b sp (get_dependency_board_id b k)"
  shows "keeps_others sp b (remove_task_dependency b k)"
proof -
  obtain i where "get_dependency_board_id b k = Some i" "space_board sp b i" using board_in_space_some [OF assms(2)] by blast
  then show ?thesis unfolding remove_task_dependency_def by (intro keeps_drop_dependencies assms(1) dependency_there [OF assms(1)])
qed


section \<open>The steps of an endpoint\<close>

definition may_edit :: "web_env \<Rightarrow> string \<Rightarrow> string \<Rightarrow> db \<Rightarrow> string \<Rightarrow> bool" where
  "may_edit env t sp d u \<longleftrightarrow> validate_session d (we_now env) t = Some u \<and> check_tool_access task_grants d sp u
     \<and> 1 \<le> tool_perm_rank (tool_access_level task_grants d sp u)"

lemma after_editing [outcome_rules]:
  assumes "Q s []" and "\<And>u. may_edit env t sp (fst s) u \<Longrightarrow> holds_after Q (rest u s)"
  shows "holds_after Q (editing env t sp rest s)"
  unfolding editing_def in_tasks_def with_task_level_def
  using assms by (intro outcome_rules) (auto simp: may_edit_def tool_perm_rank_def)

lemma find_board_there: "find_task_board b i = Some r \<Longrightarrow> tb_space_id r = sp \<Longrightarrow> space_board sp b i"
  using board_in_space_there [of b sp i] by (simp add: board_in_space_def)

lemma after_board [outcome_rules]:
  assumes "Q s []" and "\<And>r. find_task_board (snd s) i = Some r \<Longrightarrow> space_board sp (snd s) i \<Longrightarrow> holds_after Q (rest r s)"
  shows "holds_after Q (with_board sp i rest s)"
  using assms find_board_there by (simp add: with_board_def split: option.split)

lemma after_resource [outcome_rules]:
  assumes "Q s []" and "board_in_space (snd s) sp (f (snd s)) \<Longrightarrow> holds_after Q (rest s)"
  shows "holds_after Q (with_resource sp f rest s)"
  using assms by (simp add: with_resource_def)

lemma after_task [outcome_rules]:
  assumes "Q s []" and "\<And>x. find_task (snd s) k = Some x \<Longrightarrow> tk_board_id x = i \<Longrightarrow> holds_after Q (rest x s)"
  shows "holds_after Q (with_task i k rest s)"
  using assms by (simp add: with_task_def split: option.split)

lemma after_column [outcome_rules]:
  assumes "Q s []" and "\<And>c. find_task_column (snd s) k = Some c \<Longrightarrow> co_board_id c = i \<Longrightarrow> holds_after Q (rest c s)"
  shows "holds_after Q (with_column i k rest s)"
  using assms by (simp add: with_column_def split: option.split)

section \<open>Every endpoint keeps the boards of other spaces\<close>

abbreviation keeping :: "string \<Rightarrow> boards \<Rightarrow> task_state \<Rightarrow> effect list \<Rightarrow> bool" where
  "keeping sp b \<equiv> \<lambda>s' es. keeps_others sp b (snd s')"

lemma reading_keeps:
  assumes "boards_ok (snd s)"
  shows "holds_after (keeping sp (snd s)) (tasks_list_boards env t sp s)"
    and "holds_after (keeping sp (snd s)) (tasks_get_board env t sp i s)"
    and "holds_after (keeping sp (snd s)) (tasks_get_task env t sp i k s)"
    and "holds_after (keeping sp (snd s)) (tasks_grants env t sp s)"
    and "holds_after (keeping sp (snd s)) (tasks_grant env t sp j s)"
    and "holds_after (keeping sp (snd s)) (tasks_ungrant env t sp u s)"
  unfolding tasks_list_boards_def tasks_get_board_def tasks_get_task_def tasks_grants_def list_tool_grants_def
    tasks_grant_def tool_grant_def tasks_ungrant_def tool_ungrant_def in_tasks_def
  by (intro outcome_rules; simp add: keeps_refl assms)+

text \<open>A board, or a task, that a request has found or made stays in its space while the request goes on.\<close>

definition at_board :: "string \<Rightarrow> boards \<Rightarrow> string \<Rightarrow> boards \<Rightarrow> bool" where
  "at_board sp b k b' \<longleftrightarrow> stays sp b b' \<and> space_board sp b' k"

definition at_task :: "string \<Rightarrow> boards \<Rightarrow> string \<Rightarrow> boards \<Rightarrow> bool" where
  "at_task sp b k b' \<longleftrightarrow> stays sp b b' \<and> task_in sp b' k"

lemma at_keeps: "at_board sp b k b' \<Longrightarrow> keeps_others sp b b'" "at_task sp b k b' \<Longrightarrow> keeps_others sp b b'"
  by (simp_all add: at_board_def at_task_def stays_keeps)

lemma at_board_stays: "at_board sp b k b1 \<Longrightarrow> (boards_ok b1 \<Longrightarrow> space_board sp b1 k \<Longrightarrow> stays sp b1 b2) \<Longrightarrow> at_board sp b k b2"
  unfolding at_board_def using stays_ok stays_trans stays_space by blast

lemma at_task_stays: "at_task sp b k b1 \<Longrightarrow> (boards_ok b1 \<Longrightarrow> task_in sp b1 k \<Longrightarrow> stays sp b1 b2) \<Longrightarrow> at_task sp b k b2"
  unfolding at_task_def using stays_ok stays_trans stays_task by blast

lemma at_new_board: "create_task_board d b i now sp nm desc u = Inr (r, b') \<Longrightarrow> boards_ok b \<Longrightarrow> at_board sp b (tb_id r) b'"
  unfolding at_board_def by (rule create_board_stays)

lemma at_new_column: "at_board sp b k b1 \<Longrightarrow> create_task_column b1 i now k nm p w c = Inr (r, b2) \<Longrightarrow> at_board sp b k b2"
  by (erule at_board_stays) (rule create_column_stays)

lemma create_board_keeps:
  assumes "boards_ok (snd s)"
  shows "holds_after (keeping sp (snd s)) (tasks_create_board env t sp j s)"
  unfolding tasks_create_board_def
  by (intro outcome_rules; simp add: keeps_refl assms; blast intro: at_keeps at_new_board at_new_column assms)

lemma board_changes_keep:
  assumes "boards_ok (snd s)"
  shows "holds_after (keeping sp (snd s)) (tasks_update_board env t sp i j s)"
    and "holds_after (keeping sp (snd s)) (tasks_delete_board env t sp i s)"
    and "holds_after (keeping sp (snd s)) (tasks_create_column env t sp i j s)"
    and "holds_after (keeping sp (snd s)) (tasks_update_column env t sp i c j s)"
    and "holds_after (keeping sp (snd s)) (tasks_reorder_columns env t sp i j s)"
    and "holds_after (keeping sp (snd s)) (tasks_create_label env t sp i j s)"
  unfolding tasks_update_board_def tasks_delete_board_def tasks_create_column_def tasks_update_column_def
    tasks_reorder_columns_def tasks_create_label_def in_tasks_def with_task_level_def
  by (intro outcome_rules; simp add: keeps_refl assms keeps_delete_board reorder_task_columns_def;
      blast intro: stays_keeps update_board_stays create_column_stays update_column_stays place_columns_stays
        create_label_stays assms)+


lemma path_changes_keep:
  assumes "boards_ok (snd s)"
  shows "holds_after (keeping sp (snd s)) (tasks_delete_checklist env t sp k s)"
    and "holds_after (keeping sp (snd s)) (tasks_create_item env t sp k j s)"
    and "holds_after (keeping sp (snd s)) (tasks_update_item env t sp k j s)"
    and "holds_after (keeping sp (snd s)) (tasks_delete_item env t sp k s)"
    and "holds_after (keeping sp (snd s)) (tasks_update_label env t sp k j s)"
    and "holds_after (keeping sp (snd s)) (tasks_delete_label env t sp k s)"
    and "holds_after (keeping sp (snd s)) (tasks_remove_dependency env t sp k s)"
  unfolding tasks_delete_checklist_def tasks_create_item_def tasks_update_item_def tasks_delete_item_def
    tasks_update_label_def tasks_delete_label_def tasks_remove_dependency_def
  by (intro outcome_rules; simp add: keeps_refl assms;
      blast intro: delete_checklist_keeps create_item_keeps update_item_keeps delete_item_keeps update_label_keeps
        delete_label_keeps remove_dependency_keeps assms)+

lemma at_log: "at_task sp b k b1 \<Longrightarrow> log_task_activity d b1 i now k u act det = Inr b2 \<Longrightarrow> at_task sp b k b2"
  by (erule at_task_stays) (rule log_stays)

lemma find_task_there: "find_task b k = Some x \<Longrightarrow> space_board sp b (tk_board_id x) \<Longrightarrow> task_in sp b k"
  unfolding task_in_def by (auto dest: find_task_in)

lemma at_start: "boards_ok b \<Longrightarrow> task_in sp b k \<Longrightarrow> at_task sp b k b"
  by (simp add: at_task_def stays_refl)

lemma create_checklist_keeps:
  assumes "boards_ok (snd s)"
  shows "holds_after (keeping sp (snd s)) (tasks_create_checklist env t sp i k j s)"
  unfolding tasks_create_checklist_def
proof (intro outcome_rules; simp add: keeps_refl assms with_unit_Inr)
  fix cl b1 ti po assume found: "board_in_space (snd s) sp (case find_task (snd s) k of None \<Rightarrow> None
      | Some t \<Rightarrow> if tk_board_id t = i then Some (tk_board_id t) else None)"
    and made: "create_task_checklist (snd s) (we_id env 0) k ti po = Inr (cl, b1)"
  have "task_in sp (snd s) k"
    using board_in_space_some [OF found] by (auto split: option.splits if_splits intro: find_task_there)
  then have "at_task sp (snd s) k b1"
    using at_task_stays [OF at_start] create_checklist_stays [OF made] assms by blast
  then show "keeps_others sp (snd s) b1"
    and "log_task_activity (fst s) b1 n now k u act det = Inr b2 \<Longrightarrow> keeps_others sp (snd s) b2" for n now u act det b2
    using at_keeps(2) at_log by blast+
qed

lemma add_dependency_keeps:
  assumes "boards_ok (snd s)"
  shows "holds_after (keeping sp (snd s)) (tasks_add_dependency env t sp i j s)"
  unfolding tasks_add_dependency_def
proof (intro outcome_rules; simp add: keeps_refl assms with_unit_Inr)
  fix e b1 k k' ty assume i: "space_board sp (snd s) i"
    and on: "task_board_of (snd s) k = Some i \<and> task_board_of (snd s) k' = Some i"
    and made: "add_task_dependency (snd s) (we_id env 0) (we_now env) k k' ty = Inr (e, b1)"
  then have "at_task sp (snd s) k b1"
    using at_task_stays [OF at_start] add_dependency_stays [OF made] task_board_there assms by blast
  then show "keeps_others sp (snd s) b1"
    and "log_task_activity (fst s) b1 n now k u act det = Inr b2 \<Longrightarrow> keeps_others sp (snd s) b2" for n now u act det b2
    using at_keeps(2) at_log by blast+
qed

lemma delete_task_keeps:
  assumes "boards_ok (snd s)"
  shows "holds_after (keeping sp (snd s)) (tasks_delete_task env t sp i k s)"
proof -
  have "keeps_others sp (snd s) (delete_task (snd s) k)" if x: "find_task (snd s) k = Some x" "space_board sp (snd s) (tk_board_id x)" for x
  proof -
    have "distinct (map tk_id (tasks (snd s)))" using assms by (simp add: boards_ok_def place_defs comp_def)
    then have "y = x" if "y \<in> set (tasks (snd s))" "tk_id y = k" for y
      using unique_key [of tk_id "tasks (snd s)" y x] that find_task_in [OF x(1)] by simp
    then show ?thesis unfolding delete_task_def using x(2) by (intro keeps_drop_tasks assms) blast
  qed
  then show ?thesis
    unfolding tasks_delete_task_def in_tasks_def with_task_level_def
    by (intro outcome_rules; simp add: keeps_refl assms)
qed


lemma at_assign:
  "at_task sp b k (snd s) \<Longrightarrow> assign_users env k u s = Inr s' \<Longrightarrow> at_task sp b k (snd s')"
  "at_task sp b k (snd s) \<Longrightarrow> assign_labels env k u s = Inr s' \<Longrightarrow> at_task sp b k (snd s')"
  by (auto simp: assign_users_def assign_labels_def split: if_splits sum.splits)
    (erule at_task_stays; blast intro: assign_user_stays assign_label_stays)+

lemma at_with_string:
  "at_task sp b k (snd s) \<Longrightarrow> with_string n (assign_users env k) x s = Inr s' \<Longrightarrow> at_task sp b k (snd s')"
  "at_task sp b k (snd s) \<Longrightarrow> with_string n (assign_labels env k) x s = Inr s' \<Longrightarrow> at_task sp b k (snd s')"
  by (auto simp: with_string_def split: option.splits intro: at_assign)

lemma after_task_each:
  assumes "at_task sp b k (snd s)" and "\<And>x s s'. at_task sp b k (snd s) \<Longrightarrow> f x s = Inr s' \<Longrightarrow> at_task sp b k (snd s')"
    and "\<And>s. at_task sp b k (snd s) \<Longrightarrow> holds_after (keeping sp b) (rest s)"
  shows "holds_after (keeping sp b) (each_or_fail env f xs rest s)"
  by (rule after_each [of "\<lambda>s. at_task sp b k (snd s)", OF assms(1) assms(2) _ assms(3)]) (auto intro: at_keeps)

lemma at_discard:
  assumes "\<And>b' i. boards_ok b' \<Longrightarrow> task_in sp b' k \<Longrightarrow> stays sp b' (discard b' i)" and "at_task sp b k b1"
  shows "at_task sp b k (fold (\<lambda>i b. discard b i) is b1)"
  using assms(2)
proof (induction "is" arbitrary: b1)
  case (Cons i "is")
  show ?case using Cons.IH [OF at_task_stays [OF Cons.prems assms(1)]] by simp
qed simp

lemma after_sync:
  assumes "at_task sp b k (snd s)" and "\<And>x s s'. at_task sp b k (snd s) \<Longrightarrow> assign x s = Inr s' \<Longrightarrow> at_task sp b k (snd s')"
    and "\<And>b' i. boards_ok b' \<Longrightarrow> task_in sp b' k \<Longrightarrow> stays sp b' (discard b' i)"
    and "\<And>s. at_task sp b k (snd s) \<Longrightarrow> holds_after (keeping sp b) (rest s)"
  shows "holds_after (keeping sp b) (sync_list env j n current discard assign rest s)"
  unfolding sync_list_def
proof (intro outcome_rules)
  show "holds_after (keeping sp b) (rest s)" using assms(1,4) by blast
  show "keeps_others sp b (snd s)" using at_keeps(2) [OF assms(1)] .
  show "holds_after (keeping sp b) (each_or_fail env assign ids rest
      (fst s, fold (\<lambda>i b. discard b i) (filter (\<lambda>i. i \<notin> set ids) (current s)) (snd s)))" for ids
    using at_discard [where discard = discard, OF assms(3) assms(1)] assms(2,4) by (intro after_task_each [where k = k]) auto
qed

lemma after_task_log:
  assumes "at_task sp b k (snd s)" and "\<And>x b'. f (fst s) (snd s) = Inr (x, b') \<Longrightarrow> at_task sp b k b'"
    and "\<And>x s. at_task sp b k (snd s) \<Longrightarrow> holds_after (keeping sp b) (rest x s)"
  shows "holds_after (keeping sp b) (on_tables env f rest s)"
  using assms by (intro after_tables) (auto intro: at_keeps)

lemma create_task_keeps:
  assumes "boards_ok (snd s)"
  shows "holds_after (keeping sp (snd s)) (tasks_create_task env t sp i j s)"
  unfolding tasks_create_task_def
proof (intro outcome_rules; (simp add: keeps_refl assms; fail)?)
  fix j2 col ti de pr due c pos st dur u and tk :: task and b1
  assume i: "space_board sp (snd s) i"
    and col: "\<not> \<not> (case find_task_column (snd s) col of None \<Rightarrow> False | Some c \<Rightarrow> co_board_id c = i)"
    and made: "create_task (we_parse_time env) (fst s) (snd s) (we_id env 0) (we_now env) i col ti de pr due c pos u st dur = Inr (tk, b1)"
  have "column_of (snd s) i col" using col by (auto simp: column_of_def split: option.splits)
  then have b1: "at_task sp (snd s) (tk_id tk) b1"
    unfolding at_task_def using create_task_stays [OF made assms i] by blast
  show "holds_after (keeping sp (snd s)) (each_or_fail env (with_string ''assignee_ids'' (assign_users env (tk_id tk)))
      (elements_at j2 ''assignee_ids'') (
         each_or_fail env (with_string ''label_ids'' (assign_labels env (tk_id tk))) (elements_at j2 ''label_ids'') (
         on_tables env (\<lambda>d b. with_unit (log_task_activity d b (we_id env 1) (we_now env) (tk_id tk) u ''created''
               (JObject [(''title'', JString ti)]))) (\<lambda>_ s.
           answer (JObject (task_to_json env (fst s) tk due st @ people_and_labels (fst s) (snd s) (tk_id tk))) s [])))
      (fst s, b1))"
    by (intro after_task_each [where k = "tk_id tk"] after_task_log [where k = "tk_id tk"])
      (auto simp: b1 with_unit_Inr intro: at_with_string at_log at_keeps)
qed


lemma column_choice:
  assumes "find_task (snd s) k = Some x" and "tk_board_id x = i" and "space_board sp (snd s) i"
    and "\<not> (col \<noteq> tk_column_id x \<and> \<not> (case find_task_column (snd s) col of None \<Rightarrow> False | Some c \<Rightarrow> co_board_id c = i))"
    and "update_task parse (snd s) now k col ti de pr due c pos st dur = Inr (y, b')" and "boards_ok (snd s)"
  shows "at_task sp (snd s) k b'"
proof -
  have "col = tk_column_id x \<or> column_of (snd s) (tk_board_id x) col"
    using assms(2,4) by (auto simp: column_of_def split: option.splits)
  then have "stays sp (snd s) b'" using update_task_stays assms by blast
  moreover have "task_in sp (snd s) k" using find_task_there assms(1-3) by blast
  ultimately show ?thesis unfolding at_task_def using stays_task by blast
qed

lemma after_update:
  assumes "at_task sp b k b1"
  shows "holds_after (keeping sp b)
    (sync_list env j n1 c1 (\<lambda>b. remove_task_assignee b k) (assign_users env k)
      (sync_list env j n2 c2 (\<lambda>b. unassign_task_label b k) (assign_labels env k)
        (on_tables env (\<lambda>d b. if P then Inr ((), b) else with_unit (log_task_activity d b i now k u act det))
          (\<lambda>_ s. answer (f s) s []))) (d, b1))"
  using assms
  by (intro after_sync [where k = k] after_task_log [where k = k])
    (auto simp: with_unit_Inr split: if_splits intro: at_assign at_log at_keeps remove_assignee_stays unassign_label_stays)

lemma update_task_keeps:
  assumes "boards_ok (snd s)"
  shows "holds_after (keeping sp (snd s)) (tasks_update_task env t sp i k j s)"
  unfolding tasks_update_task_def Let_def
  by (intro outcome_rules; (simp add: keeps_refl assms; fail)?)
    (rule column_choice [THEN at_keeps(2)] column_choice [THEN after_update]; (assumption | rule assms))+

section \<open>Reordering\<close>

definition reordering_ok :: "string \<Rightarrow> boards \<Rightarrow> (string \<times> int) list \<Rightarrow> boards \<Rightarrow> bool" where
  "reordering_ok sp b ps b' \<longleftrightarrow> stays sp b b' \<and> (\<forall>k \<in> fst ` set ps. task_in sp b' k)"

lemma move_stays:
  assumes "move_to_column env n u i x col pos s = (r, s')" and "boards_ok (snd s)" and "find_task (snd s) k = Some x"
    and "tk_board_id x = i" and "space_board sp (snd s) i"
  shows "stays sp (snd s) (snd s')"
proof -
  have k: "tk_id x = k" using find_task_in [OF assms(3)] by simp
  show ?thesis
  proof (cases "pg_is_uuid (we_pg env) col \<and> (case find_task_column (snd s) col of None \<Rightarrow> False | Some c \<Rightarrow> co_board_id c = i)")
    case False
    then have "s' = s" using assms(1) by (auto simp: move_to_column_def split: if_splits)
    then show ?thesis by (simp add: stays_refl assms(2))
  next
    case True
    let ?up = "update_task (we_parse_time env) (snd s) (we_now env) k col (tk_title x) (tk_description x) (tk_priority x)
        (opt_time_text env (tk_due_date x)) (tk_color x) pos (opt_time_text env (tk_start_date x)) (tk_duration_days x)"
    show ?thesis
    proof (cases ?up)
      case (Inl e)
      then have "s' = s" using assms(1) True by (simp add: move_to_column_def k)
      then show ?thesis by (simp add: stays_refl assms(2))
    next
      case (Inr y)
      obtain y1 b1 where y: "y = (y1, b1)" by (cases y)
      have b1: "at_task sp (snd s) k b1"
        using column_choice [OF assms(3-5) _ Inr [unfolded y] assms(2)] True by simp
      have "snd s' = b1 \<or> (\<exists>n act det. log_task_activity (fst s) b1 n (we_now env) k u act det = Inr (snd s'))"
        using assms(1) True Inr y by (auto simp: move_to_column_def k split: sum.splits)
      then have "at_task sp (snd s) k (snd s')" using b1 at_log by blast
      then show ?thesis by (simp add: at_task_def)
    qed
  qed
qed

lemma reordering_ok_snoc:
  "reordering_ok sp b ps b1 \<Longrightarrow> task_in sp b1 k \<Longrightarrow> (boards_ok b1 \<Longrightarrow> stays sp b1 b2) \<Longrightarrow> reordering_ok sp b (ps @ [(k, n)]) b2"
  unfolding reordering_ok_def using stays_ok stays_trans stays_task by auto

lemma move_not_positions: "move_to_column env n u i x col pos s = (Some r, s1) \<Longrightarrow> r \<noteq> Positions qs"
  by (auto simp: move_to_column_def split: if_splits sum.splits)

lemma reorder_step:
  assumes "reorder_loop env n u i (item # items) ps s = (r, s')"
  obtains (stop) "s' = s" "\<forall>qs. r \<noteq> Positions qs"
    | (stay) k pos x where "find_task (snd s) k = Some x" "tk_board_id x = i"
        "reorder_loop env (n + 1) u i items (ps @ [(k, pos)]) s = (r, s')"
    | (move) k pos x col r0 s1 where "find_task (snd s) k = Some x" "tk_board_id x = i"
        "move_to_column env n u i x col pos s = (r0, s1)"
        "r0 = None \<longrightarrow> reorder_loop env (n + 1) u i items (ps @ [(k, pos)]) s1 = (r, s')"
        "r0 \<noteq> None \<longrightarrow> s' = s1 \<and> (\<forall>qs. r \<noteq> Positions qs)"
proof -
  have "r \<noteq> Positions qs" if "move_to_column env n u i x col pos s = (Some r, s1)" for x col pos s1 qs
    using move_not_positions [OF that] .
  then show thesis
    using assms stop stay move
    by (auto split: sum.splits option.splits if_splits prod.splits) 
qed

lemma reorder_loop_ok:
  assumes "reorder_loop env n u i items ps s = (r, s')" and "reordering_ok sp b ps (snd s)" and "space_board sp (snd s) i"
  shows "stays sp b (snd s') \<and> (\<forall>qs. r = Positions qs \<longrightarrow> reordering_ok sp b qs (snd s'))"
  using assms
proof (induction items arbitrary: n ps s)
  case Nil
  then show ?case by (auto simp: reordering_ok_def)
next
  case (Cons item items)
  have b: "stays sp b (snd s)" using Cons.prems(2) by (simp add: reordering_ok_def)
  let ?go = "\<lambda>ps s. reorder_loop env (n + 1) u i items ps s = (r, s')"
  show ?case
    using Cons.prems(1)
  proof (cases rule: reorder_step)
    case stop
    then show ?thesis using b by simp
  next
    case (stay k pos x)
    have "task_in sp (snd s) k" using find_task_there stay(1,2) Cons.prems(3) by blast
    then have "reordering_ok sp b (ps @ [(k, pos)]) (snd s)" using Cons.prems(2) by (elim reordering_ok_snoc) (simp_all add: stays_refl)
    then show ?thesis using Cons.IH stay(3) Cons.prems(3) by blast
  next
    case (move k pos x col r0 s1)
    have g: "stays sp (snd s) (snd s1)" using move_stays [OF move(3) stays_ok [OF b] move(1,2) Cons.prems(3)] .
    have "task_in sp (snd s) k" using find_task_there move(1,2) Cons.prems(3) by blast
    then have ok: "reordering_ok sp b (ps @ [(k, pos)]) (snd s1)" using Cons.prems(2) g by (elim reordering_ok_snoc)
    show ?thesis
    proof (cases r0)
      case None
      then show ?thesis using Cons.IH ok move(4) stays_space [OF g Cons.prems(3)] by blast
    next
      case (Some r1)
      then show ?thesis using move(5) stays_trans [OF b g] by simp
    qed
  qed
qed


lemma reorder_keeps:
  assumes "boards_ok (snd s)"
  shows "holds_after (keeping sp (snd s)) (tasks_reorder env t sp i j s)"
  unfolding tasks_reorder_def
proof (intro outcome_rules; (simp add: keeps_refl assms; fail)?)
  fix u v r s1 assume i: "space_board sp (snd s) i"
    and loop: "reorder_loop env 0 u i (json_elements v) [] s = (r, s1)"
  have ok: "stays sp (snd s) (snd s1)" "\<forall>qs. r = Positions qs \<longrightarrow> reordering_ok sp (snd s) qs (snd s1)"
    using reorder_loop_ok [OF loop _ i, of "snd s"] by (simp_all add: reordering_ok_def stays_refl assms)
  then have "keeps_others sp (snd s) (reorder_tasks (snd s1) qs)" if "r = Positions qs" for qs
    using that reorder_tasks_stays stays_ok [OF ok(1)] unfolding reordering_ok_def by (metis stays_keeps keeps_trans)
  then show "holds_after (keeping sp (snd s)) (case r of
      Positions ps \<Rightarrow> done_with (fst s1, reorder_tasks (snd s1) ps) []
    | Foreign \<Rightarrow> refuse ''400'' ''Task or column does not belong to this board'' s1
    | Threw e \<Rightarrow> failed env e s1)"
    using stays_keeps [OF ok(1)] by (cases r) simp_all
qed

lemma delete_column_keeps:
  assumes "boards_ok (snd s)"
  shows "holds_after (keeping sp (snd s)) (tasks_delete_column env t sp i k s)"
proof -
  have "keeps_others sp (snd s) (delete_task_column (snd s) k)"
    if c: "find_task_column (snd s) k = Some c" "space_board sp (snd s) (co_board_id c)" for c
  proof -
    have d: "distinct (map co_id (task_columns (snd s)))" using assms by (simp add: boards_ok_def place_defs comp_def)
    have "c \<in> set (task_columns (snd s))" "co_id c = k" using c(1) first_row_in by (fastforce simp: find_task_column_def)+
    then have "x = c" if "x \<in> set (task_columns (snd s))" "co_id x = k" for x
      using unique_key [OF d that(1)] that(2) by simp
    then show ?thesis unfolding delete_task_column_def using c(2) by (intro keeps_drop_columns assms) blast
  qed
  then show ?thesis
    unfolding tasks_delete_column_def by (intro outcome_rules; simp add: keeps_refl assms)
qed

lemma task_serve_keeps:
  "boards_ok (snd s) \<Longrightarrow> holds_after (keeping sp (snd s)) (task_serve env t sp req s)"
  by (cases req) (simp_all add: reading_keeps create_board_keeps board_changes_keep path_changes_keep create_checklist_keeps
    add_dependency_keeps delete_column_keeps delete_task_keeps create_task_keeps update_task_keeps reorder_keeps)

end
