(* ===== verification/Task_Props.thy ===== *)
theory Task_Props
  imports Task_Isolation Room_Props "HOL-Library.Multiset"
begin

text \<open>
  What holds of every request to the task boards: it stays in the space it names, and changes boards only
  for those who may edit there. The order given to the columns is the one they are listed in.
\<close>

section \<open>Who changes boards\<close>

text \<open>The creator of a board or of a task may delete it whatever his permission is now.\<close>

definition deletes_own :: "task_request \<Rightarrow> boards \<Rightarrow> string \<Rightarrow> bool" where
  "deletes_own req b u \<longleftrightarrow>
     (case req of
        Delete_board i \<Rightarrow> (\<exists>r. find_task_board b i = Some r \<and> tb_created_by r = u)
      | Delete_task i k \<Rightarrow> (\<exists>x. find_task b k = Some x \<and> tk_created_by x = u)
      | _ \<Rightarrow> False)"

definition may_change :: "web_env \<Rightarrow> string \<Rightarrow> string \<Rightarrow> task_request \<Rightarrow> task_state \<Rightarrow> bool" where
  "may_change env t sp req s \<longleftrightarrow>
     (\<exists>u. validate_session (fst s) (we_now env) t = Some u \<and> check_tool_access task_grants (fst s) sp u
        \<and> (1 \<le> tool_perm_rank (tool_access_level task_grants (fst s) sp u) \<or> deletes_own req (snd s) u))"

abbreviation changing :: "web_env \<Rightarrow> string \<Rightarrow> string \<Rightarrow> task_request \<Rightarrow> task_state \<Rightarrow> task_state \<Rightarrow> effect list \<Rightarrow> bool" where
  "changing env t sp req s \<equiv> \<lambda>s' es. snd s' = snd s \<or> may_change env t sp req s"

lemma editing_changes: "holds_after (changing env t sp req s) (editing env t sp rest s)"
  by (intro outcome_rules) (auto simp: may_edit_def may_change_def holds_after_def)

lemmas editing_requests = tasks_create_board_def tasks_update_board_def tasks_create_column_def tasks_update_column_def
  tasks_reorder_columns_def tasks_delete_column_def tasks_create_task_def tasks_update_task_def tasks_reorder_def
  tasks_create_checklist_def tasks_delete_checklist_def tasks_create_item_def tasks_update_item_def
  tasks_delete_item_def tasks_create_label_def tasks_update_label_def tasks_delete_label_def
  tasks_add_dependency_def tasks_remove_dependency_def

lemmas reading_requests = tasks_list_boards_def tasks_get_board_def tasks_get_task_def tasks_grants_def list_tool_grants_def
  tasks_grant_def tool_grant_def tasks_ungrant_def tool_ungrant_def in_tasks_def

lemma reading_changes:
  "holds_after (changing env t sp req s) (tasks_list_boards env t sp s)"
  "holds_after (changing env t sp req s) (tasks_get_board env t sp i s)"
  "holds_after (changing env t sp req s) (tasks_get_task env t sp i k s)"
  "holds_after (changing env t sp req s) (tasks_grants env t sp s)"
  "holds_after (changing env t sp req s) (tasks_grant env t sp j s)"
  "holds_after (changing env t sp req s) (tasks_ungrant env t sp u s)"
  unfolding reading_requests by (intro outcome_rules; simp)+

lemma deleting_changes:
  "holds_after (changing env t sp (Delete_board i) s) (tasks_delete_board env t sp i s)"
  "holds_after (changing env t sp (Delete_task i k) s) (tasks_delete_task env t sp i k s)"
  unfolding tasks_delete_board_def tasks_delete_task_def in_tasks_def with_task_level_def
  by (intro outcome_rules; auto simp: may_change_def deletes_own_def tool_perm_rank_def)+

lemma task_serve_changes: "holds_after (changing env t sp req s) (task_serve env t sp req s)"
  by (cases req) (simp_all add: reading_changes deleting_changes, simp_all add: editing_requests editing_changes)

text \<open>C37: A request to the task boards of a space changes boards only for a session whose user has access
  to the space, and there the permission to edit, or deletes what he created himself.\<close>

theorem task_changes_need_edit:
  assumes "task_serve env t sp req (d, b) = Some (r, (d', b'), es)" and "b' \<noteq> b"
  shows "\<exists>u. validate_session d (we_now env) t = Some u \<and> check_tool_access task_grants d sp u
    \<and> (1 \<le> tool_perm_rank (tool_access_level task_grants d sp u) \<or> deletes_own req b u)"
  using task_serve_changes [of "(d, b)" env t sp req] assms by (simp add: may_change_def)


section \<open>The order of the columns\<close>

text \<open>What the numbering loop leaves: the columns of the board that are listed have their places.\<close>

lemma place_columns_rows:
  "distinct cs \<Longrightarrow> task_columns (place_columns k n cs b) =
     map (\<lambda>r. if co_board_id r = k \<and> co_id r \<in> set cs
         then r\<lparr>co_position := n + int (length (takeWhile (\<lambda>c. c \<noteq> co_id r) cs))\<rparr> else r) (task_columns b)"
proof (induction cs arbitrary: n b)
  case (Cons c cs)
  then show ?case by (auto simp: update_column_rows_def)
qed simp

definition place_in :: "string list \<Rightarrow> string \<Rightarrow> int" where
  "place_in cs i = int (length (takeWhile (\<lambda>c. c \<noteq> i) cs))"

lemma takeWhile_nth: "distinct xs \<Longrightarrow> i < length xs \<Longrightarrow> length (takeWhile (\<lambda>x. x \<noteq> xs ! i) xs) = i"
  by (induction xs arbitrary: i) (auto simp: nth_Cons split: nat.splits)

lemma places_ascend: "distinct cs \<Longrightarrow> map (place_in cs) cs = map int [0..<length cs]"
  by (rule nth_equalityI) (simp_all add: place_in_def takeWhile_nth)

lemma map_sort_key:
  assumes "\<And>x. x \<in> set xs \<Longrightarrow> f x = g (h x)"
  shows "map h (sort_key f xs) = sort_key g (map h xs)"
proof -
  have ins: "map h (insort_key f x ys) = insort_key g (h x) (map h ys)"
    if "f x = g (h x)" and "\<forall>y \<in> set ys. f y = g (h y)" for x ys
    using that(2) by (induction ys) (simp_all add: that(1))
  show ?thesis
    using assms
  proof (induction xs)
    case (Cons x xs)
    then show ?case using ins [of x "sort_key f xs"] by simp
  qed simp
qed

lemma reordered_columns_listed:
  assumes "distinct (map co_id (task_columns b))" and "distinct cs" and "set cs = co_id ` {c \<in> set (task_columns b). co_board_id c = k}"
  shows "map co_id (list_task_columns (reorder_task_columns b k cs) k) = cs"
proof -
  let ?b = "reorder_task_columns b k cs" and ?R = "filter (\<lambda>c. co_board_id c = k) (task_columns b)"
  have rows: "filter (\<lambda>c. co_board_id c = k) (task_columns ?b) = map (\<lambda>c. c\<lparr>co_position := place_in cs (co_id c)\<rparr>) ?R"
    unfolding reorder_task_columns_def place_columns_rows [OF assms(2)] using assms(3)
    by (auto simp: filter_map comp_def place_in_def intro!: map_cong filter_cong)
  have "map co_id (list_task_columns ?b k) = sort_key (place_in cs) (map co_id ?R)"
    unfolding list_task_columns_def rows by (subst map_sort_key [where g = "place_in cs"]) (auto simp: comp_def)
  also have "\<dots> = cs"
  proof (rule sort_key_inj_key_eq)
    have "distinct (map co_id ?R)" and "set (map co_id ?R) = set cs"
      using assms(1,3) by (auto simp: distinct_map_filter)
    then show "mset (map co_id ?R) = mset cs" using assms(2) by (simp add: set_eq_iff_mset_eq_distinct del: set_map)
    have "inj_on (place_in cs) (set cs)"
      using places_ascend [OF assms(2)] by (metis distinct_map distinct_map distinct_upt inj_on_of_nat)
    then show "inj_on (place_in cs) (set (map co_id ?R))" using assms(3) by auto
    show "sorted (map (place_in cs) cs)" unfolding places_ascend [OF assms(2)] by (simp add: sorted_iff_nth_mono)
  qed
  finally show ?thesis .
qed

text \<open>Reordering the columns of a board with a list of all of them, once each, makes the board list
  them in that order afterwards.\<close>

theorem columns_listed_as_ordered:
  assumes "task_serve env t sp (Reorder_columns i (Some j)) (d, b) = Some (done_reply, (d', b'), es)" and "boards_ok b"
    and "column_ids_of j = Inr cs" and "distinct cs" and "set cs = co_id ` {c \<in> set (task_columns b). co_board_id c = i}"
  shows "map co_id (list_task_columns b' i) = cs"
proof -
  have b': "b' = reorder_task_columns b i cs"
    using assms(1,3) by (auto simp: tasks_reorder_columns_def editing_def in_tasks_def in_tool_def with_task_level_def
      with_tool_level_def with_board_def with_body_def or_fail_def refuse_def failed_def done_with_def done_reply_def ok_reply_def err_reply_def
      split: option.splits if_splits sum.splits)
  have "distinct (map co_id (task_columns b))" using assms(2) by (simp add: boards_ok_def place_defs comp_def)
  then show ?thesis unfolding b' using assms(4,5) by (rule reordered_columns_listed)
qed

section \<open>Witnesses\<close>

definition example_boards :: boards where
  "example_boards =
     \<lparr>task_boards = [\<lparr>tb_id = ''b1'', tb_space_id = ''s1'', tb_name = ''Plan'', tb_description = '''', tb_created_by = ''u2'',
         tb_created_at = 0, tb_updated_at = 0\<rparr>,
       \<lparr>tb_id = ''b2'', tb_space_id = ''s2'', tb_name = ''Other'', tb_description = '''', tb_created_by = ''u1'',
         tb_created_at = 0, tb_updated_at = 0\<rparr>],
      task_columns = [\<lparr>co_id = ''k1'', co_board_id = ''b1'', co_name = ''To Do'', co_position = 0, co_wip_limit = 0,
         co_color = '''', co_created_at = 0\<rparr>,
       \<lparr>co_id = ''k2'', co_board_id = ''b1'', co_name = ''Done'', co_position = 1, co_wip_limit = 0,
         co_color = '''', co_created_at = 0\<rparr>,
       \<lparr>co_id = ''k3'', co_board_id = ''b2'', co_name = ''Open'', co_position = 0, co_wip_limit = 0,
         co_color = '''', co_created_at = 0\<rparr>],
      tasks = [], task_assignees = [], task_labels = [], task_label_assignments = [], task_checklists = [],
      task_checklist_items = [], task_dependencies = [], task_activities = []\<rparr>"

definition deleted_example :: "reply \<times> task_state \<times> effect list" where
  "deleted_example = the (task_serve example_web ''t2'' ''s1'' (Delete_board ''b1'') (example_db, example_boards))"

lemma deleted_example:
  "task_serve example_web ''t2'' ''s1'' (Delete_board ''b1'') (example_db, example_boards) =
     Some (fst deleted_example, (fst (fst (snd deleted_example)), snd (fst (snd deleted_example))), snd (snd deleted_example))"
proof -
  have "task_serve example_web ''t2'' ''s1'' (Delete_board ''b1'') (example_db, example_boards) \<noteq> None" by code_simp
  then show ?thesis by (auto simp: deleted_example_def)
qed

lemma task_changes_need_edit_witness: "\<exists>u. deletes_own (Delete_board ''b1'') example_boards u
    \<or> 1 \<le> tool_perm_rank (tool_access_level task_grants example_db ''s1'' u)"
proof -
  have "length (task_boards (snd (fst (snd deleted_example)))) = 1" "length (task_boards example_boards) = 2" by code_simp+
  then have "snd (fst (snd deleted_example)) \<noteq> example_boards" by auto
  from task_changes_need_edit [OF deleted_example this] show ?thesis by blast
qed


definition two_columns :: json where
  "two_columns = JObject [(''column_ids'', JArray [JString ''k2'', JString ''k1''])]"

definition reordered_example :: "reply \<times> task_state \<times> effect list" where
  "reordered_example = the (task_serve example_web ''t1'' ''s1'' (Reorder_columns ''b1'' (Some two_columns)) (example_db, example_boards))"

lemma reordered_example:
  "task_serve example_web ''t1'' ''s1'' (Reorder_columns ''b1'' (Some two_columns)) (example_db, example_boards) =
     Some (done_reply, (fst (fst (snd reordered_example)), snd (fst (snd reordered_example))), snd (snd reordered_example))"
proof -
  have "map_option fst (task_serve example_web ''t1'' ''s1'' (Reorder_columns ''b1'' (Some two_columns)) (example_db, example_boards))
      = Some done_reply" by code_simp
  then show ?thesis by (auto simp: reordered_example_def)
qed

lemma columns_listed_as_ordered_witness:
  "map co_id (list_task_columns (snd (fst (snd reordered_example))) ''b1'') = [''k2'', ''k1'']"
proof (rule columns_listed_as_ordered [OF reordered_example])
  show "boards_ok example_boards" by code_simp
  show "column_ids_of two_columns = Inr [''k2'', ''k1'']" by code_simp
  show "set [''k2'', ''k1''] = co_id ` {c \<in> set (task_columns example_boards). co_board_id c = ''b1''}"
    by code_simp
qed simp

end
