(* ===== verification/Calendar_Db.thy ===== *)
theory Calendar_Db
  imports Listings
begin

text \<open>
  The calendar: its tables, a record beside the others, and the methods of \<open>db/database.cpp\<close> on them. The
  database reads the times it is given with its own parser, which fails on text it does not understand.
\<close>

section \<open>Tables\<close>

record calendar_event =
  ce_id :: string
  ce_space_id :: string
  ce_title :: string
  ce_description :: string
  ce_location :: string
  ce_color :: string
  ce_start_time :: time
  ce_end_time :: time
  ce_all_day :: bool
  ce_rrule :: string
  ce_created_by :: string
  ce_created_at :: time
  ce_updated_at :: time

text \<open>An empty text of an exception is stored as NULL and read as empty again: it overrides nothing.\<close>

record event_exception =
  ex_id :: string
  ex_event_id :: string
  ex_original_date :: time
  ex_is_deleted :: bool
  ex_title :: string
  ex_description :: string
  ex_location :: string
  ex_color :: string
  ex_start_time :: "time option"
  ex_end_time :: "time option"
  ex_all_day :: bool
  ex_created_at :: time

record event_rsvp =
  rv_event_id :: string
  rv_user_id :: string
  rv_occurrence_date :: time
  rv_status :: string
  rv_responded_at :: time

record calendar =
  calendar_events :: "calendar_event list"
  event_exceptions :: "event_exception list"
  event_rsvps :: "event_rsvp list"

section \<open>Times\<close>

definition bad_time :: db_error where
  "bad_time = Runtime ''invalid input syntax for type timestamp with time zone''"

definition time_param :: "(string \<Rightarrow> time option) \<Rightarrow> string \<Rightarrow> db_error + time" where
  "time_param parse s = (case parse s of None \<Rightarrow> Inl bad_time | Some t \<Rightarrow> Inr t)"

text \<open>\<open>NULLIF($, '')::timestamptz\<close>\<close>

definition null_time_param :: "(string \<Rightarrow> time option) \<Rightarrow> string \<Rightarrow> db_error + time option" where
  "null_time_param parse s = (if s = [] then Inr None else map_sum id Some (time_param parse s))"

section \<open>Events\<close>

definition event_widths_ok :: "calendar_event \<Rightarrow> bool" where
  "event_widths_ok e \<longleftrightarrow> varchar_ok 255 (ce_title e) \<and> varchar_ok 20 (ce_color e)"

definition create_calendar_event ::
  "(string \<Rightarrow> time option) \<Rightarrow> db \<Rightarrow> calendar \<Rightarrow> string \<Rightarrow> time \<Rightarrow> string \<Rightarrow> string \<Rightarrow> string \<Rightarrow> string \<Rightarrow> string
     \<Rightarrow> string \<Rightarrow> string \<Rightarrow> bool \<Rightarrow> string \<Rightarrow> string \<Rightarrow> db_error + calendar_event \<times> calendar" where
  "create_calendar_event parse d c new_id now space_id title description location color start_time end_time all_day
       rrule created_by =
     (case time_param parse start_time of Inl e \<Rightarrow> Inl e | Inr st \<Rightarrow>
      case time_param parse end_time of Inl e \<Rightarrow> Inl e | Inr en \<Rightarrow>
      let e = \<lparr>ce_id = new_id, ce_space_id = space_id, ce_title = title, ce_description = description,
               ce_location = location, ce_color = color, ce_start_time = st, ce_end_time = en, ce_all_day = all_day,
               ce_rrule = rrule, ce_created_by = created_by, ce_created_at = now, ce_updated_at = now\<rparr>
      in if \<not> event_widths_ok e then Inl too_long
         else if has_key ce_id new_id (calendar_events c) then Inl UniqueViolation
         else if has_key sp_id space_id (spaces d) \<and> has_key u_id created_by (users d)
         then Inr (e, c\<lparr>calendar_events := calendar_events c @ [e]\<rparr>)
         else Inl ForeignKeyViolation)"

definition find_calendar_event :: "calendar \<Rightarrow> string \<Rightarrow> calendar_event option" where
  "find_calendar_event c event_id = first_row (filter (\<lambda>e. ce_id e = event_id) (calendar_events c))"

definition update_calendar_event ::
  "(string \<Rightarrow> time option) \<Rightarrow> calendar \<Rightarrow> time \<Rightarrow> string \<Rightarrow> string \<Rightarrow> string \<Rightarrow> string \<Rightarrow> string \<Rightarrow> string \<Rightarrow> string \<Rightarrow> bool
     \<Rightarrow> string \<Rightarrow> db_error + calendar_event \<times> calendar" where
  "update_calendar_event parse c now event_id title description location color start_time end_time all_day rrule =
     (case time_param parse start_time of Inl e \<Rightarrow> Inl e | Inr st \<Rightarrow>
      case time_param parse end_time of Inl e \<Rightarrow> Inl e | Inr en \<Rightarrow>
      let f = (\<lambda>e. e\<lparr>ce_title := title, ce_description := description, ce_location := location, ce_color := color,
                     ce_start_time := st, ce_end_time := en, ce_all_day := all_day, ce_rrule := rrule,
                     ce_updated_at := now\<rparr>)
      in case find_calendar_event c event_id of
           None \<Rightarrow> Inl (Runtime ''row number out of range'')
         | Some e \<Rightarrow>
             if \<not> event_widths_ok (f e) then Inl too_long
             else Inr (f e, c\<lparr>calendar_events := map (\<lambda>e. if ce_id e = event_id then f e else e) (calendar_events c)\<rparr>))"

definition delete_calendar_event :: "calendar \<Rightarrow> string \<Rightarrow> calendar" where
  "delete_calendar_event c event_id =
     c\<lparr>calendar_events := filter (\<lambda>e. ce_id e \<noteq> event_id) (calendar_events c),
       event_exceptions := filter (\<lambda>x. ex_event_id x \<noteq> event_id) (event_exceptions c),
       event_rsvps := filter (\<lambda>r. rv_event_id r \<noteq> event_id) (event_rsvps c)\<rparr>"

text \<open>Of a recurring event only the first start is compared with the range; it is expanded by the handler.\<close>

definition list_calendar_events ::
  "(string \<Rightarrow> time option) \<Rightarrow> calendar \<Rightarrow> string \<Rightarrow> string \<Rightarrow> string \<Rightarrow> db_error + calendar_event list" where
  "list_calendar_events parse c space_id range_start range_end =
     (case time_param parse range_start of Inl e \<Rightarrow> Inl e | Inr rs \<Rightarrow>
      case time_param parse range_end of Inl e \<Rightarrow> Inl e | Inr re \<Rightarrow>
      Inr (sort_key ce_start_time (filter (\<lambda>e. ce_space_id e = space_id
        \<and> (ce_rrule e = [] \<and> rs \<le> ce_end_time e \<and> ce_start_time e < re
           \<or> ce_rrule e \<noteq> [] \<and> ce_start_time e < re)) (calendar_events c))))"

section \<open>Exceptions\<close>

text \<open>A second exception for the same date overwrites the first, whose id and time of creation stay.\<close>

definition create_event_exception ::
  "(string \<Rightarrow> time option) \<Rightarrow> calendar \<Rightarrow> string \<Rightarrow> time \<Rightarrow> string \<Rightarrow> string \<Rightarrow> bool \<Rightarrow> string \<Rightarrow> string \<Rightarrow> string \<Rightarrow> string
     \<Rightarrow> string \<Rightarrow> string \<Rightarrow> bool \<Rightarrow> db_error + event_exception \<times> calendar" where
  "create_event_exception parse c new_id now event_id original_date is_deleted title description location color
       start_time end_time all_day =
     (case time_param parse original_date of Inl e \<Rightarrow> Inl e | Inr od \<Rightarrow>
      case null_time_param parse start_time of Inl e \<Rightarrow> Inl e | Inr st \<Rightarrow>
      case null_time_param parse end_time of Inl e \<Rightarrow> Inl e | Inr en \<Rightarrow>
      let same = (\<lambda>x. ex_event_id x = event_id \<and> ex_original_date x = od);
          f = (\<lambda>x. x\<lparr>ex_is_deleted := is_deleted, ex_title := title, ex_description := description,
                     ex_location := location, ex_color := color, ex_start_time := st, ex_end_time := en,
                     ex_all_day := all_day\<rparr>);
          row = \<lparr>ex_id = new_id, ex_event_id = event_id, ex_original_date = od, ex_is_deleted = is_deleted,
                 ex_title = title, ex_description = description, ex_location = location, ex_color = color,
                 ex_start_time = st, ex_end_time = en, ex_all_day = all_day, ex_created_at = now\<rparr>
      in if \<not> varchar_ok 255 title \<or> \<not> varchar_ok 20 color then Inl too_long
         else if \<not> has_key ce_id event_id (calendar_events c) then Inl ForeignKeyViolation
         else case first_row (filter same (event_exceptions c)) of
                Some x \<Rightarrow> Inr (f x, c\<lparr>event_exceptions := map (\<lambda>x. if same x then f x else x) (event_exceptions c)\<rparr>)
              | None \<Rightarrow>
                  if has_key ex_id new_id (event_exceptions c) then Inl UniqueViolation
                  else Inr (row, c\<lparr>event_exceptions := event_exceptions c @ [row]\<rparr>))"

definition delete_event_exception :: "calendar \<Rightarrow> string \<Rightarrow> calendar" where
  "delete_event_exception c exception_id =
     c\<lparr>event_exceptions := filter (\<lambda>x. ex_id x \<noteq> exception_id) (event_exceptions c)\<rparr>"

definition get_event_exceptions :: "calendar \<Rightarrow> string \<Rightarrow> event_exception list" where
  "get_event_exceptions c event_id =
     sort_key ex_original_date (filter (\<lambda>x. ex_event_id x = event_id) (event_exceptions c))"

section \<open>Answers to invitations\<close>

definition set_event_rsvp ::
  "(string \<Rightarrow> time option) \<Rightarrow> db \<Rightarrow> calendar \<Rightarrow> time \<Rightarrow> string \<Rightarrow> string \<Rightarrow> string \<Rightarrow> string \<Rightarrow> db_error + calendar" where
  "set_event_rsvp parse d c now event_id user_id occurrence_date status =
     (case time_param parse occurrence_date of Inl e \<Rightarrow> Inl e | Inr od \<Rightarrow>
      let same = (\<lambda>r. rv_event_id r = event_id \<and> rv_user_id r = user_id \<and> rv_occurrence_date r = od);
          row = \<lparr>rv_event_id = event_id, rv_user_id = user_id, rv_occurrence_date = od, rv_status = status,
                 rv_responded_at = now\<rparr>
      in if \<not> varchar_ok 10 status then Inl too_long
         else if \<not> (has_key ce_id event_id (calendar_events c) \<and> has_key u_id user_id (users d)) then Inl ForeignKeyViolation
         else if list_ex same (event_rsvps c)
         then Inr (c\<lparr>event_rsvps := map (\<lambda>r. if same r then r\<lparr>rv_status := status, rv_responded_at := now\<rparr> else r) (event_rsvps c)\<rparr>)
         else Inr (c\<lparr>event_rsvps := event_rsvps c @ [row]\<rparr>))"

definition get_event_rsvps ::
  "(string \<Rightarrow> time option) \<Rightarrow> db \<Rightarrow> calendar \<Rightarrow> string \<Rightarrow> string \<Rightarrow> db_error + (event_rsvp \<times> user) list" where
  "get_event_rsvps parse d c event_id occurrence_date =
     (case time_param parse occurrence_date of Inl e \<Rightarrow> Inl e | Inr od \<Rightarrow>
      Inr (concat (map (\<lambda>r. map (Pair r) (filter (\<lambda>u. u_id u = rv_user_id r) (users d)))
        (sort_key rv_responded_at (filter (\<lambda>r. rv_event_id r = event_id \<and> rv_occurrence_date r = od) (event_rsvps c))))))"

definition get_user_rsvp ::
  "(string \<Rightarrow> time option) \<Rightarrow> calendar \<Rightarrow> string \<Rightarrow> string \<Rightarrow> string \<Rightarrow> db_error + string option" where
  "get_user_rsvp parse c event_id user_id occurrence_date =
     (case time_param parse occurrence_date of Inl e \<Rightarrow> Inl e | Inr od \<Rightarrow>
      Inr (map_option rv_status (first_row (filter (\<lambda>r. rv_event_id r = event_id \<and> rv_user_id r = user_id
        \<and> rv_occurrence_date r = od) (event_rsvps c)))))"

end
