(* ===== verification/Calendar_Handler.thy ===== *)
theory Calendar_Handler
  imports Calendar_Db Tool_Access Recurrence "HOL-Library.Char_ord" "HOL-Library.List_Lexorder"
begin

text \<open>
  The endpoints of \<open>handlers/calendar_handler.cpp\<close>. Times go out as the text the database gives them; what
  the expansion of a recurring event works on is that text too. Two endpoints query the database with text
  of the request outside their \<open>try\<close>: where it is no time, the exception escapes and nothing is answered.
\<close>

type_synonym calendar_state = "db \<times> calendar"

abbreviation calendar_grants :: "db \<Rightarrow> tool_permission list" where
  "calendar_grants \<equiv> calendar_permissions"

section \<open>JSON\<close>

text \<open>The times as text, read from the database or from the request.\<close>

definition event_to_json :: "db \<Rightarrow> (time \<Rightarrow> string) \<Rightarrow> calendar_event \<Rightarrow> string \<Rightarrow> string \<Rightarrow> (string \<times> json) list" where
  "event_to_json d text e start_time end_time =
     [(''id'', JString (ce_id e)), (''space_id'', JString (ce_space_id e)), (''title'', JString (ce_title e)),
      (''description'', JString (ce_description e)), (''location'', JString (ce_location e)),
      (''color'', JString (ce_color e)), (''start_time'', JString start_time), (''end_time'', JString end_time),
      (''all_day'', JBool (ce_all_day e)), (''rrule'', JString (ce_rrule e)),
      (''created_by'', JString (ce_created_by e)),
      (''created_by_username'', JString (username_of_id d (ce_created_by e))),
      (''created_at'', JString (text (ce_created_at e))), (''updated_at'', JString (text (ce_updated_at e)))]"

definition event_row_json :: "web_env \<Rightarrow> db \<Rightarrow> calendar_event \<Rightarrow> (string \<times> json) list" where
  "event_row_json env d e =
     event_to_json d (we_time_text env) e (we_time_text env (ce_start_time e)) (we_time_text env (ce_end_time e))"

definition rsvp_to_json :: "web_env \<Rightarrow> event_rsvp \<times> user \<Rightarrow> json" where
  "rsvp_to_json env = (\<lambda>(r, u).
     JObject [(''user_id'', JString (rv_user_id r)), (''username'', JString (u_username u)),
       (''display_name'', JString (u_display_name u)), (''status'', JString (rv_status r)),
       (''responded_at'', JString (we_time_text env (rv_responded_at r)))])"

section \<open>Access\<close>

definition in_calendar ::
  "web_env \<Rightarrow> string \<Rightarrow> string \<Rightarrow> (string \<Rightarrow> calendar_state \<Rightarrow> calendar_state outcome) \<Rightarrow> calendar_state
     \<Rightarrow> calendar_state outcome" where
  "in_calendar = in_tool calendar_grants"

definition scheduling ::
  "web_env \<Rightarrow> string \<Rightarrow> string \<Rightarrow> (string \<Rightarrow> calendar_state \<Rightarrow> calendar_state outcome) \<Rightarrow> calendar_state
     \<Rightarrow> calendar_state outcome" where
  "scheduling env token space_id rest =
     in_calendar env token space_id (\<lambda>user_id. with_tool_level calendar_grants space_id user_id ''edit'' (rest user_id))"

definition with_event ::
  "string \<Rightarrow> string \<Rightarrow> (calendar_event \<Rightarrow> calendar_state \<Rightarrow> calendar_state outcome) \<Rightarrow> calendar_state
     \<Rightarrow> calendar_state outcome" where
  "with_event space_id event_id rest s =
     (case find_calendar_event (snd s) event_id of
        None \<Rightarrow> refuse ''404'' ''Event not found'' s
      | Some e \<Rightarrow> if ce_space_id e \<noteq> space_id then refuse ''404'' ''Event not found'' s else rest e s)"

text \<open>An exception no \<open>try\<close> of the handler catches.\<close>

definition or_escape :: "db_error + 'a \<Rightarrow> ('a \<Rightarrow> 's \<Rightarrow> 's outcome) \<Rightarrow> 's \<Rightarrow> 's outcome" where
  "or_escape v rest s = (case v of Inl e \<Rightarrow> None | Inr x \<Rightarrow> rest x s)"

section \<open>The events of a range\<close>

definition no_date :: string where
  "no_date = ''1970-01-01 00:00:00+00''"

definition my_rsvp :: "web_env \<Rightarrow> calendar \<Rightarrow> string \<Rightarrow> string \<Rightarrow> string \<Rightarrow> string option" where
  "my_rsvp env c event_id user_id date =
     (case get_user_rsvp (we_parse_time env) c event_id user_id date of
        Inl e \<Rightarrow> None | Inr None \<Rightarrow> Some '''' | Inr (Some status) \<Rightarrow> Some status)"

text \<open>An item of the answer, with the text it is sorted by.\<close>

definition listed ::
  "web_env \<Rightarrow> db \<Rightarrow> calendar \<Rightarrow> string \<Rightarrow> calendar_event \<Rightarrow> string \<Rightarrow> string \<Rightarrow> string \<Rightarrow> json \<Rightarrow> bool \<Rightarrow> (string \<times> json) option" where
  "listed env d c user_id e start_time end_time rsvp_date occurrence_date is_exception =
     map_option (\<lambda>r. (start_time, JObject (event_to_json d (we_time_text env) e start_time end_time
         @ [(''my_rsvp'', JString r), (''occurrence_date'', occurrence_date), (''is_exception'', JBool is_exception)])))
       (my_rsvp env c (ce_id e) user_id rsvp_date)"

definition event_duration_seconds :: "string \<Rightarrow> string \<Rightarrow> int" where
  "event_duration_seconds start_str end_str = timegm (parse_iso8601 end_str) - timegm (parse_iso8601 start_str)"

text \<open>Exceptions and occurrences are matched to the minute.\<close>

definition same_minute :: "tm \<Rightarrow> tm \<Rightarrow> bool" where
  "same_minute a b \<longleftrightarrow> tm_year a = tm_year b \<and> tm_mon a = tm_mon b \<and> tm_mday a = tm_mday b
     \<and> tm_hour a = tm_hour b \<and> tm_min a = tm_min b"

definition exception_at :: "web_env \<Rightarrow> event_exception list \<Rightarrow> string \<Rightarrow> event_exception option" where
  "exception_at env exceptions occ_start =
     first_row (filter (\<lambda>x. same_minute (parse_iso8601 (we_time_text env (ex_original_date x))) (parse_iso8601 occ_start))
       exceptions)"

definition over :: "string \<Rightarrow> string \<Rightarrow> string" where
  "over new old = (if new \<noteq> [] then new else old)"

definition overridden :: "event_exception \<Rightarrow> calendar_event \<Rightarrow> calendar_event" where
  "overridden x e = e\<lparr>ce_title := over (ex_title x) (ce_title e), ce_description := over (ex_description x) (ce_description e),
     ce_location := over (ex_location x) (ce_location e), ce_color := over (ex_color x) (ce_color e),
     ce_all_day := ex_all_day x\<rparr>"

definition occurrence_end :: "string \<Rightarrow> int \<Rightarrow> string" where
  "occurrence_end occ_start duration = format_iso8601 (gmtime (timegm (parse_iso8601 occ_start) + duration))"

definition occurrence ::
  "web_env \<Rightarrow> db \<Rightarrow> calendar \<Rightarrow> string \<Rightarrow> calendar_event \<Rightarrow> string \<Rightarrow> (string \<times> json) list option" where
  "occurrence env d c user_id e occ_start =
     (let start_time = we_time_text env (ce_start_time e); end_time = we_time_text env (ce_end_time e)
      in case exception_at env (get_event_exceptions c (ce_id e)) occ_start of
           None \<Rightarrow> map_option (\<lambda>x. [x]) (listed env d c user_id e occ_start
             (occurrence_end occ_start (event_duration_seconds start_time end_time)) occ_start (JString occ_start) False)
         | Some x \<Rightarrow>
             if ex_is_deleted x then Some []
             else map_option (\<lambda>x. [x]) (listed env d c user_id (overridden x e)
               (over (opt_time_text env (ex_start_time x)) start_time) (over (opt_time_text env (ex_end_time x)) end_time)
               occ_start (JString occ_start) True))"

fun concat_all :: "'a list option list \<Rightarrow> 'a list option" where
  "concat_all [] = Some []"
| "concat_all (x # xs) = (case x of None \<Rightarrow> None | Some a \<Rightarrow> map_option ((@) a) (concat_all xs))"

definition event_items ::
  "web_env \<Rightarrow> db \<Rightarrow> calendar \<Rightarrow> string \<Rightarrow> string \<Rightarrow> string \<Rightarrow> calendar_event \<Rightarrow> (string \<times> json) list option" where
  "event_items env d c user_id range_start range_end e =
     (let start_time = we_time_text env (ce_start_time e)
      in if ce_rrule e = []
         then map_option (\<lambda>x. [x])
           (listed env d c user_id e start_time (we_time_text env (ce_end_time e)) no_date JNull False)
         else case expand_rrule (parse_rrule (ce_rrule e)) start_time range_start range_end of
                None \<Rightarrow> None
              | Some occurrences \<Rightarrow> concat_all (map (occurrence env d c user_id e) occurrences))"

text \<open>
  The answer is sorted by the text of the start times. \<open>std::sort\<close> leaves the order of equal texts open; here
  they stay as they were.
\<close>

definition calendar_items ::
  "web_env \<Rightarrow> db \<Rightarrow> calendar \<Rightarrow> string \<Rightarrow> string \<Rightarrow> string \<Rightarrow> calendar_event list \<Rightarrow> (string \<times> json) list option" where
  "calendar_items env d c user_id range_start range_end events =
     map_option (sort_key fst) (concat_all (map (event_items env d c user_id range_start range_end) events))"

definition cal_list ::
  "web_env \<Rightarrow> string \<Rightarrow> string \<Rightarrow> string \<Rightarrow> string \<Rightarrow> calendar_state \<Rightarrow> calendar_state outcome" where
  "cal_list env token space_id range_start range_end =
     in_calendar env token space_id (\<lambda>user_id s.
       if range_start = [] \<or> range_end = [] then refuse ''400'' ''start and end query parameters required'' s
       else or_escape (list_calendar_events (we_parse_time env) (snd s) space_id range_start range_end) (\<lambda>events s.
         case calendar_items env (fst s) (snd s) user_id range_start range_end events of
           None \<Rightarrow> None
         | Some items \<Rightarrow> answer (JObject [(''events'', JArray (map snd items)),
             (''my_permission'', JString (tool_access_level calendar_grants (fst s) space_id user_id))]) s []) s)"

section \<open>Single events\<close>

definition cal_get :: "web_env \<Rightarrow> string \<Rightarrow> string \<Rightarrow> string \<Rightarrow> calendar_state \<Rightarrow> calendar_state outcome" where
  "cal_get env token space_id event_id =
     in_calendar env token space_id (\<lambda>user_id. with_event space_id event_id (\<lambda>event s.
       case my_rsvp env (snd s) event_id user_id no_date of
         None \<Rightarrow> None
       | Some r \<Rightarrow> answer (JObject (event_row_json env (fst s) event @
           [(''my_rsvp'', JString r),
            (''my_permission'', JString (tool_access_level calendar_grants (fst s) space_id user_id))])) s []))"

definition title_refused :: "string \<Rightarrow> bool" where
  "title_refused title \<longleftrightarrow> title = [] \<or> length title > 255"

definition cal_create :: "web_env \<Rightarrow> string \<Rightarrow> string \<Rightarrow> json option \<Rightarrow> calendar_state \<Rightarrow> calendar_state outcome" where
  "cal_create env token space_id body =
     scheduling env token space_id (\<lambda>user_id. with_body env body (\<lambda>j.
       or_fail env (at_str j ''title'') (\<lambda>title. or_fail env (value_str j ''description'' '''') (\<lambda>description.
       or_fail env (value_str j ''location'' '''') (\<lambda>location. or_fail env (value_str j ''color'' ''blue'') (\<lambda>color.
       or_fail env (at_str j ''start_time'') (\<lambda>start_time. or_fail env (at_str j ''end_time'') (\<lambda>end_time.
       or_fail env (value_bool j ''all_day'' False) (\<lambda>all_day. or_fail env (value_str j ''rrule'' '''') (\<lambda>rrule s.
       if title_refused title then refuse ''400'' ''Title is required (max 255 characters)'' s
       else on_tables env (\<lambda>d c. create_calendar_event (we_parse_time env) d c (we_id env 0) (we_now env) space_id title
           description location color start_time end_time all_day rrule user_id) (\<lambda>event s.
         answer (JObject (event_to_json (fst s) (we_time_text env) event start_time end_time @ [(''my_rsvp'', JString '''')])) s []) s))))))))))"

definition cal_update ::
  "web_env \<Rightarrow> string \<Rightarrow> string \<Rightarrow> string \<Rightarrow> json option \<Rightarrow> calendar_state \<Rightarrow> calendar_state outcome" where
  "cal_update env token space_id event_id body =
     scheduling env token space_id (\<lambda>user_id. with_event space_id event_id (\<lambda>existing. with_body env body (\<lambda>j.
       or_fail env (value_str j ''title'' (ce_title existing)) (\<lambda>title.
       or_fail env (value_str j ''description'' (ce_description existing)) (\<lambda>description.
       or_fail env (value_str j ''location'' (ce_location existing)) (\<lambda>location.
       or_fail env (value_str j ''color'' (ce_color existing)) (\<lambda>color.
       or_fail env (value_str j ''start_time'' (we_time_text env (ce_start_time existing))) (\<lambda>start_time.
       or_fail env (value_str j ''end_time'' (we_time_text env (ce_end_time existing))) (\<lambda>end_time.
       or_fail env (value_bool j ''all_day'' (ce_all_day existing)) (\<lambda>all_day.
       or_fail env (value_str j ''rrule'' (ce_rrule existing)) (\<lambda>rrule s.
       if title_refused title then refuse ''400'' ''Title is required (max 255 characters)'' s
       else on_tables env (\<lambda>d c. update_calendar_event (we_parse_time env) c (we_now env) event_id title description location
           color start_time end_time all_day rrule) (\<lambda>event s.
         answer (JObject (event_to_json (fst s) (we_time_text env) event start_time end_time)) s []) s)))))))))))"

text \<open>The creator may delete an event whatever his permission is now.\<close>

definition cal_delete :: "web_env \<Rightarrow> string \<Rightarrow> string \<Rightarrow> string \<Rightarrow> calendar_state \<Rightarrow> calendar_state outcome" where
  "cal_delete env token space_id event_id =
     in_calendar env token space_id (\<lambda>user_id. with_event space_id event_id (\<lambda>event.
       (if ce_created_by event \<noteq> user_id then with_tool_level calendar_grants space_id user_id ''owner'' else (\<lambda>rest. rest))
         (\<lambda>s. done_with (fst s, delete_calendar_event (snd s) event_id) [])))"

definition exception_json :: "event_exception \<Rightarrow> string \<Rightarrow> json" where
  "exception_json x original_date =
     JObject [(''id'', JString (ex_id x)), (''event_id'', JString (ex_event_id x)),
       (''original_date'', JString original_date), (''is_deleted'', JBool (ex_is_deleted x))]"

definition cal_exception ::
  "web_env \<Rightarrow> string \<Rightarrow> string \<Rightarrow> string \<Rightarrow> json option \<Rightarrow> calendar_state \<Rightarrow> calendar_state outcome" where
  "cal_exception env token space_id event_id body =
     scheduling env token space_id (\<lambda>user_id. with_event space_id event_id (\<lambda>event s.
       if ce_rrule event = [] then refuse ''400'' ''Event is not recurring'' s
       else with_body env body (\<lambda>j.
         or_fail env (at_str j ''original_date'') (\<lambda>original_date. or_fail env (value_bool j ''is_deleted'' False) (\<lambda>is_deleted.
         or_fail env (value_str j ''title'' '''') (\<lambda>title. or_fail env (value_str j ''description'' '''') (\<lambda>description.
         or_fail env (value_str j ''location'' '''') (\<lambda>location. or_fail env (value_str j ''color'' '''') (\<lambda>color.
         or_fail env (value_str j ''start_time'' '''') (\<lambda>start_time. or_fail env (value_str j ''end_time'' '''') (\<lambda>end_time.
         or_fail env (value_bool j ''all_day'' False) (\<lambda>all_day.
         on_tables env (\<lambda>d c. create_event_exception (we_parse_time env) c (we_id env 0) (we_now env) event_id original_date
             is_deleted title description location color start_time end_time all_day) (\<lambda>x s.
           answer (exception_json x original_date) s []))))))))))) s))"

text \<open>Any member may answer an invitation.\<close>

definition cal_rsvp ::
  "web_env \<Rightarrow> string \<Rightarrow> string \<Rightarrow> string \<Rightarrow> json option \<Rightarrow> calendar_state \<Rightarrow> calendar_state outcome" where
  "cal_rsvp env token space_id event_id body =
     in_calendar env token space_id (\<lambda>user_id. with_event space_id event_id (\<lambda>event. with_body env body (\<lambda>j.
       or_fail env (at_str j ''status'') (\<lambda>status. or_fail env (value_str j ''occurrence_date'' no_date) (\<lambda>occurrence_date s.
       if status \<noteq> ''yes'' \<and> status \<noteq> ''no'' \<and> status \<noteq> ''maybe''
       then refuse ''400'' ''Status must be yes, no, or maybe'' s
       else on_tables env (\<lambda>d c. with_unit (set_event_rsvp (we_parse_time env) d c (we_now env) event_id user_id
           occurrence_date status)) (\<lambda>_ s. answer (JObject [(''status'', JString status)]) s []) s)))))"

text \<open>The event of the path is not looked up: its answers are shown in whatever space the path names.\<close>

definition cal_rsvps :: "web_env \<Rightarrow> string \<Rightarrow> string \<Rightarrow> string \<Rightarrow> string \<Rightarrow> calendar_state \<Rightarrow> calendar_state outcome" where
  "cal_rsvps env token space_id event_id date =
     in_calendar env token space_id (\<lambda>user_id s.
       or_escape (get_event_rsvps (we_parse_time env) (fst s) (snd s) event_id (over date no_date)) (\<lambda>rsvps s.
         answer (JObject [(''rsvps'', JArray (map (rsvp_to_json env) rsvps))]) s []) s)"

section \<open>Permissions\<close>

text \<open>\<open>ORDER BY CASE p.permission ..., u.username\<close>.\<close>

definition by_permission :: "pg \<Rightarrow> (tool_permission \<times> user) list \<Rightarrow> (tool_permission \<times> user) list" where
  "by_permission pg rows =
     sort_key (\<lambda>(p, u). if tp_permission p = ''owner'' then 0 else if tp_permission p = ''edit'' then 1 else (2 :: nat))
       (order_by_name pg (\<lambda>(p, u). u_username u) rows)"

definition cal_grants :: "web_env \<Rightarrow> string \<Rightarrow> string \<Rightarrow> calendar_state \<Rightarrow> calendar_state outcome" where
  "cal_grants env token space_id = list_tool_grants calendar_grants (by_permission (we_pg env)) env token space_id"

definition cal_grant :: "web_env \<Rightarrow> string \<Rightarrow> string \<Rightarrow> json option \<Rightarrow> calendar_state \<Rightarrow> calendar_state outcome" where
  "cal_grant env token space_id body =
     tool_grant calendar_grants (\<lambda>rows d. d\<lparr>calendar_permissions := rows\<rparr>) env token space_id body"

definition cal_ungrant :: "web_env \<Rightarrow> string \<Rightarrow> string \<Rightarrow> string \<Rightarrow> calendar_state \<Rightarrow> calendar_state outcome" where
  "cal_ungrant env token space_id target_user_id =
     tool_ungrant calendar_grants (\<lambda>rows d. d\<lparr>calendar_permissions := rows\<rparr>) env token space_id target_user_id"

end
