(* ===== verification/Calendar_Props.thy ===== *)
theory Calendar_Props
  imports Calendar_Handler Tool_Outcomes Recurrence_Props Room_Props
begin

text \<open>
  What holds of the calendar: requests keep to the space they name and to those who may edit there, and what
  a recurring event contributes to a listing.
\<close>

section \<open>Requests\<close>

datatype calendar_request =
    List_events string string
  | Get_event string
  | Create_event "json option"
  | Update_event string "json option"
  | Delete_event string
  | Except_event string "json option"
  | Answer_event string "json option"
  | Event_answers string string
  | Calendar_grants
  | Calendar_grant "json option"
  | Calendar_ungrant string

fun calendar_serve :: "web_env \<Rightarrow> string \<Rightarrow> string \<Rightarrow> calendar_request \<Rightarrow> calendar_state \<Rightarrow> calendar_state outcome" where
  "calendar_serve env t sp (List_events rs re) = cal_list env t sp rs re"
| "calendar_serve env t sp (Get_event i) = cal_get env t sp i"
| "calendar_serve env t sp (Create_event j) = cal_create env t sp j"
| "calendar_serve env t sp (Update_event i j) = cal_update env t sp i j"
| "calendar_serve env t sp (Delete_event i) = cal_delete env t sp i"
| "calendar_serve env t sp (Except_event i j) = cal_exception env t sp i j"
| "calendar_serve env t sp (Answer_event i j) = cal_rsvp env t sp i j"
| "calendar_serve env t sp (Event_answers i date) = cal_rsvps env t sp i date"
| "calendar_serve env t sp Calendar_grants = cal_grants env t sp"
| "calendar_serve env t sp (Calendar_grant j) = cal_grant env t sp j"
| "calendar_serve env t sp (Calendar_ungrant u) = cal_ungrant env t sp u"

section \<open>What a request leaves\<close>

text \<open>An event with its exceptions and answers.\<close>

definition same_event :: "calendar \<Rightarrow> calendar \<Rightarrow> string \<Rightarrow> bool" where
  "same_event c c' i \<longleftrightarrow>
     filter (\<lambda>e. ce_id e = i) (calendar_events c') = filter (\<lambda>e. ce_id e = i) (calendar_events c)
     \<and> filter (\<lambda>x. ex_event_id x = i) (event_exceptions c') = filter (\<lambda>x. ex_event_id x = i) (event_exceptions c)
     \<and> filter (\<lambda>r. rv_event_id r = i) (event_rsvps c') = filter (\<lambda>r. rv_event_id r = i) (event_rsvps c)"

text \<open>Every event is kept, but for the one a request names, if it is in its space.\<close>

definition keeps_events :: "string \<Rightarrow> calendar \<Rightarrow> calendar \<Rightarrow> bool" where
  "keeps_events sp c c' \<longleftrightarrow>
     (\<forall>i. has_key ce_id i (calendar_events c) \<and> \<not> (\<exists>e. find_calendar_event c i = Some e \<and> ce_space_id e = sp)
        \<longrightarrow> same_event c c' i)"

lemma same_event_refl [simp]: "same_event c c i"
  by (simp add: same_event_def)

lemma keeps_events_refl [simp]: "keeps_events sp c c"
  by (simp add: keeps_events_def)

lemma keeps_one:
  assumes "find_calendar_event c k = Some e" and "ce_space_id e = sp" and "\<And>i. i \<noteq> k \<Longrightarrow> same_event c c' i"
  shows "keeps_events sp c c'"
  unfolding keeps_events_def using assms by metis

lemma filter_map_if_id:
  "(\<And>x. P x \<Longrightarrow> k x \<noteq> i) \<Longrightarrow> (\<And>x. k (f x) = k x) \<Longrightarrow>
     filter (\<lambda>x. k x = i) (map (\<lambda>x. if P x then f x else x) xs) = filter (\<lambda>x. k x = i) xs"
  by (induction xs) auto

lemma filter_map_out:
  "(\<And>x. P x \<Longrightarrow> \<not> Q x) \<Longrightarrow> (\<And>x. P x \<Longrightarrow> \<not> Q (f x)) \<Longrightarrow> filter Q (map (\<lambda>x. if P x then f x else x) xs) = filter Q xs"
  by (induction xs) auto

lemma create_event_keeps:
  "create_calendar_event parse d c i now s ti de lo co st en al rr u = Inr (e, c') \<Longrightarrow> keeps_events sp c c'"
  by (auto simp: create_calendar_event_def Let_def keeps_events_def same_event_def has_key_iff split: sum.splits if_splits)

lemma update_event_keeps:
  assumes "update_calendar_event parse c now k ti de lo co st en al rr = Inr (e', c')" and "i \<noteq> k"
  shows "same_event c c' i"
  using assms by (auto simp: update_calendar_event_def Let_def same_event_def filter_map_if_id split: sum.splits if_splits option.splits)

lemma delete_event_keeps: "i \<noteq> k \<Longrightarrow> same_event c (delete_calendar_event c k) i"
  by (auto simp: delete_calendar_event_def same_event_def intro: filter_cong)

lemma except_event_keeps:
  assumes "create_event_exception parse c n now k od del ti de lo co st en al = Inr (x, c')" and "i \<noteq> k"
  shows "same_event c c' i"
  using assms assms(2) [symmetric] by (auto simp: create_event_exception_def Let_def same_event_def intro!: filter_map_if_id split: sum.splits if_splits option.splits)

lemma answer_event_keeps:
  assumes "set_event_rsvp parse d c now k u od st = Inr c'" and "i \<noteq> k"
  shows "same_event c c' i"
  using assms assms(2) [symmetric] by (auto simp: set_event_rsvp_def Let_def same_event_def intro!: filter_map_if_id split: sum.splits if_splits)

lemma after_event [outcome_rules]:
  assumes "Q s []" and "\<And>e. find_calendar_event (snd s) i = Some e \<Longrightarrow> ce_space_id e = sp \<Longrightarrow> holds_after Q (rest e s)"
  shows "holds_after Q (with_event sp i rest s)"
  using assms by (simp add: with_event_def split: option.split)

lemma after_escape [outcome_rules]:
  "(\<And>x. v = Inr x \<Longrightarrow> holds_after Q (rest x s)) \<Longrightarrow> holds_after Q (or_escape v rest s)"
  by (simp add: or_escape_def split: sum.split)

lemma after_scheduling [outcome_rules]:
  assumes "Q s []" and "\<And>u. validate_session (fst s) (we_now env) t = Some u \<Longrightarrow> check_tool_access calendar_grants (fst s) sp u
     \<Longrightarrow> 1 \<le> tool_perm_rank (tool_access_level calendar_grants (fst s) sp u) \<Longrightarrow> holds_after Q (rest u s)"
  shows "holds_after Q (scheduling env t sp rest s)"
  unfolding scheduling_def in_calendar_def using assms by (intro outcome_rules) (auto simp: tool_perm_rank_def)

definition creates_event :: "calendar_request \<Rightarrow> calendar \<Rightarrow> string \<Rightarrow> bool" where
  "creates_event req c u \<longleftrightarrow> (\<exists>i e. req = Delete_event i \<and> find_calendar_event c i = Some e \<and> ce_created_by e = u)"

text \<open>What each kind of user may do to the tables.\<close>

definition calendar_right :: "web_env \<Rightarrow> string \<Rightarrow> string \<Rightarrow> calendar_request \<Rightarrow> calendar_state \<Rightarrow> calendar \<Rightarrow> bool" where
  "calendar_right env t sp req s c' \<longleftrightarrow>
     (\<exists>u. validate_session (fst s) (we_now env) t = Some u \<and> check_tool_access calendar_grants (fst s) sp u
        \<and> (1 \<le> tool_perm_rank (tool_access_level calendar_grants (fst s) sp u) \<or> creates_event req (snd s) u
           \<or> calendar_events c' = calendar_events (snd s) \<and> event_exceptions c' = event_exceptions (snd s)
             \<and> filter (\<lambda>r. rv_user_id r \<noteq> u) (event_rsvps c') = filter (\<lambda>r. rv_user_id r \<noteq> u) (event_rsvps (snd s))))"

abbreviation scheduled :: "web_env \<Rightarrow> string \<Rightarrow> string \<Rightarrow> calendar_request \<Rightarrow> calendar_state \<Rightarrow> calendar_state \<Rightarrow> effect list \<Rightarrow> bool" where
  "scheduled env t sp req s \<equiv> \<lambda>s' es. keeps_events sp (snd s) (snd s') \<and> (snd s' = snd s \<or> calendar_right env t sp req s (snd s'))"

lemma answer_own_rows:
  "set_event_rsvp parse d c now k u od st = Inr c' \<Longrightarrow> calendar_events c' = calendar_events c
     \<and> event_exceptions c' = event_exceptions c
     \<and> filter (\<lambda>r. rv_user_id r \<noteq> u) (event_rsvps c') = filter (\<lambda>r. rv_user_id r \<noteq> u) (event_rsvps c)"
  by (auto simp: set_event_rsvp_def Let_def intro!: filter_map_out split: sum.splits if_splits)

lemma cal_reading:
  "holds_after (scheduled env t sp req s) (cal_list env t sp rs re s)"
  "holds_after (scheduled env t sp req s) (cal_get env t sp i s)"
  "holds_after (scheduled env t sp req s) (cal_rsvps env t sp i date s)"
  "holds_after (scheduled env t sp req s) (cal_grants env t sp s)"
  "holds_after (scheduled env t sp req s) (cal_grant env t sp j s)"
  "holds_after (scheduled env t sp req s) (cal_ungrant env t sp u s)"
  unfolding cal_list_def cal_get_def cal_rsvps_def cal_grants_def list_tool_grants_def cal_grant_def tool_grant_def
    cal_ungrant_def tool_ungrant_def in_calendar_def
  by (intro outcome_rules; simp)+

lemma cal_writing:
  "holds_after (scheduled env t sp req s) (cal_create env t sp j s)"
  "holds_after (scheduled env t sp req s) (cal_update env t sp i j s)"
  "holds_after (scheduled env t sp req s) (cal_exception env t sp i j s)"
  unfolding cal_create_def cal_update_def cal_exception_def
  by (intro outcome_rules; simp; (elim exE conjE)?;
      fastforce simp: calendar_right_def intro: create_event_keeps keeps_one update_event_keeps except_event_keeps)+

lemma cal_delete_scheduled: "holds_after (scheduled env t sp (Delete_event i) s) (cal_delete env t sp i s)"
  unfolding cal_delete_def in_calendar_def
  by (intro outcome_rules; simp; fastforce simp: calendar_right_def creates_event_def tool_perm_rank_def
      intro: keeps_one delete_event_keeps)

lemma cal_rsvp_scheduled: "holds_after (scheduled env t sp req s) (cal_rsvp env t sp i j s)"
  unfolding cal_rsvp_def in_calendar_def
  by (intro outcome_rules; simp add: with_unit_Inr; fastforce simp: calendar_right_def
      intro: keeps_one answer_event_keeps dest: answer_own_rows)

lemma calendar_served: "holds_after (scheduled env t sp req s) (calendar_serve env t sp req s)"
  by (cases req) (simp_all only: calendar_serve.simps cal_reading cal_writing cal_delete_scheduled cal_rsvp_scheduled)


text \<open>C38: Whatever a request to the calendar of one space does, the events of other spaces stay as they are
  with their exceptions and answers. And it changes events or exceptions only for a session whose user
  has access to the space and there the permission to edit, or deletes the event he created; everybody
  else can at most answer for himself.\<close>

theorem calendar_confined:
  assumes "calendar_serve env t sp req (d, c) = Some (r, (d', c'), es)" and "distinct (map ce_id (calendar_events c))"
  shows "(\<forall>e \<in> set (calendar_events c). ce_space_id e \<noteq> sp \<longrightarrow> same_event c c' (ce_id e))
    \<and> (c' \<noteq> c \<longrightarrow> (\<exists>u. validate_session d (we_now env) t = Some u \<and> check_tool_access calendar_grants d sp u
        \<and> (1 \<le> tool_perm_rank (tool_access_level calendar_grants d sp u) \<or> creates_event req c u
           \<or> calendar_events c' = calendar_events c \<and> event_exceptions c' = event_exceptions c
             \<and> filter (\<lambda>r. rv_user_id r \<noteq> u) (event_rsvps c') = filter (\<lambda>r. rv_user_id r \<noteq> u) (event_rsvps c))))"
proof -
  have served: "keeps_events sp c c' \<and> (c' = c \<or> calendar_right env t sp req (d, c) c')"
    using calendar_served [of sp "(d, c)" env t req] assms(1) by simp
  have "same_event c c' (ce_id e)" if e: "e \<in> set (calendar_events c)" "ce_space_id e \<noteq> sp" for e
  proof -
    have "x = e" if "find_calendar_event c (ce_id e) = Some x" for x
    proof -
      have "x \<in> set (calendar_events c)" "ce_id x = ce_id e"
        using that first_row_filter_Some unfolding find_calendar_event_def by fastforce+
      then show ?thesis using assms(2) e(1) by (auto simp: distinct_map inj_on_def)
    qed
    moreover have "has_key ce_id (ce_id e) (calendar_events c)" using e(1) by (auto simp: has_key_iff)
    ultimately show ?thesis using served e(2) unfolding keeps_events_def by blast
  qed
  then show ?thesis using served by (auto simp: calendar_right_def)
qed

section \<open>Listings\<close>

lemma concat_all_map:
  assumes "concat_all (map f xs) = Some ys" and "\<And>x zs. f x = Some zs \<Longrightarrow> map g zs = h x"
  shows "map g ys = concat (map h xs)"
  using assms(1) by (induction xs arbitrary: ys) (auto simp: assms(2) split: option.splits)

definition cancelled :: "web_env \<Rightarrow> calendar \<Rightarrow> calendar_event \<Rightarrow> string \<Rightarrow> bool" where
  "cancelled env c e occ \<longleftrightarrow>
     (case exception_at env (get_event_exceptions c (ce_id e)) occ of None \<Rightarrow> False | Some x \<Rightarrow> ex_is_deleted x)"

definition occurrence_date :: "string \<times> json \<Rightarrow> json option" where
  "occurrence_date x = json_get (snd x) ''occurrence_date''"

lemma listed_date: "listed env d c u e st en rd od ex = Some x \<Longrightarrow> occurrence_date x = Some od"
  by (auto simp: listed_def occurrence_date_def event_to_json_def)

lemma occurrence_dates:
  "occurrence env d c u e occ = Some zs \<Longrightarrow>
     map occurrence_date zs = (if cancelled env c e occ then [] else [Some (JString occ)])"
  by (auto simp: occurrence_def Let_def cancelled_def dest: listed_date split: option.splits if_splits)


lemma blank_before_T: "day @ CHR '' '' # y < day @ CHR ''T'' # (x :: string)"
  by (induction day) (auto simp: less_char_def)

text \<open>C40: A listing is not in the order of time: on one day everything whose start the database wrote, with
  a blank after the date, comes before every occurrence of a recurring event, written with a T, whatever
  the hours are.\<close>

theorem listing_splits_days:
  assumes "calendar_items env d c u rs re events = Some items" and "i < length items" and "j < length items"
    and "fst (items ! i) = day @ ''T'' @ x" and "fst (items ! j) = day @ '' '' @ y"
  shows "j < i"
proof (rule ccontr)
  have "sorted (map fst items)" using assms(1) by (auto simp: calendar_items_def)
  moreover assume "\<not> j < i"
  ultimately have "fst (items ! i) \<le> fst (items ! j)" using assms(2,3) by (simp add: sorted_iff_nth_mono)
  then show False using blank_before_T [of day y x] assms(4,5) by simp
qed

section \<open>Witnesses\<close>

text \<open>Monday the second of March 2026 at nine, ten, and at nine on Tuesday.\<close>

definition march :: "time \<Rightarrow> string" where
  "march t = (if t = 9 then ''2026-03-02 09:00:00+00'' else if t = 10 then ''2026-03-02 10:00:00+00''
     else if t = 33 then ''2026-03-03 09:00:00+00'' else ''2026-03-02 11:00:00+00'')"

definition march_env :: web_env where
  "march_env = example_web\<lparr>we_time_text := march, we_parse_time := (\<lambda>s. Some 0)\<rparr>"

definition example_event :: "string \<Rightarrow> string \<Rightarrow> time \<Rightarrow> time \<Rightarrow> string \<Rightarrow> string \<Rightarrow> calendar_event" where
  "example_event i sp st en rule u = \<lparr>ce_id = i, ce_space_id = sp, ce_title = ''Meeting'', ce_description = '''',
     ce_location = '''', ce_color = ''blue'', ce_start_time = st, ce_end_time = en, ce_all_day = False, ce_rrule = rule,
     ce_created_by = u, ce_created_at = 0, ce_updated_at = 0\<rparr>"

definition daily :: calendar_event where
  "daily = example_event ''e1'' ''s1'' 9 10 ''FREQ=DAILY;COUNT=3'' ''u2''"

definition example_calendar :: calendar where
  "example_calendar = \<lparr>calendar_events = [daily, example_event ''e2'' ''s1'' 10 11 '''' ''u1'',
       example_event ''e3'' ''s2'' 10 11 '''' ''u1''],
     event_exceptions = [\<lparr>ex_id = ''x1'', ex_event_id = ''e1'', ex_original_date = 33, ex_is_deleted = True, ex_title = '''',
       ex_description = '''', ex_location = '''', ex_color = '''', ex_start_time = None, ex_end_time = None,
       ex_all_day = False, ex_created_at = 0\<rparr>], event_rsvps = []\<rparr>"

definition march_items :: "(string \<times> json) list" where
  "march_items = the (calendar_items march_env example_db example_calendar ''u2'' ''2026-03-01T00:00:00Z''
     ''2026-03-08T00:00:00Z'' [daily, example_event ''e2'' ''s1'' 10 11 '''' ''u1''])"


lemma listing_splits_days_witness:
  "fst (march_items ! 0) = ''2026-03-02'' @ '' '' @ ''10:00:00+00'' \<and> fst (march_items ! 1) = ''2026-03-02'' @ ''T'' @ ''09:00:00Z''
     \<and> (0 :: nat) < 1"
proof -
  have some: "calendar_items march_env example_db example_calendar ''u2'' ''2026-03-01T00:00:00Z''
      ''2026-03-08T00:00:00Z'' [daily, example_event ''e2'' ''s1'' 10 11 '''' ''u1''] = Some march_items"
  proof -
    have "calendar_items march_env example_db example_calendar ''u2'' ''2026-03-01T00:00:00Z''
      ''2026-03-08T00:00:00Z'' [daily, example_event ''e2'' ''s1'' 10 11 '''' ''u1''] \<noteq> None" by code_simp
    then show ?thesis by (auto simp: march_items_def)
  qed
  have texts: "map fst march_items = [''2026-03-02 10:00:00+00'', ''2026-03-02T09:00:00Z'', ''2026-03-04T09:00:00Z'']"
    by code_simp
  then have len: "length march_items = 3" by (metis length_map length_Cons list.size(3) numeral_3_eq_3)
  have "fst (march_items ! 0) = map fst march_items ! 0" "fst (march_items ! 1) = map fst march_items ! 1" using len by simp_all
  then have at: "fst (march_items ! 0) = ''2026-03-02'' @ '' '' @ ''10:00:00+00''"
    "fst (march_items ! 1) = ''2026-03-02'' @ ''T'' @ ''09:00:00Z''"
    using texts by simp_all
  have "(0 :: nat) < 1" by (rule listing_splits_days [OF some _ _ at(2) at(1)]) (simp_all add: len)
  with at show ?thesis by blast
qed

definition removed_event :: "reply \<times> calendar_state \<times> effect list" where
  "removed_event = the (calendar_serve march_env ''t2'' ''s1'' (Delete_event ''e1'') (example_db, example_calendar))"

lemma calendar_confined_witness:
  "same_event example_calendar (snd (fst (snd removed_event))) ''e3''
     \<and> length (calendar_events (snd (fst (snd removed_event)))) = 2"
proof -
  have "calendar_serve march_env ''t2'' ''s1'' (Delete_event ''e1'') (example_db, example_calendar) \<noteq> None" by code_simp
  then have run: "calendar_serve march_env ''t2'' ''s1'' (Delete_event ''e1'') (example_db, example_calendar) =
      Some (fst removed_event, (fst (fst (snd removed_event)), snd (fst (snd removed_event))), snd (snd removed_event))"
    by (auto simp: removed_event_def)
  have d: "distinct (map ce_id (calendar_events example_calendar))" by code_simp
  let ?e = "example_event ''e3'' ''s2'' 10 11 '''' ''u1''"
  have e: "?e \<in> set (calendar_events example_calendar)" by (simp add: example_calendar_def)
  have id: "ce_id ?e = ''e3''" "ce_space_id ?e \<noteq> ''s1''" by code_simp+
  have "same_event example_calendar (snd (fst (snd removed_event))) (ce_id ?e)"
    using calendar_confined [OF run d, THEN conjunct1, rule_format, OF e id(2)] .
  moreover have "length (calendar_events (snd (fst (snd removed_event)))) = 2" by code_simp
  ultimately show ?thesis unfolding id(1) by (rule conjI)
qed

end
