(* ===== verification/Rate_Limit.thy ===== *)
theory Rate_Limit
  imports Prelude Complex_Main "HOL-Library.AList" "HOL-Library.Log_Nat"
begin

text \<open>
  The token buckets: \<open>RateLimiter\<close> of \<open>rate_limit.h\<close> (login and registration routes) and
  \<open>consume_rate_token\<close> of \<open>ws/ws_handler.cpp\<close> (chat and typing messages). A double is a rational;
  every arithmetic operation of the code is rounded by \<open>fl\<close> to 53 significant bits, ties to
  even. Exponents are not bounded: the magnitudes here stay far from the limits of the format. A
  \<open>time_point\<close> is its count of nanoseconds.
\<close>

section \<open>Doubles\<close>

definition pow2 :: "int \<Rightarrow> rat" where
  "pow2 e = (if 0 \<le> e then 2 ^ nat e else 1 / 2 ^ nat (- e))"

text \<open>The exponent of the leading bit.\<close>

definition rat_exp :: "rat \<Rightarrow> int" where
  "rat_exp x =
     (let (p, q) = quotient_of x;
          e = int (floorlog 2 (nat p)) - int (floorlog 2 (nat q))
      in if pow2 e \<le> x then e else e - 1)"

definition round_even :: "rat \<Rightarrow> int" where
  "round_even x =
     (let f = floor x; d = x - of_int f
      in if d < 1/2 then f else if d > 1/2 then f + 1 else if even f then f else f + 1)"

definition fl :: "rat \<Rightarrow> rat" where
  "fl x = (if x = 0 then 0
           else let s = pow2 (rat_exp \<bar>x\<bar> - 52) in of_int (round_even (x / s)) * s)"

abbreviation ulp :: rat where "ulp \<equiv> 1 / 2 ^ 53"

lemma pow2_pos [simp]: "0 < pow2 e"
  by (simp add: pow2_def)

lemma pow2_powi: "pow2 e = 2 powi e"
  by (simp add: pow2_def power_int_def inverse_eq_divide power_divide)

lemma pow2_add: "pow2 (a + b) = pow2 a * pow2 b"
  by (simp add: pow2_powi power_int_add)

lemma round_even_close: "\<bar>of_int (round_even x) - x\<bar> \<le> 1/2"
proof -
  have "of_int \<lfloor>x\<rfloor> \<le> x" "x < of_int \<lfloor>x\<rfloor> + 1" by linarith+
  then show ?thesis unfolding round_even_def Let_def by (auto split: if_splits)
qed

lemma round_even_nonneg: "0 \<le> x \<Longrightarrow> 0 \<le> round_even x"
  by (simp add: round_even_def Let_def)

lemma rat_exp_le:
  assumes "0 < x"
  shows "pow2 (rat_exp x) \<le> x"
proof -
  obtain p q where pq: "quotient_of x = (p, q)" by fastforce
  have q: "0 < q" using quotient_of_denom_pos [OF pq] .
  have x: "x = of_int p / of_int q" by (rule quotient_of_div [OF pq])
  have p: "0 < p" using assms q by (simp add: x zero_less_divide_iff)
  let ?e = "int (floorlog 2 (nat p)) - int (floorlog 2 (nat q))"
  have np: "nat p > 0" using p by simp
  have "2 ^ (floorlog 2 (nat p) - 1) \<le> nat p"
    using floorlog_bounds [of "nat p" 2] np by simp
  then have "int (2 ^ (floorlog 2 (nat p) - 1)) \<le> p" using p by linarith
  then have lo: "(2::rat) ^ (floorlog 2 (nat p) - 1) \<le> of_int p"
    by (metis of_int_le_iff of_int_of_nat_eq of_int_power of_int_numeral of_nat_power of_nat_numeral)
  have "nat q < 2 ^ floorlog 2 (nat q)"
    using floorlog_bounds [of "nat q" 2] q by simp
  then have "q < int (2 ^ floorlog 2 (nat q))" using q by linarith
  then have hi: "of_int q < (2::rat) ^ floorlog 2 (nat q)"
    by (metis of_int_less_iff of_int_of_nat_eq of_int_power of_int_numeral of_nat_power of_nat_numeral)
  have fp: "0 < floorlog 2 (nat p)" using np by (simp add: floorlog_def)
  have "pow2 (?e - 1) = 2 ^ (floorlog 2 (nat p) - 1) / 2 ^ floorlog 2 (nat q)"
    using fp by (simp add: pow2_powi power_int_diff power_int_add field_simps of_nat_diff
        power_eq_if [of "2::rat" "floorlog 2 (nat p)"])
  also have "\<dots> \<le> of_int p / of_int q"
    using lo hi q p by (intro frac_le) auto
  finally have "pow2 (?e - 1) \<le> x" by (simp add: x)
  then show ?thesis by (simp add: rat_exp_def pq Let_def)
qed

lemma fl_nonneg [simp]: "0 \<le> x \<Longrightarrow> 0 \<le> fl x"
  by (simp add: fl_def Let_def round_even_nonneg less_imp_le)

lemma fl_error:
  assumes "0 \<le> x"
  shows "\<bar>fl x - x\<bar> \<le> x * ulp"
proof (cases "x = 0")
  case False
  with assms have x: "0 < x" by simp
  let ?s = "pow2 (rat_exp x - 52)"
  have s: "0 < ?s" by simp
  have "fl x - x = (of_int (round_even (x / ?s)) - x / ?s) * ?s"
    using x s by (simp add: fl_def Let_def left_diff_distrib less_imp_neq [THEN not_sym])
  then have "\<bar>fl x - x\<bar> = \<bar>of_int (round_even (x / ?s)) - x / ?s\<bar> * ?s"
    by (simp only: abs_mult abs_of_pos [OF s])
  also have "\<dots> \<le> 1/2 * ?s"
    using round_even_close less_imp_le [OF s] by (intro mult_right_mono)
  also have "\<dots> = pow2 (rat_exp x) * ulp"
    using pow2_add [of "rat_exp x" "-52"] by (simp add: pow2_def [of "-52"])
  also have "\<dots> \<le> x * ulp" using rat_exp_le [OF x] by simp
  finally show ?thesis .
qed (simp add: fl_def)

lemma fl_upper: "0 \<le> x \<Longrightarrow> fl x \<le> x * (1 + ulp)"
  using fl_error [of x] unfolding distrib_left mult_1_right by linarith

lemma fl_lower: "0 \<le> x \<Longrightarrow> x * (1 - ulp) \<le> fl x"
  using fl_error [of x] unfolding right_diff_distrib mult_1_right by linarith

section \<open>Elapsed time and credit\<close>

text \<open>\<open>duration<double>(now - last).count()\<close>.\<close>

definition elapsed_s :: "int \<Rightarrow> int \<Rightarrow> rat" where
  "elapsed_s now lst =
     (let ns = now - lst in
      if 0 \<le> ns then fl (fl (of_int ns) / 10 ^ 9) else - fl (fl (of_int (- ns)) / 10 ^ 9))"

definition retry_ms :: "rat \<Rightarrow> rat \<Rightarrow> int" where
  "retry_ms tokens rate = \<lceil>fl (fl (fl (1 - tokens) / rate) * 1000)\<rceil>"

section \<open>The keyed limiter\<close>

text \<open>A bucket is its tokens and \<open>last_refill\<close>; time zero marks one that was just inserted.\<close>

type_synonym buckets = "(string \<times> (rat \<times> int)) list"

definition evict_threshold :: nat where "evict_threshold = 10000"

definition refilled :: "rat \<Rightarrow> rat \<Rightarrow> int \<Rightarrow> rat \<times> int \<Rightarrow> rat" where
  "refilled burst rate now b =
     (case b of (tokens, lst) \<Rightarrow> min burst (fl (tokens + fl (elapsed_s now lst * rate))))"

definition evict_idle :: "rat \<Rightarrow> rat \<Rightarrow> int \<Rightarrow> buckets \<Rightarrow> buckets" where
  "evict_idle burst rate now bs = filter (\<lambda>(_, b). \<not> burst \<le> refilled burst rate now b) bs"

text \<open>The answer is whether the attempt is allowed, with \<open>retry_ms_out\<close>.\<close>

definition allow :: "rat \<Rightarrow> rat \<Rightarrow> string \<Rightarrow> int \<Rightarrow> buckets \<Rightarrow> (bool \<times> int) \<times> buckets" where
  "allow burst rate key now bs =
     (let bs1 = (if length bs > evict_threshold then evict_idle burst rate now bs else bs);
          b = (case map_of bs1 key of Some b \<Rightarrow> b | None \<Rightarrow> (0, 0));
          (tokens, lst) =
            (if snd b = 0 then (burst, now)
             else if elapsed_s now (snd b) > 0 then (refilled burst rate now b, now)
             else b)
      in if tokens \<ge> 1
         then ((True, 0), AList.update key (fl (tokens - 1), lst) bs1)
         else ((False, retry_ms tokens rate), AList.update key (tokens, lst) bs1))"

definition refund :: "rat \<Rightarrow> string \<Rightarrow> int \<Rightarrow> buckets \<Rightarrow> buckets" where
  "refund burst key now bs =
     (case map_of bs key of
        None \<Rightarrow> bs
      | Some b \<Rightarrow> AList.update key (min burst (fl (fst b + 1)), now) bs)"

section \<open>The bucket of one WebSocket connection\<close>

definition rate_limit_burst :: rat where "rate_limit_burst = 20"
definition rate_limit_refill_per_sec :: rat where "rate_limit_refill_per_sec = 10"

definition consume_rate_token :: "int \<Rightarrow> rat \<times> int \<Rightarrow> (bool \<times> int) \<times> (rat \<times> int)" where
  "consume_rate_token now b =
     (let tokens = refilled rate_limit_burst rate_limit_refill_per_sec now b
      in if tokens \<ge> 1 then ((True, 0), (fl (tokens - 1), now))
         else ((False, retry_ms tokens rate_limit_refill_per_sec), (tokens, now)))"

section \<open>The contract of a token bucket\<close>

text \<open>The attempts that were allowed while the events of a list were handled.\<close>

fun allowed_in :: "('e \<Rightarrow> 's \<Rightarrow> bool \<times> 's) \<Rightarrow> 'e list \<Rightarrow> 's \<Rightarrow> nat" where
  "allowed_in step [] s = 0"
| "allowed_in step (e # es) s =
     (case step e s of (ok, s') \<Rightarrow> (if ok then 1 else 0) + allowed_in step es s')"

fun times_from :: "('e \<Rightarrow> int) \<Rightarrow> int \<Rightarrow> 'e list \<Rightarrow> bool" where
  "times_from time c [] = True"
| "times_from time c (e # es) = (c \<le> time e \<and> times_from time (time e) es)"

text \<open>
  \<open>room s t\<close> bounds what is left to allow up to time \<open>t\<close> when nothing else happens. A step may
  only trade room for an allowed attempt, up to the rounding error \<open>err\<close>.
\<close>

locale token_bucket =
  fixes step :: "'e \<Rightarrow> 's \<Rightarrow> bool \<times> 's"
    and time :: "'e \<Rightarrow> int"
    and room :: "'s \<Rightarrow> int \<Rightarrow> rat"
    and inv :: "'s \<Rightarrow> int \<Rightarrow> bool"
    and err :: rat
  assumes step_inv: "inv s c \<Longrightarrow> c \<le> time e \<Longrightarrow> inv (snd (step e s)) (time e)"
    and step_room: "inv s c \<Longrightarrow> c \<le> time e \<Longrightarrow> time e \<le> t \<Longrightarrow>
          room (snd (step e s)) t + (if fst (step e s) then 1 else 0) \<le> room s t + err"
    and room_nonneg: "inv s c \<Longrightarrow> c \<le> t \<Longrightarrow> 0 \<le> room s t"
begin

lemma last_time: "times_from time c es \<Longrightarrow> c \<le> (if es = [] then c else time (last es))"
proof (induction es arbitrary: c)
  case (Cons e es)
  then show ?case by (cases es) force+
qed simp

lemma allowed_bound:
  "inv s c \<Longrightarrow> times_from time c es \<Longrightarrow> t = (if es = [] then c else time (last es)) \<Longrightarrow>
     of_nat (allowed_in step es s) \<le> room s t + of_nat (length es) * err"
proof (induction es arbitrary: s c)
  case Nil
  then show ?case using room_nonneg by simp
next
  case (Cons e es)
  obtain ok s' where st: "step e s = (ok, s')" by fastforce
  have i: "inv s' (time e)" using step_inv [OF Cons.prems(1)] Cons.prems(2) st by fastforce
  have t: "t = (if es = [] then time e else time (last es))" using Cons.prems(3) by simp
  then have le: "time e \<le> t" using last_time [of "time e" es] Cons.prems(2) by simp
  have "of_nat (allowed_in step es s') \<le> room s' t + of_nat (length es) * err"
    using Cons.IH [OF i _ t] Cons.prems(2) by simp
  moreover have "room s' t + (if ok then 1 else 0) \<le> room s t + err"
    using step_room [OF Cons.prems(1) _ le] Cons.prems(2) st by simp
  ultimately show ?case by (cases ok) (auto simp: st algebra_simps)
qed

end

section \<open>Bounds on one refill\<close>

text \<open>Tokens per nanosecond, with the worst rounding of the four operations on the way.\<close>

definition gain :: "rat \<Rightarrow> rat" where
  "gain rate = rate * (1 + ulp) ^ 4 / 10 ^ 9"

lemma elapsed_bounds:
  assumes "lst \<le> now"
  shows "0 \<le> elapsed_s now lst"
    and "elapsed_s now lst \<le> of_int (now - lst) * (1 + ulp) ^ 2 / 10 ^ 9"
proof -
  let ?d = "of_int (now - lst) :: rat"
  have d: "0 \<le> ?d" using assms by simp
  show "0 \<le> elapsed_s now lst"
    using assms d by (simp add: elapsed_s_def)
  have "fl (fl ?d / 10 ^ 9) \<le> fl ?d / 10 ^ 9 * (1 + ulp)"
    using fl_upper [of "fl ?d / 10 ^ 9"] fl_nonneg [OF d] by simp
  also have "\<dots> \<le> ?d * (1 + ulp) / 10 ^ 9 * (1 + ulp)"
    using fl_upper [OF d] by (intro mult_right_mono divide_right_mono) auto
  finally show "elapsed_s now lst \<le> ?d * (1 + ulp) ^ 2 / 10 ^ 9"
    using assms by (simp only: elapsed_s_def Let_def power2_eq_square mult.assoc times_divide_eq_left)
      (simp add: mult.assoc)
qed

lemma refilled_bounds:
  assumes "lst \<le> now" and "0 \<le> tokens" and "tokens \<le> burst" and "0 \<le> rate"
  shows "0 \<le> refilled burst rate now (tokens, lst)"
    and "refilled burst rate now (tokens, lst) \<le> burst"
    and "fl (tokens + fl (elapsed_s now lst * rate))
           \<le> tokens + burst * ulp + gain rate * of_int (now - lst)"
proof -
  define U :: rat where "U = 1 + ulp"
  define d :: rat where "d = of_int (now - lst)"
  define el where "el = elapsed_s now lst"
  have U: "0 \<le> U" by (simp add: U_def)
  have el: "0 \<le> el" "el \<le> d * U ^ 2 / 10 ^ 9"
    using elapsed_bounds [OF assms(1)] by (simp_all only: el_def d_def U_def)
  have c0: "0 \<le> fl (el * rate)" using el(1) assms(4) by simp
  show "0 \<le> refilled burst rate now (tokens, lst)"
    using assms(2,3) c0 by (simp add: refilled_def el_def)
  show "refilled burst rate now (tokens, lst) \<le> burst"
    by (simp add: refilled_def)
  have up: "fl x \<le> x * U" if "0 \<le> x" for x
    using fl_upper [OF that] by (simp only: U_def)
  have "fl (el * rate) \<le> el * rate * U" using up el(1) assms(4) by simp
  also have "\<dots> \<le> d * U ^ 2 / 10 ^ 9 * rate * U"
    using el(2) assms(4) U by (intro mult_right_mono) auto
  finally have c: "fl (el * rate) \<le> d * U ^ 2 / 10 ^ 9 * rate * U" .
  have "fl (tokens + fl (el * rate)) \<le> (tokens + fl (el * rate)) * U"
    using up c0 assms(2) by simp
  also have "\<dots> \<le> (tokens + d * U ^ 2 / 10 ^ 9 * rate * U) * U"
    using c U by (intro mult_right_mono add_left_mono) auto
  also have "\<dots> = tokens + tokens * ulp + rate * U ^ 4 / 10 ^ 9 * d"
    by (simp add: U_def [symmetric] power_numeral_reduce algebra_simps) (simp add: U_def algebra_simps)
  also have "\<dots> \<le> tokens + burst * ulp + gain rate * d"
    using assms(3) by (simp add: gain_def U_def)
  finally show "fl (tokens + fl (elapsed_s now lst * rate))
      \<le> tokens + burst * ulp + gain rate * of_int (now - lst)"
    by (simp only: el_def d_def)
qed

lemma spend_bounds:
  assumes "1 \<le> tokens" and "tokens \<le> burst" and "burst * ulp \<le> 1"
  shows "0 \<le> fl (tokens - 1)" and "fl (tokens - 1) \<le> tokens - 1 + burst * ulp"
    and "fl (tokens - 1) \<le> burst"
proof -
  show "0 \<le> fl (tokens - 1)" using assms(1) by simp
  have "fl (tokens - 1) \<le> (tokens - 1) + (tokens - 1) * ulp"
    using fl_upper [of "tokens - 1"] assms(1) unfolding distrib_left mult_1_right by linarith
  moreover have "(tokens - 1) * ulp \<le> burst * ulp" using assms(2) by (intro mult_right_mono) auto
  ultimately show up: "fl (tokens - 1) \<le> tokens - 1 + burst * ulp" by linarith
  show "fl (tokens - 1) \<le> burst" using up assms(2,3) by linarith
qed

lemma gain_nonneg: "0 \<le> rate \<Longrightarrow> 0 \<le> gain rate"
  by (simp add: gain_def)

section \<open>Both limiters are token buckets\<close>

definition ws_bucket_ok :: "rat \<times> int \<Rightarrow> int \<Rightarrow> bool" where
  "ws_bucket_ok b c \<longleftrightarrow> 0 \<le> fst b \<and> fst b \<le> rate_limit_burst \<and> snd b \<le> c"

definition ws_step :: "int \<Rightarrow> rat \<times> int \<Rightarrow> bool \<times> (rat \<times> int)" where
  "ws_step now b = (case consume_rate_token now b of ((ok, _), b') \<Rightarrow> (ok, b'))"

definition ws_room :: "rat \<times> int \<Rightarrow> int \<Rightarrow> rat" where
  "ws_room b t = fst b + gain rate_limit_refill_per_sec * of_int (t - snd b)"

lemma ws_step_cases:
  assumes "ws_bucket_ok b c" and "c \<le> now" and "ws_step now b = (ok, b')"
  shows "ws_bucket_ok b' now \<and> snd b' = now
    \<and> fst b' + (if ok then 1 else 0) \<le> ws_room b now + 2 * (rate_limit_burst * ulp)"
proof -
  obtain tok lst where b: "b = (tok, lst)" by fastforce
  let ?r = "refilled rate_limit_burst rate_limit_refill_per_sec now (tok, lst)"
  have pre: "lst \<le> now" "0 \<le> tok" "tok \<le> rate_limit_burst" "0 \<le> rate_limit_refill_per_sec"
    using assms(1,2) b by (simp_all add: ws_bucket_ok_def rate_limit_refill_per_sec_def)
  note r = refilled_bounds [OF pre]
  have small: "rate_limit_burst * ulp \<le> 1" by (simp add: rate_limit_burst_def)
  have room: "?r \<le> ws_room b now + rate_limit_burst * ulp"
    using r(3) by (simp add: ws_room_def b refilled_def min_le_iff_disj)
  show ?thesis
  proof (cases "1 \<le> ?r")
    case True
    then have st: "ok" "b' = (fl (?r - 1), now)"
      using assms(3) by (simp_all add: ws_step_def consume_rate_token_def b Let_def)
    then show ?thesis
      using spend_bounds [OF True r(2) small] room by (simp add: ws_bucket_ok_def)
  next
    case False
    then have st: "\<not> ok" "b' = (?r, now)"
      using assms(3) by (simp_all add: ws_step_def consume_rate_token_def b Let_def)
    moreover have "0 \<le> rate_limit_burst * ulp" by (simp add: rate_limit_burst_def)
    ultimately show ?thesis using r(1,2) room by (simp add: ws_bucket_ok_def)
  qed
qed

interpretation ws_limit: token_bucket ws_step "\<lambda>now. now" ws_room ws_bucket_ok
  "2 * (rate_limit_burst * ulp)"
proof
  fix b :: "rat \<times> int" and c e t :: int
  obtain ok b' where st: "ws_step e b = (ok, b')" by (cases "ws_step e b")
  show "ws_bucket_ok (snd (ws_step e b)) e" if "ws_bucket_ok b c" "c \<le> e"
    using ws_step_cases [OF that st] st by simp
  show "ws_room (snd (ws_step e b)) t + (if fst (ws_step e b) then 1 else 0)
      \<le> ws_room b t + 2 * (rate_limit_burst * ulp)" if "ws_bucket_ok b c" "c \<le> e" "e \<le> t"
    using ws_step_cases [OF that(1,2) st] st by (simp add: ws_room_def algebra_simps)
  show "0 \<le> ws_room b t" if "ws_bucket_ok b c" "c \<le> t"
    using that by (simp add: ws_room_def ws_bucket_ok_def gain_def rate_limit_refill_per_sec_def)
qed

text \<open>The keyed limiter with the time of its last call, as seen by one key.\<close>

definition key_step :: "rat \<Rightarrow> rat \<Rightarrow> string \<Rightarrow> string \<times> int \<Rightarrow> int \<times> buckets \<Rightarrow> bool \<times> (int \<times> buckets)" where
  "key_step burst rate key e s =
     (case allow burst rate (fst e) (snd e) (snd s) of
        ((ok, _), bs) \<Rightarrow> (ok \<and> fst e = key, (snd e, bs)))"

definition bucket_ok :: "rat \<Rightarrow> int \<Rightarrow> rat \<times> int \<Rightarrow> bool" where
  "bucket_ok burst c b \<longleftrightarrow> 0 \<le> fst b \<and> fst b \<le> burst \<and> 0 < snd b \<and> snd b \<le> c"

definition buckets_ok :: "rat \<Rightarrow> int \<times> buckets \<Rightarrow> int \<Rightarrow> bool" where
  "buckets_ok burst s c \<longleftrightarrow> 0 < fst s \<and> fst s \<le> c \<and> distinct (map fst (snd s))
     \<and> (\<forall>k b. map_of (snd s) k = Some b \<longrightarrow> bucket_ok burst (fst s) b)"

definition key_room :: "rat \<Rightarrow> rat \<Rightarrow> string \<Rightarrow> int \<times> buckets \<Rightarrow> int \<Rightarrow> rat" where
  "key_room burst rate key s t =
     (case map_of (snd s) key of
        None \<Rightarrow> burst + gain rate * of_int (t - fst s)
      | Some (tokens, lst) \<Rightarrow> tokens + gain rate * of_int (t - lst))"

lemma buckets_okD:
  "buckets_ok burst s c \<Longrightarrow> map_of (snd s) k = Some b \<Longrightarrow> bucket_ok burst (fst s) b"
  unfolding buckets_ok_def by blast

lemma map_of_filter_values:
  "distinct (map fst bs) \<Longrightarrow>
     map_of (filter (\<lambda>(_, b). P b) bs) k = (case map_of bs k of Some b \<Rightarrow> if P b then Some b else None | None \<Rightarrow> None)"
  by (induction bs) (auto split: option.splits simp: map_of_eq_None_iff image_iff)

lemma distinct_filter_keys: "distinct (map fst bs) \<Longrightarrow> distinct (map fst (filter P bs))"
  by (simp add: distinct_map_filter)

text \<open>What eviction keeps, with the rounding of one refill.\<close>

lemma evict_ok:
  assumes "buckets_ok burst (c0, bs) c" and "c \<le> now" and "0 \<le> rate"
  shows "buckets_ok burst (now, evict_idle burst rate now bs) now"
    and "now \<le> t \<Longrightarrow> 0 \<le> burst \<Longrightarrow> key_room burst rate key (now, evict_idle burst rate now bs) t
           \<le> key_room burst rate key (c0, bs) t + burst * ulp"
    and "map_of (evict_idle burst rate now bs) key = Some b \<Longrightarrow> map_of bs key = Some b"
proof -
  have d: "distinct (map fst bs)" using assms(1) by (simp add: buckets_ok_def)
  have m: "map_of (evict_idle burst rate now bs) k =
      (case map_of bs k of Some b \<Rightarrow> if \<not> burst \<le> refilled burst rate now b then Some b else None
                         | None \<Rightarrow> None)" for k
    unfolding evict_idle_def by (rule map_of_filter_values [OF d])
  show "buckets_ok burst (now, evict_idle burst rate now bs) now"
    using assms d m by (fastforce simp: buckets_ok_def evict_idle_def bucket_ok_def distinct_filter_keys
        split: option.splits if_splits)
  show "map_of (evict_idle burst rate now bs) key = Some b \<Longrightarrow> map_of bs key = Some b"
    using m by (auto split: option.splits if_splits)
  assume t: "now \<le> t" and burst: "0 \<le> burst"
  have bu: "0 \<le> burst * ulp" using burst by simp
  show "key_room burst rate key (now, evict_idle burst rate now bs) t
      \<le> key_room burst rate key (c0, bs) t + burst * ulp"
  proof (cases "map_of bs key")
    case None
    have "gain rate * of_int (t - now) \<le> gain rate * of_int (t - c0)"
      using assms gain_nonneg by (intro mult_left_mono) (auto simp: buckets_ok_def)
    then show ?thesis using None bu by (simp add: key_room_def m)
  next
    case (Some b)
    obtain tok lst where b: "b = (tok, lst)" by fastforce
    have "bucket_ok burst c0 b" using buckets_okD [OF assms(1), of key b] Some by simp
    then have ok: "lst \<le> now" "0 \<le> tok" "tok \<le> burst"
      using assms(1,2) by (auto simp: bucket_ok_def b buckets_ok_def)
    show ?thesis
    proof (cases "burst \<le> refilled burst rate now b")
      case True
      then have "burst \<le> tok + burst * ulp + gain rate * of_int (now - lst)"
        using refilled_bounds(3) [OF ok assms(3)] by (simp add: refilled_def b)
      then show ?thesis using True Some by (simp add: key_room_def m b algebra_simps)
    next
      case False
      then show ?thesis using Some bu by (simp add: key_room_def m b)
    qed
  qed
qed

text \<open>The bucket a call works on, and what it leaves: the part of \<open>allow\<close> after eviction.\<close>

definition touched :: "rat \<Rightarrow> rat \<Rightarrow> int \<Rightarrow> rat \<times> int \<Rightarrow> rat \<times> int" where
  "touched burst rate now b =
     (if snd b = 0 then (burst, now)
      else if elapsed_s now (snd b) > 0 then (refilled burst rate now b, now) else b)"

definition spent :: "rat \<times> int \<Rightarrow> rat \<times> int" where
  "spent b = (if fst b \<ge> 1 then (fl (fst b - 1), snd b) else b)"

lemma allow_step:
  "key_step burst rate key (k, now) (c0, bs) =
     (let bs1 = (if length bs > evict_threshold then evict_idle burst rate now bs else bs);
          b = touched burst rate now (case map_of bs1 k of Some b \<Rightarrow> b | None \<Rightarrow> (0, 0))
      in (fst b \<ge> 1 \<and> k = key, (now, AList.update k (spent b) bs1)))"
  by (simp add: key_step_def allow_def Let_def touched_def spent_def split: prod.splits)

lemma touched_ok:
  assumes "\<And>b'. ob = Some b' \<Longrightarrow> bucket_ok burst c b'" and "0 < now" and "c \<le> now" and "0 \<le> rate"
    and "0 \<le> burst" and b: "b = touched burst rate now (case ob of Some b \<Rightarrow> b | None \<Rightarrow> (0, 0))"
  shows "bucket_ok burst now b"
    and "now \<le> t \<Longrightarrow> fst b + gain rate * of_int (t - snd b) \<le>
           (case ob of None \<Rightarrow> burst + gain rate * of_int (t - now)
                     | Some (tok, lst) \<Rightarrow> tok + burst * ulp + gain rate * of_int (t - lst))"
proof -
  have "bucket_ok burst now b \<and> (now \<le> t \<longrightarrow> fst b + gain rate * of_int (t - snd b) \<le>
           (case ob of None \<Rightarrow> burst + gain rate * of_int (t - now)
                     | Some (tok, lst) \<Rightarrow> tok + burst * ulp + gain rate * of_int (t - lst)))"
  proof (cases ob)
    case None
    then show ?thesis using b assms(2,5) by (simp add: touched_def bucket_ok_def)
  next
    case (Some b')
    obtain tok lst where b': "b' = (tok, lst)" by fastforce
    have ok: "lst \<le> now" "0 \<le> tok" "tok \<le> burst" and pos: "0 < lst"
      using assms(1) [OF Some] assms(3) by (simp_all add: bucket_ok_def b')
    note r = refilled_bounds [OF ok assms(4)]
    have "refilled burst rate now (tok, lst) \<le> tok + burst * ulp + gain rate * of_int (now - lst)"
      using r(3) by (simp add: refilled_def min_le_iff_disj)
    moreover have "0 \<le> burst * ulp" using assms(5) by simp
    ultimately show ?thesis
      using b Some b' pos ok r(1,2) assms(2) by (auto simp: touched_def bucket_ok_def algebra_simps)
  qed
  then show "bucket_ok burst now b"
    and "now \<le> t \<Longrightarrow> fst b + gain rate * of_int (t - snd b) \<le>
           (case ob of None \<Rightarrow> burst + gain rate * of_int (t - now)
                     | Some (tok, lst) \<Rightarrow> tok + burst * ulp + gain rate * of_int (t - lst))"
    by blast+
qed

lemma spent_ok:
  assumes "bucket_ok burst c b" and "burst * ulp \<le> 1" and "0 \<le> burst"
  shows "bucket_ok burst c (spent b)"
    and "fst (spent b) + (if fst b \<ge> 1 then 1 else 0) \<le> fst b + burst * ulp"
    and "snd (spent b) = snd b"
  using spend_bounds [of "fst b" burst] assms by (auto simp: spent_def bucket_ok_def)

lemma key_step_ok:
  assumes ok: "buckets_ok burst (c0, bs) c" and now: "c \<le> now" and rate: "0 \<le> rate"
    and burst: "0 \<le> burst" "burst * ulp \<le> 1"
    and st: "key_step burst rate key (k, now) (c0, bs) = (a, s')"
  shows "buckets_ok burst s' now"
    and "now \<le> t \<Longrightarrow> key_room burst rate key s' t + (if a then 1 else 0)
           \<le> key_room burst rate key (c0, bs) t + 2 * (burst * ulp)"
proof -
  define bs1 where "bs1 = (if length bs > evict_threshold then evict_idle burst rate now bs else bs)"
  define ob where "ob = map_of bs1 k"
  define b where "b = touched burst rate now (case ob of Some b \<Rightarrow> b | None \<Rightarrow> (0, 0))"
  have s': "s' = (now, AList.update k (spent b) bs1)" and a: "a \<longleftrightarrow> fst b \<ge> 1 \<and> k = key"
    using st by (simp_all add: allow_step Let_def bs1_def ob_def b_def)
  have c0: "0 < c0" "c0 \<le> now" using ok now by (auto simp: buckets_ok_def)
  have bu: "0 \<le> burst * ulp" using burst by simp
  have ok0: "buckets_ok burst (now, bs) now"
    using ok c0 by (fastforce simp: buckets_ok_def bucket_ok_def)
  have ok1: "buckets_ok burst (now, bs1) now"
    using evict_ok(1) [OF ok now rate] ok0 by (simp add: bs1_def)
  have ob: "bucket_ok burst now b'" if "ob = Some b'" for b'
    using buckets_okD [OF ok1, of k b'] that by (simp add: ob_def)
  note t = touched_ok [OF ob _ _ rate burst(1) b_def]
  have bok: "bucket_ok burst now b" using t(1) c0 by simp
  note sp = spent_ok [OF bok burst(2,1)]
  show "buckets_ok burst s' now"
    using ok1 sp(1) c0 by (auto simp: s' buckets_ok_def update_conv distinct_update)
  assume le: "now \<le> t"
  have same: "key_room burst rate key (now, bs) t \<le> key_room burst rate key (c0, bs) t"
    using gain_nonneg [OF rate] c0 by (auto simp: key_room_def intro!: mult_left_mono split: option.splits)
  have ev: "key_room burst rate key (now, bs1) t \<le> key_room burst rate key (c0, bs) t +
      (if map_of bs1 key = None then burst * ulp else 0)"
  proof (cases "map_of bs1 key")
    case None
    then show ?thesis using evict_ok(2) [OF ok now rate le burst(1)] same bu by (auto simp: bs1_def)
  next
    case (Some x)
    then have "map_of bs key = Some x"
      using evict_ok(3) [OF ok now rate] by (auto simp: bs1_def split: if_splits)
    then show ?thesis using Some by (simp add: key_room_def)
  qed
  show "key_room burst rate key s' t + (if a then 1 else 0)
      \<le> key_room burst rate key (c0, bs) t + 2 * (burst * ulp)"
  proof (cases "k = key")
    case False
    then have "key_room burst rate key s' t = key_room burst rate key (now, bs1) t"
      by (simp add: key_room_def s' update_conv split: option.splits)
    then show ?thesis using False a ev bu by (auto split: if_splits)
  next
    case True
    have room': "key_room burst rate key s' t = fst (spent b) + gain rate * of_int (t - snd b)"
      using True sp(3) by (cases "spent b") (simp add: key_room_def s' update_conv)
    have "fst b + gain rate * of_int (t - snd b) \<le> key_room burst rate key (c0, bs) t + burst * ulp"
      using t(2) [of t] le c0 ev True bu
      by (auto simp: key_room_def [of _ _ _ "(now, bs1)"] ob_def split: option.splits prod.splits)
    then show ?thesis using sp(2) a True room' by simp
  qed
qed

locale limiter_rates =
  fixes burst rate :: rat and key :: string
  assumes rate_nonneg: "0 \<le> rate" and burst_nonneg: "0 \<le> burst" and burst_small: "burst * ulp \<le> 1"

sublocale limiter_rates \<subseteq> token_bucket "key_step burst rate key" snd "key_room burst rate key"
  "buckets_ok burst" "2 * (burst * ulp)"
proof
  fix s :: "int \<times> buckets" and c t :: int and e :: "string \<times> int"
  obtain c0 bs k now where s: "s = (c0, bs)" and e: "e = (k, now)" by fastforce
  obtain a s' where st: "key_step burst rate key (k, now) (c0, bs) = (a, s')"
    by (cases "key_step burst rate key (k, now) (c0, bs)")
  note ok = key_step_ok [OF _ _ rate_nonneg burst_nonneg burst_small st]
  show "buckets_ok burst (snd (key_step burst rate key e s)) (snd e)"
    if "buckets_ok burst s c" "c \<le> snd e"
    using ok(1) that by (simp add: s e st)
  show "key_room burst rate key (snd (key_step burst rate key e s)) t +
      (if fst (key_step burst rate key e s) then 1 else 0)
      \<le> key_room burst rate key s t + 2 * (burst * ulp)"
    if "buckets_ok burst s c" "c \<le> snd e" "snd e \<le> t"
    using ok(2) [of c t] that by (simp add: s e st)
  show "0 \<le> key_room burst rate key s t" if "buckets_ok burst s c" "c \<le> t"
  proof (cases "map_of (snd s) key")
    case None
    then show ?thesis using that gain_nonneg [OF rate_nonneg] burst_nonneg
      by (simp add: key_room_def buckets_ok_def)
  next
    case (Some b)
    have "fst s \<le> t" using that by (simp add: buckets_ok_def)
    then have "0 \<le> fst b" "0 \<le> gain rate * of_int (t - snd b)"
      using buckets_okD [OF that(1) Some] gain_nonneg [OF rate_nonneg] by (simp_all add: bucket_ok_def)
    then show ?thesis using Some by (cases b) (simp add: key_room_def)
  qed
qed

context limiter_rates
begin

lemma key_bound:
  "0 < c \<Longrightarrow> times_from snd c calls \<Longrightarrow> calls \<noteq> [] \<Longrightarrow>
     of_nat (allowed_in (key_step burst rate key) calls (c, []))
       \<le> burst + gain rate * of_int (snd (last calls) - c) + of_nat (length calls) * (2 * (burst * ulp))"
  using allowed_bound [of "(c, [])" c calls "snd (last calls)"]
  by (simp add: buckets_ok_def key_room_def)

end

section \<open>The limiter of the login routes\<close>

text \<open>
  \<open>auth_rate_limited\<close>: the local bucket of the client address, then the counter of the current
  window shared through Redis. \<open>shared\<close> is what \<open>incr_fixed_window\<close> counted, \<open>None\<close> when Redis is
  off or unreachable. The answer is the retry time in seconds of a refusal.
\<close>

record auth_limits =
  al_max_attempts :: int
  al_window_seconds :: int

definition auth_rate_limited ::
  "auth_limits \<Rightarrow> string \<Rightarrow> int \<Rightarrow> int option \<Rightarrow> buckets \<Rightarrow> int option \<times> buckets" where
  "auth_rate_limited cfg client_ip now shared bs =
     (if \<not> (al_max_attempts cfg > 0 \<and> al_window_seconds cfg > 0) \<or> client_ip = [] then (None, bs)
      else
        let burst = of_int (al_max_attempts cfg);
            refill = fl (burst / of_int (al_window_seconds cfg));
            (r, bs') = allow burst refill client_ip now bs
        in if \<not> fst r then (Some ((snd r + 999) div 1000), bs')
           else (case shared of
                   Some n \<Rightarrow> if n > al_max_attempts cfg then (Some (al_window_seconds cfg), bs')
                             else (None, bs')
                 | None \<Rightarrow> (None, bs')))"

text \<open>The limits of the configuration's defaults: ten attempts, refilled over a minute.\<close>

interpretation default_limiter: limiter_rates 10 "fl (10 / 60)" key for key
  by unfold_locales simp_all

section \<open>Properties\<close>

text \<open>C5: However a client spreads its attempts, the keyed limiter allows at most the burst plus what
  refills in the elapsed time, whatever other keys do and whichever buckets are evicted meanwhile;
  \<open>2 n burst 2^-53\<close> bounds the rounding of \<open>n\<close> calls.\<close>

theorem limiter_bound:
  assumes "0 \<le> rate" and "0 \<le> burst" and "burst * ulp \<le> 1" and "0 < c"
    and "times_from snd c calls" and "calls \<noteq> []"
  shows "of_nat (allowed_in (key_step burst rate key) calls (c, []))
    \<le> burst + gain rate * of_int (snd (last calls) - c) + of_nat (length calls) * (2 * (burst * ulp))"
proof -
  have "limiter_rates burst rate" using assms(1-3) by unfold_locales
  then show ?thesis using assms(4-6) by (rule limiter_rates.key_bound)
qed

lemma limiter_bound_witness:
  "of_nat (allowed_in (key_step 2 1 ''ip'') [(''ip'', 10), (''ip'', 20), (''other'', 20), (''ip'', 30)] (10, []))
    \<le> (2 :: rat) + gain 1 * of_int (30 - 10) + 4 * (2 * (2 * ulp))"
  using limiter_bound [of 1 2 10 "[(''ip'', 10), (''ip'', 20), (''other'', 20), (''ip'', 30)]" "''ip''"]
  by simp

text \<open>On one WebSocket connection the chat and typing messages let through up to a time are at most
  20 plus ten per second since the connection opened, up to the rounding of the calls.\<close>

theorem ws_limiter_bound:
  assumes "times_from (\<lambda>now. now) opened nows" and "nows \<noteq> []"
  shows "of_nat (allowed_in ws_step nows (20, opened))
    \<le> 20 + gain 10 * of_int (last nows - opened) + of_nat (length nows) * (2 * (20 * ulp))"
proof -
  have "ws_bucket_ok (20, opened) opened" by (simp add: ws_bucket_ok_def rate_limit_burst_def)
  from ws_limit.allowed_bound [OF this assms(1), of "last nows"] assms(2)
  show ?thesis by (simp add: ws_room_def rate_limit_burst_def rate_limit_refill_per_sec_def)
qed

lemma ws_limiter_bound_witness:
  "of_nat (allowed_in ws_step [5, 6, 7] (20, 5))
    \<le> 20 + gain 10 * of_int (7 - 5) + 3 * (2 * (20 * ulp))"
  using ws_limiter_bound [of 5 "[5, 6, 7]"] by simp

end
