(* ===== verification/Net_Config.thy ===== *)
theory Net_Config
  imports Prelude
begin

text \<open>
  Network configuration read from the environment: the Redis URL (\<open>redis/redis_url.h\<close>) and the list
  of allowed origins (\<open>handlers/cors_utils.h\<close> and \<open>.cpp\<close>).
\<close>

section \<open>The Redis URL\<close>

record redis_url =
  ru_host :: string
  ru_port :: int
  ru_username :: string
  ru_password :: string
  ru_use_tls :: bool

text \<open>\<open>strtol\<close> in base 10: the value (clamped to 64 bits) and what follows, \<open>None\<close> without digits.\<close>

definition strtol :: "string \<Rightarrow> (int \<times> string) option" where
  "strtol s =
     (let t = dropWhile is_space s;
          neg = (case t of c # _ \<Rightarrow> c = CHR ''-'' | [] \<Rightarrow> False);
          sgn = (case t of c # _ \<Rightarrow> c = CHR ''-'' \<or> c = CHR ''+'' | [] \<Rightarrow> False);
          u = (if sgn then tl t else t);
          ds = takeWhile is_digit u;
          v = (if neg then - int (digits_val ds) else int (digits_val ds))
      in if ds = [] then None else Some (max i64_min (min i64_max v), dropWhile is_digit u))"

definition before :: "char \<Rightarrow> string \<Rightarrow> string" where
  "before c s = takeWhile (\<lambda>d. d \<noteq> c) s"

definition after :: "char \<Rightarrow> string \<Rightarrow> string" where
  "after c s = tl (dropWhile (\<lambda>d. d \<noteq> c) s)"

definition before_last :: "char \<Rightarrow> string \<Rightarrow> string" where
  "before_last c s = rev (after c (rev s))"

definition after_last :: "char \<Rightarrow> string \<Rightarrow> string" where
  "after_last c s = rev (before c (rev s))"

text \<open>The part after the scheme: host and port behind an optional user and password.\<close>

definition parse_authority :: "bool \<Rightarrow> string \<Rightarrow> redis_url option" where
  "parse_authority tls rest0 =
     (let rest1 = before CHR ''/'' rest0 in
      if rest1 = [] then None
      else
        let has_user = CHR ''@'' \<in> set rest1;
            userinfo = (if has_user then before_last CHR ''@'' rest1 else []);
            rest = (if has_user then after_last CHR ''@'' rest1 else rest1);
            named = CHR '':'' \<in> set userinfo;
            username = (if named then before CHR '':'' userinfo else []);
            password = (if named then after CHR '':'' userinfo else userinfo);
            url = (\<lambda>host port. \<lparr>ru_host = host, ru_port = port, ru_username = username,
                     ru_password = password, ru_use_tls = tls\<rparr>)
        in if rest = [] then None
           else if CHR '':'' \<notin> set rest then Some (url rest 6379)
           else let host = before CHR '':'' rest; port_str = after CHR '':'' rest in
             if host = [] then None
             else if port_str = [] then None
             else case strtol port_str of
                    None \<Rightarrow> None
                  | Some (p, tail) \<Rightarrow>
                      if (case tail of [] \<Rightarrow> False | c # _ \<Rightarrow> c \<noteq> CHR 0x00) \<or> p \<le> 0 \<or> p > 65535
                      then None else Some (url host p))"

definition parse_redis_url :: "string \<Rightarrow> redis_url option" where
  "parse_redis_url url =
     (if starts_with ''rediss://'' url then parse_authority True (drop 9 url)
      else if starts_with ''redis://'' url then parse_authority False (drop 8 url)
      else None)"

text \<open>How an operator writes the URL of a server with a port.\<close>

definition render_redis_url :: "redis_url \<Rightarrow> string" where
  "render_redis_url u =
     (if ru_use_tls u then ''rediss://'' else ''redis://'')
     @ (if ru_username u = [] \<and> ru_password u = [] then []
        else ru_username u @ '':'' @ ru_password u @ ''@'')
     @ ru_host u @ '':'' @ int_str (ru_port u)"

definition url_parts_ok :: "redis_url \<Rightarrow> bool" where
  "url_parts_ok u \<longleftrightarrow> ru_host u \<noteq> [] \<and> 0 < ru_port u \<and> ru_port u \<le> 65535
     \<and> list_all (\<lambda>c. c \<notin> {CHR ''/'', CHR ''@'', CHR '':''}) (ru_host u)
     \<and> list_all (\<lambda>c. c \<notin> {CHR ''/'', CHR '':''}) (ru_username u)
     \<and> list_all (\<lambda>c. c \<noteq> CHR ''/'') (ru_password u)"

section \<open>Allowed origins\<close>

definition is_trim :: "char \<Rightarrow> bool" where
  "is_trim c \<longleftrightarrow> c = CHR '' '' \<or> c = CHR 0x09 \<or> c = CHR 0x0D \<or> c = CHR 0x0A"

definition trim :: "string \<Rightarrow> string" where
  "trim s = rev (dropWhile is_trim (rev (dropWhile is_trim s)))"

text \<open>\<open>getline\<close> up to a comma gives no last item when the text ends in one; an empty one is skipped anyway.\<close>

definition parse_allowed_origins :: "string option \<Rightarrow> string list" where
  "parse_allowed_origins env =
     (case env of
        None \<Rightarrow> []
      | Some v \<Rightarrow> filter (\<lambda>i. i \<noteq> []) (map trim (split_on CHR '','' v)))"

definition is_allowed_origin :: "string list \<Rightarrow> string \<Rightarrow> bool" where
  "is_allowed_origin allowed origin = (if origin = [] then False else list_ex (\<lambda>o'. o' = origin) allowed)"

text \<open>The headers \<open>cors::apply\<close> writes; none when it returns false.\<close>

definition cors_apply :: "string list \<Rightarrow> string \<Rightarrow> (string \<times> string) list" where
  "cors_apply allowed origin_header =
     (if origin_header = [] \<or> allowed = [] then []
      else case find (\<lambda>o'. o' = origin_header) allowed of
             Some o' \<Rightarrow> [(''Access-Control-Allow-Origin'', o'), (''Vary'', ''Origin''),
                        (''Access-Control-Allow-Credentials'', ''true'')]
           | None \<Rightarrow> [])"

section \<open>Lemmas\<close>

lemma before_append: "c \<notin> set s \<Longrightarrow> before c (s @ c # t) = s"
  by (induction s) (auto simp: before_def)

lemma after_append: "c \<notin> set s \<Longrightarrow> after c (s @ c # t) = t"
  by (induction s) (auto simp: after_def)

lemma before_id: "c \<notin> set s \<Longrightarrow> before c s = s"
  by (induction s) (auto simp: before_def)

lemma after_last_append: "c \<notin> set t \<Longrightarrow> after_last c (s @ c # t) = t"
  by (simp add: after_last_def before_append)

lemma before_last_append: "c \<notin> set t \<Longrightarrow> before_last c (s @ c # t) = s"
  by (simp add: before_last_def after_append)

lemma int_str_pos: "0 < p \<Longrightarrow> int_str p = nat_str (nat p)"
  by (simp add: int_str_def)

lemma strtol_int_str:
  assumes "0 < p" and "p \<le> i64_max"
  shows "strtol (int_str p) = Some (p, [])"
proof -
  obtain c cs where c: "nat_str (nat p) = c # cs" "is_digit c" using nat_str_hd_digit by blast
  have ds: "takeWhile is_digit (c # cs) = c # cs" "dropWhile is_digit (c # cs) = []"
    using c(1) by (metis nat_str_digits takeWhile_all_digits, metis c(1) nat_str_digits dropWhile_all_digits)
  have dw: "dropWhile is_space (c # cs) = c # cs" using digit_not_space [OF c(2)] by simp
  have v: "digits_val (c # cs) = nat p" using digits_val_nat_str [of "nat p"] c(1) by metis
  have neg: "(case c # cs of [] \<Rightarrow> False | d # _ \<Rightarrow> d = CHR ''-'') = False"
    and sgn: "(case c # cs of [] \<Rightarrow> False | d # _ \<Rightarrow> d = CHR ''-'' \<or> d = CHR ''+'') = False"
    using digit_not_sign [OF c(2)] by simp_all
  have m: "max i64_min (min i64_max (int (nat p))) = p" using assms by simp
  have ne: "(c # cs = []) = False" by simp
  show ?thesis
    unfolding strtol_def int_str_pos [OF assms(1)] c(1) Let_def dw neg sgn if_False ds v ne m
    by (rule refl)
qed

lemma port_free: "0 < p \<Longrightarrow> c \<in> set (int_str p) \<Longrightarrow> is_digit c"
  by (auto simp: int_str_pos nat_str_digits)

section \<open>Properties\<close>

text \<open>A Redis URL written from its parts (host, port, optional user and password without a slash,
  TLS or not) is parsed back to those parts, even when the password contains colons or at-signs.\<close>

theorem parse_redis_url_render:
  assumes "url_parts_ok u"
  shows "parse_redis_url (render_redis_url u) = Some u"
proof -
  define auth where "auth = (if ru_username u = [] \<and> ru_password u = [] then []
        else ru_username u @ '':'' @ ru_password u @ ''@'')"
  define hp where "hp = ru_host u @ '':'' @ int_str (ru_port u)"
  have ok: "ru_host u \<noteq> []" "0 < ru_port u" "ru_port u \<le> 65535"
    "CHR ''/'' \<notin> set (ru_host u)" "CHR ''@'' \<notin> set (ru_host u)" "CHR '':'' \<notin> set (ru_host u)"
    "CHR ''/'' \<notin> set (ru_username u)" "CHR '':'' \<notin> set (ru_username u)" "CHR ''/'' \<notin> set (ru_password u)"
    using assms unfolding url_parts_ok_def list_all_iff by blast+
  have port: "c \<notin> set (int_str (ru_port u))" if "\<not> is_digit c" for c
    using port_free [OF ok(2)] that by blast
  have hp_free: "CHR ''/'' \<notin> set hp" "CHR ''@'' \<notin> set hp" "CHR '':'' \<in> set hp" "hp \<noteq> []"
    using ok port by (auto simp: hp_def is_digit_def)
  have auth_free: "CHR ''/'' \<notin> set auth" using ok by (auto simp: auth_def)
  have b: "before CHR ''/'' (auth @ hp) = auth @ hp"
    using hp_free auth_free by (intro before_id) auto
  have host: "before CHR '':'' hp = ru_host u" "after CHR '':'' hp = int_str (ru_port u)"
    using ok by (simp_all add: hp_def before_append after_append)
  have ne [simp]: "int_str (ru_port u) \<noteq> []" using ok by (simp add: int_str_pos)
  have st: "strtol (int_str (ru_port u)) = Some (ru_port u, [])" using ok by (intro strtol_int_str) auto
  have "parse_authority (ru_use_tls u) (auth @ hp) = Some u"
  proof (cases "ru_username u = [] \<and> ru_password u = []")
    case True
    then have a: "auth = []" by (simp add: auth_def)
    then show ?thesis
      using True b hp_free ok host st by (simp add: parse_authority_def Let_def)
  next
    case False
    then have a: "auth @ hp = (ru_username u @ CHR '':'' # ru_password u) @ CHR ''@'' # hp"
      by (simp add: auth_def)
    have al: "after_last CHR ''@'' (auth @ hp) = hp"
      "before_last CHR ''@'' (auth @ hp) = ru_username u @ CHR '':'' # ru_password u"
      unfolding a by (rule after_last_append [OF hp_free(2)], rule before_last_append [OF hp_free(2)])
    have mem: "CHR ''@'' \<in> set (auth @ hp)" "auth @ hp \<noteq> []" unfolding a by simp_all
    show ?thesis
      unfolding parse_authority_def b Let_def al
      using mem hp_free ok host st before_append [OF ok(8)] after_append [OF ok(8)]
      by simp
  qed
  moreover have "render_redis_url u = (if ru_use_tls u then ''rediss://'' else ''redis://'') @ auth @ hp"
    by (simp add: render_redis_url_def auth_def hp_def)
  ultimately show ?thesis
    by (cases "ru_use_tls u") (simp_all add: parse_redis_url_def starts_with_def)
qed

lemma parse_redis_url_render_witness:
  "let u = \<lparr>ru_host = ''cache'', ru_port = 6380, ru_username = ''app'', ru_password = ''p@ss:word'',
             ru_use_tls = True\<rparr>
   in parse_redis_url (render_redis_url u) = Some u"
  unfolding Let_def by (rule parse_redis_url_render) (simp add: url_parts_ok_def)

end
