(* ===== verification/Ws_Handler.thy ===== *)
theory Ws_Handler
  imports Ws_Hub Listings Rate_Limit Http_Utils Net_Config
begin

text \<open>
  The protocol of the WebSocket handler (\<open>ws/ws_handler.cpp\<close>). A message is handled in up to three
  phases, as in the code: the callback on the event loop (\<open>handle_message\<close>), a task on the
  database thread pool (\<open>run_task\<close>), and the closure the task defers back to the loop
  (\<open>run_deferred\<close>). Between two phases anything else may happen. A task that throws is logged by
  the pool and defers nothing, but the transactions it already committed stay.

  Messages arrive as the JSON library parsed them; timestamps and identifiers in them are
  well-formed (PostgreSQL refuses others, and the task ends without effect). Fresh identifiers come
  from a supply \<open>ids\<close>.
\<close>

section \<open>Connecting\<close>

text \<open>The \<open>upgrade\<close> callback: the refusal, or the user data of the new socket.\<close>

definition ws_upgrade ::
  "string list \<Rightarrow> http_request \<Rightarrow> int \<Rightarrow> db \<Rightarrow> time \<Rightarrow> http_response + ws_user_data" where
  "ws_upgrade allowed req mono_now d now =
     (let origin = req_header req ''origin'' in
      if origin \<noteq> [] \<and> \<not> is_allowed_origin allowed origin
      then Inl \<lparr>resp_status = ''403'', resp_body = ''Forbidden origin''\<rparr>
      else case validate_session d now (extract_session_token req) of
        None \<Rightarrow> Inl \<lparr>resp_status = ''401'', resp_body = ''Unauthorized''\<rparr>
      | Some user_id \<Rightarrow>
          (case find_user_by_id d user_id of
             None \<Rightarrow> Inl \<lparr>resp_status = ''401'', resp_body = ''Unauthorized''\<rparr>
           | Some u \<Rightarrow>
               if is_server_locked_down d \<and> u_role u \<noteq> ''admin'' \<and> u_role u \<noteq> ''owner''
               then Inl \<lparr>resp_status = ''403'', resp_body = ''Server is in lockdown mode''\<rparr>
               else Inr \<lparr>wd_user_id = u_id u, wd_username = u_username u, wd_role = u_role u,
                         wd_rl_tokens = rate_limit_burst, wd_rl_last_refill = mono_now, wd_topics = []\<rparr>))"

section \<open>Inbound messages\<close>

datatype client_msg =
    CSend string string string
  | CEdit string string
  | CDelete string
  | CMarkRead string string time
  | CAddReaction string string
  | CRemoveReaction string string
  | CTyping string
  | CWikiJoin string
  | CWikiLeave string
  | CWikiRelay string string string
  | CPing
  | COther string
  | CMissing string string
  | CBad string

text \<open>\<open>type == "send_message" || type == "typing"\<close>; the fields are read only afterwards.\<close>

fun rate_limited :: "client_msg \<Rightarrow> bool" where
  "rate_limited (CSend _ _ _) = True"
| "rate_limited (CTyping _) = True"
| "rate_limited (CMissing ty _) = (ty = ''send_message'' \<or> ty = ''typing'')"
| "rate_limited _ = False"

definition handle_typing :: "nat \<Rightarrow> ws_user_data \<Rightarrow> string \<Rightarrow> hub \<Rightarrow> hub" where
  "handle_typing s d channel_id h =
     (let topic = ''channel:'' @ channel_id;
          f = FTyping channel_id (wd_user_id d) (wd_username d)
      in publish topic f (fan_out_except (\<lambda>s'. s' = s) topic f h))"

definition handle_wiki_relay :: "nat \<Rightarrow> ws_user_data \<Rightarrow> string \<Rightarrow> string \<Rightarrow> string \<Rightarrow> hub \<Rightarrow> hub" where
  "handle_wiki_relay s d type page_id body h =
     (let topic = ''wiki:'' @ page_id;
          f = FWikiRelay type page_id (wd_user_id d) (wd_username d) body
      in if topic \<notin> set (topics_of h s) then h
         else publish topic f (fan_out_except (\<lambda>s'. s' = s) topic f h))"

text \<open>The dispatch on the type; an exception becomes an error frame to the socket.\<close>

definition dispatch :: "nat \<Rightarrow> ws_user_data \<Rightarrow> client_msg \<Rightarrow> hub \<Rightarrow> hub" where
  "dispatch s d m h =
     (case m of
        CSend channel_id content reply_to \<Rightarrow>
          if content = [] then h
          else submit (TaskSend (wd_user_id d) (wd_username d) (wd_role d) channel_id content reply_to) h
      | CEdit message_id content \<Rightarrow>
          if content = [] then h else submit (TaskEdit (wd_user_id d) message_id content) h
      | CDelete message_id \<Rightarrow> submit (TaskDelete (wd_user_id d) (wd_role d) message_id) h
      | CMarkRead channel_id message_id timestamp \<Rightarrow>
          submit (TaskMarkRead (wd_user_id d) (wd_username d) channel_id message_id timestamp) h
      | CAddReaction message_id emoji \<Rightarrow>
          submit (TaskAddReaction (wd_user_id d) (wd_username d) message_id emoji) h
      | CRemoveReaction message_id emoji \<Rightarrow>
          submit (TaskRemoveReaction (wd_user_id d) (wd_username d) message_id emoji) h
      | CTyping channel_id \<Rightarrow> handle_typing s d channel_id h
      | CWikiJoin page_id \<Rightarrow> submit (TaskWikiJoin (wd_user_id d) page_id) h
      | CWikiLeave page_id \<Rightarrow> local_unsubscribe s (''wiki:'' @ page_id) h
      | CWikiRelay type page_id body \<Rightarrow> handle_wiki_relay s d type page_id body h
      | CPing \<Rightarrow> send s FPong h
      | COther _ \<Rightarrow> h
      | CMissing _ what \<Rightarrow> send s (FError what) h
      | CBad what \<Rightarrow> send s (FError what) h)"

definition handle_message :: "int \<Rightarrow> nat \<Rightarrow> client_msg \<Rightarrow> hub \<Rightarrow> hub" where
  "handle_message mono_now s m h =
     (case ws_data h s of
        None \<Rightarrow> h
      | Some d \<Rightarrow>
          if \<not> rate_limited m then dispatch s d m h
          else case consume_rate_token mono_now (wd_rl_tokens d, wd_rl_last_refill d) of
                 ((ok, retry), (tokens, lst)) \<Rightarrow>
                   (let h1 = update_ws_data s (\<lambda>d. d\<lparr>wd_rl_tokens := tokens, wd_rl_last_refill := lst\<rparr>) h
                    in if ok then dispatch s d m h1 else send s (FRateLimited retry) h1))"

section \<open>Tasks of the thread pool\<close>

datatype deferred =
    DOpened string "string list" frame frame frame
  | DSendToUser string frame
  | DBroadcast string frame
  | DSendResult "(string \<times> frame) list" string frame
  | DWikiJoin string string bool
  | DReadReceipt string string frame

text \<open>What a task leaves: the tables, the attachment blobs it removed, and the closure, if any.\<close>

type_synonym task_result = "db \<times> string list \<times> deferred option"

definition admin_subscription_cap :: nat where "admin_subscription_cap = 5000"

definition task_open :: "pg \<Rightarrow> db \<Rightarrow> time \<Rightarrow> string \<Rightarrow> string \<Rightarrow> task_result" where
  "task_open pg d now user_id username =
     (let d1 = set_user_online d now user_id True;
          is_admin = (case find_user_by_id d1 user_id of
                        Some u \<Rightarrow> is_admin_role (u_role u) | None \<Rightarrow> False);
          chs = list_user_channels d1 user_id @
                (if is_admin then list_all_channels pg d1 admin_subscription_cap 0 else []);
          sps = list_user_spaces pg d1 user_id @
                (if is_admin then list_all_spaces pg d1 admin_subscription_cap 0 else []);
          topics = map (\<lambda>c. ''channel:'' @ ch_id c) chs @ map (\<lambda>s. ''space:'' @ sp_id s) sps
      in (d1, [], Some (DOpened user_id topics
            (FUnreadCounts (get_unread_counts d1 user_id) (get_mention_unread_counts d1 user_id))
            (FNotificationCount (get_unread_notification_count d1 user_id))
            (FUserOnline user_id username))))"

definition task_offline :: "db \<Rightarrow> time \<Rightarrow> string \<Rightarrow> task_result" where
  "task_offline d now user_id =
     (let d1 = set_user_online d now user_id False;
          last_seen = (case find_user_by_id d1 user_id of Some u \<Rightarrow> u_last_seen u | None \<Rightarrow> None)
      in (d1, [], Some (DBroadcast ''presence'' (FUserOffline user_id last_seen))))"

definition task_wiki_join :: "db \<Rightarrow> string \<Rightarrow> string \<Rightarrow> task_result" where
  "task_wiki_join d user_id page_id =
     (d, [], Some (DWikiJoin user_id page_id (can_access_wiki_page d page_id user_id)))"

section \<open>Sending a message\<close>

definition preview_of :: "string \<Rightarrow> string" where
  "preview_of content = (if length content > 200 then take 200 content @ ''...'' else content)"

text \<open>
  The targets of the notifications in the order the code creates them, each with its type and the
  value of the \<open>channel_name\<close> field, which is the channel's id for \<open>@channel\<close>.
\<close>

definition mention_targets :: "string \<Rightarrow> string \<Rightarrow> member list \<Rightarrow> string list \<Rightarrow> (string \<times> string \<times> string) list" where
  "mention_targets sender channel_id members mentioned =
     concat (map (\<lambda>mention.
        if mention = ''@channel''
        then map (\<lambda>m. (fst m, ''mention'', channel_id)) (filter (\<lambda>m. fst m \<noteq> sender) members)
        else case first_row (filter (\<lambda>m. snd m = mention \<and> fst m \<noteq> sender) members) of
               Some m \<Rightarrow> [(fst m, ''mention'', '''')]
             | None \<Rightarrow> []) mentioned)"

definition reply_targets ::
  "db \<Rightarrow> string \<Rightarrow> string \<Rightarrow> member list \<Rightarrow> string list \<Rightarrow> (string \<times> string \<times> string) list" where
  "reply_targets d sender reply_to members mentioned =
     (if reply_to = [] then []
      else case get_message_ownership d reply_to of
             None \<Rightarrow> []
           | Some (_, owner) \<Rightarrow>
               if owner = sender then []
               else if list_ex (\<lambda>mention. list_ex (\<lambda>m. snd m = mention \<and> fst m = owner) members) mentioned
               then [] else [(owner, ''reply'', '''')])"

definition already_notified ::
  "db \<Rightarrow> string \<Rightarrow> string \<Rightarrow> member list \<Rightarrow> string list \<Rightarrow> string \<Rightarrow> bool" where
  "already_notified d sender reply_to members mentioned target =
     (list_ex (\<lambda>mention. list_ex (\<lambda>m. (mention = ''@channel'' \<or> snd m = mention)
           \<and> fst m \<noteq> sender \<and> fst m = target) members) mentioned
      \<or> (reply_to \<noteq> [] \<and> (case get_message_ownership d reply_to of
            Some (_, owner) \<Rightarrow> owner \<noteq> sender \<and> owner = target | None \<Rightarrow> False)))"

definition dm_targets ::
  "db \<Rightarrow> channel option \<Rightarrow> string \<Rightarrow> string \<Rightarrow> member list \<Rightarrow> string list \<Rightarrow> (string \<times> string \<times> string) list" where
  "dm_targets d ch sender reply_to members mentioned =
     (if (case ch of Some c \<Rightarrow> ch_is_direct c | None \<Rightarrow> False)
      then map (\<lambda>m. (fst m, ''direct_message'', ''''))
             (filter (\<lambda>m. fst m \<noteq> sender \<and> \<not> already_notified d sender reply_to members mentioned (fst m))
               members)
      else [])"

text \<open>
  Creating them one by one: the tables after the last success, and the frames unless one failed.
\<close>

fun notify_all ::
  "pg \<Rightarrow> (nat \<Rightarrow> string) \<Rightarrow> time \<Rightarrow> string \<Rightarrow> string \<Rightarrow> string \<Rightarrow> string \<Rightarrow> string \<Rightarrow> nat \<Rightarrow> db
     \<Rightarrow> (string \<times> string \<times> string) list \<Rightarrow> db \<times> (string \<times> frame) list option" where
  "notify_all pg ids now sender sname channel_id msg_id preview k d [] = (d, Some [])"
| "notify_all pg ids now sender sname channel_id msg_id preview k d ((target, type, cname) # rest) =
     (case create_notification (pg_encodable pg) d (ids k) now target type sender channel_id msg_id preview of
        Inl _ \<Rightarrow> (d, None)
      | Inr (nid, d1) \<Rightarrow>
          (case notify_all pg ids now sender sname channel_id msg_id preview (Suc k) d1 rest of
             (d2, None) \<Rightarrow> (d2, None)
           | (d2, Some fs) \<Rightarrow>
               (d2, Some ((target, FNewNotification nid target type sender sname channel_id cname
                             msg_id preview now) # fs))))"

definition all_targets ::
  "db \<Rightarrow> channel option \<Rightarrow> string \<Rightarrow> string \<Rightarrow> string \<Rightarrow> member list \<Rightarrow> string list \<Rightarrow> (string \<times> string \<times> string) list" where
  "all_targets d ch sender channel_id reply_to members mentioned =
     mention_targets sender channel_id members mentioned
     @ reply_targets d sender reply_to members mentioned
     @ dm_targets d ch sender reply_to members mentioned"

text \<open>After the message is stored: mentions, notifications, and the broadcast to the channel.\<close>

definition announce_message ::
  "pg \<Rightarrow> (nat \<Rightarrow> string) \<Rightarrow> time \<Rightarrow> string \<Rightarrow> string \<Rightarrow> string \<Rightarrow> string \<Rightarrow> string
     \<Rightarrow> channel option \<Rightarrow> message_view \<Rightarrow> db \<Rightarrow> task_result" where
  "announce_message pg ids now user_id username channel_id content reply_to ch msg d =
     (let members = get_channel_member_usernames d channel_id;
          mentioned = parse_mentions content members;
          msg_id = m_id (mv_row msg)
      in case (if mentioned \<noteq> [] then store_mentions d msg_id channel_id content members user_id else Inr d) of
           Inl _ \<Rightarrow> (d, [], None)
         | Inr d1 \<Rightarrow>
             (case notify_all pg ids now user_id username channel_id msg_id (preview_of content) 1 d1
                     (all_targets d1 ch user_id channel_id reply_to members mentioned) of
                (d2, None) \<Rightarrow> (d2, [], None)
              | (d2, Some notifs) \<Rightarrow>
                  (d2, [], Some (DSendResult notifs channel_id (FNewMessage msg mentioned)))))"

definition task_send ::
  "pg \<Rightarrow> db \<Rightarrow> (nat \<Rightarrow> string) \<Rightarrow> time \<Rightarrow> string \<Rightarrow> string \<Rightarrow> string \<Rightarrow> string \<Rightarrow> string \<Rightarrow> task_result" where
  "task_send pg d ids now user_id username channel_id content reply_to =
     (if is_server_archived d
      then (d, [], Some (DSendToUser user_id (FError ''Server is archived. No new content can be created.'')))
      else
        let ch = find_channel_by_id d channel_id in
        if (case ch of Some c \<Rightarrow> ch_is_archived c | None \<Rightarrow> False)
        then (d, [], Some (DSendToUser user_id (FError ''This channel is archived'')))
        else
          let role = get_effective_role d channel_id user_id in
          if role = [] then (d, [], Some (DSendToUser user_id (FError ''Not a member of this channel'')))
          else if role = ''read''
          then (d, [], Some (DSendToUser user_id
                  (FError ([CHR ''Y'', CHR ''o'', CHR ''u'', CHR '' '', CHR ''d'', CHR ''o'', CHR ''n'', CHR 0x27]
                    @ ''t have permission to send messages in this channel''))))
          else case create_message (pg_left200 pg) d (ids 0) now channel_id user_id content reply_to of
                 Inl _ \<Rightarrow> (d, [], None)
               | Inr (msg, d1) \<Rightarrow>
                   announce_message pg ids now user_id username channel_id content reply_to ch msg d1)"

section \<open>The other tasks\<close>

definition task_edit :: "pg \<Rightarrow> db \<Rightarrow> time \<Rightarrow> string \<Rightarrow> string \<Rightarrow> string \<Rightarrow> task_result" where
  "task_edit pg d now user_id message_id content =
     (case edit_message (pg_left200 pg) d now message_id user_id content of
        Inl _ \<Rightarrow> (d, [], None)
      | Inr (v, d1) \<Rightarrow> (d1, [], Some (DBroadcast (''channel:'' @ m_channel_id (mv_row v)) (FMessageEdited v))))"

definition no_delete_permission :: frame where
  "no_delete_permission =
     FError (''You don'' @ [CHR 0x27] @ ''t have permission to delete this message'')"

definition after_delete :: "message_view \<Rightarrow> db \<Rightarrow> task_result" where
  "after_delete v d1 =
     (d1, (if m_file_id (mv_row v) \<noteq> [] then [m_file_id (mv_row v)] else []),
      Some (DBroadcast (''channel:'' @ m_channel_id (mv_row v)) (FMessageDeleted v)))"

definition task_delete :: "pg \<Rightarrow> db \<Rightarrow> string \<Rightarrow> string \<Rightarrow> string \<Rightarrow> task_result" where
  "task_delete pg d user_id user_role message_id =
     (case get_message_ownership d message_id of
        None \<Rightarrow> (d, [], Some (DSendToUser user_id (FError ''Message not found'')))
      | Some (channel_id, owner) \<Rightarrow>
          if owner = user_id
          then case delete_message (pg_left200 pg) d message_id user_id of
                 Inl _ \<Rightarrow> (d, [], None)
               | Inr (v, d1) \<Rightarrow> after_delete v d1
          else
            let effective = get_effective_role d channel_id user_id in
            if effective \<noteq> ''admin'' \<and> effective \<noteq> ''owner''
            then (d, [], Some (DSendToUser user_id no_delete_permission))
            else if (case find_user_by_id d owner of
                       Some author \<Rightarrow> u_role author = ''owner'' \<or> (u_role author = ''admin'' \<and> user_role \<noteq> ''owner'')
                     | None \<Rightarrow> False)
            then (d, [], Some (DSendToUser user_id no_delete_permission))
            else case admin_delete_message (pg_left200 pg) d message_id of
                   Inl _ \<Rightarrow> (d, [], None)
                 | Inr (v, d1) \<Rightarrow> after_delete v d1)"

definition task_mark_read :: "db \<Rightarrow> string \<Rightarrow> string \<Rightarrow> string \<Rightarrow> string \<Rightarrow> time \<Rightarrow> task_result" where
  "task_mark_read d user_id username channel_id message_id timestamp =
     (case update_read_state d channel_id user_id message_id timestamp of
        Inl _ \<Rightarrow> (d, [], None)
      | Inr d1 \<Rightarrow> (d1, [], Some (DReadReceipt user_id channel_id
          (FReadReceipt channel_id user_id username message_id timestamp))))"

definition task_add_reaction :: "db \<Rightarrow> time \<Rightarrow> string \<Rightarrow> string \<Rightarrow> string \<Rightarrow> string \<Rightarrow> task_result" where
  "task_add_reaction d now user_id username message_id emoji =
     (case get_message_channel_id d message_id of
        Inl _ \<Rightarrow> (d, [], None)
      | Inr channel_id \<Rightarrow>
          (case add_reaction d now message_id user_id emoji of
             Inl _ \<Rightarrow> (d, [], None)
           | Inr d1 \<Rightarrow> (d1, [], Some (DBroadcast (''channel:'' @ channel_id)
               (FReactionAdded message_id channel_id emoji user_id username)))))"

definition task_remove_reaction :: "db \<Rightarrow> string \<Rightarrow> string \<Rightarrow> string \<Rightarrow> string \<Rightarrow> task_result" where
  "task_remove_reaction d user_id username message_id emoji =
     (case get_message_channel_id d message_id of
        Inl _ \<Rightarrow> (d, [], None)
      | Inr channel_id \<Rightarrow>
          (remove_reaction d message_id user_id emoji, [], Some (DBroadcast (''channel:'' @ channel_id)
             (FReactionRemoved message_id channel_id emoji user_id username))))"

definition run_task :: "pg \<Rightarrow> (nat \<Rightarrow> string) \<Rightarrow> time \<Rightarrow> pool_task \<Rightarrow> db \<Rightarrow> task_result" where
  "run_task pg ids now t d =
     (case t of
        TaskOpen u n \<Rightarrow> task_open pg d now u n
      | TaskOffline u \<Rightarrow> task_offline d now u
      | TaskWikiJoin u p \<Rightarrow> task_wiki_join d u p
      | TaskSend u n r c x rep \<Rightarrow> task_send pg d ids now u n c x rep
      | TaskEdit u m x \<Rightarrow> task_edit pg d now u m x
      | TaskDelete u r m \<Rightarrow> task_delete pg d u r m
      | TaskMarkRead u n c m ts \<Rightarrow> task_mark_read d u n c m ts
      | TaskAddReaction u n m e \<Rightarrow> task_add_reaction d now u n m e
      | TaskRemoveReaction u n m e \<Rightarrow> task_remove_reaction d u n m e)"

section \<open>Closures back on the event loop\<close>

definition run_deferred :: "deferred \<Rightarrow> hub \<Rightarrow> hub" where
  "run_deferred a h =
     (case a of
        DOpened u topics counts notif online \<Rightarrow>
          if user_socks h u = [] then h
          else broadcast_to_topic ''presence'' online
                 (fold (\<lambda>s h. send s notif (send s counts (fold (local_subscribe s) topics h)))
                   (user_socks h u) h)
      | DSendToUser u f \<Rightarrow> send_to_user u f h
      | DBroadcast t f \<Rightarrow> broadcast_to_topic t f h
      | DSendResult notifs c f \<Rightarrow>
          broadcast_to_topic (''channel:'' @ c) f (fold (\<lambda>(u, nf). send_to_user u nf) notifs h)
      | DWikiJoin u page allowed \<Rightarrow>
          if \<not> allowed then send_to_user u (FWikiDenied page) h
          else local_subscribe_user u (''wiki:'' @ page) h
      | DReadReceipt u c f \<Rightarrow>
          let topic = ''channel:'' @ c in
          publish topic f (fan_out_except (\<lambda>s. s \<in> set (user_socks h u)) topic f h))"

end
