(* ===== verification/Server.thy ===== *)
theory Server
  imports Ws_Props
begin

text \<open>
  One instance as a transition system: the tables, the hub, the pool's tasks and the closures
  deferred to the loop. Any submitted task may run next (several workers take them), deferred
  closures run in order, HTTP handlers and other instances may change the tables in any way and may
  subscribe sockets to channel and space topics (never to a wiki topic), and messages arrive from
  any open socket at any time. \<open>granted\<close> records, as a ghost, which user was allowed which wiki page
  when a \<open>wiki_join\<close> task checked it.
\<close>

section \<open>Steps\<close>

definition wiki_topic :: "string \<Rightarrow> bool" where
  "wiki_topic t \<longleftrightarrow> starts_with ''wiki:'' t"

record server =
  sv_db :: db
  sv_hub :: hub
  sv_deferred :: "deferred list"
  granted :: "(string \<times> string) list"

text \<open>What HTTP handlers and the subscriber thread make the hub do.\<close>

inductive outside_op :: "hub \<Rightarrow> hub \<Rightarrow> bool" where
  subscribe_channel: "outside_op h (subscribe_user_to_channel u c h)"
| unsubscribe_channel: "outside_op h (unsubscribe_user_from_channel u c h)"
| admins_channel: "outside_op h (subscribe_admins_to_channel c h)"
| subscribe_space: "outside_op h (subscribe_user_to_space u sp h)"
| unsubscribe_space: "outside_op h (unsubscribe_user_from_space u sp h)"
| admins_space: "outside_op h (subscribe_admins_to_space sp h)"
| to_channel: "outside_op h (broadcast_to_channel c f h)"
| to_space: "outside_op h (broadcast_to_space sp f h)"
| to_presence: "outside_op h (broadcast_to_presence f h)"
| to_user: "outside_op h (send_to_user u f h)"
| ban: "outside_op h (disconnect_user u h)"
| lockdown: "outside_op h (disconnect_non_admins m h)"
| shutdown: "outside_op h (close_all h)"
| remote: "(\<forall>u t. f = FControl (CtrlSubscribe u t) \<longrightarrow> \<not> wiki_topic t) \<Longrightarrow>
     (\<forall>t. f = FControl (CtrlSubscribeAdmins t) \<longrightarrow> \<not> wiki_topic t) \<Longrightarrow>
     outside_op h (on_redis_message t f h)"

inductive server_step :: "server \<Rightarrow> server \<Rightarrow> bool" where
  connect: "ws_upgrade allowed req mtime (sv_db s) now = Inr ud \<Longrightarrow> ws_data (sv_hub s) k = None \<Longrightarrow>
     server_step s (s\<lparr>sv_hub := ws_open k ud (sv_hub s)\<rparr>)"
| disconnect: "server_step s (s\<lparr>sv_hub := ws_close k (sv_hub s)\<rparr>)"
| message: "server_step s (s\<lparr>sv_hub := handle_message mtime k m (sv_hub s)\<rparr>)"
| task: "tk \<in> set (h_submitted (sv_hub s)) \<Longrightarrow> run_task pg ids now tk (sv_db s) = (d', removed, a) \<Longrightarrow>
     server_step s (s\<lparr>sv_db := d',
       sv_hub := (sv_hub s)\<lparr>h_submitted := remove1 tk (h_submitted (sv_hub s))\<rparr>,
       sv_deferred := sv_deferred s @ (case a of None \<Rightarrow> [] | Some x \<Rightarrow> [x]),
       granted := (case a of Some (DWikiJoin u p True) \<Rightarrow> (u, p) # granted s | _ \<Rightarrow> granted s)\<rparr>)"
| deferred: "sv_deferred s = a # rest \<Longrightarrow>
     server_step s (s\<lparr>sv_hub := run_deferred a (sv_hub s), sv_deferred := rest\<rparr>)"
| outside: "outside_op (sv_hub s) h' \<Longrightarrow> server_step s (s\<lparr>sv_hub := h'\<rparr>)"
| tables: "server_step s (s\<lparr>sv_db := d'\<rparr>)"

inductive server_reachable :: "server \<Rightarrow> bool" where
  boot: "server_reachable \<lparr>sv_db = d, sv_hub = empty_hub redis, sv_deferred = [], granted = []\<rparr>"
| step: "server_reachable s \<Longrightarrow> server_step s s' \<Longrightarrow> server_reachable s'"

inductive_cases task_stepE: "server_step s s'"

section \<open>No operation but a granted join adds a wiki subscription\<close>

text \<open>\<open>calm h h'\<close>: consistent, and every wiki subscription of \<open>h'\<close> was there in \<open>h\<close>, same user.\<close>

definition calm :: "hub \<Rightarrow> hub \<Rightarrow> bool" where
  "calm h h' \<longleftrightarrow> hub_ok h' \<and> (\<forall>k t. wiki_topic t \<and> t \<in> set (topics_of h' k) \<longrightarrow>
     t \<in> set (topics_of h k) \<and> map_option wd_user_id (ws_data h' k) = map_option wd_user_id (ws_data h k))"

lemma calm_refl: "hub_ok h \<Longrightarrow> calm h h"
  by (simp add: calm_def)

lemma calm_trans: "calm h h' \<Longrightarrow> calm h' h'' \<Longrightarrow> calm h h''"
  unfolding calm_def by metis

lemma calm_ok: "calm h h' \<Longrightarrow> hub_ok h'"
  by (simp add: calm_def)

lemma calm_same_data:
  "hub_ok h' \<Longrightarrow> (\<And>k. ws_data h' k = ws_data h k) \<Longrightarrow> calm h h'"
  by (simp add: calm_def topics_of_def)

lemma calm_fold:
  assumes "hub_ok h" and "\<And>x h'. x \<in> set xs \<Longrightarrow> calm h h' \<Longrightarrow> calm h' (f x h')"
  shows "calm h (fold f xs h)"
proof -
  have "calm h (fold f ys h')" if "set ys \<subseteq> set xs" "calm h h'" for ys h'
    using that
  proof (induction ys arbitrary: h')
    case (Cons y ys)
    then have "calm h (f y h')" using assms(2) [of y h'] calm_trans by auto
    then show ?case using Cons by simp
  qed simp
  then show ?thesis using calm_refl [OF assms(1)] by simp
qed

lemma sent_data [simp]: "ws_data (send k f h) k' = ws_data h k'"
  by (simp add: ws_data_def)

lemma calm_send: "hub_ok h \<Longrightarrow> calm h (send k f h)"
  by (rule calm_same_data) simp_all

lemma calm_publish: "hub_ok h \<Longrightarrow> calm h (publish t f h)"
  by (rule calm_same_data) simp_all

lemma calm_submit: "hub_ok h \<Longrightarrow> calm h (submit tk h)"
  by (rule calm_same_data, simp, simp add: submit_def ws_data_def)

lemma calm_broadcast: "hub_ok h \<Longrightarrow> calm h (broadcast_to_topic t f h)"
  by (rule calm_same_data) (simp_all add: broadcast_to_topic_def fan_out_eq)

lemma calm_fan_out: "hub_ok h \<Longrightarrow> calm h (local_fan_out t f h)"
  by (rule calm_same_data) (simp_all add: fan_out_eq)

lemma calm_fan_out_except: "hub_ok h \<Longrightarrow> calm h (fan_out_except skip t f h)"
  by (rule calm_same_data) (simp_all add: fan_out_except_eq)

lemma calm_unsubscribe: "hub_ok h \<Longrightarrow> ws_data h k \<noteq> None \<Longrightarrow> calm h (local_unsubscribe k t h)"
  unfolding calm_def
  by (auto simp: hub_ok_unsubscribe topics_of_def option.map_comp comp_def split: option.splits if_splits)

lemma calm_subscribe:
  "hub_ok h \<Longrightarrow> ws_data h k \<noteq> None \<Longrightarrow> \<not> wiki_topic t \<Longrightarrow> calm h (local_subscribe k t h)"
  unfolding calm_def
  by (auto simp: hub_ok_subscribe topics_of_def option.map_comp comp_def split: option.splits if_splits)

lemma calm_close: "hub_ok h \<Longrightarrow> calm h (ws_close k h)"
  unfolding calm_def
  by (auto simp: hub_ok_close topics_of_def ws_close_data split: option.splits if_splits)

lemma calm_subscribe_user: 
  assumes "hub_ok h" and "\<not> wiki_topic t"
  shows "calm h (local_subscribe_user u t h)"
proof -
  have "hub_ok (fold (\<lambda>s. local_subscribe s t) xs h') \<and> same_sockets h (fold (\<lambda>s. local_subscribe s t) xs h')
      \<and> calm h (fold (\<lambda>s. local_subscribe s t) xs h')"
    if "set xs \<subseteq> set (user_socks h u)" "hub_ok h' \<and> same_sockets h h' \<and> calm h h'" for xs h'
    using that
  proof (induction xs arbitrary: h')
    case (Cons x xs)
    then have "ws_data h' x \<noteq> None" using user_sock_still_open assms(1) by auto
    then show ?case using Cons assms(2)
      by (auto intro!: Cons.IH hub_ok_subscribe same_sockets_subscribe calm_trans [OF _ calm_subscribe])
  qed simp
  then show ?thesis unfolding local_subscribe_user_def using assms calm_refl by simp
qed

lemma calm_unsubscribe_user:
  assumes "hub_ok h"
  shows "calm h (local_unsubscribe_user u t h)"
proof -
  have "calm h (fold (\<lambda>s. local_unsubscribe s t) xs h') \<and> same_sockets h (fold (\<lambda>s. local_unsubscribe s t) xs h')"
    if "set xs \<subseteq> set (user_socks h u)" "calm h h' \<and> same_sockets h h'" for xs h'
    using that
  proof (induction xs arbitrary: h')
    case (Cons x xs)
    then have "ws_data h' x \<noteq> None" using user_sock_still_open assms(1) by auto
    then have "calm h (local_unsubscribe x t h')"
      using Cons.prems calm_trans calm_unsubscribe calm_ok by blast
    then show ?case using Cons by (simp add: same_sockets_unsubscribe)
  qed simp
  then show ?thesis unfolding local_unsubscribe_user_def using assms calm_refl by simp
qed

lemma calm_subscribe_admins:
  assumes "hub_ok h" and "\<not> wiki_topic t"
  shows "calm h (local_subscribe_admins t h)"
  unfolding local_subscribe_admins_def
proof (rule calm_fold [OF assms(1)])
  fix x h' assume "calm h h'"
  then show "calm h' (case ws_data h' x of Some d \<Rightarrow> if is_admin_data d then local_subscribe x t h' else h' | None \<Rightarrow> h')"
    using assms(2) calm_ok [of h h'] calm_refl [of h'] calm_subscribe [of h' x t]
    by (auto split: option.splits)
qed

lemma calm_close_fold: "hub_ok h \<Longrightarrow> calm h (fold ws_close ss h)"
  by (rule calm_fold) (auto intro: calm_close calm_ok)

lemma calm_send_fold: "hub_ok h \<Longrightarrow> calm h (fold (\<lambda>s. send s f) ss h)"
  by (rule calm_fold) (auto intro: calm_send calm_ok)

lemma calm_disconnect_non_admins: "hub_ok h \<Longrightarrow> calm h (local_disconnect_non_admins m h)"
  unfolding local_disconnect_non_admins_def Let_def
  by (cases m) (auto intro: calm_close_fold calm_trans [OF calm_send_fold calm_close_fold]
      simp: hub_ok_fold_send)

lemma calm_open:
  assumes "hub_ok h" and "ws_data h k = None" and "wd_topics d = []"
  shows "calm h (ws_open k d h)"
proof -
  have "topics_of (ws_open k d h) k' =
      (if k' = k then List.insert (''user:'' @ wd_user_id d) [''presence''] else topics_of h k')"
    and "k' \<noteq> k \<Longrightarrow> ws_data (ws_open k d h) k' = ws_data h k'" for k'
    using assms(3) by (simp_all add: ws_open_def Let_def topics_of_def submit_def ws_data_def
        [of "x\<lparr>h_submitted := y\<rparr>" for x y] ws_data_def [symmetric, of "local_subscribe a b c" for a b c])
      (simp_all add: ws_data_def)
  moreover have "\<not> wiki_topic ''presence''" "\<not> wiki_topic (''user:'' @ u)" for u
    by (simp_all add: wiki_topic_def starts_with_iff)
  ultimately show ?thesis
    using hub_ok_open [OF assms] by (auto simp: calm_def split: if_splits)
qed

lemma not_wiki: "\<not> wiki_topic (''channel:'' @ c)" "\<not> wiki_topic (''space:'' @ c)"
  by (simp_all add: wiki_topic_def starts_with_iff)

lemma calm_control:
  "hub_ok h \<Longrightarrow> (\<forall>u t. c = CtrlSubscribe u t \<longrightarrow> \<not> wiki_topic t) \<Longrightarrow>
     (\<forall>t. c = CtrlSubscribeAdmins t \<longrightarrow> \<not> wiki_topic t) \<Longrightarrow> calm h (handle_control c h)"
  by (cases c) (auto simp: handle_control_def local_disconnect_user_def
      intro: calm_subscribe_user calm_unsubscribe_user calm_subscribe_admins calm_close_fold
        calm_disconnect_non_admins)

lemma calm_then_publish: "calm h h' \<Longrightarrow> calm h (publish t f h')"
  using calm_trans calm_publish calm_ok by blast

lemma calm_outside: "outside_op h h' \<Longrightarrow> hub_ok h \<Longrightarrow> calm h h'"
  by (induction rule: outside_op.induct)
    (auto simp: subscribe_user_to_channel_def unsubscribe_user_from_channel_def
      subscribe_admins_to_channel_def subscribe_user_to_space_def unsubscribe_user_from_space_def
      subscribe_admins_to_space_def broadcast_to_channel_def broadcast_to_space_def
      broadcast_to_presence_def send_to_user_def disconnect_user_def disconnect_non_admins_def
      publish_control_def local_disconnect_user_def close_all_def on_redis_message_def Let_def
      not_wiki [simplified]
      split: frame.splits
      intro!: calm_then_publish
      intro: calm_subscribe_user calm_unsubscribe_user calm_subscribe_admins calm_broadcast
        calm_close_fold calm_disconnect_non_admins calm_fan_out calm_control calm_refl)

lemma calm_rate: "hub_ok h \<Longrightarrow>
  calm h (update_ws_data k (\<lambda>d. d\<lparr>wd_rl_tokens := a, wd_rl_last_refill := b\<rparr>) h)"
proof -
  assume ok: "hub_ok h"
  let ?h = "update_ws_data k (\<lambda>d. d\<lparr>wd_rl_tokens := a, wd_rl_last_refill := b\<rparr>) h"
  have t: "topics_of ?h k' = topics_of h k'" for k'
    by (simp add: topics_of_def split: option.splits)
  have u: "map_option wd_user_id (ws_data ?h k') = map_option wd_user_id (ws_data h k')" for k'
    by (cases "ws_data h k") (simp_all add: option.map_comp comp_def)
  have "hub_ok ?h"
    using ok unfolding hub_ok_def t u by (simp add: subscribers_def user_socks_def)
  then show ?thesis unfolding calm_def t u by blast
qed

lemma calm_dispatch:
  assumes "hub_ok h" and "ws_data h k \<noteq> None"
  shows "calm h (dispatch k d m h)"
  using assms
  by (cases m) (auto simp: dispatch_def handle_typing_def handle_wiki_relay_def Let_def
      intro: calm_refl calm_submit calm_send calm_unsubscribe calm_then_publish calm_fan_out_except)

lemma calm_message: "hub_ok h \<Longrightarrow> calm h (handle_message now k m h)"
proof -
  assume ok: "hub_ok h"
  show ?thesis
  proof (cases "ws_data h k")
    case None
    then show ?thesis using calm_refl [OF ok] by (simp add: handle_message_def)
  next
    case (Some d)
    obtain ok' retry tok lst where c: "consume_rate_token now (wd_rl_tokens d, wd_rl_last_refill d) = ((ok', retry), (tok, lst))"
      by (metis surj_pair)
    let ?h = "update_ws_data k (\<lambda>d. d\<lparr>wd_rl_tokens := tok, wd_rl_last_refill := lst\<rparr>) h"
    have r: "calm h ?h" using calm_rate [OF ok] .
    have "ws_data ?h k \<noteq> None" using Some by simp
    then have "calm h (dispatch k d m ?h)" and "calm h (send k (FRateLimited retry) ?h)"
      using calm_trans [OF r] calm_dispatch calm_send calm_ok [OF r] by blast+
    then show ?thesis using Some c calm_dispatch [OF ok, of k d m]
      by (auto simp: handle_message_def Let_def)
  qed
qed

definition tame :: "deferred \<Rightarrow> bool" where
  "tame a \<longleftrightarrow> (case a of DOpened _ ts _ _ _ \<Rightarrow> list_all (\<lambda>t. \<not> wiki_topic t) ts | _ \<Rightarrow> True)"

lemma calm_subscribe_list:
  "hub_ok h \<Longrightarrow> ws_data h k \<noteq> None \<Longrightarrow> list_all (\<lambda>t. \<not> wiki_topic t) ts \<Longrightarrow>
     calm h (fold (local_subscribe k) ts h)
     \<and> (\<forall>k'. ws_data (fold (local_subscribe k) ts h) k' = None \<longleftrightarrow> ws_data h k' = None)"
proof (induction ts arbitrary: h)
  case (Cons t ts)
  have c: "calm h (local_subscribe k t h)" using Cons.prems by (intro calm_subscribe) auto
  have o: "ws_data (local_subscribe k t h) k \<noteq> None" using Cons.prems by simp
  have "calm (local_subscribe k t h) (fold (local_subscribe k) ts (local_subscribe k t h))
     \<and> (\<forall>k'. ws_data (fold (local_subscribe k) ts (local_subscribe k t h)) k' = None
            \<longleftrightarrow> ws_data (local_subscribe k t h) k' = None)"
    using Cons.IH [OF calm_ok [OF c] o] Cons.prems by simp
  then show ?case using calm_trans [OF c] by (auto split: if_splits)
qed (simp add: calm_refl)

lemma calm_opened:
  assumes "hub_ok h" and "list_all (\<lambda>t. \<not> wiki_topic t) ts"
  shows "calm h (fold (\<lambda>s h. send s f2 (send s f1 (fold (local_subscribe s) ts h))) (user_socks h u) h)"
proof -
  let ?g = "\<lambda>s h. send s f2 (send s f1 (fold (local_subscribe s) ts h))"
  have "calm h (fold ?g xs h') \<and> (\<forall>k'. ws_data (fold ?g xs h') k' = None \<longleftrightarrow> ws_data h k' = None)"
    if "set xs \<subseteq> set (user_socks h u)" "calm h h'" "\<forall>k'. ws_data h' k' = None \<longleftrightarrow> ws_data h k' = None" for xs h'
    using that
  proof (induction xs arbitrary: h')
    case (Cons x xs)
    have "ws_data h' x \<noteq> None" using Cons.prems user_sock_open [OF assms(1)] by auto
    then have s: "calm h' (fold (local_subscribe x) ts h')"
      "\<forall>k'. ws_data (fold (local_subscribe x) ts h') k' = None \<longleftrightarrow> ws_data h' k' = None"
      using calm_subscribe_list [OF calm_ok [OF Cons.prems(2)]] assms(2) by blast+
    have "calm h (?g x h')"
      using calm_trans [OF Cons.prems(2)] calm_trans [OF s(1)] calm_trans [OF calm_send calm_send] calm_ok [OF s(1)]
      by (metis calm_ok calm_send)
    moreover have "\<forall>k'. ws_data (?g x h') k' = None \<longleftrightarrow> ws_data h k' = None"
      using s(2) Cons.prems(3) by simp
    ultimately show ?case using Cons by simp
  qed simp
  then show ?thesis using calm_refl [OF assms(1)] by blast
qed

lemma calm_send_to_users: "hub_ok h \<Longrightarrow> calm h (fold (\<lambda>(u, f). send_to_user u f) ns h)"
proof (rule calm_fold)
  fix x h' assume "calm h h'"
  then have "hub_ok h'" by (rule calm_ok)
  then show "calm h' ((\<lambda>(u, f). send_to_user u f) x h')"
    by (cases x) (simp add: send_to_user_def calm_broadcast)
qed

lemma calm_deferred:
  assumes "hub_ok h" and "tame a" and "\<And>u p. a \<noteq> DWikiJoin u p True"
  shows "calm h (run_deferred a h)"
proof (cases a)
  case (DOpened u ts c n on)
  then show ?thesis
    using assms(2) calm_refl [OF assms(1)] calm_opened [OF assms(1), of ts n c u]
      calm_trans [OF _ calm_broadcast] calm_ok
    by (auto simp: run_deferred_def tame_def)
next
  case (DSendResult ns c f)
  then show ?thesis
    using calm_trans [OF calm_send_to_users [OF assms(1)] calm_broadcast] calm_ok [OF calm_send_to_users [OF assms(1)]]
    by (auto simp: run_deferred_def)
next
  case (DWikiJoin u p al)
  then show ?thesis using assms by (auto simp: run_deferred_def send_to_user_def intro: calm_broadcast)
qed (use assms(1) in \<open>auto simp: run_deferred_def send_to_user_def Let_def
    intro: calm_broadcast calm_then_publish calm_fan_out_except\<close>)

section \<open>The invariant\<close>

definition page_ok :: "(string \<times> string) list \<Rightarrow> hub \<Rightarrow> bool" where
  "page_ok g h \<longleftrightarrow> (\<forall>k page. ''wiki:'' @ page \<in> set (topics_of h k) \<longrightarrow>
     (\<exists>u. map_option wd_user_id (ws_data h k) = Some u \<and> (u, page) \<in> set g))"

definition deferred_ok :: "(string \<times> string) list \<Rightarrow> deferred \<Rightarrow> bool" where
  "deferred_ok g a \<longleftrightarrow> tame a \<and> (\<forall>u p. a = DWikiJoin u p True \<longrightarrow> (u, p) \<in> set g)"

definition server_ok :: "server \<Rightarrow> bool" where
  "server_ok s \<longleftrightarrow> hub_ok (sv_hub s) \<and> page_ok (granted s) (sv_hub s)
     \<and> list_all (deferred_ok (granted s)) (sv_deferred s)"

lemma is_wiki_topic: "wiki_topic (''wiki:'' @ page)"
  by (simp add: wiki_topic_def starts_with_def)

lemma calm_pages: "calm h h' \<Longrightarrow> page_ok g h \<Longrightarrow> page_ok g h'"
  unfolding calm_def page_ok_def using is_wiki_topic by metis

lemma page_ok_mono: "set g \<subseteq> set g' \<Longrightarrow> page_ok g h \<Longrightarrow> page_ok g' h"
  unfolding page_ok_def by blast

lemma topics_fold_subscribe:
  "\<forall>x \<in> set xs. ws_data h x \<noteq> None \<Longrightarrow>
     set (topics_of (fold (\<lambda>s. local_subscribe s t) xs h) k) =
       set (topics_of h k) \<union> (if k \<in> set xs then {t} else {})"
proof (induction xs arbitrary: h)
  case (Cons x xs)
  have step: "set (topics_of (local_subscribe x t h) k') =
      set (topics_of h k') \<union> (if k' = x then {t} else {})" for k'
    using Cons.prems by (auto simp: topics_of_def split: option.splits)
  have "\<forall>y \<in> set xs. ws_data (local_subscribe x t h) y \<noteq> None" using Cons.prems by simp
  from Cons.IH [OF this] show ?case by (auto simp: step)
qed simp

lemma granted_join_pages:
  assumes "hub_ok h" and "page_ok g h" and "(u, p) \<in> set g"
  shows "page_ok g (local_subscribe_user u (''wiki:'' @ p) h)"
  unfolding page_ok_def
proof (intro allI impI)
  let ?h = "local_subscribe_user u (''wiki:'' @ p) h"
  have same: "same_sockets h ?h"
    unfolding local_subscribe_user_def using assms(1)
    by (intro conjunct2 [OF fold_hub_ok])
      (blast intro: hub_ok_subscribe same_sockets_subscribe dest: user_sock_still_open)+
  have open_socks: "\<forall>x \<in> set (user_socks h u). ws_data h x \<noteq> None"
    using user_sock_open [OF assms(1)] by blast
  fix k page assume "''wiki:'' @ page \<in> set (topics_of ?h k)"
  then have "''wiki:'' @ page \<in> set (topics_of h k) \<or> (k \<in> set (user_socks h u) \<and> page = p)"
    unfolding local_subscribe_user_def topics_fold_subscribe [OF open_socks] by (auto split: if_splits)
  then show "\<exists>u. map_option wd_user_id (ws_data ?h k) = Some u \<and> (u, page) \<in> set g"
  proof
    assume "''wiki:'' @ page \<in> set (topics_of h k)"
    then show ?thesis using assms(2) same unfolding page_ok_def same_sockets_def by simp
  next
    assume "k \<in> set (user_socks h u) \<and> page = p"
    then show ?thesis using hub_okD(4) [OF assms(1), of k u] same assms(3)
      unfolding same_sockets_def by auto
  qed
qed

definition plain :: "deferred \<Rightarrow> bool" where
  "plain a \<longleftrightarrow> (case a of DOpened _ _ _ _ _ \<Rightarrow> False | DWikiJoin _ _ _ \<Rightarrow> False | _ \<Rightarrow> True)"

lemma plain_tame: "plain a \<Longrightarrow> tame a \<and> a \<noteq> DWikiJoin u p b"
  by (cases a) (simp_all add: plain_def tame_def)

lemma plain_simps [simp]:
  "plain (DSendToUser u f)" "plain (DBroadcast t f)" "plain (DSendResult ns c f)"
  "plain (DReadReceipt u c f)"
  by (simp_all add: plain_def)

lemma plain_tasks:
  "task_offline d now u = (d', rm, Some a) \<Longrightarrow> plain a"
  "task_edit pg d now u m x = (d', rm, Some a) \<Longrightarrow> plain a"
  "task_mark_read d u n c m ts = (d', rm, Some a) \<Longrightarrow> plain a"
  "task_add_reaction d now u n m e = (d', rm, Some a) \<Longrightarrow> plain a"
  "task_remove_reaction d u n m e = (d', rm, Some a) \<Longrightarrow> plain a"
  by (auto simp: task_offline_def task_edit_def task_mark_read_def task_add_reaction_def
      task_remove_reaction_def Let_def split: sum.splits prod.splits)

lemma plain_after_delete: "after_delete v d = (d', rm, Some a) \<Longrightarrow> plain a"
  by (auto simp: after_delete_def plain_def)

lemma plain_delete: "task_delete pg d u r m = (d', rm, Some a) \<Longrightarrow> plain a"
  unfolding task_delete_def Let_def
  by (auto dest: plain_after_delete split: option.splits if_splits sum.splits)

lemma plain_announce: "announce_message pg ids now u n c x rep ch msg d = (d', rm, Some a) \<Longrightarrow> plain a"
  unfolding announce_message_def Let_def
  by (auto split: sum.splits prod.splits option.splits)

lemma plain_send: "task_send pg d ids now u n c x rep = (d', rm, Some a) \<Longrightarrow> plain a"
  unfolding task_send_def Let_def
  by (auto dest: plain_announce split: if_splits sum.splits)

lemma task_deferred_ok:
  assumes "run_task pg ids now tk d = (d', rm, Some a)"
  shows "tame a" and "a = DWikiJoin u p True \<Longrightarrow> can_access_wiki_page d p u"
proof -
  have key: "plain a \<Longrightarrow> tame a \<and> (a = DWikiJoin u p True \<longrightarrow> can_access_wiki_page d p u)"
    using plain_tame by blast
  have "tame a \<and> (a = DWikiJoin u p True \<longrightarrow> can_access_wiki_page d p u)"
  proof (cases tk)
    case (TaskOpen u' n)
    then show ?thesis using assms
      by (auto simp: run_task_def task_open_def Let_def tame_def list_all_iff not_wiki [simplified])
  next
    case (TaskWikiJoin u' p')
    then show ?thesis using assms by (auto simp: run_task_def task_wiki_join_def tame_def)
  qed (rule key, use assms in \<open>simp add: run_task_def plain_tasks plain_delete plain_send\<close>)+
  then show "tame a" and "a = DWikiJoin u p True \<Longrightarrow> can_access_wiki_page d p u" by auto
qed

lemma deferred_ok_mono: "set g \<subseteq> set g' \<Longrightarrow> deferred_ok g a \<Longrightarrow> deferred_ok g' a"
  unfolding deferred_ok_def by blast

lemma server_calm:
  "server_ok s \<Longrightarrow> calm (sv_hub s) h' \<Longrightarrow> server_ok (s\<lparr>sv_hub := h'\<rparr>)"
  using calm_ok calm_pages by (auto simp: server_ok_def)

lemma server_hub_ok: "server_ok s \<Longrightarrow> hub_ok (sv_hub s)"
  by (simp add: server_ok_def)

lemma ws_upgrade_topics: "ws_upgrade allowed req mtime d now = Inr ud \<Longrightarrow> wd_topics ud = []"
  unfolding ws_upgrade_def Let_def
  by (clarsimp split: if_split_asm option.split_asm)

lemma server_step_ok: "server_step s s' \<Longrightarrow> server_ok s \<Longrightarrow> server_ok s'"
proof (induction rule: server_step.induct)
  case (connect allowed req mtime s now ud k)
  show ?case
    by (rule server_calm [OF connect.prems calm_open [OF server_hub_ok [OF connect.prems]
          connect.hyps(2) ws_upgrade_topics [OF connect.hyps(1)]]])
next
  case (disconnect s k)
  show ?case by (rule server_calm [OF disconnect.prems calm_close [OF server_hub_ok [OF disconnect.prems]]])
next
  case (message s mtime k m)
  show ?case by (rule server_calm [OF message.prems calm_message [OF server_hub_ok [OF message.prems]]])
next
  case (task tk s pg ids now d' removed a)
  let ?g = "case a of Some (DWikiJoin u p True) \<Rightarrow> (u, p) # granted s | _ \<Rightarrow> granted s"
  have sub: "set (granted s) \<subseteq> set ?g" by (auto split: option.splits deferred.splits bool.splits)
  have h: "hub_ok ((sv_hub s)\<lparr>h_submitted := x\<rparr>)" "page_ok g ((sv_hub s)\<lparr>h_submitted := x\<rparr>) = page_ok g (sv_hub s)" for x g
    using task.prems by (auto simp: server_ok_def hub_ok_def page_ok_def subscribers_def user_socks_def
        topics_of_def ws_data_def)
  have new: "deferred_ok ?g x" if "a = Some x" for x
    using task_deferred_ok(1) [of pg ids now tk "sv_db s" d' removed x] task.hyps(2) that
    by (auto simp: deferred_ok_def)
  have "page_ok ?g (sv_hub s)" using task.prems page_ok_mono [OF sub] by (simp add: server_ok_def)
  moreover have "list_all (deferred_ok ?g) (sv_deferred s)"
    using task.prems deferred_ok_mono [OF sub] by (auto simp: server_ok_def list_all_iff)
  ultimately show ?case using h new by (auto simp: server_ok_def split: option.splits)
next
  case (deferred s a rest)
  have ok: "hub_ok (sv_hub s)" "page_ok (granted s) (sv_hub s)" "deferred_ok (granted s) a"
    and rest: "list_all (deferred_ok (granted s)) rest"
    using deferred by (auto simp: server_ok_def)
  have "hub_ok (run_deferred a (sv_hub s)) \<and> page_ok (granted s) (run_deferred a (sv_hub s))"
  proof (cases "\<exists>u p. a = DWikiJoin u p True")
    case True
    then show ?thesis using ok granted_join_pages hub_ok_subscribe_user
      by (auto simp: run_deferred_def deferred_ok_def)
  next
    case False
    then have "calm (sv_hub s) (run_deferred a (sv_hub s))"
      using calm_deferred [OF ok(1)] ok(3) by (auto simp: deferred_ok_def)
    then show ?thesis using calm_ok calm_pages ok(2) by blast
  qed
  then show ?case using rest by (simp add: server_ok_def)
next
  case (outside s h')
  show ?case
    by (rule server_calm [OF outside.prems calm_outside [OF outside.hyps server_hub_ok [OF outside.prems]]])
next
  case (tables s d')
  then show ?case by (simp add: server_ok_def)
qed

lemma server_reachable_ok: "server_reachable s \<Longrightarrow> server_ok s"
proof (induction rule: server_reachable.induct)
  case (boot d redis)
  then show ?case
    by (simp add: server_ok_def hub_ok_empty page_ok_def topics_of_def ws_data_def empty_hub_def
        hub_ok_empty [unfolded empty_hub_def])
qed (rule server_step_ok)

section \<open>Properties\<close>

text \<open>C1: In every state an instance can reach, under any interleaving of callbacks, pool tasks, deferred
  closures, HTTP handlers and remote commands, every socket in any topic's set is open and is listed
  by exactly the topics in its own reverse index, so no broadcast touches a closed socket.\<close>

theorem server_hub_consistent:
  assumes "server_reachable s"
  shows "k \<in> set (subscribers (sv_hub s) t) \<longleftrightarrow>
    (\<exists>d. ws_data (sv_hub s) k = Some d \<and> t \<in> set (wd_topics d))"
proof -
  have "hub_ok (sv_hub s)" using server_reachable_ok [OF assms] by (simp add: server_ok_def)
  from hub_okD(3) [OF this, of k t] show ?thesis
    by (cases "ws_data (sv_hub s) k") (auto simp: topics_of_def)
qed

text \<open>C3: Wiki edits are relayed only among users who were allowed the page: whenever a socket is in the
  topic of a wiki page, a \<open>wiki_join\<close> task had checked, with success, that its user may access that
  page; and only such a task can grant one.\<close>

theorem wiki_topics_granted:
  assumes "server_reachable s"
  shows "(k \<in> set (subscribers (sv_hub s) (''wiki:'' @ page)) \<longrightarrow>
      (\<exists>d. ws_data (sv_hub s) k = Some d \<and> (wd_user_id d, page) \<in> set (granted s)))
    \<and> (\<forall>s' u p. server_step s s' \<and> (u, p) \<in> set (granted s') - set (granted s) \<longrightarrow>
         can_access_wiki_page (sv_db s) p u)"
proof (intro conjI impI allI)
  have ok: "hub_ok (sv_hub s)" "page_ok (granted s) (sv_hub s)"
    using server_reachable_ok [OF assms] by (simp_all add: server_ok_def)
  assume "k \<in> set (subscribers (sv_hub s) (''wiki:'' @ page))"
  then have "''wiki:'' @ page \<in> set (topics_of (sv_hub s) k)" using hub_okD(3) [OF ok(1)] by simp
  then show "\<exists>d. ws_data (sv_hub s) k = Some d \<and> (wd_user_id d, page) \<in> set (granted s)"
    using ok(2) unfolding page_ok_def by auto
next
  fix s' u p assume s: "server_step s s' \<and> (u, p) \<in> set (granted s') - set (granted s)"
  then have "server_step s s'" by simp
  then show "can_access_wiki_page (sv_db s) p u"
  proof (cases rule: server_step.cases)
    case (task tk pg ids now d' removed a)
    then have "a = Some (DWikiJoin u p True)"
      using s by (auto split: option.splits deferred.splits bool.splits)
    then show ?thesis using task_deferred_ok(2) task by blast
  qed (use s in auto)
qed

section \<open>Witnesses\<close>

definition example_request :: http_request where
  "example_request = \<lparr>req_method = ''get'', req_header = (\<lambda>n. if n = ''cookie'' then ''session=t1'' else '''')\<rparr>"

definition example_boot :: server where
  "example_boot = \<lparr>sv_db = example_db, sv_hub = empty_hub False, sv_deferred = [], granted = []\<rparr>"

definition example_data :: ws_user_data where
  "example_data = \<lparr>wd_user_id = ''u1'', wd_username = ''name-u1'', wd_role = ''owner'',
     wd_rl_tokens = rate_limit_burst, wd_rl_last_refill = 0, wd_topics = []\<rparr>"

lemma example_upgrade: "ws_upgrade [] example_request 0 example_db 5 = Inr example_data"
  by code_simp

text \<open>The owner connects: the handshake is accepted and socket 1 is open.\<close>

lemma example_server: "server_reachable (example_boot\<lparr>sv_hub := ws_open 1 example_data (empty_hub False)\<rparr>)"
proof -
  have "server_reachable example_boot" unfolding example_boot_def by (rule server_reachable.boot)
  moreover have "server_step example_boot (example_boot\<lparr>sv_hub := ws_open 1 example_data (sv_hub example_boot)\<rparr>)"
    by (rule server_step.connect [of "[]" example_request 0 _ 5])
      (simp_all add: example_upgrade example_boot_def empty_hub_def ws_data_def)
  ultimately show ?thesis by (metis server_reachable.step example_boot_def server.select_convs(2))
qed

lemma server_hub_consistent_witness:
  "1 \<in> set (subscribers (ws_open 1 example_data (empty_hub False)) ''presence'') \<longleftrightarrow>
    (\<exists>d. ws_data (ws_open 1 example_data (empty_hub False)) 1 = Some d \<and> ''presence'' \<in> set (wd_topics d))"
  using server_hub_consistent [OF example_server, of 1 "''presence''"] by simp

lemma wiki_topics_granted_witness:
  "1 \<notin> set (subscribers (ws_open 1 example_data (empty_hub False)) (''wiki:'' @ ''p''))"
  using wiki_topics_granted [OF example_server, of 1 "''p''"] by (simp add: example_boot_def)

end
