(* ===== verification/Cluster.thy ===== *)
theory Cluster
  imports Ws_Hub Json
begin

text \<open>
  Several instances behind one Redis channel: the envelope (\<open>redis/redis_envelope.h\<close> and \<open>.cpp\<close>),
  the publisher, and what the subscriber thread does with a message it receives. The theorems use
  the documented behaviour of Redis \<open>PUBLISH\<close>: every subscribed instance, the publisher included,
  receives each message once.
\<close>

section \<open>Envelopes\<close>

record 'p envelope =
  env_instance_id :: string
  env_topic :: string
  env_payload :: 'p

definition envelope_json :: "string envelope \<Rightarrow> json" where
  "envelope_json e = JObject [(''instance_id'', JString (env_instance_id e)),
     (''topic'', JString (env_topic e)), (''payload'', JString (env_payload e))]"

text \<open>\<open>dump\<close> and \<open>parse\<close> are the JSON library's.\<close>

definition encode :: "(json \<Rightarrow> string) \<Rightarrow> string envelope \<Rightarrow> string" where
  "encode dump e = dump (envelope_json e)"

definition decode :: "(string \<Rightarrow> json option) \<Rightarrow> string \<Rightarrow> string envelope option" where
  "decode parse raw =
     (case parse raw of
        None \<Rightarrow> None
      | Some j \<Rightarrow>
          if \<not> is_json_object j then None
          else case json_string_field j ''instance_id'' of None \<Rightarrow> None | Some i \<Rightarrow>
            (case json_string_field j ''topic'' of None \<Rightarrow> None | Some t \<Rightarrow>
              (case json_string_field j ''payload'' of None \<Rightarrow> None | Some p \<Rightarrow>
                Some \<lparr>env_instance_id = i, env_topic = t, env_payload = p\<rparr>)))"

definition topic_kind_from :: "string \<Rightarrow> string" where
  "topic_kind_from topic = takeWhile (\<lambda>c. c \<noteq> CHR '':'') topic"

definition is_self_echo :: "'p envelope \<Rightarrow> string \<Rightarrow> bool" where
  "is_self_echo e our_instance_id \<longleftrightarrow> env_instance_id e = our_instance_id"

section \<open>Publishing\<close>

text \<open>
  One \<open>publish\<close>: \<open>have_ctx\<close> is whether a usable connection exists, \<open>connect_ok\<close> whether a new one
  could be made, \<open>command_ok\<close> whether the \<open>PUBLISH\<close> was answered. The result is the return value,
  what reached Redis, and whether the connection is kept.
\<close>

definition redis_publish ::
  "bool \<Rightarrow> string \<Rightarrow> bool \<Rightarrow> bool \<Rightarrow> bool \<Rightarrow> string \<Rightarrow> 'p \<Rightarrow> bool \<times> 'p envelope option \<times> bool" where
  "redis_publish enabled instance_id have_ctx connect_ok command_ok topic payload =
     (if \<not> enabled then (False, None, have_ctx)
      else let e = \<lparr>env_instance_id = instance_id, env_topic = topic, env_payload = payload\<rparr> in
        if \<not> (have_ctx \<or> connect_ok) then (False, None, False)
        else if \<not> command_ok then (False, None, False)
        else (True, Some e, True))"

text \<open>
  \<open>incr_fixed_window\<close>: the reply of \<open>INCR\<close> is \<open>None\<close> when the read failed, \<open>Some None\<close> when it
  is no integer.
\<close>

definition incr_fixed_window :: "bool \<Rightarrow> bool \<Rightarrow> int option option \<Rightarrow> int option" where
  "incr_fixed_window enabled reachable reply =
     (if \<not> enabled then None else if \<not> reachable then None
      else case reply of None \<Rightarrow> None | Some None \<Rightarrow> None | Some (Some n) \<Rightarrow> Some n)"

section \<open>Receiving\<close>

text \<open>The body of the subscriber's read loop for one decoded envelope, dispatched on the event loop.\<close>

definition subscriber_receive :: "string \<Rightarrow> frame envelope \<Rightarrow> hub \<Rightarrow> hub" where
  "subscriber_receive our_id e h =
     (if is_self_echo e our_id then h else on_redis_message (env_topic e) (env_payload e) h)"

text \<open>The waiting times of the reconnect loop, in seconds; the index stops at the last one.\<close>

definition backoff_schedule :: "int list" where
  "backoff_schedule = [1, 2, 4, 8, 30]"

definition backoff_advance :: "nat \<Rightarrow> nat" where
  "backoff_advance i = (if i + 1 < length backoff_schedule then i + 1 else i)"

section \<open>Instances\<close>

type_synonym cluster = "(string \<times> hub) list"

definition deliver :: "frame envelope \<Rightarrow> cluster \<Rightarrow> cluster" where
  "deliver e c = map (\<lambda>(i, h). (i, subscriber_receive i e h)) c"

text \<open>
  One operation of instance \<open>i\<close>, whose new publications reach every instance in order.
\<close>

definition cluster_do :: "string \<Rightarrow> (hub \<Rightarrow> hub) \<Rightarrow> cluster \<Rightarrow> cluster" where
  "cluster_do i f c =
     (case map_of c i of
        None \<Rightarrow> c
      | Some h \<Rightarrow>
          fold (\<lambda>(t, p). deliver \<lparr>env_instance_id = i, env_topic = t, env_payload = p\<rparr>)
            (drop (length (h_published h)) (h_published (f h)))
            (map (\<lambda>(j, h). (j, if j = i then f h else h)) c))"

section \<open>Lemmas\<close>

lemma published_fan_out [simp]: "h_published (local_fan_out t p h) = h_published h"
  "h_redis (local_fan_out t p h) = h_redis h"
  by (simp_all add: fan_out_eq)

lemma cluster_do_one:
  assumes "map_of c i = Some h" and "h_published (f h) = h_published h @ [(t, p)]"
  shows "cluster_do i f c =
    map (\<lambda>(j, h). (j, if j = i then f h else on_redis_message t p h)) c"
  using assms
  by (auto simp: cluster_do_def deliver_def subscriber_receive_def is_self_echo_def)

lemma broadcast_published:
  "h_redis h \<Longrightarrow> h_published (broadcast_to_topic t p h) = h_published h @ [(t, p)]"
  by (simp add: broadcast_to_topic_def publish_def)

lemma subscribers_sent [simp]: "subscribers (h\<lparr>h_sent := x\<rparr>) t = subscribers h t"
  by (simp add: subscribers_def)

section \<open>Properties\<close>

text \<open>An envelope survives the wire: decoding what was encoded gives the same instance, topic and
  payload, given that the JSON library parses back what it printed.\<close>

theorem envelope_roundtrip:
  assumes "parse (dump (envelope_json e)) = Some (envelope_json e)"
  shows "decode parse (encode dump e) = Some e"
  using assms by (simp add: decode_def encode_def envelope_json_def)

lemma envelope_roundtrip_witness:
  "let e = \<lparr>env_instance_id = ''i1'', env_topic = ''channel:7'', env_payload = ''{}''\<rparr>
   in decode (\<lambda>_. Some (envelope_json e)) (encode (\<lambda>_. ''text'') e) = Some e"
  unfolding Let_def by (rule envelope_roundtrip) simp

text \<open>C4: A broadcast reaches every subscriber of the topic on every instance exactly once: each
  instance, the sending one too, sends the payload once to each of its own subscribers of the topic
  and to nobody else.\<close>

theorem cluster_broadcast_once:
  assumes "map_of c i = Some h0" and "h_redis h0" and "t \<noteq> ''ctrl''"
    and "(j, h) \<in> set c" and "distinct (map fst c)" and "hub_reachable h"
  shows "\<exists>h' ss. map_of (cluster_do i (broadcast_to_topic t p) c) j = Some h'
    \<and> h_sent h' = h_sent h @ map (\<lambda>s. (s, p)) ss \<and> distinct ss \<and> set ss = {s. t \<in> set (topics_of h s)}"
proof -
  let ?g = "\<lambda>j h. if j = i then broadcast_to_topic t p h else on_redis_message t p h"
  have c: "cluster_do i (broadcast_to_topic t p) c = map (\<lambda>(j, h). (j, ?g j h)) c"
    using assms(2) by (intro cluster_do_one [OF assms(1)]) (simp add: broadcast_published)
  have "map_of c j = Some h" using assms(4,5) by simp
  then have m: "map_of (map (\<lambda>(j, h). (j, ?g j h)) c) j = Some (?g j h)"
    by (induction c) auto
  have s: "h_sent (?g j h) = h_sent h @ map (\<lambda>s. (s, p)) (subscribers h t)"
    using assms(3) by (simp add: on_redis_message_def fan_out_eq broadcast_to_topic_def)
  note ok = reachable_ok [OF assms(6)]
  have "distinct (subscribers h t)"
    unfolding subscribers_def using hub_okD(2) [OF ok] by (rule index_ok_distinct)
  moreover have "set (subscribers h t) = {s. t \<in> set (topics_of h s)}" using hub_okD(3) [OF ok] by blast
  ultimately show ?thesis using c m s by auto
qed

lemma cluster_broadcast_once_witness:
  "\<exists>h' ss. map_of (cluster_do ''a'' (broadcast_to_topic ''presence'' FPong)
        [(''a'', empty_hub True), (''b'', example_hub)]) ''b'' = Some h'
    \<and> h_sent h' = h_sent example_hub @ map (\<lambda>s. (s, FPong)) ss \<and> distinct ss
    \<and> set ss = {s. ''presence'' \<in> set (topics_of example_hub s)}"
  by (rule cluster_broadcast_once [where ?h0.0 = "empty_hub True"])
    (simp_all add: empty_hub_def example_reachable)



end
