(* ===== verification/Spec2Isabelle.thy ===== *)
theory Spec2Isabelle
  imports Auth_Props Upload_Props Recurrence_Props Room_Props Wiki_Props Task_Props Calendar_Props Server Cluster
begin

text \<open>
  A verification development for the Enclave Station backend (\<open>src/backend/src\<close>), a C++ server for
  chat, files and accounts over HTTP and WebSockets, with PostgreSQL for the data, Redis between
  instances and a local directory or S3 for blobs.

  \<^bold>\<open>How the program is put together.\<close> uWebSockets runs one event loop. HTTP handlers
  (\<open>handlers/*.cpp\<close>) and the socket handler (\<open>ws/ws_handler.cpp\<close>) read a request on the loop, check
  it, and hand database work to a thread pool; what touches sockets again is deferred to the loop.
  \<open>db/database.cpp\<close> holds one method per transaction. Broadcasts go to the sockets of the instance and
  through Redis to the others.

  \<^bold>\<open>How it is modelled.\<close> The database is a record of tables (Database); a method of \<open>Database\<close>
  is a function on it, of the method's name, that returns the new tables and, where a constraint can
  fail, a sum with the error. Ids, tokens, times, hashes, collations and what system calls return are
  arguments, since the code draws them from outside. A handler is a function from the request and the
  state to the reply and the new state, with the checks in the order of the code; an exception that a
  \<open>catch\<close> turns into an answer is the answer, one that nothing catches is None. Interleavings (sockets,
  pool tasks, deferred closures, instances, requests) are inductive step relations. 32 and 64 bit
  integers wrap or are range-checked where the code can get there; loops that may not end are
  \<open>partial_function (option)\<close>, with None for not returning, and the theorems show when they return.

  \<^bold>\<open>Theories and sources.\<close>

    \<^item> Prelude, Json: characters, integer parsers and printers of the standard library, JSON values.
    \<^item> Http\_Utils, Guards: \<open>handlers/handler_utils\<close>: query and cookie parsers, body cap, CSRF and
      session guards. Shown: the CSRF guard and the body cap are exact, bans lock out.
    \<^item> Encoding, Totp: base32 and base64url (round trips), one-time codes (\<open>auth/totp.cpp\<close>).
    \<^item> Database, Access, Auth\_Db, Listings, Messages: the methods of \<open>db/database.cpp\<close> on users and
      sessions, spaces and channels with their roles, credentials, listings, messages.
    \<^item> Passwords, Replies, Auth\_Handler, Auth\_Props: \<open>handlers/auth_handler.cpp\<close> and the account part of
      \<open>handlers/user_handler.cpp\<close>: password login, second factor, recovery, registration. Shown: each
      endpoint's exact effect, single use of keys, tokens and codes, and two ways past a second factor.
    \<^item> Uploads, Upload\_Props: \<open>upload_manager.cpp\<close>, \<open>storage/local_fs_backend.cpp\<close>. Shown: chunked
      uploading refines writing the file at once.
    \<^item> Civil\_Time, Recurrence, Recurrence\_Props: \<open>recurrence.cpp\<close>. Shown: expansion ends and equals a
      specification on lists. The loops take no fuel; intervals up to 2147475000 keep \<open>tm_year\<close> in
      range, which is why they end.
    \<^item> Space\_Files, File\_Access, Space\_File\_Handler, Space\_Tree, Space\_File\_Props: the files of a space,
      \<open>handlers/space_file_handler.cpp\<close>. Shown: folders stay a forest, so the recursive queries end;
      outsiders are refused everywhere; deleting is exact; and the ways around the permissions.
    \<^item> Rate\_Limit, Net\_Config: \<open>rate_limit.h\<close> with doubles rounded to 53 bits, Redis URL and origins.
    \<^item> Ws\_Hub, Ws\_Handler, Ws\_Props, Server, Cluster: \<open>ws/ws_handler.cpp\<close> and \<open>redis/*\<close>: socket
      indexes, message dispatch, pool tasks, broadcasts. Shown: the hub's indexes stay consistent under
      every interleaving; who receives what; delivery and disconnection across instances.

  The interfaces between components are locales, interpreted in the theory of the component that
  provides the operations.

  \<^bold>\<open>Not modelled.\<close> The passkey and browser-key endpoints and WebAuthn (signatures and CBOR are
  libraries), the language-model client and its tools, S3 with its request signing, search and its query
  plans, the connection and thread pools, metrics, logging and start-up: input and output or third-party
  calls. Handlers of task boards, wiki, calendar and the administration are not modelled yet.
\<close>

end
